(* ===== verification/Prelude.thy ===== *)
theory Prelude
  imports Main "HOL-Library.Word" "HOL-Library.List_Lexorder"
begin

text \<open>
  Shared vocabulary of the development: bytes and byte strings, fixed width integers, C++ exceptions
  as values, the result type with its bind, the signed reading of a C++ \<^verbatim>\<open>char\<close>, and the generic
  list lemmas that the components use.
\<close>

section \<open>Collections of facts\<close>

named_theorems result_simps "equations of the result type"
named_theorems cache_defs "operations of the coherent state cache"
named_theorems http_defs "character classes of the HTTP request parser"
named_theorems stream_defs "operations of the JSON stream"

section \<open>Types\<close>

type_synonym byte = "8 word"
type_synonym bytes = "byte list"
type_synonym u32 = "32 word"
type_synonym u64 = "64 word"
type_synonym u256 = "256 word"

text \<open>
  A C++ exception that leaves a function, or undefined behaviour that the function reaches, is a value
  of this type. \<open>Use_after_free\<close> stands for a dereference of a pointer to an erased object; \<open>System_error\<close> is an
  error code of the system or of gRPC, with its message and its description. \<open>No_return\<close> stands for a
  loop inside a function that never ends.
\<close>

datatype exn =
    Runtime_error string
  | Invalid_argument string
  | Logic_error string
  | Out_of_range string
  | Estimate_gas_exn int string bytes
  | Bad_optional_access
  | Use_after_free
  | Stack_underflow
  | Uninitialized_read
  | Out_of_bounds
  | Length_error
  | Assertion_failed
  | System_error string string
  | No_return

type_synonym 'a result = "exn + 'a"

abbreviation Ok :: "'a \<Rightarrow> 'a result" where
  "Ok \<equiv> Inr"

abbreviation Throw :: "exn \<Rightarrow> 'a result" where
  "Throw \<equiv> Inl"

definition bind_r :: "'a result \<Rightarrow> ('a \<Rightarrow> 'b result) \<Rightarrow> 'b result" where
  "bind_r m f = (case m of Inl e \<Rightarrow> Inl e | Inr x \<Rightarrow> f x)"

lemma bind_r_simps [simp, result_simps]:
  "bind_r (Ok x) f = f x"
  "bind_r (Throw e) f = Throw e"
  by (simp_all add: bind_r_def)

lemma bind_r_Ok_iff [simp]:
  "bind_r m f = Ok y \<longleftrightarrow> (\<exists>x. m = Ok x \<and> f x = Ok y)"
  by (cases m) simp_all

lemma bind_r_Throw_iff:
  "bind_r m f = Throw e \<longleftrightarrow> m = Throw e \<or> (\<exists>x. m = Ok x \<and> f x = Throw e)"
  by (cases m) simp_all

lemma bind_r_assoc: "bind_r (bind_r m f) g = bind_r m (\<lambda>x. bind_r (f x) g)"
  by (cases m) simp_all

text \<open>A loop whose body may throw: the first exception ends it.\<close>

fun fold_r :: "('a \<Rightarrow> 's \<Rightarrow> 's result) \<Rightarrow> 'a list \<Rightarrow> 's \<Rightarrow> 's result" where
  "fold_r f [] s = Ok s"
| "fold_r f (x # xs) s = bind_r (f x s) (fold_r f xs)"

lemma fold_r_append: "fold_r f (xs @ ys) s = bind_r (fold_r f xs s) (fold_r f ys)"
proof (induction xs arbitrary: s)
  case Nil
  then show ?case by simp
next
  case (Cons x xs)
  then show ?case by (cases "f x s") simp_all
qed

lemma fold_r_invariant:
  assumes "\<And>x s s'. x \<in> set xs \<Longrightarrow> I s \<Longrightarrow> f x s = Ok s' \<Longrightarrow> I s'"
    and "I s" "fold_r f xs s = Ok s'"
  shows "I s'"
  using assms
proof (induction xs arbitrary: s)
  case Nil
  then show ?case by simp
next
  case (Cons x xs)
  from Cons.prems(3) obtain s1 where "f x s = Ok s1" "fold_r f xs s1 = Ok s'"
    by auto
  with Cons.prems(1) [of x s s1] Cons.prems(2) show ?case
    by (intro Cons.IH [of s1]) (auto intro: Cons.prems(1))
qed

lemma fold_r_total:
  assumes "\<And>x s. x \<in> set xs \<Longrightarrow> I s \<Longrightarrow> \<exists>s'. f x s = Ok s' \<and> I s'"
    and "I s"
  shows "\<exists>s'. fold_r f xs s = Ok s' \<and> I s'"
  using assms
proof (induction xs arbitrary: s)
  case Nil
  then show ?case by simp
next
  case (Cons x xs)
  from Cons.prems obtain s1 where s1: "f x s = Ok s1" "I s1"
    by (metis list.set_intros(1))
  from Cons.IH [OF _ s1(2)] Cons.prems(1) obtain s2 where "fold_r f xs s1 = Ok s2" "I s2"
    by (metis list.set_intros(2))
  with s1 show ?case by auto
qed

section \<open>Characters and strings\<close>

text \<open>
  A \<^verbatim>\<open>char\<close> passed to an \<^verbatim>\<open>int\<close> parameter is sign extended on the platforms the daemon is built
  for: the bytes 128 to 255 are the negative values.
\<close>

definition c_int :: "char \<Rightarrow> int" where
  "c_int c = (let n = (of_char c :: int) in if n \<ge> 128 then n - 256 else n)"

lemma of_char_range: "0 \<le> (of_char c :: int)" "(of_char c :: int) < 256"
proof -
  have "(of_char c :: int) = int (of_char c :: nat)"
    by (metis of_nat_of_char)
  moreover have "(of_char c :: nat) < 256"
    by (rule nat_of_char_less_256)
  ultimately show "0 \<le> (of_char c :: int)" "(of_char c :: int) < 256"
    by linarith+
qed

lemma c_int_range: "- 128 \<le> c_int c \<and> c_int c \<le> 127"
  using of_char_range [of c] by (auto simp: c_int_def Let_def)

section \<open>Lists\<close>

lemma take_append_exact [simp]: "length xs = n \<Longrightarrow> take n (xs @ ys) = xs"
  by simp

lemma drop_append_exact [simp]: "length xs = n \<Longrightarrow> drop n (xs @ ys) = ys"
  by simp

lemma concat_map_Nil [simp]: "concat (map (\<lambda>_. []) xs) = []"
  by (induction xs) simp_all

lemma concat_map_concat: "concat (map f (concat (map g xs))) = concat (map (\<lambda>x. concat (map f (g x))) xs)"
  by (induction xs) simp_all

text \<open>
  A loop over a vector that calls a function until it asks to stop: \<open>walk_list w xs s\<close> threads the
  state through \<open>w\<close> and stops after the first element for which the second result is False.
\<close>

fun walk_list :: "('a \<Rightarrow> 's \<Rightarrow> 's \<times> bool) \<Rightarrow> 'a list \<Rightarrow> 's \<Rightarrow> 's" where
  "walk_list w [] s = s"
| "walk_list w (x # xs) s = (case w x s of (s', go_on) \<Rightarrow> if go_on then walk_list w xs s' else s')"

lemma walk_list_all_go_on:
  "(\<And>x s. snd (w x s)) \<Longrightarrow> walk_list w xs s = fold (\<lambda>x s. fst (w x s)) xs s"
proof (induction xs arbitrary: s)
  case Nil
  then show ?case by simp
next
  case (Cons x xs)
  obtain s' b where w: "w x s = (s', b)"
    by (cases "w x s")
  moreover have b
    using Cons.prems [of x s] w by simp
  ultimately show ?case
    using Cons.IH [OF Cons.prems, of s'] by simp
qed

section \<open>Decimal numbers\<close>

text \<open>\<^verbatim>\<open>std::to_string\<close> of an unsigned integer.\<close>

definition digit_char :: "nat \<Rightarrow> char" where
  "digit_char d = char_of (48 + d)"

fun to_string :: "nat \<Rightarrow> string" where
  "to_string n = (if n < 10 then [digit_char n] else to_string (n div 10) @ [digit_char (n mod 10)])"

declare to_string.simps [simp del]

lemma c_int_digit_char: "d < 10 \<Longrightarrow> c_int (digit_char d) = 48 + int d"
proof -
  assume "d < 10"
  then have "(of_char (digit_char d) :: nat) = 48 + d"
    by (simp add: digit_char_def)
  moreover have "(of_char (digit_char d) :: int) = int (of_char (digit_char d) :: nat)"
    by (metis of_nat_of_char)
  ultimately show ?thesis using \<open>d < 10\<close> by (simp add: c_int_def Let_def)
qed

lemma digit_char_inj: "d < 10 \<Longrightarrow> e < 10 \<Longrightarrow> digit_char d = digit_char e \<Longrightarrow> d = e"
  by (metis c_int_digit_char add_left_cancel of_nat_eq_iff)

lemma to_string_digits: "\<forall>c \<in> set (to_string n). \<exists>d < 10. c = digit_char d"
proof (induction n rule: to_string.induct)
  case (1 n)
  show ?case
  proof (cases "n < 10")
    case True
    then show ?thesis by (subst to_string.simps) auto
  next
    case False
    with 1 have "\<forall>c \<in> set (to_string (n div 10)). \<exists>d < 10. c = digit_char d" by simp
    moreover have "\<exists>d < 10. digit_char (n mod 10) = digit_char d"
      by (rule exI [of _ "n mod 10"]) simp
    ultimately show ?thesis using False by (subst to_string.simps) auto
  qed
qed

lemma to_string_nonempty [simp]: "to_string n \<noteq> []"
  by (subst to_string.simps) simp

end
