(* ===== verification/Key_Value.thy ===== *)
theory Key_Value
  imports Prelude
begin

text \<open>
  The key-value pair of \<^verbatim>\<open>common/util.hpp\<close> and the ordered containers that hold it. Ordering and
  equality of \<open>KeyValue\<close> look at the key only, so an \<^verbatim>\<open>absl::btree_set<KeyValue>\<close> behaves as a finite
  map from keys to values in which inserting an existing key changes nothing. The container is a
  list sorted by key, which also gives its iteration order; its contract is the locale \<open>kv_set\<close>, and
  the facts the cache needs are proved once from that contract.
\<close>

section \<open>KeyValue\<close>

record key_value =
  kv_key :: bytes
  kv_value :: bytes

text \<open>\<^verbatim>\<open>operator<\<close> and \<^verbatim>\<open>operator==\<close> of \<^verbatim>\<open>KeyValue\<close>.\<close>

definition kv_less :: "key_value \<Rightarrow> key_value \<Rightarrow> bool" where
  "kv_less lhs rhs \<longleftrightarrow> kv_key lhs < kv_key rhs"

definition kv_equal :: "key_value \<Rightarrow> key_value \<Rightarrow> bool" where
  "kv_equal lhs rhs \<longleftrightarrow> kv_key lhs = kv_key rhs"

definition KV :: "bytes \<Rightarrow> bytes \<Rightarrow> key_value" where
  "KV k v = \<lparr>kv_key = k, kv_value = v\<rparr>"

lemma KV_sel [simp]: "kv_key (KV k v) = k" "kv_value (KV k v) = v"
  by (simp_all add: KV_def)

lemma KV_eq_iff [simp]: "KV k v = KV k' v' \<longleftrightarrow> k = k' \<and> v = v'"
  by (simp add: KV_def)

section \<open>The ordered set of key-value pairs\<close>

type_synonym kv_btree = "key_value list"

fun bt_insert :: "key_value \<Rightarrow> kv_btree \<Rightarrow> kv_btree \<times> bool" where
  "bt_insert kv [] = ([kv], True)"
| "bt_insert kv (x # xs) =
     (if kv_less kv x then (kv # x # xs, True)
      else if kv_less x kv then (case bt_insert kv xs of (ys, b) \<Rightarrow> (x # ys, b))
      else (x # xs, False))"

definition bt_erase :: "key_value \<Rightarrow> kv_btree \<Rightarrow> kv_btree \<times> nat" where
  "bt_erase kv xs =
     (filter (\<lambda>x. \<not> kv_equal x kv) xs, length (filter (\<lambda>x. kv_equal x kv) xs))"

fun bt_find :: "key_value \<Rightarrow> kv_btree \<Rightarrow> key_value option" where
  "bt_find kv [] = None"
| "bt_find kv (x # xs) = (if kv_equal x kv then Some x else bt_find kv xs)"

definition bt_lookup :: "kv_btree \<Rightarrow> bytes \<Rightarrow> bytes option" where
  "bt_lookup xs k = map_option kv_value (bt_find (KV k []) xs)"

definition bt_inv :: "kv_btree \<Rightarrow> bool" where
  "bt_inv xs \<longleftrightarrow> sorted_wrt kv_less xs"

section \<open>The contract of the container\<close>

locale kv_set =
  fixes ins :: "key_value \<Rightarrow> 's \<Rightarrow> 's \<times> bool"
    and era :: "key_value \<Rightarrow> 's \<Rightarrow> 's \<times> nat"
    and lookup :: "'s \<Rightarrow> bytes \<Rightarrow> bytes option"
    and inv :: "'s \<Rightarrow> bool"
  assumes inv_ins: "inv s \<Longrightarrow> inv (fst (ins kv s))"
    and inv_era: "inv s \<Longrightarrow> inv (fst (era kv s))"
    and ins_flag: "inv s \<Longrightarrow> snd (ins kv s) \<longleftrightarrow> lookup s (kv_key kv) = None"
    and lookup_ins: "inv s \<Longrightarrow> lookup (fst (ins kv s)) =
      (if lookup s (kv_key kv) = None then (lookup s)(kv_key kv \<mapsto> kv_value kv) else lookup s)"
    and lookup_era: "inv s \<Longrightarrow> lookup (fst (era kv s)) = (lookup s)(kv_key kv := None)"
    and era_count: "inv s \<Longrightarrow> snd (era kv s) = (if lookup s (kv_key kv) = None then 0 else 1)"
begin

text \<open>Inserting, and on a clash erasing and inserting again, stores the new pair.\<close>

lemma replace_lookup:
  assumes "inv s" "lookup s (kv_key kv) \<noteq> None"
  shows "lookup (fst (ins kv (fst (era kv s)))) = (lookup s)(kv_key kv \<mapsto> kv_value kv)"
  using assms by (simp add: lookup_ins lookup_era inv_era)

lemma replace_flag:
  assumes "inv s"
  shows "snd (ins kv (fst (era kv s)))"
  using assms by (simp add: ins_flag lookup_era inv_era)

lemma replace_inv:
  assumes "inv s"
  shows "inv (fst (ins kv (fst (era kv s))))"
  using assms by (simp add: inv_ins inv_era)

lemma clash_unchanged:
  assumes "inv s" "lookup s (kv_key kv) \<noteq> None"
  shows "lookup (fst (ins kv s)) = lookup s"
  using assms by (auto simp: lookup_ins)

end

section \<open>The sorted list meets the contract\<close>

lemma kv_less_linear: "\<not> kv_less a b \<Longrightarrow> \<not> kv_less b a \<Longrightarrow> kv_equal a b"
  by (auto simp: kv_less_def kv_equal_def)

lemma bt_insert_set:
  "set (fst (bt_insert kv xs)) \<subseteq> insert kv (set xs)"
  by (induction xs) (auto split: prod.splits)

lemma bt_insert_inv: "bt_inv xs \<Longrightarrow> bt_inv (fst (bt_insert kv xs))"
proof (induction xs)
  case Nil
  then show ?case by (simp add: bt_inv_def)
next
  case (Cons x xs)
  then have xs: "bt_inv xs" and lt: "\<forall>y\<in>set xs. kv_less x y"
    by (auto simp: bt_inv_def)
  have "kv_less x kv \<Longrightarrow> \<forall>y\<in>set (fst (bt_insert kv xs)). kv_less x y"
    using lt bt_insert_set [of kv xs] by blast
  moreover have "kv_less kv x \<Longrightarrow> \<forall>y\<in>set xs. kv_less kv y"
    using lt by (auto simp: kv_less_def intro: less_trans)
  ultimately show ?case
    using Cons.IH [OF xs] xs lt by (auto simp: bt_inv_def split: prod.splits)
qed

lemma bt_lookup_simps [simp]:
  "bt_lookup [] k = None"
  "bt_lookup (x # xs) k = (if kv_key x = k then Some (kv_value x) else bt_lookup xs k)"
  by (simp_all add: bt_lookup_def kv_equal_def)

lemma bt_lookup_None_iff: "bt_lookup xs k = None \<longleftrightarrow> k \<notin> kv_key ` set xs"
  by (induction xs) auto

lemma bt_lookup_dom: "dom (bt_lookup xs) = kv_key ` set xs"
  using bt_lookup_None_iff [of xs] by (auto simp: dom_def)

lemma bt_lookup_below: "\<forall>y\<in>set xs. kv_less x y \<Longrightarrow> bt_lookup xs (kv_key x) = None"
  by (auto simp: bt_lookup_None_iff kv_less_def)

lemma bt_insert_lookup:
  "bt_inv xs \<Longrightarrow> snd (bt_insert kv xs) = (bt_lookup xs (kv_key kv) = None) \<and>
     bt_lookup (fst (bt_insert kv xs)) =
       (if bt_lookup xs (kv_key kv) = None then (bt_lookup xs)(kv_key kv \<mapsto> kv_value kv) else bt_lookup xs)"
proof (induction xs)
  case Nil
  then show ?case by (auto simp: fun_eq_iff)
next
  case (Cons x xs)
  then have IH: "snd (bt_insert kv xs) = (bt_lookup xs (kv_key kv) = None)"
      "bt_lookup (fst (bt_insert kv xs)) =
       (if bt_lookup xs (kv_key kv) = None then (bt_lookup xs)(kv_key kv \<mapsto> kv_value kv) else bt_lookup xs)"
    and lt: "\<forall>y\<in>set xs. kv_less x y"
    by (auto simp: bt_inv_def)
  consider "kv_less kv x" | "kv_less x kv" "\<not> kv_less kv x" | "kv_key x = kv_key kv"
    by (auto simp: kv_less_def) (meson linorder_neqE)
  then show ?case
  proof cases
    case 1
    with lt have "bt_lookup (x # xs) (kv_key kv) = None"
      by (auto simp: bt_lookup_None_iff kv_less_def)
    with 1 show ?thesis by (auto simp: fun_eq_iff)
  next
    case 2
    then have "kv_key x \<noteq> kv_key kv" by (auto simp: kv_less_def)
    with 2 IH show ?thesis by (auto simp: fun_eq_iff split: prod.splits)
  next
    case 3
    then show ?thesis by (simp add: kv_less_def)
  qed
qed

lemma bt_erase_inv: "bt_inv xs \<Longrightarrow> bt_inv (fst (bt_erase kv xs))"
  by (simp add: bt_inv_def bt_erase_def sorted_wrt_filter)

lemma bt_erase_lookup: "bt_lookup (fst (bt_erase kv xs)) = (bt_lookup xs)(kv_key kv := None)"
  by (induction xs) (auto simp: fun_eq_iff bt_erase_def kv_equal_def)

lemma bt_erase_count:
  "bt_inv xs \<Longrightarrow> snd (bt_erase kv xs) = (if bt_lookup xs (kv_key kv) = None then 0 else 1)"
proof (induction xs)
  case Nil
  then show ?case by (simp add: bt_erase_def)
next
  case (Cons x xs)
  moreover from Cons.prems have "bt_lookup xs (kv_key x) = None"
    by (auto simp: bt_inv_def intro: bt_lookup_below)
  ultimately show ?case
    by (auto simp: bt_inv_def bt_erase_def kv_equal_def)
qed

interpretation bt: kv_set bt_insert bt_erase bt_lookup bt_inv
  by unfold_locales
    (simp_all add: bt_insert_inv bt_erase_inv bt_insert_lookup bt_erase_lookup bt_erase_count)

text \<open>The pairs of a tree are the pairs its lookup returns.\<close>

lemma bt_lookup_in_set: "bt_lookup xs k = Some v \<Longrightarrow> KV k v \<in> set xs"
  by (induction xs) (auto simp: KV_def split: if_splits)

lemma bt_lookup_of_mem: "bt_inv xs \<Longrightarrow> x \<in> set xs \<Longrightarrow> bt_lookup xs (kv_key x) = Some (kv_value x)"
  by (induction xs) (auto simp: bt_inv_def kv_less_def)

lemma bt_inv_distinct: "bt_inv xs \<Longrightarrow> distinct (map kv_key xs)"
  by (induction xs) (auto simp: bt_inv_def kv_less_def)

lemma bt_find_lookup: "bt_find (KV k w) xs = None \<longleftrightarrow> bt_lookup xs k = None"
  by (induction xs) (auto simp: kv_equal_def)

lemma bt_find_Some: "bt_find (KV k w) xs = Some x \<Longrightarrow> bt_lookup xs k = Some (kv_value x) \<and> kv_key x = k"
  by (induction xs) (auto simp: kv_equal_def split: if_splits)

end
