(* ===== verification/State_Cache.thy ===== *)
theory State_Cache
  imports Key_Value "HOL-Library.AList"
begin

text \<open>
  The coherent state cache of \<^verbatim>\<open>ethdb/kv/state_cache.cpp\<close>: one root per database view, each with a
  cache of plain state and a cache of contract code, least-recently-used lists for the latest view,
  and the batches of state changes that advance the cache from one view to the next. A
  \<^verbatim>\<open>CoherentStateRoot*\<close> is the view id of the map slot that owns the root; using it after the slot was
  erased is the error \<open>Use_after_free\<close>. A failed \<^verbatim>\<open>SILKWORM_ASSERT\<close> is \<open>Assertion_failed\<close>.
\<close>

section \<open>Messages and external functions\<close>

text \<open>The part of the protocol messages that the cache reads.\<close>

datatype action = STORAGE | UPSERT | CODE | UPSERT_CODE | REMOVE | Unknown_action int

record 'h storage_change =
  location :: "'h"
  change_data :: bytes

record ('a, 'h) account_change =
  address :: "'a"
  incarnation :: u64
  act :: action
  data :: bytes
  code :: bytes
  storage_changes :: "'h storage_change list"

record ('a, 'h) state_change =
  changes :: "('a, 'h) account_change list"

record ('a, 'h) state_change_batch =
  database_view_id :: u64
  change_batch :: "('a, 'h) state_change list"

text \<open>
  Functions of other repositories that the cache calls: the conversions of protocol hashes, the hash
  function and the big-endian store. They are a parameter of every definition that uses them.
\<close>

record ('a, 'h) cache_ext =
  address_from_H160 :: "'a \<Rightarrow> bytes"
  bytes32_from_H256 :: "'h \<Rightarrow> bytes"
  keccak256 :: "bytes \<Rightarrow> bytes"
  store_big_u64 :: "u64 \<Rightarrow> bytes"

section \<open>State\<close>

record coherent_state_root =
  cache :: kv_btree
  code_cache :: kv_btree
  ready :: bool
  canonical :: bool

definition new_root :: coherent_state_root where
  "new_root = \<lparr>cache = [], code_cache = [], ready = False, canonical = False\<rparr>"

record coherent_cache_config =
  max_views :: u64
  with_storage :: bool
  max_state_keys :: u32
  max_code_keys :: u32

definition default_config :: coherent_cache_config where
  "default_config =
     \<lparr>max_views = 5, with_storage = True, max_state_keys = 1000000, max_code_keys = 10000\<rparr>"

type_synonym root_ptr = u64

record coherent_state_cache =
  config :: coherent_cache_config
  state_view_roots :: "(u64 \<times> coherent_state_root) list"
  latest_state_view_id :: u64
  latest_state_view :: "root_ptr option"
  state_evictions :: "key_value list"
  code_evictions :: "key_value list"
  state_hit_count :: u64
  state_miss_count :: u64
  state_key_count :: u64
  state_eviction_count :: u64
  code_hit_count :: u64
  code_miss_count :: u64
  code_key_count :: u64
  code_eviction_count :: u64

definition init_cache :: "coherent_cache_config \<Rightarrow> coherent_state_cache" where
  "init_cache cfg =
     \<lparr>config = cfg, state_view_roots = [], latest_state_view_id = 0, latest_state_view = None,
      state_evictions = [], code_evictions = [],
      state_hit_count = 0, state_miss_count = 0, state_key_count = 0, state_eviction_count = 0,
      code_hit_count = 0, code_miss_count = 0, code_key_count = 0, code_eviction_count = 0\<rparr>"

text \<open>The constructor.\<close>

definition make_cache :: "coherent_cache_config \<Rightarrow> coherent_state_cache result" where
  "make_cache cfg =
     (if max_views cfg = 0 then Throw (Invalid_argument ''unexpected zero max_views'')
      else Ok (init_cache cfg))"

text \<open>Dereferencing a root pointer, for reading and for writing.\<close>

definition deref :: "coherent_state_cache \<Rightarrow> root_ptr \<Rightarrow> coherent_state_root result" where
  "deref s p = (case map_of (state_view_roots s) p of None \<Rightarrow> Throw Use_after_free | Some r \<Rightarrow> Ok r)"

definition set_root :: "root_ptr \<Rightarrow> coherent_state_root \<Rightarrow> coherent_state_cache \<Rightarrow> coherent_state_cache" where
  "set_root p r s = s\<lparr>state_view_roots := AList.update p r (state_view_roots s)\<rparr>"

section \<open>Adding one pair\<close>

text \<open>
  The common body of \<^verbatim>\<open>add\<close> and \<^verbatim>\<open>add_code\<close> over one tree and one eviction list. The pointer
  \<^verbatim>\<open>replaced\<close> is read after its element was erased and the new pair was inserted at its place; what
  the code uses of it is its key, which is the key of the new pair. \<^verbatim>\<open>std::list::remove\<close> removes every
  element that is equal, and elements are compared by key.
\<close>

definition evictions_remove :: "key_value \<Rightarrow> key_value list \<Rightarrow> key_value list" where
  "evictions_remove kv es = filter (\<lambda>x. \<not> kv_equal x kv) es"

definition cache_add ::
  "nat \<Rightarrow> bool \<Rightarrow> key_value \<Rightarrow> kv_btree \<Rightarrow> key_value list \<Rightarrow> (kv_btree \<times> key_value list \<times> bool) result" where
  "cache_add max_keys is_latest kv c es =
     (let (c1, inserted1) = bt_insert kv c;
          replaced = \<not> inserted1;
          (c2, inserted) = (if replaced then bt_insert kv (fst (bt_erase kv c1)) else (c1, inserted1))
      in if replaced \<and> \<not> inserted then Throw Assertion_failed
         else if \<not> is_latest then Ok (c2, es, inserted)
         else
           let es1 = (if replaced then evictions_remove kv es else es);
               es2 = kv # es1
           in if length es2 > max_keys
              then let oldest = last es2;
                       es3 = butlast es2;
                       (c3, num_erased) = bt_erase oldest c2
                   in if num_erased = 1 then Ok (c3, es3, inserted) else Throw Assertion_failed
              else Ok (c2, es2, inserted))"

definition add ::
  "key_value \<Rightarrow> root_ptr \<Rightarrow> u64 \<Rightarrow> coherent_state_cache \<Rightarrow> (coherent_state_cache \<times> bool) result" where
  "add kv root view_id s =
     bind_r (deref s root) (\<lambda>r.
     bind_r (cache_add (unat (max_state_keys (config s))) (latest_state_view_id s = view_id) kv
               (cache r) (state_evictions s)) (\<lambda>(c, es, inserted).
     Ok ((set_root root (r\<lparr>cache := c\<rparr>) s)\<lparr>state_evictions := es\<rparr>, inserted)))"

definition add_code ::
  "key_value \<Rightarrow> root_ptr \<Rightarrow> u64 \<Rightarrow> coherent_state_cache \<Rightarrow> (coherent_state_cache \<times> bool) result" where
  "add_code kv root view_id s =
     bind_r (deref s root) (\<lambda>r.
     bind_r (cache_add (unat (max_code_keys (config s))) (latest_state_view_id s = view_id) kv
               (code_cache r) (code_evictions s)) (\<lambda>(c, es, inserted).
     Ok ((set_root root (r\<lparr>code_cache := c\<rparr>) s)\<lparr>code_evictions := es\<rparr>, inserted)))"

section \<open>Applying a batch\<close>

definition composite_storage_key :: "(u64 \<Rightarrow> bytes) \<Rightarrow> bytes \<Rightarrow> u64 \<Rightarrow> bytes \<Rightarrow> bytes" where
  "composite_storage_key store_big adr inc hash = adr @ store_big inc @ hash"

definition process_upsert_change ::
  "('a, 'h) cache_ext \<Rightarrow> root_ptr \<Rightarrow> u64 \<Rightarrow> ('a, 'h) account_change \<Rightarrow> coherent_state_cache \<Rightarrow> coherent_state_cache result" where
  "process_upsert_change ext root view_id change s =
     bind_r (add (KV (address_from_H160 ext (address change)) (data change)) root view_id s) (\<lambda>(s', _). Ok s')"

definition process_code_change ::
  "('a, 'h) cache_ext \<Rightarrow> root_ptr \<Rightarrow> u64 \<Rightarrow> ('a, 'h) account_change \<Rightarrow> coherent_state_cache \<Rightarrow> coherent_state_cache result" where
  "process_code_change ext root view_id change s =
     bind_r (add_code (KV (keccak256 ext (code change)) (code change)) root view_id s) (\<lambda>(s', _). Ok s')"

definition process_delete_change ::
  "('a, 'h) cache_ext \<Rightarrow> root_ptr \<Rightarrow> u64 \<Rightarrow> ('a, 'h) account_change \<Rightarrow> coherent_state_cache \<Rightarrow> coherent_state_cache result" where
  "process_delete_change ext root view_id change s =
     bind_r (add (KV (address_from_H160 ext (address change)) []) root view_id s) (\<lambda>(s', _). Ok s')"

definition process_storage_change ::
  "('a, 'h) cache_ext \<Rightarrow> root_ptr \<Rightarrow> u64 \<Rightarrow> ('a, 'h) account_change \<Rightarrow> coherent_state_cache \<Rightarrow> coherent_state_cache result" where
  "process_storage_change ext root view_id change s =
     fold_r (\<lambda>sc s.
       bind_r (add (KV (composite_storage_key (store_big_u64 ext) (address_from_H160 ext (address change))
                          (incarnation change) (bytes32_from_H256 ext (location sc)))
                       (change_data sc)) root view_id s) (\<lambda>(s', _). Ok s'))
       (storage_changes change) s"

definition process_change ::
  "('a, 'h) cache_ext \<Rightarrow> root_ptr \<Rightarrow> u64 \<Rightarrow> ('a, 'h) account_change \<Rightarrow> coherent_state_cache \<Rightarrow> coherent_state_cache result" where
  "process_change ext root view_id change s =
     (case act change of
        UPSERT \<Rightarrow> process_upsert_change ext root view_id change s
      | UPSERT_CODE \<Rightarrow> bind_r (process_upsert_change ext root view_id change s)
                             (process_code_change ext root view_id change)
      | REMOVE \<Rightarrow> process_delete_change ext root view_id change s
      | STORAGE \<Rightarrow> if with_storage (config s) \<and> length (storage_changes change) > 0
                    then process_storage_change ext root view_id change s else Ok s
      | CODE \<Rightarrow> process_code_change ext root view_id change s
      | Unknown_action _ \<Rightarrow> Ok s)"

section \<open>Views and roots\<close>

definition get_root :: "u64 \<Rightarrow> coherent_state_cache \<Rightarrow> coherent_state_cache \<times> root_ptr" where
  "get_root view_id s =
     (case map_of (state_view_roots s) view_id of
        Some _ \<Rightarrow> (s, view_id)
      | None \<Rightarrow> (set_root view_id new_root s, view_id))"

definition evict_roots :: "u64 \<Rightarrow> coherent_state_cache \<Rightarrow> coherent_state_cache" where
  "evict_roots next_view_id s =
     (if length (state_view_roots s) \<le> unat (max_views (config s)) then s
      else if next_view_id = 0
      then s\<lparr>state_view_roots := filter (\<lambda>(v, _). \<not> v \<noteq> next_view_id) (state_view_roots s)\<rparr>
      else let max_view_id_to_delete = latest_state_view_id s - max_views (config s) + 1
           in s\<lparr>state_view_roots := filter (\<lambda>(v, _). \<not> v \<le> max_view_id_to_delete) (state_view_roots s)\<rparr>)"

definition advance_root :: "u64 \<Rightarrow> coherent_state_cache \<Rightarrow> (coherent_state_cache \<times> root_ptr) result" where
  "advance_root view_id s0 =
     (let (s1, root) = get_root view_id s0 in
      bind_r (deref s1 root) (\<lambda>r.
      let s2 = (case map_of (state_view_roots s1) (view_id - 1) of
                  Some prev \<Rightarrow>
                    (if canonical prev
                     then set_root root (r\<lparr>cache := cache prev, code_cache := code_cache prev\<rparr>) s1
                     else s1\<lparr>state_evictions := rev (cache r), code_evictions := rev (code_cache r)\<rparr>)
                | None \<Rightarrow> s1\<lparr>state_evictions := rev (cache r), code_evictions := rev (code_cache r)\<rparr>)
      in bind_r (deref s2 root) (\<lambda>r2.
      let s3 = set_root root (r2\<lparr>canonical := True\<rparr>) s2;
          s4 = evict_roots view_id s3
      in Ok (s4\<lparr>latest_state_view_id := view_id, latest_state_view := Some root,
                state_eviction_count := of_nat (length (state_evictions s4)),
                code_eviction_count := of_nat (length (code_evictions s4))\<rparr>, root))))"

definition on_new_block ::
  "('a, 'h) cache_ext \<Rightarrow> ('a, 'h) state_change_batch \<Rightarrow> coherent_state_cache \<Rightarrow> coherent_state_cache result" where
  "on_new_block ext batch s =
     (if change_batch batch = [] then Ok s
      else
        let view_id = database_view_id batch in
        bind_r (advance_root view_id s) (\<lambda>(s1, root).
        bind_r (fold_r (\<lambda>sc. fold_r (process_change ext root view_id) (changes sc)) (change_batch batch) s1) (\<lambda>s2.
        bind_r (case latest_state_view s2 of None \<Rightarrow> Throw Use_after_free | Some p \<Rightarrow> deref s2 p) (\<lambda>l.
        let s3 = s2\<lparr>state_key_count := of_nat (length (cache l)),
                    code_key_count := of_nat (length (code_cache l))\<rparr>
        in bind_r (deref s3 root) (\<lambda>r.
        Ok (set_root root (r\<lparr>ready := True\<rparr>) s3))))))"

text \<open>\<^verbatim>\<open>get_view\<close>: the view of the transaction, or none when its root is not ready.\<close>

definition get_view :: "u64 \<Rightarrow> coherent_state_cache \<Rightarrow> (coherent_state_cache \<times> u64 option) result" where
  "get_view tx_id s =
     (let (s1, root) = get_root tx_id s in
      bind_r (deref s1 root) (\<lambda>r. Ok (s1, if ready r then Some tx_id else None)))"

definition latest_data_size :: "coherent_state_cache \<Rightarrow> nat result" where
  "latest_data_size s =
     (case latest_state_view s of None \<Rightarrow> Ok 0 | Some p \<Rightarrow> bind_r (deref s p) (\<lambda>r. Ok (length (cache r))))"

definition latest_code_size :: "coherent_state_cache \<Rightarrow> nat result" where
  "latest_code_size s =
     (case latest_state_view s of None \<Rightarrow> Ok 0 | Some p \<Rightarrow> bind_r (deref s p) (\<lambda>r. Ok (length (code_cache r))))"

section \<open>Reading\<close>

text \<open>
  \<^verbatim>\<open>get\<close> and \<^verbatim>\<open>get_code\<close> run in two critical sections: a lookup under the shared lock, then, on a miss
  whose value is in the database, an \<^verbatim>\<open>add\<close> under the exclusive lock. The read of the database is the
  argument \<open>db\<close> (\<^verbatim>\<open>tx_database.get_one\<close> on the table).
\<close>

datatype lookup_outcome = No_root | Hit bytes | Absent | To_add bytes

definition get_lookup ::
  "(bytes \<Rightarrow> bytes) \<Rightarrow> bytes \<Rightarrow> u64 \<Rightarrow> coherent_state_cache \<Rightarrow> coherent_state_cache \<times> lookup_outcome" where
  "get_lookup db k view_id s =
     (case map_of (state_view_roots s) view_id of
        None \<Rightarrow> (s, No_root)
      | Some r \<Rightarrow>
          (case bt_find (KV k []) (cache r) of
             Some hit \<Rightarrow>
               (let s1 = s\<lparr>state_hit_count := state_hit_count s + 1\<rparr>
                in (if view_id = latest_state_view_id s1
                    then s1\<lparr>state_evictions := KV k [] # evictions_remove (KV k []) (state_evictions s1)\<rparr>
                    else s1, Hit (kv_value hit)))
           | None \<Rightarrow>
               (let s1 = s\<lparr>state_miss_count := state_miss_count s + 1\<rparr>; value = db k
                in (s1, if value = [] then Absent else To_add value))))"

definition get ::
  "(bytes \<Rightarrow> bytes) \<Rightarrow> bytes \<Rightarrow> u64 \<Rightarrow> coherent_state_cache \<Rightarrow> (coherent_state_cache \<times> bytes option) result" where
  "get db k view_id s =
     (case get_lookup db k view_id s of
        (s1, No_root) \<Rightarrow> Ok (s1, None)
      | (s1, Hit v) \<Rightarrow> Ok (s1, Some v)
      | (s1, Absent) \<Rightarrow> Ok (s1, None)
      | (s1, To_add v) \<Rightarrow> bind_r (add (KV k v) view_id view_id s1) (\<lambda>(s2, _). Ok (s2, Some v)))"

definition get_code_lookup ::
  "(bytes \<Rightarrow> bytes) \<Rightarrow> bytes \<Rightarrow> u64 \<Rightarrow> coherent_state_cache \<Rightarrow> coherent_state_cache \<times> lookup_outcome" where
  "get_code_lookup db k view_id s =
     (case map_of (state_view_roots s) view_id of
        None \<Rightarrow> (s, No_root)
      | Some r \<Rightarrow>
          (case bt_find (KV k []) (code_cache r) of
             Some hit \<Rightarrow>
               (let s1 = s\<lparr>code_hit_count := code_hit_count s + 1\<rparr>
                in (if view_id = latest_state_view_id s1
                    then s1\<lparr>code_evictions := KV k [] # evictions_remove (KV k []) (code_evictions s1)\<rparr>
                    else s1, Hit (kv_value hit)))
           | None \<Rightarrow>
               (let s1 = s\<lparr>code_miss_count := code_miss_count s + 1\<rparr>; value = db k
                in (s1, if value = [] then Absent else To_add value))))"

definition get_code ::
  "(bytes \<Rightarrow> bytes) \<Rightarrow> bytes \<Rightarrow> u64 \<Rightarrow> coherent_state_cache \<Rightarrow> (coherent_state_cache \<times> bytes option) result" where
  "get_code db k view_id s =
     (case get_code_lookup db k view_id s of
        (s1, No_root) \<Rightarrow> Ok (s1, None)
      | (s1, Hit v) \<Rightarrow> Ok (s1, Some v)
      | (s1, Absent) \<Rightarrow> Ok (s1, None)
      | (s1, To_add v) \<Rightarrow> bind_r (add_code (KV k v) view_id view_id s1) (\<lambda>(s2, _). Ok (s2, Some v)))"

end
