(* ===== verification/State_Cache_Inv.thy ===== *)
theory State_Cache_Inv
  imports State_Cache
begin

text \<open>
  The structural invariant of the coherent state cache and its preservation: every tree is ordered,
  the eviction lists of the latest view hold exactly the cached keys, and no root pointer dangles.
  From it: no operation fails an assertion or touches an erased root while views advance in order,
  and the sizes of the latest caches and the number of views stay bounded.
\<close>

section \<open>One tree and its eviction list\<close>

definition lru_inv :: "kv_btree \<Rightarrow> key_value list \<Rightarrow> bool" where
  "lru_inv c es \<longleftrightarrow> bt_inv c \<and> distinct (map kv_key es) \<and> kv_key ` set es = dom (bt_lookup c)"

definition cache_put :: "key_value \<Rightarrow> kv_btree \<Rightarrow> kv_btree" where
  "cache_put kv c =
     (if snd (bt_insert kv c) then fst (bt_insert kv c)
      else fst (bt_insert kv (fst (bt_erase kv (fst (bt_insert kv c))))))"

text \<open>The list after the push: its keys are the cached keys of the tree after the put.\<close>

definition pushed :: "key_value \<Rightarrow> kv_btree \<Rightarrow> key_value list \<Rightarrow> key_value list" where
  "pushed kv c es = kv # (if bt_lookup c (kv_key kv) \<noteq> None then evictions_remove kv es else es)"

lemma cache_put_inv: "bt_inv c \<Longrightarrow> bt_inv (cache_put kv c)"
  by (simp add: cache_put_def bt.inv_ins bt.replace_inv)

lemma cache_put_lookup:
  "bt_inv c \<Longrightarrow> bt_lookup (cache_put kv c) = (bt_lookup c)(kv_key kv \<mapsto> kv_value kv)"
  using bt.replace_lookup [of "fst (bt_insert kv c)" kv] bt.inv_ins [of c kv]
  by (auto simp: cache_put_def bt.ins_flag bt.lookup_ins)

lemma cache_add_unfold:
  assumes "bt_inv c"
  shows "cache_add n is_latest kv c es =
    (if \<not> is_latest then Ok (cache_put kv c, es, True)
     else let es2 = pushed kv c es; er = bt_erase (last es2) (cache_put kv c)
          in if length es2 > n
             then (if snd er = 1 then Ok (fst er, butlast es2, True) else Throw Assertion_failed)
             else Ok (cache_put kv c, es2, True))"
proof (cases "snd (bt_insert kv c)")
  case True
  then have "bt_insert kv c = (cache_put kv c, True)"
    by (simp add: cache_put_def prod_eq_iff)
  moreover have "pushed kv c es = kv # es"
    using True bt.ins_flag [OF assms, of kv] by (simp add: pushed_def)
  ultimately show ?thesis
    by (simp add: cache_add_def Let_def prod.case_eq_if del: butlast.simps last.simps)
next
  case False
  then obtain c1 where c1: "bt_insert kv c = (c1, False)"
    by (cases "bt_insert kv c") simp
  have "bt_insert kv (fst (bt_erase kv c1)) = (cache_put kv c, True)"
    using bt.replace_flag [OF bt.inv_ins [OF assms], of kv kv] c1 by (simp add: cache_put_def prod_eq_iff)
  moreover have "pushed kv c es = kv # evictions_remove kv es"
    using False bt.ins_flag [OF assms, of kv] by (simp add: pushed_def)
  ultimately show ?thesis
    using c1 by (simp add: cache_add_def Let_def prod.case_eq_if del: butlast.simps last.simps)
qed

lemma evictions_remove_keys:
  "kv_key ` set (evictions_remove kv es) = kv_key ` set es - {kv_key kv}"
  by (auto simp: evictions_remove_def kv_equal_def)

lemma evictions_remove_distinct:
  "distinct (map kv_key es) \<Longrightarrow> distinct (map kv_key (evictions_remove kv es))"
  by (induction es) (auto simp: evictions_remove_def kv_equal_def)

lemma evictions_remove_length: "length (evictions_remove kv es) \<le> length es"
  by (simp add: evictions_remove_def)

lemma evictions_remove_length_less:
  "kv_key kv \<in> kv_key ` set es \<Longrightarrow> length (evictions_remove kv es) < length es"
  by (auto simp: evictions_remove_def kv_equal_def intro!: length_filter_less)

lemma pushed_lru: "lru_inv c es \<Longrightarrow> lru_inv (cache_put kv c) (pushed kv c es)"
  using evictions_remove_distinct [of es kv] evictions_remove_keys [of kv es]
  by (auto simp: lru_inv_def pushed_def cache_put_inv cache_put_lookup)

lemma pushed_length: "lru_inv c es \<Longrightarrow> length (pushed kv c es) \<le> Suc (length es)"
  using evictions_remove_length [of kv es] by (simp add: pushed_def)

lemma distinct_butlast_keys:
  assumes "es \<noteq> []" "distinct (map kv_key es)"
  shows "distinct (map kv_key (butlast es))"
    and "kv_key ` set (butlast es) = kv_key ` set es - {kv_key (last es)}"
proof -
  obtain e es' where es: "es = es' @ [e]"
    using assms(1) by (metis append_butlast_last_id)
  with assms(2) show "distinct (map kv_key (butlast es))"
    "kv_key ` set (butlast es) = kv_key ` set es - {kv_key (last es)}"
    by auto
qed

lemma lru_pop:
  assumes "lru_inv c es" "es \<noteq> []"
  shows "snd (bt_erase (last es) c) = 1"
    and "lru_inv (fst (bt_erase (last es) c)) (butlast es)"
    and "bt_lookup (fst (bt_erase (last es) c)) \<subseteq>\<^sub>m bt_lookup c"
proof -
  from assms have "kv_key (last es) \<in> dom (bt_lookup c)"
    by (auto simp: lru_inv_def)
  with assms(1) show "snd (bt_erase (last es) c) = 1"
    by (auto simp: lru_inv_def bt.era_count)
  show "lru_inv (fst (bt_erase (last es) c)) (butlast es)"
    using assms distinct_butlast_keys [OF assms(2)]
    by (auto simp: lru_inv_def bt.inv_era bt.lookup_era)
  show "bt_lookup (fst (bt_erase (last es) c)) \<subseteq>\<^sub>m bt_lookup c"
    using assms(1) by (auto simp: lru_inv_def bt.lookup_era map_le_def)
qed

lemma cache_add_latest_cases:
  assumes "lru_inv c es"
  shows "cache_add n True kv c es =
    (let es2 = pushed kv c es; c2 = cache_put kv c
     in if length es2 > n then Ok (fst (bt_erase (last es2) c2), butlast es2, True) else Ok (c2, es2, True))"
proof -
  have "bt_inv c" using assms by (simp add: lru_inv_def)
  moreover have "snd (bt_erase (last (pushed kv c es)) (cache_put kv c)) = 1"
    by (rule lru_pop(1) [OF pushed_lru [OF assms]]) (simp add: pushed_def)
  ultimately show ?thesis
    by (simp add: cache_add_unfold Let_def)
qed

lemma cache_add_latest:
  assumes "lru_inv c es"
  obtains c' es' where "cache_add n True kv c es = Ok (c', es', True)" "lru_inv c' es'"
    "length es' \<le> max n (length es)"
    "bt_lookup c' \<subseteq>\<^sub>m (bt_lookup c)(kv_key kv \<mapsto> kv_value kv)"
proof (cases "length (pushed kv c es) > n")
  case True
  let ?es = "pushed kv c es" and ?c = "cache_put kv c"
  have lru: "lru_inv ?c ?es" by (rule pushed_lru [OF assms])
  have ne: "?es \<noteq> []" by (simp add: pushed_def)
  have "bt_lookup (fst (bt_erase (last ?es) ?c)) \<subseteq>\<^sub>m (bt_lookup c)(kv_key kv \<mapsto> kv_value kv)"
    using lru_pop(3) [OF lru ne] cache_put_lookup assms by (simp add: lru_inv_def)
  moreover have "length (butlast ?es) \<le> max n (length es)"
    using pushed_length [OF assms, of kv] by simp
  ultimately show ?thesis
    using that [of "fst (bt_erase (last ?es) ?c)" "butlast ?es"] True lru_pop(2) [OF lru ne]
      cache_add_latest_cases [OF assms, of n kv] by (simp add: Let_def)
next
  case False
  then show ?thesis
    using that [of "cache_put kv c" "pushed kv c es"] pushed_lru [OF assms]
      cache_add_latest_cases [OF assms, of n kv] assms
    by (simp add: Let_def cache_put_lookup lru_inv_def)
qed

text \<open>With room for at least one key the added pair itself is never the one that is evicted.\<close>

lemma cache_add_latest_present:
  assumes "lru_inv c es" "0 < n" "cache_add n True kv c es = Ok (c', es', b)"
  shows "bt_lookup c' (kv_key kv) = Some (kv_value kv)"
proof (cases "length (pushed kv c es) > n")
  case True
  let ?es = "pushed kv c es"
  obtain x xs where es: "?es = kv # x # xs"
    using True assms(2) by (cases "tl ?es") (auto simp: pushed_def)
  have "distinct (map kv_key ?es)"
    using pushed_lru [OF assms(1)] by (simp add: lru_inv_def)
  then have "kv_key kv \<notin> kv_key ` set (x # xs)"
    by (simp add: es)
  moreover have "last ?es \<in> set (x # xs)"
    unfolding es by (metis last_ConsR last_in_set list.distinct(1))
  ultimately have "kv_key (last ?es) \<noteq> kv_key kv"
    by (metis imageI)
  moreover have "c' = fst (bt_erase (last ?es) (cache_put kv c))"
    using assms(3) True cache_add_latest_cases [OF assms(1), of n kv] by (simp add: Let_def)
  ultimately show ?thesis
    using assms(1) by (simp add: lru_inv_def bt.lookup_era cache_put_inv cache_put_lookup)
next
  case False
  with assms show ?thesis
    using cache_add_latest_cases [OF assms(1), of n kv]
    by (auto simp: Let_def lru_inv_def cache_put_lookup)
qed

lemma cache_add_other:
  "bt_inv c \<Longrightarrow> cache_add n False kv c es = Ok (cache_put kv c, es, True)"
  by (simp add: cache_add_unfold)

section \<open>The invariant of the whole cache\<close>

abbreviation root_at :: "coherent_state_cache \<Rightarrow> u64 \<Rightarrow> coherent_state_root option" where
  "root_at s \<equiv> map_of (state_view_roots s)"

definition roots_ok :: "coherent_state_cache \<Rightarrow> bool" where
  "roots_ok s \<longleftrightarrow> distinct (map fst (state_view_roots s)) \<and>
     (\<forall>v r. root_at s v = Some r \<longrightarrow> bt_inv (cache r) \<and> bt_inv (code_cache r))"

lemma roots_okD: "roots_ok s \<Longrightarrow> root_at s v = Some r \<Longrightarrow> bt_inv (cache r) \<and> bt_inv (code_cache r)"
  by (simp add: roots_ok_def)

definition latest_ok :: "coherent_state_cache \<Rightarrow> bool" where
  "latest_ok s \<longleftrightarrow>
     (case root_at s (latest_state_view_id s) of
        Some r \<Rightarrow> lru_inv (cache r) (state_evictions s) \<and> lru_inv (code_cache r) (code_evictions s)
      | None \<Rightarrow> latest_state_view s = None \<and> state_evictions s = [] \<and> code_evictions s = [])"

definition pointer_ok :: "coherent_state_cache \<Rightarrow> bool" where
  "pointer_ok s \<longleftrightarrow> latest_state_view s = None \<or> latest_state_view s = Some (latest_state_view_id s)"

definition cache_inv :: "coherent_state_cache \<Rightarrow> bool" where
  "cache_inv s \<longleftrightarrow> roots_ok s \<and> latest_ok s \<and> pointer_ok s"

lemma lru_inv_empty [simp]: "lru_inv [] []"
  by (simp add: lru_inv_def bt_inv_def dom_def)

lemma init_cache_inv: "cache_inv (init_cache cfg)"
  by (simp add: cache_inv_def roots_ok_def latest_ok_def pointer_ok_def init_cache_def)

lemma set_root_simps [simp]:
  "root_at (set_root p r s) = (root_at s)(p \<mapsto> r)"
  "config (set_root p r s) = config s"
  "latest_state_view_id (set_root p r s) = latest_state_view_id s"
  "latest_state_view (set_root p r s) = latest_state_view s"
  "state_evictions (set_root p r s) = state_evictions s"
  "code_evictions (set_root p r s) = code_evictions s"
  by (simp_all add: set_root_def update_conv' fun_eq_iff)

lemma set_root_distinct:
  "distinct (map fst (state_view_roots s)) \<Longrightarrow> distinct (map fst (state_view_roots (set_root p r s)))"
  by (simp add: set_root_def distinct_update)

lemma set_root_roots_ok:
  "roots_ok s \<Longrightarrow> bt_inv (cache r) \<Longrightarrow> bt_inv (code_cache r) \<Longrightarrow> roots_ok (set_root p r s)"
  by (auto simp: roots_ok_def set_root_distinct)

lemma deref_Ok_iff: "deref s p = Ok r \<longleftrightarrow> root_at s p = Some r"
  by (simp add: deref_def split: option.split)

lemma roots_ok_evictions [simp]:
  "roots_ok (s\<lparr>state_evictions := e\<rparr>) = roots_ok s"
  "roots_ok (s\<lparr>code_evictions := e\<rparr>) = roots_ok s"
  by (simp_all add: roots_ok_def)

text \<open>
  What an \<^verbatim>\<open>add\<close> to the tree of an existing root does: it succeeds, keeps the invariant, changes the
  root it is given only, and leaves in that root a part of the old entries and the new pair.
\<close>

lemma add_step:
  assumes inv: "cache_inv s" and r: "root_at s v = Some r"
  obtains s' r' where "add kv v v s = Ok (s', True)" "cache_inv s'"
    "root_at s' = (root_at s)(v \<mapsto> r')"
    "bt_lookup (cache r') \<subseteq>\<^sub>m (bt_lookup (cache r))(kv_key kv \<mapsto> kv_value kv)"
    "code_cache r' = code_cache r" "ready r' = ready r" "canonical r' = canonical r"
    "config s' = config s" "latest_state_view_id s' = latest_state_view_id s"
    "latest_state_view s' = latest_state_view s" "code_evictions s' = code_evictions s"
    "length (state_evictions s') \<le> max (unat (max_state_keys (config s))) (length (state_evictions s))"
proof (cases "latest_state_view_id s = v")
  case True
  with inv r have lru: "lru_inv (cache r) (state_evictions s)" "lru_inv (code_cache r) (code_evictions s)"
    by (auto simp: cache_inv_def latest_ok_def)
  obtain c es where *: "cache_add (unat (max_state_keys (config s))) True kv (cache r) (state_evictions s)
      = Ok (c, es, True)" "lru_inv c es"
    "length es \<le> max (unat (max_state_keys (config s))) (length (state_evictions s))"
    "bt_lookup c \<subseteq>\<^sub>m (bt_lookup (cache r))(kv_key kv \<mapsto> kv_value kv)"
    by (rule cache_add_latest [OF lru(1)])
  let ?s = "(set_root v (r\<lparr>cache := c\<rparr>) s)\<lparr>state_evictions := es\<rparr>"
  have "roots_ok ?s"
    using inv lru(2) *(2) by (simp add: cache_inv_def lru_inv_def set_root_roots_ok)
  then have "cache_inv ?s"
    using inv *(2) lru(2) True by (simp add: cache_inv_def latest_ok_def pointer_ok_def)
  then show ?thesis
    using that [of ?s "r\<lparr>cache := c\<rparr>"] * True r by (simp add: add_def deref_def)
next
  case False
  have bt: "bt_inv (cache r)" "bt_inv (code_cache r)"
    using inv r by (auto simp: cache_inv_def roots_ok_def)
  let ?s = "(set_root v (r\<lparr>cache := cache_put kv (cache r)\<rparr>) s)\<lparr>state_evictions := state_evictions s\<rparr>"
  have "cache_inv ?s"
    using inv bt False
    by (auto simp: cache_inv_def latest_ok_def pointer_ok_def set_root_roots_ok cache_put_inv
        split: option.splits)
  then show ?thesis
    using that [of ?s "r\<lparr>cache := cache_put kv (cache r)\<rparr>"] False r bt
    by (simp add: add_def deref_def cache_add_other cache_put_lookup)
qed

lemma add_code_step:
  assumes inv: "cache_inv s" and r: "root_at s v = Some r"
  obtains s' r' where "add_code kv v v s = Ok (s', True)" "cache_inv s'"
    "root_at s' = (root_at s)(v \<mapsto> r')"
    "bt_lookup (code_cache r') \<subseteq>\<^sub>m (bt_lookup (code_cache r))(kv_key kv \<mapsto> kv_value kv)"
    "cache r' = cache r" "ready r' = ready r" "canonical r' = canonical r"
    "config s' = config s" "latest_state_view_id s' = latest_state_view_id s"
    "latest_state_view s' = latest_state_view s" "state_evictions s' = state_evictions s"
    "length (code_evictions s') \<le> max (unat (max_code_keys (config s))) (length (code_evictions s))"
proof (cases "latest_state_view_id s = v")
  case True
  with inv r have lru: "lru_inv (cache r) (state_evictions s)" "lru_inv (code_cache r) (code_evictions s)"
    by (auto simp: cache_inv_def latest_ok_def)
  obtain c es where *: "cache_add (unat (max_code_keys (config s))) True kv (code_cache r) (code_evictions s)
      = Ok (c, es, True)" "lru_inv c es"
    "length es \<le> max (unat (max_code_keys (config s))) (length (code_evictions s))"
    "bt_lookup c \<subseteq>\<^sub>m (bt_lookup (code_cache r))(kv_key kv \<mapsto> kv_value kv)"
    by (rule cache_add_latest [OF lru(2)])
  let ?s = "(set_root v (r\<lparr>code_cache := c\<rparr>) s)\<lparr>code_evictions := es\<rparr>"
  have "roots_ok ?s"
    using inv lru(1) *(2) by (simp add: cache_inv_def lru_inv_def set_root_roots_ok)
  then have "cache_inv ?s"
    using inv *(2) lru(1) True by (simp add: cache_inv_def latest_ok_def pointer_ok_def)
  then show ?thesis
    using that [of ?s "r\<lparr>code_cache := c\<rparr>"] * True r by (simp add: add_code_def deref_def)
next
  case False
  have bt: "bt_inv (cache r)" "bt_inv (code_cache r)"
    using inv r by (auto simp: cache_inv_def roots_ok_def)
  let ?s = "(set_root v (r\<lparr>code_cache := cache_put kv (code_cache r)\<rparr>) s)\<lparr>code_evictions := code_evictions s\<rparr>"
  have "cache_inv ?s"
    using inv bt False
    by (auto simp: cache_inv_def latest_ok_def pointer_ok_def set_root_roots_ok cache_put_inv
        split: option.splits)
  then show ?thesis
    using that [of ?s "r\<lparr>code_cache := cache_put kv (code_cache r)\<rparr>"] False r bt
    by (simp add: add_code_def deref_def cache_add_other cache_put_lookup)
qed

section \<open>The writes of a batch\<close>

text \<open>
  The pairs a change puts into the state cache and into the code cache, in order. \<open>adds\<close> relates two
  states of the cache between which some pairs were added to the root of one view: the caches of that
  root hold nothing but the old entries overwritten by those pairs, nothing else of the state changed
  but the eviction lists, and the invariant holds.
\<close>

definition change_writes :: "('a, 'h) cache_ext \<Rightarrow> bool \<Rightarrow> ('a, 'h) account_change \<Rightarrow> (bytes \<times> bytes) list" where
  "change_writes ext storage change =
     (case act change of
        UPSERT \<Rightarrow> [(address_from_H160 ext (address change), data change)]
      | UPSERT_CODE \<Rightarrow> [(address_from_H160 ext (address change), data change)]
      | REMOVE \<Rightarrow> [(address_from_H160 ext (address change), [])]
      | STORAGE \<Rightarrow> if storage then
            map (\<lambda>sc. (composite_storage_key (store_big_u64 ext) (address_from_H160 ext (address change))
                          (incarnation change) (bytes32_from_H256 ext (location sc)), change_data sc))
              (storage_changes change) else []
      | _ \<Rightarrow> [])"

definition change_codes :: "('a, 'h) cache_ext \<Rightarrow> ('a, 'h) account_change \<Rightarrow> (bytes \<times> bytes) list" where
  "change_codes ext change =
     (case act change of
        UPSERT_CODE \<Rightarrow> [(keccak256 ext (code change), code change)]
      | CODE \<Rightarrow> [(keccak256 ext (code change), code change)]
      | _ \<Rightarrow> [])"

definition batch_changes :: "('a, 'h) state_change_batch \<Rightarrow> ('a, 'h) account_change list" where
  "batch_changes batch = concat (map changes (change_batch batch))"

definition batch_writes :: "('a, 'h) cache_ext \<Rightarrow> bool \<Rightarrow> ('a, 'h) state_change_batch \<Rightarrow> (bytes \<times> bytes) list" where
  "batch_writes ext storage batch = concat (map (change_writes ext storage) (batch_changes batch))"

definition batch_codes :: "('a, 'h) cache_ext \<Rightarrow> ('a, 'h) state_change_batch \<Rightarrow> (bytes \<times> bytes) list" where
  "batch_codes ext batch = concat (map (change_codes ext) (batch_changes batch))"

definition apply_writes :: "(bytes \<times> bytes) list \<Rightarrow> (bytes \<rightharpoonup> bytes) \<Rightarrow> (bytes \<rightharpoonup> bytes)" where
  "apply_writes ws m = fold (\<lambda>(k, v) m. m(k \<mapsto> v)) ws m"

lemma apply_writes_simps [simp]:
  "apply_writes [] m = m"
  "apply_writes ((k, v) # ws) m = apply_writes ws (m(k \<mapsto> v))"
  "apply_writes (ws @ ws') m = apply_writes ws' (apply_writes ws m)"
  by (simp_all add: apply_writes_def)

lemma map_le_upd: "m \<subseteq>\<^sub>m m' \<Longrightarrow> m(k \<mapsto> v) \<subseteq>\<^sub>m m'(k \<mapsto> v)"
  by (auto simp: map_le_def)

lemma apply_writes_mono: "m \<subseteq>\<^sub>m m' \<Longrightarrow> apply_writes ws m \<subseteq>\<^sub>m apply_writes ws m'"
  by (induction ws arbitrary: m m') (auto intro: map_le_upd)

lemma apply_writes_map_of: "apply_writes ws m = m ++ map_of (rev ws)"
  by (induction ws arbitrary: m) (auto simp: fun_eq_iff map_add_def split: option.splits)

definition adds ::
  "u64 \<Rightarrow> (bytes \<times> bytes) list \<Rightarrow> (bytes \<times> bytes) list \<Rightarrow> coherent_state_cache \<Rightarrow> coherent_state_cache \<Rightarrow> bool" where
  "adds v ws cs s s' \<longleftrightarrow>
     cache_inv s' \<and> config s' = config s \<and>
     latest_state_view_id s' = latest_state_view_id s \<and> latest_state_view s' = latest_state_view s \<and>
     length (state_evictions s') \<le> max (unat (max_state_keys (config s))) (length (state_evictions s)) \<and>
     length (code_evictions s') \<le> max (unat (max_code_keys (config s))) (length (code_evictions s)) \<and>
     (\<exists>r r'. root_at s v = Some r \<and> root_at s' = (root_at s)(v \<mapsto> r') \<and>
        bt_lookup (cache r') \<subseteq>\<^sub>m apply_writes ws (bt_lookup (cache r)) \<and>
        bt_lookup (code_cache r') \<subseteq>\<^sub>m apply_writes cs (bt_lookup (code_cache r)) \<and>
        ready r' = ready r \<and> canonical r' = canonical r)"

lemma adds_refl: "cache_inv s \<Longrightarrow> root_at s v = Some r \<Longrightarrow> adds v [] [] s s"
  unfolding adds_def by (intro conjI exI [of _ r]) (auto simp: fun_upd_idem)

lemma adds_trans:
  assumes "adds v ws cs s s'" "adds v ws' cs' s' s''"
  shows "adds v (ws @ ws') (cs @ cs') s s''"
proof -
  from assms(1) obtain r r' where 1: "root_at s v = Some r" "root_at s' = (root_at s)(v \<mapsto> r')"
    "bt_lookup (cache r') \<subseteq>\<^sub>m apply_writes ws (bt_lookup (cache r))"
    "bt_lookup (code_cache r') \<subseteq>\<^sub>m apply_writes cs (bt_lookup (code_cache r))"
    "ready r' = ready r" "canonical r' = canonical r"
    by (auto simp: adds_def)
  from assms(2) 1(2) obtain r'' where 2: "root_at s'' = (root_at s)(v \<mapsto> r'')"
    "bt_lookup (cache r'') \<subseteq>\<^sub>m apply_writes ws' (bt_lookup (cache r'))"
    "bt_lookup (code_cache r'') \<subseteq>\<^sub>m apply_writes cs' (bt_lookup (code_cache r'))"
    "ready r'' = ready r'" "canonical r'' = canonical r'"
    by (auto simp: adds_def)
  have m: "bt_lookup (cache r'') \<subseteq>\<^sub>m apply_writes (ws @ ws') (bt_lookup (cache r))"
    "bt_lookup (code_cache r'') \<subseteq>\<^sub>m apply_writes (cs @ cs') (bt_lookup (code_cache r))"
    using 1(3,4) 2(2,3) by (auto intro: map_le_trans apply_writes_mono)
  have c: "config s' = config s" using assms(1) by (simp add: adds_def)
  have f: "cache_inv s''" "config s'' = config s" "latest_state_view_id s'' = latest_state_view_id s" "latest_state_view s'' = latest_state_view s"
    using assms by (simp_all add: adds_def)
  have max_trans: "i \<le> max k j \<Longrightarrow> j \<le> max k l \<Longrightarrow> i \<le> max k l" for i j k l :: nat by simp
  have e: "length (state_evictions s'') \<le> max (unat (max_state_keys (config s))) (length (state_evictions s))"
    by (rule max_trans [of _ _ "length (state_evictions s')"]) (use assms c in \<open>simp_all add: adds_def\<close>)
  have e': "length (code_evictions s'') \<le> max (unat (max_code_keys (config s))) (length (code_evictions s))"
    by (rule max_trans [of _ _ "length (code_evictions s')"]) (use assms c in \<open>simp_all add: adds_def\<close>)
  have r: "ready r'' = ready r" "canonical r'' = canonical r" using 1(5,6) 2(4,5) by simp_all
  show ?thesis unfolding adds_def
    by (intro conjI exI [of _ r] exI [of _ r'']) (rule f e e' 1(1) 2(1) m r)+
qed

lemma adds_root: "adds v ws cs s s' \<Longrightarrow> \<exists>r'. root_at s' v = Some r'"
  by (auto simp: adds_def)

lemma adds_inv: "adds v ws cs s s' \<Longrightarrow> cache_inv s'"
  by (simp add: adds_def)

lemma add_adds:
  assumes "cache_inv s" "root_at s v = Some r"
  shows "\<exists>s'. bind_r (add (KV k x) v v s) (\<lambda>(s', _). Ok s') = Ok s' \<and> adds v [(k, x)] [] s s'"
  by (rule add_step [OF assms, of "KV k x"]) (use assms(2) in \<open>auto simp: adds_def\<close>)

lemma add_code_adds:
  assumes "cache_inv s" "root_at s v = Some r"
  shows "\<exists>s'. bind_r (add_code (KV k x) v v s) (\<lambda>(s', _). Ok s') = Ok s' \<and> adds v [] [(k, x)] s s'"
  by (rule add_code_step [OF assms, of "KV k x"]) (use assms(2) in \<open>auto simp: adds_def\<close>)

text \<open>A loop of steps that add pairs adds the pairs of all of them.\<close>

lemma fold_r_adds:
  assumes step: "\<And>x s r. x \<in> set xs \<Longrightarrow> cache_inv s \<Longrightarrow> root_at s v = Some r \<Longrightarrow> config s = cfg \<Longrightarrow>
      \<exists>s'. f x s = Ok s' \<and> adds v (ws x) (cs x) s s'"
    and "cache_inv s" "root_at s v = Some r" "config s = cfg"
  shows "\<exists>s'. fold_r f xs s = Ok s' \<and> adds v (concat (map ws xs)) (concat (map cs xs)) s s'"
  using assms
proof (induction xs arbitrary: s r)
  case Nil
  then show ?case by (auto intro: adds_refl)
next
  case (Cons x xs)
  obtain s1 where s1: "f x s = Ok s1" "adds v (ws x) (cs x) s s1"
    using Cons.prems by (metis list.set_intros(1))
  obtain r1 where r1: "root_at s1 v = Some r1"
    using adds_root [OF s1(2)] by auto
  have "config s1 = cfg" using s1(2) Cons.prems(4) by (simp add: adds_def)
  then obtain s2 where "fold_r f xs s1 = Ok s2" "adds v (concat (map ws xs)) (concat (map cs xs)) s1 s2"
    using Cons.IH [OF _ adds_inv [OF s1(2)] r1] Cons.prems(1) by (metis list.set_intros(2))
  with s1 show ?case by (auto intro: adds_trans)
qed

lemma process_change_adds:
  assumes "cache_inv s" "root_at s v = Some r"
  shows "\<exists>s'. process_change ext v v change s = Ok s' \<and>
    adds v (change_writes ext (with_storage (config s)) change) (change_codes ext change) s s'"
proof (cases "act change")
  case STORAGE
  let ?key = "\<lambda>sc. composite_storage_key (store_big_u64 ext) (address_from_H160 ext (address change))
                          (incarnation change) (bytes32_from_H256 ext (location sc))"
  have "\<exists>s'. process_storage_change ext v v change s = Ok s' \<and>
      adds v (concat (map (\<lambda>sc. [(?key sc, change_data sc)]) (storage_changes change)))
             (concat (map (\<lambda>_. []) (storage_changes change))) s s'"
    unfolding process_storage_change_def
    by (rule fold_r_adds [OF _ assms refl]) (rule add_adds)
  then show ?thesis
    using STORAGE assms
    by (auto simp: process_change_def change_writes_def change_codes_def concat_map_singleton intro: adds_refl)
next
  case UPSERT_CODE
  obtain s1 where s1: "process_upsert_change ext v v change s = Ok s1"
      "adds v [(address_from_H160 ext (address change), data change)] [] s s1"
    using add_adds [OF assms] unfolding process_upsert_change_def by blast
  obtain r1 where "root_at s1 v = Some r1" using adds_root [OF s1(2)] by auto
  then obtain s2 where "process_code_change ext v v change s1 = Ok s2"
      "adds v [] [(keccak256 ext (code change), code change)] s1 s2"
    using add_code_adds [OF adds_inv [OF s1(2)]] unfolding process_code_change_def by blast
  with s1 UPSERT_CODE adds_trans [OF s1(2)] show ?thesis
    by (fastforce simp: process_change_def change_writes_def change_codes_def)
qed (use assms add_adds [OF assms] add_code_adds [OF assms] adds_refl [OF assms] in
      \<open>auto simp: process_change_def change_writes_def change_codes_def process_upsert_change_def
        process_delete_change_def process_code_change_def\<close>)

lemma process_batch_adds:
  assumes "cache_inv s" "root_at s v = Some r"
  shows "\<exists>s'. fold_r (\<lambda>sc. fold_r (process_change ext v v) (changes sc)) (change_batch batch) s = Ok s' \<and>
    adds v (batch_writes ext (with_storage (config s)) batch) (batch_codes ext batch) s s'"
proof -
  let ?w = "change_writes ext (with_storage (config s))" and ?c = "change_codes ext"
  have "\<exists>s'. fold_r (\<lambda>sc. fold_r (process_change ext v v) (changes sc)) (change_batch batch) s = Ok s' \<and>
     adds v (concat (map (\<lambda>sc. concat (map ?w (changes sc))) (change_batch batch)))
       (concat (map (\<lambda>sc. concat (map ?c (changes sc))) (change_batch batch))) s s'"
  proof (rule fold_r_adds [OF _ assms refl])
    fix sc s1 r1
    assume 1: "cache_inv s1" "root_at s1 v = Some r1" "config s1 = config s"
    show "\<exists>s'. fold_r (process_change ext v v) (changes sc) s1 = Ok s' \<and>
      adds v (concat (map ?w (changes sc))) (concat (map ?c (changes sc))) s1 s'"
      by (rule fold_r_adds [OF _ 1]) (metis process_change_adds)
  qed
  then show ?thesis
    by (simp add: batch_writes_def batch_codes_def batch_changes_def concat_map_concat)
qed

end
