(* ===== verification/State_Cache_Advance.thy ===== *)
theory State_Cache_Advance
  imports State_Cache_Inv
begin

text \<open>
  Advancing the cache to a new view. \<open>advance_ok\<close> is the order of views under which the code is meant
  to run: a canonical predecessor is the latest view, and the new root is not among the roots that
  \<^verbatim>\<open>evict_roots\<close> deletes. Under it \<^verbatim>\<open>advance_root\<close>, \<^verbatim>\<open>on_new_block\<close> and the readers succeed and keep
  the invariant.
\<close>

section \<open>The root a view starts from\<close>

definition prev_root :: "coherent_state_cache \<Rightarrow> u64 \<Rightarrow> coherent_state_root option" where
  "prev_root s v =
     (case root_at s (v - 1) of Some p \<Rightarrow> if canonical p then Some p else None | None \<Rightarrow> None)"

definition cur_root :: "coherent_state_cache \<Rightarrow> u64 \<Rightarrow> coherent_state_root" where
  "cur_root s v = (case root_at s v of Some r \<Rightarrow> r | None \<Rightarrow> new_root)"

definition base_root :: "coherent_state_cache \<Rightarrow> u64 \<Rightarrow> coherent_state_root" where
  "base_root s v =
     (case prev_root s v of
        Some p \<Rightarrow> (cur_root s v)\<lparr>cache := cache p, code_cache := code_cache p\<rparr>
      | None \<Rightarrow> cur_root s v)"

definition view_survives :: "coherent_state_cache \<Rightarrow> u64 \<Rightarrow> bool" where
  "view_survives s v \<longleftrightarrow>
     length (state_view_roots (fst (get_root v s))) \<le> unat (max_views (config s)) \<or> v = 0 \<or>
     latest_state_view_id s - max_views (config s) + 1 < v"

definition advance_ok :: "coherent_state_cache \<Rightarrow> u64 \<Rightarrow> bool" where
  "advance_ok s v \<longleftrightarrow> (prev_root s v \<noteq> None \<longrightarrow> latest_state_view_id s = v - 1) \<and> view_survives s v"

lemma pred_neq [simp]: "(v :: u64) - 1 \<noteq> v"
proof
  assume "v - 1 = v"
  then have "v - (v - 1) = 0" by simp
  then show False by simp
qed

lemma get_root_eq: "get_root v s = (if root_at s v = None then set_root v new_root s else s, v)"
  by (simp add: get_root_def split: option.split)

lemma get_root_at: "root_at (fst (get_root v s)) = (root_at s)(v \<mapsto> cur_root s v)"
  by (auto simp: get_root_eq cur_root_def fun_upd_idem split: option.split)

lemma cur_root_bt:
  "roots_ok s \<Longrightarrow> bt_inv (cache (cur_root s v)) \<and> bt_inv (code_cache (cur_root s v))"
  by (auto simp: cur_root_def roots_ok_def new_root_def bt_inv_def split: option.split)

lemma prev_root_at: "prev_root s v = Some p \<Longrightarrow> root_at s (v - 1) = Some p \<and> canonical p"
  by (auto simp: prev_root_def split: option.splits if_splits)

lemma lru_inv_rev: "bt_inv c \<Longrightarrow> lru_inv c (rev c)"
  by (simp add: lru_inv_def bt_lookup_dom rev_map [symmetric] bt_inv_distinct)

lemma map_of_filter_keys:
  "map_of (filter (\<lambda>(v, _). P v) xs) v = (if P v then map_of xs v else None)"
  by (induction xs) auto

lemma evict_roots_other [simp]:
  "config (evict_roots v s) = config s"
  "latest_state_view_id (evict_roots v s) = latest_state_view_id s"
  "state_evictions (evict_roots v s) = state_evictions s"
  "code_evictions (evict_roots v s) = code_evictions s"
  by (simp_all add: evict_roots_def Let_def)

lemma evict_roots_at:
  "root_at (evict_roots v s) w = None \<or> root_at (evict_roots v s) w = root_at s w"
  using map_of_filter_keys [of "\<lambda>u. u = v" "state_view_roots s" w]
    map_of_filter_keys [of "\<lambda>u. \<not> u \<le> latest_state_view_id s - max_views (config s) + 1" "state_view_roots s" w]
  by (auto simp: evict_roots_def Let_def)

lemma evict_roots_keeps:
  assumes "length (state_view_roots s) \<le> unat (max_views (config s)) \<or> v = 0 \<or>
    latest_state_view_id s - max_views (config s) + 1 < v"
  shows "root_at (evict_roots v s) v = root_at s v"
  using assms map_of_filter_keys [of "\<lambda>u. u = v" "state_view_roots s" v]
    map_of_filter_keys [of "\<lambda>u. \<not> u \<le> latest_state_view_id s - max_views (config s) + 1" "state_view_roots s" v]
  by (auto simp: evict_roots_def Let_def)

lemma evict_roots_distinct:
  "distinct (map fst (state_view_roots s)) \<Longrightarrow> distinct (map fst (state_view_roots (evict_roots v s)))"
  by (auto simp: evict_roots_def Let_def intro: distinct_map_filter)

lemma evict_roots_ok: "roots_ok s \<Longrightarrow> roots_ok (evict_roots v s)"
  unfolding roots_ok_def using evict_roots_at [of v s] evict_roots_distinct [of s v]
  by (metis option.distinct(1))

lemma length_AList_update: "map_of xs k = Some x \<Longrightarrow> length (AList.update k y xs) = length xs"
  by (induction xs) (auto split: if_splits)

lemma length_set_root:
  "root_at s p = Some r \<Longrightarrow> length (state_view_roots (set_root p r' s)) = length (state_view_roots s)"
  by (simp add: set_root_def length_AList_update)

section \<open>advance\_root\<close>

text \<open>The state just before the roots are evicted.\<close>

definition before_evict :: "coherent_state_cache \<Rightarrow> u64 \<Rightarrow> coherent_state_cache" where
  "before_evict s v =
     (let s1 = fst (get_root v s); r = (base_root s v)\<lparr>canonical := True\<rparr> in
      set_root v r
        (case prev_root s v of
           Some p \<Rightarrow> set_root v (base_root s v) s1
         | None \<Rightarrow> s1\<lparr>state_evictions := rev (cache r), code_evictions := rev (code_cache r)\<rparr>))"

definition finish_advance :: "u64 \<Rightarrow> coherent_state_cache \<Rightarrow> coherent_state_cache" where
  "finish_advance v s = s\<lparr>latest_state_view_id := v, latest_state_view := Some v,
                state_eviction_count := of_nat (length (state_evictions s)),
                code_eviction_count := of_nat (length (code_evictions s))\<rparr>"

lemma advance_root_eq: "advance_root v s = Ok (finish_advance v (evict_roots v (before_evict s v)), v)"
proof -
  have prev: "root_at (fst (get_root v s)) (v - 1) = root_at s (v - 1)"
    by (simp add: get_root_at)
  have cur: "root_at (fst (get_root v s)) v = Some (cur_root s v)"
    by (simp add: get_root_at)
  have ptr: "snd (get_root v s) = v" by (simp add: get_root_eq)
  show ?thesis
    using prev cur ptr
    by (cases "get_root v s")
      (auto simp: advance_root_def before_evict_def finish_advance_def base_root_def prev_root_def
        deref_def Let_def split: option.split)
qed

lemma before_evict_simps [simp]:
  "config (before_evict s v) = config s"
  "latest_state_view_id (before_evict s v) = latest_state_view_id s"
  by (auto simp: before_evict_def get_root_eq Let_def split: option.split)

lemma before_evict_at:
  "root_at (before_evict s v) = (root_at s)(v \<mapsto> (base_root s v)\<lparr>canonical := True\<rparr>)"
  by (auto simp: before_evict_def Let_def get_root_at split: option.split)

lemma before_evict_length:
  "length (state_view_roots (before_evict s v)) = length (state_view_roots (fst (get_root v s)))"
proof -
  have "root_at (fst (get_root v s)) v = Some (cur_root s v)"
    by (simp add: get_root_at)
  then show ?thesis
    by (auto simp: before_evict_def Let_def length_set_root split: option.split)
qed

lemma base_root_bt:
  "roots_ok s \<Longrightarrow> bt_inv (cache (base_root s v)) \<and> bt_inv (code_cache (base_root s v))"
  using cur_root_bt [of s v] prev_root_at [of s v]
  by (auto simp: base_root_def roots_ok_def split: option.split)

lemma before_evict_roots_ok:
  assumes "roots_ok s"
  shows "roots_ok (before_evict s v)"
proof -
  have "distinct (map fst (state_view_roots (fst (get_root v s))))"
    using assms by (auto simp: roots_ok_def get_root_eq set_root_distinct)
  then have "distinct (map fst (state_view_roots (before_evict s v)))"
    by (auto simp: before_evict_def Let_def set_root_distinct split: option.split)
  then show ?thesis
    using assms base_root_bt [OF assms, of v] by (auto simp: roots_ok_def before_evict_at)
qed

lemma before_evict_lru:
  assumes "cache_inv s" "prev_root s v \<noteq> None \<longrightarrow> latest_state_view_id s = v - 1"
  shows "lru_inv (cache (base_root s v)) (state_evictions (before_evict s v))"
    and "lru_inv (code_cache (base_root s v)) (code_evictions (before_evict s v))"
proof -
  have roots: "roots_ok s" using assms(1) by (simp add: cache_inv_def)
  have "lru_inv (cache (base_root s v)) (state_evictions (before_evict s v)) \<and>
        lru_inv (code_cache (base_root s v)) (code_evictions (before_evict s v))"
  proof (cases "prev_root s v")
    case None
    then show ?thesis
      using base_root_bt [OF roots, of v] by (simp add: before_evict_def Let_def lru_inv_rev)
  next
    case (Some p)
    then have "root_at s (latest_state_view_id s) = Some p"
      using prev_root_at [OF Some] assms(2) by simp
    then have "lru_inv (cache p) (state_evictions s)" "lru_inv (code_cache p) (code_evictions s)"
      using assms(1) by (auto simp: cache_inv_def latest_ok_def)
    then show ?thesis
      using Some by (simp add: before_evict_def base_root_def Let_def get_root_eq)
  qed
  then show "lru_inv (cache (base_root s v)) (state_evictions (before_evict s v))"
    "lru_inv (code_cache (base_root s v)) (code_evictions (before_evict s v))"
    by blast+
qed

text \<open>What the cache looks like after a successful advance.\<close>

lemma advance_root_step:
  assumes "cache_inv s" "advance_ok s v"
  obtains s' where "advance_root v s = Ok (s', v)" "cache_inv s'" "config s' = config s"
    "latest_state_view_id s' = v" "latest_state_view s' = Some v"
    "root_at s' v = Some ((base_root s v)\<lparr>canonical := True\<rparr>)"
    "\<And>w. w \<noteq> v \<Longrightarrow> root_at s' w = None \<or> root_at s' w = root_at s w"
    "state_view_roots s' = state_view_roots (evict_roots v (before_evict s v))"
proof -
  let ?b = "before_evict s v" and ?r = "(base_root s v)\<lparr>canonical := True\<rparr>"
  let ?s = "finish_advance v (evict_roots v ?b)"
  have at: "root_at (evict_roots v ?b) v = Some ?r"
    using assms(2) evict_roots_keeps [of ?b v]
    by (auto simp: advance_ok_def view_survives_def before_evict_at before_evict_length)
  have "roots_ok (evict_roots v ?b)"
    using assms(1) by (simp add: cache_inv_def evict_roots_ok before_evict_roots_ok)
  then have "roots_ok ?s" by (simp add: roots_ok_def finish_advance_def)
  moreover have "lru_inv (cache ?r) (state_evictions ?b)" "lru_inv (code_cache ?r) (code_evictions ?b)"
    using before_evict_lru [OF assms(1)] assms(2) by (auto simp: advance_ok_def)
  ultimately have "cache_inv ?s"
    using at by (simp add: cache_inv_def latest_ok_def pointer_ok_def finish_advance_def)
  moreover have "root_at ?s w = None \<or> root_at ?s w = root_at s w" if "w \<noteq> v" for w
    using evict_roots_at [of v ?b w] that by (simp add: finish_advance_def before_evict_at)
  ultimately show thesis
    using that [of ?s] at advance_root_eq [of v s] by (simp add: finish_advance_def)
qed

section \<open>on\_new\_block\<close>

text \<open>
  What a batch does to the cache: the root of the new view holds a part of the entries it started
  from, overwritten by the writes of the batch; every other root is kept as it was or evicted.
\<close>

lemma on_new_block_step:
  assumes inv: "cache_inv s" and ok: "advance_ok s (database_view_id batch)" and ne: "change_batch batch \<noteq> []"
  obtains s' r where "on_new_block ext batch s = Ok s'" "cache_inv s'" "config s' = config s"
    "latest_state_view_id s' = database_view_id batch" "latest_state_view s' = Some (database_view_id batch)"
    "root_at s' (database_view_id batch) = Some r" "ready r" "canonical r"
    "bt_lookup (cache r) \<subseteq>\<^sub>m
       apply_writes (batch_writes ext (with_storage (config s)) batch)
         (bt_lookup (cache (base_root s (database_view_id batch))))"
    "bt_lookup (code_cache r) \<subseteq>\<^sub>m
       apply_writes (batch_codes ext batch) (bt_lookup (code_cache (base_root s (database_view_id batch))))"
    "\<And>w. w \<noteq> database_view_id batch \<Longrightarrow> root_at s' w = None \<or> root_at s' w = root_at s w"
    "dom (root_at s') = dom (root_at (evict_roots (database_view_id batch) (before_evict s (database_view_id batch))))"
proof -
  let ?v = "database_view_id batch"
  obtain s1 where s1: "advance_root ?v s = Ok (s1, ?v)" "cache_inv s1" "config s1 = config s"
      "latest_state_view_id s1 = ?v" "latest_state_view s1 = Some ?v"
      "root_at s1 ?v = Some ((base_root s ?v)\<lparr>canonical := True\<rparr>)"
      "\<And>w. w \<noteq> ?v \<Longrightarrow> root_at s1 w = None \<or> root_at s1 w = root_at s w"
      "state_view_roots s1 = state_view_roots (evict_roots ?v (before_evict s ?v))"
    using advance_root_step [OF inv ok] by metis
  obtain s2 where s2: "fold_r (\<lambda>sc. fold_r (process_change ext ?v ?v) (changes sc)) (change_batch batch) s1 = Ok s2"
      "adds ?v (batch_writes ext (with_storage (config s1)) batch) (batch_codes ext batch) s1 s2"
    using process_batch_adds [OF s1(2,6)] by blast
  obtain r where r: "root_at s2 = (root_at s1)(?v \<mapsto> r)" "canonical r"
      "bt_lookup (cache r) \<subseteq>\<^sub>m apply_writes (batch_writes ext (with_storage (config s)) batch)
         (bt_lookup (cache (base_root s ?v)))"
      "bt_lookup (code_cache r) \<subseteq>\<^sub>m apply_writes (batch_codes ext batch) (bt_lookup (code_cache (base_root s ?v)))"
    using s2(2) s1(3,6) by (auto simp: adds_def)
  let ?s3 = "s2\<lparr>state_key_count := of_nat (length (cache r)), code_key_count := of_nat (length (code_cache r))\<rparr>"
  let ?s = "set_root ?v (r\<lparr>ready := True\<rparr>) ?s3"
  have l2: "latest_state_view s2 = Some ?v" "latest_state_view_id s2 = ?v" "config s2 = config s" "cache_inv s2"
    using s2(2) s1 by (auto simp: adds_def)
  have "roots_ok ?s3"
    using l2(4) by (simp add: cache_inv_def roots_ok_def)
  moreover have "bt_inv (cache r)" "bt_inv (code_cache r)"
    using l2(4) r(1) roots_okD [of s2 ?v r] by (simp_all add: cache_inv_def)
  ultimately have "roots_ok ?s"
    by (simp add: set_root_roots_ok)
  then have "cache_inv ?s"
    using l2 r(1) by (simp add: cache_inv_def latest_ok_def pointer_ok_def)
  moreover have "on_new_block ext batch s = Ok ?s"
    using ne s1(1) s2(1) l2(1) r(1) by (simp add: on_new_block_def deref_def Let_def)
  moreover have "dom (root_at ?s) = dom (root_at s1)"
    using r(1) s1(6) by auto
  ultimately show thesis
    using that [of ?s "r\<lparr>ready := True\<rparr>"] r l2 s1(7,8) by simp
qed

section \<open>A root that does not survive\<close>

lemma evict_roots_drops:
  assumes "\<not> length (state_view_roots s) \<le> unat (max_views (config s))" "v \<noteq> 0"
    "v \<le> latest_state_view_id s - max_views (config s) + 1"
  shows "root_at (evict_roots v s) v = None"
  using assms map_of_filter_keys [of "\<lambda>u. \<not> u \<le> latest_state_view_id s - max_views (config s) + 1"
      "state_view_roots s" v]
  by (simp add: evict_roots_def Let_def)

lemma process_change_dangling:
  assumes "root_at s v = None"
  shows "process_change ext v v change s = Ok s \<or> process_change ext v v change s = Throw Use_after_free"
  using assms
  by (cases "act change"; cases "storage_changes change")
    (auto simp: process_change_def process_upsert_change_def process_delete_change_def
      process_code_change_def process_storage_change_def add_def add_code_def deref_def)

lemma fold_r_dangling:
  assumes "\<And>x. x \<in> set xs \<Longrightarrow> f x s = Ok s \<or> f x s = Throw Use_after_free"
  shows "fold_r f xs s = Ok s \<or> fold_r f xs s = Throw Use_after_free"
  using assms
proof (induction xs)
  case Nil
  then show ?case by simp
next
  case (Cons x xs)
  then have "f x s = Ok s \<or> f x s = Throw Use_after_free"
    "fold_r f xs s = Ok s \<or> fold_r f xs s = Throw Use_after_free"
    by simp_all
  then show ?case by (auto simp: bind_r_def)
qed

lemma on_new_block_not_survives:
  assumes "\<not> view_survives s (database_view_id batch)" "change_batch batch \<noteq> []"
  shows "on_new_block ext batch s = Throw Use_after_free"
proof -
  let ?v = "database_view_id batch"
  let ?s = "finish_advance ?v (evict_roots ?v (before_evict s ?v))"
  have none: "root_at ?s ?v = None"
    using assms(1) evict_roots_drops [of "before_evict s ?v" ?v]
    by (simp add: view_survives_def before_evict_length finish_advance_def not_less)
  have "fold_r (\<lambda>sc. fold_r (process_change ext ?v ?v) (changes sc)) (change_batch batch) ?s = Ok ?s \<or>
        fold_r (\<lambda>sc. fold_r (process_change ext ?v ?v) (changes sc)) (change_batch batch) ?s = Throw Use_after_free"
    by (intro fold_r_dangling process_change_dangling none)
  moreover have "latest_state_view ?s = Some ?v"
    by (simp add: finish_advance_def)
  ultimately show ?thesis
    using assms(2) none by (auto simp: on_new_block_def advance_root_eq deref_def Let_def)
qed

end
