(* ===== verification/State_Cache_Props.thy ===== *)
theory State_Cache_Props
  imports State_Cache_Advance
begin

text \<open>
  The properties of the coherent state cache: reads return what the database of the same view holds,
  in every state reachable by views, reads and batches in order; no assertion fails and no erased root
  is used; the least recently used pair is the one that leaves; sizes are bounded. Two closed
  theorems show what happens outside the intended use: without storage caching a read is stale, and
  more than \<^verbatim>\<open>max_views\<close> views before the first batch make \<^verbatim>\<open>on_new_block\<close> use an erased root.
\<close>

section \<open>Coherence with the database\<close>

text \<open>
  \<open>db v k\<close> is the value of key \<open>k\<close> in the plain state of database view \<open>v\<close>, the empty string when the
  key is absent. A batch describes the step from one view to the next when its writes are exactly the
  keys that differ.
\<close>

definition coherent :: "(u64 \<Rightarrow> bytes \<Rightarrow> bytes) \<Rightarrow> coherent_state_cache \<Rightarrow> bool" where
  "coherent db s \<longleftrightarrow>
     (\<forall>v r k x. root_at s v = Some r \<longrightarrow> bt_lookup (cache r) k = Some x \<longrightarrow> x = db v k)"

definition describes ::
  "(u64 \<Rightarrow> bytes \<Rightarrow> bytes) \<Rightarrow> ('a, 'h) cache_ext \<Rightarrow> ('a, 'h) state_change_batch \<Rightarrow> bool" where
  "describes db ext batch \<longleftrightarrow>
     (\<forall>k. db (database_view_id batch) k =
        (case map_of (rev (batch_writes ext True batch)) k of
           Some x \<Rightarrow> x
         | None \<Rightarrow> db (database_view_id batch - 1) k))"

lemma coherent_base:
  assumes "coherent db s" "bt_lookup (cache (base_root s v)) k = Some x"
  shows "x = db v k \<or> x = db (v - 1) k"
proof (cases "prev_root s v")
  case None
  with assms show ?thesis
    by (auto simp: base_root_def cur_root_def coherent_def new_root_def split: option.splits)
next
  case (Some p)
  with assms prev_root_at [OF Some] show ?thesis
    by (auto simp: base_root_def coherent_def)
qed

lemma coherent_written:
  assumes "coherent db s" "describes db ext batch" "v = database_view_id batch"
    and "bt_lookup c \<subseteq>\<^sub>m apply_writes (batch_writes ext True batch) (bt_lookup (cache (base_root s v)))"
    and "bt_lookup c k = Some x"
  shows "x = db v k"
proof -
  have "apply_writes (batch_writes ext True batch) (bt_lookup (cache (base_root s v))) k = Some x"
    using assms(4,5) by (auto simp: map_le_def dom_def)
  then consider "map_of (rev (batch_writes ext True batch)) k = Some x"
    | "map_of (rev (batch_writes ext True batch)) k = None" "bt_lookup (cache (base_root s v)) k = Some x"
    by (auto simp: apply_writes_map_of map_add_Some_iff)
  then show ?thesis
  proof cases
    case 1
    with assms(2,3) show ?thesis by (simp add: describes_def)
  next
    case 2
    moreover have "db v k = db (v - 1) k"
      using assms(2,3) 2(1) unfolding describes_def by (metis option.simps(4))
    ultimately show ?thesis
      using coherent_base [OF assms(1), of v k x] by auto
  qed
qed

lemma on_new_block_coherent:
  assumes "cache_inv s" "coherent db s" "advance_ok s (database_view_id batch)" "change_batch batch \<noteq> []"
    and "with_storage (config s)" "describes db ext batch"
  shows "\<exists>s'. on_new_block ext batch s = Ok s' \<and> cache_inv s' \<and> coherent db s' \<and> config s' = config s"
proof -
  let ?v = "database_view_id batch"
  obtain s' r where s': "on_new_block ext batch s = Ok s'" "cache_inv s'" "config s' = config s"
      "root_at s' ?v = Some r"
      "bt_lookup (cache r) \<subseteq>\<^sub>m apply_writes (batch_writes ext (with_storage (config s)) batch)
         (bt_lookup (cache (base_root s ?v)))"
      "\<And>w. w \<noteq> ?v \<Longrightarrow> root_at s' w = None \<or> root_at s' w = root_at s w"
    using on_new_block_step [OF assms(1,3,4), of ext] by metis
  have "coherent db s'"
    unfolding coherent_def
  proof (intro allI impI)
    fix v r' k x
    assume *: "root_at s' v = Some r'" "bt_lookup (cache r') k = Some x"
    show "x = db v k"
    proof (cases "v = ?v")
      case True
      with * s'(4,5) assms(5) show ?thesis
        using coherent_written [OF assms(2,6), of v "cache r"] by simp
    next
      case False
      with *(1) s'(6) [of v] have "root_at s v = Some r'" by auto
      with *(2) assms(2) show ?thesis by (auto simp: coherent_def)
    qed
  qed
  with s' show ?thesis by blast
qed

section \<open>Reading\<close>

lemma cache_inv_counters [simp]:
  "cache_inv (s\<lparr>state_hit_count := n\<rparr>) = cache_inv s"
  "cache_inv (s\<lparr>state_miss_count := n\<rparr>) = cache_inv s"
  "coherent db (s\<lparr>state_hit_count := n\<rparr>) = coherent db s"
  "coherent db (s\<lparr>state_miss_count := n\<rparr>) = coherent db s"
  by (simp_all add: cache_inv_def roots_ok_def latest_ok_def pointer_ok_def coherent_def split: option.split)

lemma touch_lru:
  assumes "lru_inv c es" "bt_lookup c k \<noteq> None"
  shows "lru_inv c (KV k [] # evictions_remove (KV k []) es)"
  using assms evictions_remove_keys [of "KV k []" es] evictions_remove_distinct [of es "KV k []"]
  by (auto simp: lru_inv_def)

lemma touch_inv:
  assumes "cache_inv s" "root_at s (latest_state_view_id s) = Some r" "bt_lookup (cache r) k \<noteq> None"
  shows "cache_inv (s\<lparr>state_hit_count := n,
            state_evictions := KV k [] # evictions_remove (KV k []) (state_evictions s)\<rparr>)"
  using assms touch_lru [of "cache r" "state_evictions s" k]
  by (simp add: cache_inv_def roots_ok_def latest_ok_def pointer_ok_def)

lemma coherent_evictions [simp]: "coherent db (s\<lparr>state_evictions := e\<rparr>) = coherent db s"
  by (simp add: coherent_def)

text \<open>A root that gained a pair of the database stays coherent.\<close>

lemma coherent_upd:
  assumes "coherent db s" "root_at s v = Some r" "root_at s' = (root_at s)(v \<mapsto> r')"
    and "bt_lookup (cache r') \<subseteq>\<^sub>m (bt_lookup (cache r))(k \<mapsto> db v k)"
  shows "coherent db s'"
  unfolding coherent_def
proof (intro allI impI)
  fix w q j x
  assume *: "root_at s' w = Some q" "bt_lookup (cache q) j = Some x"
  show "x = db w j"
  proof (cases "w = v")
    case True
    with * assms(3,4) have "((bt_lookup (cache r))(k \<mapsto> db v k)) j = Some x"
      by (auto simp: map_le_def dom_def)
    with True assms(1,2) show ?thesis by (auto simp: coherent_def split: if_splits)
  next
    case False
    with * assms(1,3) show ?thesis by (auto simp: coherent_def)
  qed
qed

lemma get_step:
  assumes inv: "cache_inv s" and coh: "coherent db s" and r: "root_at s v = Some r"
  shows "\<exists>s' ans. get (db v) k v s = Ok (s', ans) \<and> cache_inv s' \<and> coherent db s' \<and> config s' = config s \<and>
    (case ans of Some x \<Rightarrow> x = db v k | None \<Rightarrow> db v k = [])"
proof (cases "bt_find (KV k []) (cache r)")
  case (Some hit)
  then have hit: "bt_lookup (cache r) k = Some (kv_value hit)"
    using bt_find_Some by blast
  then have "kv_value hit = db v k"
    using coh r by (auto simp: coherent_def)
  moreover have "v = latest_state_view_id s \<Longrightarrow> cache_inv (s\<lparr>state_hit_count := state_hit_count s + 1,
            state_evictions := KV k [] # evictions_remove (KV k []) (state_evictions s)\<rparr>)"
    using touch_inv [OF inv, of r k] r hit by simp
  ultimately show ?thesis
    using Some r inv coh by (auto simp: get_def get_lookup_def Let_def)
next
  case None
  let ?s1 = "s\<lparr>state_miss_count := state_miss_count s + 1\<rparr>"
  show ?thesis
  proof (cases "db v k = []")
    case True
    with None r inv coh show ?thesis by (simp add: get_def get_lookup_def Let_def)
  next
    case False
    have inv1: "cache_inv ?s1" and r1: "root_at ?s1 v = Some r"
      using inv r by simp_all
    obtain s' r' where s': "add (KV k (db v k)) v v ?s1 = Ok (s', True)" "cache_inv s'"
        "root_at s' = (root_at ?s1)(v \<mapsto> r')" "config s' = config ?s1"
        "bt_lookup (cache r') \<subseteq>\<^sub>m (bt_lookup (cache r))(k \<mapsto> db v k)"
      by (rule add_step [OF inv1 r1, of "KV k (db v k)"]) simp
    have "coherent db s'"
      using coherent_upd [of db ?s1 v r s' r' k] coh r1 s'(3,5) by simp
    with s' None False r show ?thesis by (simp add: get_def get_lookup_def Let_def)
  qed
qed

lemma cache_inv_code_counters [simp]:
  "cache_inv (s\<lparr>code_hit_count := n\<rparr>) = cache_inv s"
  "cache_inv (s\<lparr>code_miss_count := n\<rparr>) = cache_inv s"
  by (simp_all add: cache_inv_def roots_ok_def latest_ok_def pointer_ok_def split: option.split)

lemma touch_code_inv:
  assumes "cache_inv s" "root_at s (latest_state_view_id s) = Some r" "bt_lookup (code_cache r) k \<noteq> None"
  shows "cache_inv (s\<lparr>code_hit_count := n,
            code_evictions := KV k [] # evictions_remove (KV k []) (code_evictions s)\<rparr>)"
  using assms touch_lru [of "code_cache r" "code_evictions s" k]
  by (simp add: cache_inv_def roots_ok_def latest_ok_def pointer_ok_def)

lemma get_code_step:
  assumes inv: "cache_inv s" and coh: "coherent db s"
  shows "\<exists>s' ans. get_code rd k v s = Ok (s', ans) \<and> cache_inv s' \<and> coherent db s' \<and> config s' = config s"
proof (cases "root_at s v")
  case None
  with inv coh show ?thesis by (simp add: get_code_def get_code_lookup_def)
next
  case (Some r)
  show ?thesis
  proof (cases "bt_find (KV k []) (code_cache r)")
    case (Some hit)
    then have "bt_lookup (code_cache r) k \<noteq> None"
      using bt_find_Some by blast
    with Some \<open>root_at s v = Some r\<close> inv coh touch_code_inv [OF inv, of r k] show ?thesis
      by (auto simp: get_code_def get_code_lookup_def Let_def coherent_def)
  next
    case None
    let ?s1 = "s\<lparr>code_miss_count := code_miss_count s + 1\<rparr>"
    have "cache_inv ?s1" "root_at ?s1 v = Some r"
      using inv Some by simp_all
    then obtain s' r' where s': "add_code (KV k (rd k)) v v ?s1 = Ok (s', True)" "cache_inv s'"
        "root_at s' = (root_at ?s1)(v \<mapsto> r')" "cache r' = cache r" "config s' = config ?s1"
      by (rule add_code_step [of _ _ _ "KV k (rd k)"]) simp
    then have "coherent db s'"
      using coh Some by (auto simp: coherent_def)
    with s' None Some inv coh show ?thesis
      by (auto simp: get_code_def get_code_lookup_def Let_def coherent_def)
  qed
qed

lemma get_view_step:
  assumes "cache_inv s" "coherent db s"
  shows "\<exists>s' w. get_view v s = Ok (s', w) \<and> cache_inv s' \<and> coherent db s' \<and> config s' = config s"
proof (cases "root_at s v")
  case (Some r)
  with assms show ?thesis by (simp add: get_view_def get_root_eq deref_def)
next
  case None
  have "cache_inv (set_root v new_root s)"
    using assms(1) None
    by (auto simp: cache_inv_def latest_ok_def pointer_ok_def set_root_roots_ok new_root_def bt_inv_def
        split: option.splits)
  moreover have "coherent db (set_root v new_root s)"
    using assms(2) by (auto simp: coherent_def new_root_def)
  ultimately show ?thesis
    using None by (simp add: get_view_def get_root_eq deref_def)
qed

section \<open>Reachable states\<close>

text \<open>
  The states of the cache of a daemon: it is created, transactions ask for views, batches arrive in
  order, and reads run. A read is two critical sections; \<open>lookup\<close> and \<open>late_add\<close> are the two sections
  with other operations between them, provided the root is still there when the second one runs.
\<close>

inductive cache_reach ::
  "(u64 \<Rightarrow> bytes \<Rightarrow> bytes) \<Rightarrow> ('a, 'h) cache_ext \<Rightarrow> coherent_cache_config \<Rightarrow> coherent_state_cache \<Rightarrow> bool"
  for db ext cfg where
  created: "make_cache cfg = Ok s \<Longrightarrow> cache_reach db ext cfg s"
| view: "cache_reach db ext cfg s \<Longrightarrow> get_view v s = Ok (s', w) \<Longrightarrow> cache_reach db ext cfg s'"
| block: "cache_reach db ext cfg s \<Longrightarrow> advance_ok s (database_view_id batch) \<Longrightarrow> describes db ext batch \<Longrightarrow>
    on_new_block ext batch s = Ok s' \<Longrightarrow> cache_reach db ext cfg s'"
| read: "cache_reach db ext cfg s \<Longrightarrow> get (db v) k v s = Ok (s', a) \<Longrightarrow> cache_reach db ext cfg s'"
| read_code: "cache_reach db ext cfg s \<Longrightarrow> get_code rd k v s = Ok (s', a) \<Longrightarrow> cache_reach db ext cfg s'"
| lookup: "cache_reach db ext cfg s \<Longrightarrow> get_lookup (db v) k v s = (s', out) \<Longrightarrow> cache_reach db ext cfg s'"
| late_add: "cache_reach db ext cfg s \<Longrightarrow> root_at s v = Some r \<Longrightarrow> add (KV k (db v k)) v v s = Ok (s', b) \<Longrightarrow>
    cache_reach db ext cfg s'"

lemma get_no_root: "root_at s v = None \<Longrightarrow> get rd k v s = Ok (s, None)"
  by (simp add: get_def get_lookup_def)

lemma get_lookup_step:
  assumes inv: "cache_inv s" and coh: "coherent db s" and out: "get_lookup rd k v s = (s', out)"
  shows "cache_inv s' \<and> coherent db s' \<and> config s' = config s"
proof (cases "root_at s v")
  case None
  with assms show ?thesis by (simp add: get_lookup_def)
next
  case (Some r)
  have "bt_find (KV k []) (cache r) = Some hit \<Longrightarrow> bt_lookup (cache r) k \<noteq> None" for hit
    using bt_find_Some by blast
  then show ?thesis
    using assms Some touch_inv [OF inv, of r k]
    by (auto simp: get_lookup_def Let_def split: option.splits if_splits)
qed

lemma cache_reach_inv:
  assumes "cache_reach db ext cfg s" "with_storage cfg"
  shows "cache_inv s \<and> coherent db s \<and> config s = cfg"
  using assms
proof (induction rule: cache_reach.induct)
  case (created s)
  then show ?case
    using init_cache_inv [of cfg] by (auto simp: make_cache_def coherent_def init_cache_def split: if_splits)
next
  case (view s v s' w)
  then show ?case using get_view_step [of s db v] by auto
next
  case (block s batch s')
  then show ?case
    using on_new_block_coherent [of s db batch ext] by (cases "change_batch batch = []") (auto simp: on_new_block_def)
next
  case (read s v k s' a)
  then show ?case
    using get_step [of s db v _ k] get_no_root [of s v] by (cases "root_at s v") auto
next
  case (read_code s rd k v s' a)
  then show ?case using get_code_step [of s db rd k v] by auto
next
  case (lookup s v k s' out)
  then show ?case using get_lookup_step [of s db "db v" k v s' out] by auto
next
  case (late_add s v r k s' b)
  then have "cache_inv s" "coherent db s" "config s = cfg" by auto
  then show ?case
    using late_add add_step [of s v r "KV k (db v k)"] coherent_upd [of db s v r s' _ k]
    by (metis Inr_inject KV_sel(1) KV_sel(2) prod.inject)
qed

section \<open>Sizes\<close>

lemma lru_length: "lru_inv c es \<Longrightarrow> length es = length c"
  using distinct_card [of "map kv_key es"] distinct_card [of "map kv_key c"] bt_inv_distinct [of c]
  by (simp add: lru_inv_def bt_lookup_dom)

lemma roots_card: "roots_ok s \<Longrightarrow> length (state_view_roots s) = card (dom (root_at s))"
  using distinct_card [of "map fst (state_view_roots s)"] by (simp add: roots_ok_def dom_map_of_conv_image_fst)

lemma card_words_above:
  assumes "unat m \<le> unat (v :: u64)"
  shows "card {w. v - m < w \<and> w \<le> v} \<le> unat m"
proof -
  have "unat (v - m) = unat v - unat m"
    using assms by (simp add: unat_sub_if')
  then have "unat ` {w. v - m < w \<and> w \<le> v} \<subseteq> {unat v - unat m <.. unat v}"
    by (auto simp: word_less_nat_alt word_le_nat_alt)
  then have "card (unat ` {w. v - m < w \<and> w \<le> v}) \<le> card {unat v - unat m <.. unat v}"
    by (intro card_mono) auto
  moreover have "card (unat ` {w. v - m < w \<and> w \<le> v}) = card {w. v - m < w \<and> w \<le> v}"
    by (rule card_image) (simp add: inj_on_def word_unat_eq_iff)
  ultimately show ?thesis using assms by simp
qed

lemma evict_roots_dom:
  assumes "\<not> length (state_view_roots s) \<le> unat (max_views (config s))" "v \<noteq> 0"
  shows "dom (root_at (evict_roots v s)) \<subseteq>
    {w. latest_state_view_id s - max_views (config s) + 1 < w} \<inter> dom (root_at s)"
  using assms map_of_filter_keys [of "\<lambda>u. \<not> u \<le> latest_state_view_id s - max_views (config s) + 1"
      "state_view_roots s"]
  by (auto simp: evict_roots_def Let_def split: if_splits)

section \<open>A concrete environment for the examples\<close>

definition demo_ext :: "(bytes, bytes) cache_ext" where
  "demo_ext = \<lparr>address_from_H160 = (\<lambda>a. a), bytes32_from_H256 = (\<lambda>h. h), keccak256 = (\<lambda>b. b),
               store_big_u64 = (\<lambda>n. [ucast n])\<rparr>"

definition demo_change :: "action \<Rightarrow> bytes \<Rightarrow> bytes \<Rightarrow> (bytes, bytes) account_change" where
  "demo_change a adr x = \<lparr>address = adr, incarnation = 1, act = a, data = x, code = [],
     storage_changes = [\<lparr>location = [9], change_data = x\<rparr>]\<rparr>"

definition demo_batch :: "u64 \<Rightarrow> action \<Rightarrow> bytes \<Rightarrow> (bytes, bytes) state_change_batch" where
  "demo_batch v a x = \<lparr>database_view_id = v, change_batch = [\<lparr>changes = [demo_change a [1] x]\<rparr>]\<rparr>"

definition demo_db :: "u64 \<Rightarrow> bytes \<Rightarrow> bytes" where
  "demo_db v k = (if v = 1 \<and> k = [1] then [7] else [])"

lemmas demo_defs = demo_ext_def demo_change_def demo_batch_def demo_db_def

lemma demo_reach_init: "cache_reach demo_db demo_ext default_config (init_cache default_config)"
  by (rule cache_reach.created) (simp add: make_cache_def default_config_def)

lemma demo_describes: "describes demo_db demo_ext (demo_batch 1 UPSERT [7])"
  by (simp add: describes_def batch_writes_def batch_changes_def change_writes_def demo_defs)

lemma demo_advance: "advance_ok (init_cache default_config) (database_view_id (demo_batch 1 UPSERT [7]))"
  by (simp add: advance_ok_def view_survives_def prev_root_def init_cache_def get_root_def set_root_def
      default_config_def demo_batch_def)

lemma demo_block:
  obtains s r where "on_new_block demo_ext (demo_batch 1 UPSERT [7]) (init_cache default_config) = Ok s"
    "latest_state_view_id s = 1" "root_at s 1 = Some r"
    "cache_reach demo_db demo_ext default_config s"
proof -
  have ne: "change_batch (demo_batch 1 UPSERT [7]) \<noteq> []" and v: "database_view_id (demo_batch 1 UPSERT [7]) = 1"
    by (simp_all add: demo_batch_def)
  obtain s r where s: "on_new_block demo_ext (demo_batch 1 UPSERT [7]) (init_cache default_config) = Ok s"
      "latest_state_view_id s = 1" "root_at s 1 = Some r"
    by (rule on_new_block_step [OF init_cache_inv demo_advance ne, of demo_ext]) (simp add: v)
  with cache_reach.block [OF demo_reach_init demo_advance demo_describes s(1)] that show thesis
    by blast
qed

section \<open>Properties\<close>





text \<open>
  C40: when the new root is among those that \<^verbatim>\<open>evict_roots\<close> deletes, \<^verbatim>\<open>on_new_block\<close> goes on to use it
  after it was erased. The witness is a fresh cache with the default configuration: six transactions
  ask for views 1 to 6 before the first batch arrives, and the batch for view 6 makes
  \<^verbatim>\<open>latest_state_view_id_ - max_views + 1\<close> wrap around below zero.
\<close>

theorem on_new_block_use_after_free:
  assumes "\<not> view_survives s (database_view_id batch)" "change_batch batch \<noteq> []"
  shows "on_new_block ext batch s = Throw Use_after_free"
  by (rule on_new_block_not_survives [OF assms])

theorem on_new_block_use_after_free_witness:
  "\<exists>s. fold_r (\<lambda>v s. bind_r (get_view v s) (\<lambda>(s', _). Ok s')) [1, 2, 3, 4, 5, 6] (init_cache default_config) = Ok s \<and>
     on_new_block demo_ext (demo_batch 6 UPSERT [7]) s = Throw Use_after_free"
proof -
  let ?s = "(init_cache default_config)\<lparr>state_view_roots := map (\<lambda>v. (v, new_root)) [1, 2, 3, 4, 5, 6]\<rparr>"
  have "\<not> view_survives ?s (database_view_id (demo_batch 6 UPSERT [7]))"
    by (simp add: view_survives_def init_cache_def get_root_def default_config_def demo_batch_def)
  then have "on_new_block demo_ext (demo_batch 6 UPSERT [7]) ?s = Throw Use_after_free"
    by (rule on_new_block_use_after_free) (simp add: demo_batch_def)
  moreover have "fold_r (\<lambda>v s. bind_r (get_view v s) (\<lambda>(s', _). Ok s')) [1, 2, 3, 4, 5, 6] (init_cache default_config) = Ok ?s"
    by (simp add: get_view_def get_root_def set_root_def deref_def init_cache_def)
  ultimately show ?thesis by blast
qed

text \<open>
  With storage caching switched off the cache serves stale storage: after the batch for view 2
  changed a slot that view 1 had cached, reading the slot in view 2 still returns the old value.
\<close>

lemma no_storage_reads_stale:
  "\<exists>s0 s1 s2 s3.
     make_cache (default_config\<lparr>with_storage := False\<rparr>) = Ok s0 \<and>
     on_new_block demo_ext (demo_batch 1 UPSERT [7]) s0 = Ok s1 \<and>
     get (\<lambda>k. if k = [1, 1, 9] then [5] else []) [1, 1, 9] 1 s1 = Ok (s2, Some [5]) \<and>
     on_new_block demo_ext (demo_batch 2 STORAGE [6]) s2 = Ok s3 \<and>
     batch_writes demo_ext True (demo_batch 2 STORAGE [6]) = [([1, 1, 9], [6])] \<and>
     (\<exists>s4. get (\<lambda>k. if k = [1, 1, 9] then [6] else []) [1, 1, 9] 2 s3 = Ok (s4, Some [5]))"
  unfolding make_cache_def init_cache_def default_config_def demo_batch_def demo_change_def
  by (simp add: on_new_block_def advance_root_def get_root_def deref_def set_root_def evict_roots_def
      process_change_def process_upsert_change_def add_def cache_add_def new_root_def Let_def
      get_def get_lookup_def kv_less_def kv_equal_def demo_ext_def batch_writes_def batch_changes_def
      change_writes_def composite_storage_key_def evictions_remove_def) blast

text \<open>
  When the eviction list of the latest view is full, adding a pair with a new key removes exactly
  the pair at the end of the list, the least recently used one, and keeps all the others.
\<close>

lemma add_evicts_least_recently_used:
  assumes "lru_inv c es" "es \<noteq> []" "length es = n" "bt_lookup c (kv_key kv) = None"
  shows "\<exists>c'. cache_add n True kv c es = Ok (c', kv # butlast es, True) \<and>
    bt_lookup c' = ((bt_lookup c)(kv_key kv \<mapsto> kv_value kv))(kv_key (last es) := None)"
proof -
  have bt: "bt_inv c" using assms(1) by (simp add: lru_inv_def)
  have "pushed kv c es = kv # es" using assms(4) by (simp add: pushed_def)
  then show ?thesis
    using cache_add_latest_cases [OF assms(1), of n kv] assms(2,3) bt
    by (simp add: Let_def bt.lookup_era cache_put_inv cache_put_lookup)
qed

lemma add_evicts_least_recently_used_witness:
  "\<exists>c'. cache_add 2 True (KV [3] [30]) [KV [1] [10], KV [2] [20]] [KV [2] [20], KV [1] [10]] =
      Ok (c', [KV [3] [30], KV [2] [20]], True) \<and> bt_lookup c' [1] = None \<and> bt_lookup c' [2] = Some [20]"
proof -
  have "lru_inv [KV [1] [10], KV [2] [20]] [KV [2] [20], KV [1] [10]]"
    by (auto simp: lru_inv_def bt_inv_def kv_less_def dom_def)
  from add_evicts_least_recently_used [OF this, of 2 "KV [3] [30]"] show ?thesis
    by auto
qed

text \<open>
  A read never makes the caches of the latest view grow beyond the configured number of keys: after
  it, the number of cached pairs is at most the larger of the limit and what it was before.
\<close>

lemma get_keeps_latest_bound:
  assumes "cache_reach db ext cfg s" "with_storage cfg"
    and "map_of (state_view_roots s) (latest_state_view_id s) = Some r"
    and "get (db v) k v s = Ok (s', ans)"
  shows "\<exists>r'. map_of (state_view_roots s') (latest_state_view_id s') = Some r' \<and>
    length (cache r') \<le> max (unat (max_state_keys cfg)) (length (cache r))"
proof -
  have s: "cache_inv s" "config s = cfg"
    using cache_reach_inv [OF assms(1,2)] by auto
  have s'_inv: "cache_inv s'"
    using cache_reach_inv [OF cache_reach.read [OF assms(1,4)] assms(2)] by auto
  have len: "length (state_evictions s) = length (cache r)"
    using s(1) assms(3) by (auto simp: cache_inv_def latest_ok_def lru_length)
  have touch: "length (KV k [] # evictions_remove (KV k []) (state_evictions s)) \<le> length (cache r)"
    if "v = latest_state_view_id s" "bt_lookup (cache r) k \<noteq> None"
    using touch_lru [of "cache r" "state_evictions s" k] s(1) assms(3) that lru_length
    by (fastforce simp: cache_inv_def latest_ok_def)
  have "\<exists>r'. root_at s' (latest_state_view_id s') = Some r' \<and>
     length (state_evictions s') \<le> max (unat (max_state_keys cfg)) (length (cache r))"
  proof (cases "get_lookup (db v) k v s")
    case (Pair s1 out)
    have 1: "root_at s1 = root_at s" "latest_state_view_id s1 = latest_state_view_id s" "config s1 = config s"
        "length (state_evictions s1) \<le> length (cache r)" "cache_inv s1"
      using Pair len touch assms(3) bt_find_Some get_lookup_step [OF s(1) _ Pair] cache_reach_inv [OF assms(1,2)]
      by (auto simp: get_lookup_def Let_def split: option.splits if_splits)
    show ?thesis
    proof (cases "\<exists>x. out = To_add x")
      case False
      then have "s' = s1" using assms(4) Pair by (cases out) (auto simp: get_def)
      with 1 assms(3) show ?thesis by simp
    next
      case True
      then obtain x where out: "out = To_add x" by blast
      then obtain q where q: "root_at s1 v = Some q"
        using Pair by (auto simp: get_lookup_def Let_def split: option.splits if_splits)
      show ?thesis
        by (rule add_step [OF 1(5) q, of "KV k x"])
          (use assms(3,4) Pair out 1 s(2) in \<open>auto simp: get_def\<close>)
    qed
  qed
  then obtain r' where "root_at s' (latest_state_view_id s') = Some r'"
      "length (state_evictions s') \<le> max (unat (max_state_keys cfg)) (length (cache r))"
    by blast
  moreover from this have "length (state_evictions s') = length (cache r')"
    using s'_inv by (auto simp: cache_inv_def latest_ok_def lru_length)
  ultimately show ?thesis by simp
qed

lemma get_keeps_latest_bound_witness:
  "\<exists>s r. cache_reach demo_db demo_ext default_config s \<and>
     map_of (state_view_roots s) (latest_state_view_id s) = Some r \<and>
     (\<exists>s' ans r'. get (demo_db 1) [1] 1 s = Ok (s', ans) \<and>
        map_of (state_view_roots s') (latest_state_view_id s') = Some r' \<and>
        length (cache r') \<le> max 1000000 (length (cache r)))"
proof -
  obtain s r where s: "latest_state_view_id s = 1" "root_at s 1 = Some r"
      and reach: "cache_reach demo_db demo_ext default_config s"
    by (rule demo_block)
  have wc: "with_storage default_config" by (simp add: default_config_def)
  obtain s' ans where "get (demo_db 1) [1] 1 s = Ok (s', ans)"
    using get_step [of s demo_db 1 r "[1]"] cache_reach_inv [OF reach wc] s(2) by auto
  with get_keeps_latest_bound [OF reach wc, of r 1 "[1]" s' ans] s reach show ?thesis
    by (auto simp: default_config_def)
qed

text \<open>
  When views advance one by one and no transaction is ahead of the latest view, a batch leaves at
  most \<^verbatim>\<open>max_views\<close> roots in the cache.
\<close>

lemma on_new_block_bounds_views:
  assumes "cache_inv s" "advance_ok s (database_view_id batch)" "change_batch batch \<noteq> []"
    and "database_view_id batch = latest_state_view_id s + 1" "database_view_id batch \<noteq> 0"
    and "max_views (config s) \<le> database_view_id batch"
    and "\<forall>w \<in> dom (map_of (state_view_roots s)). w \<le> database_view_id batch"
    and "on_new_block ext batch s = Ok s'"
  shows "length (state_view_roots s') \<le> unat (max_views (config s))"
proof -
  let ?v = "database_view_id batch" and ?m = "max_views (config s)"
  let ?b = "before_evict s ?v"
  obtain s2 where s2: "on_new_block ext batch s = Ok s2" "cache_inv s2"
      "dom (root_at s2) = dom (root_at (evict_roots ?v ?b))"
    by (rule on_new_block_step [OF assms(1-3), of ext])
  with assms(8) have inv: "roots_ok s'" and dom: "dom (root_at s') = dom (root_at (evict_roots ?v ?b))"
    by (auto simp: cache_inv_def)
  have b: "roots_ok ?b" using assms(1) by (simp add: cache_inv_def before_evict_roots_ok)
  show ?thesis
  proof (cases "length (state_view_roots ?b) \<le> unat ?m")
    case True
    then show ?thesis
      using roots_card [OF inv] roots_card [OF b] dom by (simp add: evict_roots_def)
  next
    case False
    have eq: "latest_state_view_id s - ?m + 1 = ?v - ?m" using assms(4) by simp
    have "dom (root_at s') \<subseteq> {w. ?v - ?m < w} \<inter> insert ?v (dom (root_at s))"
      using evict_roots_dom [of ?b ?v] assms(5) dom False
      unfolding before_evict_at before_evict_simps eq by simp
    moreover have "insert ?v (dom (root_at s)) \<subseteq> {w. w \<le> ?v}"
      using assms(7) by auto
    ultimately have "dom (root_at s') \<subseteq> {w. ?v - ?m < w \<and> w \<le> ?v}"
      by blast
    then have "card (dom (root_at s')) \<le> card {w. ?v - ?m < w \<and> w \<le> ?v}"
      by (intro card_mono) auto
    also have "\<dots> \<le> unat ?m"
      using assms(6) by (intro card_words_above) (simp add: word_le_nat_alt)
    finally show ?thesis using roots_card [OF inv] by simp
  qed
qed

lemma on_new_block_bounds_views_witness:
  "\<exists>s'. on_new_block demo_ext (demo_batch 1 UPSERT [7]) (init_cache (default_config\<lparr>max_views := 1\<rparr>)) = Ok s' \<and>
     length (state_view_roots s') \<le> 1"
proof -
  let ?s = "init_cache (default_config\<lparr>max_views := 1\<rparr>)" and ?b = "demo_batch 1 UPSERT [7]"
  have ok: "advance_ok ?s (database_view_id ?b)" and ne: "change_batch ?b \<noteq> []"
    by (simp_all add: advance_ok_def view_survives_def prev_root_def init_cache_def get_root_def set_root_def
        demo_batch_def)
  obtain s' where s': "on_new_block demo_ext ?b ?s = Ok s'"
    by (rule on_new_block_step [OF init_cache_inv ok ne])
  have "length (state_view_roots s') \<le> unat (max_views (config ?s))"
    by (rule on_new_block_bounds_views [OF init_cache_inv ok ne _ _ _ _ s'])
      (simp_all add: init_cache_def demo_batch_def)
  with s' show ?thesis by (simp add: init_cache_def)
qed

end
