(* ===== verification/Http_Parser.thy ===== *)
theory Http_Parser
  imports Prelude
begin

text \<open>
  The incremental HTTP request parser of \<^verbatim>\<open>http/request_parser.cpp\<close>: the request it fills, its states,
  \<^verbatim>\<open>consume\<close> for one character and \<^verbatim>\<open>parse\<close> for a buffer. A \<^verbatim>\<open>std::string\<close> is a list of characters.
  \<^verbatim>\<open>int\<close> fields are 32 bit words; signed overflow, which C++ leaves undefined, wraps.
\<close>

section \<open>Requests\<close>

record header =
  h_name :: string
  h_value :: string

definition Hdr :: "string \<Rightarrow> string \<Rightarrow> header" where
  "Hdr n v = \<lparr>h_name = n, h_value = v\<rparr>"

lemma Hdr_sel [simp]: "h_name (Hdr n v) = n" "h_value (Hdr n v) = v"
  by (simp_all add: Hdr_def)

lemma Hdr_collapse [simp]: "Hdr (h_name h) (h_value h) = h"
  by (simp add: Hdr_def)

text \<open>\<^verbatim>\<open>kExpectRequestHeader\<close>; \<^verbatim>\<open>operator==\<close> of headers compares both fields.\<close>

definition expect_request_header :: header where
  "expect_request_header = Hdr ''Expect'' ''100-continue''"

record request =
  rq_method :: string
  rq_uri :: string
  http_version_major :: u32
  http_version_minor :: u32
  rq_headers :: "header list"
  content_length :: u32
  rq_content :: string

text \<open>\<^verbatim>\<open>Request::reset\<close>.\<close>

definition request_reset :: "request \<Rightarrow> request" where
  "request_reset r = \<lparr>rq_method = [], rq_uri = [], http_version_major = 0, http_version_minor = 0,
     rq_headers = [], content_length = 0, rq_content = []\<rparr>"

definition empty_request :: request where
  "empty_request = \<lparr>rq_method = [], rq_uri = [], http_version_major = 0, http_version_minor = 0,
     rq_headers = [], content_length = 0, rq_content = []\<rparr>"

section \<open>The parser\<close>

datatype result_type = Good | Bad | Indeterminate | Processing_continue

datatype parser_state =
    Method_start | Method | Uri
  | Http_version_h | Http_version_t_1 | Http_version_t_2 | Http_version_p | Http_version_slash
  | Http_version_major_start | Http_version_major | Http_version_minor_start | Http_version_minor
  | Expecting_newline_1 | Header_line_start | Header_lws | Header_name | Space_before_header_value
  | Header_value | Expecting_newline_2 | Expecting_newline_3 | Content_start

definition is_char :: "int \<Rightarrow> bool" where
  "is_char c \<longleftrightarrow> c \<ge> 0 \<and> c \<le> 127"

definition is_ctl :: "int \<Rightarrow> bool" where
  "is_ctl c \<longleftrightarrow> (c \<ge> 0 \<and> c \<le> 31) \<or> c = 127"

definition is_tspecial :: "int \<Rightarrow> bool" where
  "is_tspecial c \<longleftrightarrow>
     c \<in> {40, 41, 60, 62, 64, 44, 59, 58, 92, 34, 47, 91, 93, 63, 61, 123, 125, 32, 9}"

definition is_digit :: "int \<Rightarrow> bool" where
  "is_digit c \<longleftrightarrow> c \<ge> 48 \<and> c \<le> 57"

lemmas char_class_defs = is_char_def is_ctl_def is_tspecial_def is_digit_def

text \<open>A character the parser accepts in a method or a header name.\<close>

definition is_token :: "char \<Rightarrow> bool" where
  "is_token c \<longleftrightarrow> \<not> (\<not> is_char (c_int c) \<or> is_ctl (c_int c) \<or> is_tspecial (c_int c))"

abbreviation CR :: char where "CR \<equiv> CHR 0x0D"
abbreviation LF :: char where "LF \<equiv> CHR 0x0A"
abbreviation HT :: char where "HT \<equiv> CHR 0x09"
abbreviation SP :: char where "SP \<equiv> CHR 0x20"

text \<open>\<^verbatim>\<open>v * 10 + input - '0'\<close> on \<^verbatim>\<open>int\<close>.\<close>

definition push_digit :: "u32 \<Rightarrow> char \<Rightarrow> u32" where
  "push_digit v c = v * 10 + word_of_int (c_int c - 48)"

text \<open>
  \<^verbatim>\<open>std::atoi\<close>: leading white space, an optional sign, then the longest run of digits; the result is
  converted to the \<^verbatim>\<open>uint32_t\<close> field, that is taken modulo \<open>2 ^ 32\<close>.
\<close>

definition is_space :: "char \<Rightarrow> bool" where
  "is_space c \<longleftrightarrow> c_int c = 32 \<or> (9 \<le> c_int c \<and> c_int c \<le> 13)"

fun atoi_digits :: "int \<Rightarrow> string \<Rightarrow> int" where
  "atoi_digits n [] = n"
| "atoi_digits n (c # cs) = (if is_digit (c_int c) then atoi_digits (n * 10 + (c_int c - 48)) cs else n)"

definition atoi :: "string \<Rightarrow> int" where
  "atoi str =
     (case dropWhile is_space str of
        [] \<Rightarrow> 0
      | c # cs \<Rightarrow> if c = CHR ''-'' then - atoi_digits 0 cs
                  else if c = CHR ''+'' then atoi_digits 0 cs
                  else atoi_digits 0 (c # cs))"

text \<open>\<^verbatim>\<open>headers.back()\<close> changed in place; on an empty vector this is undefined in C++.\<close>

definition upd_back :: "('a \<Rightarrow> 'a) \<Rightarrow> 'a list \<Rightarrow> 'a list" where
  "upd_back f xs = (if xs = [] then [] else butlast xs @ [f (last xs)])"

definition find_header :: "(header \<Rightarrow> bool) \<Rightarrow> request \<Rightarrow> header option" where
  "find_header P req = find P (rq_headers req)"

text \<open>The end of the header section: the length of the content and the continuation request.\<close>

definition end_of_headers :: "request \<Rightarrow> request \<times> result_type" where
  "end_of_headers req =
     (let after = (\<lambda>req. if content_length req = 0 then (req, Good)
                         else case find_header (\<lambda>h. h = expect_request_header) req of
                                Some _ \<Rightarrow> (req, Processing_continue)
                              | None \<Rightarrow> (req, Indeterminate))
      in if content_length req = 0
         then case find_header (\<lambda>h. h_name h = ''Content-Length'') req of
                None \<Rightarrow> (req, Bad)
              | Some h \<Rightarrow> after (req\<lparr>content_length := word_of_int (atoi (h_value h))\<rparr>)
         else after req)"

fun consume :: "parser_state \<Rightarrow> request \<Rightarrow> char \<Rightarrow> parser_state \<times> request \<times> result_type" where
  "consume Method_start req c =
     (if \<not> is_token c then (Method_start, req, Bad)
      else (Method, req\<lparr>rq_method := rq_method req @ [c]\<rparr>, Indeterminate))"
| "consume Method req c =
     (if c = SP then (Uri, req, Indeterminate)
      else if \<not> is_token c then (Method, req, Bad)
      else (Method, req\<lparr>rq_method := rq_method req @ [c]\<rparr>, Indeterminate))"
| "consume Uri req c =
     (if c = SP then (Http_version_h, req, Indeterminate)
      else if is_ctl (c_int c) then (Uri, req, Bad)
      else (Uri, req\<lparr>rq_uri := rq_uri req @ [c]\<rparr>, Indeterminate))"
| "consume Http_version_h req c =
     (if c = CHR ''H'' then (Http_version_t_1, req, Indeterminate) else (Http_version_h, req, Bad))"
| "consume Http_version_t_1 req c =
     (if c = CHR ''T'' then (Http_version_t_2, req, Indeterminate) else (Http_version_t_1, req, Bad))"
| "consume Http_version_t_2 req c =
     (if c = CHR ''T'' then (Http_version_p, req, Indeterminate) else (Http_version_t_2, req, Bad))"
| "consume Http_version_p req c =
     (if c = CHR ''P'' then (Http_version_slash, req, Indeterminate) else (Http_version_p, req, Bad))"
| "consume Http_version_slash req c =
     (if c = CHR ''/''
      then (Http_version_major_start, req\<lparr>http_version_major := 0, http_version_minor := 0\<rparr>, Indeterminate)
      else (Http_version_slash, req, Bad))"
| "consume Http_version_major_start req c =
     (if is_digit (c_int c)
      then (Http_version_major, req\<lparr>http_version_major := push_digit (http_version_major req) c\<rparr>, Indeterminate)
      else (Http_version_major_start, req, Bad))"
| "consume Http_version_major req c =
     (if c = CHR ''.'' then (Http_version_minor_start, req, Indeterminate)
      else if is_digit (c_int c)
      then (Http_version_major, req\<lparr>http_version_major := push_digit (http_version_major req) c\<rparr>, Indeterminate)
      else (Http_version_major, req, Bad))"
| "consume Http_version_minor_start req c =
     (if is_digit (c_int c)
      then (Http_version_minor, req\<lparr>http_version_minor := push_digit (http_version_minor req) c\<rparr>, Indeterminate)
      else (Http_version_minor_start, req, Bad))"
| "consume Http_version_minor req c =
     (if c = CR then (Expecting_newline_1, req, Indeterminate)
      else if is_digit (c_int c)
      then (Http_version_minor, req\<lparr>http_version_minor := push_digit (http_version_minor req) c\<rparr>, Indeterminate)
      else (Http_version_minor, req, Bad))"
| "consume Expecting_newline_1 req c =
     (if c = LF then (Header_line_start, req, Indeterminate) else (Expecting_newline_1, req, Bad))"
| "consume Header_line_start req c =
     (if c = CR then (Expecting_newline_3, req, Indeterminate)
      else if rq_headers req \<noteq> [] \<and> (c = SP \<or> c = HT) then (Header_lws, req, Indeterminate)
      else if \<not> is_token c then (Header_line_start, req, Bad)
      else (Header_name, req\<lparr>rq_headers := rq_headers req @ [Hdr [c] []]\<rparr>, Indeterminate))"
| "consume Header_lws req c =
     (if c = CR then (Expecting_newline_2, req, Indeterminate)
      else if c = SP \<or> c = HT then (Header_lws, req, Indeterminate)
      else if is_ctl (c_int c) then (Header_lws, req, Bad)
      else (Header_value,
            req\<lparr>rq_headers := upd_back (\<lambda>h. h\<lparr>h_value := h_value h @ [c]\<rparr>) (rq_headers req)\<rparr>, Indeterminate))"
| "consume Header_name req c =
     (if c = CHR '':'' then (Space_before_header_value, req, Indeterminate)
      else if \<not> is_token c then (Header_name, req, Bad)
      else (Header_name,
            req\<lparr>rq_headers := upd_back (\<lambda>h. h\<lparr>h_name := h_name h @ [c]\<rparr>) (rq_headers req)\<rparr>, Indeterminate))"
| "consume Space_before_header_value req c =
     (if c = SP then (Header_value, req, Indeterminate) else (Space_before_header_value, req, Bad))"
| "consume Header_value req c =
     (if c = CR then (Expecting_newline_2, req, Indeterminate)
      else if is_ctl (c_int c) then (Header_value, req, Bad)
      else (Header_value,
            req\<lparr>rq_headers := upd_back (\<lambda>h. h\<lparr>h_value := h_value h @ [c]\<rparr>) (rq_headers req)\<rparr>, Indeterminate))"
| "consume Expecting_newline_2 req c =
     (if c = LF then (Header_line_start, req, Indeterminate) else (Expecting_newline_2, req, Bad))"
| "consume Expecting_newline_3 req c =
     (if c = LF then (case end_of_headers req of (req', res) \<Rightarrow> (Content_start, req', res))
      else (Expecting_newline_3, req, Bad))"
| "consume Content_start req c =
     (let req' = req\<lparr>rq_content := rq_content req @ [c]\<rparr>
      in if length (rq_content req') < unat (content_length req')
         then (Content_start, req', Indeterminate) else (Content_start, req', Good))"

text \<open>
  \<^verbatim>\<open>parse\<close> consumes the characters of a buffer until one of them settles the request. The model also
  returns the state of the parser, which is a field of the class, and the rest of the buffer.
\<close>

fun parse :: "parser_state \<Rightarrow> request \<Rightarrow> string \<Rightarrow> result_type \<times> parser_state \<times> request \<times> string" where
  "parse st req [] = (Indeterminate, st, req, [])"
| "parse st req (c # cs) =
     (case consume st req c of (st', req', res) \<Rightarrow>
        if res = Good \<or> res = Bad \<or> res = Processing_continue then (res, st', req', cs)
        else parse st' req' cs)"

end
