(* ===== verification/Http_Parser_Props.thy ===== *)
theory Http_Parser_Props
  imports Http_Parser
begin

text \<open>
  Properties of the request parser: it does not depend on how the bytes of a request are cut into
  buffers, it recovers every well-formed request from its text, it never touches the last header when
  there is none, and a request it accepts has exactly the announced amount of content.
\<close>

section \<open>Buffers\<close>

lemma parse_append:
  "parse st req (xs @ ys) =
     (case parse st req xs of (res, st', req', rest) \<Rightarrow>
        if res = Indeterminate then parse st' req' ys else (res, st', req', rest @ ys))"
proof (induction xs arbitrary: st req)
  case Nil
  then show ?case by simp
next
  case (Cons c cs)
  obtain st' req' res where "consume st req c = (st', req', res)"
    by (cases "consume st req c")
  then show ?case using Cons.IH by (cases res) simp_all
qed

lemma parse_indeterminate_rest: "parse st req xs = (Indeterminate, st', req', rest) \<Longrightarrow> rest = []"
  by (induction xs arbitrary: st req) (auto split: prod.splits if_splits)

text \<open>\<open>runs\<close>: the buffer is consumed to its end without a verdict.\<close>

definition runs :: "parser_state \<Rightarrow> request \<Rightarrow> string \<Rightarrow> parser_state \<Rightarrow> request \<Rightarrow> bool" where
  "runs st req xs st' req' \<longleftrightarrow> parse st req xs = (Indeterminate, st', req', [])"

lemma runs_Nil: "runs st req [] st req"
  by (simp add: runs_def)

lemma runs_append: "runs st req xs st1 req1 \<Longrightarrow> runs st1 req1 ys st2 req2 \<Longrightarrow> runs st req (xs @ ys) st2 req2"
  by (simp add: runs_def parse_append)

lemma runs_Cons:
  "consume st req c = (st1, req1, Indeterminate) \<Longrightarrow> runs st1 req1 cs st2 req2 \<Longrightarrow> runs st req (c # cs) st2 req2"
  by (simp add: runs_def)

lemma runs_then_parse: "runs st req xs st1 req1 \<Longrightarrow> parse st req (xs @ ys) = parse st1 req1 ys"
  by (simp add: runs_def parse_append)

section \<open>Character classes\<close>

lemma token_not [simp]:
  "is_token c \<Longrightarrow> c \<noteq> SP" "is_token c \<Longrightarrow> c \<noteq> CR" "is_token c \<Longrightarrow> c \<noteq> HT" "is_token c \<Longrightarrow> c \<noteq> CHR '':''"
  by (auto simp: is_token_def char_class_defs c_int_def)

lemma ctl_CR [simp]: "is_ctl (c_int CR)"
  by (simp add: char_class_defs c_int_def)

section \<open>The parts of a request\<close>

lemma runs_method:
  "\<forall>c \<in> set m. is_token c \<Longrightarrow> runs Method req m Method (req\<lparr>rq_method := rq_method req @ m\<rparr>)"
proof (induction m arbitrary: req)
  case Nil
  then show ?case by (simp add: runs_Nil)
next
  case (Cons c cs)
  then have "consume Method req c = (Method, req\<lparr>rq_method := rq_method req @ [c]\<rparr>, Indeterminate)"
    by auto
  moreover have "runs Method (req\<lparr>rq_method := rq_method req @ [c]\<rparr>) cs Method (req\<lparr>rq_method := rq_method req @ c # cs\<rparr>)"
    using Cons.IH [of "req\<lparr>rq_method := rq_method req @ [c]\<rparr>"] Cons.prems by simp
  ultimately show ?case by (rule runs_Cons)
qed

lemma runs_uri:
  "\<forall>c \<in> set u. c \<noteq> SP \<and> \<not> is_ctl (c_int c) \<Longrightarrow> runs Uri req u Uri (req\<lparr>rq_uri := rq_uri req @ u\<rparr>)"
proof (induction u arbitrary: req)
  case Nil
  then show ?case by (simp add: runs_Nil)
next
  case (Cons c cs)
  then have "consume Uri req c = (Uri, req\<lparr>rq_uri := rq_uri req @ [c]\<rparr>, Indeterminate)"
    by auto
  moreover have "runs Uri (req\<lparr>rq_uri := rq_uri req @ [c]\<rparr>) cs Uri (req\<lparr>rq_uri := rq_uri req @ c # cs\<rparr>)"
    using Cons.IH [of "req\<lparr>rq_uri := rq_uri req @ [c]\<rparr>"] Cons.prems by simp
  ultimately show ?case by (rule runs_Cons)
qed

lemma upd_back_snoc [simp]: "upd_back f (xs @ [x]) = xs @ [f x]"
  by (simp add: upd_back_def)

lemma runs_header_name:
  "\<forall>c \<in> set n. is_token c \<Longrightarrow> rq_headers req = hs @ [Hdr n0 v] \<Longrightarrow>
     runs Header_name req n Header_name (req\<lparr>rq_headers := hs @ [Hdr (n0 @ n) v]\<rparr>)"
proof (induction n arbitrary: req n0)
  case Nil
  then show ?case by (simp add: runs_def)
next
  case (Cons c cs)
  let ?req = "req\<lparr>rq_headers := hs @ [Hdr (n0 @ [c]) v]\<rparr>"
  have "consume Header_name req c = (Header_name, ?req, Indeterminate)"
    using Cons.prems by (auto simp: Hdr_def)
  moreover have "runs Header_name ?req cs Header_name (req\<lparr>rq_headers := hs @ [Hdr (n0 @ c # cs) v]\<rparr>)"
    using Cons.IH [of ?req "n0 @ [c]"] Cons.prems by simp
  ultimately show ?case by (rule runs_Cons)
qed

lemma runs_header_value:
  "\<forall>c \<in> set w. \<not> is_ctl (c_int c) \<Longrightarrow> rq_headers req = hs @ [Hdr n v] \<Longrightarrow>
     runs Header_value req w Header_value (req\<lparr>rq_headers := hs @ [Hdr n (v @ w)]\<rparr>)"
proof (induction w arbitrary: req v)
  case Nil
  then show ?case by (simp add: runs_def)
next
  case (Cons c cs)
  let ?req = "req\<lparr>rq_headers := hs @ [Hdr n (v @ [c])]\<rparr>"
  have "consume Header_value req c = (Header_value, ?req, Indeterminate)"
    using Cons.prems by (auto simp: Hdr_def)
  moreover have "runs Header_value ?req cs Header_value (req\<lparr>rq_headers := hs @ [Hdr n (v @ c # cs)]\<rparr>)"
    using Cons.IH [of ?req "v @ [c]"] Cons.prems by simp
  ultimately show ?case by (rule runs_Cons)
qed

section \<open>Printing a request\<close>

definition print_header :: "header \<Rightarrow> string" where
  "print_header h = h_name h @ '': '' @ h_value h @ [CR, LF]"

definition print_request :: "string \<Rightarrow> string \<Rightarrow> char \<Rightarrow> char \<Rightarrow> header list \<Rightarrow> string \<Rightarrow> string" where
  "print_request m u major minor hs body =
     m @ '' '' @ u @ '' HTTP/'' @ [major] @ ''.'' @ [minor] @ [CR, LF] @ concat (map print_header hs) @ [CR, LF] @ body"

definition wf_header :: "header \<Rightarrow> bool" where
  "wf_header h \<longleftrightarrow> h_name h \<noteq> [] \<and> (\<forall>c \<in> set (h_name h). is_token c) \<and> (\<forall>c \<in> set (h_value h). \<not> is_ctl (c_int c))"

definition wf_line :: "string \<Rightarrow> string \<Rightarrow> char \<Rightarrow> char \<Rightarrow> bool" where
  "wf_line m u major minor \<longleftrightarrow> m \<noteq> [] \<and> (\<forall>c \<in> set m. is_token c) \<and>
     (\<forall>c \<in> set u. c \<noteq> SP \<and> \<not> is_ctl (c_int c)) \<and> is_digit (c_int major) \<and> is_digit (c_int minor)"

lemma runs_header_line:
  assumes "wf_header h"
  shows "runs Header_line_start req (print_header h) Header_line_start (req\<lparr>rq_headers := rq_headers req @ [h]\<rparr>)"
proof -
  obtain c n where n: "h_name h = c # n" using assms by (cases "h_name h") (auto simp: wf_header_def)
  let ?r1 = "req\<lparr>rq_headers := rq_headers req @ [Hdr [c] []]\<rparr>"
  let ?r2 = "req\<lparr>rq_headers := rq_headers req @ [Hdr (c # n) []]\<rparr>"
  let ?r3 = "req\<lparr>rq_headers := rq_headers req @ [Hdr (c # n) (h_value h)]\<rparr>"
  have tok: "is_token c" "\<forall>c \<in> set n. is_token c" and val: "\<forall>c \<in> set (h_value h). \<not> is_ctl (c_int c)"
    using assms n by (auto simp: wf_header_def)
  have "runs Header_line_start req [c] Header_name ?r1"
    using tok(1) by (auto simp: runs_def)
  moreover have "runs Header_name ?r1 n Header_name ?r2"
    using runs_header_name [OF tok(2), of ?r1 "rq_headers req" "[c]" "[]"] by simp
  moreover have "runs Header_name ?r2 '': '' Header_value ?r2"
    by (simp add: runs_def)
  moreover have "runs Header_value ?r2 (h_value h) Header_value ?r3"
    using runs_header_value [OF val, of ?r2 "rq_headers req" "c # n" "[]"] by simp
  moreover have "runs Header_value ?r3 [CR, LF] Header_line_start ?r3"
    by (simp add: runs_def)
  ultimately have "runs Header_line_start req ([c] @ n @ '': '' @ h_value h @ [CR, LF]) Header_line_start ?r3"
    by (blast intro: runs_append)
  moreover have "Hdr (c # n) (h_value h) = h" using n by (metis Hdr_collapse)
  ultimately show ?thesis using n by (simp add: print_header_def)
qed

lemma runs_headers:
  "\<forall>h \<in> set hs. wf_header h \<Longrightarrow>
     runs Header_line_start req (concat (map print_header hs)) Header_line_start
       (req\<lparr>rq_headers := rq_headers req @ hs\<rparr>)"
proof (induction hs arbitrary: req)
  case Nil
  then show ?case by (simp add: runs_Nil)
next
  case (Cons h hs)
  let ?req = "req\<lparr>rq_headers := rq_headers req @ [h]\<rparr>"
  have "runs Header_line_start req (print_header h) Header_line_start ?req"
    using Cons.prems by (simp add: runs_header_line)
  moreover have "runs Header_line_start ?req (concat (map print_header hs)) Header_line_start
      (req\<lparr>rq_headers := rq_headers req @ h # hs\<rparr>)"
    using Cons.IH [of ?req] Cons.prems by simp
  ultimately show ?case by (auto intro: runs_append)
qed

lemma runs_request_line:
  assumes "wf_line m u major minor"
  shows "runs Method_start empty_request
     (m @ '' '' @ u @ '' HTTP/'' @ [major] @ ''.'' @ [minor] @ [CR, LF]) Header_line_start
     (empty_request\<lparr>rq_method := m, rq_uri := u,
        http_version_major := push_digit 0 major, http_version_minor := push_digit 0 minor\<rparr>)"
proof -
  obtain c n where m: "m = c # n" using assms by (cases m) (auto simp: wf_line_def)
  let ?r1 = "empty_request\<lparr>rq_method := [c]\<rparr>" and ?r2 = "empty_request\<lparr>rq_method := m\<rparr>"
  let ?r3 = "empty_request\<lparr>rq_method := m, rq_uri := u\<rparr>"
  have tok: "is_token c" "\<forall>c \<in> set n. is_token c" "\<forall>c \<in> set u. c \<noteq> SP \<and> \<not> is_ctl (c_int c)"
    using assms m by (auto simp: wf_line_def)
  have "runs Method_start empty_request [c] Method ?r1"
    using tok(1) by (simp add: runs_def empty_request_def)
  moreover have "runs Method ?r1 n Method ?r2"
    using runs_method [OF tok(2), of ?r1] m by simp
  moreover have "runs Method ?r2 '' '' Uri ?r2"
    by (simp add: runs_def)
  moreover have "runs Uri ?r2 u Uri ?r3"
    using runs_uri [OF tok(3), of ?r2] by (simp add: empty_request_def)
  moreover have "runs Uri ?r3 ('' HTTP/'' @ [major] @ ''.'' @ [minor] @ [CR, LF]) Header_line_start
     (?r3\<lparr>http_version_major := push_digit 0 major, http_version_minor := push_digit 0 minor\<rparr>)"
    using assms by (simp add: runs_def wf_line_def)
  ultimately have "runs Method_start empty_request
     ([c] @ n @ '' '' @ u @ '' HTTP/'' @ [major] @ ''.'' @ [minor] @ [CR, LF]) Header_line_start
     (?r3\<lparr>http_version_major := push_digit 0 major, http_version_minor := push_digit 0 minor\<rparr>)"
    by (blast intro: runs_append)
  then show ?thesis using m by simp
qed

section \<open>Content\<close>

lemma parse_content:
  "length (rq_content req) + length body = unat (content_length req) \<Longrightarrow> body \<noteq> [] \<Longrightarrow>
     parse Content_start req (body @ rest) =
       (Good, Content_start, req\<lparr>rq_content := rq_content req @ body\<rparr>, rest)"
proof (induction body arbitrary: req)
  case Nil
  then show ?case by simp
next
  case (Cons c body)
  show ?case
  proof (cases body)
    case Nil
    then show ?thesis using Cons.prems by simp
  next
    case (Cons d body')
    with Cons.prems Cons.IH [of "req\<lparr>rq_content := rq_content req @ [c]\<rparr>"] show ?thesis
      by simp
  qed
qed

section \<open>atoi\<close>

lemma is_digit_digit_char [simp]: "d < 10 \<Longrightarrow> is_digit (c_int (digit_char d))"
  by (simp add: c_int_digit_char is_digit_def)

lemma atoi_digits_append:
  "\<forall>c \<in> set xs. is_digit (c_int c) \<Longrightarrow> atoi_digits n (xs @ ys) = atoi_digits (atoi_digits n xs) ys"
  by (induction xs arbitrary: n) auto

lemma to_string_is_digit: "\<forall>c \<in> set (to_string n). is_digit (c_int c)"
  using to_string_digits [of n] by auto

lemma atoi_digits_to_string: "atoi_digits 0 (to_string n) = int n"
proof (induction n rule: to_string.induct)
  case (1 n)
  show ?case
  proof (cases "n < 10")
    case True
    then show ?thesis by (subst to_string.simps) (simp add: c_int_digit_char is_digit_def)
  next
    case False
    with 1 have "atoi_digits 0 (to_string (n div 10)) = int (n div 10)" by simp
    then have "atoi_digits 0 (to_string (n div 10) @ [digit_char (n mod 10)]) = int (n div 10) * 10 + int (n mod 10)"
      using to_string_is_digit [of "n div 10"]
      by (simp add: atoi_digits_append c_int_digit_char is_digit_def)
    also have "\<dots> = int n" by (simp add: zdiv_int zmod_int)
    finally show ?thesis using False by (subst to_string.simps) simp
  qed
qed

lemma atoi_to_string: "atoi (to_string n) = int n"
proof -
  obtain c cs where cs: "to_string n = c # cs" by (cases "to_string n") auto
  then have c: "is_digit (c_int c)" using to_string_is_digit [of n] by simp
  then have "\<not> is_space c" "c \<noteq> CHR ''-''" "c \<noteq> CHR ''+''"
    by (auto simp: is_digit_def is_space_def c_int_def)
  then show ?thesis
    using cs atoi_digits_to_string [of n] by (simp add: atoi_def)
qed

section \<open>The invariant of the parser\<close>

definition parser_inv :: "parser_state \<Rightarrow> request \<Rightarrow> bool" where
  "parser_inv st req \<longleftrightarrow>
     (if st = Content_start then length (rq_content req) < unat (content_length req)
      else rq_content req = [] \<and> content_length req = 0) \<and>
     (st \<in> {Header_lws, Header_name, Space_before_header_value, Header_value, Expecting_newline_2}
        \<longrightarrow> rq_headers req \<noteq> [])"

lemma upd_back_nonempty [simp]: "upd_back f xs = [] \<longleftrightarrow> xs = []"
  by (simp add: upd_back_def)

lemma end_of_headers_inv:
  assumes "rq_content req = []" "content_length req = 0" "end_of_headers req = (req', res)"
  shows "res = Good \<longrightarrow> length (rq_content req') = unat (content_length req')"
    and "res \<noteq> Good \<longrightarrow> res \<noteq> Bad \<longrightarrow> rq_content req' = [] \<and> 0 < unat (content_length req')"
  using assms
  by (auto simp: end_of_headers_def Let_def unat_gt_0 split: option.splits if_splits)

lemma consume_inv:
  assumes "parser_inv st req" "consume st req c = (st', req', res)"
  shows "res = Good \<Longrightarrow> length (rq_content req') = unat (content_length req')"
    and "res = Indeterminate \<or> res = Processing_continue \<Longrightarrow> parser_inv st' req'"
proof -
  have "(res = Good \<longrightarrow> length (rq_content req') = unat (content_length req')) \<and>
     (res = Indeterminate \<or> res = Processing_continue \<longrightarrow> parser_inv st' req')"
  proof (cases st)
    case Expecting_newline_3
    then have "rq_content req = []" "content_length req = 0"
      using assms(1) by (auto simp: parser_inv_def)
    with assms(2) Expecting_newline_3 end_of_headers_inv [of req req' res] show ?thesis
      by (auto simp: parser_inv_def split: if_splits prod.splits)
  qed (use assms in \<open>auto simp: parser_inv_def Let_def split: if_splits\<close>)
  then show "res = Good \<Longrightarrow> length (rq_content req') = unat (content_length req')"
    "res = Indeterminate \<or> res = Processing_continue \<Longrightarrow> parser_inv st' req'"
    by blast+
qed

lemma parse_inv:
  assumes "parser_inv st req" "parse st req xs = (res, st', req', rest)"
  shows "(res = Good \<longrightarrow> length (rq_content req') = unat (content_length req')) \<and>
    (res = Indeterminate \<or> res = Processing_continue \<longrightarrow> parser_inv st' req')"
  using assms
proof (induction xs arbitrary: st req)
  case Nil
  then show ?case by auto
next
  case (Cons c cs)
  obtain st1 req1 res1 where c: "consume st req c = (st1, req1, res1)"
    by (cases "consume st req c")
  show ?case
  proof (cases "res1 = Indeterminate")
    case True
    with c Cons.prems consume_inv(2) [OF Cons.prems(1) c] show ?thesis
      by (intro Cons.IH [of st1 req1]) auto
  next
    case False
    then have "res = res1" "st' = st1" "req' = req1"
      using c Cons.prems(2) by (cases res1; simp)+
    then show ?thesis using consume_inv [OF Cons.prems(1) c] by auto
  qed
qed

lemma parser_inv_start: "parser_inv Method_start empty_request"
  by (simp add: parser_inv_def empty_request_def)

section \<open>Properties\<close>

definition parsed_request :: "string \<Rightarrow> string \<Rightarrow> char \<Rightarrow> char \<Rightarrow> header list \<Rightarrow> u32 \<Rightarrow> string \<Rightarrow> request" where
  "parsed_request m u major minor hs n body =
     \<lparr>rq_method = m, rq_uri = u, http_version_major = push_digit 0 major, http_version_minor = push_digit 0 minor,
      rq_headers = hs, content_length = n, rq_content = body\<rparr>"

lemma parse_print_head:
  assumes "wf_line m u major minor" "\<forall>h \<in> set hs. wf_header h"
  shows "parse Method_start empty_request (print_request m u major minor hs body @ rest) =
    parse Header_line_start (parsed_request m u major minor hs 0 []) ([CR, LF] @ body @ rest)"
proof -
  have "runs Method_start empty_request
     ((m @ '' '' @ u @ '' HTTP/'' @ [major] @ ''.'' @ [minor] @ [CR, LF]) @ concat (map print_header hs))
     Header_line_start (parsed_request m u major minor hs 0 [])"
    by (rule runs_append [OF runs_request_line [OF assms(1)]])
      (use runs_headers [OF assms(2), of "parsed_request m u major minor [] 0 []"] in
        \<open>simp add: parsed_request_def empty_request_def\<close>)
  from runs_then_parse [OF this, of "[CR, LF] @ body @ rest"] show ?thesis
    by (simp add: print_request_def)
qed

lemma parse_print_good:
  assumes "wf_line m u major minor" "\<forall>h \<in> set hs. wf_header h"
    and "find (\<lambda>h. h_name h = ''Content-Length'') hs = Some h" "h_value h = to_string (length body)"
    and "length body < 2 ^ 32" "expect_request_header \<notin> set hs"
  shows "parse Method_start empty_request (print_request m u major minor hs body @ rest) =
    (Good, Content_start, parsed_request m u major minor hs (of_nat (length body)) body, rest)"
proof -
  let ?r = "parsed_request m u major minor hs 0 []"
  let ?r' = "parsed_request m u major minor hs (of_nat (length body)) []"
  have no_expect: "find (\<lambda>h. h = expect_request_header) hs = None"
    using assms(6) by (simp add: find_None_iff)
  have len: "unat (of_nat (length body) :: u32) = length body"
    using assms(5) by (simp add: unat_of_nat)
  have "end_of_headers ?r = (?r', if body = [] then Good else Indeterminate)"
    using assms(3,4) no_expect len
    by (auto simp: end_of_headers_def find_header_def parsed_request_def atoi_to_string Let_def)
  then show ?thesis
    using parse_print_head [OF assms(1,2), of body rest] parse_content [of ?r' body rest] len
    by (cases "body = []") (simp_all add: parsed_request_def)
qed

text \<open>
  C11: the parser recovers every well-formed request from its text: the method, the target, the version
  digits, all headers in order and the content, and it leaves the bytes that follow the request
  unread. The request announces its length in a Content-Length header and asks for no continuation.
\<close>

theorem http_request_roundtrip:
  assumes "wf_line m u major minor" "\<forall>h \<in> set hs. wf_header h"
    and "find (\<lambda>h. h_name h = ''Content-Length'') hs = Some h" "h_value h = to_string (length body)"
    and "length body < 2 ^ 32" "expect_request_header \<notin> set hs"
  shows "parse Method_start empty_request (print_request m u major minor hs body @ rest) =
    (Good, Content_start, parsed_request m u major minor hs (of_nat (length body)) body, rest)"
  by (rule parse_print_good [OF assms])

theorem http_request_roundtrip_witness:
  "parse Method_start empty_request
     (print_request ''POST'' ''/'' (CHR ''1'') (CHR ''1'') [Hdr ''Host'' ''x'', Hdr ''Content-Length'' ''2''] ''{}'') =
    (Good, Content_start,
     parsed_request ''POST'' ''/'' (CHR ''1'') (CHR ''1'') [Hdr ''Host'' ''x'', Hdr ''Content-Length'' ''2''] 2 ''{}'', [])"
proof -
  let ?h = "Hdr ''Content-Length'' ''2''"
  have "h_value ?h = to_string (length ''{}'')" by code_simp
  moreover have "wf_line ''POST'' ''/'' (CHR ''1'') (CHR ''1'')"
    by (simp add: wf_line_def is_token_def char_class_defs c_int_def)
  moreover have "\<forall>h \<in> set [Hdr ''Host'' ''x'', ?h]. wf_header h"
    by (simp add: wf_header_def is_token_def char_class_defs c_int_def)
  ultimately show ?thesis
    using http_request_roundtrip [of "''POST''" "''/''" "CHR ''1''" "CHR ''1''" "[Hdr ''Host'' ''x'', ?h]" ?h "''{}''" "[]"]
    by (simp add: expect_request_header_def Hdr_def)
qed

text \<open>
  How a request is cut into buffers does not matter: parsing a first buffer and then, when it gave
  no verdict, the next one from the state that was left is the same as parsing both at once.
\<close>

lemma parse_buffers_compose:
  "parse st req (xs @ ys) =
     (case parse st req xs of (res, st', req', rest) \<Rightarrow>
        if res = Indeterminate then parse st' req' ys else (res, st', req', rest @ ys))"
  by (rule parse_append)

text \<open>
  Whatever bytes arrive, a request that is accepted holds exactly the number of content bytes its
  content length announces, and while more input is needed the parser stands in a state in which the
  header vector is not empty whenever the last header is about to be changed.
\<close>

lemma parse_content_exact:
  assumes "parse Method_start empty_request xs = (res, st, req, rest)"
  shows "(res = Good \<longrightarrow> length (rq_content req) = unat (content_length req)) \<and>
    (st \<in> {Header_lws, Header_name, Header_value} \<and> res = Indeterminate \<longrightarrow> rq_headers req \<noteq> [])"
  using parse_inv [OF parser_inv_start assms] by (auto simp: parser_inv_def)

lemma parse_content_exact_witness:
  "length (rq_content (fst (snd (snd (parse Method_start empty_request
     (print_request ''POST'' ''/'' (CHR ''1'') (CHR ''1'') [Hdr ''Content-Length'' ''2''] ''{}'')))))) = 2"
proof -
  let ?h = "Hdr ''Content-Length'' ''2''"
  let ?p = "parse Method_start empty_request (print_request ''POST'' ''/'' (CHR ''1'') (CHR ''1'') [?h] ''{}'')"
  obtain res st req rest where p: "?p = (res, st, req, rest)" by (cases ?p)
  have "fst ?p = Good \<and> content_length (fst (snd (snd ?p))) = 2"
    by code_simp
  then show ?thesis
    using parse_content_exact [OF p] p by simp
qed

end
