(* ===== verification/Http_Reply.thy ===== *)
theory Http_Reply
  imports Http_Parser_Props
begin

text \<open>
  Replies of \<^verbatim>\<open>http/reply.cpp\<close>: the status lines, the headers as buffers, the stock replies; and the
  read loop of \<^verbatim>\<open>http/connection.cpp\<close>, which feeds each buffer that arrives to the parser and hands a
  complete request on. A vector of buffers is a list of strings, written to the socket in order.
\<close>

section \<open>Status\<close>

datatype status_type =
    Processing_continue_100
  | Ok_200
  | Created
  | Accepted
  | No_content
  | Multiple_choices
  | Moved_permanently
  | Moved_temporarily
  | Not_modified
  | Bad_request
  | Unauthorized
  | Forbidden
  | Not_found
  | Internal_server_error
  | Not_implemented
  | Bad_gateway
  | Service_unavailable

fun status_code :: "status_type \<Rightarrow> nat" where
  "status_code Processing_continue_100 = 100"
| "status_code Ok_200 = 200"
| "status_code Created = 201"
| "status_code Accepted = 202"
| "status_code No_content = 204"
| "status_code Multiple_choices = 300"
| "status_code Moved_permanently = 301"
| "status_code Moved_temporarily = 302"
| "status_code Not_modified = 304"
| "status_code Bad_request = 400"
| "status_code Unauthorized = 401"
| "status_code Forbidden = 403"
| "status_code Not_found = 404"
| "status_code Internal_server_error = 500"
| "status_code Not_implemented = 501"
| "status_code Bad_gateway = 502"
| "status_code Service_unavailable = 503"

text \<open>The status line of each status, \<^verbatim>\<open>status_strings\<close> and \<^verbatim>\<open>to_buffer\<close>.\<close>

fun to_buffer :: "status_type \<Rightarrow> string" where
  "to_buffer Processing_continue_100 = ''HTTP/1.1 100 Continue'' @ [CR, LF]"
| "to_buffer Ok_200 = ''HTTP/1.1 200 OK'' @ [CR, LF]"
| "to_buffer Created = ''HTTP/1.1 201 Created'' @ [CR, LF]"
| "to_buffer Accepted = ''HTTP/1.1 202 Accepted'' @ [CR, LF]"
| "to_buffer No_content = ''HTTP/1.1 204 No Content'' @ [CR, LF]"
| "to_buffer Multiple_choices = ''HTTP/1.1 300 Multiple Choices'' @ [CR, LF]"
| "to_buffer Moved_permanently = ''HTTP/1.1 301 Moved Permanently'' @ [CR, LF]"
| "to_buffer Moved_temporarily = ''HTTP/1.1 302 Moved Temporarily'' @ [CR, LF]"
| "to_buffer Not_modified = ''HTTP/1.1 304 Not Modified'' @ [CR, LF]"
| "to_buffer Bad_request = ''HTTP/1.1 400 Bad Request'' @ [CR, LF]"
| "to_buffer Unauthorized = ''HTTP/1.1 401 Unauthorized'' @ [CR, LF]"
| "to_buffer Forbidden = ''HTTP/1.1 403 Forbidden'' @ [CR, LF]"
| "to_buffer Not_found = ''HTTP/1.1 404 Not Found'' @ [CR, LF]"
| "to_buffer Internal_server_error = ''HTTP/1.1 500 Internal Server Error'' @ [CR, LF]"
| "to_buffer Not_implemented = ''HTTP/1.1 501 Not Implemented'' @ [CR, LF]"
| "to_buffer Bad_gateway = ''HTTP/1.1 502 Bad Gateway'' @ [CR, LF]"
| "to_buffer Service_unavailable = ''HTTP/1.1 503 Service Unavailable'' @ [CR, LF]"

text \<open>The body of each stock reply, \<^verbatim>\<open>stock_replies::to_string\<close>.\<close>

fun stock_content :: "status_type \<Rightarrow> string" where
  "stock_content Processing_continue_100 = []"
| "stock_content Ok_200 = []"
| "stock_content Created =
     ''<html><head><title>Created</title></head><body><h1>201 Created</h1></body></html>''"
| "stock_content Accepted =
     ''<html><head><title>Accepted</title></head><body><h1>202 Accepted</h1></body></html>''"
| "stock_content No_content =
     ''<html><head><title>No Content</title></head><body><h1>204 Content</h1></body></html>''"
| "stock_content Multiple_choices =
     ''<html><head><title>Multiple Choices</title></head><body><h1>300 Multiple Choices</h1></body></html>''"
| "stock_content Moved_permanently =
     ''<html><head><title>Moved Permanently</title></head><body><h1>301 Moved Permanently</h1></body></html>''"
| "stock_content Moved_temporarily =
     ''<html><head><title>Moved Temporarily</title></head><body><h1>302 Moved Temporarily</h1></body></html>''"
| "stock_content Not_modified =
     ''<html><head><title>Not Modified</title></head><body><h1>304 Not Modified</h1></body></html>''"
| "stock_content Bad_request =
     ''<html><head><title>Bad Request</title></head><body><h1>400 Bad Request</h1></body></html>''"
| "stock_content Unauthorized =
     ''<html><head><title>Unauthorized</title></head><body><h1>401 Unauthorized</h1></body></html>''"
| "stock_content Forbidden =
     ''<html><head><title>Forbidden</title></head><body><h1>403 Forbidden</h1></body></html>''"
| "stock_content Not_found =
     ''<html><head><title>Not Found</title></head><body><h1>404 Not Found</h1></body></html>''"
| "stock_content Internal_server_error =
     ''<html><head><title>Internal Server Error</title></head><body><h1>500 Internal Server Error</h1></body></html>''"
| "stock_content Not_implemented =
     ''<html><head><title>Not Implemented</title></head><body><h1>501 Not Implemented</h1></body></html>''"
| "stock_content Bad_gateway =
     ''<html><head><title>Bad Gateway</title></head><body><h1>502 Bad Gateway</h1></body></html>''"
| "stock_content Service_unavailable =
     ''<html><head><title>Service Unavailable</title></head><body><h1>503 Service Unavailable</h1></body></html>''"

section \<open>Replies\<close>

record reply =
  rp_status :: status_type
  rp_headers :: "header list"
  rp_content :: string

text \<open>\<^verbatim>\<open>to_buffers\<close> for headers, for a status with headers, and for a reply.\<close>

definition headers_to_buffers :: "header list \<Rightarrow> string list" where
  "headers_to_buffers hs = concat (map (\<lambda>h. [h_name h, '': '', h_value h, [CR, LF]]) hs)"

definition status_to_buffers :: "status_type \<Rightarrow> header list \<Rightarrow> string list" where
  "status_to_buffers status hs = [to_buffer status] @ headers_to_buffers hs @ [[CR, LF]]"

definition reply_to_buffers :: "reply \<Rightarrow> string list" where
  "reply_to_buffers r = [to_buffer (rp_status r)] @ headers_to_buffers (rp_headers r) @ [[CR, LF]] @ [rp_content r]"

definition stock_reply :: "status_type \<Rightarrow> reply" where
  "stock_reply status =
     (let content = stock_content status in
      \<lparr>rp_status = status,
       rp_headers = (if status \<noteq> Processing_continue_100
                     then [Hdr ''Content-Length'' (to_string (length content)), Hdr ''Content-Type'' ''text/html'']
                     else []),
       rp_content = content\<rparr>)"

section \<open>The connection\<close>

text \<open>
  What one pass of \<^verbatim>\<open>do_read\<close> does with the bytes it read: a complete request is handed to the request
  handler, a malformed one is answered with the stock reply, a continuation request with status 100.
  \<^verbatim>\<open>clean\<close> resets the request and the parser. What follows a verdict in the buffer is not looked at.
\<close>

datatype conn_effect = Handle request | Write reply

record connection =
  conn_parser :: parser_state
  conn_request :: request

definition new_connection :: connection where
  "new_connection = \<lparr>conn_parser = Method_start, conn_request = empty_request\<rparr>"

definition clean :: "connection \<Rightarrow> connection" where
  "clean c = \<lparr>conn_parser = Method_start, conn_request = request_reset (conn_request c)\<rparr>"

definition do_read :: "connection \<Rightarrow> string \<Rightarrow> connection \<times> conn_effect list" where
  "do_read c buffer =
     (case parse (conn_parser c) (conn_request c) buffer of (res, st, req, _) \<Rightarrow>
        let c' = \<lparr>conn_parser = st, conn_request = req\<rparr> in
        case res of
          Good \<Rightarrow> (clean c', [Handle req])
        | Bad \<Rightarrow> (clean c', [Write (stock_reply Bad_request)])
        | Processing_continue \<Rightarrow> (c', [Write (stock_reply Processing_continue_100)])
        | Indeterminate \<Rightarrow> (c', []))"

fun read_loop :: "connection \<Rightarrow> string list \<Rightarrow> connection \<times> conn_effect list" where
  "read_loop c [] = (c, [])"
| "read_loop c (b # bs) =
     (case do_read c b of (c1, es) \<Rightarrow> (case read_loop c1 bs of (c2, es') \<Rightarrow> (c2, es @ es')))"

section \<open>Reading a reply back\<close>

text \<open>
  What a client does with the bytes: lines that end in CR LF up to the first empty one, then content.
\<close>

fun split_line :: "string \<Rightarrow> (string \<times> string) option" where
  "split_line [] = None"
| "split_line (c # cs) =
     (if c = CR \<and> cs \<noteq> [] \<and> hd cs = LF then Some ([], tl cs)
      else map_option (\<lambda>(l, rest). (c # l, rest)) (split_line cs))"

lemma split_line_length: "split_line s = Some (l, rest) \<Longrightarrow> length rest < length s"
  by (induction s arbitrary: l) (auto split: if_splits)

function read_lines :: "string \<Rightarrow> (string list \<times> string) option" where
  "read_lines s =
     (case split_line s of
        None \<Rightarrow> None
      | Some (l, rest) \<Rightarrow> if l = [] then Some ([], rest)
                         else map_option (\<lambda>(ls, body). (l # ls, body)) (read_lines rest))"
  by pat_completeness auto
termination
  by (relation "measure length") (auto dest: split_line_length)

declare read_lines.simps [simp del]

lemma split_line_append: "CR \<notin> set l \<Longrightarrow> split_line (l @ [CR, LF] @ rest) = Some (l, rest)"
  by (induction l) auto

lemma read_lines_line:
  "CR \<notin> set l \<Longrightarrow> l \<noteq> [] \<Longrightarrow> read_lines (l @ [CR, LF] @ rest) =
     map_option (\<lambda>(ls, body). (l # ls, body)) (read_lines rest)"
  using split_line_append [of l rest] by (subst read_lines.simps) simp

lemma read_lines_end: "read_lines ([CR, LF] @ body) = Some ([], body)"
  by (subst read_lines.simps) simp

definition header_line :: "header \<Rightarrow> string" where
  "header_line h = h_name h @ '': '' @ h_value h"

definition plain_header :: "header \<Rightarrow> bool" where
  "plain_header h \<longleftrightarrow> CR \<notin> set (h_name h) \<and> CR \<notin> set (h_value h)"

lemma header_line_plain: "plain_header h \<Longrightarrow> CR \<notin> set (header_line h) \<and> header_line h \<noteq> []"
  by (auto simp: plain_header_def header_line_def)

lemma headers_to_buffers_concat:
  "concat (headers_to_buffers hs) = concat (map (\<lambda>h. header_line h @ [CR, LF]) hs)"
  by (induction hs) (simp_all add: headers_to_buffers_def header_line_def)

lemma read_lines_headers:
  "\<forall>h \<in> set hs. plain_header h \<Longrightarrow>
     read_lines (concat (map (\<lambda>h. header_line h @ [CR, LF]) hs) @ [CR, LF] @ body) =
       Some (map header_line hs, body)"
proof (induction hs)
  case Nil
  then show ?case using read_lines_end [of body] by simp
next
  case (Cons h hs)
  let ?rest = "concat (map (\<lambda>h. header_line h @ [CR, LF]) hs) @ [CR, LF] @ body"
  have "read_lines (header_line h @ [CR, LF] @ ?rest) = Some (header_line h # map header_line hs, body)"
    using Cons header_line_plain [of h] read_lines_line [of "header_line h" ?rest] by simp
  then show ?case by simp
qed

definition status_line :: "status_type \<Rightarrow> string" where
  "status_line s = butlast (butlast (to_buffer s))"

lemma status_line_buffer: "to_buffer s = status_line s @ [CR, LF] \<and> CR \<notin> set (status_line s) \<and> status_line s \<noteq> []"
  by (cases s) (simp_all add: status_line_def)

lemma to_string_no_CR: "CR \<notin> set (to_string n)"
  using to_string_is_digit [of n] by (auto simp: is_digit_def c_int_def)

section \<open>Properties\<close>

text \<open>
  The bytes written for a reply read back as that reply: the status line, one line per header in
  order, and after the empty line the content and nothing else.
\<close>

lemma reply_reads_back:
  assumes "\<forall>h \<in> set (rp_headers r). plain_header h"
  shows "read_lines (concat (reply_to_buffers r)) =
    Some (status_line (rp_status r) # map header_line (rp_headers r), rp_content r)"
proof -
  let ?rest = "concat (map (\<lambda>h. header_line h @ [CR, LF]) (rp_headers r)) @ [CR, LF] @ rp_content r"
  have "concat (reply_to_buffers r) = status_line (rp_status r) @ [CR, LF] @ ?rest"
    using status_line_buffer [of "rp_status r"]
    by (simp add: reply_to_buffers_def headers_to_buffers_concat)
  then show ?thesis
    using read_lines_line [of "status_line (rp_status r)" ?rest] status_line_buffer [of "rp_status r"]
      read_lines_headers [OF assms, of "rp_content r"] by simp
qed

lemma reply_reads_back_witness:
  "read_lines (concat (reply_to_buffers (stock_reply Not_found))) =
     Some ([''HTTP/1.1 404 Not Found'', ''Content-Length: 85'', ''Content-Type: text/html''], stock_content Not_found)"
proof -
  have "to_string (length (stock_content Not_found)) = ''85''" by code_simp
  moreover have "\<forall>h \<in> set (rp_headers (stock_reply Not_found)). plain_header h"
    using to_string_no_CR by (simp add: stock_reply_def plain_header_def Let_def)
  ultimately show ?thesis
    using reply_reads_back [of "stock_reply Not_found"]
    by (simp add: stock_reply_def status_line_def header_line_def Let_def del: stock_content.simps)
qed

text \<open>
  Every stock reply announces the length of the body it carries, and only the continuation reply
  carries no headers; the announced length read back with the parser's own conversion is the length.
\<close>

lemma stock_reply_length:
  "rp_headers (stock_reply s) =
     (if s = Processing_continue_100 then []
      else [Hdr ''Content-Length'' (to_string (length (rp_content (stock_reply s)))), Hdr ''Content-Type'' ''text/html'']) \<and>
   atoi (to_string (length (rp_content (stock_reply s)))) = int (length (rp_content (stock_reply s)))"
  by (simp add: stock_reply_def Let_def atoi_to_string)

lemma read_loop_settled:
  assumes "parse (conn_parser c) (conn_request c) (concat bs) = (Good, st, req, [])" "[] \<notin> set bs"
  shows "read_loop c bs = (new_connection, [Handle req])"
  using assms
proof (induction bs arbitrary: c)
  case Nil
  then show ?case by simp
next
  case (Cons b bs)
  obtain res st1 req1 rest where b: "parse (conn_parser c) (conn_request c) b = (res, st1, req1, rest)"
    by (cases "parse (conn_parser c) (conn_request c) b")
  show ?case
  proof (cases "res = Indeterminate")
    case True
    with b Cons.prems have "parse st1 req1 (concat bs) = (Good, st, req, [])"
      by (simp add: parse_append)
    with Cons.IH [of "\<lparr>conn_parser = st1, conn_request = req1\<rparr>"] Cons.prems(2) b True show ?thesis
      by (simp add: do_read_def)
  next
    case False
    with b Cons.prems(1) have "res = Good" "req1 = req" "concat bs = []"
      by (simp_all add: parse_append)
    moreover from this have "bs = []" using Cons.prems(2) by (cases bs) auto
    ultimately show ?thesis
      using b by (simp add: do_read_def clean_def new_connection_def request_reset_def empty_request_def)
  qed
qed

text \<open>
  C16: a well-formed request reaches the request handler exactly once and unchanged, however the network
  cuts its bytes into non-empty buffers, and the connection is then ready for the next request.
\<close>

theorem connection_handles_request:
  assumes "wf_line m u major minor" "\<forall>h \<in> set hs. wf_header h"
    and "find (\<lambda>h. h_name h = ''Content-Length'') hs = Some h" "h_value h = to_string (length body)"
    and "length body < 2 ^ 32" "expect_request_header \<notin> set hs"
    and "concat bs = print_request m u major minor hs body" "[] \<notin> set bs"
  shows "read_loop new_connection bs =
    (new_connection, [Handle (parsed_request m u major minor hs (of_nat (length body)) body)])"
proof -
  let ?text = "print_request m u major minor hs body"
  have "\<exists>st req. parse Method_start empty_request ?text = (Good, st, req, []) \<and>
      req = parsed_request m u major minor hs (of_nat (length body)) body"
    using parse_print_good [OF assms(1-6), of "[]"] by simp
  then show ?thesis
    using read_loop_settled [of new_connection bs] assms(7,8) by (auto simp: new_connection_def)
qed

theorem connection_handles_request_witness:
  "read_loop new_connection [''POST / HTTP/1.1'', [CR, LF] @ ''Content-Length: 1'' @ [CR, LF, CR], [LF] @ ''x''] =
    (new_connection, [Handle (parsed_request ''POST'' ''/'' (CHR ''1'') (CHR ''1'') [Hdr ''Content-Length'' ''1''] 1 ''x'')])"
proof -
  let ?h = "Hdr ''Content-Length'' ''1''"
  have "h_value ?h = to_string (length ''x'')" by code_simp
  moreover have "wf_line ''POST'' ''/'' (CHR ''1'') (CHR ''1'')"
    by (simp add: wf_line_def is_token_def char_class_defs c_int_def)
  moreover have "\<forall>h \<in> set [?h]. wf_header h"
    by (simp add: wf_header_def is_token_def char_class_defs c_int_def)
  ultimately show ?thesis
    using connection_handles_request [of "''POST''" "''/''" "CHR ''1''" "CHR ''1''" "[?h]" ?h "''x''"
        "[''POST / HTTP/1.1'', [CR, LF] @ ''Content-Length: 1'' @ [CR, LF, CR], [LF] @ ''x'']"]
    by (simp add: expect_request_header_def Hdr_def print_request_def print_header_def)
qed

text \<open>
  Bytes that follow a complete request in the same buffer are dropped: a second request that
  arrives together with the first one is never handled.
\<close>

lemma pipelined_request_dropped:
  assumes "wf_line m u major minor" "\<forall>h \<in> set hs. wf_header h"
    and "find (\<lambda>h. h_name h = ''Content-Length'') hs = Some h" "h_value h = to_string (length body)"
    and "length body < 2 ^ 32" "expect_request_header \<notin> set hs"
  shows "read_loop new_connection [print_request m u major minor hs body @ second] =
    (new_connection, [Handle (parsed_request m u major minor hs (of_nat (length body)) body)])"
  using parse_print_good [OF assms, of second]
  by (simp add: do_read_def clean_def new_connection_def request_reset_def empty_request_def)

lemma pipelined_request_dropped_witness:
  "length (snd (read_loop new_connection
     [print_request ''GET'' ''/'' (CHR ''1'') (CHR ''1'') [Hdr ''Content-Length'' ''0''] [] @
      print_request ''GET'' ''/'' (CHR ''1'') (CHR ''1'') [Hdr ''Content-Length'' ''0''] []])) = 1"
proof -
  let ?h = "Hdr ''Content-Length'' ''0''"
  have "h_value ?h = to_string (length ([] :: string))" by code_simp
  moreover have "wf_line ''GET'' ''/'' (CHR ''1'') (CHR ''1'')"
    by (simp add: wf_line_def is_token_def char_class_defs c_int_def)
  moreover have "\<forall>h \<in> set [?h]. wf_header h"
    by (simp add: wf_header_def is_token_def char_class_defs c_int_def)
  ultimately show ?thesis
    using pipelined_request_dropped [of "''GET''" "''/''" "CHR ''1''" "CHR ''1''" "[?h]" ?h "[]"
        "print_request ''GET'' ''/'' (CHR ''1'') (CHR ''1'') [?h] []"]
    by (simp add: expect_request_header_def Hdr_def)
qed

end
