(* ===== verification/Writers.thy ===== *)
theory Writers
  imports Prelude
begin

text \<open>
  The writers of \<^verbatim>\<open>types/writer.cpp\<close>: \<^verbatim>\<open>StringWriter\<close>, which collects what it is given, and
  \<^verbatim>\<open>ChunksWriter\<close>, which sends it on in HTTP chunks of a fixed size. The contract of the interface
  \<^verbatim>\<open>Writer\<close> is the locale \<open>writer\<close>: writing appends. Both implementations are shown to meet it, the
  second one for text without NUL characters, and what a client of the socket decodes from the chunks
  is what was written.
\<close>

section \<open>The interface\<close>

locale writer =
  fixes wr :: "'w \<Rightarrow> string \<Rightarrow> 'w"
    and content :: "'w \<Rightarrow> string"
    and inv :: "'w \<Rightarrow> bool"
    and ok :: "string \<Rightarrow> bool"
  assumes inv_wr: "inv w \<Longrightarrow> ok s \<Longrightarrow> inv (wr w s)"
    and content_wr: "inv w \<Longrightarrow> ok s \<Longrightarrow> content (wr w s) = content w @ s"
begin

text \<open>A sequence of writes appends the concatenation.\<close>

lemma fold_writes:
  "inv w \<Longrightarrow> \<forall>s \<in> set ss. ok s \<Longrightarrow>
     inv (foldl wr w ss) \<and> content (foldl wr w ss) = content w @ concat ss"
  by (induction ss arbitrary: w) (simp_all add: inv_wr content_wr)

end

text \<open>A writer that takes any text.\<close>

locale total_writer = writer wr content inv "\<lambda>_. True"
  for wr :: "'w \<Rightarrow> string \<Rightarrow> 'w" and content :: "'w \<Rightarrow> string" and inv :: "'w \<Rightarrow> bool"

section \<open>StringWriter\<close>

definition string_write :: "string \<Rightarrow> string \<Rightarrow> string" where
  "string_write acc content = acc @ content"

interpretation sw: total_writer string_write "\<lambda>w. w" "\<lambda>_. True"
  by unfold_locales (simp_all add: string_write_def)

section \<open>ChunksWriter\<close>

abbreviation NUL :: char where "NUL \<equiv> CHR 0x00"
abbreviation chunk_CR :: char where "chunk_CR \<equiv> CHR 0x0D"
abbreviation chunk_LF :: char where "chunk_LF \<equiv> CHR 0x0A"

definition chunck_sep :: string where
  "chunck_sep = [chunk_CR, chunk_LF]"

definition final_chunck :: string where
  "final_chunck = ''0'' @ [chunk_CR, chunk_LF, chunk_CR, chunk_LF]"

record 'w chunks_writer =
  inner :: "'w"
  chunck_size :: nat
  available :: nat
  buffer :: string

definition make_chunks_writer :: "'w \<Rightarrow> nat \<Rightarrow> 'w chunks_writer" where
  "make_chunks_writer w n = \<lparr>inner = w, chunck_size = n, available = n, buffer = replicate n NUL\<rparr>"

text \<open>
  \<^verbatim>\<open>std::strncpy\<close>: the characters up to the first NUL, then NULs up to the count. \<open>put_bytes\<close> overwrites
  a part of a buffer.
\<close>

definition strncpy :: "string \<Rightarrow> nat \<Rightarrow> string" where
  "strncpy src count =
     (let s = takeWhile (\<lambda>c. c \<noteq> NUL) (take count src) in s @ replicate (count - length s) NUL)"

definition put_bytes :: "string \<Rightarrow> nat \<Rightarrow> string \<Rightarrow> string" where
  "put_bytes buf start bs = take start buf @ bs @ drop (start + length bs) buf"

text \<open>\<^verbatim>\<open>std::hex\<close> output of a size.\<close>

definition hex_digit :: "nat \<Rightarrow> char" where
  "hex_digit d = ''0123456789abcdef'' ! d"

fun to_hex_string :: "nat \<Rightarrow> string" where
  "to_hex_string n = (if n < 16 then [hex_digit n] else to_hex_string (n div 16) @ [hex_digit (n mod 16)])"

declare to_hex_string.simps [simp del]

definition flush :: "('w \<Rightarrow> string \<Rightarrow> 'w) \<Rightarrow> 'w chunks_writer \<Rightarrow> 'w chunks_writer" where
  "flush wr w =
     (let size = chunck_size w - available w;
          w1 = (if size > 0
                then w\<lparr>inner := wr (wr (wr (inner w) (to_hex_string size @ [chunk_CR, chunk_LF])) (take size (buffer w))) chunck_sep\<rparr>
                else w)
      in w1\<lparr>available := chunck_size w, buffer := replicate (chunck_size w) NUL\<rparr>)"

text \<open>
  The loop of \<^verbatim>\<open>write\<close>; \<open>start\<close> is the offset of \<^verbatim>\<open>buffer_start\<close> in the buffer. It returns only when it
  ends, so it is a partial function: with a chunk size of zero it would flush for ever.
\<close>

partial_function (option) write_loop ::
  "('w \<Rightarrow> string \<Rightarrow> 'w) \<Rightarrow> 'w chunks_writer \<Rightarrow> nat \<Rightarrow> string \<Rightarrow> 'w chunks_writer option" where
  "write_loop wr w start src =
     (if length src > 0
      then
        let count = min (available w) (length src);
            w1 = w\<lparr>buffer := put_bytes (buffer w) start (strncpy src count), available := available w - count\<rparr>;
            src1 = drop count src
        in if available w1 > 0 then Some w1
           else write_loop wr (flush wr w1) 0 src1
      else Some w)"

definition chunks_write :: "('w \<Rightarrow> string \<Rightarrow> 'w) \<Rightarrow> 'w chunks_writer \<Rightarrow> string \<Rightarrow> 'w chunks_writer option" where
  "chunks_write wr w content =
     (let size = length content; start = chunck_size w - available w
      in if available w > size
         then Some (w\<lparr>buffer := put_bytes (buffer w) start (strncpy content size), available := available w - size\<rparr>)
         else write_loop wr w start content)"

definition chunks_close :: "('w \<Rightarrow> string \<Rightarrow> 'w) \<Rightarrow> ('w \<Rightarrow> 'w) \<Rightarrow> 'w chunks_writer \<Rightarrow> 'w chunks_writer" where
  "chunks_close wr cl w = (let w1 = flush wr w in w1\<lparr>inner := cl (wr (inner w1) final_chunck)\<rparr>)"

section \<open>What the chunks carry\<close>

text \<open>One chunk on the wire, and a sequence of them.\<close>

definition chunk :: "string \<Rightarrow> string" where
  "chunk data = to_hex_string (length data) @ [chunk_CR, chunk_LF] @ data @ chunck_sep"

lemma strncpy_take: "NUL \<notin> set src \<Longrightarrow> count \<le> length src \<Longrightarrow> strncpy src count = take count src"
proof -
  assume "NUL \<notin> set src" "count \<le> length src"
  then have eq: "takeWhile (\<lambda>c. c \<noteq> NUL) (take count src) = take count src"
    by (intro takeWhile_eq_all_conv [THEN iffD2]) (metis in_set_takeD)
  from \<open>count \<le> length src\<close> show ?thesis unfolding strncpy_def Let_def eq by simp
qed

definition used :: "'w chunks_writer \<Rightarrow> string" where
  "used w = take (chunck_size w - available w) (buffer w)"

definition chunks_ok :: "'w chunks_writer \<Rightarrow> bool" where
  "chunks_ok w \<longleftrightarrow> 0 < chunck_size w \<and> 0 < available w \<and> available w \<le> chunck_size w \<and> length (buffer w) = chunck_size w"

lemma make_chunks_ok: "0 < n \<Longrightarrow> chunks_ok (make_chunks_writer w n) \<and> used (make_chunks_writer w n) = []"
  by (simp add: chunks_ok_def make_chunks_writer_def used_def)

text \<open>The bytes put at the end of the used part, while they fit.\<close>

lemma put_used:
  assumes "length (buffer w) = chunck_size w" "available w \<le> chunck_size w" "length bs \<le> available w"
  shows "take (chunck_size w - (available w - length bs)) (put_bytes (buffer w) (chunck_size w - available w) bs) =
      used w @ bs"
    and "length (put_bytes (buffer w) (chunck_size w - available w) bs) = chunck_size w"
proof -
  define start where "start = chunck_size w - available w"
  have e: "chunck_size w - (available w - length bs) = start + length bs" "start \<le> length (buffer w)"
    "start + length bs \<le> chunck_size w"
    using assms by (simp_all add: start_def)
  then have "length (take start (buffer w)) = start" by simp
  with e show "take (chunck_size w - (available w - length bs)) (put_bytes (buffer w) (chunck_size w - available w) bs) =
      used w @ bs"
    by (simp add: put_bytes_def used_def start_def [symmetric] take_append)
  show "length (put_bytes (buffer w) (chunck_size w - available w) bs) = chunck_size w"
    using e assms(1) by (simp add: put_bytes_def start_def [symmetric])
qed

section \<open>Over a writer that appends\<close>

context total_writer
begin

text \<open>What a flush and a write send over the inner writer, as a list of blocks.\<close>

lemma flush_spec:
  assumes "inv (inner w)" "length (buffer w) = chunck_size w" "available w \<le> chunck_size w" "0 < chunck_size w"
  shows "chunks_ok (flush wr w) \<and> used (flush wr w) = [] \<and> inv (inner (flush wr w)) \<and>
    chunck_size (flush wr w) = chunck_size w \<and> available (flush wr w) = chunck_size w \<and>
    content (inner (flush wr w)) = content (inner w) @ (if used w = [] then [] else chunk (used w))"
proof (cases "chunck_size w - available w = 0")
  case True
  then show ?thesis using assms by (simp add: flush_def chunks_ok_def used_def)
next
  case False
  then have "used w \<noteq> []" and "length (used w) = chunck_size w - available w"
    using assms by (auto simp: used_def)
  with False show ?thesis
    using assms by (simp add: flush_def Let_def chunks_ok_def used_def chunk_def inv_wr content_wr)
qed

lemma write_loop_spec:
  assumes "NUL \<notin> set src" "chunks_ok w" "inv (inner w)"
  shows "\<exists>w' ds. write_loop wr w (chunck_size w - available w) src = Some w' \<and> chunks_ok w' \<and> inv (inner w') \<and>
    chunck_size w' = chunck_size w \<and> [] \<notin> set ds \<and>
    content (inner w') = content (inner w) @ concat (map chunk ds) \<and> used w @ src = concat ds @ used w'"
  using assms
proof (induction "length src" arbitrary: src w rule: less_induct)
  case less
  show ?case
  proof (cases "src = []")
    case True
    then show ?thesis
      using less.prems by (subst write_loop.simps) (auto intro!: exI [of _ "[]"])
  next
    case False
    define count where "count = min (available w) (length src)"
    define w1 where "w1 = w\<lparr>buffer := put_bytes (buffer w) (chunck_size w - available w) (take count src),
      available := available w - count\<rparr>"
    have c: "0 < count" "count \<le> length src" "count \<le> available w" "length (take count src) = count"
      using False less.prems(2) by (auto simp: count_def chunks_ok_def)
    have step: "write_loop wr w (chunck_size w - available w) src =
        (if available w1 > 0 then Some w1 else write_loop wr (flush wr w1) 0 (drop count src))"
      using False c by (subst write_loop.simps)
        (simp add: count_def [symmetric] w1_def strncpy_take [OF less.prems(1)] Let_def)
    have u1: "used w1 = used w @ take count src" "length (buffer w1) = chunck_size w" "inner w1 = inner w"
      "chunck_size w1 = chunck_size w" "available w1 = available w - count"
      using put_used [of w "take count src"] c less.prems(2) by (simp_all add: w1_def used_def chunks_ok_def)
    show ?thesis
    proof (cases "available w1 > 0")
      case True
      then have "take count src = src" using u1(5) by (simp add: count_def)
      with True step u1 less.prems show ?thesis
        by (auto simp: chunks_ok_def intro!: exI [of _ "[]"])
    next
      case av: False
      have ne: "used w1 \<noteq> []" using u1(1) c by auto
      have pre: "inv (inner w1)" "length (buffer w1) = chunck_size w1" "available w1 \<le> chunck_size w1" "0 < chunck_size w1"
        using less.prems u1(2-5) by (auto simp: chunks_ok_def)
      have f: "chunks_ok (flush wr w1)" "used (flush wr w1) = []" "inv (inner (flush wr w1))"
        "chunck_size (flush wr w1) = chunck_size w" "available (flush wr w1) = chunck_size w"
        "content (inner (flush wr w1)) = content (inner w) @ chunk (used w1)"
        using flush_spec [of w1] pre u1(3-5) ne by simp_all
      have "length (drop count src) < length src" "NUL \<notin> set (drop count src)"
        using c False less.prems(1) by (auto dest: in_set_dropD)
      from less.hyps [OF this f(1,3)] f(2,4,5) obtain w' ds where w':
        "write_loop wr (flush wr w1) 0 (drop count src) = Some w'" "chunks_ok w'" "inv (inner w')"
        "chunck_size w' = chunck_size w" "[] \<notin> set ds"
        "content (inner w') = content (inner (flush wr w1)) @ concat (map chunk ds)"
        "drop count src = concat ds @ used w'"
        by auto
      have "used w @ src = used w1 @ drop count src"
        using u1(1) by simp
      then have "used w @ src = concat (used w1 # ds) @ used w'"
        using w'(7) by simp
      then show ?thesis
        using step av f(6) w' ne by (intro exI [of _ w'] exI [of _ "used w1 # ds"]) auto
    qed
  qed
qed

lemma chunks_write_spec:
  assumes "NUL \<notin> set s" "chunks_ok w" "inv (inner w)"
  shows "\<exists>w' ds. chunks_write wr w s = Some w' \<and> chunks_ok w' \<and> inv (inner w') \<and>
    chunck_size w' = chunck_size w \<and> [] \<notin> set ds \<and>
    content (inner w') = content (inner w) @ concat (map chunk ds) \<and> used w @ s = concat ds @ used w'"
proof (cases "available w > length s")
  case True
  let ?w = "w\<lparr>buffer := put_bytes (buffer w) (chunck_size w - available w) s, available := available w - length s\<rparr>"
  have "chunks_write wr w s = Some ?w"
    using True assms(1) by (simp add: chunks_write_def Let_def strncpy_take)
  moreover have "used ?w = used w @ s" "length (buffer ?w) = chunck_size w"
    using put_used [of w s] True assms(2) by (simp_all add: used_def chunks_ok_def)
  ultimately show ?thesis
    using assms True by (auto simp: chunks_ok_def intro!: exI [of _ ?w] exI [of _ "[]"])
next
  case False
  then show ?thesis using write_loop_spec [OF assms] by (simp add: chunks_write_def Let_def)
qed

end

section \<open>Reading the chunks back\<close>

text \<open>A receiver of the chunked transfer coding of HTTP/1.1, and the properties of one chunk.\<close>

definition hex_value_of :: "char \<Rightarrow> nat option" where
  "hex_value_of c = map_of (zip ''0123456789abcdef'' [0..<16]) c"

definition is_hex :: "char \<Rightarrow> bool" where
  "is_hex c \<longleftrightarrow> hex_value_of c \<noteq> None"

definition hex_value :: "string \<Rightarrow> nat" where
  "hex_value h = foldl (\<lambda>a c. 16 * a + the (hex_value_of c)) 0 h"

definition parse_size :: "string \<Rightarrow> (nat \<times> string) option" where
  "parse_size s =
     (let h = takeWhile is_hex s; r = dropWhile is_hex s
      in if h \<noteq> [] \<and> take 2 r = chunck_sep then Some (hex_value h, drop 2 r) else None)"

lemma parse_size_shorter: "parse_size s = Some (n, r) \<Longrightarrow> length r < length s"
proof -
  assume "parse_size s = Some (n, r)"
  then have "takeWhile is_hex s \<noteq> []" "r = drop 2 (dropWhile is_hex s)"
    by (auto simp: parse_size_def Let_def split: if_splits)
  moreover have "length s = length (takeWhile is_hex s) + length (dropWhile is_hex s)"
    by (metis length_append takeWhile_dropWhile_id)
  ultimately show ?thesis by (cases "takeWhile is_hex s") auto
qed

function dechunk :: "string \<Rightarrow> string \<times> string" where
  "dechunk s =
     (case parse_size s of
        None \<Rightarrow> ([], s)
      | Some (n, r) \<Rightarrow>
          if n = 0 then ([], r)
          else if n \<le> length r \<and> take 2 (drop n r) = chunck_sep
          then (case dechunk (drop (n + 2) r) of (d, rest) \<Rightarrow> (take n r @ d, rest))
          else ([], s))"
  by pat_completeness auto
termination
  by (relation "measure length") (auto dest!: parse_size_shorter)

declare dechunk.simps [simp del]

lemma hex_digit_value: "d < 16 \<Longrightarrow> hex_value_of (hex_digit d) = Some d"
proof -
  assume "d < 16"
  moreover have "\<forall>d \<in> set [0..<16]. hex_value_of (hex_digit d) = Some d"
    by code_simp
  ultimately show ?thesis by simp
qed

lemma to_hex_string_spec:
  "to_hex_string n \<noteq> [] \<and> (\<forall>c \<in> set (to_hex_string n). is_hex c) \<and> hex_value (to_hex_string n) = n"
proof (induction n rule: to_hex_string.induct)
  case (1 n)
  show ?case
  proof (cases "n < 16")
    case True
    then show ?thesis
      using hex_digit_value [of n] by (simp add: to_hex_string.simps [of n] is_hex_def hex_value_def)
  next
    case False
    then show ?thesis
      using 1 hex_digit_value [of "n mod 16"]
      by (simp add: to_hex_string.simps [of n] is_hex_def hex_value_def ball_Un)
  qed
qed

lemma not_hex_CR: "\<not> is_hex chunk_CR"
  by (simp add: is_hex_def hex_value_of_def upt_rec)

lemma parse_size_hex: "parse_size (to_hex_string n @ chunk_CR # chunk_LF # r) = Some (n, r)"
proof -
  have "takeWhile is_hex (to_hex_string n @ chunk_CR # chunk_LF # r) = to_hex_string n"
    "dropWhile is_hex (to_hex_string n @ chunk_CR # chunk_LF # r) = chunk_CR # chunk_LF # r"
    using to_hex_string_spec [of n] not_hex_CR by (simp_all add: takeWhile_append dropWhile_append)
  then show ?thesis
    using to_hex_string_spec [of n] by (simp add: parse_size_def Let_def chunck_sep_def)
qed

lemma dechunk_chunk:
  assumes "d \<noteq> []"
  shows "dechunk (chunk d @ s) = (d @ fst (dechunk s), snd (dechunk s))"
proof -
  have "chunk d @ s = to_hex_string (length d) @ chunk_CR # chunk_LF # (d @ chunck_sep @ s)"
    by (simp add: chunk_def)
  then show ?thesis
    using assms by (subst dechunk.simps) (simp add: parse_size_hex chunck_sep_def split: prod.splits)
qed

lemma dechunk_chunks:
  "[] \<notin> set ds \<Longrightarrow> dechunk (concat (map chunk ds) @ s) = (concat ds @ fst (dechunk s), snd (dechunk s))"
proof (induction ds)
  case (Cons d ds)
  then show ?case using dechunk_chunk [of d "concat (map chunk ds) @ s"] by auto
qed simp

lemma dechunk_Nil: "dechunk [] = ([], [])"
  by (subst dechunk.simps) (simp add: parse_size_def Let_def)

lemma dechunk_final: "dechunk final_chunck = ([], chunck_sep)"
proof -
  have "final_chunck = to_hex_string 0 @ chunk_CR # chunk_LF # chunck_sep"
    by (simp add: final_chunck_def chunck_sep_def to_hex_string.simps hex_digit_def)
  then have "parse_size final_chunck = Some (0, chunck_sep)" by (metis parse_size_hex)
  then show ?thesis by (simp add: dechunk.simps [of final_chunck])
qed

section \<open>The chunk writer is a writer\<close>

text \<open>
  The chunk writer over a collected string: what it has sent, decoded, and what it still holds. With a
  positive chunk size every write returns, and what a write does is append.
\<close>

definition chunk_content :: "string chunks_writer \<Rightarrow> string" where
  "chunk_content w = fst (dechunk (inner w)) @ used w"

definition chunk_inv :: "string chunks_writer \<Rightarrow> bool" where
  "chunk_inv w \<longleftrightarrow> chunks_ok w \<and> (\<exists>ds. [] \<notin> set ds \<and> inner w = concat (map chunk ds))"

definition chunks_write_total :: "string chunks_writer \<Rightarrow> string \<Rightarrow> string chunks_writer" where
  "chunks_write_total w s = the (chunks_write string_write w s)"

lemma chunks_write_string:
  assumes "chunk_inv w" "NUL \<notin> set s"
  shows "\<exists>w'. chunks_write string_write w s = Some w' \<and> chunk_inv w' \<and> chunk_content w' = chunk_content w @ s"
proof -
  from assms(1) obtain ds where ds: "[] \<notin> set ds" "inner w = concat (map chunk ds)" and ok: "chunks_ok w"
    by (auto simp: chunk_inv_def)
  from sw.chunks_write_spec [OF assms(2) ok] obtain w' es where
    w: "chunks_write string_write w s = Some w'" "chunks_ok w'" "[] \<notin> set es"
      "inner w' = inner w @ concat (map chunk es)" "used w @ s = concat es @ used w'"
    by blast
  have "inner w' = concat (map chunk (ds @ es))" "[] \<notin> set (ds @ es)"
    using w ds by simp_all
  then have "chunk_inv w'" using w(2) unfolding chunk_inv_def by blast
  moreover have "chunk_content w' = chunk_content w @ s"
    using dechunk_chunks [of ds "[]"] dechunk_chunks [of "ds @ es" "[]"] ds w
    by (simp add: chunk_content_def dechunk_Nil)
  ultimately show ?thesis using w(1) by blast
qed

interpretation cw: writer chunks_write_total chunk_content chunk_inv "\<lambda>s. NUL \<notin> set s"
proof
  fix w s assume "chunk_inv w" "NUL \<notin> set s"
  from chunks_write_string [OF this] show "chunk_inv (chunks_write_total w s)"
    by (auto simp: chunks_write_total_def)
next
  fix w s assume "chunk_inv w" "NUL \<notin> set s"
  from chunks_write_string [OF this] show "chunk_content (chunks_write_total w s) = chunk_content w @ s"
    by (auto simp: chunks_write_total_def)
qed

lemma chunk_inv_make: "0 < n \<Longrightarrow> chunk_inv (make_chunks_writer [] n) \<and> chunk_content (make_chunks_writer [] n) = []"
  using make_chunks_ok [of n "[]"]
  by (auto simp: chunk_inv_def chunk_content_def make_chunks_writer_def dechunk_Nil intro!: exI [of _ "[]"])

lemma chunks_close_content:
  assumes "chunk_inv w"
  shows "dechunk (inner (chunks_close string_write (\<lambda>x. x) w)) = (chunk_content w, chunck_sep)"
proof -
  from assms obtain ds where ds: "[] \<notin> set ds" "inner w = concat (map chunk ds)" and ok: "chunks_ok w"
    by (auto simp: chunk_inv_def)
  define es where "es = (if used w = [] then ds else ds @ [used w])"
  have "inner (flush string_write w) = concat (map chunk es)" "[] \<notin> set es" "concat es = chunk_content w"
    using sw.flush_spec [of w] ok ds dechunk_chunks [of ds "[]"]
    by (auto simp: es_def chunks_ok_def chunk_content_def dechunk_Nil)
  then show ?thesis
    using dechunk_chunks [of es final_chunck] by (simp add: chunks_close_def Let_def string_write_def dechunk_final)
qed

text \<open>A sequence of calls of \<^verbatim>\<open>write\<close>; None when one of them does not return.\<close>

fun chunks_write_all :: "string chunks_writer \<Rightarrow> string list \<Rightarrow> string chunks_writer option" where
  "chunks_write_all w [] = Some w"
| "chunks_write_all w (s # ss) =
     (case chunks_write string_write w s of None \<Rightarrow> None | Some w' \<Rightarrow> chunks_write_all w' ss)"

lemma chunks_write_all_foldl:
  "chunk_inv w \<Longrightarrow> \<forall>s \<in> set ss. NUL \<notin> set s \<Longrightarrow>
     chunks_write_all w ss = Some (foldl chunks_write_total w ss)"
proof (induction ss arbitrary: w)
  case (Cons s ss)
  then obtain w' where w': "chunks_write string_write w s = Some w'" "chunk_inv w'"
    using chunks_write_string [of w s] by auto
  then show ?case
    using Cons by (auto simp: chunks_write_total_def)
qed simp

text \<open>
  C26: With a chunk size greater than zero, every sequence of writes of text without NUL characters
  returns, and after \<^verbatim>\<open>close\<close> the receiver of the chunked transfer coding decodes exactly the
  concatenation of the texts, followed by the empty trailer.
\<close>
theorem chunks_transfer_exact:
  assumes "0 < n" "\<forall>s \<in> set ss. NUL \<notin> set s"
  shows "\<exists>w. chunks_write_all (make_chunks_writer [] n) ss = Some w \<and>
    dechunk (inner (chunks_close string_write (\<lambda>x. x) w)) = (concat ss, chunck_sep)"
proof -
  note mk = chunk_inv_make [OF assms(1)]
  from cw.fold_writes [OF conjunct1 [OF mk] assms(2)] mk
  have "chunk_inv (foldl chunks_write_total (make_chunks_writer [] n) ss)"
    "chunk_content (foldl chunks_write_total (make_chunks_writer [] n) ss) = concat ss"
    by simp_all
  then show ?thesis
    using chunks_write_all_foldl [OF conjunct1 [OF mk] assms(2)] chunks_close_content by simp
qed

theorem chunks_transfer_exact_witness:
  "\<exists>w. chunks_write_all (make_chunks_writer [] 4) [''hello'', ''{}'', [], ''world''] = Some w \<and>
    dechunk (inner (chunks_close string_write (\<lambda>x. x) w)) = (''hello{}world'', chunck_sep)"
  using chunks_transfer_exact [of 4 "[''hello'', ''{}'', [], ''world'']"] by simp

text \<open>The loop of \<^verbatim>\<open>write\<close> does not end when the chunk size is zero.\<close>

lemma write_loop_size_zero:
  "write_loop wr w start src = Some w' \<Longrightarrow> chunck_size w = 0 \<and> available w = 0 \<longrightarrow> src = []"
proof (induction wr w start src w' rule: write_loop.raw_induct [rotated, consumes 1, case_names 1])
  case (1 f wr w start src w')
  show ?case
  proof (rule ccontr)
    let ?w = "w\<lparr>available := 0, buffer := []\<rparr>"
    assume "\<not> ?thesis"
    then have z: "chunck_size w = 0" "available w = 0" "src \<noteq> []" by auto
    have fl: "flush wr (w\<lparr>buffer := bs, available := 0\<rparr>) = ?w" for bs
      using z by (simp add: flush_def Let_def)
    have "f wr ?w 0 src = Some w'" using 1(2) z fl by (simp add: Let_def)
    then show False using 1(1) [of wr ?w 0 src w'] z by simp
  qed
qed

text \<open>
  With a chunk size of zero, \<^verbatim>\<open>write\<close> never returns, whatever non-empty text it is given.
\<close>
lemma chunks_write_zero_diverges:
  "s \<noteq> [] \<Longrightarrow> chunks_write wr (make_chunks_writer w 0) s = None"
  using write_loop_size_zero [of wr "make_chunks_writer w 0" 0 s]
  by (cases "write_loop wr (make_chunks_writer w 0) 0 s") (auto simp: chunks_write_def make_chunks_writer_def Let_def)

lemma chunks_write_zero_diverges_witness:
  "chunks_write string_write (make_chunks_writer [] 0) ''a'' = None"
  using chunks_write_zero_diverges [of "''a''" string_write "[]"] by simp

end
