(* ===== verification/Json_Stream.thy ===== *)
theory Json_Stream
  imports Writers
begin

text \<open>
  The streaming JSON writer of \<^verbatim>\<open>json/stream.cpp\<close>: a stack of marks decides where commas go. The
  operations are modelled over any writer; \<^verbatim>\<open>nlohmann::json::dump\<close> is the parameter \<open>dump\<close>. The calls
  that stream a document are compared with its rendering.
\<close>

section \<open>The stream\<close>

datatype mark = Object_open | Array_open | Field_written | Entry_written

record 'w stream =
  writer_ref :: "'w"
  stack :: "mark list"

definition make_stream :: "'w \<Rightarrow> 'w stream" where
  "make_stream w = \<lparr>writer_ref = w, stack = []\<rparr>"

text \<open>\<^verbatim>\<open>std::stack::pop\<close> on an empty stack is undefined behaviour.\<close>

definition pop :: "'w stream \<Rightarrow> 'w stream result" where
  "pop s = (case stack s of [] \<Rightarrow> Throw Stack_underflow | m # ms \<Rightarrow> Ok (s\<lparr>stack := ms\<rparr>))"

definition put :: "('w \<Rightarrow> string \<Rightarrow> 'w) \<Rightarrow> string \<Rightarrow> 'w stream \<Rightarrow> 'w stream" where
  "put wr str s = s\<lparr>writer_ref := wr (writer_ref s) str\<rparr>"

definition push :: "mark \<Rightarrow> 'w stream \<Rightarrow> 'w stream" where
  "push m s = s\<lparr>stack := m # stack s\<rparr>"

definition top_is :: "mark list \<Rightarrow> 'w stream \<Rightarrow> bool" where
  "top_is ms s \<longleftrightarrow> (case stack s of [] \<Rightarrow> False | m # _ \<Rightarrow> m \<in> set ms)"

definition begin_entry :: "('w \<Rightarrow> string \<Rightarrow> 'w) \<Rightarrow> 'w stream \<Rightarrow> 'w stream" where
  "begin_entry wr s =
     (if top_is [Array_open, Entry_written] s
      then if \<not> top_is [Entry_written] s then push Entry_written s else put wr '','' s
      else s)"

definition open_object :: "('w \<Rightarrow> string \<Rightarrow> 'w) \<Rightarrow> 'w stream \<Rightarrow> 'w stream" where
  "open_object wr s = push Object_open (put wr ''{'' (begin_entry wr s))"

definition close_object :: "('w \<Rightarrow> string \<Rightarrow> 'w) \<Rightarrow> 'w stream \<Rightarrow> 'w stream result" where
  "close_object wr s =
     bind_r (if top_is [Field_written] s then pop s else Ok s) (\<lambda>s.
     bind_r (pop s) (\<lambda>s. Ok (put wr ''}'' s)))"

definition open_array :: "('w \<Rightarrow> string \<Rightarrow> 'w) \<Rightarrow> 'w stream \<Rightarrow> 'w stream" where
  "open_array wr s = push Array_open (put wr ''['' s)"

definition close_array :: "('w \<Rightarrow> string \<Rightarrow> 'w) \<Rightarrow> 'w stream \<Rightarrow> 'w stream result" where
  "close_array wr s =
     bind_r (if top_is [Entry_written, Field_written] s then pop s else Ok s) (\<lambda>s.
     bind_r (pop s) (\<lambda>s. Ok (put wr '']'' s)))"

definition write_json :: "('w \<Rightarrow> string \<Rightarrow> 'w) \<Rightarrow> ('j \<Rightarrow> string) \<Rightarrow> 'j \<Rightarrow> 'w stream \<Rightarrow> 'w stream" where
  "write_json wr dump j s = put wr (dump j) (begin_entry wr s)"

definition ensure_separator :: "('w \<Rightarrow> string \<Rightarrow> 'w) \<Rightarrow> 'w stream \<Rightarrow> 'w stream" where
  "ensure_separator wr s =
     (if stack s \<noteq> []
      then if \<not> top_is [Field_written] s then push Field_written s else put wr '','' s
      else s)"

definition write_string :: "('w \<Rightarrow> string \<Rightarrow> 'w) \<Rightarrow> string \<Rightarrow> 'w stream \<Rightarrow> 'w stream" where
  "write_string wr str s = put wr ([CHR 0x22] @ str @ [CHR 0x22]) s"

definition write_field :: "('w \<Rightarrow> string \<Rightarrow> 'w) \<Rightarrow> string \<Rightarrow> 'w stream \<Rightarrow> 'w stream" where
  "write_field wr name s = put wr '':'' (write_string wr name (ensure_separator wr s))"

definition write_field_value ::
  "('w \<Rightarrow> string \<Rightarrow> 'w) \<Rightarrow> ('j \<Rightarrow> string) \<Rightarrow> string \<Rightarrow> 'j \<Rightarrow> 'w stream \<Rightarrow> 'w stream" where
  "write_field_value wr dump name v s =
     put wr (dump v) (put wr '':'' (write_string wr name (ensure_separator wr s)))"

lemmas stream_op_defs [stream_defs] = pop_def put_def push_def top_is_def begin_entry_def open_object_def
  close_object_def open_array_def close_array_def write_json_def ensure_separator_def write_string_def
  write_field_def write_field_value_def

section \<open>Sequences of calls\<close>

datatype 'j op =
    Open_object | Close_object | Open_array | Close_array
  | Write_json 'j | Write_field string | Write_field_value string 'j

fun step :: "('w \<Rightarrow> string \<Rightarrow> 'w) \<Rightarrow> ('j \<Rightarrow> string) \<Rightarrow> 'j op \<Rightarrow> 'w stream \<Rightarrow> 'w stream result" where
  "step wr dump Open_object s = Ok (open_object wr s)"
| "step wr dump Close_object s = close_object wr s"
| "step wr dump Open_array s = Ok (open_array wr s)"
| "step wr dump Close_array s = close_array wr s"
| "step wr dump (Write_json j) s = Ok (write_json wr dump j s)"
| "step wr dump (Write_field n) s = Ok (write_field wr n s)"
| "step wr dump (Write_field_value n j) s = Ok (write_field_value wr dump n j s)"

definition run :: "('w \<Rightarrow> string \<Rightarrow> 'w) \<Rightarrow> ('j \<Rightarrow> string) \<Rightarrow> 'j op list \<Rightarrow> 'w stream \<Rightarrow> 'w stream result" where
  "run wr dump ops s = fold_r (step wr dump) ops s"

lemma run_Nil [simp]: "run wr dump [] s = Ok s"
  by (simp add: run_def)

lemma run_Cons [simp]: "run wr dump (x # xs) s = bind_r (step wr dump x s) (run wr dump xs)"
  by (cases "step wr dump x s") (simp_all add: run_def)

lemma run_append: "run wr dump (xs @ ys) s = bind_r (run wr dump xs s) (run wr dump ys)"
  by (cases "fold_r (step wr dump) xs s") (simp_all add: run_def fold_r_append)

section \<open>Documents\<close>

text \<open>
  What the handlers stream: values that are dumped at once, objects and arrays that are streamed member
  by member. \<open>ops_of\<close> is how they call the stream, \<open>render\<close> is the JSON text.
\<close>

datatype 'j doc = Leaf 'j | Obj "(string \<times> 'j doc) list" | Arr "'j doc list"

fun join :: "string \<Rightarrow> string list \<Rightarrow> string" where
  "join sep [] = []"
| "join sep [x] = x"
| "join sep (x # y # ys) = x @ sep @ join sep (y # ys)"

fun ops_of :: "'j doc \<Rightarrow> 'j op list" where
  "ops_of (Leaf j) = [Write_json j]"
| "ops_of (Obj fs) = Open_object # concat (map (\<lambda>(n, d).
     case d of Leaf j \<Rightarrow> [Write_field_value n j] | _ \<Rightarrow> Write_field n # ops_of d) fs) @ [Close_object]"
| "ops_of (Arr ds) = Open_array # concat (map ops_of ds) @ [Close_array]"

fun render :: "('j \<Rightarrow> string) \<Rightarrow> 'j doc \<Rightarrow> string" where
  "render dump (Leaf j) = dump j"
| "render dump (Obj fs) =
     ''{'' @ join '','' (map (\<lambda>(n, d). [CHR 0x22] @ n @ [CHR 0x22] @ '':'' @ render dump d) fs) @ ''}''"
| "render dump (Arr ds) = ''['' @ join '','' (map (render dump) ds) @ '']''"

fun is_Arr :: "'j doc \<Rightarrow> bool" where
  "is_Arr (Arr ds) = True"
| "is_Arr _ = False"

text \<open>No array is directly an entry of an array.\<close>

fun flat_arrays :: "'j doc \<Rightarrow> bool" where
  "flat_arrays (Leaf j) = True"
| "flat_arrays (Obj fs) = (\<forall>(n, d) \<in> set fs. flat_arrays d)"
| "flat_arrays (Arr ds) = (\<forall>d \<in> set ds. \<not> is_Arr d \<and> flat_arrays d)"

text \<open>The texts of a document are all accepted by the writer.\<close>

fun doc_ok :: "(string \<Rightarrow> bool) \<Rightarrow> ('j \<Rightarrow> string) \<Rightarrow> 'j doc \<Rightarrow> bool" where
  "doc_ok ok dump (Leaf j) = ok (dump j)"
| "doc_ok ok dump (Obj fs) = (\<forall>(n, d) \<in> set fs. ok n \<and> doc_ok ok dump d)"
| "doc_ok ok dump (Arr ds) = (\<forall>d \<in> set ds. doc_ok ok dump d)"

definition sep_of :: "mark list \<Rightarrow> string" where
  "sep_of ms = (case ms of Entry_written # _ \<Rightarrow> '','' | _ \<Rightarrow> [])"

definition entered :: "mark list \<Rightarrow> mark list" where
  "entered ms = (case ms of Array_open # _ \<Rightarrow> Entry_written # ms | _ \<Rightarrow> ms)"

definition in_array :: "mark list \<Rightarrow> bool" where
  "in_array ms \<longleftrightarrow> (case ms of m # _ \<Rightarrow> m = Array_open \<or> m = Entry_written | [] \<Rightarrow> False)"

lemma join_Cons: "join sep (x # xs) = x @ concat (map (\<lambda>y. sep @ y) xs)"
  by (induction xs arbitrary: x) simp_all

section \<open>Streaming over a writer\<close>

locale stream_writer = writer wr content inv ok
  for wr :: "'w \<Rightarrow> string \<Rightarrow> 'w" and content inv ok +
  assumes ok_append: "ok s \<Longrightarrow> ok t \<Longrightarrow> ok (s @ t)"
    and ok_punctuation: "c \<in> set ''{}[]:,'' \<or> c = CHR 0x22 \<Longrightarrow> ok [c]"
begin

text \<open>\<open>emits s t ms txt\<close>: the stream \<open>t\<close> is \<open>s\<close> after the text, with that stack.\<close>

definition emits :: "'w stream \<Rightarrow> 'w stream \<Rightarrow> mark list \<Rightarrow> string \<Rightarrow> bool" where
  "emits s t ms txt \<longleftrightarrow> inv (writer_ref t) \<and> stack t = ms \<and> content (writer_ref t) = content (writer_ref s) @ txt"

lemma emits_put:
  "emits s t ms txt \<Longrightarrow> ok str \<Longrightarrow> emits s (put wr str t) ms (txt @ str)"
  by (simp add: emits_def put_def inv_wr content_wr)

lemma emits_push: "emits s t ms txt \<Longrightarrow> emits s (push m t) (m # ms) txt"
  by (simp add: emits_def push_def)

lemma emits_trans: "emits s t ms txt \<Longrightarrow> emits t u ms' txt' \<Longrightarrow> emits s u ms' (txt @ txt')"
  by (simp add: emits_def)

lemma emits_refl: "inv (writer_ref s) \<Longrightarrow> emits s s (stack s) []"
  by (simp add: emits_def)

lemma ok_chars: "ok ''{''" "ok ''}''" "ok ''[''" "ok '']''" "ok '':''" "ok '',''" "ok [CHR 0x22]"
  by (auto intro: ok_punctuation)

lemma begin_entry_emits:
  assumes "inv (writer_ref s)"
  shows "emits s (begin_entry wr s) (entered (stack s)) (sep_of (stack s))"
  using assms ok_chars(6)
  by (auto simp: begin_entry_def top_is_def emits_def entered_def sep_of_def push_def put_def inv_wr content_wr
      split: list.splits mark.splits)

lemma write_json_emits:
  "inv (writer_ref s) \<Longrightarrow> ok (dump j) \<Longrightarrow>
     emits s (write_json wr dump j s) (entered (stack s)) (sep_of (stack s) @ dump j)"
  unfolding write_json_def by (intro emits_put begin_entry_emits)

lemma open_object_emits:
  "inv (writer_ref s) \<Longrightarrow>
     emits s (open_object wr s) (Object_open # entered (stack s)) (sep_of (stack s) @ ''{'')"
  unfolding open_object_def by (intro emits_push emits_put begin_entry_emits ok_chars)

lemma open_array_emits:
  "inv (writer_ref s) \<Longrightarrow> emits s (open_array wr s) (Array_open # stack s) ''[''"
  using emits_push [OF emits_put [OF emits_refl ok_chars(3)], of s Array_open] by (simp add: open_array_def)

text \<open>Fields: \<open>field_sep\<close> is the separator before the next one.\<close>

lemma ensure_separator_emits:
  assumes "inv (writer_ref s)" "stack s = (if first then Object_open # ms else Field_written # Object_open # ms)"
  shows "emits s (ensure_separator wr s) (Field_written # Object_open # ms) (if first then [] else '','')"
  using assms ok_chars(6)
  by (auto simp: ensure_separator_def top_is_def emits_def push_def put_def inv_wr content_wr)

lemma write_field_emits:
  assumes "inv (writer_ref s)" "stack s = (if first then Object_open # ms else Field_written # Object_open # ms)" "ok n"
  shows "emits s (write_field wr n s) (Field_written # Object_open # ms)
    ((if first then [] else '','') @ [CHR 0x22] @ n @ [CHR 0x22] @ '':'')"
proof -
  have "ok ([CHR 0x22] @ n @ [CHR 0x22])" by (intro ok_append ok_chars assms(3))
  from emits_put [OF emits_put [OF ensure_separator_emits [OF assms(1,2)] this] ok_chars(5)] show ?thesis
    by (simp add: write_field_def write_string_def)
qed

lemma write_field_value_emits:
  assumes "inv (writer_ref s)" "stack s = (if first then Object_open # ms else Field_written # Object_open # ms)"
    and "ok n" "ok (dump v)"
  shows "emits s (write_field_value wr dump n v s) (Field_written # Object_open # ms)
    ((if first then [] else '','') @ [CHR 0x22] @ n @ [CHR 0x22] @ '':'' @ dump v)"
  using emits_put [OF write_field_emits [OF assms(1-3)] assms(4)]
  by (simp add: write_field_def write_field_value_def)

lemma close_object_emits:
  assumes "inv (writer_ref s)" "stack s = (if first then Object_open # ms else Field_written # Object_open # ms)"
  shows "\<exists>t. close_object wr s = Ok t \<and> emits s t ms ''}''"
  using assms ok_chars(2)
  by (auto simp: close_object_def top_is_def emits_def pop_def put_def inv_wr content_wr)

lemma close_array_emits:
  assumes "inv (writer_ref s)" "stack s = (if first then Array_open # ms else Entry_written # Array_open # ms)"
  shows "\<exists>t. close_array wr s = Ok t \<and> emits s t ms '']''"
  using assms ok_chars(4)
  by (auto simp: close_array_def top_is_def emits_def pop_def put_def inv_wr content_wr)

text \<open>Calls that emit a text, one after the other.\<close>

definition emits_ops :: "('j \<Rightarrow> string) \<Rightarrow> 'j op list \<Rightarrow> mark list \<Rightarrow> mark list \<Rightarrow> string \<Rightarrow> bool" where
  "emits_ops dump ops ms ms' txt \<longleftrightarrow>
     (\<forall>s. inv (writer_ref s) \<longrightarrow> stack s = ms \<longrightarrow> (\<exists>t. run wr dump ops s = Ok t \<and> emits s t ms' txt))"

lemma emits_ops_Nil: "emits_ops dump [] ms ms []"
  by (auto simp: emits_ops_def intro: emits_refl)

lemma emits_ops_append:
  assumes "emits_ops dump xs ms ms' txt" "emits_ops dump ys ms' ms'' txt'"
  shows "emits_ops dump (xs @ ys) ms ms'' (txt @ txt')"
  unfolding emits_ops_def
proof (intro allI impI)
  fix s :: "'w stream" assume "inv (writer_ref s)" "stack s = ms"
  with assms(1) obtain t where t: "run wr dump xs s = Ok t" "emits s t ms' txt"
    by (auto simp: emits_ops_def)
  then have "inv (writer_ref t)" "stack t = ms'" by (simp_all add: emits_def)
  with assms(2) obtain u where "run wr dump ys t = Ok u" "emits t u ms'' txt'"
    by (auto simp: emits_ops_def)
  with t show "\<exists>u. run wr dump (xs @ ys) s = Ok u \<and> emits s u ms'' (txt @ txt')"
    by (auto simp: run_append intro: emits_trans)
qed

lemma emits_ops_single:
  assumes "\<And>s. inv (writer_ref s) \<Longrightarrow> stack s = ms \<Longrightarrow> \<exists>t. step wr dump x s = Ok t \<and> emits s t ms' txt"
  shows "emits_ops dump [x] ms ms' txt"
  using assms by (auto simp: emits_ops_def)

lemma emits_ops_make_stream:
  assumes "emits_ops dump ops [] [] txt" "inv w"
  shows "\<exists>t. run wr dump ops (make_stream w) = Ok t \<and> stack t = [] \<and> inv (writer_ref t) \<and>
    content (writer_ref t) = content w @ txt"
proof -
  have "inv (writer_ref (make_stream w))" "stack (make_stream w) = []"
    using assms(2) by (simp_all add: make_stream_def)
  with assms(1) obtain t where "run wr dump ops (make_stream w) = Ok t" "emits (make_stream w) t [] txt"
    by (auto simp: emits_ops_def)
  then show ?thesis by (auto simp: emits_def make_stream_def)
qed

text \<open>The members of an object, and the entries of an array, after those already there.\<close>

lemma fields_emit:
  assumes "\<And>n d first. (n, d) \<in> set fs \<Longrightarrow>
      emits_ops dump (f (n, d)) (if first then Object_open # ms else Field_written # Object_open # ms)
        (Field_written # Object_open # ms) ((if first then [] else '','') @ g (n, d))"
  shows "emits_ops dump (concat (map f fs)) (if first then Object_open # ms else Field_written # Object_open # ms)
    (if first \<and> fs = [] then Object_open # ms else Field_written # Object_open # ms)
    (if first then join '','' (map g fs) else concat (map (\<lambda>x. '','' @ g x) fs))"
  using assms
proof (induction fs arbitrary: first)
  case Nil
  then show ?case by (simp add: emits_ops_Nil)
next
  case (Cons x fs)
  obtain n d where x: "x = (n, d)" by fastforce
  have a: "emits_ops dump (f x) (if first then Object_open # ms else Field_written # Object_open # ms)
      (Field_written # Object_open # ms) ((if first then [] else '','') @ g x)"
    using Cons.prems [of n d first] x by simp
  have b: "emits_ops dump (concat (map f fs)) (Field_written # Object_open # ms) (Field_written # Object_open # ms)
      (concat (map (\<lambda>x. '','' @ g x) fs))"
    using Cons.IH [of False] Cons.prems by simp
  from emits_ops_append [OF a b] show ?case by (cases first) (simp_all add: join_Cons map_map comp_def)
qed

lemma entries_emit:
  assumes "\<And>d ms'. d \<in> set ds \<Longrightarrow> in_array ms' \<Longrightarrow> emits_ops dump (f d) ms' (entered ms') (sep_of ms' @ g d)"
  shows "emits_ops dump (concat (map f ds)) (if first then Array_open # ms else Entry_written # Array_open # ms)
    (if first \<and> ds = [] then Array_open # ms else Entry_written # Array_open # ms)
    (if first then join '','' (map g ds) else concat (map (\<lambda>x. '','' @ g x) ds))"
  using assms
proof (induction ds arbitrary: first)
  case Nil
  then show ?case by (simp add: emits_ops_Nil)
next
  case (Cons d ds)
  have a: "emits_ops dump (f d) (if first then Array_open # ms else Entry_written # Array_open # ms)
      (Entry_written # Array_open # ms) ((if first then [] else '','') @ g d)"
    using Cons.prems [of d "if first then Array_open # ms else Entry_written # Array_open # ms"]
    by (auto simp: in_array_def entered_def sep_of_def split: if_splits)
  have b: "emits_ops dump (concat (map f ds)) (Entry_written # Array_open # ms) (Entry_written # Array_open # ms)
      (concat (map (\<lambda>x. '','' @ g x) ds))"
    using Cons.IH [of False] Cons.prems by simp
  from emits_ops_append [OF a b] show ?case by (cases first) (simp_all add: join_Cons map_map comp_def)
qed

lemma entered_Object: "entered (Field_written # ms) = Field_written # ms" "sep_of (Field_written # ms) = []"
  by (simp_all add: entered_def sep_of_def)

lemma object_emits:
  assumes "\<And>n d ms. (n, d) \<in> set fs \<Longrightarrow> \<not> in_array ms \<Longrightarrow>
      emits_ops dump (ops_of d) ms (entered ms) (sep_of ms @ render dump d)"
    and "doc_ok ok dump (Obj fs)"
  shows "emits_ops dump (ops_of (Obj fs)) ms (entered ms) (sep_of ms @ render dump (Obj fs))"
proof -
  let ?f = "\<lambda>(n, d). case d of Leaf j \<Rightarrow> [Write_field_value n j] | _ \<Rightarrow> Write_field n # ops_of d"
  let ?g = "\<lambda>(n, d). [CHR 0x22] @ n @ [CHR 0x22] @ '':'' @ render dump d"
  let ?ms = "entered ms"
  let ?st = "\<lambda>first. if first then Object_open # ?ms else Field_written # Object_open # ?ms"
  have field: "emits_ops dump (?f (n, d)) (?st first) (Field_written # Object_open # ?ms)
      ((if first then [] else '','') @ ?g (n, d))" if "(n, d) \<in> set fs" for n d first
  proof -
    have okn: "ok n" and okd: "doc_ok ok dump d" using assms(2) that by auto
    have val: "emits_ops dump [Write_field_value n j] (?st first) (Field_written # Object_open # ?ms)
        ((if first then [] else '','') @ ?g (n, Leaf j))" if "d = Leaf j" for j
      using write_field_value_emits [of _ first ?ms n dump j] okn okd that
      by (intro emits_ops_single) auto
    have nam: "emits_ops dump [Write_field n] (?st first) (Field_written # Object_open # ?ms)
        ((if first then [] else '','') @ [CHR 0x22] @ n @ [CHR 0x22] @ '':'')"
      using write_field_emits [of _ first ?ms n] okn by (intro emits_ops_single) auto
    have "emits_ops dump (ops_of d) (Field_written # Object_open # ?ms) (Field_written # Object_open # ?ms) (render dump d)"
      using assms(1) [OF that, of "Field_written # Object_open # ?ms"] by (simp add: in_array_def entered_Object)
    from emits_ops_append [OF nam this] val show ?thesis
      by (cases d) simp_all
  qed
  have op: "emits_ops dump [Open_object] ms (Object_open # ?ms) (sep_of ms @ ''{'')"
    using open_object_emits by (intro emits_ops_single) auto
  have cl: "emits_ops dump [Close_object] (?st (fs = [])) ?ms ''}''"
    using close_object_emits by (intro emits_ops_single) auto
  have mid: "emits_ops dump (concat (map ?f fs)) (Object_open # ?ms) (?st (fs = [])) (join '','' (map ?g fs))"
    using fields_emit [of fs dump ?f ?ms ?g True, OF field] by simp
  from emits_ops_append [OF op emits_ops_append [OF mid cl]] show ?thesis by simp
qed

lemma array_emits:
  assumes "\<And>d ms. d \<in> set ds \<Longrightarrow> in_array ms \<Longrightarrow>
      emits_ops dump (ops_of d) ms (entered ms) (sep_of ms @ render dump d)"
  shows "emits_ops dump (ops_of (Arr ds)) ms ms (render dump (Arr ds))"
proof -
  let ?st = "\<lambda>first. if first then Array_open # ms else Entry_written # Array_open # ms"
  have op: "emits_ops dump [Open_array] ms (Array_open # ms) ''[''"
    using open_array_emits by (intro emits_ops_single) auto
  have cl: "emits_ops dump [Close_array] (?st (ds = [])) ms '']''"
    using close_array_emits by (intro emits_ops_single) auto
  have mid: "emits_ops dump (concat (map ops_of ds)) (Array_open # ms) (?st (ds = [])) (join '','' (map (render dump) ds))"
    using entries_emit [of ds dump ops_of "render dump" True ms] assms by simp
  from emits_ops_append [OF op emits_ops_append [OF mid cl]] show ?thesis by simp
qed

lemma doc_emits:
  assumes "flat_arrays d" "doc_ok ok dump d" "is_Arr d \<Longrightarrow> \<not> in_array ms"
  shows "emits_ops dump (ops_of d) ms (entered ms) (sep_of ms @ render dump d)"
  using assms
proof (induction d arbitrary: ms)
  case (Leaf j)
  then show ?case using write_json_emits by (auto intro!: emits_ops_single)
next
  case (Obj fs)
  show ?case
  proof (rule object_emits [OF _ Obj.prems(2)])
    fix n d ms' assume nd: "(n, d) \<in> set fs" and "\<not> in_array ms'"
    moreover have "flat_arrays d" "doc_ok ok dump d" using Obj.prems nd by auto
    ultimately show "emits_ops dump (ops_of d) ms' (entered ms') (sep_of ms' @ render dump d)"
      using Obj.IH [OF nd] by simp
  qed
next
  case (Arr ds)
  then have "\<not> in_array ms" by simp
  then have "entered ms = ms" "sep_of ms = []"
    by (auto simp: in_array_def entered_def sep_of_def split: list.splits mark.splits)
  moreover have "emits_ops dump (ops_of (Arr ds)) ms ms (render dump (Arr ds))"
    using Arr by (intro array_emits) simp
  ultimately show ?case by simp
qed

text \<open>An array of arrays: no separator is written between them.\<close>

lemma nested_arrays_emit:
  assumes "\<forall>ds \<in> set dss. flat_arrays (Arr ds) \<and> doc_ok ok dump (Arr ds)"
  shows "emits_ops dump (ops_of (Arr (map Arr dss))) ms ms (''['' @ concat (map (\<lambda>ds. render dump (Arr ds)) dss) @ '']'')"
proof -
  have op: "emits_ops dump [Open_array] ms (Array_open # ms) ''[''"
    using open_array_emits by (intro emits_ops_single) auto
  have cl: "emits_ops dump [Close_array] (Array_open # ms) ms '']''"
    using close_array_emits [of _ True] by (intro emits_ops_single) auto
  have "emits_ops dump (concat (map (\<lambda>ds. ops_of (Arr ds)) dss)) (Array_open # ms) (Array_open # ms)
      (concat (map (\<lambda>ds. render dump (Arr ds)) dss))"
    using assms
  proof (induction dss)
    case Nil
    then show ?case by (simp add: emits_ops_Nil)
  next
    case (Cons ds dss)
    have "emits_ops dump (ops_of (Arr ds)) (Array_open # ms) (Array_open # ms) (render dump (Arr ds))"
      using Cons.prems by (intro array_emits doc_emits) auto
    from emits_ops_append [OF this Cons.IH] Cons.prems show ?case by simp
  qed
  from emits_ops_append [OF op emits_ops_append [OF this cl]] show ?thesis
    by (simp add: map_map comp_def)
qed

end

interpretation string_stream: stream_writer string_write "\<lambda>w. w" "\<lambda>_. True" "\<lambda>_. True"
  by unfold_locales simp_all

interpretation chunk_stream: stream_writer chunks_write_total chunk_content chunk_inv "\<lambda>s. NUL \<notin> set s"
  by unfold_locales auto

text \<open>The result of a run over the string writer, from what it emits.\<close>

lemma string_stream_run:
  "string_stream.emits_ops dump ops [] [] txt \<Longrightarrow>
     run string_write dump ops (make_stream []) = Ok \<lparr>writer_ref = txt, stack = []\<rparr>"
  using string_stream.emits_ops_make_stream [where w = "[]" and dump = dump and ops = ops] by fastforce



text \<open>
  The same document streamed through the chunk writer and closed: the receiver of the chunks decodes
  exactly the JSON text, when no text of the document contains a NUL character.
\<close>
lemma json_stream_chunked:
  assumes "flat_arrays d" "doc_ok (\<lambda>s. NUL \<notin> set s) dump d" "0 < n"
  shows "\<exists>t. run chunks_write_total dump (ops_of d) (make_stream (make_chunks_writer [] n)) = Ok t \<and> stack t = [] \<and>
    dechunk (inner (chunks_close string_write (\<lambda>x. x) (writer_ref t))) = (render dump d, chunck_sep)"
proof -
  from chunk_stream.doc_emits [OF assms(1,2), of "[]"]
  have "chunk_stream.emits_ops dump (ops_of d) [] [] (render dump d)"
    by (simp add: in_array_def entered_def sep_of_def)
  then obtain t where "run chunks_write_total dump (ops_of d) (make_stream (make_chunks_writer [] n)) = Ok t"
    "stack t = []" "chunk_inv (writer_ref t)" "chunk_content (writer_ref t) = render dump d"
    using chunk_inv_make [OF assms(3)] chunk_stream.emits_ops_make_stream [of dump "ops_of d"] by fastforce
  then show ?thesis using chunks_close_content by auto
qed

lemma json_stream_chunked_witness:
  "\<exists>t. run chunks_write_total (\<lambda>s. s) (ops_of (Obj [(''a'', Arr [Leaf ''1'', Leaf ''2''])])) (make_stream (make_chunks_writer [] 3)) = Ok t \<and>
    stack t = [] \<and> dechunk (inner (chunks_close string_write (\<lambda>x. x) (writer_ref t))) =
      (render (\<lambda>s. s) (Obj [(''a'', Arr [Leaf ''1'', Leaf ''2''])]), chunck_sep)"
  using json_stream_chunked [of "Obj [(''a'', Arr [Leaf ''1'', Leaf ''2''])]" "\<lambda>s. s" 3] by simp

text \<open>
  Arrays streamed as the entries of an array are written without a comma between them:
  \<^verbatim>\<open>open_array\<close> does not begin an entry the way \<^verbatim>\<open>open_object\<close> and \<^verbatim>\<open>write_json\<close> do, so two nested
  arrays are not separated and the text is not the JSON text of the document.
\<close>
lemma json_stream_nested_arrays:
  assumes "\<forall>ds \<in> set dss. flat_arrays (Arr ds)"
  shows "run string_write dump (ops_of (Arr (map Arr dss))) (make_stream []) =
      Ok \<lparr>writer_ref = ''['' @ concat (map (\<lambda>ds. render dump (Arr ds)) dss) @ '']'', stack = []\<rparr>"
proof -
  have "doc_ok (\<lambda>_. True) dump d" for d :: "'a doc" by (induction d) auto
  with string_stream.nested_arrays_emit [of dss dump "[]"] assms show ?thesis
    by (intro string_stream_run) blast
qed

lemma json_stream_nested_arrays_witness:
  "run string_write (\<lambda>s. s) (ops_of (Arr [Arr [Leaf ''1''], Arr [Leaf ''2'']])) (make_stream []) =
      Ok \<lparr>writer_ref = ''[[1][2]]'', stack = []\<rparr> \<and>
    render (\<lambda>s. s) (Arr [Arr [Leaf ''1''], Arr [Leaf ''2'']]) = ''[[1],[2]]''"
  using json_stream_nested_arrays [of "[[Leaf ''1''], [Leaf ''2'']]" "\<lambda>s. s"] by simp

end
