(* ===== verification/Rpc_Api_Table.thy ===== *)
theory Rpc_Api_Table
  imports Prelude
begin

text \<open>
  The table of \<^verbatim>\<open>commands/rpc_api_table.cpp\<close> that maps the methods of \<^verbatim>\<open>http/methods.hpp\<close> to the member
  functions of \<^verbatim>\<open>RpcApi\<close>, which are represented by their names. The table is built from the comma
  separated list of namespaces of the configuration.
\<close>

section \<open>The methods of each namespace\<close>

definition debug_method_handlers :: "(string \<times> string) list" where
  "debug_method_handlers =
    [(''debug_accountRange'', ''handle_debug_account_range''),
     (''debug_getModifiedAccountsByNumber'', ''handle_debug_get_modified_accounts_by_number''),
     (''debug_getModifiedAccountsByHash'', ''handle_debug_get_modified_accounts_by_hash''),
     (''debug_storageRangeAt'', ''handle_debug_storage_range_at'')]"

definition debug_stream_handlers :: "(string \<times> string) list" where
  "debug_stream_handlers =
    [(''debug_traceCall'', ''handle_debug_trace_call''),
     (''debug_traceTransaction'', ''handle_debug_trace_transaction''),
     (''debug_traceBlockByNumber'', ''handle_debug_trace_block_by_number''),
     (''debug_traceBlockByHash'', ''handle_debug_trace_block_by_hash'')]"

definition eth_method_handlers :: "(string \<times> string) list" where
  "eth_method_handlers =
    [(''eth_blockNumber'', ''handle_eth_block_number''),
     (''eth_chainId'', ''handle_eth_chain_id''),
     (''eth_protocolVersion'', ''handle_eth_protocol_version''),
     (''eth_syncing'', ''handle_eth_syncing''),
     (''eth_gasPrice'', ''handle_eth_gas_price''),
     (''eth_getBlockByHash'', ''handle_eth_get_block_by_hash''),
     (''eth_getBlockByNumber'', ''handle_eth_get_block_by_number''),
     (''eth_getBlockTransactionCountByHash'', ''handle_eth_get_block_transaction_count_by_hash''),
     (''eth_getBlockTransactionCountByNumber'', ''handle_eth_get_block_transaction_count_by_number''),
     (''eth_getUncleByBlockHashAndIndex'', ''handle_eth_get_uncle_by_block_hash_and_index''),
     (''eth_getUncleByBlockNumberAndIndex'', ''handle_eth_get_uncle_by_block_number_and_index''),
     (''eth_getUncleCountByBlockHash'', ''handle_eth_get_uncle_count_by_block_hash''),
     (''eth_getUncleCountByBlockNumber'', ''handle_eth_get_uncle_count_by_block_number''),
     (''eth_getTransactionByHash'', ''handle_eth_get_transaction_by_hash''),
     (''eth_getTransactionByBlockHashAndIndex'', ''handle_eth_get_transaction_by_block_hash_and_index''),
     (''eth_getTransactionByBlockNumberAndIndex'', ''handle_eth_get_transaction_by_block_number_and_index''),
     (''eth_getRawTransactionByHash'', ''handle_eth_get_raw_transaction_by_hash''),
     (''eth_getRawTransactionByBlockHashAndIndex'', ''handle_eth_get_raw_transaction_by_block_hash_and_index''),
     (''eth_getRawTransactionByBlockNumberAndIndex'', ''handle_eth_get_raw_transaction_by_block_number_and_index''),
     (''eth_getTransactionReceipt'', ''handle_eth_get_transaction_receipt''),
     (''eth_estimateGas'', ''handle_eth_estimate_gas''),
     (''eth_getBalance'', ''handle_eth_get_balance''),
     (''eth_getCode'', ''handle_eth_get_code''),
     (''eth_getTransactionCount'', ''handle_eth_get_transaction_count''),
     (''eth_getStorageAt'', ''handle_eth_get_storage_at''),
     (''eth_call'', ''handle_eth_call''),
     (''eth_callBundle'', ''handle_eth_call_bundle''),
     (''eth_createAccessList'', ''handle_eth_create_access_list''),
     (''eth_newFilter'', ''handle_eth_new_filter''),
     (''eth_newBlockFilter'', ''handle_eth_new_block_filter''),
     (''eth_newPendingTransactionFilter'', ''handle_eth_new_pending_transaction_filter''),
     (''eth_getFilterChanges'', ''handle_eth_get_filter_changes''),
     (''eth_uninstallFilter'', ''handle_eth_uninstall_filter''),
     (''eth_getLogs'', ''handle_eth_get_logs''),
     (''eth_sendRawTransaction'', ''handle_eth_send_raw_transaction''),
     (''eth_sendTransaction'', ''handle_eth_send_transaction''),
     (''eth_signTransaction'', ''handle_eth_sign_transaction''),
     (''eth_getProof'', ''handle_eth_get_proof''),
     (''eth_mining'', ''handle_eth_mining''),
     (''eth_coinbase'', ''handle_eth_coinbase''),
     (''eth_hashrate'', ''handle_eth_hashrate''),
     (''eth_submitHashrate'', ''handle_eth_submit_hashrate''),
     (''eth_getWork'', ''handle_eth_get_work''),
     (''eth_submitWork'', ''handle_eth_submit_work''),
     (''eth_subscribe'', ''handle_eth_subscribe''),
     (''eth_unsubscribe'', ''handle_eth_unsubscribe''),
     (''eth_getBlockReceipts'', ''handle_parity_get_block_receipts'')]"

definition net_method_handlers :: "(string \<times> string) list" where
  "net_method_handlers =
    [(''net_listening'', ''handle_net_listening''),
     (''net_peerCount'', ''handle_net_peer_count''),
     (''net_version'', ''handle_net_version'')]"

definition parity_method_handlers :: "(string \<times> string) list" where
  "parity_method_handlers =
    [(''parity_getBlockReceipts'', ''handle_parity_get_block_receipts''),
     (''parity_listStorageKeys'', ''handle_parity_list_storage_keys'')]"

definition erigon_method_handlers :: "(string \<times> string) list" where
  "erigon_method_handlers =
    [(''erigon_getBlockByTimestamp'', ''handle_erigon_get_block_by_timestamp''),
     (''erigon_getHeaderByHash'', ''handle_erigon_get_header_by_hash''),
     (''erigon_getHeaderByNumber'', ''handle_erigon_get_header_by_number''),
     (''erigon_getLogsByHash'', ''handle_erigon_get_logs_by_hash''),
     (''erigon_forks'', ''handle_erigon_forks''),
     (''erigon_watchTheBurn'', ''handle_erigon_watch_the_burn''),
     (''erigon_cumulativeChainTraffic'', ''handle_erigon_cumulative_chain_traffic''),
     (''erigon_blockNumber'', ''handle_erigon_block_number''),
     (''erigon_nodeInfo'', ''handle_erigon_node_info'')]"

definition trace_method_handlers :: "(string \<times> string) list" where
  "trace_method_handlers =
    [(''trace_call'', ''handle_trace_call''),
     (''trace_callMany'', ''handle_trace_call_many''),
     (''trace_rawTransaction'', ''handle_trace_raw_transaction''),
     (''trace_replayBlockTransactions'', ''handle_trace_replay_block_transactions''),
     (''trace_replayTransaction'', ''handle_trace_replay_transaction''),
     (''trace_block'', ''handle_trace_block''),
     (''trace_get'', ''handle_trace_get''),
     (''trace_transaction'', ''handle_trace_transaction'')]"

definition trace_stream_handlers :: "(string \<times> string) list" where
  "trace_stream_handlers =
    [(''trace_filter'', ''handle_trace_filter'')]"

definition web3_method_handlers :: "(string \<times> string) list" where
  "web3_method_handlers =
    [(''web3_clientVersion'', ''handle_web3_client_version''),
     (''web3_sha3'', ''handle_web3_sha3'')]"

definition engine_method_handlers :: "(string \<times> string) list" where
  "engine_method_handlers =
    [(''engine_getPayloadV1'', ''handle_engine_get_payload_v1''),
     (''engine_newPayloadV1'', ''handle_engine_new_payload_v1''),
     (''engine_forkchoiceUpdatedV1'', ''handle_engine_forkchoice_updated_v1''),
     (''engine_exchangeTransitionConfigurationV1'', ''handle_engine_exchange_transition_configuration_v1'')]"

definition txpool_method_handlers :: "(string \<times> string) list" where
  "txpool_method_handlers =
    [(''txpool_status'', ''handle_txpool_status''),
     (''txpool_content'', ''handle_txpool_content'')]"

definition ots_method_handlers :: "(string \<times> string) list" where
  "ots_method_handlers =
    [(''ots_getApiLevel'', ''handle_ots_get_api_level''),
     (''ots_hasCode'', ''handle_ots_has_code'')]"

section \<open>The table\<close>

record rpc_api_table =
  method_handlers :: "string \<Rightarrow> string option"
  stream_handlers :: "string \<Rightarrow> string option"

definition find_json_handler :: "rpc_api_table \<Rightarrow> string \<Rightarrow> string option" where
  "find_json_handler t name = method_handlers t name"

definition find_stream_handler :: "rpc_api_table \<Rightarrow> string \<Rightarrow> string option" where
  "find_stream_handler t name = stream_handlers t name"

text \<open>Assignments to elements of a \<^verbatim>\<open>std::map\<close>, one after the other.\<close>

definition assign_all :: "(string \<times> string) list \<Rightarrow> (string \<Rightarrow> string option) \<Rightarrow> string \<Rightarrow> string option" where
  "assign_all xs m = fold (\<lambda>(k, v) m. m(k \<mapsto> v)) xs m"

definition add_methods :: "(string \<times> string) list \<Rightarrow> rpc_api_table \<Rightarrow> rpc_api_table" where
  "add_methods xs t = t\<lparr>method_handlers := assign_all xs (method_handlers t)\<rparr>"

definition add_streams :: "(string \<times> string) list \<Rightarrow> rpc_api_table \<Rightarrow> rpc_api_table" where
  "add_streams xs t = t\<lparr>stream_handlers := assign_all xs (stream_handlers t)\<rparr>"

definition add_handlers :: "string \<Rightarrow> rpc_api_table \<Rightarrow> rpc_api_table" where
  "add_handlers ns t =
     (if ns = ''debug'' then add_streams debug_stream_handlers (add_methods debug_method_handlers t)
      else if ns = ''eth'' then add_methods eth_method_handlers t
      else if ns = ''net'' then add_methods net_method_handlers t
      else if ns = ''parity'' then add_methods parity_method_handlers t
      else if ns = ''erigon'' then add_methods erigon_method_handlers t
      else if ns = ''trace'' then add_streams trace_stream_handlers (add_methods trace_method_handlers t)
      else if ns = ''web3'' then add_methods web3_method_handlers t
      else if ns = ''engine'' then add_methods engine_method_handlers t
      else if ns = ''txpool'' then add_methods txpool_method_handlers t
      else if ns = ''ots'' then add_methods ots_method_handlers t
      else t)"

text \<open>\<^verbatim>\<open>std::string::find\<close> of the separator from a position; the result is None for \<^verbatim>\<open>npos\<close>.\<close>

definition kApiSpecSeparator :: char where
  "kApiSpecSeparator = CHR '',''"

definition find_separator :: "string \<Rightarrow> nat \<Rightarrow> nat option" where
  "find_separator s start =
     (let n = length (takeWhile (\<lambda>c. c \<noteq> kApiSpecSeparator) (drop start s))
      in if start + n < length s then Some (start + n) else None)"

lemma find_separator_bounds: "find_separator s start = Some e \<Longrightarrow> start \<le> e \<and> e < length s"
  by (auto simp: find_separator_def Let_def split: if_splits)

text \<open>The loop of \<^verbatim>\<open>build_handlers\<close>, from the position \<open>start\<close>.\<close>

function build_loop :: "string \<Rightarrow> nat \<Rightarrow> rpc_api_table \<Rightarrow> rpc_api_table" where
  "build_loop s start t =
     (case find_separator s start of
        None \<Rightarrow> add_handlers (drop start s) t
      | Some e \<Rightarrow> build_loop s (e + 1) (add_handlers (take (e - start) (drop start s)) t))"
  by pat_completeness auto
termination
  by (relation "measure (\<lambda>(s, start, _). length s - start)") (auto dest: find_separator_bounds)

declare build_loop.simps [simp del]

definition build_handlers :: "string \<Rightarrow> rpc_api_table" where
  "build_handlers spec = build_loop spec 0 \<lparr>method_handlers = Map.empty, stream_handlers = Map.empty\<rparr>"

section \<open>What is served\<close>

text \<open>The namespaces of a specification, and the methods of a namespace.\<close>

function split_at :: "string \<Rightarrow> string list" where
  "split_at s =
     (case dropWhile (\<lambda>c. c \<noteq> kApiSpecSeparator) s of
        [] \<Rightarrow> [s]
      | _ # r \<Rightarrow> takeWhile (\<lambda>c. c \<noteq> kApiSpecSeparator) s # split_at r)"
  by pat_completeness auto
termination
proof (relation "measure length")
  fix s x r assume "dropWhile (\<lambda>c. c \<noteq> kApiSpecSeparator) s = x # r"
  then have "length (x # r) \<le> length s" by (metis length_dropWhile_le)
  then show "(r, s) \<in> measure length" by simp
qed simp

declare split_at.simps [simp del]

definition namespace_methods :: "(string \<times> (string \<times> string) list) list" where
  "namespace_methods =
     [(''debug'', debug_method_handlers), (''eth'', eth_method_handlers), (''net'', net_method_handlers),
      (''parity'', parity_method_handlers), (''erigon'', erigon_method_handlers), (''trace'', trace_method_handlers),
      (''web3'', web3_method_handlers), (''engine'', engine_method_handlers), (''txpool'', txpool_method_handlers),
      (''ots'', ots_method_handlers)]"

definition namespace_streams :: "(string \<times> (string \<times> string) list) list" where
  "namespace_streams = [(''debug'', debug_stream_handlers), (''trace'', trace_stream_handlers)]"

definition table_of :: "(string \<times> (string \<times> string) list) list \<Rightarrow> string \<Rightarrow> (string \<times> string) list" where
  "table_of xs ns = (case map_of xs ns of None \<Rightarrow> [] | Some l \<Rightarrow> l)"

lemma add_handlers_methods:
  "method_handlers (add_handlers ns t) = assign_all (table_of namespace_methods ns) (method_handlers t)"
  by (simp add: add_handlers_def add_methods_def add_streams_def table_of_def namespace_methods_def assign_all_def)

lemma add_handlers_streams:
  "stream_handlers (add_handlers ns t) = assign_all (table_of namespace_streams ns) (stream_handlers t)"
  by (simp add: add_handlers_def add_methods_def add_streams_def table_of_def namespace_streams_def assign_all_def)

text \<open>The names are distinct over all namespaces, so the order of the assignments does not matter.\<close>

lemma methods_distinct: "distinct (map fst (concat (map snd namespace_methods) @ concat (map snd namespace_streams)))"
  by code_simp

lemma table_of_mem: "(k, v) \<in> set (table_of xs ns) \<Longrightarrow> \<exists>l. (ns, l) \<in> set xs \<and> (k, v) \<in> set l"
  by (cases "map_of xs ns") (auto simp: table_of_def dest: map_of_SomeD)

lemma table_of_subset: "set (table_of xs ns) \<subseteq> set (concat (map snd xs))"
proof (intro subsetI)
  fix x assume "x \<in> set (table_of xs ns)"
  then obtain l where "(ns, l) \<in> set xs" "x \<in> set l"
    using table_of_mem by (metis surj_pair)
  then show "x \<in> set (concat (map snd xs))" by force
qed

lemma functional_if_distinct:
  "distinct (map fst xs) \<Longrightarrow> (k, v) \<in> set xs \<Longrightarrow> (k, w) \<in> set xs \<Longrightarrow> v = w"
  by (metis map_of_is_SomeI option.inject)

lemma assign_all_iff:
  assumes "\<And>k v w. (k, v) \<in> set xs \<union> G \<Longrightarrow> (k, w) \<in> set xs \<union> G \<Longrightarrow> v = w"
    and "\<And>k v. m k = Some v \<longleftrightarrow> (k, v) \<in> G"
  shows "assign_all xs m k = Some v \<longleftrightarrow> (k, v) \<in> set xs \<union> G"
  using assms
proof (induction xs arbitrary: m G)
  case Nil
  then show ?case by (simp add: assign_all_def)
next
  case (Cons x xs)
  obtain a b where x: "x = (a, b)" by fastforce
  let ?m = "m(a \<mapsto> b)" and ?G = "insert (a, b) G"
  have "\<And>k v w. (k, v) \<in> set xs \<union> ?G \<Longrightarrow> (k, w) \<in> set xs \<union> ?G \<Longrightarrow> v = w"
    unfolding x by (rule Cons.prems(1)) (auto simp: x)
  moreover have "?m k = Some v \<longleftrightarrow> (k, v) \<in> ?G" for k v
  proof (cases "k = a")
    case True
    have "(a, v) \<in> G \<Longrightarrow> v = b" using Cons.prems(1) [of a v b] x by simp
    then show ?thesis using True by auto
  next
    case False
    then show ?thesis using Cons.prems(2) [of k v] by simp
  qed
  ultimately have "assign_all xs ?m k = Some v \<longleftrightarrow> (k, v) \<in> set xs \<union> ?G"
    by (rule Cons.IH)
  then show ?case by (simp add: assign_all_def x)
qed

lemma fold_assign_iff:
  assumes "distinct (map fst (concat (map snd tab)))"
  shows "fold (\<lambda>ns. assign_all (table_of tab ns)) nss Map.empty k = Some v \<longleftrightarrow>
    (\<exists>ns \<in> set nss. (k, v) \<in> set (table_of tab ns))"
proof (induction nss arbitrary: k v rule: rev_induct)
  case Nil
  then show ?case by simp
next
  case (snoc ns nss)
  let ?m = "fold (\<lambda>ns. assign_all (table_of tab ns)) nss Map.empty"
  let ?G = "{(k, v). \<exists>ns \<in> set nss. (k, v) \<in> set (table_of tab ns)}"
  have sub: "set (table_of tab ns) \<union> ?G \<subseteq> set (concat (map snd tab))"
    using table_of_subset by fastforce
  have "assign_all (table_of tab ns) ?m k = Some v \<longleftrightarrow> (k, v) \<in> set (table_of tab ns) \<union> ?G"
  proof (rule assign_all_iff)
    fix k v w assume "(k, v) \<in> set (table_of tab ns) \<union> ?G" "(k, w) \<in> set (table_of tab ns) \<union> ?G"
    with sub functional_if_distinct [OF assms, of k v w] show "v = w" by blast
  qed (simp add: snoc.IH)
  then show ?case by auto
qed

lemma build_loop_fold: "start \<le> length s \<Longrightarrow> build_loop s start t = fold add_handlers (split_at (drop start s)) t"
proof (induction s start t rule: build_loop.induct)
  case (1 s start t)
  let ?p = "\<lambda>c. c \<noteq> kApiSpecSeparator"
  let ?r = "drop start s"
  have len: "length (takeWhile ?p ?r) + length (dropWhile ?p ?r) = length s - start"
    by (metis length_append length_drop takeWhile_dropWhile_id)
  show ?case
  proof (cases "find_separator s start")
    case None
    then have "\<not> start + length (takeWhile ?p ?r) < length s"
      by (auto simp: find_separator_def Let_def split: if_splits)
    then have "length (dropWhile ?p ?r) = 0" using len by linarith
    then have "dropWhile ?p ?r = []" by (simp only: length_0_conv)
    then have "split_at ?r = [?r]" unfolding split_at.simps [of ?r] by (simp only: list.case)
    with None show ?thesis
      by (simp add: build_loop.simps [of s start t])
  next
    case (Some e)
    then have e: "e = start + length (takeWhile ?p ?r)" "e < length s"
      by (auto simp: find_separator_def Let_def split: if_splits)
    then obtain x r where d: "dropWhile ?p ?r = x # r"
      using len by (cases "dropWhile ?p ?r") (simp_all del: dropWhile_eq_Nil_conv)
    have split: "takeWhile ?p ?r @ dropWhile ?p ?r = ?r" by (rule takeWhile_dropWhile_id)
    have n: "e - start = length (takeWhile ?p ?r)" using e by simp
    have tk: "take (e - start) ?r = takeWhile ?p ?r"
      unfolding n by (metis split append_eq_conv_conj)
    have "dropWhile ?p ?r = drop (e - start) ?r"
      unfolding n by (metis split append_eq_conv_conj)
    then have "drop e s = x # r" using d e(1) by (simp add: add.commute)
    then have "r = tl (drop e s)" by simp
    then have "r = drop (e + 1) s" by (simp add: tl_drop drop_Suc)
    moreover have "split_at ?r = takeWhile ?p ?r # split_at r"
      unfolding split_at.simps [of ?r] d by (simp only: list.case)
    moreover have "build_loop s (e + 1) (add_handlers (takeWhile ?p ?r) t) =
        fold add_handlers (split_at (drop (e + 1) s)) (add_handlers (takeWhile ?p ?r) t)"
      using 1(1) [OF Some] e(2) tk by simp
    ultimately show ?thesis
      using Some tk by (simp add: build_loop.simps [of s start t])
  qed
qed

lemma build_handlers_methods:
  "method_handlers (build_handlers spec) = fold (\<lambda>ns. assign_all (table_of namespace_methods ns)) (split_at spec) Map.empty"
proof -
  have "method_handlers (fold add_handlers nss t) = fold (\<lambda>ns. assign_all (table_of namespace_methods ns)) nss (method_handlers t)"
    for nss t by (induction nss arbitrary: t) (simp_all add: add_handlers_methods)
  then show ?thesis by (simp add: build_handlers_def build_loop_fold)
qed

lemma build_handlers_streams:
  "stream_handlers (build_handlers spec) = fold (\<lambda>ns. assign_all (table_of namespace_streams ns)) (split_at spec) Map.empty"
proof -
  have "stream_handlers (fold add_handlers nss t) = fold (\<lambda>ns. assign_all (table_of namespace_streams ns)) nss (stream_handlers t)"
    for nss t by (induction nss arbitrary: t) (simp_all add: add_handlers_streams)
  then show ?thesis by (simp add: build_handlers_def build_loop_fold)
qed

lemma find_json_handler_iff:
  "find_json_handler (build_handlers spec) m = Some h \<longleftrightarrow>
     (\<exists>ns \<in> set (split_at spec). (m, h) \<in> set (table_of namespace_methods ns))"
  unfolding find_json_handler_def build_handlers_methods
  by (rule fold_assign_iff) (use methods_distinct in simp)

lemma find_stream_handler_iff:
  "find_stream_handler (build_handlers spec) m = Some h \<longleftrightarrow>
     (\<exists>ns \<in> set (split_at spec). (m, h) \<in> set (table_of namespace_streams ns))"
  unfolding find_stream_handler_def build_handlers_streams
  by (rule fold_assign_iff) (use methods_distinct in simp)

text \<open>
  Building the table ends for every specification, and a method has a handler in one of the two
  tables exactly when one of the comma separated namespaces of the specification has that method; no
  method is in both tables, so the order in which the request handler asks them does not matter.
\<close>
lemma table_serves_listed_namespaces:
  "(find_json_handler (build_handlers spec) m = Some h \<longleftrightarrow>
      (\<exists>ns \<in> set (split_at spec). (m, h) \<in> set (table_of namespace_methods ns))) \<and>
   (find_stream_handler (build_handlers spec) m = Some h \<longleftrightarrow>
      (\<exists>ns \<in> set (split_at spec). (m, h) \<in> set (table_of namespace_streams ns))) \<and>
   (find_json_handler (build_handlers spec) m = None \<or> find_stream_handler (build_handlers spec) m = None)"
proof (intro conjI)
  show "find_json_handler (build_handlers spec) m = None \<or> find_stream_handler (build_handlers spec) m = None"
  proof (rule ccontr)
    assume "\<not> ?thesis"
    then obtain f g where "find_json_handler (build_handlers spec) m = Some f"
      "find_stream_handler (build_handlers spec) m = Some g" by auto
    then have "m \<in> fst ` set (concat (map snd namespace_methods))" "m \<in> fst ` set (concat (map snd namespace_streams))"
      unfolding find_json_handler_iff find_stream_handler_iff
      using table_of_subset by (metis fst_conv image_eqI subsetD)+
    with methods_distinct show False by (simp only: map_append distinct_append set_map) blast
  qed
qed (rule find_json_handler_iff find_stream_handler_iff)+

text \<open>The prefix of a method name, up to the underscore, names its namespace.\<close>

lemma methods_prefix:
  "\<forall>(ns, l) \<in> set (namespace_methods @ namespace_streams). \<forall>(m, h) \<in> set l.
     takeWhile (\<lambda>c. c \<noteq> CHR ''_'') m = ns"
  by code_simp

lemma table_of_prefix:
  assumes "(m, h) \<in> set (table_of namespace_methods ns) \<or> (m, h) \<in> set (table_of namespace_streams ns)"
  shows "takeWhile (\<lambda>c. c \<noteq> CHR ''_'') m = ns"
proof -
  from assms obtain l where "(ns, l) \<in> set (namespace_methods @ namespace_streams)" "(m, h) \<in> set l"
    using table_of_mem by fastforce
  with methods_prefix show ?thesis by blast
qed

text \<open>
  A method that is served, directly or as a stream, has the name of a namespace that the
  specification lists as its prefix: a namespace that is not listed exposes none of its methods.
\<close>
lemma table_exposes_only_listed:
  assumes "find_json_handler (build_handlers spec) m = Some h \<or> find_stream_handler (build_handlers spec) m = Some h"
  shows "takeWhile (\<lambda>c. c \<noteq> CHR ''_'') m \<in> set (split_at spec)"
  using assms table_of_prefix unfolding find_json_handler_iff find_stream_handler_iff by blast

lemma table_exposes_only_listed_witness:
  "find_json_handler (build_handlers ''web3,eth'') ''eth_call'' = Some ''handle_eth_call'' \<and>
   takeWhile (\<lambda>c. c \<noteq> CHR ''_'') ''eth_call'' \<in> set (split_at ''web3,eth'')"
proof -
  have h: "find_json_handler (build_handlers ''web3,eth'') ''eth_call'' = Some ''handle_eth_call''"
    by code_simp
  with table_exposes_only_listed [of "''web3,eth''" "''eth_call''" "''handle_eth_call''"] show ?thesis
    by blast
qed

end
