(* ===== verification/Json.thy ===== *)
theory Json
  imports Prelude "HOL-Library.Char_ord"
begin

text \<open>
  JSON values as the code builds and inspects them. The library \<^verbatim>\<open>nlohmann::json\<close> keeps an object as a
  \<^verbatim>\<open>std::map\<close> from names to values, so an object is an association list sorted by name. Its parser, its
  printer and its number conversions are parameters of the definitions that use them.
\<close>

datatype json =
    Null
  | Boolean bool
  | Number int
  | Double string
  | String string
  | Binary bytes
  | Array "json list"
  | Object "(string \<times> json) list"

fun is_object :: "json \<Rightarrow> bool" where
  "is_object (Object _) = True"
| "is_object _ = False"

text \<open>\<^verbatim>\<open>contains(name)\<close> is false for what is not an object; \<^verbatim>\<open>j[name]\<close> is read only after it.\<close>

fun contains :: "json \<Rightarrow> string \<Rightarrow> bool" where
  "contains (Object fs) name = (map_of fs name \<noteq> None)"
| "contains _ name = False"

fun field :: "json \<Rightarrow> string \<Rightarrow> json" where
  "field (Object fs) name = (case map_of fs name of Some v \<Rightarrow> v | None \<Rightarrow> Null)"
| "field _ name = Null"

text \<open>
  The values that \<^verbatim>\<open>items()\<close> iterates over: the elements of an array, the member values of an object,
  nothing for null, and a primitive value itself.
\<close>

fun items :: "json \<Rightarrow> json list" where
  "items (Array xs) = xs"
| "items (Object fs) = map snd fs"
| "items Null = []"
| "items j = [j]"

text \<open>Emplacing a member keeps one that is there; assignment through the index operator replaces it.\<close>

fun emplace :: "string \<times> json \<Rightarrow> (string \<times> json) list \<Rightarrow> (string \<times> json) list" where
  "emplace (k, v) [] = [(k, v)]"
| "emplace (k, v) ((k', v') # fs) =
     (if k = k' then (k', v') # fs else if k < k' then (k, v) # (k', v') # fs else (k', v') # emplace (k, v) fs)"

fun assign :: "string \<times> json \<Rightarrow> (string \<times> json) list \<Rightarrow> (string \<times> json) list" where
  "assign (k, v) [] = [(k, v)]"
| "assign (k, v) ((k', v') # fs) =
     (if k = k' then (k, v) # fs else if k < k' then (k, v) # (k', v') # fs else (k', v') # assign (k, v) fs)"

definition json_object :: "(string \<times> json) list \<Rightarrow> json" where
  "json_object fs = Object (fold emplace fs [])"

section \<open>The envelopes of JSON-RPC\<close>

definition to_json_Error :: "int \<Rightarrow> string \<Rightarrow> json" where
  "to_json_Error code message = json_object [(''code'', Number code), (''message'', String message)]"

definition make_json_content :: "u32 \<Rightarrow> json \<Rightarrow> json" where
  "make_json_content rid result =
     json_object [(''jsonrpc'', String ''2.0''), (''id'', Number (uint rid)), (''result'', result)]"

definition make_json_error :: "u32 \<Rightarrow> int \<Rightarrow> string \<Rightarrow> json" where
  "make_json_error rid code message =
     json_object [(''jsonrpc'', String ''2.0''), (''id'', Number (uint rid)), (''error'', to_json_Error code message)]"

end
