(* ===== verification/Request_Handler.thy ===== *)
theory Request_Handler
  imports Http_Reply Json_Stream Rpc_Api_Table Json
begin

text \<open>
  The request handler of \<^verbatim>\<open>http/request_handler.cpp\<close>: authorisation, dispatch of a single request or a
  batch to the handlers of the table, and the replies. What the handler calls and does not define (the
  JSON parser and printer, the JWT library, the RPC methods) is collected in the record \<open>env\<close>. The
  state of the server holds the state of the RPC methods, the calls made so far, and what was written
  to the socket. The status of a reply is None until it is assigned: the struct does not initialise it.
\<close>

section \<open>What is called\<close>

datatype rpc_outcome = Completed json | Std_exception string | Unknown_exception

record ('w, 't) env =
  env_parse :: "string \<Rightarrow> json result"
  env_dump :: "json \<Rightarrow> string result"
  env_dump_replace :: "json \<Rightarrow> string"
  env_get_uint32 :: "json \<Rightarrow> u32 result"
  env_get_string :: "json \<Rightarrow> string result"
  env_jwt_decode :: "string \<Rightarrow> 't option"
  env_has_issued_at :: "'t \<Rightarrow> bool"
  env_jwt_verify :: "string \<Rightarrow> 't \<Rightarrow> bool"
  env_method :: "string \<Rightarrow> json \<Rightarrow> 'w \<Rightarrow> rpc_outcome \<times> 'w"
  env_stream :: "string \<Rightarrow> json \<Rightarrow> 'w \<Rightarrow> json op list \<times> bool \<times> 'w"
  env_table :: rpc_api_table
  env_jwt_secret :: "string option"

record 'w server =
  world :: "'w"
  calls :: "(string \<times> json) list"
  sent :: string

record handler_reply =
  hr_status :: "status_type option"
  hr_headers :: "header list"
  hr_content :: string

definition new_reply :: handler_reply where
  "new_reply = \<lparr>hr_status = None, hr_headers = [], hr_content = []\<rparr>"

definition set_reply :: "handler_reply \<Rightarrow> status_type \<Rightarrow> string \<Rightarrow> handler_reply" where
  "set_reply r st c = r\<lparr>hr_status := Some st, hr_content := c\<rparr>"

section \<open>Authorisation\<close>

definition is_request_authorized :: "('w, 't) env \<Rightarrow> request \<Rightarrow> string option" where
  "is_request_authorized env req =
     (case env_jwt_secret env of
        None \<Rightarrow> None
      | Some secret \<Rightarrow>
          (case find (\<lambda>h. h_name h = ''Authorization'') (rq_headers req) of
             None \<Rightarrow> Some ''missing Authorization Header''
           | Some h \<Rightarrow>
               if take 7 (h_value h) = ''Bearer ''
               then
                 (case env_jwt_decode env (drop 7 (h_value h)) of
                    None \<Rightarrow> Some ''invalid token''
                  | Some tok \<Rightarrow>
                      if \<not> env_has_issued_at env tok then Some ''iat(Issued At) not defined''
                      else if \<not> env_jwt_verify env secret tok then Some ''invalid token''
                      else None)
               else Some ''missing token''))"

section \<open>The handlers\<close>

definition handle_method ::
  "('w, 't) env \<Rightarrow> string \<Rightarrow> json \<Rightarrow> handler_reply \<Rightarrow> 'w server \<Rightarrow> handler_reply result \<times> 'w server" where
  "handle_method env handler request_json reply srv =
     (case env_get_uint32 env (field request_json ''id'') of
        Inl e \<Rightarrow> (Throw e, srv)
      | Inr rid \<Rightarrow>
          (case env_method env handler request_json (world srv) of (outcome, w) \<Rightarrow>
             (bind_r
                (case outcome of
                   Completed reply_json \<Rightarrow> Ok (Ok_200, env_dump_replace env reply_json)
                 | Std_exception what \<Rightarrow>
                     bind_r (env_dump env (make_json_error rid 100 what)) (\<lambda>c. Ok (Internal_server_error, c))
                 | Unknown_exception \<Rightarrow>
                     bind_r (env_dump env (make_json_error rid 100 ''unexpected exception''))
                       (\<lambda>c. Ok (Internal_server_error, c)))
                (\<lambda>(st, c). Ok (set_reply reply st c)),
              srv\<lparr>world := w, calls := calls srv @ [(handler, request_json)]\<rparr>)))"

definition DEFAULT_CHUNCK_SIZE :: nat where
  "DEFAULT_CHUNCK_SIZE = 0x800"

definition write_headers :: "'w server \<Rightarrow> 'w server" where
  "write_headers srv = srv\<lparr>sent := sent srv @ concat (status_to_buffers Ok_200
     [Hdr ''Content-Type'' ''application/json'', Hdr ''Transfer-Encoding'' ''chunked''])\<rparr>"

text \<open>
  A stream handler makes a sequence of calls on the stream and may end with an exception, which is
  logged; the stream is closed only when it does not. \<open>sent_after\<close> puts the chunks behind what is on the
  socket.
\<close>

definition handle_stream :: "('w, 't) env \<Rightarrow> string \<Rightarrow> json \<Rightarrow> 'w server \<Rightarrow> unit result \<times> 'w server" where
  "handle_stream env handler request_json srv =
     (let srv1 = write_headers srv in
      case env_stream env handler request_json (world srv1) of (ops, failed, w) \<Rightarrow>
        let srv2 = srv1\<lparr>world := w, calls := calls srv1 @ [(handler, request_json)]\<rparr> in
        case run chunks_write_total (env_dump_replace env) ops (make_stream (make_chunks_writer [] DEFAULT_CHUNCK_SIZE)) of
          Inl e \<Rightarrow> (Throw e, srv2)
        | Inr st \<Rightarrow>
            (Ok (), srv2\<lparr>sent := sent srv2 @
               inner (if failed then writer_ref st else chunks_close string_write (\<lambda>x. x) (writer_ref st))\<rparr>))"

definition handle_single ::
  "('w, 't) env \<Rightarrow> json \<Rightarrow> handler_reply \<Rightarrow> 'w server \<Rightarrow> handler_reply result \<times> 'w server" where
  "handle_single env request_json reply srv =
     (case env_get_uint32 env (field request_json ''id'') of
        Inl e \<Rightarrow> (Throw e, srv)
      | Inr rid \<Rightarrow>
          let invalid = bind_r (env_dump env (make_json_error rid (- 32600) ''invalid request''))
                (\<lambda>c. Ok (set_reply reply Bad_request c))
          in if \<not> contains request_json ''method'' then (invalid, srv)
          else case env_get_string env (field request_json ''method'') of
            Inl e \<Rightarrow> (Throw e, srv)
          | Inr name \<Rightarrow>
              if length name = 0 then (invalid, srv)
              else case find_json_handler (env_table env) name of
                Some handler \<Rightarrow> handle_method env handler request_json reply srv
              | None \<Rightarrow>
                  (case find_stream_handler (env_table env) name of
                     Some handler \<Rightarrow>
                       (case handle_stream env handler request_json srv of
                          (Inl e, srv') \<Rightarrow> (Throw e, srv')
                        | (Inr _, srv') \<Rightarrow> (Ok reply, srv'))
                   | None \<Rightarrow>
                       (bind_r (env_dump env (make_json_error rid (- 32601)
                          (''the method '' @ name @ '' does not exist/is not available'')))
                          (\<lambda>c. Ok (set_reply reply Not_implemented c)), srv)))"

definition do_write :: "handler_reply \<Rightarrow> 'w server \<Rightarrow> unit result \<times> 'w server" where
  "do_write reply srv =
     (case hr_status reply of
        None \<Rightarrow> (Throw Uninitialized_read, srv)
      | Some st \<Rightarrow>
          (Ok (), srv\<lparr>sent := sent srv @ concat (reply_to_buffers
             \<lparr>rp_status = st,
              rp_headers = hr_headers reply @ [Hdr ''Content-Length'' (to_string (length (hr_content reply))),
                Hdr ''Content-Type'' ''application/json''],
              rp_content = hr_content reply\<rparr>)\<rparr>))"

section \<open>A request\<close>

text \<open>The reply of an unauthorised request, and one element of a batch.\<close>

definition deny :: "('w, 't) env \<Rightarrow> u32 \<Rightarrow> string \<Rightarrow> handler_reply \<Rightarrow> handler_reply result" where
  "deny env rid error reply =
     bind_r (env_dump env (make_json_error rid 403 error)) (\<lambda>c. Ok (set_reply reply Unauthorized (c @ [LF])))"

record batch =
  batch_reply :: handler_reply
  batch_reply_content :: string
  first_element :: bool

definition handle_item ::
  "('w, 't) env \<Rightarrow> request \<Rightarrow> json \<Rightarrow> batch \<Rightarrow> 'w server \<Rightarrow> batch result \<times> 'w server" where
  "handle_item env req item_json b srv =
     (if \<not> contains item_json ''id''
      then (Ok (b\<lparr>batch_reply := set_reply (batch_reply b) Ok_200 [LF]\<rparr>), srv)
      else case env_get_uint32 env (field item_json ''id'') of
        Inl e \<Rightarrow> (Throw e, srv)
      | Inr rid \<Rightarrow>
          (case is_request_authorized env req of
             Some error \<Rightarrow> (bind_r (deny env rid error (batch_reply b)) (\<lambda>r. Ok (b\<lparr>batch_reply := r\<rparr>)), srv)
           | None \<Rightarrow>
               let b1 = (if first_element b then b\<lparr>first_element := False\<rparr>
                         else b\<lparr>batch_reply_content := batch_reply_content b @ '',''\<rparr>)
               in case handle_single env item_json (batch_reply b1) srv of
                 (Inl e, srv') \<Rightarrow> (Throw e, srv')
               | (Inr r, srv') \<Rightarrow>
                   (Ok (b1\<lparr>batch_reply := r, batch_reply_content := batch_reply_content b1 @ hr_content r\<rparr>), srv')))"

fun handle_items ::
  "('w, 't) env \<Rightarrow> request \<Rightarrow> json list \<Rightarrow> batch \<Rightarrow> 'w server \<Rightarrow> batch result \<times> 'w server" where
  "handle_items env req [] b srv = (Ok b, srv)"
| "handle_items env req (x # xs) b srv =
     (case handle_item env req x b srv of
        (Inl e, srv') \<Rightarrow> (Throw e, srv')
      | (Inr b', srv') \<Rightarrow> handle_items env req xs b' srv')"

definition handle_batch ::
  "('w, 't) env \<Rightarrow> request \<Rightarrow> json \<Rightarrow> handler_reply \<Rightarrow> 'w server \<Rightarrow> handler_reply result \<times> 'w server" where
  "handle_batch env req request_json reply srv =
     (case handle_items env req (items request_json)
             \<lparr>batch_reply = reply, batch_reply_content = ''['', first_element = True\<rparr> srv of
        (Inl e, srv') \<Rightarrow> (Throw e, srv')
      | (Inr b, srv') \<Rightarrow> (Ok ((batch_reply b)\<lparr>hr_content := batch_reply_content b @ '']'' @ [LF]\<rparr>), srv'))"

definition handle_object ::
  "('w, 't) env \<Rightarrow> request \<Rightarrow> json \<Rightarrow> handler_reply \<Rightarrow> 'w server \<Rightarrow> handler_reply result \<times> 'w server" where
  "handle_object env req request_json reply srv =
     (if \<not> contains request_json ''id'' then (Ok (set_reply reply Ok_200 [LF]), srv)
      else case env_get_uint32 env (field request_json ''id'') of
        Inl e \<Rightarrow> (Throw e, srv)
      | Inr rid \<Rightarrow>
          (case is_request_authorized env req of
             Some error \<Rightarrow> (deny env rid error reply, srv)
           | None \<Rightarrow>
               (case handle_single env request_json reply srv of
                  (Inl e, srv') \<Rightarrow> (Throw e, srv')
                | (Inr r, srv') \<Rightarrow> (Ok (r\<lparr>hr_content := hr_content r @ [LF]\<rparr>), srv'))))"

definition handle_request :: "('w, 't) env \<Rightarrow> request \<Rightarrow> 'w server \<Rightarrow> unit result \<times> 'w server" where
  "handle_request env req srv =
     (if rq_content req = [] then do_write (set_reply new_reply No_content []) srv
      else case env_parse env (rq_content req) of
        Inl e \<Rightarrow> (Throw e, srv)
      | Inr request_json \<Rightarrow>
          (case (if is_object request_json then handle_object env req request_json new_reply srv
                 else handle_batch env req request_json new_reply srv) of
             (Inl e, srv') \<Rightarrow> (Throw e, srv')
           | (Inr reply, srv') \<Rightarrow> do_write reply srv'))"

end
