(* ===== verification/Request_Handler_Props.thy ===== *)
theory Request_Handler_Props
  imports Request_Handler
begin

text \<open>
  What the request handler guarantees: nothing runs for an unauthorised request, only handlers of the
  table run and each request runs at most one, a batch is answered with the array of its replies; and
  where it does not do what it means to.
\<close>

section \<open>The calls a request makes\<close>

text \<open>\<open>runs env srv srv' n\<close>: the state after at most \<open>n\<close> calls of handlers that the table gives for the method.\<close>

definition table_call :: "('w, 't) env \<Rightarrow> string \<times> json \<Rightarrow> bool" where
  "table_call env c =
     (case env_get_string env (field (snd c) ''method'') of
        Inl _ \<Rightarrow> False
      | Inr name \<Rightarrow> find_json_handler (env_table env) name = Some (fst c) \<or>
                    find_stream_handler (env_table env) name = Some (fst c))"

definition runs :: "('w, 't) env \<Rightarrow> 'w server \<Rightarrow> 'w server \<Rightarrow> nat \<Rightarrow> bool" where
  "runs env srv srv' n \<longleftrightarrow>
     (\<exists>new. calls srv' = calls srv @ new \<and> length new \<le> n \<and> (\<forall>c \<in> set new. table_call env c))"

lemma runs_refl [simp]: "runs env srv srv n"
  by (simp add: runs_def)

lemma runs_trans: "runs env a b m \<Longrightarrow> runs env b c n \<Longrightarrow> runs env a c (m + n)"
  unfolding runs_def by (elim exE conjE) (rule exI, auto)

lemma runs_mono: "runs env a b m \<Longrightarrow> m \<le> n \<Longrightarrow> runs env a b n"
  unfolding runs_def by (meson order_trans)

lemma do_write_calls [simp]: "calls (snd (do_write r srv)) = calls srv" "world (snd (do_write r srv)) = world srv"
  by (simp_all add: do_write_def split: option.splits)

lemma runs_do_write [simp]: "runs env a (snd (do_write r b)) n = runs env a b n"
  by (simp add: runs_def)

lemma handle_method_calls:
  "calls (snd (handle_method env h j r srv)) = calls srv \<or> calls (snd (handle_method env h j r srv)) = calls srv @ [(h, j)]"
  by (simp add: handle_method_def split: sum.splits prod.splits)

lemma handle_stream_calls: "calls (snd (handle_stream env h j srv)) = calls srv @ [(h, j)]"
  by (simp add: handle_stream_def Let_def write_headers_def split: sum.splits prod.splits)

lemma runs_one:
  "calls b = calls a \<or> calls b = calls a @ [(h, j)] \<Longrightarrow> env_get_string env (field j ''method'') = Ok name \<Longrightarrow>
   find_json_handler (env_table env) name = Some h \<or> find_stream_handler (env_table env) name = Some h \<Longrightarrow> runs env a b 1"
  by (auto simp: runs_def table_call_def)

lemma handle_single_runs: "runs env srv (snd (handle_single env j r srv)) 1"
proof -
  consider (none) "snd (handle_single env j r srv) = srv"
    | (meth) h name where "env_get_string env (field j ''method'') = Ok name" "find_json_handler (env_table env) name = Some h"
        "snd (handle_single env j r srv) = snd (handle_method env h j r srv)"
    | (strm) h name where "env_get_string env (field j ''method'') = Ok name" "find_stream_handler (env_table env) name = Some h"
        "snd (handle_single env j r srv) = snd (handle_stream env h j srv)"
    by (fastforce simp: handle_single_def Let_def split: sum.splits option.splits prod.splits if_splits)
  then show ?thesis
  proof cases
    case none
    then show ?thesis by simp
  next
    case meth
    then show ?thesis using runs_one [OF handle_method_calls meth(1) disjI1 [OF meth(2)]] by simp
  next
    case strm
    then show ?thesis using runs_one [OF disjI2 [OF handle_stream_calls] strm(1) disjI2 [OF strm(2)]] by simp
  qed
qed

text \<open>An element of a batch: nothing when the request is not authorised.\<close>

lemma handle_item_denied:
  "is_request_authorized env req = Some e \<Longrightarrow> snd (handle_item env req j b srv) = srv"
  by (simp add: handle_item_def split: sum.splits)

lemma handle_items_denied:
  "is_request_authorized env req = Some e \<Longrightarrow> snd (handle_items env req js b srv) = srv"
proof (induction js arbitrary: b srv)
  case (Cons j js)
  obtain res srv' where h: "handle_item env req j b srv = (res, srv')" by fastforce
  then have "srv' = srv" using handle_item_denied [OF Cons.prems, of j b srv] by simp
  with h Cons show ?case by (cases res) simp_all
qed simp

lemma handle_item_runs: "runs env srv (snd (handle_item env req j b srv)) 1"
proof -
  have "snd (handle_item env req j b srv) = srv \<or>
      snd (handle_item env req j b srv) = snd (handle_single env j (batch_reply b) srv)"
    by (cases "first_element b"; cases "handle_single env j (batch_reply b) srv")
      (simp_all add: handle_item_def Let_def split: sum.splits option.splits)
  then show ?thesis using handle_single_runs [of env srv j] by auto
qed

lemma handle_items_runs: "runs env srv (snd (handle_items env req js b srv)) (length js)"
proof (induction js arbitrary: b srv)
  case (Cons j js)
  obtain res srv' where h: "handle_item env req j b srv = (res, srv')" by fastforce
  then have one: "runs env srv srv' 1" using handle_item_runs [of env srv req j b] by simp
  show ?case
  proof (cases res)
    case (Inl e)
    then show ?thesis using h one by (simp add: runs_mono)
  next
    case (Inr b')
    then show ?thesis using h runs_trans [OF one Cons.IH [of srv' b']] by simp
  qed
qed simp

lemma handle_batch_snd:
  "snd (handle_batch env req j r srv) =
     snd (handle_items env req (items j) \<lparr>batch_reply = r, batch_reply_content = ''['', first_element = True\<rparr> srv)"
  by (simp add: handle_batch_def split: sum.splits prod.splits)

lemma handle_object_denied:
  "is_request_authorized env req = Some e \<Longrightarrow> snd (handle_object env req j r srv) = srv"
  by (simp add: handle_object_def split: sum.splits)

lemma handle_object_runs: "runs env srv (snd (handle_object env req j r srv)) 1"
proof -
  have "snd (handle_object env req j r srv) = srv \<or>
      snd (handle_object env req j r srv) = snd (handle_single env j r srv)"
    by (fastforce simp: handle_object_def split: sum.splits option.splits prod.splits)
  then show ?thesis using handle_single_runs [of env srv j r] by auto
qed

lemma handle_request_cases:
  obtains "calls (snd (handle_request env req srv)) = calls srv" "world (snd (handle_request env req srv)) = world srv"
  | j where "env_parse env (rq_content req) = Ok j"
      "calls (snd (handle_request env req srv)) = calls (snd (if is_object j then handle_object env req j new_reply srv
         else handle_batch env req j new_reply srv))"
      "world (snd (handle_request env req srv)) = world (snd (if is_object j then handle_object env req j new_reply srv
         else handle_batch env req j new_reply srv))"
proof (cases "rq_content req = []")
  case True
  then show ?thesis using that(1) by (simp add: handle_request_def)
next
  case ne: False
  show ?thesis
  proof (cases "env_parse env (rq_content req)")
    case (Inl e)
    then show ?thesis using ne that(1) by (simp add: handle_request_def)
  next
    case (Inr j)
    obtain res srv' where h: "(if is_object j then handle_object env req j new_reply srv
        else handle_batch env req j new_reply srv) = (res, srv')" by fastforce
    then have "handle_request env req srv = (case res of Inl e \<Rightarrow> (Throw e, srv') | Inr reply \<Rightarrow> do_write reply srv')"
      using ne Inr by (simp only: handle_request_def if_False sum.case prod.case)
    then show ?thesis using that(2) [OF Inr] h by (cases res) simp_all
  qed
qed


text \<open>
  The handlers that a request runs are those the table gives for the method that the request names,
  and there is at most one call for a request object and at most one for each element of a batch.
\<close>
lemma request_runs_table_handlers:
  "\<exists>new. calls (snd (handle_request env req srv)) = calls srv @ new \<and>
     (\<forall>c \<in> set new. table_call env c) \<and>
     length new \<le> (case env_parse env (rq_content req) of Inl _ \<Rightarrow> 0
        | Inr j \<Rightarrow> if is_object j then 1 else length (items j))"
proof (rule handle_request_cases [of env req srv])
  fix j
  assume "env_parse env (rq_content req) = Ok j"
    and "calls (snd (handle_request env req srv)) = calls (snd (if is_object j then handle_object env req j new_reply srv
         else handle_batch env req j new_reply srv))"
  then show ?thesis
    using handle_object_runs [of env srv req j new_reply] handle_items_runs [of env srv req "items j"]
    by (fastforce simp: runs_def handle_batch_snd)
qed simp

section \<open>Replies\<close>

lemma do_write_Some:
  "hr_status r = Some st \<Longrightarrow> do_write r srv =
     (Ok (), srv\<lparr>sent := sent srv @ concat (reply_to_buffers \<lparr>rp_status = st,
        rp_headers = hr_headers r @ [Hdr ''Content-Length'' (to_string (length (hr_content r))),
          Hdr ''Content-Type'' ''application/json''], rp_content = hr_content r\<rparr>)\<rparr>)"
  by (simp add: do_write_def)

text \<open>The bytes of a reply with a status and a content.\<close>

definition json_reply :: "status_type \<Rightarrow> string \<Rightarrow> string" where
  "json_reply st c = concat (reply_to_buffers \<lparr>rp_status = st,
     rp_headers = [Hdr ''Content-Length'' (to_string (length c)), Hdr ''Content-Type'' ''application/json''],
     rp_content = c\<rparr>)"

lemma do_write_set_reply:
  "do_write (set_reply new_reply st c) srv = (Ok (), srv\<lparr>sent := sent srv @ json_reply st c\<rparr>)"
  by (simp add: do_write_def set_reply_def new_reply_def json_reply_def)

text \<open>
  A single request with an identifier that is not authorised is answered with status 401 and a
  JSON-RPC error with code 403, the reason and the identifier of the request.
\<close>
lemma unauthorized_object_answered:
  assumes "is_request_authorized env req = Some error" "rq_content req \<noteq> []"
    and "env_parse env (rq_content req) = Ok j" "is_object j" "contains j ''id''"
    and "env_get_uint32 env (field j ''id'') = Ok rid" "env_dump env (make_json_error rid 403 error) = Ok text"
  shows "handle_request env req srv = (Ok (), srv\<lparr>sent := sent srv @ json_reply Unauthorized (text @ [LF])\<rparr>)"
  using assms by (simp add: handle_request_def handle_object_def deny_def do_write_set_reply)

text \<open>
  In a batch the error of an unauthorised element is lost: when every element has an identifier and
  the request is not authorised, the answer to a non-empty batch has status 401 and the empty array as
  its content.
\<close>
lemma unauthorized_batch_answered:
  assumes "is_request_authorized env req = Some error" "rq_content req \<noteq> []"
    and "env_parse env (rq_content req) = Ok (Array js)" "js \<noteq> []"
    and "\<forall>j \<in> set js. contains j ''id'' \<and> (\<exists>rid. env_get_uint32 env (field j ''id'') = Ok rid \<and>
           (\<exists>text. env_dump env (make_json_error rid 403 error) = Ok text))"
  shows "handle_request env req srv = (Ok (), srv\<lparr>sent := sent srv @ json_reply Unauthorized (''[]'' @ [LF])\<rparr>)"
proof -
  have "\<exists>c. handle_items env req js b srv =
      (Ok (b\<lparr>batch_reply := if js = [] then batch_reply b else set_reply (batch_reply b) Unauthorized c\<rparr>), srv)"
    if "\<forall>j \<in> set js. contains j ''id'' \<and> (\<exists>rid. env_get_uint32 env (field j ''id'') = Ok rid \<and>
           (\<exists>text. env_dump env (make_json_error rid 403 error) = Ok text))" for js b
    using that
  proof (induction js arbitrary: b)
    case (Cons j js)
    then obtain rid c0 where "contains j ''id''" "env_get_uint32 env (field j ''id'') = Ok rid"
      "env_dump env (make_json_error rid 403 error) = Ok c0" by auto
    then have hd: "handle_items env req (j # js) b srv =
        handle_items env req js (b\<lparr>batch_reply := set_reply (batch_reply b) Unauthorized (c0 @ [LF])\<rparr>) srv"
      using assms(1) by (simp add: handle_item_def deny_def)
    from Cons.prems have p: "\<forall>j \<in> set js. contains j ''id'' \<and> (\<exists>rid. env_get_uint32 env (field j ''id'') = Ok rid \<and>
           (\<exists>text. env_dump env (make_json_error rid 403 error) = Ok text))" by simp
    define b1 where "b1 = b\<lparr>batch_reply := set_reply (batch_reply b) Unauthorized (c0 @ [LF])\<rparr>"
    from Cons.IH [OF p, of b1] obtain c where "handle_items env req js b1 srv =
        (Ok (b1\<lparr>batch_reply := if js = [] then batch_reply b1 else set_reply (batch_reply b1) Unauthorized c\<rparr>), srv)"
      by blast
    with hd show ?case by (cases "js = []") (auto simp: b1_def set_reply_def)
  qed simp
  from this [OF assms(5), of "\<lparr>batch_reply = new_reply, batch_reply_content = ''['', first_element = True\<rparr>"] assms(4)
  obtain c where
    "handle_items env req js \<lparr>batch_reply = new_reply, batch_reply_content = ''['', first_element = True\<rparr> srv =
      (Ok (\<lparr>batch_reply = set_reply new_reply Unauthorized c, batch_reply_content = ''['', first_element = True\<rparr>), srv)"
    by auto
  then show ?thesis
    using assms(2,3) do_write_set_reply [of Unauthorized "''[]'' @ [LF]" srv]
    by (simp add: handle_request_def handle_batch_def set_reply_def)
qed

text \<open>A request for a method of the table whose handler completes, and the replies of a batch of them.\<close>

definition completes :: "('w, 't) env \<Rightarrow> json \<Rightarrow> bool" where
  "completes env j \<longleftrightarrow>
     contains j ''id'' \<and> contains j ''method'' \<and>
     (case env_get_uint32 env (field j ''id'') of Inl _ \<Rightarrow> False | Inr _ \<Rightarrow> True) \<and>
     (case env_get_string env (field j ''method'') of Inl _ \<Rightarrow> False
      | Inr name \<Rightarrow> name \<noteq> [] \<and>
          (case find_json_handler (env_table env) name of None \<Rightarrow> False
           | Some h \<Rightarrow> (\<forall>w. case fst (env_method env h j w) of Completed _ \<Rightarrow> True | _ \<Rightarrow> False)))"

fun outputs :: "('w, 't) env \<Rightarrow> json list \<Rightarrow> 'w \<Rightarrow> string list" where
  "outputs env [] w = []"
| "outputs env (j # js) w =
     (case env_get_string env (field j ''method'') of Inl _ \<Rightarrow> []
      | Inr name \<Rightarrow> (case find_json_handler (env_table env) name of None \<Rightarrow> []
         | Some h \<Rightarrow> (case env_method env h j w of
              (Completed r, w') \<Rightarrow> env_dump_replace env r # outputs env js w'
            | _ \<Rightarrow> [])))"

lemma completes_single:
  assumes "completes env j"
  obtains h r w' where "handle_single env j rep srv =
      (Ok (set_reply rep Ok_200 (env_dump_replace env r)), srv\<lparr>world := w', calls := calls srv @ [(h, j)]\<rparr>)"
    "outputs env (j # js) (world srv) = env_dump_replace env r # outputs env js w'"
proof -
  from assms obtain rid name h where f: "contains j ''method''" "env_get_uint32 env (field j ''id'') = Ok rid"
    "env_get_string env (field j ''method'') = Ok name" "name \<noteq> []" "find_json_handler (env_table env) name = Some h"
    "\<forall>w. case fst (env_method env h j w) of Completed _ \<Rightarrow> True | _ \<Rightarrow> False"
    by (auto simp: completes_def split: sum.splits option.splits)
  from spec [OF f(6), of "world srv"] obtain r w' where m: "env_method env h j (world srv) = (Completed r, w')"
    by (cases "env_method env h j (world srv)") (auto split: rpc_outcome.splits)
  show thesis
    by (rule that [where h = h and r = r and w' = w']) (use f m in \<open>simp_all add: handle_single_def Let_def handle_method_def\<close>)
qed

text \<open>The elements after the first one of an array.\<close>

definition tail_join :: "string list \<Rightarrow> string" where
  "tail_join xs = concat (map (\<lambda>y. '','' @ y) xs)"

lemma tail_join_simps: "tail_join [] = []" "tail_join (x # xs) = '','' @ x @ tail_join xs" "join '','' (x # xs) = x @ tail_join xs"
  by (simp_all add: tail_join_def join_Cons)

lemma batch_outputs:
  assumes "is_request_authorized env req = None" "\<forall>j \<in> set js. completes env j"
  shows "\<exists>srv'. handle_items env req js b srv =
      (Ok \<lparr>batch_reply = (if js = [] then batch_reply b else set_reply (batch_reply b) Ok_200 (last (outputs env js (world srv)))),
           batch_reply_content = batch_reply_content b @ (if first_element b then join '','' (outputs env js (world srv))
             else tail_join (outputs env js (world srv))),
           first_element = (first_element b \<and> js = [])\<rparr>, srv') \<and>
    sent srv' = sent srv \<and> length (outputs env js (world srv)) = length js"
  using assms(2)
proof (induction js arbitrary: b srv)
  case Nil
  then show ?case by (cases b) (simp add: tail_join_simps)
next
  case (Cons j js)
  let ?b = "if first_element b then b\<lparr>first_element := False\<rparr>
            else b\<lparr>batch_reply_content := batch_reply_content b @ '',''\<rparr>"
  from Cons.prems have cj: "completes env j" by simp
  obtain h r w' where s: "handle_single env j (batch_reply b) srv =
      (Ok (set_reply (batch_reply b) Ok_200 (env_dump_replace env r)), srv\<lparr>world := w', calls := calls srv @ [(h, j)]\<rparr>)"
    "outputs env (j # js) (world srv) = env_dump_replace env r # outputs env js w'"
    by (rule completes_single [OF cj, of "batch_reply b" srv js])
  let ?o = "env_dump_replace env r"
  let ?srv = "srv\<lparr>world := w', calls := calls srv @ [(h, j)]\<rparr>"
  let ?b1 = "\<lparr>batch_reply = set_reply (batch_reply b) Ok_200 ?o,
    batch_reply_content = batch_reply_content b @ (if first_element b then ?o else '','' @ ?o), first_element = False\<rparr>"
  have item: "handle_item env req j b srv = (Ok ?b1, ?srv)"
    using cj assms(1) s(1) by (auto simp: handle_item_def completes_def Let_def set_reply_def split: sum.splits)
  define b1 where "b1 = ?b1"
  have b1: "batch_reply b1 = set_reply (batch_reply b) Ok_200 ?o" "\<not> first_element b1"
    "batch_reply_content b1 = batch_reply_content b @ (if first_element b then ?o else '','' @ ?o)"
    by (simp_all add: b1_def)
  from Cons.IH [of b1 ?srv] Cons.prems b1(2) obtain srv' where ih:
    "handle_items env req js b1 ?srv =
      (Ok \<lparr>batch_reply = (if js = [] then batch_reply b1 else set_reply (batch_reply b1) Ok_200 (last (outputs env js w'))),
           batch_reply_content = batch_reply_content b1 @ tail_join (outputs env js w'),
           first_element = False\<rparr>, srv')" "sent srv' = sent srv" "length (outputs env js w') = length js"
    by auto
  have ne: "js \<noteq> [] \<Longrightarrow> outputs env js w' \<noteq> []" using ih(3) by auto
  have hd: "handle_items env req (j # js) b srv = handle_items env req js b1 ?srv"
    using item by (simp add: b1_def)
  show ?case
    unfolding hd ih(1) s(2)
    using ih(2,3) ne by (cases "js = []") (simp_all add: b1 tail_join_simps set_reply_def)
qed

text \<open>
  C35: An authorised, non-empty batch of requests whose methods complete is answered with status 200
  and the JSON array of the results, in the order of the requests, each computed in the state that the
  ones before it left.
\<close>
theorem batch_answered_in_order:
  assumes "is_request_authorized env req = None" "rq_content req \<noteq> []"
    and "env_parse env (rq_content req) = Ok (Array js)" "js \<noteq> []" "\<forall>j \<in> set js. completes env j"
  shows "\<exists>srv'. handle_request env req srv = (Ok (), srv') \<and>
    sent srv' = sent srv @ json_reply Ok_200 (''['' @ join '','' (outputs env js (world srv)) @ '']'' @ [LF]) \<and>
    length (outputs env js (world srv)) = length js"
proof -
  let ?b = "\<lparr>batch_reply = new_reply, batch_reply_content = ''['', first_element = True\<rparr>"
  from batch_outputs [OF assms(1,5), of ?b srv] assms(4) obtain srv' where
    h: "handle_items env req js ?b srv =
      (Ok \<lparr>batch_reply = set_reply new_reply Ok_200 (last (outputs env js (world srv))),
           batch_reply_content = ''['' @ join '','' (outputs env js (world srv)), first_element = False\<rparr>, srv')"
      "sent srv' = sent srv" "length (outputs env js (world srv)) = length js"
    by auto
  let ?c = "''['' @ join '','' (outputs env js (world srv)) @ '']'' @ [LF]"
  have "handle_request env req srv = do_write (set_reply new_reply Ok_200 ?c) srv'"
    using assms(2,3) h(1) by (simp add: handle_request_def handle_batch_def set_reply_def)
  then show ?thesis using h(2,3) by (simp add: do_write_set_reply)
qed

text \<open>
  After a stream handler has completed and its chunks have been written, the handler goes on to
  write a second reply, whose status nobody has assigned: the bytes on the socket are the chunked reply
  and then \<^verbatim>\<open>do_write\<close> reads an uninitialised status.
\<close>
lemma stream_request_reads_uninitialized_status:
  assumes "is_request_authorized env req = None" "rq_content req \<noteq> []"
    and "env_parse env (rq_content req) = Ok j" "is_object j" "contains j ''id''" "contains j ''method''"
    and "env_get_uint32 env (field j ''id'') = Ok rid" "env_get_string env (field j ''method'') = Ok name" "name \<noteq> []"
    and "find_json_handler (env_table env) name = None" "find_stream_handler (env_table env) name = Some h"
    and "env_stream env h j (world srv) = (ops_of d, False, w)" "flat_arrays d"
    and "doc_ok (\<lambda>s. NUL \<notin> set s) (env_dump_replace env) d"
  shows "\<exists>body srv'. handle_request env req srv = (Throw Uninitialized_read, srv') \<and>
    sent srv' = sent (write_headers srv) @ body \<and> dechunk body = (render (env_dump_replace env) d, chunck_sep)"
proof -
  have "0 < DEFAULT_CHUNCK_SIZE" by (simp add: DEFAULT_CHUNCK_SIZE_def)
  from chunk_stream.emits_ops_make_stream [OF _ conjunct1 [OF chunk_inv_make [OF this]]]
    chunk_stream.doc_emits [OF assms(13,14), of "[]"]
  obtain t where t: "run chunks_write_total (env_dump_replace env) (ops_of d) (make_stream (make_chunks_writer [] DEFAULT_CHUNCK_SIZE)) = Ok t"
    "chunk_inv (writer_ref t)" "chunk_content (writer_ref t) = render (env_dump_replace env) d"
    using chunk_inv_make [of DEFAULT_CHUNCK_SIZE] by (fastforce simp: in_array_def entered_def sep_of_def DEFAULT_CHUNCK_SIZE_def)
  let ?body = "inner (chunks_close string_write (\<lambda>x. x) (writer_ref t))"
  have "\<exists>srv'. handle_stream env h j srv = (Ok (), srv') \<and> sent srv' = sent (write_headers srv) @ ?body"
    using assms(12) t(1) by (simp add: handle_stream_def Let_def write_headers_def)
  then obtain srv' where s: "handle_stream env h j srv = (Ok (), srv')" "sent srv' = sent (write_headers srv) @ ?body"
    by blast
  then have "handle_request env req srv = (Throw Uninitialized_read, srv')"
    using assms(1-11) by (simp add: handle_request_def handle_object_def handle_single_def Let_def do_write_def new_reply_def)
  then show ?thesis using s(2) chunks_close_content [OF t(2)] t(3) by auto
qed

section \<open>Concrete servers\<close>

text \<open>
  A server whose JSON text is the name of a method: \<open>m\<close> is a request for it, \<open>[m\<close> a batch of two. The
  methods count their calls. One server has a secret, the other has none.
\<close>

definition demo_request :: "string \<Rightarrow> json" where
  "demo_request m = Object [(''id'', Number 7), (''method'', String m)]"

fun demo_parse :: "string \<Rightarrow> json result" where
  "demo_parse (c # m) = Ok (if c = CHR ''['' then Array [demo_request m, demo_request m] else demo_request (c # m))"
| "demo_parse [] = Throw (Runtime_error ''empty'')"

fun demo_string :: "json \<Rightarrow> string result" where
  "demo_string (String s) = Ok s"
| "demo_string _ = Throw (Runtime_error ''type'')"

definition demo_env :: "string option \<Rightarrow> (nat, string) env" where
  "demo_env secret =
     \<lparr>env_parse = demo_parse, env_dump = (\<lambda>_. Ok ''error''),
      env_dump_replace = (\<lambda>j. case j of Number n \<Rightarrow> to_string (nat n) | _ \<Rightarrow> ''j''),
      env_get_uint32 = (\<lambda>j. case j of Number n \<Rightarrow> Ok (word_of_int n) | _ \<Rightarrow> Throw (Runtime_error ''type'')),
      env_get_string = demo_string,
      env_jwt_decode = Some, env_has_issued_at = (\<lambda>_. True), env_jwt_verify = (\<lambda>s t. s = t),
      env_method = (\<lambda>_ _ w. (Completed (Number (int w)), w + 1)),
      env_stream = (\<lambda>_ _ w. (ops_of (Obj [(''result'', Arr [Leaf (Number 1)])]), False, w)),
      env_table = build_handlers ''web3,debug'', env_jwt_secret = secret\<rparr>"

definition demo_http :: "string \<Rightarrow> request" where
  "demo_http content = empty_request\<lparr>rq_content := content\<rparr>"

definition demo_server :: "nat server" where
  "demo_server = \<lparr>world = 0, calls = [], sent = []\<rparr>"

lemma demo_auth: "is_request_authorized (demo_env (Some ''secret'')) (demo_http c) = Some ''missing Authorization Header''"
  "is_request_authorized (demo_env None) (demo_http c) = None"
  by (simp_all add: is_request_authorized_def demo_env_def demo_http_def empty_request_def)

lemma demo_table:
  "find_json_handler (build_handlers ''web3,debug'') ''web3_sha3'' = Some ''handle_web3_sha3''"
  "find_json_handler (build_handlers ''web3,debug'') ''debug_traceCall'' = None"
  "find_stream_handler (build_handlers ''web3,debug'') ''debug_traceCall'' = Some ''handle_debug_trace_call''"
  by code_simp+

lemma demo_digits: "to_string 0 = ''0''" "to_string (Suc 0) = ''1''"
  by code_simp+

lemmas demo_simps = demo_env_def demo_http_def demo_request_def empty_request_def demo_table

lemma demo_completes: "completes (demo_env None) (demo_request ''web3_sha3'')"
  by (simp add: completes_def demo_simps)


lemma request_runs_table_handlers_witness:
  "\<exists>new. calls (snd (handle_request (demo_env None) (demo_http ''web3_sha3'') demo_server)) = new \<and> length new \<le> 1"
  using request_runs_table_handlers [of "demo_env None" "demo_http ''web3_sha3''" demo_server]
  by (auto simp: demo_server_def demo_simps)

lemma unauthorized_object_answered_witness:
  "handle_request (demo_env (Some ''secret'')) (demo_http ''web3_sha3'') demo_server =
     (Ok (), demo_server\<lparr>sent := json_reply Unauthorized (''error'' @ [LF])\<rparr>)"
  using unauthorized_object_answered [OF demo_auth(1), of "''web3_sha3''" "demo_request ''web3_sha3''" 7 "''error''" demo_server]
  by (simp add: demo_simps demo_server_def)

lemma unauthorized_batch_answered_witness:
  "handle_request (demo_env (Some ''secret'')) (demo_http ''[web3_sha3'') demo_server =
     (Ok (), demo_server\<lparr>sent := json_reply Unauthorized (''[]'' @ [LF])\<rparr>)"
  using unauthorized_batch_answered [OF demo_auth(1), of "''[web3_sha3''" "[demo_request ''web3_sha3'', demo_request ''web3_sha3'']" demo_server]
  by (simp add: demo_simps demo_server_def)

theorem batch_answered_in_order_witness:
  "\<exists>srv'. handle_request (demo_env None) (demo_http ''[web3_sha3'') demo_server = (Ok (), srv') \<and>
     sent srv' = json_reply Ok_200 (''[0,1]'' @ [LF])"
proof -
  have o: "outputs (demo_env None) [demo_request ''web3_sha3'', demo_request ''web3_sha3''] (world demo_server) = [''0'', ''1'']"
    by (simp add: demo_simps demo_server_def demo_digits)
  have p: "env_parse (demo_env None) (rq_content (demo_http ''[web3_sha3'')) =
      Ok (Array [demo_request ''web3_sha3'', demo_request ''web3_sha3''])"
    by (simp add: demo_simps)
  show ?thesis
    using batch_answered_in_order [OF demo_auth(2) _ p, of demo_server] demo_completes o
    by (auto simp: demo_http_def demo_server_def)
qed

lemma stream_request_reads_uninitialized_status_witness:
  "\<exists>body srv'. handle_request (demo_env None) (demo_http ''debug_traceCall'') demo_server = (Throw Uninitialized_read, srv') \<and>
    sent srv' = sent (write_headers demo_server) @ body \<and> dechunk body = (render (env_dump_replace (demo_env None)) (Obj [(''result'', Arr [Leaf (Number 1)])]), chunck_sep)"
  by (rule stream_request_reads_uninitialized_status
      [where j = "demo_request ''debug_traceCall''" and rid = 7 and name = "''debug_traceCall''"
        and h = "''handle_debug_trace_call''" and w = 0, OF demo_auth(2)])
    (simp_all add: demo_simps demo_server_def demo_digits)

end
