(* ===== verification/Numbers.thy ===== *)
theory Numbers
  imports Prelude
begin

text \<open>
  The conversions of the C++ standard library from text to integers, as \<^verbatim>\<open>strtol\<close> and \<^verbatim>\<open>strtoul\<close> define
  them: leading white space, a sign, a prefix that chooses the base, then as many digits as there are.
  What follows the digits is ignored, no digits is an invalid argument, a value that does not fit is out
  of range.
\<close>

definition char_nat :: "char \<Rightarrow> nat" where
  "char_nat c = of_char c"

definition digit_val :: "char \<Rightarrow> nat option" where
  "digit_val c =
     (let n = char_nat c in
      if 48 \<le> n \<and> n \<le> 57 then Some (n - 48)
      else if 97 \<le> n \<and> n \<le> 122 then Some (n - 87)
      else if 65 \<le> n \<and> n \<le> 90 then Some (n - 55)
      else None)"

definition is_digit_of :: "nat \<Rightarrow> char \<Rightarrow> bool" where
  "is_digit_of base c = (case digit_val c of None \<Rightarrow> False | Some d \<Rightarrow> d < base)"

definition value_of :: "nat \<Rightarrow> string \<Rightarrow> nat" where
  "value_of base ds = foldl (\<lambda>a c. base * a + the (digit_val c)) 0 ds"

definition is_space :: "char \<Rightarrow> bool" where
  "is_space c \<longleftrightarrow> char_nat c = 32 \<or> (9 \<le> char_nat c \<and> char_nat c \<le> 13)"

fun read_sign :: "string \<Rightarrow> bool \<times> string" where
  "read_sign (c # s) = (if c = CHR ''-'' then (True, s) else if c = CHR ''+'' then (False, s) else (False, c # s))"
| "read_sign [] = (False, [])"

fun read_base :: "nat \<Rightarrow> string \<Rightarrow> nat \<times> string" where
  "read_base base (z # x # d # s) =
     (if (base = 0 \<or> base = 16) \<and> z = CHR ''0'' \<and> (x = CHR ''x'' \<or> x = CHR ''X'') \<and> is_digit_of 16 d then (16, d # s)
      else if base = 0 then (if z = CHR ''0'' then 8 else 10, z # x # d # s)
      else (base, z # x # d # s))"
| "read_base base s = (if base = 0 then if take 1 s = ''0'' then 8 else 10 else base, s)"

text \<open>The sign and the magnitude, None when there are no digits.\<close>

definition strto :: "nat \<Rightarrow> string \<Rightarrow> (bool \<times> nat) option" where
  "strto base s =
     (let (neg, r) = read_sign (dropWhile is_space s);
          (b, r) = read_base base r;
          ds = takeWhile (is_digit_of b) r
      in if ds = [] then None else Some (neg, value_of b ds))"

definition stol :: "nat \<Rightarrow> string \<Rightarrow> int result" where
  "stol base s =
     (case strto base s of
        None \<Rightarrow> Throw (Invalid_argument ''stol'')
      | Some (neg, n) \<Rightarrow>
          let v = (if neg then - int n else int n) in
          if v < - (2 ^ 63) \<or> v \<ge> 2 ^ 63 then Throw (Out_of_range ''stol'') else Ok v)"

definition stoul :: "nat \<Rightarrow> string \<Rightarrow> u64 result" where
  "stoul base s =
     (case strto base s of
        None \<Rightarrow> Throw (Invalid_argument ''stoul'')
      | Some (neg, n) \<Rightarrow>
          if n \<ge> 2 ^ 64 then Throw (Out_of_range ''stoul'')
          else Ok (if neg then - of_nat n else of_nat n))"

section \<open>Hexadecimal text of bytes\<close>

definition hex_char :: "nat \<Rightarrow> char" where
  "hex_char d = (if d < 10 then char_of (48 + d) else char_of (87 + d))"

definition hex_of_byte :: "byte \<Rightarrow> string" where
  "hex_of_byte b = [hex_char (unat b div 16), hex_char (unat b mod 16)]"

definition hex_of_bytes :: "bytes \<Rightarrow> string" where
  "hex_of_bytes bs = concat (map hex_of_byte bs)"

text \<open>The number that bytes denote, most significant byte first.\<close>

definition be_value :: "bytes \<Rightarrow> nat" where
  "be_value bs = foldl (\<lambda>a b. 256 * a + unat b) 0 bs"

lemma char_nat_char_of: "n < 256 \<Longrightarrow> char_nat (char_of n) = n"
  by (simp add: char_nat_def)

lemma digit_val_hex_char: "d < 16 \<Longrightarrow> digit_val (hex_char d) = Some d"
  by (auto simp: digit_val_def hex_char_def char_nat_char_of Let_def)

lemma is_digit_hex_char: "d < 16 \<Longrightarrow> is_digit_of 16 (hex_char d)"
  by (simp add: is_digit_of_def digit_val_hex_char)

lemma unat_byte: "unat (b :: byte) < 256"
proof -
  have "unat b < 2 ^ LENGTH(8)" by (rule unsigned_less)
  then show ?thesis by simp
qed

lemma byte_nibbles: "unat (b :: byte) div 16 < 16" "unat (b :: byte) mod 16 < 16"
  using unat_byte [of b] by simp_all

lemma hex_of_bytes_digits: "\<forall>c \<in> set (hex_of_bytes bs). is_digit_of 16 c"
  by (auto simp: hex_of_bytes_def hex_of_byte_def is_digit_hex_char byte_nibbles)

lemma value_of_append: "value_of base (xs @ ys) = foldl (\<lambda>a c. base * a + the (digit_val c)) (value_of base xs) ys"
  by (simp add: value_of_def)

lemma value_of_hex: "value_of 16 (hex_of_bytes bs) = be_value bs"
proof (induction bs rule: rev_induct)
  case Nil
  then show ?case by (simp add: value_of_def hex_of_bytes_def be_value_def)
next
  case (snoc b bs)
  have d: "digit_val (hex_char (unat b div 16)) = Some (unat b div 16)" "digit_val (hex_char (unat b mod 16)) = Some (unat b mod 16)"
    by (simp_all add: digit_val_hex_char byte_nibbles)
  have "value_of 16 (hex_of_bytes (bs @ [b])) = 16 * (16 * value_of 16 (hex_of_bytes bs) + unat b div 16) + unat b mod 16"
    by (simp add: hex_of_bytes_def value_of_append hex_of_byte_def d)
  also have "\<dots> = 256 * be_value bs + unat b"
    using snoc mult_div_mod_eq [of 16 "unat b"] by (simp add: algebra_simps)
  finally show ?case by (simp add: be_value_def)
qed

lemma hex_digit_not_special: "is_digit_of 16 c \<Longrightarrow> \<not> is_space c \<and> c \<noteq> CHR ''-'' \<and> c \<noteq> CHR ''+'' \<and> c \<noteq> CHR ''x'' \<and> c \<noteq> CHR ''X''"
proof -
  assume a: "is_digit_of 16 c"
  then have "48 \<le> char_nat c \<and> char_nat c \<le> 57 \<or> 97 \<le> char_nat c \<and> char_nat c \<le> 102 \<or> 65 \<le> char_nat c \<and> char_nat c \<le> 70"
    by (auto simp: is_digit_of_def digit_val_def Let_def split: if_splits)
  then show ?thesis by (auto simp: is_space_def char_nat_def)
qed

lemma strto_hex_digits:
  assumes "ds \<noteq> []" "\<forall>c \<in> set ds. is_digit_of 16 c"
  shows "strto 16 ds = Some (False, value_of 16 ds)"
proof -
  obtain c s where ds: "ds = c # s" using assms(1) by (cases ds) auto
  have "is_digit_of 16 c" using assms(2) ds by simp
  note c = hex_digit_not_special [OF this]
  then have "read_sign (dropWhile is_space ds) = (False, ds)" by (simp add: ds)
  moreover have "read_base 16 ds = (16, ds)"
  proof (cases s)
    case (Cons x r)
    then have "is_digit_of 16 x" using assms(2) ds by simp
    then show ?thesis using hex_digit_not_special [of x] Cons ds by (cases r) auto
  qed (simp add: ds)
  moreover have tw: "takeWhile (is_digit_of 16) ds = ds"
    using assms(2) by (simp only: takeWhile_eq_all_conv)
  ultimately show ?thesis using assms(1) by (simp add: strto_def Let_def del: takeWhile_eq_all_conv)
qed

text \<open>Reading the hexadecimal text of bytes back gives their number, while it fits in 64 bits.\<close>

lemma stoul_hex_of_bytes:
  assumes "bs \<noteq> []"
  shows "stoul 16 (hex_of_bytes bs) =
    (if be_value bs \<ge> 2 ^ 64 then Throw (Out_of_range ''stoul'') else Ok (of_nat (be_value bs)))"
proof -
  have "hex_of_bytes bs \<noteq> []" using assms by (cases bs) (simp_all add: hex_of_bytes_def hex_of_byte_def)
  from strto_hex_digits [OF this hex_of_bytes_digits] show ?thesis
    by (simp add: stoul_def value_of_hex)
qed

end
