(* ===== verification/Chain_Types.thy ===== *)
theory Chain_Types
  imports Json Numbers Key_Value
begin

text \<open>
  The data that is read from the chain database. Block headers, transactions and stored block bodies are
  types of another repository: the records hold the fields that the code here reads. Logs and receipts
  are those of \<^verbatim>\<open>types/log.hpp\<close> and \<^verbatim>\<open>types/receipt.hpp\<close>, with their decoding from CBOR in \<^verbatim>\<open>ethdb/cbor.cpp\<close>
  and \<^verbatim>\<open>json/types.cpp\<close>. An address or a hash is its bytes.
\<close>

section \<open>Blocks\<close>

record block_header =
  hdr_number :: u64
  hdr_beneficiary :: bytes
  hdr_difficulty :: u256
  hdr_gas_limit :: u64
  hdr_gas_used :: u64
  hdr_timestamp :: u64
  hdr_base_fee_per_gas :: "u256 option"
  hdr_parent_hash :: bytes
  hdr_ommers_hash :: bytes
  hdr_state_root :: bytes
  hdr_transactions_root :: bytes
  hdr_receipts_root :: bytes
  hdr_logs_bloom :: bytes
  hdr_extra_data :: bytes
  hdr_mix_hash :: bytes
  hdr_nonce :: bytes

record transaction =
  tx_type :: byte
  tx_nonce :: u64
  tx_max_priority_fee_per_gas :: u256
  tx_max_fee_per_gas :: u256
  tx_gas_limit :: u64
  tx_to :: "bytes option"
  tx_value :: u256
  tx_data :: bytes
  tx_access_list :: "(bytes \<times> bytes list) list"
  tx_from :: "bytes option"
  tx_chain_id :: "u256 option"
  tx_odd_y_parity :: bool
  tx_r :: u256
  tx_s :: u256

record stored_block_body =
  base_txn_id :: u64
  txn_count :: u64
  stored_ommers :: "block_header list"

record block_body =
  bb_transactions :: "transaction list"
  bb_ommers :: "block_header list"

record block_with_hash =
  bw_transactions :: "transaction list"
  bw_ommers :: "block_header list"
  bw_header :: block_header
  bw_hash :: bytes

section \<open>Logs and receipts\<close>

record log =
  log_address :: bytes
  log_topics :: "bytes list"
  log_data :: bytes
  log_block_number :: u64
  log_tx_hash :: bytes
  log_tx_index :: u32
  log_block_hash :: bytes
  log_index :: u32
  log_removed :: bool

record receipt =
  rc_success :: bool
  rc_cumulative_gas_used :: u64
  rc_bloom :: bytes
  rc_logs :: "log list"
  rc_tx_hash :: bytes
  rc_contract_address :: bytes
  rc_gas_used :: u64
  rc_block_hash :: bytes
  rc_block_number :: u64
  rc_tx_index :: u32
  rc_from :: "bytes option"
  rc_to :: "bytes option"
  rc_type :: "byte option"
  rc_effective_gas_price :: u256

definition zeros :: "nat \<Rightarrow> bytes" where
  "zeros n = replicate n 0"

definition empty_header :: block_header where
  "empty_header = \<lparr>hdr_number = 0, hdr_beneficiary = zeros 20, hdr_difficulty = 0, hdr_gas_limit = 0, hdr_gas_used = 0,
     hdr_timestamp = 0, hdr_base_fee_per_gas = None, hdr_parent_hash = zeros 32, hdr_ommers_hash = zeros 32, hdr_state_root = zeros 32,
     hdr_transactions_root = zeros 32, hdr_receipts_root = zeros 32, hdr_logs_bloom = zeros 256, hdr_extra_data = [],
     hdr_mix_hash = zeros 32, hdr_nonce = zeros 8\<rparr>"

definition empty_transaction :: transaction where
  "empty_transaction = \<lparr>tx_type = 0, tx_nonce = 0, tx_max_priority_fee_per_gas = 0, tx_max_fee_per_gas = 0, tx_gas_limit = 0,
     tx_to = None, tx_value = 0, tx_data = [], tx_access_list = [], tx_from = None, tx_chain_id = None, tx_odd_y_parity = False,
     tx_r = 0, tx_s = 0\<rparr>"

definition empty_log :: log where
  "empty_log = \<lparr>log_address = zeros 20, log_topics = [], log_data = [], log_block_number = 0, log_tx_hash = zeros 32,
     log_tx_index = 0, log_block_hash = zeros 32, log_index = 0, log_removed = False\<rparr>"

definition empty_receipt :: receipt where
  "empty_receipt = \<lparr>rc_success = False, rc_cumulative_gas_used = 0, rc_bloom = zeros 256, rc_logs = [], rc_tx_hash = zeros 32,
     rc_contract_address = zeros 20, rc_gas_used = 0, rc_block_hash = zeros 32, rc_block_number = 0, rc_tx_index = 0,
     rc_from = None, rc_to = None, rc_type = None, rc_effective_gas_price = 0\<rparr>"

section \<open>Decoding\<close>

text \<open>
  Functions of other libraries that decoding uses: the CBOR reader, the conversions of bytes to fixed
  sizes, the conversion of a floating point number to an integer, the conversions of JSON text to
  addresses, hashes and bytes, and one step of the bloom filter.
\<close>

record codec =
  from_cbor :: "bytes \<Rightarrow> json result"
  to_evmc_address :: "bytes \<Rightarrow> bytes"
  to_bytes32 :: "bytes \<Rightarrow> bytes"
  trunc_double :: "string \<Rightarrow> int"
  double_is_one :: "string \<Rightarrow> bool"
  get_address :: "json \<Rightarrow> bytes result"
  get_topics :: "json \<Rightarrow> bytes list result"
  get_bytes :: "json \<Rightarrow> bytes result"
  get_bool :: "json \<Rightarrow> bool result"
  get_uint64 :: "json \<Rightarrow> u64 result"
  m3_2048 :: "bytes \<Rightarrow> bytes \<Rightarrow> bytes"

definition system_error :: "string \<Rightarrow> exn" where
  "system_error what = Runtime_error what"

fun is_number :: "json \<Rightarrow> bool" where
  "is_number (Number _) = True"
| "is_number (Double _) = True"
| "is_number _ = False"

fun number_int :: "codec \<Rightarrow> json \<Rightarrow> int" where
  "number_int cd (Number n) = n"
| "number_int cd (Double d) = trunc_double cd d"
| "number_int cd _ = 0"

fun number_is_one :: "codec \<Rightarrow> json \<Rightarrow> bool" where
  "number_is_one cd (Number n) = (n = 1)"
| "number_is_one cd (Double d) = double_is_one cd d"
| "number_is_one cd _ = False"

text \<open>\<^verbatim>\<open>at(name)\<close> throws when there is no such member; \<^verbatim>\<open>get_binary\<close> throws on other values.\<close>

definition at_field :: "json \<Rightarrow> string \<Rightarrow> json result" where
  "at_field j name = (if contains j name then Ok (field j name) else Throw (Out_of_range name))"

fun get_binary :: "json \<Rightarrow> bytes result" where
  "get_binary (Binary b) = Ok b"
| "get_binary _ = Throw (Runtime_error ''type must be binary'')"

fun map_r :: "('a \<Rightarrow> 'b result) \<Rightarrow> 'a list \<Rightarrow> 'b list result" where
  "map_r f [] = Ok []"
| "map_r f (x # xs) = bind_r (f x) (\<lambda>y. bind_r (map_r f xs) (\<lambda>ys. Ok (y # ys)))"

definition from_json_Log :: "codec \<Rightarrow> json \<Rightarrow> log result" where
  "from_json_Log cd j =
     (case j of
        Array xs \<Rightarrow>
          if length xs < 3 then Throw (system_error ''Log CBOR: missing entries'')
          else (case xs ! 0 of
            Binary a \<Rightarrow>
              (case xs ! 1 of
                 Array ts \<Rightarrow>
                   bind_r (map_r get_binary ts) (\<lambda>topics.
                   let l = empty_log\<lparr>log_address := to_evmc_address cd a, log_topics := map (to_bytes32 cd) topics\<rparr> in
                   case xs ! 2 of
                     Binary d \<Rightarrow> Ok (l\<lparr>log_data := d\<rparr>)
                   | Null \<Rightarrow> Ok (l\<lparr>log_data := []\<rparr>)
                   | _ \<Rightarrow> Throw (system_error ''Log CBOR: binary or null expected in [2]''))
               | _ \<Rightarrow> Throw (system_error ''Log CBOR: array expected in [1]''))
          | _ \<Rightarrow> Throw (system_error ''Log CBOR: binary expected in [0]''))
      | _ \<Rightarrow>
          bind_r (at_field j ''address'') (\<lambda>a. bind_r (get_address cd a) (\<lambda>address.
          bind_r (at_field j ''topics'') (\<lambda>t. bind_r (get_topics cd t) (\<lambda>topics.
          bind_r (at_field j ''data'') (\<lambda>d. bind_r (get_bytes cd d) (\<lambda>data.
            Ok (empty_log\<lparr>log_address := address, log_topics := topics, log_data := data\<rparr>))))))))"

definition from_json_Receipt :: "codec \<Rightarrow> json \<Rightarrow> receipt result" where
  "from_json_Receipt cd j =
     (case j of
        Array xs \<Rightarrow>
          if length xs < 4 then Throw (system_error ''Receipt CBOR: missing entries'')
          else if \<not> is_number (xs ! 0) then Throw (system_error ''Receipt CBOR: number expected in [0]'')
          else if xs ! 1 \<noteq> Null then Throw (system_error ''Receipt CBOR: null expected in [1]'')
          else if \<not> is_number (xs ! 2) then Throw (system_error ''Receipt CBOR: number expected in [2]'')
          else if \<not> is_number (xs ! 3) then Throw (system_error ''Receipt CBOR: number expected in [3]'')
          else Ok (empty_receipt\<lparr>rc_type := Some (word_of_int (number_int cd (xs ! 0))),
                 rc_success := number_is_one cd (xs ! 2),
                 rc_cumulative_gas_used := word_of_int (number_int cd (xs ! 3))\<rparr>)
      | _ \<Rightarrow>
          bind_r (at_field j ''success'') (\<lambda>s. bind_r (get_bool cd s) (\<lambda>success.
          bind_r (at_field j ''cumulative_gas_used'') (\<lambda>g. bind_r (get_uint64 cd g) (\<lambda>gas.
            Ok (empty_receipt\<lparr>rc_success := success, rc_cumulative_gas_used := gas\<rparr>))))))"

text \<open>\<^verbatim>\<open>cbor_decode\<close>: None when there is nothing to decode or the value is not an array, and the target is unchanged.\<close>

definition cbor_decode_logs :: "codec \<Rightarrow> bytes \<Rightarrow> log list option result" where
  "cbor_decode_logs cd bs =
     (if length bs = 0 then Ok None
      else bind_r (from_cbor cd bs) (\<lambda>j.
        case j of Array xs \<Rightarrow> bind_r (map_r (from_json_Log cd) xs) (\<lambda>ls. Ok (Some ls)) | _ \<Rightarrow> Ok None))"

definition cbor_decode_receipts :: "codec \<Rightarrow> bytes \<Rightarrow> receipt list option result" where
  "cbor_decode_receipts cd bs =
     (if length bs = 0 then Ok None
      else bind_r (from_cbor cd bs) (\<lambda>j.
        case j of Array xs \<Rightarrow> bind_r (map_r (from_json_Receipt cd) xs) (\<lambda>rs. Ok (Some rs)) | _ \<Rightarrow> Ok None))"

definition bloom_from_logs :: "codec \<Rightarrow> log list \<Rightarrow> bytes" where
  "bloom_from_logs cd logs =
     foldl (\<lambda>bloom l. foldl (m3_2048 cd) (m3_2048 cd bloom (log_address l)) (log_topics l)) (zeros 256) logs"

end
