(* ===== verification/Rawdb.thy ===== *)
theory Rawdb
  imports Chain_Types
begin

text \<open>
  The access layer of \<^verbatim>\<open>core/rawdb/chain.cpp\<close>, \<^verbatim>\<open>core/blocks.cpp\<close> and \<^verbatim>\<open>stagedsync/stages.cpp\<close>: the interface
  \<^verbatim>\<open>DatabaseReader\<close> is the record \<open>reader\<close>. A walk is given by the entries it visits, over which the walker
  of the caller runs. Keys, RLP and hashes come from another repository and are the record \<open>ext\<close>.
\<close>

section \<open>The reader and external functions\<close>

record reader =
  rd_get :: "string \<Rightarrow> bytes \<Rightarrow> key_value result"
  rd_get_one :: "string \<Rightarrow> bytes \<Rightarrow> bytes result"
  rd_get_both_range :: "string \<Rightarrow> bytes \<Rightarrow> bytes \<Rightarrow> bytes option result"
  rd_walk :: "string \<Rightarrow> bytes \<Rightarrow> nat \<Rightarrow> key_value list result"
  rd_for_prefix :: "string \<Rightarrow> bytes \<Rightarrow> key_value list result"

text \<open>A walker that may fail; it says whether to go on.\<close>

fun walk_r :: "('a \<Rightarrow> 's \<Rightarrow> ('s \<times> bool) result) \<Rightarrow> 'a list \<Rightarrow> 's \<Rightarrow> 's result" where
  "walk_r w [] s = Ok s"
| "walk_r w (x # xs) s = bind_r (w x s) (\<lambda>(s', go_on). if go_on then walk_r w xs s' else Ok s')"

record ext =
  x_codec :: codec
  x_block_key :: "u64 \<Rightarrow> bytes"
  x_block_key_hash :: "u64 \<Rightarrow> bytes \<Rightarrow> bytes"
  x_log_key :: "u64 \<Rightarrow> u32 \<Rightarrow> bytes"
  x_load_big_u64 :: "bytes \<Rightarrow> u64"
  x_load_big_u32 :: "bytes \<Rightarrow> u32"
  x_store_big_u64 :: "u64 \<Rightarrow> bytes"
  x_to_hex :: "bytes \<Rightarrow> string"
  x_decode_u256 :: "bytes \<Rightarrow> u256 option"
  x_decode_header :: "bytes \<Rightarrow> block_header option"
  x_decode_transaction :: "bytes \<Rightarrow> transaction option"
  x_decode_stored_block_body :: "bytes \<Rightarrow> string + stored_block_body"
  x_hash_of_transaction :: "transaction \<Rightarrow> bytes"
  x_create_address :: "bytes \<Rightarrow> u64 \<Rightarrow> bytes"
  x_parse_json :: "bytes \<Rightarrow> json result"
  x_max_transactions :: nat

text \<open>\<^verbatim>\<open>load_big_u64(value.data())\<close> reads eight bytes; a shorter value is read past its end.\<close>

definition load_u64_data :: "ext \<Rightarrow> bytes \<Rightarrow> u64 result" where
  "load_u64_data x v = (if length v < 8 then Throw Out_of_bounds else Ok (x_load_big_u64 x (take 8 v)))"

definition bytes_of_string :: "string \<Rightarrow> bytes" where
  "bytes_of_string s = map (\<lambda>c. of_nat (char_nat c)) s"

section \<open>Headers and blocks\<close>

definition read_header_number :: "ext \<Rightarrow> reader \<Rightarrow> bytes \<Rightarrow> u64 result" where
  "read_header_number x rd block_hash =
     bind_r (rd_get_one rd ''HeaderNumber'' block_hash) (\<lambda>v.
       if v = [] then Throw (Invalid_argument ''empty block number value in read_header_number'')
       else load_u64_data x v)"

definition read_canonical_block_hash :: "ext \<Rightarrow> reader \<Rightarrow> u64 \<Rightarrow> bytes result" where
  "read_canonical_block_hash x rd block_number =
     bind_r (rd_get_one rd ''CanonicalHeader'' (x_block_key x block_number)) (\<lambda>v.
       if v = [] then Throw (Invalid_argument ''empty block hash value in read_canonical_block_hash'')
       else Ok (to_bytes32 (x_codec x) v))"

record chain_config =
  cc_genesis_hash :: bytes
  cc_config :: json

text \<open>\<^verbatim>\<open>data.c_str()\<close> is parsed up to the first zero byte.\<close>

definition read_chain_config :: "ext \<Rightarrow> reader \<Rightarrow> chain_config result" where
  "read_chain_config x rd =
     bind_r (read_canonical_block_hash x rd 0) (\<lambda>genesis_block_hash.
     bind_r (rd_get_one rd ''Config'' genesis_block_hash) (\<lambda>data.
       if data = [] then Throw (Invalid_argument ''empty chain config data in read_chain_config'')
       else bind_r (x_parse_json x (takeWhile (\<lambda>b. b \<noteq> 0) data)) (\<lambda>config.
         Ok \<lparr>cc_genesis_hash = genesis_block_hash, cc_config = config\<rparr>)))"

definition read_chain_id :: "ext \<Rightarrow> reader \<Rightarrow> u64 result" where
  "read_chain_id x rd =
     bind_r (read_chain_config x rd) (\<lambda>info.
       if \<not> contains (cc_config info) ''chainId'' then Throw (Runtime_error ''missing chainId in chain config'')
       else get_uint64 (x_codec x) (field (cc_config info) ''chainId''))"

definition read_total_difficulty :: "ext \<Rightarrow> reader \<Rightarrow> bytes \<Rightarrow> u64 \<Rightarrow> u256 result" where
  "read_total_difficulty x rd block_hash block_number =
     bind_r (rd_get_one rd ''HeadersTotalDifficulty'' (x_block_key_hash x block_number block_hash)) (\<lambda>v.
       if v = [] then Throw (Invalid_argument ''empty total difficulty value in read_total_difficulty'')
       else case x_decode_u256 x v of
         None \<Rightarrow> Throw (Runtime_error ''cannot RLP-decode total difficulty value in read_total_difficulty'')
       | Some td \<Rightarrow> Ok td)"

definition read_header_rlp :: "ext \<Rightarrow> reader \<Rightarrow> bytes \<Rightarrow> u64 \<Rightarrow> bytes result" where
  "read_header_rlp x rd block_hash block_number = rd_get_one rd ''Header'' (x_block_key_hash x block_number block_hash)"

definition read_body_rlp :: "ext \<Rightarrow> reader \<Rightarrow> bytes \<Rightarrow> u64 \<Rightarrow> bytes result" where
  "read_body_rlp x rd block_hash block_number = rd_get_one rd ''BlockBody'' (x_block_key_hash x block_number block_hash)"

definition read_header :: "ext \<Rightarrow> reader \<Rightarrow> bytes \<Rightarrow> u64 \<Rightarrow> block_header result" where
  "read_header x rd block_hash block_number =
     bind_r (read_header_rlp x rd block_hash block_number) (\<lambda>data.
       if data = [] then Throw (Runtime_error ''empty block header RLP in read_header'')
       else case x_decode_header x data of
         None \<Rightarrow> Throw (Runtime_error ''invalid RLP decoding for block header'')
       | Some header \<Rightarrow> Ok header)"

definition read_header_by_hash :: "ext \<Rightarrow> reader \<Rightarrow> bytes \<Rightarrow> block_header result" where
  "read_header_by_hash x rd block_hash =
     bind_r (read_header_number x rd block_hash) (\<lambda>block_number. read_header x rd block_hash block_number)"

definition read_header_by_number :: "ext \<Rightarrow> reader \<Rightarrow> u64 \<Rightarrow> block_header result" where
  "read_header_by_number x rd block_number =
     bind_r (read_canonical_block_hash x rd block_number) (\<lambda>block_hash. read_header x rd block_hash block_number)"

definition read_head_header_hash :: "ext \<Rightarrow> reader \<Rightarrow> bytes result" where
  "read_head_header_hash x rd =
     bind_r (rd_get_one rd ''LastHeader'' (bytes_of_string ''LastHeader'')) (\<lambda>v.
       if v = [] then Throw (Invalid_argument ''empty head header hash value in read_head_header_hash'')
       else Ok (to_bytes32 (x_codec x) v))"

definition read_current_header :: "ext \<Rightarrow> reader \<Rightarrow> block_header result" where
  "read_current_header x rd = bind_r (read_head_header_hash x rd) (read_header_by_hash x rd)"

definition read_senders :: "ext \<Rightarrow> reader \<Rightarrow> bytes \<Rightarrow> u64 \<Rightarrow> bytes list result" where
  "read_senders x rd block_hash block_number =
     bind_r (rd_get_one rd ''TxSender'' (x_block_key_hash x block_number block_hash)) (\<lambda>data.
       Ok (map (\<lambda>i. to_evmc_address (x_codec x) (take 20 (drop (i * 20) data))) [0..<length data div 20]))"

text \<open>
  The walker of \<^verbatim>\<open>read_canonical_transactions\<close> and \<^verbatim>\<open>read_noncanonical_transactions\<close>, which differ in the table.
  \<^verbatim>\<open>reserve\<close> throws for more elements than a vector can have.
\<close>

definition transaction_walker :: "ext \<Rightarrow> u64 \<Rightarrow> key_value \<Rightarrow> transaction list \<Rightarrow> transaction list \<times> bool" where
  "transaction_walker x count kv txns =
     (case x_decode_transaction x (kv_value kv) of
        None \<Rightarrow> (txns, False)
      | Some tx \<Rightarrow> (txns @ [tx], Suc (length txns) < unat count))"

definition read_transactions :: "string \<Rightarrow> ext \<Rightarrow> reader \<Rightarrow> u64 \<Rightarrow> u64 \<Rightarrow> transaction list result" where
  "read_transactions table x rd base count =
     (if count = 0 then Ok []
      else if unat count > x_max_transactions x then Throw Length_error
      else bind_r (rd_walk rd table (x_store_big_u64 x base) 0) (\<lambda>es.
        Ok (walk_list (transaction_walker x count) es [])))"

definition read_canonical_transactions :: "ext \<Rightarrow> reader \<Rightarrow> u64 \<Rightarrow> u64 \<Rightarrow> transaction list result" where
  "read_canonical_transactions = read_transactions ''BlockTransaction''"

definition read_noncanonical_transactions :: "ext \<Rightarrow> reader \<Rightarrow> u64 \<Rightarrow> u64 \<Rightarrow> transaction list result" where
  "read_noncanonical_transactions = read_transactions ''NonCanonicalTransaction''"

definition set_senders :: "bytes list \<Rightarrow> transaction list \<Rightarrow> transaction list" where
  "set_senders senders txns = map2 (\<lambda>s tx. tx\<lparr>tx_from := Some s\<rparr>) senders txns"

definition read_body :: "ext \<Rightarrow> reader \<Rightarrow> bytes \<Rightarrow> u64 \<Rightarrow> block_body result" where
  "read_body x rd block_hash block_number =
     bind_r (read_body_rlp x rd block_hash block_number) (\<lambda>data.
       if data = [] then Throw (Runtime_error ''empty block body RLP in read_body'')
       else case x_decode_stored_block_body x data of
         Inl what \<Rightarrow> Throw (Runtime_error (''RLP decoding error for block body ['' @ what @ '']''))
       | Inr stored_body \<Rightarrow>
           bind_r (read_canonical_transactions x rd (base_txn_id stored_body + 1) (txn_count stored_body - 2)) (\<lambda>transactions.
           bind_r (if length transactions \<noteq> 0
                   then bind_r (read_senders x rd block_hash block_number) (\<lambda>senders.
                     Ok (if length senders = length transactions then set_senders senders transactions else transactions))
                   else Ok transactions) (\<lambda>transactions.
             Ok \<lparr>bb_transactions = transactions, bb_ommers = stored_ommers stored_body\<rparr>)))"

definition read_cumulative_transaction_count :: "ext \<Rightarrow> reader \<Rightarrow> u64 \<Rightarrow> u64 result" where
  "read_cumulative_transaction_count x rd block_number =
     bind_r (read_canonical_block_hash x rd block_number) (\<lambda>block_hash.
     bind_r (read_body_rlp x rd block_hash block_number) (\<lambda>data.
       if data = [] then Throw (Runtime_error ''empty block body RLP in read_body'')
       else case x_decode_stored_block_body x data of
         Inl what \<Rightarrow> Throw (Runtime_error (''RLP decoding error for block body ['' @ what @ '']''))
       | Inr stored_body \<Rightarrow> Ok (base_txn_id stored_body + txn_count stored_body - 1)))"

definition read_block :: "ext \<Rightarrow> reader \<Rightarrow> bytes \<Rightarrow> u64 \<Rightarrow> block_with_hash result" where
  "read_block x rd block_hash block_number =
     bind_r (read_header x rd block_hash block_number) (\<lambda>header.
     bind_r (read_body x rd block_hash block_number) (\<lambda>body.
       Ok \<lparr>bw_transactions = bb_transactions body, bw_ommers = bb_ommers body, bw_header = header, bw_hash = block_hash\<rparr>))"

definition read_block_by_hash :: "ext \<Rightarrow> reader \<Rightarrow> bytes \<Rightarrow> block_with_hash result" where
  "read_block_by_hash x rd block_hash =
     bind_r (read_header_number x rd block_hash) (\<lambda>block_number. read_block x rd block_hash block_number)"

definition read_block_by_number :: "ext \<Rightarrow> reader \<Rightarrow> u64 \<Rightarrow> block_with_hash result" where
  "read_block_by_number x rd block_number =
     bind_r (read_canonical_block_hash x rd block_number) (\<lambda>block_hash. read_block x rd block_hash block_number)"

definition read_block_number_by_transaction_hash :: "ext \<Rightarrow> reader \<Rightarrow> bytes \<Rightarrow> u64 result" where
  "read_block_number_by_transaction_hash x rd transaction_hash =
     bind_r (rd_get_one rd ''BlockTransactionLookup'' transaction_hash) (\<lambda>v.
       if v = [] then Throw (Invalid_argument ''empty block number value in read_block_by_transaction_hash'')
       else stoul 16 (x_to_hex x v))"

section \<open>Receipts\<close>

definition log_walker :: "ext \<Rightarrow> key_value \<Rightarrow> receipt list \<Rightarrow> (receipt list \<times> bool) result" where
  "log_walker x kv receipts =
     (if length (kv_key kv) \<noteq> 12 then Ok (receipts, False)
      else
        let tx_id = unat (x_load_big_u32 x (drop 8 (kv_key kv))) in
        if length receipts \<le> tx_id then Throw Out_of_bounds
        else bind_r (cbor_decode_logs (x_codec x) (kv_value kv)) (\<lambda>decoded.
          case decoded of
            None \<Rightarrow> Ok (receipts, False)
          | Some logs \<Rightarrow>
              Ok (receipts[tx_id := (receipts ! tx_id)\<lparr>rc_logs := logs, rc_bloom := bloom_from_logs (x_codec x) logs\<rparr>], True)))"

definition read_raw_receipts :: "ext \<Rightarrow> reader \<Rightarrow> bytes \<Rightarrow> u64 \<Rightarrow> receipt list result" where
  "read_raw_receipts x rd block_hash block_number =
     bind_r (rd_get_one rd ''Receipt'' (x_block_key x block_number)) (\<lambda>data.
       if data = [] then Ok []
       else bind_r (cbor_decode_receipts (x_codec x) data) (\<lambda>decoded.
         case decoded of
           None \<Rightarrow> Ok []
         | Some receipts \<Rightarrow>
             bind_r (rd_walk rd ''TransactionLog'' (x_log_key x block_number 0) 64) (\<lambda>es. walk_r (log_walker x) es receipts)))"

text \<open>
  The derived fields of the logs of one receipt and of one receipt; the running index is a \<^verbatim>\<open>size_t\<close> that is stored in
  32 bits. \<^verbatim>\<open>*transactions[i].from\<close> on an empty optional is undefined.
\<close>

fun derive_logs :: "u64 \<Rightarrow> bytes \<Rightarrow> bytes \<Rightarrow> nat \<Rightarrow> log list \<Rightarrow> nat \<Rightarrow> log list" where
  "derive_logs block_number block_hash tx_hash i [] idx = []"
| "derive_logs block_number block_hash tx_hash i (l # ls) idx =
     l\<lparr>log_block_number := block_number, log_block_hash := block_hash, log_tx_hash := tx_hash, log_tx_index := of_nat i,
       log_index := of_nat idx, log_removed := False\<rparr> # derive_logs block_number block_hash tx_hash i ls (Suc idx)"

definition derive_receipt :: "ext \<Rightarrow> bytes \<Rightarrow> u64 \<Rightarrow> nat \<Rightarrow> u64 \<Rightarrow> nat \<Rightarrow> transaction \<Rightarrow> receipt \<Rightarrow> receipt result" where
  "derive_receipt x block_hash block_number i previous_gas idx tx r =
     (let tx_hash = to_bytes32 (x_codec x) (x_hash_of_transaction x tx);
          r1 = r\<lparr>rc_tx_hash := tx_hash, rc_tx_index := of_nat i, rc_block_hash := block_hash, rc_block_number := block_number\<rparr>
      in bind_r
           (case tx_to tx of
              Some _ \<Rightarrow> Ok r1
            | None \<Rightarrow> (case tx_from tx of
                None \<Rightarrow> Throw Bad_optional_access
              | Some from \<Rightarrow> Ok (r1\<lparr>rc_contract_address := x_create_address x from (tx_nonce tx)\<rparr>)))
           (\<lambda>r2. Ok (r2\<lparr>rc_gas_used := (if i = 0 then rc_cumulative_gas_used r else rc_cumulative_gas_used r - previous_gas),
              rc_from := tx_from tx, rc_to := tx_to tx, rc_type := Some (tx_type tx),
              rc_logs := derive_logs block_number block_hash tx_hash i (rc_logs r) idx\<rparr>)))"

fun derive_receipts ::
  "ext \<Rightarrow> bytes \<Rightarrow> u64 \<Rightarrow> nat \<Rightarrow> u64 \<Rightarrow> nat \<Rightarrow> (transaction \<times> receipt) list \<Rightarrow> receipt list result" where
  "derive_receipts x block_hash block_number i previous_gas idx [] = Ok []"
| "derive_receipts x block_hash block_number i previous_gas idx ((tx, r) # rest) =
     bind_r (derive_receipt x block_hash block_number i previous_gas idx tx r) (\<lambda>r'.
     bind_r (derive_receipts x block_hash block_number (Suc i) (rc_cumulative_gas_used r) (idx + length (rc_logs r)) rest)
       (\<lambda>rs. Ok (r' # rs)))"

definition read_receipts :: "ext \<Rightarrow> reader \<Rightarrow> block_with_hash \<Rightarrow> receipt list result" where
  "read_receipts x rd block =
     bind_r (read_raw_receipts x rd (bw_hash block) (hdr_number (bw_header block))) (\<lambda>receipts.
       if length (bw_transactions block) \<noteq> length receipts
       then Throw (Runtime_error ''#transactions and #receipts do not match in read_receipts'')
       else derive_receipts x (bw_hash block) (hdr_number (bw_header block)) 0 0 0 (zip (bw_transactions block) receipts))"

section \<open>Issuance\<close>

definition read_number :: "ext \<Rightarrow> reader \<Rightarrow> string \<Rightarrow> bytes \<Rightarrow> u256 result" where
  "read_number x rd table key =
     bind_r (rd_get_one rd table key) (\<lambda>v.
       if v \<noteq> [] then bind_r (stoul 16 (x_to_hex x v)) (\<lambda>n. Ok (ucast n)) else Ok 0)"

definition read_total_issued :: "ext \<Rightarrow> reader \<Rightarrow> u64 \<Rightarrow> u256 result" where
  "read_total_issued x rd block_number = read_number x rd ''Issuance'' (x_block_key x block_number)"

definition read_total_burnt :: "ext \<Rightarrow> reader \<Rightarrow> u64 \<Rightarrow> u256 result" where
  "read_total_burnt x rd block_number = read_number x rd ''Issuance'' (bytes_of_string ''burnt'' @ x_block_key x block_number)"

definition read_cumulative_gas_used :: "ext \<Rightarrow> reader \<Rightarrow> u64 \<Rightarrow> u256 result" where
  "read_cumulative_gas_used x rd block_number = read_number x rd ''CumulativeGasIndex'' (x_block_key x block_number)"

end
