(* ===== verification/Blocks.thy ===== *)
theory Blocks
  imports Rawdb
begin

text \<open>
  Block numbers and cached blocks: \<^verbatim>\<open>stagedsync/stages.cpp\<close>, \<^verbatim>\<open>core/blocks.cpp\<close>, the class
  \<^verbatim>\<open>BlockNumberOrHash\<close> of \<^verbatim>\<open>types/block.cpp\<close>, the block cache of \<^verbatim>\<open>common/block_cache.hpp\<close> and the reads through
  it in \<^verbatim>\<open>core/cached_chain.cpp\<close>. The keys of the sync stages belong to another repository.
\<close>

section \<open>Stages\<close>

record stage_keys =
  k_Headers :: bytes
  k_Execution :: bytes
  k_Finish :: bytes

definition get_sync_stage_progress :: "ext \<Rightarrow> reader \<Rightarrow> bytes \<Rightarrow> u64 result" where
  "get_sync_stage_progress x rd stage_key =
     bind_r (rd_get rd ''SyncStage'' stage_key) (\<lambda>kv.
       let v = kv_value kv in
       if length v = 0 then Ok 0
       else if length v < 8 then Throw (Runtime_error (''data too short, expected 8 got '' @ to_string (length v)))
       else Ok (x_load_big_u64 x (take 8 v)))"

section \<open>Block numbers\<close>

definition get_current_block_number :: "stage_keys \<Rightarrow> ext \<Rightarrow> reader \<Rightarrow> u64 result" where
  "get_current_block_number ks x rd = get_sync_stage_progress x rd (k_Finish ks)"

definition get_highest_block_number :: "stage_keys \<Rightarrow> ext \<Rightarrow> reader \<Rightarrow> u64 result" where
  "get_highest_block_number ks x rd = get_sync_stage_progress x rd (k_Headers ks)"

definition get_latest_executed_block_number :: "stage_keys \<Rightarrow> ext \<Rightarrow> reader \<Rightarrow> u64 result" where
  "get_latest_executed_block_number ks x rd = get_sync_stage_progress x rd (k_Execution ks)"

definition forkchoice_number :: "ext \<Rightarrow> reader \<Rightarrow> string \<Rightarrow> u64 result \<Rightarrow> u64 result" where
  "forkchoice_number x rd key absent =
     bind_r (rd_get rd ''LastForkchoice'' (bytes_of_string key)) (\<lambda>kv.
       if kv_value kv = [] then absent
       else bind_r (read_header_by_hash x rd (to_bytes32 (x_codec x) (kv_value kv))) (\<lambda>header. Ok (hdr_number header)))"

definition get_latest_block_number :: "stage_keys \<Rightarrow> ext \<Rightarrow> reader \<Rightarrow> u64 result" where
  "get_latest_block_number ks x rd =
     forkchoice_number x rd ''headBlockHash'' (get_sync_stage_progress x rd (k_Execution ks))"

definition get_forkchoice_finalized_block_number :: "ext \<Rightarrow> reader \<Rightarrow> u64 result" where
  "get_forkchoice_finalized_block_number x rd = forkchoice_number x rd ''finalizedBlockHash'' (Ok 0)"

definition get_forkchoice_safe_block_number :: "ext \<Rightarrow> reader \<Rightarrow> u64 result" where
  "get_forkchoice_safe_block_number x rd = forkchoice_number x rd ''safeBlockHash'' (Ok 0)"

definition is_latest_executed :: "stage_keys \<Rightarrow> ext \<Rightarrow> reader \<Rightarrow> u64 \<Rightarrow> bool result" where
  "is_latest_executed ks x rd block_number =
     bind_r (get_latest_executed_block_number ks x rd) (\<lambda>n. Ok (n = block_number))"

definition get_block_number_by_tag :: "stage_keys \<Rightarrow> ext \<Rightarrow> reader \<Rightarrow> string \<Rightarrow> u64 result" where
  "get_block_number_by_tag ks x rd block_id =
     (if block_id = ''earliest'' then Ok 0
      else if block_id = ''latest'' \<or> block_id = ''pending'' then get_latest_block_number ks x rd
      else if block_id = ''finalized'' then get_forkchoice_finalized_block_number x rd
      else if block_id = ''safe'' then get_forkchoice_safe_block_number x rd
      else get_latest_executed_block_number ks x rd)"

text \<open>
  The number, whether it is known to be the latest, and whether that has to be checked. A number that is
  not a tag is read with \<^verbatim>\<open>std::stol(block_id, 0, 0)\<close> and converted to 64 unsigned bits.
\<close>

definition get_block_number :: "stage_keys \<Rightarrow> ext \<Rightarrow> reader \<Rightarrow> string \<Rightarrow> bool \<Rightarrow> (u64 \<times> bool) result" where
  "get_block_number ks x rd block_id latest_required =
     bind_r
       (if block_id = ''earliest'' then Ok (0, False, False)
        else if block_id = ''latest'' \<or> block_id = ''pending''
        then bind_r (get_latest_block_number ks x rd) (\<lambda>n. Ok (n, True, False))
        else if block_id = ''finalized''
        then bind_r (get_forkchoice_finalized_block_number x rd) (\<lambda>n. Ok (n, False, latest_required))
        else if block_id = ''safe''
        then bind_r (get_forkchoice_safe_block_number x rd) (\<lambda>n. Ok (n, False, latest_required))
        else if block_id = ''latestExecuted''
        then bind_r (get_latest_executed_block_number ks x rd) (\<lambda>n. Ok (n, True, False))
        else bind_r (stol 0 block_id) (\<lambda>i. Ok (word_of_int i, False, latest_required)))
       (\<lambda>(block_number, is_latest_block, check_if_latest).
          if check_if_latest
          then bind_r (is_latest_executed ks x rd block_number) (\<lambda>b. Ok (block_number, b))
          else Ok (block_number, is_latest_block))"

section \<open>BlockNumberOrHash\<close>

datatype block_number_or_hash = Block_number u64 | Block_hash bytes | Block_tag string

definition bnoh_build :: "(string \<Rightarrow> bytes option) \<Rightarrow> codec \<Rightarrow> string \<Rightarrow> block_number_or_hash result" where
  "bnoh_build from_hex cd s =
     (if s = ''earliest'' then Ok (Block_number 0)
      else if s = ''latest'' \<or> s = ''pending'' then Ok (Block_tag s)
      else if take 2 s = ''0x'' \<or> take 2 s = ''0X'' then
        (if length s = 66
         then Ok (Block_hash (to_bytes32 cd (case from_hex s of None \<Rightarrow> [] | Some bs \<Rightarrow> bs)))
         else bind_r (stoul 16 s) (\<lambda>n. Ok (Block_number n)))
      else bind_r (stoul 10 s) (\<lambda>n. Ok (Block_number n)))"

definition is_latest_block_number :: "stage_keys \<Rightarrow> ext \<Rightarrow> reader \<Rightarrow> block_number_or_hash \<Rightarrow> bool result" where
  "is_latest_block_number ks x rd bnoh =
     (case bnoh of
        Block_tag t \<Rightarrow> Ok (t = ''latest'' \<or> t = ''pending'')
      | Block_number n \<Rightarrow> bind_r (get_latest_block_number ks x rd) (\<lambda>latest. Ok (n = latest))
      | Block_hash h \<Rightarrow>
          bind_r (get_latest_block_number ks x rd) (\<lambda>latest.
          bind_r (read_header_number x rd h) (\<lambda>n. Ok (n = latest))))"

section \<open>The block cache\<close>

text \<open>
  \<^verbatim>\<open>boost::compute::detail::lru_cache\<close>: entries with the most recently used first, a capacity, an insertion
  that does nothing for a key that is there and drops the last entry when it is full.
\<close>

record lru_cache =
  lru_entries :: "(bytes \<times> block_with_hash) list"
  lru_capacity :: nat

definition lru_get :: "bytes \<Rightarrow> lru_cache \<Rightarrow> block_with_hash option \<times> lru_cache" where
  "lru_get k c =
     (case map_of (lru_entries c) k of
        None \<Rightarrow> (None, c)
      | Some b \<Rightarrow> (Some b, c\<lparr>lru_entries := (k, b) # filter (\<lambda>e. fst e \<noteq> k) (lru_entries c)\<rparr>))"

definition lru_insert :: "bytes \<Rightarrow> block_with_hash \<Rightarrow> lru_cache \<Rightarrow> lru_cache" where
  "lru_insert k b c =
     (if map_of (lru_entries c) k \<noteq> None then c
      else
        let es = (if length (lru_entries c) \<ge> lru_capacity c then butlast (lru_entries c) else lru_entries c)
        in c\<lparr>lru_entries := (k, b) # es\<rparr>)"

section \<open>Reads through the cache\<close>

text \<open>The cache operations are a pair of functions: \<^verbatim>\<open>get\<close> and \<^verbatim>\<open>insert\<close> of \<^verbatim>\<open>BlockCache\<close>.\<close>

record 'c block_cache =
  bc_get :: "bytes \<Rightarrow> 'c \<Rightarrow> block_with_hash option \<times> 'c"
  bc_insert :: "bytes \<Rightarrow> block_with_hash \<Rightarrow> 'c \<Rightarrow> 'c"

definition lru_block_cache :: "lru_cache block_cache" where
  "lru_block_cache = \<lparr>bc_get = lru_get, bc_insert = lru_insert\<rparr>"

definition cache_fill :: "'c block_cache \<Rightarrow> bytes \<Rightarrow> block_with_hash result \<Rightarrow> 'c \<Rightarrow> block_with_hash result \<times> 'c" where
  "cache_fill bc block_hash read c =
     (case read of
        Inl e \<Rightarrow> (Throw e, c)
      | Inr block \<Rightarrow> (Ok block, if length (bw_transactions block) \<noteq> 0 then bc_insert bc block_hash block c else c))"

definition cached_read_block_by_number ::
  "'c block_cache \<Rightarrow> ext \<Rightarrow> reader \<Rightarrow> u64 \<Rightarrow> 'c \<Rightarrow> block_with_hash result \<times> 'c" where
  "cached_read_block_by_number bc x rd block_number c =
     (case read_canonical_block_hash x rd block_number of
        Inl e \<Rightarrow> (Throw e, c)
      | Inr block_hash \<Rightarrow>
          (case bc_get bc block_hash c of
             (Some block, c') \<Rightarrow> (Ok block, c')
           | (None, c') \<Rightarrow> cache_fill bc block_hash (read_block x rd block_hash block_number) c'))"

definition cached_read_block_by_hash ::
  "'c block_cache \<Rightarrow> ext \<Rightarrow> reader \<Rightarrow> bytes \<Rightarrow> 'c \<Rightarrow> block_with_hash result \<times> 'c" where
  "cached_read_block_by_hash bc x rd block_hash c =
     (case bc_get bc block_hash c of
        (Some block, c') \<Rightarrow> (Ok block, c')
      | (None, c') \<Rightarrow> cache_fill bc block_hash (read_block_by_hash x rd block_hash) c')"

definition read_block_by_number_or_hash ::
  "'c block_cache \<Rightarrow> stage_keys \<Rightarrow> ext \<Rightarrow> reader \<Rightarrow> block_number_or_hash \<Rightarrow> 'c \<Rightarrow> block_with_hash result \<times> 'c" where
  "read_block_by_number_or_hash bc ks x rd bnoh c =
     (case bnoh of
        Block_number n \<Rightarrow> cached_read_block_by_number bc x rd n c
      | Block_hash h \<Rightarrow> cached_read_block_by_hash bc x rd h c
      | Block_tag t \<Rightarrow>
          (case get_block_number ks x rd t False of
             Inl e \<Rightarrow> (Throw e, c)
           | Inr (n, _) \<Rightarrow> cached_read_block_by_number bc x rd n c))"

definition read_block_by_transaction_hash ::
  "'c block_cache \<Rightarrow> ext \<Rightarrow> reader \<Rightarrow> bytes \<Rightarrow> 'c \<Rightarrow> block_with_hash result \<times> 'c" where
  "read_block_by_transaction_hash bc x rd transaction_hash c =
     (case read_block_number_by_transaction_hash x rd transaction_hash of
        Inl e \<Rightarrow> (Throw e, c)
      | Inr n \<Rightarrow> cached_read_block_by_number bc x rd n c)"

record transaction_with_block =
  tb_block :: block_with_hash
  tb_transaction :: transaction
  tb_index :: nat

fun find_transaction :: "ext \<Rightarrow> bytes \<Rightarrow> nat \<Rightarrow> transaction list \<Rightarrow> (nat \<times> transaction) option" where
  "find_transaction x h i [] = None"
| "find_transaction x h i (tx # txs) = (if h = x_hash_of_transaction x tx then Some (i, tx) else find_transaction x h (Suc i) txs)"

definition read_transaction_by_hash ::
  "'c block_cache \<Rightarrow> ext \<Rightarrow> reader \<Rightarrow> bytes \<Rightarrow> 'c \<Rightarrow> transaction_with_block option result \<times> 'c" where
  "read_transaction_by_hash bc x rd transaction_hash c =
     (case read_block_by_transaction_hash bc x rd transaction_hash c of
        (Inl e, c') \<Rightarrow> (Throw e, c')
      | (Inr block, c') \<Rightarrow>
          (Ok (map_option (\<lambda>(i, tx). \<lparr>tb_block = block, tb_transaction = tx, tb_index = i\<rparr>)
             (find_transaction x transaction_hash 0 (bw_transactions block))), c'))"

end
