(* ===== verification/Database.thy ===== *)
theory Database
  imports Key_Value
begin

text \<open>
  Reading the database: the remote cursor and transaction of \<^verbatim>\<open>ethdb/kv/remote_cursor.cpp\<close> and
  \<^verbatim>\<open>ethdb/kv/remote_transaction.cpp\<close>, which turn each operation into a message of the KV service; the
  reads of \<^verbatim>\<open>ethdb/transaction_database.cpp\<close> on top of cursors; and the split cursors of
  \<^verbatim>\<open>ethdb/cursor.cpp\<close>. The exchange of a message with the service is the parameter \<open>wr\<close>.
\<close>

unbundle bit_operations_syntax

section \<open>Messages of the KV service\<close>

datatype kv_op =
    OPEN | OPEN_DUP_SORT | CLOSE | SEEK | SEEK_EXACT | NEXT | NEXT_DUP | SEEK_BOTH | SEEK_BOTH_EXACT

record kv_message =
  msg_op :: kv_op
  msg_bucket :: string
  msg_cursor :: u32
  msg_k :: bytes
  msg_v :: bytes

record kv_pair =
  pair_cursorid :: u32
  pair_txid :: u64
  pair_k :: bytes
  pair_v :: bytes

definition message :: "kv_op \<Rightarrow> u32 \<Rightarrow> bytes \<Rightarrow> bytes \<Rightarrow> kv_message" where
  "message op cid k v = \<lparr>msg_op = op, msg_bucket = [], msg_cursor = cid, msg_k = k, msg_v = v\<rparr>"

type_synonym 'srv exchange = "kv_message \<Rightarrow> 'srv \<Rightarrow> (kv_pair \<times> 'srv) result"

section \<open>RemoteCursor\<close>

text \<open>A remote cursor is its cursor identifier; 0 when it is not open.\<close>

definition open_cursor :: "'srv exchange \<Rightarrow> string \<Rightarrow> bool \<Rightarrow> u32 \<Rightarrow> 'srv \<Rightarrow> (u32 \<times> 'srv) result" where
  "open_cursor wr table_name is_dup_sorted cid srv =
     (if cid = 0
      then bind_r (wr ((message (if is_dup_sorted then OPEN_DUP_SORT else OPEN) 0 [] [])\<lparr>msg_bucket := table_name\<rparr>) srv)
             (\<lambda>(p, srv'). Ok (pair_cursorid p, srv'))
      else Ok (cid, srv))"

definition exchange_pair :: "'srv exchange \<Rightarrow> kv_message \<Rightarrow> 'srv \<Rightarrow> (key_value \<times> 'srv) result" where
  "exchange_pair wr m srv = bind_r (wr m srv) (\<lambda>(p, srv'). Ok (KV (pair_k p) (pair_v p), srv'))"

definition remote_seek :: "'srv exchange \<Rightarrow> u32 \<Rightarrow> bytes \<Rightarrow> 'srv \<Rightarrow> (key_value \<times> 'srv) result" where
  "remote_seek wr cid k = exchange_pair wr (message SEEK cid k [])"

definition remote_seek_exact :: "'srv exchange \<Rightarrow> u32 \<Rightarrow> bytes \<Rightarrow> 'srv \<Rightarrow> (key_value \<times> 'srv) result" where
  "remote_seek_exact wr cid k = exchange_pair wr (message SEEK_EXACT cid k [])"

definition remote_next :: "'srv exchange \<Rightarrow> u32 \<Rightarrow> 'srv \<Rightarrow> (key_value \<times> 'srv) result" where
  "remote_next wr cid = exchange_pair wr (message NEXT cid [] [])"

definition remote_next_dup :: "'srv exchange \<Rightarrow> u32 \<Rightarrow> 'srv \<Rightarrow> (key_value \<times> 'srv) result" where
  "remote_next_dup wr cid = exchange_pair wr (message NEXT_DUP cid [] [])"

definition remote_seek_both :: "'srv exchange \<Rightarrow> u32 \<Rightarrow> bytes \<Rightarrow> bytes \<Rightarrow> 'srv \<Rightarrow> (bytes \<times> 'srv) result" where
  "remote_seek_both wr cid k v srv =
     bind_r (exchange_pair wr (message SEEK_BOTH cid k v) srv) (\<lambda>(kv, srv'). Ok (kv_value kv, srv'))"

definition remote_seek_both_exact :: "'srv exchange \<Rightarrow> u32 \<Rightarrow> bytes \<Rightarrow> bytes \<Rightarrow> 'srv \<Rightarrow> (key_value \<times> 'srv) result" where
  "remote_seek_both_exact wr cid k v = exchange_pair wr (message SEEK_BOTH_EXACT cid k v)"

definition close_cursor :: "'srv exchange \<Rightarrow> u32 \<Rightarrow> 'srv \<Rightarrow> (u32 \<times> 'srv) result" where
  "close_cursor wr cid srv =
     (if cid \<noteq> 0 then bind_r (wr (message CLOSE cid [] []) srv) (\<lambda>(_, srv'). Ok (0, srv')) else Ok (cid, srv))"

section \<open>RemoteTransaction\<close>

text \<open>
  A cursor is opened once for each table and kept; plain and dup-sorted cursors are kept apart. The first
  answer of the service on a new stream carries the transaction identifier: \<open>request_and_read\<close>.
\<close>

record 'srv remote_tx =
  rt_tx_id :: u64
  rt_cursors :: "string \<Rightarrow> u32 option"
  rt_dup_cursors :: "string \<Rightarrow> u32 option"
  rt_server :: "'srv"

definition get_cursor :: "'srv exchange \<Rightarrow> string \<Rightarrow> bool \<Rightarrow> 'srv remote_tx \<Rightarrow> (u32 \<times> 'srv remote_tx) result" where
  "get_cursor wr table is_cursor_sorted tx =
     (case (if is_cursor_sorted then rt_dup_cursors tx table else rt_cursors tx table) of
        Some cid \<Rightarrow> Ok (cid, tx)
      | None \<Rightarrow>
          bind_r (open_cursor wr table is_cursor_sorted 0 (rt_server tx)) (\<lambda>(cid, srv).
            Ok (cid,
              if is_cursor_sorted then tx\<lparr>rt_server := srv, rt_dup_cursors := (rt_dup_cursors tx)(table \<mapsto> cid)\<rparr>
              else tx\<lparr>rt_server := srv, rt_cursors := (rt_cursors tx)(table \<mapsto> cid)\<rparr>)))"

definition tx_open :: "('srv \<Rightarrow> (kv_pair \<times> 'srv) result) \<Rightarrow> 'srv remote_tx \<Rightarrow> 'srv remote_tx result" where
  "tx_open request_and_read tx =
     bind_r (request_and_read (rt_server tx)) (\<lambda>(p, srv). Ok (tx\<lparr>rt_tx_id := pair_txid p, rt_server := srv\<rparr>))"

definition tx_close :: "('srv \<Rightarrow> 'srv result) \<Rightarrow> 'srv remote_tx \<Rightarrow> 'srv remote_tx result" where
  "tx_close writes_done_and_finish tx =
     bind_r (writes_done_and_finish (rt_server tx)) (\<lambda>srv.
       Ok (tx\<lparr>rt_server := srv, rt_cursors := Map.empty, rt_tx_id := 0\<rparr>))"

section \<open>TransactionDatabase\<close>

text \<open>The operations of \<^verbatim>\<open>Transaction\<close> and \<^verbatim>\<open>CursorDupSort\<close> that the database uses.\<close>

record ('h, 's) tx_ops =
  op_cursor :: "string \<Rightarrow> bool \<Rightarrow> 's \<Rightarrow> ('h \<times> 's) result"
  op_seek :: "'h \<Rightarrow> bytes \<Rightarrow> 's \<Rightarrow> (key_value \<times> 's) result"
  op_seek_exact :: "'h \<Rightarrow> bytes \<Rightarrow> 's \<Rightarrow> (key_value \<times> 's) result"
  op_next :: "'h \<Rightarrow> 's \<Rightarrow> (key_value \<times> 's) result"
  op_next_dup :: "'h \<Rightarrow> 's \<Rightarrow> (key_value \<times> 's) result"
  op_seek_both :: "'h \<Rightarrow> bytes \<Rightarrow> bytes \<Rightarrow> 's \<Rightarrow> (bytes \<times> 's) result"

definition on_server :: "('srv \<Rightarrow> ('a \<times> 'srv) result) \<Rightarrow> 'srv remote_tx \<Rightarrow> ('a \<times> 'srv remote_tx) result" where
  "on_server f tx = bind_r (f (rt_server tx)) (\<lambda>(a, srv). Ok (a, tx\<lparr>rt_server := srv\<rparr>))"

definition remote_ops :: "'srv exchange \<Rightarrow> (u32, 'srv remote_tx) tx_ops" where
  "remote_ops wr =
     \<lparr>op_cursor = get_cursor wr,
      op_seek = (\<lambda>cid k. on_server (remote_seek wr cid k)),
      op_seek_exact = (\<lambda>cid k. on_server (remote_seek_exact wr cid k)),
      op_next = (\<lambda>cid. on_server (remote_next wr cid)),
      op_next_dup = (\<lambda>cid. on_server (remote_next_dup wr cid)),
      op_seek_both = (\<lambda>cid k v. on_server (remote_seek_both wr cid k v))\<rparr>"

definition td_get :: "('h, 's) tx_ops \<Rightarrow> string \<Rightarrow> bytes \<Rightarrow> 's \<Rightarrow> (key_value \<times> 's) result" where
  "td_get ops table k s = bind_r (op_cursor ops table False s) (\<lambda>(h, s). op_seek ops h k s)"

definition td_get_one :: "('h, 's) tx_ops \<Rightarrow> string \<Rightarrow> bytes \<Rightarrow> 's \<Rightarrow> (bytes \<times> 's) result" where
  "td_get_one ops table k s =
     bind_r (op_cursor ops table False s) (\<lambda>(h, s).
     bind_r (op_seek_exact ops h k s) (\<lambda>(kv, s). Ok (kv_value kv, s)))"

definition td_get_both_range :: "('h, 's) tx_ops \<Rightarrow> string \<Rightarrow> bytes \<Rightarrow> bytes \<Rightarrow> 's \<Rightarrow> (bytes option \<times> 's) result" where
  "td_get_both_range ops table k subkey s =
     bind_r (op_cursor ops table True s) (\<lambda>(h, s).
     bind_r (op_seek_both ops h k subkey s) (\<lambda>(v, s).
       Ok (if take (length subkey) v \<noteq> subkey then None else Some (drop (length subkey) v), s)))"

text \<open>
  The condition of the loop in \<^verbatim>\<open>walk\<close>. \<open>fixed_bits\<close> is a 32-bit number; the last byte of the start key that
  counts is read without a check.
\<close>

definition fixed_bytes :: "nat \<Rightarrow> nat" where
  "fixed_bytes fixed_bits = ((fixed_bits + 7) mod 2 ^ 32) div 8"

definition mask_of :: "nat \<Rightarrow> byte" where
  "mask_of fixed_bits = (let shift_bits = fixed_bits mod 8 in if shift_bits \<noteq> 0 then push_bit (8 - shift_bits) 0xff else 0xff)"

definition walk_condition :: "bytes \<Rightarrow> nat \<Rightarrow> bytes \<Rightarrow> bool result" where
  "walk_condition start_key fixed_bits k =
     (let n = fixed_bytes fixed_bits; mask = mask_of fixed_bits in
      if k = [] \<or> length k < n then Ok False
      else if fixed_bits = 0 then Ok True
      else if take (n - 1) k \<noteq> take (n - 1) start_key then Ok False
      else if length start_key \<le> n - 1 then Throw Out_of_bounds
      else Ok ((k ! (n - 1) AND mask) = (start_key ! (n - 1) AND mask)))"

text \<open>The loops of \<^verbatim>\<open>walk\<close> and \<^verbatim>\<open>for_prefix\<close>; the walker threads a state and says whether to go on.\<close>

partial_function (option) td_loop ::
  "('h, 's) tx_ops \<Rightarrow> (bytes \<Rightarrow> bool result) \<Rightarrow> (key_value \<Rightarrow> 'a \<Rightarrow> 'a \<times> bool) \<Rightarrow> 'h \<Rightarrow> key_value \<Rightarrow> 'a \<Rightarrow> 's \<Rightarrow>
     ('a \<times> 's) result option" where
  "td_loop ops cond w h kv a s =
     (case cond (kv_key kv) of
        Inl e \<Rightarrow> Some (Throw e)
      | Inr c \<Rightarrow>
          if \<not> c then Some (Ok (a, s))
          else (case w kv a of (a', go_on) \<Rightarrow>
            if \<not> go_on then Some (Ok (a', s))
            else (case op_next ops h s of
                    Inl e \<Rightarrow> Some (Throw e)
                  | Inr (kv', s') \<Rightarrow> td_loop ops cond w h kv' a' s')))"

definition td_scan ::
  "('h, 's) tx_ops \<Rightarrow> (bytes \<Rightarrow> bool result) \<Rightarrow> string \<Rightarrow> bytes \<Rightarrow> (key_value \<Rightarrow> 'a \<Rightarrow> 'a \<times> bool) \<Rightarrow> 'a \<Rightarrow> 's \<Rightarrow>
     ('a \<times> 's) result option" where
  "td_scan ops cond table start w a s =
     (case op_cursor ops table False s of
        Inl e \<Rightarrow> Some (Throw e)
      | Inr (h, s1) \<Rightarrow>
          (case op_seek ops h start s1 of
             Inl e \<Rightarrow> Some (Throw e)
           | Inr (kv, s2) \<Rightarrow> td_loop ops cond w h kv a s2))"

definition td_walk ::
  "('h, 's) tx_ops \<Rightarrow> string \<Rightarrow> bytes \<Rightarrow> nat \<Rightarrow> (key_value \<Rightarrow> 'a \<Rightarrow> 'a \<times> bool) \<Rightarrow> 'a \<Rightarrow> 's \<Rightarrow> ('a \<times> 's) result option" where
  "td_walk ops table start_key fixed_bits = td_scan ops (walk_condition start_key fixed_bits) table start_key"

definition prefix_condition :: "bytes \<Rightarrow> bytes \<Rightarrow> bool result" where
  "prefix_condition prefix k = Ok (take (length prefix) k = prefix)"

definition td_for_prefix ::
  "('h, 's) tx_ops \<Rightarrow> string \<Rightarrow> bytes \<Rightarrow> (key_value \<Rightarrow> 'a \<Rightarrow> 'a \<times> bool) \<Rightarrow> 'a \<Rightarrow> 's \<Rightarrow> ('a \<times> 's) result option" where
  "td_for_prefix ops table prefix = td_scan ops (prefix_condition prefix) table prefix"

section \<open>Split cursors\<close>

record splitted_key_value =
  skv_key1 :: bytes
  skv_key2 :: bytes
  skv_key3 :: bytes
  skv_value :: bytes

definition empty_skv :: splitted_key_value where
  "empty_skv = \<lparr>skv_key1 = [], skv_key2 = [], skv_key3 = [], skv_value = []\<rparr>"

text \<open>
  The fields that both split cursors compute from the key and the number of bits that must match. For no
  bits \<^verbatim>\<open>match_bytes_ - 1\<close> wraps around, and the first bytes are the whole key. The key is read at its last
  matching byte without a check.
\<close>

record split_cursor =
  sc_key :: bytes
  sc_first_bytes :: bytes
  sc_last_bits :: byte
  sc_part1_end :: nat
  sc_part2_start :: nat
  sc_part3_start :: nat
  sc_match_bytes :: nat
  sc_mask :: byte

definition make_split_cursor :: "bytes \<Rightarrow> nat \<Rightarrow> nat \<Rightarrow> nat \<Rightarrow> nat \<Rightarrow> split_cursor result" where
  "make_split_cursor key match_bits part1_end part2_start part3_start =
     (let match_bytes = (match_bits + 7) div 8; mask = mask_of match_bits in
      if match_bytes > 0 \<and> length key \<le> match_bytes - 1 then Throw Out_of_bounds
      else Ok \<lparr>sc_key = key,
        sc_first_bytes = (if match_bytes = 0 then key else take (match_bytes - 1) key),
        sc_last_bits = (if match_bytes > 0 then key ! (match_bytes - 1) AND mask else 0),
        sc_part1_end = part1_end, sc_part2_start = part2_start, sc_part3_start = part3_start,
        sc_match_bytes = match_bytes, sc_mask = mask\<rparr>)"

definition match_key :: "split_cursor \<Rightarrow> bytes \<Rightarrow> bool" where
  "match_key c key =
     (if length key = 0 then False
      else if sc_match_bytes c = 0 then True
      else if length key < sc_match_bytes c then False
      else if sc_first_bytes c \<noteq> take (sc_match_bytes c - 1) key then False
      else (key ! (sc_match_bytes c - 1) AND sc_mask c) = sc_last_bits c)"

definition split_key_value :: "split_cursor \<Rightarrow> key_value \<Rightarrow> splitted_key_value" where
  "split_key_value c kv =
     (let key = kv_key kv in
      if length key = 0 then empty_skv
      else if \<not> match_key c key then empty_skv
      else
        \<lparr>skv_key1 = take (sc_part1_end c) key,
         skv_key2 =
           (if length key > sc_part2_start c
            then take (if sc_part3_start c < sc_part2_start c then length key else sc_part3_start c - sc_part2_start c)
                   (drop (sc_part2_start c) key)
            else []),
         skv_key3 = (if length key > sc_part3_start c then drop (sc_part3_start c) key else []),
         skv_value = kv_value kv\<rparr>)"

definition split_seek :: "('h, 's) tx_ops \<Rightarrow> 'h \<Rightarrow> split_cursor \<Rightarrow> 's \<Rightarrow> (splitted_key_value \<times> 's) result" where
  "split_seek ops h c s = bind_r (op_seek ops h (sc_key c) s) (\<lambda>(kv, s). Ok (split_key_value c kv, s))"

definition split_next :: "('h, 's) tx_ops \<Rightarrow> 'h \<Rightarrow> split_cursor \<Rightarrow> 's \<Rightarrow> (splitted_key_value \<times> 's) result" where
  "split_next ops h c s = bind_r (op_next ops h s) (\<lambda>(kv, s). Ok (split_key_value c kv, s))"

text \<open>The dup-sorted variant splits the value; \<open>value_offset\<close> is kept in a byte.\<close>

definition split_dup_key_value :: "split_cursor \<Rightarrow> byte \<Rightarrow> key_value \<Rightarrow> splitted_key_value" where
  "split_dup_key_value c value_offset kv =
     (let key = kv_key kv; n = unat value_offset in
      if length key = 0 then empty_skv
      else if \<not> match_key c key then empty_skv
      else if length (kv_value kv) \<ge> n
      then empty_skv\<lparr>skv_key1 := take (sc_part1_end c) key, skv_key2 := take n (kv_value kv), skv_value := drop n (kv_value kv)\<rparr>
      else empty_skv)"

definition split_seek_both ::
  "('h, 's) tx_ops \<Rightarrow> 'h \<Rightarrow> split_cursor \<Rightarrow> bytes \<Rightarrow> byte \<Rightarrow> 's \<Rightarrow> (splitted_key_value \<times> 's) result" where
  "split_seek_both ops h c subkey value_offset s =
     bind_r (op_seek_both ops h (sc_key c) subkey s) (\<lambda>(v, s).
       Ok (split_dup_key_value c value_offset (KV (sc_key c) v), s))"

definition split_next_dup ::
  "('h, 's) tx_ops \<Rightarrow> 'h \<Rightarrow> split_cursor \<Rightarrow> byte \<Rightarrow> 's \<Rightarrow> (splitted_key_value \<times> 's) result" where
  "split_next_dup ops h c value_offset s =
     bind_r (op_next_dup ops h s) (\<lambda>(kv, s). Ok (split_dup_key_value c value_offset kv, s))"

end
