(* ===== verification/Database_Props.thy ===== *)
theory Database_Props
  imports Database
begin

text \<open>
  What the reads of the database return. The contract of a cursor is the locale \<open>db_cursor\<close>: the entries
  of a table in the order of their keys, and a position in them. Under it \<^verbatim>\<open>walk\<close> calls the walker on
  exactly the entries from the start key on that agree with it on the fixed bits. The remote cursor over
  a service that answers from sorted tables meets the contract.
\<close>

section \<open>Keys that agree on their first bits\<close>

text \<open>\<open>masked n f xs\<close> are the first \<open>n\<close> bytes of a key, the last of them masked by \<open>f\<close>.\<close>

fun masked :: "nat \<Rightarrow> (byte \<Rightarrow> byte) \<Rightarrow> bytes \<Rightarrow> bytes" where
  "masked 0 f xs = []"
| "masked (Suc n) f [] = []"
| "masked (Suc n) f (x # xs) = (if n = 0 then [f x] else x # masked n f xs)"

lemma masked_mono:
  assumes "\<And>x y. x \<le> y \<Longrightarrow> f x \<le> f y" "xs \<le> ys"
  shows "masked n f xs \<le> masked n f ys"
  using assms(2)
proof (induction n arbitrary: xs ys)
  case (Suc n)
  show ?case
  proof (cases xs; cases ys)
    fix x xs' y ys' assume xy: "xs = x # xs'" "ys = y # ys'"
    then have "x < y \<or> x = y \<and> xs' \<le> ys'" using Suc.prems by (simp add: Cons_le_Cons)
    then show ?thesis
      using xy Suc.IH [of xs' ys'] assms(1) [of x y] by (auto simp: Cons_le_Cons order.order_iff_strict)
  qed (use Suc.prems in auto)
qed simp

lemma masked_eq_iff:
  assumes "0 < n" "n \<le> length ys"
  shows "masked n f xs = masked n f ys \<longleftrightarrow>
    n \<le> length xs \<and> take (n - 1) xs = take (n - 1) ys \<and> f (xs ! (n - 1)) = f (ys ! (n - 1))"
  using assms
proof (induction n arbitrary: xs ys)
  case (Suc n)
  from Suc.prems obtain y ys' where ys: "ys = y # ys'" by (cases ys) auto
  show ?case
  proof (cases xs)
    case Nil
    then show ?thesis using ys by auto
  next
    case (Cons x xs')
    show ?thesis
    proof (cases n)
      case 0
      then show ?thesis using ys Cons by simp
    next
      case (Suc m)
      then show ?thesis using Suc.IH [of ys' xs'] Suc.prems ys Cons by auto
    qed
  qed
qed simp

text \<open>Keeping the high bits of a byte is monotone.\<close>

lemma high_bits_mono:
  fixes x y :: byte
  assumes "x \<le> y"
  shows "x AND push_bit s 0xff \<le> y AND push_bit s 0xff"
proof -
  have ff: "(0xff :: byte) = - 1" by simp
  have e: "z AND push_bit s 0xff = push_bit s (drop_bit s z)" for z :: byte
    unfolding ff by (rule bit_word_eqI) (auto simp: bit_simps)
  have u: "unat (push_bit s (drop_bit s z)) = unat z div 2 ^ s * 2 ^ s" for z :: byte
  proof -
    have "unat z div 2 ^ s * 2 ^ s \<le> unat z" by simp
    also have "unat z < 2 ^ 8" using unsigned_less [of z] by simp
    finally have lt: "unat z div 2 ^ s * 2 ^ s < 256" by simp
    have z: "take_bit 8 (unat z) = unat z" using \<open>unat z < 2 ^ 8\<close> by (simp add: take_bit_eq_mod)
    have "unat (push_bit s (drop_bit s z)) = take_bit 8 (push_bit s (drop_bit s (unat z)))"
      by (simp add: unsigned_push_bit_eq unsigned_drop_bit_eq z)
    with lt show ?thesis by (simp add: push_bit_eq_mult drop_bit_eq_div take_bit_eq_mod)
  qed
  have "unat x \<le> unat y" using assms by (simp add: word_le_nat_alt)
  then show ?thesis unfolding e by (simp add: word_le_nat_alt u div_le_mono)
qed

lemma mask_of_mono: "x \<le> y \<Longrightarrow> x AND mask_of b \<le> y AND mask_of b"
  using high_bits_mono [of x y "8 - b mod 8"] high_bits_mono [of x y 0] by (simp add: mask_of_def Let_def)

text \<open>The entries that a walk visits.\<close>

definition same_bits :: "bytes \<Rightarrow> nat \<Rightarrow> bytes \<Rightarrow> bool" where
  "same_bits start bits k \<longleftrightarrow>
     bits = 0 \<or> masked (fixed_bytes bits) (\<lambda>x. x AND mask_of bits) k = masked (fixed_bytes bits) (\<lambda>x. x AND mask_of bits) start"

lemma walk_condition_same_bits:
  assumes "k \<noteq> []" "fixed_bytes bits \<le> length start" "bits + 7 < 2 ^ 32"
  shows "walk_condition start bits k = Ok (same_bits start bits k)"
proof (cases "bits = 0")
  case True
  then show ?thesis using assms(1) by (simp add: walk_condition_def same_bits_def fixed_bytes_def Let_def)
next
  case False
  then have "0 < fixed_bytes bits" using assms(3) by (simp add: fixed_bytes_def)
  then show ?thesis
    using False assms masked_eq_iff [of "fixed_bytes bits" start "\<lambda>x. x AND mask_of bits" k]
    by (auto simp: walk_condition_def same_bits_def Let_def)
qed

lemma same_bits_between:
  assumes "start \<le> k" "k \<le> k'" "same_bits start bits k'"
  shows "same_bits start bits k"
proof (cases "bits = 0")
  case False
  let ?m = "masked (fixed_bytes bits) (\<lambda>x. x AND mask_of bits)"
  have "?m start \<le> ?m k" "?m k \<le> ?m k'"
    using assms(1,2) by (auto intro!: masked_mono mask_of_mono)
  with assms(3) False show ?thesis by (simp add: same_bits_def)
qed (simp add: same_bits_def)

section \<open>Scanning a sorted list\<close>

definition kv_le :: "key_value \<Rightarrow> key_value \<Rightarrow> bool" where
  "kv_le a b \<longleftrightarrow> kv_key a \<le> kv_key b"

definition from_key :: "bytes \<Rightarrow> key_value list \<Rightarrow> key_value list" where
  "from_key k xs = dropWhile (\<lambda>e. kv_key e < k) xs"

lemma from_key_filter:
  "sorted_wrt kv_le xs \<Longrightarrow> from_key k xs = filter (\<lambda>e. k \<le> kv_key e) xs"
proof (induction xs)
  case (Cons x xs)
  show ?case
  proof (cases "kv_key x < k")
    case True
    then show ?thesis using Cons by (simp add: from_key_def not_less)
  next
    case False
    have "\<forall>e \<in> set xs. k \<le> kv_key e"
    proof
      fix e assume "e \<in> set xs"
      then have "kv_key x \<le> kv_key e" using Cons.prems by (simp add: kv_le_def)
      with False show "k \<le> kv_key e" by (meson not_less order_trans)
    qed
    then have "filter (\<lambda>e. k \<le> kv_key e) xs = xs" by (simp add: filter_id_conv)
    with False show ?thesis by (simp add: from_key_def not_less)
  qed
qed (simp add: from_key_def)

text \<open>A predicate that holds up to a point, in sorted order, holds on a prefix.\<close>

lemma takeWhile_filter_sorted:
  assumes "sorted_wrt kv_le xs" "\<And>a b. a \<in> set xs \<Longrightarrow> b \<in> set xs \<Longrightarrow> kv_le a b \<Longrightarrow> P b \<Longrightarrow> P a"
  shows "takeWhile P xs = filter P xs"
  using assms
proof (induction xs)
  case (Cons x xs)
  show ?case
  proof (cases "P x")
    case True
    have "takeWhile P xs = filter P xs"
      by (rule Cons.IH) (use Cons.prems in \<open>auto intro: Cons.prems(2)\<close>)
    with True show ?thesis by simp
  next
    case False
    have "\<not> P e" if "e \<in> set xs" for e
    proof
      assume "P e"
      moreover have "kv_le x e" using Cons.prems(1) that by simp
      ultimately show False using Cons.prems(2) [of x e] that False by simp
    qed
    then have "filter P xs = []" by (simp add: filter_empty_conv)
    with False show ?thesis by simp
  qed
qed simp

lemma scan_walk:
  assumes "sorted_wrt kv_le xs"
  shows "takeWhile (\<lambda>e. same_bits start bits (kv_key e)) (from_key start xs) =
    filter (\<lambda>e. start \<le> kv_key e \<and> same_bits start bits (kv_key e)) xs"
proof -
  let ?ys = "filter (\<lambda>e. start \<le> kv_key e) xs"
  have "sorted_wrt kv_le ?ys" using assms by (rule sorted_wrt_filter)
  then have "takeWhile (\<lambda>e. same_bits start bits (kv_key e)) ?ys = filter (\<lambda>e. same_bits start bits (kv_key e)) ?ys"
    by (rule takeWhile_filter_sorted) (auto simp: kv_le_def intro: same_bits_between)
  then show ?thesis by (simp add: from_key_filter [OF assms] conj_commute)
qed

text \<open>The keys that begin with a prefix.\<close>

lemma take_mono: "xs \<le> ys \<Longrightarrow> take n xs \<le> take n (ys :: bytes)"
proof (induction n arbitrary: xs ys)
  case (Suc n)
  then show ?case by (cases xs; cases ys) (auto simp: Cons_le_Cons)
qed simp

lemma prefix_le: "take (length p) k = p \<Longrightarrow> p \<le> (k :: bytes)"
proof (induction p arbitrary: k)
  case (Cons x p)
  then show ?case by (cases k) (auto simp: Cons_le_Cons)
qed simp

lemma scan_prefix:
  assumes "sorted_wrt kv_le xs"
  shows "takeWhile (\<lambda>e. take (length p) (kv_key e) = p) (from_key p xs) = filter (\<lambda>e. take (length p) (kv_key e) = p) xs"
proof -
  let ?P = "\<lambda>e. take (length p) (kv_key e) = p"
  let ?ys = "filter (\<lambda>e. p \<le> kv_key e) xs"
  have "takeWhile ?P ?ys = filter ?P ?ys"
  proof (rule takeWhile_filter_sorted [OF sorted_wrt_filter [OF assms]])
    fix a b assume a: "a \<in> set ?ys" and "kv_le a b" and b: "?P b"
    then have "take (length p) (kv_key a) \<le> p" using take_mono [of "kv_key a" "kv_key b" "length p"] by (simp add: kv_le_def)
    moreover have "p \<le> take (length p) (kv_key a)" using a take_mono [of p "kv_key a" "length p"] by simp
    ultimately show "?P a" by simp
  qed
  also have "\<dots> = filter ?P xs"
    unfolding filter_filter by (rule filter_cong) (auto intro: prefix_le)
  finally show ?thesis by (simp add: from_key_filter [OF assms])
qed

section \<open>The contract of cursors\<close>

definition first :: "key_value list \<Rightarrow> key_value" where
  "first xs = (case xs of [] \<Rightarrow> KV [] [] | x # _ \<Rightarrow> x)"

text \<open>\<open>tab s t\<close> are the entries of a table, None for a table that does not exist; reading changes none of them.\<close>

locale db_cursor =
  fixes ops :: "('h, 's) tx_ops"
    and tab :: "'s \<Rightarrow> string \<Rightarrow> key_value list option"
    and ahead :: "'s \<Rightarrow> 'h \<Rightarrow> key_value list"
    and on :: "'s \<Rightarrow> 'h \<Rightarrow> string \<Rightarrow> bool"
    and inv :: "'s \<Rightarrow> bool"
  assumes tab_sorted: "inv s \<Longrightarrow> tab s t = Some es \<Longrightarrow> sorted_wrt kv_le es"
    and tab_keys: "inv s \<Longrightarrow> tab s t = Some es \<Longrightarrow> e \<in> set es \<Longrightarrow> kv_key e \<noteq> []"
    and cursor: "inv s \<Longrightarrow> tab s t = Some es \<Longrightarrow>
      \<exists>h s'. op_cursor ops t False s = Ok (h, s') \<and> inv s' \<and> on s' h t \<and> tab s' = tab s"
    and seek: "inv s \<Longrightarrow> on s h t \<Longrightarrow> tab s t = Some es \<Longrightarrow> \<exists>s'. op_seek ops h k s = Ok (first (from_key k es), s') \<and>
      inv s' \<and> on s' h t \<and> tab s' = tab s \<and> ahead s' h = from_key k es"
    and seek_exact: "inv s \<Longrightarrow> on s h t \<Longrightarrow> tab s t = Some es \<Longrightarrow> \<exists>s'. op_seek_exact ops h k s =
      Ok (first (filter (\<lambda>e. kv_key e = k) es), s') \<and> inv s' \<and> on s' h t \<and> tab s' = tab s"
    and nxt: "inv s \<Longrightarrow> on s h t \<Longrightarrow> tab s t = Some es \<Longrightarrow> \<exists>s'. op_next ops h s = Ok (first (tl (ahead s h)), s') \<and>
      inv s' \<and> on s' h t \<and> tab s' = tab s \<and> ahead s' h = tl (ahead s h)"
begin

text \<open>The loop over a cursor is a loop over the entries ahead of it, up to the first that fails the condition.\<close>

lemma loop_ahead:
  assumes "inv s" "on s h t" "ahead s h = xs" "\<forall>e \<in> set xs. kv_key e \<noteq> []" "tab s t = Some es"
    and "\<And>k. k \<noteq> [] \<Longrightarrow> cond k = Ok (P k)" "cond [] = Ok False"
  shows "\<exists>s'. td_loop ops cond w h (first xs) a s = Some (Ok (walk_list w (takeWhile (\<lambda>e. P (kv_key e)) xs) a, s')) \<and>
    inv s' \<and> tab s' = tab s"
  using assms(1-5)
proof (induction xs arbitrary: a s)
  case Nil
  then show ?case using assms(7) by (subst td_loop.simps) (simp add: first_def)
next
  case (Cons x xs)
  have c: "cond (kv_key x) = Ok (P (kv_key x))" using Cons.prems(4) assms(6) by simp
  obtain a' go where w: "w x a = (a', go)" by fastforce
  from nxt [OF Cons.prems(1,2,5)] Cons.prems(3) obtain s1 where
    s1: "op_next ops h s = Ok (first xs, s1)" "inv s1" "on s1 h t" "tab s1 = tab s" "ahead s1 h = xs"
    by auto
  from Cons.IH [OF s1(2,3,5)] Cons.prems(4,5) s1(4) obtain s' where
    "td_loop ops cond w h (first xs) a' s1 = Some (Ok (walk_list w (takeWhile (\<lambda>e. P (kv_key e)) xs) a', s'))" "inv s'" "tab s' = tab s"
    by auto
  then show ?case
    using c w s1(1) Cons.prems(1) by (subst td_loop.simps) (auto simp: first_def)
qed

lemma scan_entries:
  assumes "inv s" "tab s t = Some es" "\<And>k. k \<noteq> [] \<Longrightarrow> cond k = Ok (P k)" "cond [] = Ok False"
  shows "\<exists>s'. td_scan ops cond t start w a s =
      Some (Ok (walk_list w (takeWhile (\<lambda>e. P (kv_key e)) (from_key start es)) a, s')) \<and> inv s' \<and> tab s' = tab s"
proof -
  from cursor [OF assms(1,2)] obtain h s1 where
    s1: "op_cursor ops t False s = Ok (h, s1)" "inv s1" "on s1 h t" "tab s1 = tab s" by blast
  then have t1: "tab s1 t = Some es" using assms(2) by simp
  from seek [OF s1(2,3) t1] s1(4) obtain s2 where
    s2: "op_seek ops h start s1 = Ok (first (from_key start es), s2)" "inv s2" "on s2 h t" "tab s2 = tab s"
      "ahead s2 h = from_key start es" by metis
  then have t2: "tab s2 t = Some es" using assms(2) by simp
  have "\<forall>e \<in> set (from_key start es). kv_key e \<noteq> []"
    using tab_keys [OF assms(1,2)] by (auto simp: from_key_def dest: set_dropWhileD)
  from loop_ahead [where cond = cond and P = P and w = w and a = a, OF s2(2,3,5) this t2 assms(3,4)] s1(1) s2(1,4)
  show ?thesis by (auto simp: td_scan_def)
qed

lemma walk_entries:
  assumes "inv s" "tab s t = Some es" "fixed_bytes bits \<le> length start" "bits + 7 < 2 ^ 32"
  shows "\<exists>s'. td_walk ops t start bits w a s =
      Some (Ok (walk_list w (filter (\<lambda>e. start \<le> kv_key e \<and> same_bits start bits (kv_key e)) es) a, s')) \<and>
    inv s' \<and> tab s' = tab s"
proof -
  have "walk_condition start bits [] = Ok False" by (simp add: walk_condition_def Let_def)
  from scan_entries [where cond = "walk_condition start bits" and P = "same_bits start bits" and start = start and w = w and a = a,
      OF assms(1,2) walk_condition_same_bits [OF _ assms(3,4)] this]
  show ?thesis unfolding td_walk_def scan_walk [OF tab_sorted [OF assms(1,2)]] .
qed

lemma for_prefix_entries:
  assumes "inv s" "tab s t = Some es" "p \<noteq> []"
  shows "\<exists>s'. td_for_prefix ops t p w a s =
      Some (Ok (walk_list w (filter (\<lambda>e. take (length p) (kv_key e) = p) es) a, s')) \<and> inv s' \<and> tab s' = tab s"
proof -
  have "prefix_condition p [] = Ok False" using assms(3) by (simp add: prefix_condition_def)
  from scan_entries [where cond = "prefix_condition p" and P = "\<lambda>k. take (length p) k = p" and start = p and w = w and a = a,
      OF assms(1,2) _ this]
  show ?thesis unfolding td_for_prefix_def scan_prefix [OF tab_sorted [OF assms(1,2)]] by (simp add: prefix_condition_def)
qed

text \<open>With an empty prefix the loop goes on over the empty pair that marks the end of the table.\<close>

lemma loop_no_end:
  assumes "td_loop ops' cond w h kv a s = Some r"
  shows "ops' = ops \<Longrightarrow> inv s \<Longrightarrow> on s h t \<Longrightarrow> tab s t = Some es \<Longrightarrow> (\<And>k. cond k = Ok True) \<Longrightarrow> (\<And>e b. snd (w e b)) \<Longrightarrow> False"
  using assms
proof (induction ops' cond w h kv a s r rule: td_loop.raw_induct [rotated, consumes 1, case_names step])
  case (step f ops' cond w h kv a s r)
  from nxt [OF step(4-6)] obtain kv' s' where n: "op_next ops' h s = Ok (kv', s')" "inv s'" "on s' h t" "tab s' = tab s"
    using step(3) by blast
  obtain a' go where w: "w kv a = (a', go)" by fastforce
  then have "f ops' cond w h kv' a' s' = Some r"
    using step(2) step(7) [of "kv_key kv"] step(8) [of kv a] n(1) by simp
  from step(1) [OF this step(3) n(2,3)] n(4) step(6-8) show False by simp
qed

lemma get_one_entry:
  assumes "inv s" "tab s t = Some es"
  shows "\<exists>s'. td_get_one ops t k s = Ok (kv_value (first (filter (\<lambda>e. kv_key e = k) es)), s') \<and> inv s' \<and> tab s' = tab s"
proof -
  from cursor [OF assms] obtain h s1 where
    s1: "op_cursor ops t False s = Ok (h, s1)" "inv s1" "on s1 h t" "tab s1 = tab s" by blast
  then have "tab s1 t = Some es" using assms(2) by simp
  from seek_exact [OF s1(2,3) this, of k] s1 show ?thesis by (auto simp: td_get_one_def)
qed

lemma get_entry:
  assumes "inv s" "tab s t = Some es"
  shows "\<exists>s'. td_get ops t k s = Ok (first (filter (\<lambda>e. k \<le> kv_key e) es), s') \<and> inv s' \<and> tab s' = tab s"
proof -
  from cursor [OF assms] obtain h s1 where
    s1: "op_cursor ops t False s = Ok (h, s1)" "inv s1" "on s1 h t" "tab s1 = tab s" by blast
  then have "tab s1 t = Some es" using assms(2) by simp
  from seek [OF s1(2,3) this, of k] s1 from_key_filter [OF tab_sorted [OF assms]] show ?thesis by (auto simp: td_get_def)
qed

end

section \<open>A service that answers from sorted tables\<close>

text \<open>
  The documented behaviour of the KV service: a cursor is opened on a table, seeks go to the first entry
  at or after the key, and the empty pair is the answer when there is no entry. A cursor is numbered by
  its table and kind.
\<close>

record kv_server =
  sv_tables :: "(string \<times> key_value list) list"
  sv_open :: "u32 \<Rightarrow> (string \<times> key_value list) option"

fun table_index :: "(string \<times> 'a) list \<Rightarrow> string \<Rightarrow> nat" where
  "table_index [] t = 0"
| "table_index ((n, _) # xs) t = (if n = t then 0 else Suc (table_index xs t))"

definition cursor_number :: "(string \<times> 'a) list \<Rightarrow> string \<Rightarrow> bool \<Rightarrow> u32" where
  "cursor_number ts t dup = of_nat (1 + 2 * table_index ts t + (if dup then 1 else 0))"

definition answer :: "key_value \<Rightarrow> u32 \<Rightarrow> kv_pair" where
  "answer kv cid = \<lparr>pair_cursorid = cid, pair_txid = 0, pair_k = kv_key kv, pair_v = kv_value kv\<rparr>"

definition serve :: "kv_server exchange" where
  "serve m sv =
     (let cid = msg_cursor m; k = msg_k m; v = msg_v m in
      if msg_op m = OPEN \<or> msg_op m = OPEN_DUP_SORT then
        (if map_of (sv_tables sv) (msg_bucket m) = None then Throw (Runtime_error ''unknown table'')
         else let n = cursor_number (sv_tables sv) (msg_bucket m) (msg_op m = OPEN_DUP_SORT)
              in Ok (answer (KV [] []) n, sv\<lparr>sv_open := (sv_open sv)(n \<mapsto> (msg_bucket m, []))\<rparr>))
      else case sv_open sv cid of
        None \<Rightarrow> Throw (Runtime_error ''unknown cursor'')
      | Some (t, xs) \<Rightarrow>
          let es = the (map_of (sv_tables sv) t);
              reply_at = (\<lambda>ys. Ok (answer (first ys) cid, sv\<lparr>sv_open := (sv_open sv)(cid \<mapsto> (t, ys))\<rparr>))
          in case msg_op m of
            SEEK \<Rightarrow> reply_at (from_key k es)
          | SEEK_EXACT \<Rightarrow> reply_at (filter (\<lambda>e. kv_key e = k) es)
          | NEXT \<Rightarrow> reply_at (tl xs)
          | NEXT_DUP \<Rightarrow> reply_at (filter (\<lambda>e. kv_key e = kv_key (first xs)) (tl xs))
          | SEEK_BOTH \<Rightarrow> reply_at (filter (\<lambda>e. kv_key e = k \<and> v \<le> kv_value e) es)
          | SEEK_BOTH_EXACT \<Rightarrow> reply_at (filter (\<lambda>e. kv_key e = k \<and> kv_value e = v) es)
          | _ \<Rightarrow> Ok (answer (KV [] []) cid, sv\<lparr>sv_open := (sv_open sv)(cid := None)\<rparr>))"

definition tables_ok :: "(string \<times> key_value list) list \<Rightarrow> bool" where
  "tables_ok ts \<longleftrightarrow> 2 * length ts + 2 < 2 ^ 32 \<and>
     (\<forall>(t, es) \<in> set ts. sorted_wrt kv_le es \<and> (\<forall>e \<in> set es. kv_key e \<noteq> []))"

definition remote_tab :: "kv_server remote_tx \<Rightarrow> string \<Rightarrow> key_value list option" where
  "remote_tab tx t = map_of (sv_tables (rt_server tx)) t"

definition remote_ahead :: "kv_server remote_tx \<Rightarrow> u32 \<Rightarrow> key_value list" where
  "remote_ahead tx cid = (case sv_open (rt_server tx) cid of None \<Rightarrow> [] | Some (_, xs) \<Rightarrow> xs)"

definition remote_on :: "kv_server remote_tx \<Rightarrow> u32 \<Rightarrow> string \<Rightarrow> bool" where
  "remote_on tx cid t \<longleftrightarrow> (\<exists>xs. sv_open (rt_server tx) cid = Some (t, xs))"

definition remote_inv :: "kv_server remote_tx \<Rightarrow> bool" where
  "remote_inv tx \<longleftrightarrow> tables_ok (sv_tables (rt_server tx)) \<and>
     (\<forall>t cid. rt_cursors tx t = Some cid \<longrightarrow> remote_on tx cid t) \<and>
     (\<forall>t cid. rt_dup_cursors tx t = Some cid \<longrightarrow> remote_on tx cid t) \<and>
     (\<forall>cid t xs. sv_open (rt_server tx) cid = Some (t, xs) \<longrightarrow>
        map_of (sv_tables (rt_server tx)) t \<noteq> None \<and> (\<exists>dup. cid = cursor_number (sv_tables (rt_server tx)) t dup))"

lemma table_index_less: "map_of ts t = Some es \<Longrightarrow> table_index ts t < length ts"
  by (induction ts) (auto split: if_splits)

lemma table_index_inj:
  "map_of ts t = Some es \<Longrightarrow> map_of ts t' = Some es' \<Longrightarrow> table_index ts t = table_index ts t' \<Longrightarrow> t = t'"
  by (induction ts) (auto split: if_splits)

lemma unat_u32: "n < 2 ^ 32 \<Longrightarrow> unat (of_nat n :: u32) = n"
  by (simp add: unsigned_of_nat take_bit_nat_eq_self)

lemma cursor_number_inj:
  assumes "tables_ok ts" "map_of ts t = Some es" "map_of ts t' = Some es'" "cursor_number ts t d = cursor_number ts t' d'"
  shows "t = t'"
proof -
  have lt: "1 + 2 * table_index ts x + (if e then 1 else 0) < 2 ^ 32" if "map_of ts x = Some ys" for x e ys
    using table_index_less [OF that] assms(1) by (simp add: tables_ok_def)
  have "1 + 2 * table_index ts t + (if d then 1 else 0) = 1 + 2 * table_index ts t' + (if d' then 1 else 0)"
    using unat_u32 [OF lt [OF assms(2), of d]] unat_u32 [OF lt [OF assms(3), of d']] assms(4)
    unfolding cursor_number_def by metis
  then have "table_index ts t = table_index ts t'" by (auto split: if_splits)
  then show ?thesis by (rule table_index_inj [OF assms(2,3)])
qed

definition reposition :: "u32 \<Rightarrow> string \<Rightarrow> key_value list \<Rightarrow> kv_server remote_tx \<Rightarrow> kv_server remote_tx" where
  "reposition cid t ys tx = tx\<lparr>rt_server := (rt_server tx)\<lparr>sv_open := (sv_open (rt_server tx))(cid \<mapsto> (t, ys))\<rparr>\<rparr>"

lemma reposition_facts:
  "remote_tab (reposition cid t ys tx) = remote_tab tx" "remote_on (reposition cid t ys tx) cid t"
  "remote_ahead (reposition cid t ys tx) cid = ys"
  by (auto simp: reposition_def remote_tab_def remote_on_def remote_ahead_def)

lemma reposition_inv:
  assumes "remote_inv tx" "map_of (sv_tables (rt_server tx)) t = Some es"
    and "cid = cursor_number (sv_tables (rt_server tx)) t dup"
  shows "remote_inv (reposition cid t ys tx)"
proof -
  let ?ts = "sv_tables (rt_server tx)"
  have keep: "remote_on (reposition cid t ys tx) cid' t'" if "remote_on tx cid' t'" for cid' t'
  proof (cases "cid' = cid")
    case True
    from that obtain xs where "sv_open (rt_server tx) cid' = Some (t', xs)" by (auto simp: remote_on_def)
    with assms(1) obtain es' d where "map_of ?ts t' = Some es'" "cid' = cursor_number ?ts t' d"
      unfolding remote_inv_def by blast
    then have "t' = t"
      using cursor_number_inj [of ?ts t' es' t es d dup] assms True by (simp add: remote_inv_def)
    with True show ?thesis by (simp add: remote_on_def reposition_def)
  next
    case False
    with that show ?thesis by (simp add: remote_on_def reposition_def)
  qed
  have sim: "rt_cursors (reposition cid t ys tx) = rt_cursors tx" "rt_dup_cursors (reposition cid t ys tx) = rt_dup_cursors tx"
    "sv_tables (rt_server (reposition cid t ys tx)) = ?ts"
    "sv_open (rt_server (reposition cid t ys tx)) = (sv_open (rt_server tx))(cid \<mapsto> (t, ys))"
    by (simp_all add: reposition_def)
  show ?thesis
    using assms keep unfolding remote_inv_def sim by (auto split: if_splits)
qed

lemma on_reposition_inv:
  "remote_inv tx \<Longrightarrow> remote_on tx cid t \<Longrightarrow> remote_inv (reposition cid t ys tx)"
proof -
  assume a: "remote_inv tx" "remote_on tx cid t"
  then obtain xs where "sv_open (rt_server tx) cid = Some (t, xs)" by (auto simp: remote_on_def)
  with a(1) obtain es dup where "map_of (sv_tables (rt_server tx)) t = Some es"
    "cid = cursor_number (sv_tables (rt_server tx)) t dup"
    unfolding remote_inv_def by blast
  then show ?thesis by (rule reposition_inv [OF a(1)])
qed

lemma serve_on:
  assumes "remote_on tx cid t" "remote_tab tx t = Some es"
  shows "op_seek (remote_ops serve) cid k tx = Ok (first (from_key k es), reposition cid t (from_key k es) tx)"
    and "op_seek_exact (remote_ops serve) cid k tx =
      Ok (first (filter (\<lambda>e. kv_key e = k) es), reposition cid t (filter (\<lambda>e. kv_key e = k) es) tx)"
    and "op_next (remote_ops serve) cid tx = Ok (first (tl (remote_ahead tx cid)), reposition cid t (tl (remote_ahead tx cid)) tx)"
  using assms
  by (auto simp: remote_ops_def on_server_def remote_seek_def remote_seek_exact_def remote_next_def exchange_pair_def
      message_def serve_def remote_on_def remote_tab_def remote_ahead_def reposition_def answer_def KV_def)

lemma serve_cursor:
  assumes "remote_inv tx" "remote_tab tx t = Some es"
  shows "\<exists>cid tx'. op_cursor (remote_ops serve) t False tx = Ok (cid, tx') \<and> remote_inv tx' \<and> remote_on tx' cid t \<and>
    remote_tab tx' = remote_tab tx"
proof (cases "rt_cursors tx t")
  case (Some cid)
  then show ?thesis using assms(1) by (auto simp: remote_ops_def get_cursor_def remote_inv_def)
next
  case None
  define n where "n = cursor_number (sv_tables (rt_server tx)) t False"
  let ?tx = "(reposition n t [] tx)\<lparr>rt_cursors := (rt_cursors tx)(t \<mapsto> n)\<rparr>"
  have r: "remote_inv (reposition n t [] tx)"
    using reposition_inv [OF assms(1)] assms(2) n_def by (simp add: remote_tab_def)
  have "op_cursor (remote_ops serve) t False tx = Ok (n, ?tx)"
    using None assms(2)
    by (simp add: remote_ops_def get_cursor_def open_cursor_def message_def serve_def remote_tab_def n_def answer_def
        reposition_def Let_def)
  moreover have "remote_inv ?tx"
    using r by (auto simp: remote_inv_def remote_on_def reposition_def)
  moreover have "remote_on ?tx n t" "remote_tab ?tx = remote_tab tx"
    by (simp_all add: remote_on_def remote_tab_def reposition_def fun_eq_iff)
  ultimately show ?thesis by blast
qed

interpretation remote: db_cursor "remote_ops serve" remote_tab remote_ahead remote_on remote_inv
proof
  fix tx t es assume "remote_inv tx" "remote_tab tx t = Some es"
  then have m: "tables_ok (sv_tables (rt_server tx))" "(t, es) \<in> set (sv_tables (rt_server tx))"
    by (auto simp: remote_inv_def remote_tab_def dest: map_of_SomeD)
  then show "sorted_wrt kv_le es" by (auto simp: tables_ok_def)
  fix e assume "e \<in> set es"
  with m show "kv_key e \<noteq> []" by (auto simp: tables_ok_def)
next
  fix tx t es assume "remote_inv tx" "remote_tab tx t = Some es"
  then show "\<exists>h tx'. op_cursor (remote_ops serve) t False tx = Ok (h, tx') \<and> remote_inv tx' \<and> remote_on tx' h t \<and>
    remote_tab tx' = remote_tab tx" by (rule serve_cursor)
next
  fix tx cid t es k assume a: "remote_inv tx" "remote_on tx cid t" "remote_tab tx t = Some es"
  note on_reposition_inv [OF a(1,2)] reposition_facts serve_on [OF a(2,3)]
  then show "\<exists>tx'. op_seek (remote_ops serve) cid k tx = Ok (first (from_key k es), tx') \<and>
      remote_inv tx' \<and> remote_on tx' cid t \<and> remote_tab tx' = remote_tab tx \<and> remote_ahead tx' cid = from_key k es"
    and "\<exists>tx'. op_seek_exact (remote_ops serve) cid k tx = Ok (first (filter (\<lambda>e. kv_key e = k) es), tx') \<and>
      remote_inv tx' \<and> remote_on tx' cid t \<and> remote_tab tx' = remote_tab tx"
    and "\<exists>tx'. op_next (remote_ops serve) cid tx = Ok (first (tl (remote_ahead tx cid)), tx') \<and>
      remote_inv tx' \<and> remote_on tx' cid t \<and> remote_tab tx' = remote_tab tx \<and> remote_ahead tx' cid = tl (remote_ahead tx cid)"
    by simp_all
qed

section \<open>Properties of the reads\<close>

text \<open>
  C22: Over a remote transaction, \<^verbatim>\<open>walk\<close> ends and calls the walker, in key order and until it asks to
  stop, on exactly the entries of the table whose key is at or after the start key and agrees with it on
  the fixed bits; it leaves the contents of the tables as they were.
\<close>
theorem walk_visits_matching_entries:
  assumes "remote_inv tx" "remote_tab tx t = Some es" "fixed_bytes bits \<le> length start" "bits + 7 < 2 ^ 32"
  shows "\<exists>tx'. td_walk (remote_ops serve) t start bits w a tx =
      Some (Ok (walk_list w (filter (\<lambda>e. start \<le> kv_key e \<and> same_bits start bits (kv_key e)) es) a, tx')) \<and>
    remote_inv tx' \<and> remote_tab tx' = remote_tab tx"
  using assms by (rule remote.walk_entries)


text \<open>
  C40: \<^verbatim>\<open>RemoteTransaction::close\<close> forgets the plain cursors but not the dup-sorted ones: after closing and
  opening the transaction again, a dup-sorted cursor of a table that was used before is the identifier
  from the closed transaction, and no message opens it in the new one.
\<close>
lemma close_keeps_dup_cursors:
  assumes "rt_dup_cursors tx table = Some cid"
    and "tx_close finish tx = Ok tx1" "tx_open request tx1 = Ok tx2"
  shows "get_cursor wr table True tx2 = Ok (cid, tx2) \<and> rt_cursors tx2 = Map.empty"
  using assms by (auto simp: tx_close_def tx_open_def get_cursor_def)

section \<open>A concrete database\<close>

definition demo_tx :: "kv_server remote_tx" where
  "demo_tx = \<lparr>rt_tx_id = 1, rt_cursors = Map.empty, rt_dup_cursors = Map.empty,
     rt_server = \<lparr>sv_tables = [(''Header'', [KV [1, 1] [10], KV [1, 2] [11], KV [2, 1] [12]])], sv_open = Map.empty\<rparr>\<rparr>"

lemma demo_tx_inv: "remote_inv demo_tx" "remote_tab demo_tx ''Header'' = Some [KV [1, 1] [10], KV [1, 2] [11], KV [2, 1] [12]]"
  by (simp_all add: remote_inv_def demo_tx_def tables_ok_def kv_le_def remote_tab_def)

definition collect :: "key_value \<Rightarrow> bytes list \<Rightarrow> bytes list \<times> bool" where
  "collect e vs = (vs @ [kv_value e], True)"

theorem walk_visits_matching_entries_witness:
  "\<exists>tx'. td_walk (remote_ops serve) ''Header'' [1, 0] 8 collect [] demo_tx = Some (Ok ([[10], [11]], tx'))"
proof -
  have "fixed_bytes 8 \<le> length [1 :: byte, 0]" "8 + 7 < (2 :: nat) ^ 32" by (simp_all add: fixed_bytes_def)
  from walk_visits_matching_entries [OF demo_tx_inv this, of collect "[]"]
  obtain tx' where "td_walk (remote_ops serve) ''Header'' [1, 0] 8 collect [] demo_tx =
    Some (Ok (walk_list collect (filter (\<lambda>e. [1, 0] \<le> kv_key e \<and> same_bits [1, 0] 8 (kv_key e))
      [KV [1, 1] [10], KV [1, 2] [11], KV [2, 1] [12]]) [], tx'))" by blast
  moreover have "walk_list collect (filter (\<lambda>e. [1, 0] \<le> kv_key e \<and> same_bits [1, 0] 8 (kv_key e))
      [KV [1, 1] [10], KV [1, 2] [11], KV [2, 1] [12]]) [] = [[10], [11]]"
    by (simp add: same_bits_def fixed_bytes_def mask_of_def collect_def)
  ultimately show ?thesis by auto
qed


definition demo_dup :: "u64 \<Rightarrow> unit remote_tx" where
  "demo_dup i = \<lparr>rt_tx_id = i, rt_cursors = Map.empty, rt_dup_cursors = [''PlainState'' \<mapsto> 4], rt_server = ()\<rparr>"

lemma demo_dup_steps:
  "rt_dup_cursors (demo_dup 1) ''PlainState'' = Some 4" "tx_close Ok (demo_dup 1) = Ok (demo_dup 0)"
  "tx_open (\<lambda>sv. Ok ((answer (KV [] []) 0)\<lparr>pair_txid := 9\<rparr>, sv)) (demo_dup 0) = Ok (demo_dup 9)"
  by (simp_all add: demo_dup_def tx_close_def tx_open_def)

lemma close_keeps_dup_cursors_witness:
  "get_cursor (\<lambda>_ _. Throw (Runtime_error ''no cursor'')) ''PlainState'' True (demo_dup 9) = Ok (4, demo_dup 9)"
  using close_keeps_dup_cursors [OF demo_dup_steps] by blast

end
