(* ===== verification/Rawdb_Props.thy ===== *)
theory Rawdb_Props
  imports Blocks Database_Props
begin

text \<open>
  What the access layer returns: the transactions of a block, the derived fields of its receipts, block
  numbers by tag, totals, and that reading through the block cache gives what reading without it does.
\<close>

section \<open>A transaction as a reader\<close>

text \<open>The reader that \<^verbatim>\<open>TransactionDatabase\<close> is: every read starts from the state of the transaction.\<close>

definition tx_reader :: "('h, 's) tx_ops \<Rightarrow> 's \<Rightarrow> reader" where
  "tx_reader ops s =
     \<lparr>rd_get = (\<lambda>t k. bind_r (td_get ops t k s) (\<lambda>(kv, _). Ok kv)),
      rd_get_one = (\<lambda>t k. bind_r (td_get_one ops t k s) (\<lambda>(v, _). Ok v)),
      rd_get_both_range = (\<lambda>t k sk. bind_r (td_get_both_range ops t k sk s) (\<lambda>(v, _). Ok v)),
      rd_walk = (\<lambda>t k bits. case td_walk ops t k bits (\<lambda>kv es. (es @ [kv], True)) [] s of
         Some r \<Rightarrow> bind_r r (\<lambda>(es, _). Ok es) | None \<Rightarrow> Throw No_return),
      rd_for_prefix = (\<lambda>t p. case td_for_prefix ops t p (\<lambda>kv es. (es @ [kv], True)) [] s of
         Some r \<Rightarrow> bind_r r (\<lambda>(es, _). Ok es) | None \<Rightarrow> Throw No_return)\<rparr>"

lemma walk_list_collect: "walk_list (\<lambda>kv es. (es @ [kv], True)) xs acc = acc @ xs"
  by (induction xs arbitrary: acc) simp_all

lemma tx_reader_get:
  assumes "remote_inv tx" "remote_tab tx t = Some es"
  shows "rd_get (tx_reader (remote_ops serve) tx) t k = Ok (first (filter (\<lambda>e. k \<le> kv_key e) es))"
  using remote.get_entry [OF assms, of k] by (auto simp: tx_reader_def)

lemma tx_reader_walk:
  assumes "remote_inv tx" "remote_tab tx t = Some es" "fixed_bytes bits \<le> length start" "bits + 7 < 2 ^ 32"
  shows "rd_walk (tx_reader (remote_ops serve) tx) t start bits =
    Ok (filter (\<lambda>e. start \<le> kv_key e \<and> same_bits start bits (kv_key e)) es)"
  using remote.walk_entries [OF assms, of "\<lambda>kv es. (es @ [kv], True)" "[]"]
  by (auto simp: tx_reader_def walk_list_collect)

section \<open>Transactions\<close>

text \<open>The transactions that the entries decode to, up to the first that does not decode.\<close>

fun decoded :: "ext \<Rightarrow> key_value list \<Rightarrow> transaction list" where
  "decoded x [] = []"
| "decoded x (e # es) = (case x_decode_transaction x (kv_value e) of None \<Rightarrow> [] | Some tx \<Rightarrow> tx # decoded x es)"

lemma transaction_walk:
  assumes "length acc < unat count"
  shows "walk_list (transaction_walker x count) es acc = acc @ take (unat count - length acc) (decoded x es)"
  using assms
proof (induction es arbitrary: acc)
  case (Cons e es)
  show ?case
  proof (cases "x_decode_transaction x (kv_value e)")
    case None
    then show ?thesis by (simp add: transaction_walker_def)
  next
    case (Some tx)
    show ?thesis
    proof (cases "Suc (length acc) < unat count")
      case True
      then obtain m where m: "unat count - length acc = Suc m" by (metis Suc_diff_Suc Suc_lessD)
      then have "unat count - length (acc @ [tx]) = m" by simp
      with True Some m Cons.IH [of "acc @ [tx]"] show ?thesis
        by (simp add: transaction_walker_def)
    next
      case False
      then have "unat count - length acc = 1" using Cons.prems by simp
      with False Some show ?thesis by (simp add: transaction_walker_def)
    qed
  qed
qed simp

text \<open>
  The canonical transactions read for a base identifier and a count are the first count of those
  that the entries of the transaction table from that identifier on decode to, in order; an entry that
  does not decode ends them.
\<close>
lemma canonical_transactions_read:
  assumes "remote_inv tx" "remote_tab tx ''BlockTransaction'' = Some es"
    and "0 < count" "unat count \<le> x_max_transactions x"
  shows "read_canonical_transactions x (tx_reader (remote_ops serve) tx) base count =
    Ok (take (unat count) (decoded x (filter (\<lambda>e. x_store_big_u64 x base \<le> kv_key e) es)))"
proof -
  have "rd_walk (tx_reader (remote_ops serve) tx) ''BlockTransaction'' (x_store_big_u64 x base) 0 =
      Ok (filter (\<lambda>e. x_store_big_u64 x base \<le> kv_key e) es)"
    using tx_reader_walk [OF assms(1,2), of 0 "x_store_big_u64 x base"] by (simp add: fixed_bytes_def same_bits_def)
  moreover have "count \<noteq> 0" using assms(3) by auto
  moreover have "0 < unat count" using assms(3) by (simp add: word_less_nat_alt)
  ultimately show ?thesis
    using assms(4) transaction_walk [of "[]" count x]
    by (simp add: read_canonical_transactions_def read_transactions_def)
qed

section \<open>Receipts\<close>

text \<open>Consecutive 32-bit numbers.\<close>

definition numbered :: "nat \<Rightarrow> nat \<Rightarrow> u32 list" where
  "numbered i n = map of_nat [i..<i + n]"

lemma numbered_0: "numbered i 0 = []"
  by (simp add: numbered_def)

lemma numbered_Suc: "numbered i (Suc n) = of_nat i # numbered (Suc i) n"
  unfolding numbered_def by (simp only: add_Suc_right upt_conv_Cons less_Suc_eq_le le_add1 list.map add_Suc)

lemma numbered_add: "numbered i (m + n) = numbered i m @ numbered (i + m) n"
  unfolding numbered_def
  by (simp only: add.assoc [symmetric] upt_add_eq_append [OF le_add1] map_append)

lemma numbered_length [simp]: "length (numbered i n) = n"
  by (simp add: numbered_def)

lemma derive_logs_index: "map log_index (derive_logs n bh th i ls idx) = numbered idx (length ls)"
  by (induction ls arbitrary: idx) (simp_all add: numbered_0 numbered_Suc)

lemma derive_logs_length [simp]: "length (derive_logs n bh th i ls idx) = length ls"
  by (induction ls arbitrary: idx) simp_all

lemma derive_receipt_fields:
  assumes "derive_receipt x bh n i prev idx tx r = Ok r'"
  shows "rc_cumulative_gas_used r' = rc_cumulative_gas_used r"
    and "rc_gas_used r' = (if i = 0 then rc_cumulative_gas_used r else rc_cumulative_gas_used r - prev)"
    and "map log_index (rc_logs r') = numbered idx (length (rc_logs r))" "length (rc_logs r') = length (rc_logs r)"
    and "rc_tx_index r' = of_nat i"
  using assms by (auto simp: derive_receipt_def Let_def derive_logs_index split: option.splits)

text \<open>What the loop over the receipts establishes from a position, a running gas and a running log index.\<close>

definition receipts_ok :: "nat \<Rightarrow> u64 \<Rightarrow> nat \<Rightarrow> receipt list \<Rightarrow> bool" where
  "receipts_ok i prev idx rs \<longleftrightarrow>
     map log_index (concat (map rc_logs rs)) = numbered idx (length (concat (map rc_logs rs))) \<and>
     prev + sum_list (map rc_gas_used rs) = (if rs = [] then prev else rc_cumulative_gas_used (last rs)) \<and>
     map rc_tx_index rs = numbered i (length rs)"

lemma receipts_ok_Cons:
  assumes "derive_receipt x bh n i prev idx tx r = Ok r'" "i = 0 \<Longrightarrow> prev = 0"
    and "receipts_ok (Suc i) (rc_cumulative_gas_used r) (idx + length (rc_logs r)) rs"
  shows "receipts_ok i prev idx (r' # rs)"
proof -
  note f = derive_receipt_fields [OF assms(1)]
  have g: "prev + rc_gas_used r' = rc_cumulative_gas_used r"
    using f(2) assms(2) by auto
  then have "prev + sum_list (map rc_gas_used (r' # rs)) = rc_cumulative_gas_used r + sum_list (map rc_gas_used rs)"
    by (simp add: add.assoc [symmetric])
  with assms(3) f show ?thesis
    by (auto simp: receipts_ok_def numbered_add numbered_Suc)
qed

lemma derive_receipts_ok:
  assumes "derive_receipts x bh n i prev idx ps = Ok rs" "i = 0 \<Longrightarrow> prev = 0"
  shows "length rs = length ps \<and> receipts_ok i prev idx rs"
  using assms
proof (induction ps arbitrary: i prev idx rs)
  case Nil
  then show ?case by (simp add: receipts_ok_def numbered_0)
next
  case (Cons p ps)
  obtain tx r where p: "p = (tx, r)" by fastforce
  with Cons.prems obtain r' rs' where s: "rs = r' # rs'" "derive_receipt x bh n i prev idx tx r = Ok r'"
    "derive_receipts x bh n (Suc i) (rc_cumulative_gas_used r) (idx + length (rc_logs r)) ps = Ok rs'"
    by auto
  from Cons.IH [OF s(3)] have "length rs' = length ps"
    "receipts_ok (Suc i) (rc_cumulative_gas_used r) (idx + length (rc_logs r)) rs'" by simp_all
  with receipts_ok_Cons [OF s(2) Cons.prems(2)] s(1) show ?case by simp
qed

text \<open>
  C19: The receipts read for a block are as many as its transactions and carry their positions; the logs
  of the block are numbered consecutively over all its receipts, starting at zero; and the gas used by
  the transactions adds up, in 64-bit arithmetic, to the cumulative gas of the last receipt.
\<close>
theorem receipts_derived:
  assumes "read_receipts x rd block = Ok rs"
  shows "length rs = length (bw_transactions block) \<and>
    map rc_tx_index rs = numbered 0 (length rs) \<and>
    map log_index (concat (map rc_logs rs)) = numbered 0 (length (concat (map rc_logs rs))) \<and>
    sum_list (map rc_gas_used rs) = (if rs = [] then 0 else rc_cumulative_gas_used (last rs))"
proof -
  from assms obtain raw where raw: "length (bw_transactions block) = length raw"
    "derive_receipts x (bw_hash block) (hdr_number (bw_header block)) 0 0 0 (zip (bw_transactions block) raw) = Ok rs"
    by (auto simp: read_receipts_def split: if_splits)
  from derive_receipts_ok [OF raw(2)] raw(1) show ?thesis by (simp add: receipts_ok_def)
qed

section \<open>Totals\<close>

text \<open>
  The totals of the issuance table are numbers of 256 bits, but they are read through \<^verbatim>\<open>std::stoul\<close>: the
  read succeeds, with the right number, exactly when the stored number fits in 64 bits, and throws
  \<^verbatim>\<open>std::out_of_range\<close> otherwise.
\<close>
lemma total_issued_limited:
  assumes "\<And>bs. x_to_hex x bs = hex_of_bytes bs"
    and "rd_get_one rd ''Issuance'' (x_block_key x n) = Ok v" "v \<noteq> []"
  shows "read_total_issued x rd n =
    (if be_value v < 2 ^ 64 then Ok (ucast (of_nat (be_value v) :: u64)) else Throw (Out_of_range ''stoul''))"
  using assms by (simp add: read_total_issued_def read_number_def stoul_hex_of_bytes)

section \<open>Tags\<close>

text \<open>
  The block number of a fork choice tag is looked up with a seek, which returns the entry at or after
  the key. When no finalized block has been recorded, the entry that follows in the table is the head
  block, and the number of the finalized block is reported as that of the head block instead of zero.
\<close>
lemma finalized_tag_reads_head:
  assumes "remote_inv tx" "remote_tab tx ''LastForkchoice'' = Some es"
    and "\<forall>e \<in> set es. kv_key e < bytes_of_string ''finalizedBlockHash'' \<or> bytes_of_string ''headBlockHash'' \<le> kv_key e"
  shows "get_forkchoice_finalized_block_number x (tx_reader (remote_ops serve) tx) =
    forkchoice_number x (tx_reader (remote_ops serve) tx) ''headBlockHash'' (Ok 0)"
proof -
  have lt: "bytes_of_string ''finalizedBlockHash'' \<le> bytes_of_string ''headBlockHash''"
    by (simp add: bytes_of_string_def char_nat_def)
  have "filter (\<lambda>e. bytes_of_string ''finalizedBlockHash'' \<le> kv_key e) es = filter (\<lambda>e. bytes_of_string ''headBlockHash'' \<le> kv_key e) es"
    using assms(3) lt by (intro filter_cong) (auto simp: not_le [symmetric] intro: order_trans)
  then show ?thesis
    by (simp add: get_forkchoice_finalized_block_number_def forkchoice_number_def tx_reader_get [OF assms(1,2)])
qed

section \<open>The block cache\<close>

locale block_store =
  fixes bc :: "'c block_cache"
    and cached :: "'c \<Rightarrow> bytes \<Rightarrow> block_with_hash option"
    and inv :: "'c \<Rightarrow> bool"
  assumes get_value: "inv c \<Longrightarrow> fst (bc_get bc k c) = cached c k"
    and get_keeps: "inv c \<Longrightarrow> cached (snd (bc_get bc k c)) = cached c \<and> inv (snd (bc_get bc k c))"
    and insert_inv: "inv c \<Longrightarrow> inv (bc_insert bc k b c)"
    and insert_only: "inv c \<Longrightarrow> cached (bc_insert bc k b c) k' = Some b' \<Longrightarrow> (k' = k \<and> b' = b) \<or> cached c k' = Some b'"
begin

text \<open>A cache holds only what the database holds for a hash.\<close>

definition coherent :: "ext \<Rightarrow> reader \<Rightarrow> 'c \<Rightarrow> bool" where
  "coherent x rd c \<longleftrightarrow> inv c \<and> (\<forall>h b. cached c h = Some b \<longrightarrow> read_block_by_hash x rd h = Ok b)"

lemma fill_coherent:
  assumes "coherent x rd c" "cached c h = None" "read_block_by_hash x rd h = r"
  shows "fst (cache_fill bc h r c) = r \<and> coherent x rd (snd (cache_fill bc h r c))"
  using assms insert_inv insert_only unfolding coherent_def cache_fill_def
  by (cases r) (auto, blast)

lemma cached_by_hash:
  assumes "coherent x rd c"
  shows "fst (cached_read_block_by_hash bc x rd h c) = read_block_by_hash x rd h \<and>
    coherent x rd (snd (cached_read_block_by_hash bc x rd h c))"
proof -
  obtain v c' where g: "bc_get bc h c = (v, c')" by fastforce
  have inv: "inv c" using assms by (simp add: coherent_def)
  have v: "v = cached c h" "cached c' = cached c" "inv c'"
    using get_value [OF inv, of h] get_keeps [OF inv, of h] g by simp_all
  have c': "coherent x rd c'" using assms v by (simp add: coherent_def)
  show ?thesis
  proof (cases v)
    case None
    then show ?thesis using fill_coherent [OF c', of h] v g by (simp add: cached_read_block_by_hash_def)
  next
    case (Some b)
    then have "read_block_by_hash x rd h = Ok b" using assms v(1) by (simp add: coherent_def)
    then show ?thesis using Some c' g by (simp add: cached_read_block_by_hash_def)
  qed
qed

lemma cached_by_number:
  assumes "coherent x rd c" "\<And>n h. read_canonical_block_hash x rd n = Ok h \<Longrightarrow> read_header_number x rd h = Ok n"
  shows "fst (cached_read_block_by_number bc x rd n c) = read_block_by_number x rd n \<and>
    coherent x rd (snd (cached_read_block_by_number bc x rd n c))"
proof (cases "read_canonical_block_hash x rd n")
  case (Inl e)
  then show ?thesis using assms(1) by (simp add: cached_read_block_by_number_def read_block_by_number_def)
next
  case (Inr h)
  then have "read_block_by_hash x rd h = read_block x rd h n"
    using assms(2) by (simp add: read_block_by_hash_def)
  then have "cached_read_block_by_number bc x rd n c = cached_read_block_by_hash bc x rd h c"
    "read_block_by_number x rd n = read_block_by_hash x rd h"
    using Inr unfolding cached_read_block_by_number_def cached_read_block_by_hash_def read_block_by_number_def
    by (simp_all cong: prod.case_cong option.case_cong)
  with cached_by_hash [OF assms(1), of h] show ?thesis by simp
qed

end

definition lru_cached :: "lru_cache \<Rightarrow> bytes \<Rightarrow> block_with_hash option" where
  "lru_cached c = map_of (lru_entries c)"

definition lru_distinct :: "lru_cache \<Rightarrow> bool" where
  "lru_distinct c \<longleftrightarrow> distinct (map fst (lru_entries c))"

lemma distinct_map_filter: "distinct (map fst xs) \<Longrightarrow> distinct (map fst (filter P xs))"
  by (induction xs) auto

lemma map_of_move_front:
  "map_of xs k = Some b \<Longrightarrow> map_of ((k, b) # filter (\<lambda>e. fst e \<noteq> k) xs) = map_of xs"
proof
  fix k' assume a: "map_of xs k = Some b"
  have "map_of (filter (\<lambda>e. fst e \<noteq> k) xs) k' = map_of xs k'" if "k' \<noteq> k"
    using that by (induction xs) auto
  with a show "map_of ((k, b) # filter (\<lambda>e. fst e \<noteq> k) xs) k' = map_of xs k'" by simp
qed

lemma map_of_butlast: "distinct (map fst xs) \<Longrightarrow> map_of (butlast xs) k = Some b \<Longrightarrow> map_of xs k = Some b"
  by (metis in_set_butlastD map_of_SomeD map_of_is_SomeI)

lemma distinct_butlast_fst: "distinct (map fst xs) \<Longrightarrow> distinct (map fst (butlast xs))"
  by (simp add: map_butlast distinct_butlast)

interpretation lru: block_store lru_block_cache lru_cached lru_distinct
proof
  fix c k b k' b' assume inv: "lru_distinct c"
  show "fst (bc_get lru_block_cache k c) = lru_cached c k"
    by (simp add: lru_block_cache_def lru_get_def lru_cached_def split: option.splits)
  show "lru_cached (snd (bc_get lru_block_cache k c)) = lru_cached c \<and> lru_distinct (snd (bc_get lru_block_cache k c))"
  proof (cases "map_of (lru_entries c) k")
    case None
    then show ?thesis using inv by (simp add: lru_block_cache_def lru_get_def)
  next
    case (Some v)
    then show ?thesis
      using inv map_of_move_front [OF Some] distinct_map_filter [of "lru_entries c"]
      by (simp add: lru_block_cache_def lru_get_def lru_cached_def lru_distinct_def) auto
  qed
  let ?es = "if length (lru_entries c) \<ge> lru_capacity c then butlast (lru_entries c) else lru_entries c"
  have es: "distinct (map fst ?es)" "fst ` set ?es \<subseteq> fst ` set (lru_entries c)"
    using inv distinct_butlast_fst [of "lru_entries c"]
    by (simp_all add: lru_distinct_def image_mono subsetI in_set_butlastD)
  show "lru_distinct (bc_insert lru_block_cache k b c)"
  proof (cases "map_of (lru_entries c) k")
    case None
    then have "k \<notin> fst ` set ?es" using es(2) unfolding map_of_eq_None_iff by blast
    with None es(1) show ?thesis by (simp add: lru_block_cache_def lru_insert_def lru_distinct_def Let_def)
  qed (simp add: lru_block_cache_def lru_insert_def inv)
  assume "lru_cached (bc_insert lru_block_cache k b c) k' = Some b'"
  then show "(k' = k \<and> b' = b) \<or> lru_cached c k' = Some b'"
    using inv map_of_butlast [of "lru_entries c"]
    by (auto simp: lru_block_cache_def lru_insert_def lru_cached_def lru_distinct_def Let_def split: if_splits)
qed

text \<open>A block cache that holds only what the database holds.\<close>

definition cache_coherent :: "ext \<Rightarrow> reader \<Rightarrow> lru_cache \<Rightarrow> bool" where
  "cache_coherent x rd c \<longleftrightarrow>
     lru_distinct c \<and> (\<forall>h b. lru_cached c h = Some b \<longrightarrow> read_block_by_hash x rd h = Ok b)"

lemma cache_coherent_eq: "cache_coherent = lru.coherent"
  by (simp add: fun_eq_iff cache_coherent_def lru.coherent_def)

text \<open>
  C18: Reading a block by number through the block cache gives what reading it from the database does,
  and leaves the cache coherent, provided the cache was coherent before and the database maps the
  canonical hash of a number back to that number.
\<close>
theorem cached_block_equals_database:
  assumes "cache_coherent x rd c"
    and "\<And>n h. read_canonical_block_hash x rd n = Ok h \<Longrightarrow> read_header_number x rd h = Ok n"
  shows "fst (cached_read_block_by_number lru_block_cache x rd n c) = read_block_by_number x rd n \<and>
    cache_coherent x rd (snd (cached_read_block_by_number lru_block_cache x rd n c))"
  using assms unfolding cache_coherent_eq by (rule lru.cached_by_number)

section \<open>Concrete readers\<close>

text \<open>
  A database with one block of two transactions, whose encodings are single bytes, and a fork choice
  table that has a head but no finalized block.
\<close>

definition demo_header :: block_header where
  "demo_header = empty_header\<lparr>hdr_number := 5\<rparr>"

definition demo_transaction :: "u64 \<Rightarrow> transaction" where
  "demo_transaction n = empty_transaction\<lparr>tx_nonce := n, tx_to := Some (zeros 20)\<rparr>"

definition demo_codec :: codec where
  "demo_codec = \<lparr>from_cbor = (\<lambda>bs. if bs = [1] then Ok (Array [Array [Number 0, Null, Number 1, Number 21000], Array [Number 0, Null, Number 1, Number 50000]])
       else Ok (Array [Array [Binary [7], Array [], Null], Array [Binary [8], Array [], Null]])),
     to_evmc_address = (\<lambda>b. b), to_bytes32 = (\<lambda>b. b), trunc_double = (\<lambda>_. 0), double_is_one = (\<lambda>_. False),
     get_address = (\<lambda>_. Throw Bad_optional_access), get_topics = (\<lambda>_. Throw Bad_optional_access),
     get_bytes = (\<lambda>_. Throw Bad_optional_access), get_bool = (\<lambda>_. Throw Bad_optional_access),
     get_uint64 = (\<lambda>_. Throw Bad_optional_access), m3_2048 = (\<lambda>b _. b)\<rparr>"

definition demo_ext :: ext where
  "demo_ext = \<lparr>x_codec = demo_codec, x_block_key = (\<lambda>n. if n = 5 then [1] else [2]), x_block_key_hash = (\<lambda>_ h. 1 # h), x_log_key = (\<lambda>_ _. [1]),
     x_load_big_u64 = (\<lambda>_. 5), x_load_big_u32 = (\<lambda>bs. if bs = [0, 0, 0, 0] then 0 else 1), x_store_big_u64 = (\<lambda>_. [1]),
     x_to_hex = hex_of_bytes, x_decode_u256 = (\<lambda>_. None), x_decode_header = (\<lambda>_. Some demo_header),
     x_decode_transaction = (\<lambda>bs. if length bs = 1 then Some (demo_transaction (ucast (bs ! 0))) else None),
     x_decode_stored_block_body = (\<lambda>_. Inr \<lparr>base_txn_id = 0, txn_count = 4, stored_ommers = []\<rparr>), x_hash_of_transaction = (\<lambda>_. zeros 32),
     x_create_address = (\<lambda>a _. a), x_parse_json = (\<lambda>_. Ok Null), x_max_transactions = 1000\<rparr>"

definition demo_db :: "kv_server remote_tx" where
  "demo_db = \<lparr>rt_tx_id = 1, rt_cursors = Map.empty, rt_dup_cursors = Map.empty,
     rt_server = \<lparr>sv_tables =
        [(''BlockTransaction'', [KV [0] [9], KV [1] [10], KV [2] [11], KV [3] [12]]),
         (''LastForkchoice'', [KV (bytes_of_string ''headBlockHash'') [77]])], sv_open = Map.empty\<rparr>\<rparr>"

lemma demo_db_inv: "remote_inv demo_db"
  "remote_tab demo_db ''BlockTransaction'' = Some [KV [0] [9], KV [1] [10], KV [2] [11], KV [3] [12]]"
  "remote_tab demo_db ''LastForkchoice'' = Some [KV (bytes_of_string ''headBlockHash'') [77]]"
  by (simp_all add: remote_inv_def demo_db_def tables_ok_def kv_le_def remote_tab_def bytes_of_string_def)

lemma canonical_transactions_read_witness:
  "read_canonical_transactions demo_ext (tx_reader (remote_ops serve) demo_db) 3 2 = Ok [demo_transaction 10, demo_transaction 11]"
  using canonical_transactions_read [OF demo_db_inv(1,2), of 2 demo_ext 3]
  by (simp add: demo_ext_def)

lemma finalized_tag_reads_head_witness:
  "get_forkchoice_finalized_block_number demo_ext (tx_reader (remote_ops serve) demo_db) =
     forkchoice_number demo_ext (tx_reader (remote_ops serve) demo_db) ''headBlockHash'' (Ok 0)"
  using finalized_tag_reads_head [OF demo_db_inv(1,3), of demo_ext] by simp

fun demo_get_one :: "string \<Rightarrow> bytes \<Rightarrow> bytes" where
  "demo_get_one t k =
     (if t = ''Receipt'' then [1] else if t = ''Issuance'' then [1, 1, 1, 1, 1, 1, 1, 1, 1]
      else if t = ''CanonicalHeader'' \<and> k = [1] then [77] else if t = ''HeaderNumber'' \<and> k = [77] then zeros 8
      else if t = ''Header'' \<or> t = ''BlockBody'' then [3] else [])"

definition demo_reader :: reader where
  "demo_reader = \<lparr>rd_get = (\<lambda>_ _. Ok (KV [] [])), rd_get_one = (\<lambda>t k. Ok (demo_get_one t k)),
     rd_get_both_range = (\<lambda>_ _ _. Ok None),
     rd_walk = (\<lambda>t _ _. if t = ''BlockTransaction'' then Ok [KV [0] [9], KV [1] [10]]
       else Ok [KV (zeros 12) [2], KV (zeros 11 @ [1]) [2]]),
     rd_for_prefix = (\<lambda>_ _. Ok [])\<rparr>"

definition demo_block :: block_with_hash where
  "demo_block = \<lparr>bw_transactions = [demo_transaction 0, demo_transaction 1], bw_ommers = [], bw_header = demo_header, bw_hash = zeros 32\<rparr>"

lemma demo_raw_receipts:
  "\<exists>r0 r1. read_raw_receipts demo_ext demo_reader (bw_hash demo_block) (hdr_number (bw_header demo_block)) = Ok [r0, r1]"
  by (simp add: read_raw_receipts_def demo_reader_def demo_ext_def demo_codec_def demo_block_def demo_header_def
      cbor_decode_receipts_def cbor_decode_logs_def from_json_Receipt_def from_json_Log_def log_walker_def zeros_def Let_def
      numeral_eq_Suc)

theorem receipts_derived_witness:
  "\<exists>rs. read_receipts demo_ext demo_reader demo_block = Ok rs \<and> length rs = 2 \<and>
     map log_index (concat (map rc_logs rs)) = numbered 0 (length (concat (map rc_logs rs)))"
proof -
  obtain r0 r1 where "read_raw_receipts demo_ext demo_reader (bw_hash demo_block) (hdr_number (bw_header demo_block)) = Ok [r0, r1]"
    using demo_raw_receipts by blast
  then have "\<exists>rs. read_receipts demo_ext demo_reader demo_block = Ok rs"
    by (simp add: read_receipts_def demo_block_def derive_receipt_def demo_transaction_def Let_def)
  then obtain rs where rs: "read_receipts demo_ext demo_reader demo_block = Ok rs" by blast
  from receipts_derived [OF rs] rs show ?thesis by (simp add: demo_block_def)
qed

lemma total_issued_limited_witness:
  "read_total_issued demo_ext demo_reader 0 = Throw (Out_of_range ''stoul'')"
proof -
  have "rd_get_one demo_reader ''Issuance'' (x_block_key demo_ext 0) = Ok ([1, 1, 1, 1, 1, 1, 1, 1, 1])" "[1, 1, 1, 1, 1, 1, 1, 1, 1 :: byte] \<noteq> []"
    by (simp_all add: demo_reader_def)
  moreover have "\<not> be_value ([1, 1, 1, 1, 1, 1, 1, 1, 1]) < 2 ^ 64"
    by (simp add: be_value_def)
  ultimately show ?thesis
    using total_issued_limited [of demo_ext demo_reader 0 "[1, 1, 1, 1, 1, 1, 1, 1, 1]"] by (simp add: demo_ext_def)
qed

theorem cached_block_equals_database_witness:
  "fst (cached_read_block_by_number lru_block_cache demo_ext demo_reader 5 \<lparr>lru_entries = [], lru_capacity = 4\<rparr>) =
     read_block_by_number demo_ext demo_reader 5 \<and>
   (\<exists>b. read_block_by_number demo_ext demo_reader 5 = Ok b \<and> length (bw_transactions b) = 2)"
proof -
  have "cache_coherent demo_ext demo_reader \<lparr>lru_entries = [], lru_capacity = 4\<rparr>"
    by (simp add: cache_coherent_def lru_distinct_def lru_cached_def)
  moreover have "read_canonical_block_hash demo_ext demo_reader n = Ok h \<Longrightarrow> read_header_number demo_ext demo_reader h = Ok n" for n h
    by (auto simp: read_canonical_block_hash_def read_header_number_def load_u64_data_def demo_reader_def demo_ext_def
        demo_codec_def zeros_def split: if_splits)
  ultimately have "fst (cached_read_block_by_number lru_block_cache demo_ext demo_reader 5 \<lparr>lru_entries = [], lru_capacity = 4\<rparr>) =
      read_block_by_number demo_ext demo_reader 5"
    using cached_block_equals_database [of demo_ext demo_reader "\<lparr>lru_entries = [], lru_capacity = 4\<rparr>" 5] by blast
  moreover have "\<exists>b. read_block_by_number demo_ext demo_reader 5 = Ok b \<and> length (bw_transactions b) = 2"
    by (simp add: read_block_by_number_def read_canonical_block_hash_def read_block_def read_header_def read_header_rlp_def
        read_body_def read_body_rlp_def read_canonical_transactions_def read_transactions_def read_senders_def
        transaction_walker_def demo_reader_def demo_ext_def demo_codec_def)
  ultimately show ?thesis by blast
qed

end
