(* ===== verification/Access_List.thy ===== *)
theory Access_List
  imports Prelude
begin

text \<open>
  The tracer of \<^verbatim>\<open>core/evm_access_list_tracer.cpp\<close>, which collects the accounts and storage keys that an
  execution touches, and the comparison of two access lists. An instruction is what the tracer sees of
  the execution state. The conversions of a stack word to a storage key and to an address go through hex
  text in other libraries and are parameters.
\<close>

record access_list_entry =
  acl_account :: bytes
  acl_storage_keys :: "bytes list"

type_synonym access_list = "access_list_entry list"

definition Entry :: "bytes \<Rightarrow> bytes list \<Rightarrow> access_list_entry" where
  "Entry a ks = \<lparr>acl_account = a, acl_storage_keys = ks\<rparr>"

lemma Entry_sel [simp]: "acl_account (Entry a ks) = a" "acl_storage_keys (Entry a ks) = ks"
  by (simp_all add: Entry_def)

section \<open>The tracer\<close>

record tracer =
  tr_access_list :: access_list
  tr_from :: bytes
  tr_to :: bytes

fun add_storage :: "bytes \<Rightarrow> bytes \<Rightarrow> access_list \<Rightarrow> access_list" where
  "add_storage address storage [] = [Entry address [storage]]"
| "add_storage address storage (e # es) =
     (if acl_account e = address
      then if storage \<in> set (acl_storage_keys e) then e # es
           else e\<lparr>acl_storage_keys := acl_storage_keys e @ [storage]\<rparr> # es
      else e # add_storage address storage es)"

fun add_address :: "bytes \<Rightarrow> access_list \<Rightarrow> access_list" where
  "add_address address [] = [Entry address []]"
| "add_address address (e # es) = (if acl_account e = address then e # es else e # add_address address es)"

definition exclude :: "tracer \<Rightarrow> bytes \<Rightarrow> bool" where
  "exclude tr address \<longleftrightarrow> address = tr_from tr \<or> address = tr_to tr"

definition is_storage_opcode :: "string \<Rightarrow> bool" where
  "is_storage_opcode name \<longleftrightarrow> name = ''SLOAD'' \<or> name = ''SSTORE''"

definition is_contract_opcode :: "string \<Rightarrow> bool" where
  "is_contract_opcode name \<longleftrightarrow> name = ''EXTCODECOPY'' \<or> name = ''EXTCODEHASH'' \<or> name = ''EXTCODESIZE'' \<or>
     name = ''BALANCE'' \<or> name = ''SELFDESTRUCT''"

definition is_call_opcode :: "string \<Rightarrow> bool" where
  "is_call_opcode name \<longleftrightarrow> name = ''DELEGATECALL'' \<or> name = ''CALL'' \<or> name = ''STATICCALL'' \<or> name = ''CALLCODE''"

text \<open>What the tracer sees of an instruction: its name, the recipient of the message, the stack with its top first.\<close>

record instruction =
  in_opcode_name :: string
  in_recipient :: bytes
  in_stack :: "u256 list"

record words =
  w_storage :: "u256 \<Rightarrow> bytes"
  w_address :: "u256 \<Rightarrow> bytes"

definition on_instruction_start :: "words \<Rightarrow> instruction \<Rightarrow> tracer \<Rightarrow> tracer" where
  "on_instruction_start ws i tr =
     (let name = in_opcode_name i; stack = in_stack i in
      if is_storage_opcode name \<and> length stack \<ge> 1
      then tr\<lparr>tr_access_list := add_storage (in_recipient i) (w_storage ws (stack ! 0)) (tr_access_list tr)\<rparr>
      else if is_contract_opcode name \<and> length stack \<ge> 1
      then let address = w_address ws (stack ! 0) in
           if \<not> exclude tr address then tr\<lparr>tr_access_list := add_address address (tr_access_list tr)\<rparr> else tr
      else if is_call_opcode name \<and> length stack \<ge> 5
      then let address = w_address ws (stack ! 1) in
           if \<not> exclude tr address then tr\<lparr>tr_access_list := add_address address (tr_access_list tr)\<rparr> else tr
      else tr)"

definition reset_access_list :: "tracer \<Rightarrow> tracer" where
  "reset_access_list tr = tr\<lparr>tr_access_list := []\<rparr>"

section \<open>Comparison\<close>

text \<open>
  The loop over the keys of one entry: the flag \<^verbatim>\<open>match_storage\<close> is set before the loop and not reset for
  the next key.
\<close>

fun match_keys :: "bytes list \<Rightarrow> bool \<Rightarrow> bytes list \<Rightarrow> bool" where
  "match_keys ks2 match_storage [] = True"
| "match_keys ks2 match_storage (k # ks) =
     (let match_storage = (match_storage \<or> k \<in> set ks2) in
      if \<not> match_storage then False else match_keys ks2 match_storage ks)"

fun match_entry :: "access_list_entry \<Rightarrow> access_list \<Rightarrow> bool" where
  "match_entry e [] = False"
| "match_entry e (e2 # es) =
     (if acl_account e2 = acl_account e
      then if length (acl_storage_keys e2) \<noteq> length (acl_storage_keys e) then False
           else match_keys (acl_storage_keys e2) False (acl_storage_keys e)
      else match_entry e es)"

fun match_all :: "access_list \<Rightarrow> access_list \<Rightarrow> bool" where
  "match_all acl2 [] = True"
| "match_all acl2 (e # es) = (if \<not> match_entry e acl2 then False else match_all acl2 es)"

definition compare :: "access_list \<Rightarrow> access_list \<Rightarrow> bool" where
  "compare acl1 acl2 = (if length acl1 \<noteq> length acl2 then False else match_all acl2 acl1)"

section \<open>What the list contains\<close>

definition acl_unique :: "access_list \<Rightarrow> bool" where
  "acl_unique acl \<longleftrightarrow> distinct (map acl_account acl) \<and> (\<forall>e \<in> set acl. distinct (acl_storage_keys e))"

definition acl_pairs :: "access_list \<Rightarrow> (bytes \<times> bytes) set" where
  "acl_pairs acl = {(acl_account e, k) | e k. e \<in> set acl \<and> k \<in> set (acl_storage_keys e)}"

definition acl_accounts :: "access_list \<Rightarrow> bytes set" where
  "acl_accounts acl = acl_account ` set acl"

lemma acl_pairs_simps [simp]:
  "acl_pairs [] = {}" "acl_pairs (e # es) = (\<lambda>k. (acl_account e, k)) ` set (acl_storage_keys e) \<union> acl_pairs es"
  by (auto simp: acl_pairs_def)

lemma acl_accounts_simps [simp]:
  "acl_accounts [] = {}" "acl_accounts (e # es) = insert (acl_account e) (acl_accounts es)"
  by (simp_all add: acl_accounts_def)

lemma add_storage_pairs: "acl_pairs (add_storage a k acl) = insert (a, k) (acl_pairs acl)"
  by (induction acl) (auto simp: Entry_def)

lemma add_storage_accounts: "acl_accounts (add_storage a k acl) = insert a (acl_accounts acl)"
  by (induction acl) auto

lemma add_address_pairs: "acl_pairs (add_address a acl) = acl_pairs acl"
  by (induction acl) (auto simp: Entry_def)

lemma add_address_accounts: "acl_accounts (add_address a acl) = insert a (acl_accounts acl)"
  by (induction acl) auto

lemma acl_unique_Cons:
  "acl_unique (e # es) \<longleftrightarrow> acl_account e \<notin> acl_accounts es \<and> distinct (acl_storage_keys e) \<and> acl_unique es"
  by (auto simp: acl_unique_def acl_accounts_def)

lemma acl_unique_Nil: "acl_unique []"
  by (simp add: acl_unique_def)

lemma add_storage_unique: "acl_unique acl \<Longrightarrow> acl_unique (add_storage a k acl)"
  by (induction acl) (auto simp: acl_unique_Cons acl_unique_Nil add_storage_accounts)

lemma add_address_unique: "acl_unique acl \<Longrightarrow> acl_unique (add_address a acl)"
  by (induction acl) (auto simp: acl_unique_Cons acl_unique_Nil add_address_accounts)

text \<open>What a run of instructions touches: storage slots of the recipient, and other accounts.\<close>

definition touched_slot :: "words \<Rightarrow> instruction \<Rightarrow> (bytes \<times> bytes) set" where
  "touched_slot ws i =
     (if is_storage_opcode (in_opcode_name i) \<and> in_stack i \<noteq> [] then {(in_recipient i, w_storage ws (in_stack i ! 0))} else {})"

definition touched_account :: "words \<Rightarrow> instruction \<Rightarrow> bytes set" where
  "touched_account ws i =
     (if is_contract_opcode (in_opcode_name i) \<and> in_stack i \<noteq> [] then {w_address ws (in_stack i ! 0)}
      else if is_call_opcode (in_opcode_name i) \<and> length (in_stack i) \<ge> 5 then {w_address ws (in_stack i ! 1)} else {})"

lemmas opcode_defs = is_storage_opcode_def is_contract_opcode_def is_call_opcode_def

lemma step_list:
  "acl_pairs (tr_access_list (on_instruction_start ws i tr)) = acl_pairs (tr_access_list tr) \<union> touched_slot ws i"
  "acl_accounts (tr_access_list (on_instruction_start ws i tr)) =
     acl_accounts (tr_access_list tr) \<union> fst ` touched_slot ws i \<union> (touched_account ws i - {tr_from tr, tr_to tr})"
  "acl_unique (tr_access_list tr) \<Longrightarrow> acl_unique (tr_access_list (on_instruction_start ws i tr))"
  "tr_from (on_instruction_start ws i tr) = tr_from tr" "tr_to (on_instruction_start ws i tr) = tr_to tr"
proof -
  have "is_storage_opcode n \<Longrightarrow> \<not> is_contract_opcode n \<and> \<not> is_call_opcode n" "is_contract_opcode n \<Longrightarrow> \<not> is_call_opcode n" for n
    by (auto simp: opcode_defs)
  note op = this
  have st: "(Suc 0 \<le> length (in_stack i)) = (in_stack i \<noteq> [])" by (cases "in_stack i") auto
  note facts = add_storage_pairs add_storage_accounts add_address_pairs add_address_accounts touched_slot_def touched_account_def
    on_instruction_start_def Let_def exclude_def st
  show "acl_pairs (tr_access_list (on_instruction_start ws i tr)) = acl_pairs (tr_access_list tr) \<union> touched_slot ws i"
    using op [of "in_opcode_name i"] by (auto simp: facts)
  show "acl_accounts (tr_access_list (on_instruction_start ws i tr)) =
     acl_accounts (tr_access_list tr) \<union> fst ` touched_slot ws i \<union> (touched_account ws i - {tr_from tr, tr_to tr})"
    using op [of "in_opcode_name i"] by (auto simp: facts)
  show "acl_unique (tr_access_list tr) \<Longrightarrow> acl_unique (tr_access_list (on_instruction_start ws i tr))"
    by (auto simp: on_instruction_start_def Let_def add_storage_unique add_address_unique)
  show "tr_from (on_instruction_start ws i tr) = tr_from tr" "tr_to (on_instruction_start ws i tr) = tr_to tr"
    by (simp_all add: on_instruction_start_def Let_def)
qed

definition trace :: "words \<Rightarrow> instruction list \<Rightarrow> tracer \<Rightarrow> tracer" where
  "trace ws instrs tr = fold (on_instruction_start ws) instrs tr"

lemma trace_list:
  "acl_unique (tr_access_list tr) \<Longrightarrow>
   acl_unique (tr_access_list (trace ws instrs tr)) \<and>
   acl_pairs (tr_access_list (trace ws instrs tr)) = acl_pairs (tr_access_list tr) \<union> (\<Union>i \<in> set instrs. touched_slot ws i) \<and>
   acl_accounts (tr_access_list (trace ws instrs tr)) = acl_accounts (tr_access_list tr) \<union>
     (\<Union>i \<in> set instrs. fst ` touched_slot ws i) \<union> ((\<Union>i \<in> set instrs. touched_account ws i) - {tr_from tr, tr_to tr})"
proof (induction instrs arbitrary: tr)
  case Nil
  then show ?case by (simp add: trace_def)
next
  case (Cons i instrs)
  have t: "trace ws (i # instrs) tr = trace ws instrs (on_instruction_start ws i tr)" by (simp add: trace_def)
  from Cons.IH [OF step_list(3) [OF Cons.prems, of ws i]] show ?case
    unfolding t step_list by auto
qed


section \<open>What comparison decides\<close>

lemma match_keys_True: "match_keys ks2 True ks"
  by (induction ks) (simp_all add: Let_def)

lemma match_keys_first: "match_keys ks2 False ks \<longleftrightarrow> ks = [] \<or> hd ks \<in> set ks2"
  by (cases ks) (simp_all add: Let_def match_keys_True)

text \<open>
  Two lists with one entry for the same account and equally many keys compare as equal as soon as the
  first key of one occurs in the other, because the flag that records a match is not reset from key to
  key; lists with different keys are taken to be the same.
\<close>
lemma compare_checks_first_key_only:
  "compare [Entry a (k # ks)] [Entry a ks'] \<longleftrightarrow> length ks' = Suc (length ks) \<and> k \<in> set ks'"
  by (simp add: compare_def match_keys_first del: match_keys.simps)

end
