(* ===== verification/Evm_Executor.thy ===== *)
theory Evm_Executor
  imports Chain_Types
begin

text \<open>
  The execution of a transaction in \<^verbatim>\<open>core/evm_executor.cpp\<close>: the checks before it, buying and refunding
  gas, the reward of the beneficiary, and the texts of errors. The virtual machine and the state of the
  accounts belong to another repository: they are the parameters \<open>vm\<close> and \<open>state_ops\<close>. Arithmetic on gas is
  64-bit, on amounts 256-bit, both with wrap-around.
\<close>

section \<open>Errors\<close>

datatype evmc_status =
    EVMC_SUCCESS | EVMC_FAILURE | EVMC_REVERT | EVMC_OUT_OF_GAS | EVMC_INVALID_INSTRUCTION | EVMC_UNDEFINED_INSTRUCTION
  | EVMC_STACK_OVERFLOW | EVMC_STACK_UNDERFLOW | EVMC_BAD_JUMP_DESTINATION | EVMC_INVALID_MEMORY_ACCESS
  | EVMC_CALL_DEPTH_EXCEEDED | EVMC_STATIC_MODE_VIOLATION | EVMC_PRECOMPILE_FAILURE | EVMC_CONTRACT_VALIDATION_FAILURE
  | EVMC_ARGUMENT_OUT_OF_RANGE | EVMC_WASM_UNREACHABLE_INSTRUCTION | EVMC_WASM_TRAP | EVMC_INSUFFICIENT_BALANCE
  | EVMC_INTERNAL_ERROR | EVMC_REJECTED | EVMC_OUT_OF_MEMORY | EVMC_other int

text \<open>
  The reason that a contract gives when it reverts, ABI encoded behind the selector of \<^verbatim>\<open>Error(string)\<close>. The
  offset and the length are converted to 64 bits; the sums in the checks wrap around. Reading outside of
  the data is \<open>Out_of_bounds\<close>.
\<close>

definition kAbiStringOffsetSize :: u64 where
  "kAbiStringOffsetSize = 32"

definition load_uint256_at :: "bytes \<Rightarrow> nat \<Rightarrow> u256 result" where
  "load_uint256_at bs i = (if i + 32 \<le> length bs then Ok (of_nat (be_value (take 32 (drop i bs)))) else Throw Out_of_bounds)"

definition decode_error_reason :: "bytes \<Rightarrow> bytes \<Rightarrow> bytes option result" where
  "decode_error_reason selector error_data =
     (if length error_data < length selector \<or> take (length selector) error_data \<noteq> selector then Ok None
      else
        let encoded_msg = drop (length selector) error_data; size = (of_nat (length encoded_msg) :: u64) in
        if size < kAbiStringOffsetSize then Ok None
        else bind_r (load_uint256_at encoded_msg 0) (\<lambda>offset_uint256.
          let offset = (ucast offset_uint256 :: u64) in
          if size < kAbiStringOffsetSize + offset then Ok None
          else
            let message_offset = kAbiStringOffsetSize + offset in
            bind_r (load_uint256_at encoded_msg (unat offset)) (\<lambda>length_uint256.
              let len = (ucast length_uint256 :: u64) in
              if size < message_offset + len then Ok None
              else if unat message_offset + unat len \<le> length encoded_msg
              then Ok (Some (take (unat len) (drop (unat message_offset) encoded_msg)))
              else Throw Out_of_bounds)))"

fun error_text :: "evmc_status \<Rightarrow> string" where
  "error_text EVMC_FAILURE = ''execution failed''"
| "error_text EVMC_REVERT = ''execution reverted''"
| "error_text EVMC_OUT_OF_GAS = ''out of gas''"
| "error_text EVMC_INVALID_INSTRUCTION = ''invalid instruction''"
| "error_text EVMC_UNDEFINED_INSTRUCTION = ''invalid opcode''"
| "error_text EVMC_STACK_OVERFLOW = ''stack overflow''"
| "error_text EVMC_STACK_UNDERFLOW = ''stack underflow''"
| "error_text EVMC_BAD_JUMP_DESTINATION = ''invalid jump destination''"
| "error_text EVMC_INVALID_MEMORY_ACCESS = ''invalid memory access''"
| "error_text EVMC_CALL_DEPTH_EXCEEDED = ''call depth exceeded''"
| "error_text EVMC_STATIC_MODE_VIOLATION = ''static mode violation''"
| "error_text EVMC_PRECOMPILE_FAILURE = ''precompile failure''"
| "error_text EVMC_CONTRACT_VALIDATION_FAILURE = ''contract validation failure''"
| "error_text EVMC_ARGUMENT_OUT_OF_RANGE = ''argument out of range''"
| "error_text EVMC_WASM_UNREACHABLE_INSTRUCTION = ''wasm unreachable instruction''"
| "error_text EVMC_WASM_TRAP = ''wasm trap''"
| "error_text EVMC_INSUFFICIENT_BALANCE = ''insufficient balance''"
| "error_text EVMC_INTERNAL_ERROR = ''internal error''"
| "error_text EVMC_REJECTED = ''execution rejected''"
| "error_text EVMC_OUT_OF_MEMORY = ''out of memory''"
| "error_text EVMC_SUCCESS = ''unknown error code''"
| "error_text (EVMC_other _) = ''unknown error code''"

definition string_of_bytes :: "bytes \<Rightarrow> string" where
  "string_of_bytes bs = map (\<lambda>b. char_of (unat b)) bs"

definition get_error_message :: "bytes \<Rightarrow> evmc_status \<Rightarrow> bytes \<Rightarrow> bool \<Rightarrow> string result" where
  "get_error_message selector error_code error_data full_error =
     (if full_error
      then bind_r (decode_error_reason selector error_data) (\<lambda>reason.
        Ok (case reason of None \<Rightarrow> error_text error_code
            | Some r \<Rightarrow> error_text error_code @ '': '' @ string_of_bytes r))
      else Ok (error_text error_code))"

section \<open>State and machine\<close>

record 's state_ops =
  so_get_balance :: "'s \<Rightarrow> bytes \<Rightarrow> u256"
  so_add_to_balance :: "bytes \<Rightarrow> u256 \<Rightarrow> 's \<Rightarrow> 's"
  so_subtract_from_balance :: "bytes \<Rightarrow> u256 \<Rightarrow> 's \<Rightarrow> 's"
  so_get_nonce :: "'s \<Rightarrow> bytes \<Rightarrow> u64"
  so_set_nonce :: "bytes \<Rightarrow> u64 \<Rightarrow> 's \<Rightarrow> 's"
  so_access_account :: "bytes \<Rightarrow> 's \<Rightarrow> 's"
  so_access_storage :: "bytes \<Rightarrow> bytes \<Rightarrow> 's \<Rightarrow> 's"
  so_finalize :: "'s \<Rightarrow> 's"
  so_clear_journal_and_substate :: "'s \<Rightarrow> 's"

record call_result =
  cr_status :: evmc_status
  cr_gas_left :: u64
  cr_gas_refund :: u64
  cr_data :: bytes

text \<open>
  The rules of the revision and the machine: whether the London rules hold, the two refund quotients, the
  intrinsic gas of a transaction (a 128-bit number), its effective price and priority fee for a base fee,
  and execution with the tracers that observe it.
\<close>

record 's vm =
  vm_london :: bool
  vm_refund_quotient_london :: u64
  vm_refund_quotient_frontier :: u64
  vm_intrinsic_gas :: "transaction \<Rightarrow> 128 word"
  vm_effective_gas_price :: "transaction \<Rightarrow> u256 \<Rightarrow> u256"
  vm_priority_fee_per_gas :: "transaction \<Rightarrow> u256 \<Rightarrow> u256"
  vm_execute :: "transaction \<Rightarrow> u64 \<Rightarrow> 's \<Rightarrow> call_result \<times> 's"
  vm_beneficiary :: bytes
  vm_base_fee :: "u256 option"

definition base_fee :: "'s vm \<Rightarrow> u256" where
  "base_fee vm = (case vm_base_fee vm of None \<Rightarrow> 0 | Some f \<Rightarrow> f)"

definition sender :: "transaction \<Rightarrow> bytes result" where
  "sender txn = (case tx_from txn of None \<Rightarrow> Throw Assertion_failed | Some a \<Rightarrow> Ok a)"

definition refund_price :: "'s vm \<Rightarrow> transaction \<Rightarrow> u256" where
  "refund_price vm txn =
     (if tx_max_fee_per_gas txn \<ge> base_fee vm then vm_effective_gas_price vm txn (base_fee vm)
      else tx_max_priority_fee_per_gas txn)"

definition refund_gas :: "'s vm \<Rightarrow> 's state_ops \<Rightarrow> transaction \<Rightarrow> bytes \<Rightarrow> u64 \<Rightarrow> u64 \<Rightarrow> 's \<Rightarrow> u64 \<times> 's" where
  "refund_gas vm so txn from gas_left gas_refund s =
     (let max_refund_quotient = (if vm_london vm then vm_refund_quotient_london vm else vm_refund_quotient_frontier vm);
          max_refund = (tx_gas_limit txn - gas_left) div max_refund_quotient;
          refund = (if gas_refund < max_refund then gas_refund else max_refund);
          gas_left = gas_left + refund
      in (gas_left, so_add_to_balance so from (ucast gas_left * refund_price vm txn) s))"

text \<open>The decimal and hex texts of numbers and addresses in the messages.\<close>

definition dec :: "'a::len word \<Rightarrow> string" where
  "dec w = to_string (unat w)"

definition pre_check :: "'s vm \<Rightarrow> transaction \<Rightarrow> bytes \<Rightarrow> 128 word \<Rightarrow> string option" where
  "pre_check vm txn from g0 =
     (let check_fee = vm_london vm \<and> (tx_max_fee_per_gas txn > 0 \<or> tx_max_priority_fee_per_gas txn > 0) in
      if check_fee \<and> tx_max_fee_per_gas txn < base_fee vm
      then Some (''fee cap less than block base fee: address 0x'' @ hex_of_bytes from @ '', gasFeeCap: '' @
             dec (tx_max_fee_per_gas txn) @ '' baseFee: '' @ dec (base_fee vm))
      else if check_fee \<and> tx_max_fee_per_gas txn < tx_max_priority_fee_per_gas txn
      then Some (''tip higher than fee cap: address 0x'' @ hex_of_bytes from @ '', tip: '' @
             dec (tx_max_priority_fee_per_gas txn) @ '' gasFeeCap: '' @ dec (tx_max_fee_per_gas txn))
      else if ucast (tx_gas_limit txn) < g0
      then Some (''intrinsic gas too low: have '' @ dec (tx_gas_limit txn) @ '', want '' @ dec g0)
      else None)"

definition executor_reset :: "'s state_ops \<Rightarrow> 's \<Rightarrow> 's" where
  "executor_reset so s = so_clear_journal_and_substate so s"

section \<open>Execution\<close>

record execution_result =
  er_error_code :: evmc_status
  er_gas_left :: u64
  er_data :: bytes
  er_pre_check_error :: "string option"

definition rejected :: "transaction \<Rightarrow> string \<Rightarrow> execution_result" where
  "rejected txn error = \<lparr>er_error_code = EVMC_other 1000, er_gas_left = tx_gas_limit txn, er_data = [], er_pre_check_error = Some error\<rparr>"

definition reward_price :: "'s vm \<Rightarrow> transaction \<Rightarrow> u256" where
  "reward_price vm txn =
     (if tx_max_fee_per_gas txn \<ge> base_fee vm then vm_priority_fee_per_gas vm txn (base_fee vm)
      else tx_max_priority_fee_per_gas txn)"

definition want_of :: "'s vm \<Rightarrow> transaction \<Rightarrow> u256" where
  "want_of vm txn =
     (if tx_max_fee_per_gas txn > 0 \<or> tx_max_priority_fee_per_gas txn > 0
      then ucast (tx_gas_limit txn) * vm_effective_gas_price vm txn (base_fee vm) else 0)"

text \<open>The accounts and slots of the access list are marked as accessed.\<close>

definition warm_access_list :: "'s state_ops \<Rightarrow> transaction \<Rightarrow> 's \<Rightarrow> 's" where
  "warm_access_list so txn s =
     fold (\<lambda>(account, keys) s. fold (so_access_storage so account) keys (so_access_account so account s)) (tx_access_list txn) s"

definition executor_call ::
  "'s vm \<Rightarrow> 's state_ops \<Rightarrow> transaction \<Rightarrow> bool \<Rightarrow> bool \<Rightarrow> 's \<Rightarrow> (execution_result \<times> 's) result" where
  "executor_call vm so txn refund gas_bailout s =
     bind_r (sender txn) (\<lambda>from.
       let s1 = so_access_account so from s; g0 = vm_intrinsic_gas vm txn in
       if g0 > 18446744073709551615 then Throw Assertion_failed else
       case pre_check vm txn from g0 of
         Some error \<Rightarrow> Ok (rejected txn error, s1)
       | None \<Rightarrow>
           let want = want_of vm txn; funds = so_get_balance so s1 from in
           if funds < want + tx_value txn \<and> \<not> gas_bailout
           then Ok (rejected txn (''insufficient funds for gas * price + value: address 0x'' @ hex_of_bytes from @
                  '' have '' @ dec funds @ '' want '' @ dec (want + tx_value txn)), s1)
           else
             let s2 = (if funds < want + tx_value txn then s1 else so_subtract_from_balance so from want s1);
                 s3 = (case tx_to txn of
                         Some to \<Rightarrow> (let s' = so_access_account so to s2 in so_set_nonce so from (so_get_nonce so s' from + 1) s')
                       | None \<Rightarrow> s2)
             in case vm_execute vm txn (tx_gas_limit txn - ucast g0) (warm_access_list so txn s3) of (result, s4) \<Rightarrow>
                (case refund_gas vm so txn from (cr_gas_left result) (cr_gas_refund result) s4 of (gas_left', s5) \<Rightarrow>
                   let gas_used = tx_gas_limit txn - gas_left';
                       gas_left = (if refund then tx_gas_limit txn - gas_used else cr_gas_left result);
                       s6 = so_add_to_balance so (vm_beneficiary vm) (reward_price vm txn * ucast gas_used) s5
                   in Ok (\<lparr>er_error_code = cr_status result, er_gas_left = gas_left, er_data = cr_data result,
                           er_pre_check_error = None\<rparr>, so_finalize so s6)))"

end
