(* ===== verification/Evm_Executor_Props.thy ===== *)
theory Evm_Executor_Props
  imports Evm_Executor
begin

text \<open>
  Gas and money: what the sender pays and the beneficiary receives, over any state whose balances behave
  as such (the locale \<open>account_state\<close>), and the decoding of revert reasons, with the case in which its
  bounds checks wrap around.
\<close>

section \<open>Gas that is left\<close>

lemma refund_le:
  fixes limit left refund q :: u64
  assumes "left \<le> limit" "refund \<le> (limit - left) div q"
  shows "left \<le> left + refund \<and> left + refund \<le> limit"
proof -
  have "unat refund \<le> unat (limit - left) div unat q"
    using assms(2) by (simp add: word_le_nat_alt unat_div)
  then have "unat refund \<le> unat (limit - left)"
    using div_le_dividend [of "unat (limit - left)" "unat q"] by linarith
  then have s: "unat left + unat refund \<le> unat limit"
    using assms(1) by (simp add: word_le_nat_alt unat_sub)
  moreover have "unat limit < 2 ^ LENGTH(64)" by (rule unsigned_less)
  ultimately have "unat (left + refund) = unat left + unat refund"
    using unat_add_lem [of left refund] by linarith
  with s show ?thesis by (simp add: word_le_nat_alt)
qed

text \<open>The gas that is left after the refund.\<close>

definition refunded :: "'s vm \<Rightarrow> transaction \<Rightarrow> call_result \<Rightarrow> u64" where
  "refunded vm txn r =
     cr_gas_left r + min (cr_gas_refund r)
       ((tx_gas_limit txn - cr_gas_left r) div
          (if vm_london vm then vm_refund_quotient_london vm else vm_refund_quotient_frontier vm))"

lemma refund_gas_eq:
  "refund_gas vm so txn from (cr_gas_left r) (cr_gas_refund r) s =
    (refunded vm txn r, so_add_to_balance so from (ucast (refunded vm txn r) * refund_price vm txn) s)"
  by (simp add: refund_gas_def refunded_def Let_def min_def not_less)
    (metis order.antisym order_less_imp_le not_le)

lemma refunded_bounds:
  "cr_gas_left r \<le> tx_gas_limit txn \<Longrightarrow> cr_gas_left r \<le> refunded vm txn r \<and> refunded vm txn r \<le> tx_gas_limit txn"
  unfolding refunded_def by (rule refund_le) (assumption, rule min.cobounded2)

lemma ucast_diff:
  fixes a b :: u64
  assumes "b \<le> a"
  shows "(ucast (a - b) :: u256) = ucast a - ucast b"
proof -
  have "(ucast (a - b) :: u256) = of_nat (unat (a - b))" by simp
  also have "\<dots> = of_nat (unat a - unat b)" using assms by (simp only: unat_sub)
  also have "\<dots> = of_nat (unat a) - of_nat (unat b)" using assms by (simp only: of_nat_diff word_le_nat_alt)
  finally show ?thesis by simp
qed

lemma intrinsic_le:
  fixes limit left :: u64 and g0 :: "128 word"
  assumes "g0 \<le> ucast limit" "left \<le> limit - ucast g0"
  shows "left \<le> limit"
proof -
  have "unat g0 \<le> unat limit"
    using assms(1) by (simp add: word_le_nat_alt unsigned_ucast_eq) (meson order_trans take_bit_nat_less_eq_self)
  then have "unat (ucast g0 :: u64) \<le> unat limit"
    by (simp add: unsigned_ucast_eq) (meson order_trans take_bit_nat_less_eq_self)
  then show ?thesis using assms(2) by (simp add: word_le_nat_alt unat_sub)
qed

section \<open>Balances\<close>

text \<open>
  What the executor relies on of the state of the accounts: balances change only where they are changed,
  by the amount that is added or subtracted. \<^verbatim>\<open>finalize_transaction\<close> may remove accounts, so no law is
  stated of it.
\<close>

locale account_state =
  fixes so :: "'s state_ops"
  assumes balance_add: "so_get_balance so (so_add_to_balance so a v s) b = so_get_balance so s b + (if b = a then v else 0)"
    and balance_subtract: "so_get_balance so (so_subtract_from_balance so a v s) b = so_get_balance so s b - (if b = a then v else 0)"
    and balance_access: "so_get_balance so (so_access_account so a s) b = so_get_balance so s b"
    and balance_access_storage: "so_get_balance so (so_access_storage so a k s) b = so_get_balance so s b"
    and balance_nonce: "so_get_balance so (so_set_nonce so a n s) b = so_get_balance so s b"
begin

lemmas balance_simps = balance_add balance_subtract balance_access balance_access_storage balance_nonce

lemma balance_warm_keys: "so_get_balance so (fold (so_access_storage so a) ks s) b = so_get_balance so s b"
  by (induction ks arbitrary: s) (simp_all add: balance_simps)

lemma balance_warm: "so_get_balance so (warm_access_list so txn s) b = so_get_balance so s b"
proof -
  have "so_get_balance so (fold (\<lambda>(account, keys) s. fold (so_access_storage so account) keys (so_access_account so account s)) es s) b
      = so_get_balance so s b" for es
    by (induction es arbitrary: s) (auto simp: balance_simps balance_warm_keys)
  then show ?thesis by (simp add: warm_access_list_def)
qed

text \<open>
  One execution that passes the checks and is paid for: the state \<open>s3\<close> before the machine runs has the
  price of the whole gas limit taken from the sender, and the machine's run \<open>(r, s4)\<close> is followed by the
  refund and the reward.
\<close>

lemma executor_call_paid:
  assumes "tx_from txn = Some from" "vm_intrinsic_gas vm txn \<le> 18446744073709551615"
    and "pre_check vm txn from (vm_intrinsic_gas vm txn) = None"
    and "want_of vm txn + tx_value txn \<le> so_get_balance so s from"
  shows "\<exists>s3 r s4 s6. vm_execute vm txn (tx_gas_limit txn - ucast (vm_intrinsic_gas vm txn)) s3 = (r, s4) \<and>
    executor_call vm so txn refund gas_bailout s =
      Ok (\<lparr>er_error_code = cr_status r, er_gas_left = (if refund then refunded vm txn r else cr_gas_left r),
           er_data = cr_data r, er_pre_check_error = None\<rparr>, so_finalize so s6) \<and>
    (\<forall>b. so_get_balance so s3 b = so_get_balance so s b - (if b = from then want_of vm txn else 0)) \<and>
    (\<forall>b. so_get_balance so s6 b = so_get_balance so s4 b
        + (if b = from then ucast (refunded vm txn r) * refund_price vm txn else 0)
        + (if b = vm_beneficiary vm then reward_price vm txn * ucast (tx_gas_limit txn - refunded vm txn r) else 0))"
proof -
  define s2 where "s2 = so_subtract_from_balance so from (want_of vm txn) (so_access_account so from s)"
  define s3 where "s3 = warm_access_list so txn (case tx_to txn of
      Some to \<Rightarrow> (let s' = so_access_account so to s2 in so_set_nonce so from (so_get_nonce so s' from + 1) s') | None \<Rightarrow> s2)"
  obtain r s4 where x: "vm_execute vm txn (tx_gas_limit txn - ucast (vm_intrinsic_gas vm txn)) s3 = (r, s4)"
    by (cases "vm_execute vm txn (tx_gas_limit txn - ucast (vm_intrinsic_gas vm txn)) s3")
  define s6 where "s6 = so_add_to_balance so (vm_beneficiary vm) (reward_price vm txn * ucast (tx_gas_limit txn - refunded vm txn r))
      (so_add_to_balance so from (ucast (refunded vm txn r) * refund_price vm txn) s4)"
  have "so_get_balance so s3 b = so_get_balance so s b - (if b = from then want_of vm txn else 0)" for b
    by (auto simp: s3_def s2_def balance_simps balance_warm Let_def split: option.splits)
  moreover have "so_get_balance so s6 b = so_get_balance so s4 b
        + (if b = from then ucast (refunded vm txn r) * refund_price vm txn else 0)
        + (if b = vm_beneficiary vm then reward_price vm txn * ucast (tx_gas_limit txn - refunded vm txn r) else 0)" for b
    by (simp add: s6_def balance_simps)
  moreover have "executor_call vm so txn refund gas_bailout s =
      Ok (\<lparr>er_error_code = cr_status r, er_gas_left = (if refund then refunded vm txn r else cr_gas_left r),
           er_data = cr_data r, er_pre_check_error = None\<rparr>, so_finalize so s6)"
    using assms x [unfolded s3_def s2_def]
    by (simp add: executor_call_def sender_def Let_def not_less [symmetric] balance_simps refund_gas_eq s6_def)
  ultimately show ?thesis using x by blast
qed

end

text \<open>
  C24: When a transaction passes the checks and its sender can pay, the sender pays the gas that is used,
  after the refund, at the effective price, and the beneficiary receives it at the priority fee; apart
  from these, balances are those that the machine's own run leaves. The gas that is used never exceeds
  the gas limit. The laws of the account state and that the machine returns at most the gas it was given
  are hypotheses.
\<close>
theorem sender_pays_for_used_gas:
  assumes "account_state so" "tx_from txn = Some from" "vm_intrinsic_gas vm txn \<le> 18446744073709551615"
    and "pre_check vm txn from (vm_intrinsic_gas vm txn) = None"
    and "want_of vm txn + tx_value txn \<le> so_get_balance so s from"
    and "0 < tx_max_fee_per_gas txn" "base_fee vm \<le> tx_max_fee_per_gas txn"
    and "\<And>t g s. cr_gas_left (fst (vm_execute vm t g s)) \<le> g"
  shows "\<exists>s3 r s4 s6 gas_used. vm_execute vm txn (tx_gas_limit txn - ucast (vm_intrinsic_gas vm txn)) s3 = (r, s4) \<and>
    executor_call vm so txn True gas_bailout s =
      Ok (\<lparr>er_error_code = cr_status r, er_gas_left = tx_gas_limit txn - gas_used, er_data = cr_data r, er_pre_check_error = None\<rparr>,
          so_finalize so s6) \<and>
    gas_used \<le> tx_gas_limit txn - cr_gas_left r \<and>
    (\<forall>b. so_get_balance so s6 b = so_get_balance so s b + (so_get_balance so s4 b - so_get_balance so s3 b)
        - (if b = from then ucast gas_used * vm_effective_gas_price vm txn (base_fee vm) else 0)
        + (if b = vm_beneficiary vm then ucast gas_used * vm_priority_fee_per_gas vm txn (base_fee vm) else 0))"
proof -
  obtain s3 r s4 s6 where x: "vm_execute vm txn (tx_gas_limit txn - ucast (vm_intrinsic_gas vm txn)) s3 = (r, s4)"
    and c: "executor_call vm so txn True gas_bailout s =
      Ok (\<lparr>er_error_code = cr_status r, er_gas_left = refunded vm txn r, er_data = cr_data r, er_pre_check_error = None\<rparr>, so_finalize so s6)"
    and b3: "\<And>b. so_get_balance so s3 b = so_get_balance so s b - (if b = from then want_of vm txn else 0)"
    and b6: "\<And>b. so_get_balance so s6 b = so_get_balance so s4 b
        + (if b = from then ucast (refunded vm txn r) * refund_price vm txn else 0)
        + (if b = vm_beneficiary vm then reward_price vm txn * ucast (tx_gas_limit txn - refunded vm txn r) else 0)"
    using account_state.executor_call_paid [OF assms(1-5), of True gas_bailout] by auto
  have "ucast (tx_gas_limit txn) \<ge> vm_intrinsic_gas vm txn"
    using assms(4) by (auto simp: pre_check_def Let_def not_less split: if_splits)
  then have left: "cr_gas_left r \<le> tx_gas_limit txn"
    using assms(8) [of txn "tx_gas_limit txn - ucast (vm_intrinsic_gas vm txn)" s3] x intrinsic_le by fastforce
  note bounds = refunded_bounds [OF left, of vm]
  define gas_used where "gas_used = tx_gas_limit txn - refunded vm txn r"
  have used: "(ucast gas_used :: u256) = ucast (tx_gas_limit txn) - ucast (refunded vm txn r)"
    unfolding gas_used_def by (rule ucast_diff) (use bounds in simp)
  have prices: "refund_price vm txn = vm_effective_gas_price vm txn (base_fee vm)"
      "reward_price vm txn = vm_priority_fee_per_gas vm txn (base_fee vm)"
      "want_of vm txn = ucast (tx_gas_limit txn) * vm_effective_gas_price vm txn (base_fee vm)"
    using assms(6,7) by (simp_all add: refund_price_def reward_price_def want_of_def)
  have "so_get_balance so s6 b = so_get_balance so s b + (so_get_balance so s4 b - so_get_balance so s3 b)
        - (if b = from then ucast gas_used * vm_effective_gas_price vm txn (base_fee vm) else 0)
        + (if b = vm_beneficiary vm then ucast gas_used * vm_priority_fee_per_gas vm txn (base_fee vm) else 0)" for b
    unfolding b6 b3 prices used gas_used_def [symmetric] by (simp add: algebra_simps)
  moreover have "gas_used \<le> tx_gas_limit txn - cr_gas_left r"
    unfolding gas_used_def using bounds left by (simp add: word_le_nat_alt unat_sub diff_le_mono2)
  moreover have "refunded vm txn r = tx_gas_limit txn - gas_used" by (simp add: gas_used_def)
  ultimately show ?thesis using x c by metis
qed

text \<open>A ledger in which accounts that are accessed are remembered and balances and nonces are total functions.\<close>

record ledger =
  balances :: "bytes \<Rightarrow> u256"
  nonces :: "bytes \<Rightarrow> u64"
  warm :: "(bytes \<times> bytes option) list"

definition ledger_ops :: "ledger state_ops" where
  "ledger_ops =
     \<lparr>so_get_balance = (\<lambda>s a. balances s a),
      so_add_to_balance = (\<lambda>a v s. s\<lparr>balances := (balances s)(a := balances s a + v)\<rparr>),
      so_subtract_from_balance = (\<lambda>a v s. s\<lparr>balances := (balances s)(a := balances s a - v)\<rparr>),
      so_get_nonce = (\<lambda>s a. nonces s a),
      so_set_nonce = (\<lambda>a n s. s\<lparr>nonces := (nonces s)(a := n)\<rparr>),
      so_access_account = (\<lambda>a s. s\<lparr>warm := (a, None) # warm s\<rparr>),
      so_access_storage = (\<lambda>a k s. s\<lparr>warm := (a, Some k) # warm s\<rparr>),
      so_finalize = (\<lambda>s. s\<lparr>warm := []\<rparr>), so_clear_journal_and_substate = (\<lambda>s. s\<lparr>warm := []\<rparr>)\<rparr>"

interpretation ledger: account_state ledger_ops
  by unfold_locales (simp_all add: ledger_ops_def)

definition demo_vm :: "ledger vm" where
  "demo_vm =
     \<lparr>vm_london = True, vm_refund_quotient_london = 5, vm_refund_quotient_frontier = 2, vm_intrinsic_gas = (\<lambda>_. 21000),
      vm_effective_gas_price = (\<lambda>t b. min (tx_max_fee_per_gas t) (tx_max_priority_fee_per_gas t + b)),
      vm_priority_fee_per_gas = (\<lambda>t b. min (tx_max_priority_fee_per_gas t) (tx_max_fee_per_gas t - b)),
      vm_execute = (\<lambda>t g s. (\<lparr>cr_status = EVMC_SUCCESS, cr_gas_left = 0, cr_gas_refund = 4800, cr_data = []\<rparr>, s)),
      vm_beneficiary = [2], vm_base_fee = Some 7\<rparr>"

definition demo_txn :: transaction where
  "demo_txn =
     \<lparr>tx_type = 2, tx_nonce = 0, tx_max_priority_fee_per_gas = 2, tx_max_fee_per_gas = 10, tx_gas_limit = 50000, tx_to = Some [3],
      tx_value = 5, tx_data = [], tx_access_list = [([3], [[9]])], tx_from = Some [1],
      tx_chain_id = None, tx_odd_y_parity = False, tx_r = 0, tx_s = 0\<rparr>"

definition demo_ledger :: ledger where
  "demo_ledger = \<lparr>balances = (\<lambda>_. 1000000), nonces = (\<lambda>_. 0), warm = []\<rparr>"

lemmas demo_defs = demo_vm_def demo_txn_def demo_ledger_def

theorem sender_pays_for_used_gas_witness:
  "\<exists>gas_used (r :: call_result) s'. executor_call demo_vm ledger_ops demo_txn True False demo_ledger =
      Ok (\<lparr>er_error_code = cr_status r, er_gas_left = 50000 - gas_used, er_data = cr_data r, er_pre_check_error = None\<rparr>,
          so_finalize ledger_ops s') \<and> gas_used \<le> 50000 - cr_gas_left r"
proof -
  have h: "tx_from demo_txn = Some [1]" "vm_intrinsic_gas demo_vm demo_txn \<le> 18446744073709551615"
    "pre_check demo_vm demo_txn [1] (vm_intrinsic_gas demo_vm demo_txn) = None"
    "want_of demo_vm demo_txn + tx_value demo_txn \<le> so_get_balance ledger_ops demo_ledger [1]"
    "0 < tx_max_fee_per_gas demo_txn" "base_fee demo_vm \<le> tx_max_fee_per_gas demo_txn"
    "\<And>t g s. cr_gas_left (fst (vm_execute demo_vm t g s)) \<le> g" "tx_gas_limit demo_txn = 50000"
    by (simp_all add: demo_defs pre_check_def base_fee_def want_of_def ledger_ops_def)
  from sender_pays_for_used_gas [OF ledger.account_state_axioms h(1-7), of False] show ?thesis
    unfolding h(8) by blast
qed

section \<open>Revert reasons\<close>

lemma size_u64: "n < 2 ^ 64 \<Longrightarrow> unat (of_nat n :: u64) = n"
  by (simp add: unsigned_of_nat take_bit_nat_eq_self)

lemma load_uint256_u64:
  assumes "i + 32 \<le> length bs" "be_value (take 32 (drop i bs)) < 2 ^ 64"
  shows "\<exists>w. load_uint256_at bs i = Ok w \<and> unat (ucast w :: u64) = be_value (take 32 (drop i bs))"
  using assms by (simp add: load_uint256_at_def unsigned_ucast_eq unsigned_of_nat take_bit_nat_eq_self)

lemma foldl_replicate_zero: "foldl (\<lambda>a b. 256 * a + unat (b :: byte)) 0 (replicate n 0) = 0"
  by (induction n) simp_all

text \<open>
  Data that encodes a reason as the ABI does, behind the selector of the error, with the offset 32,
  the length and the bytes of the reason and any padding, is decoded to exactly this reason.
\<close>
lemma revert_reason_decoded:
  assumes "length ow = 32" "be_value ow = 32" "length lw = 32" "be_value lw = length reason"
    and "length (ow @ lw @ reason @ padding) < 2 ^ 64"
  shows "decode_error_reason selector (selector @ ow @ lw @ reason @ padding) = Ok (Some reason)"
proof -
  let ?m = "ow @ lw @ reason @ padding"
  obtain o' where o': "load_uint256_at ?m 0 = Ok o'" "unat (ucast o' :: u64) = 32"
    using load_uint256_u64 [of 0 ?m] assms by auto
  obtain l' where l': "load_uint256_at ?m 32 = Ok l'" "unat (ucast l' :: u64) = length reason"
    using load_uint256_u64 [of 32 ?m] assms by auto
  have o'': "(ucast o' :: u64) = 32" using o'(2) by (simp add: word_unat_eq_iff)
  have l'': "(ucast l' :: u64) = of_nat (length reason)" using l'(2) assms by (simp add: word_unat_eq_iff size_u64)
  have n: "unat (64 + of_nat (length reason) :: u64) = 64 + length reason"
    using size_u64 [of "64 + length reason"] assms by simp
  have r: "unat (of_nat (length reason) :: u64) = length reason"
    using size_u64 assms by simp
  have s: "unat (of_nat (length ?m) :: u64) = length ?m"
    by (rule size_u64) (use assms in simp)
  show ?thesis
    using s n r assms(1,3) o'(1) l'(1) unfolding decode_error_reason_def Let_def
    by (simp add: kAbiStringOffsetSize_def word_less_nat_alt o'' l'')
qed

lemma revert_reason_decoded_witness:
  "decode_error_reason [8, 195, 121, 160] ([8, 195, 121, 160] @ (replicate 31 0 @ [32]) @ (replicate 31 0 @ [2]) @ [79, 75] @ replicate 30 0)
    = Ok (Some [79, 75])"
  by (rule revert_reason_decoded) (simp_all add: be_value_def foldl_replicate_zero)

text \<open>
  For data whose offset, reduced to 64 bits, lies within 32 of the end of the 64-bit range, the sum in
  the bounds check wraps around, the check passes and the length of the reason is read outside of the data.
\<close>
lemma revert_offset_wraps:
  assumes "32 \<le> length encoded" "length encoded < 2 ^ 64 - 32"
    and "2 ^ 64 - 32 \<le> be_value (take 32 encoded) mod 2 ^ 64"
  shows "decode_error_reason selector (selector @ encoded) = Throw Out_of_bounds"
proof -
  obtain w where w: "load_uint256_at encoded 0 = Ok w" "w = of_nat (be_value (take 32 encoded))"
    using assms by (simp add: load_uint256_at_def)
  define off where "off = (ucast w :: u64)"
  have u: "unat off = be_value (take 32 encoded) mod 2 ^ 64"
    by (simp add: off_def w(2) unsigned_ucast_eq unsigned_of_nat take_bit_eq_mod mod_mod_cancel)
  have "unat (32 + off) = (32 + unat off) mod 2 ^ 64"
    by (simp add: unat_word_ariths)
  also have "\<dots> = 32 + unat off - 2 ^ 64"
    using assms(3) mod_less_divisor [of "2 ^ 64" "be_value (take 32 encoded)"] unfolding u by (subst le_mod_geq) simp_all
  finally have "unat (32 + off) < 32"
    using mod_less_divisor [of "2 ^ 64" "be_value (take 32 encoded)"] unfolding u by simp
  moreover have "unat (of_nat (length encoded) :: u64) = length encoded"
    using assms(2) by (intro size_u64) simp
  ultimately have "\<not> of_nat (length encoded) < (32 :: u64)" "\<not> of_nat (length encoded) < 32 + off"
    using assms(1) by (simp_all add: word_less_nat_alt)
  moreover have "load_uint256_at encoded (unat off) = Throw Out_of_bounds"
    using assms(2,3) u by (simp add: load_uint256_at_def)
  ultimately show ?thesis
    using w(1) by (simp add: decode_error_reason_def kAbiStringOffsetSize_def Let_def off_def)
qed

lemma revert_offset_wraps_witness:
  "decode_error_reason [8, 195, 121, 160] ([8, 195, 121, 160] @ (replicate 24 0 @ [255, 255, 255, 255, 255, 255, 255, 224])) = Throw Out_of_bounds"
  by (rule revert_offset_wraps) (simp_all add: be_value_def foldl_replicate_zero)

end
