(* ===== verification/Gas_Oracles.thy ===== *)
theory Gas_Oracles
  imports Evm_Executor
begin

text \<open>
  The oracles: the suggested gas price of \<^verbatim>\<open>core/gas_price_oracle.cpp\<close>, the gas estimation of
  \<^verbatim>\<open>core/estimate_gas_oracle.cpp\<close> with the conversion of a call to a transaction in \<^verbatim>\<open>types/call.hpp\<close>.
  The providers of blocks, headers and accounts and the executor are parameters, as they are in the code.
\<close>

section \<open>Gas price\<close>

definition kDefaultPrice :: u256 where "kDefaultPrice = 0"
definition kDefaultMaxPrice :: u256 where "kDefaultMaxPrice = 500 * 10 ^ 9"
definition kDefaultMinPrice :: u256 where "kDefaultMinPrice = 2"
definition kCheckBlocks :: nat where "kCheckBlocks = 20"
definition kSamples :: nat where "kSamples = 3"
definition kMaxSamples :: nat where "kMaxSamples = kCheckBlocks * kSamples"
definition kPercentile :: nat where "kPercentile = 60"

lemmas price_constants = kDefaultPrice_def kDefaultMaxPrice_def kDefaultMinPrice_def kCheckBlocks_def kSamples_def
  kMaxSamples_def kPercentile_def

text \<open>
  \<open>priority_fee\<close> is \<^verbatim>\<open>Transaction::priority_fee_per_gas\<close> of another repository. The prices of a block are those
  of the transactions that neither fall below the minimum nor come from the beneficiary, sorted, the
  first \<open>limit\<close> of them; \<open>++count >= limit\<close> is checked after the push, so one is taken even for limit 0.
\<close>

definition block_prices :: "(transaction \<Rightarrow> u256 \<Rightarrow> u256) \<Rightarrow> block_with_hash \<Rightarrow> u256 list" where
  "block_prices priority_fee b =
     (let base_fee = (case hdr_base_fee_per_gas (bw_header b) of None \<Rightarrow> 0 | Some f \<Rightarrow> f);
          coinbase = hdr_beneficiary (bw_header b)
      in map (\<lambda>tx. priority_fee tx base_fee)
           (filter (\<lambda>tx. \<not> priority_fee tx base_fee < kDefaultMinPrice \<and> tx_from tx \<noteq> Some coinbase) (bw_transactions b)))"

definition load_block_prices ::
  "(transaction \<Rightarrow> u256 \<Rightarrow> u256) \<Rightarrow> (nat \<Rightarrow> block_with_hash result) \<Rightarrow> nat \<Rightarrow> nat \<Rightarrow> u256 list \<Rightarrow> u256 list result" where
  "load_block_prices priority_fee block_provider block_number limit tx_prices =
     bind_r (block_provider block_number) (\<lambda>b.
       Ok (tx_prices @ take (max 1 limit) (sort (block_prices priority_fee b))))"

text \<open>The loop goes down from the given block and stops before block 0.\<close>

fun load_prices ::
  "(transaction \<Rightarrow> u256 \<Rightarrow> u256) \<Rightarrow> (nat \<Rightarrow> block_with_hash result) \<Rightarrow> nat \<Rightarrow> u256 list \<Rightarrow> u256 list result" where
  "load_prices priority_fee block_provider 0 tx_prices = Ok tx_prices"
| "load_prices priority_fee block_provider (Suc n) tx_prices =
     (if length tx_prices < kMaxSamples
      then bind_r (load_block_prices priority_fee block_provider (Suc n) kSamples tx_prices)
             (load_prices priority_fee block_provider n)
      else Ok tx_prices)"

definition suggested_price :: "(transaction \<Rightarrow> u256 \<Rightarrow> u256) \<Rightarrow> (nat \<Rightarrow> block_with_hash result) \<Rightarrow> nat \<Rightarrow> u256 result" where
  "suggested_price priority_fee block_provider block_number =
     bind_r (load_prices priority_fee block_provider block_number []) (\<lambda>ps.
       let tx_prices = sort ps;
           position = (length tx_prices - 1) * kPercentile div 100;
           price = (if length tx_prices > 0 \<and> length tx_prices > position then tx_prices ! position else kDefaultPrice)
       in Ok (if price > kDefaultMaxPrice then kDefaultMaxPrice else price))"

text \<open>Every sample is at least the minimum price, and there are never more than 62 of them.\<close>

lemma load_block_prices_ok:
  assumes "load_block_prices pf bp n kSamples ps = Ok ps'" "\<forall>p \<in> set ps. kDefaultMinPrice \<le> p"
  shows "(\<forall>p \<in> set ps'. kDefaultMinPrice \<le> p) \<and> length ps' \<le> length ps + kSamples"
proof -
  from assms(1) obtain b where ps': "ps' = ps @ take (max 1 kSamples) (sort (block_prices pf b))"
    by (auto simp: load_block_prices_def)
  have "\<forall>p \<in> set (block_prices pf b). kDefaultMinPrice \<le> p"
    by (auto simp: block_prices_def Let_def)
  with assms(2) show ?thesis
    by (auto simp: ps' kSamples_def dest: in_set_takeD)
qed

lemma load_prices_ok:
  assumes "load_prices pf bp n ps = Ok ps'" "\<forall>p \<in> set ps. kDefaultMinPrice \<le> p" "length ps < kMaxSamples + kSamples"
  shows "(\<forall>p \<in> set ps'. kDefaultMinPrice \<le> p) \<and> length ps' < kMaxSamples + kSamples"
  using assms
proof (induction n arbitrary: ps)
  case (Suc n)
  show ?case
  proof (cases "length ps < kMaxSamples")
    case True
    then obtain ps1 where ps1: "load_block_prices pf bp (Suc n) kSamples ps = Ok ps1" "load_prices pf bp n ps1 = Ok ps'"
      using Suc.prems(1) by auto
    note l = load_block_prices_ok [OF ps1(1) Suc.prems(2)]
    show ?thesis by (rule Suc.IH [OF ps1(2)]) (use l True in auto)
  qed (use Suc.prems in auto)
qed simp

lemma position_in_range: "0 < n \<Longrightarrow> (n - 1) * kPercentile div 100 < n"
  by (simp add: kPercentile_def)

text \<open>
  C38: The suggested gas price is taken from at most 62 samples, each at least two wei: zero when there is
  none, and otherwise the sample at the sixtieth percentile, capped at 500 GWei; so it is never above the
  cap, and below two wei only when it is zero.
\<close>
theorem suggested_price_bounds:
  assumes "suggested_price pf bp n = Ok price"
  shows "\<exists>ps. load_prices pf bp n [] = Ok ps \<and> length ps \<le> 62 \<and> (\<forall>p \<in> set ps. kDefaultMinPrice \<le> p) \<and>
    price = (if ps = [] then 0 else min kDefaultMaxPrice (sort ps ! ((length ps - 1) * 60 div 100))) \<and>
    price \<le> kDefaultMaxPrice \<and> (ps = [] \<or> kDefaultMinPrice \<le> price)"
proof -
  from assms obtain ps where ps: "load_prices pf bp n [] = Ok ps"
    by (auto simp: suggested_price_def)
  from load_prices_ok [OF ps] have samples: "\<forall>p \<in> set ps. kDefaultMinPrice \<le> p" "length ps \<le> 62"
    by (simp_all add: kMaxSamples_def kSamples_def kCheckBlocks_def)
  define pos where "pos = (length ps - 1) * kPercentile div 100"
  have pos: "pos < length ps" if "ps \<noteq> []"
    using position_in_range [of "length ps"] that by (simp add: pos_def)
  have "sort ps \<noteq> []" if "ps \<noteq> []" using that by (metis length_sort length_0_conv)
  then have price: "price = (if ps = [] then 0 else min kDefaultMaxPrice (sort ps ! pos))"
    using assms ps pos by (auto simp: suggested_price_def Let_def pos_def min_def not_less kDefaultPrice_def split: if_splits)
  moreover have "kDefaultMinPrice \<le> sort ps ! pos" if "ps \<noteq> []"
    using samples(1) pos [OF that] by (metis length_sort nth_mem set_sort)
  moreover have "kDefaultMinPrice \<le> kDefaultMaxPrice" "0 \<le> kDefaultMaxPrice" by (simp_all add: price_constants)
  ultimately show ?thesis
    using ps samples by (intro exI [of _ ps]) (auto simp: pos_def kPercentile_def)
qed

section \<open>Calls\<close>

record call =
  cl_from :: "bytes option"
  cl_to :: "bytes option"
  cl_gas :: "u64 option"
  cl_gas_price :: "u256 option"
  cl_max_priority_fee_per_gas :: "u256 option"
  cl_max_fee_per_gas :: "u256 option"
  cl_value :: "u256 option"
  cl_data :: "bytes option"
  cl_nonce :: "u64 option"
  cl_access_list :: "(bytes \<times> bytes list) list"

definition value_or :: "'a option \<Rightarrow> 'a \<Rightarrow> 'a" where
  "value_or v d = (case v of None \<Rightarrow> d | Some x \<Rightarrow> x)"

definition kDefaultGasLimit :: u64 where
  "kDefaultGasLimit = 50000000"

text \<open>\<^verbatim>\<open>gas > kDefaultGasLimit\<close> compares an optional with a value: an empty optional is smaller.\<close>

definition to_transaction :: "call \<Rightarrow> transaction" where
  "to_transaction c =
     \<lparr>tx_type = 0, tx_nonce = value_or (cl_nonce c) 0,
      tx_max_priority_fee_per_gas = (case cl_gas_price c of Some p \<Rightarrow> p | None \<Rightarrow> value_or (cl_max_priority_fee_per_gas c) 0),
      tx_max_fee_per_gas = (case cl_gas_price c of Some p \<Rightarrow> p | None \<Rightarrow> value_or (cl_max_fee_per_gas c) 0),
      tx_gas_limit = (case cl_gas c of None \<Rightarrow> kDefaultGasLimit | Some g \<Rightarrow> if g > kDefaultGasLimit then kDefaultGasLimit else g),
      tx_to = cl_to c, tx_value = value_or (cl_value c) 0, tx_data = value_or (cl_data c) [],
      tx_access_list = cl_access_list c, tx_from = cl_from c,
      tx_chain_id = None, tx_odd_y_parity = False, tx_r = 0, tx_s = 0\<rparr>"

section \<open>Gas estimation\<close>

definition kTxGas :: nat where "kTxGas = 21000"
definition kGasCap :: nat where "kGasCap = 25000000"

text \<open>
  Whether an execution failed in a way that more gas may cure. Other errors of the machine leave the
  estimation as an exception; \<open>selector\<close> is that of \<^verbatim>\<open>Error(string)\<close>.
\<close>

definition try_execution :: "bytes \<Rightarrow> (transaction \<Rightarrow> execution_result result) \<Rightarrow> transaction \<Rightarrow> bool result" where
  "try_execution selector executor txn =
     bind_r (executor txn) (\<lambda>result.
       case er_pre_check_error result of
         Some _ \<Rightarrow> Ok True
       | None \<Rightarrow>
           if er_error_code result = EVMC_SUCCESS then Ok False
           else if er_error_code result = EVMC_INSUFFICIENT_BALANCE then Ok True
           else bind_r (get_error_message selector (er_error_code result) (er_data result) True) (\<lambda>message.
             if er_data result = [] then Throw (Estimate_gas_exn (- 32000) message [])
             else Throw (Estimate_gas_exn 3 message (er_data result))))"

text \<open>The bisection; \<open>lo\<close> and \<open>hi\<close> are 64-bit numbers, and their sums wrap around.\<close>

partial_function (option) bisect :: "(nat \<Rightarrow> bool result) \<Rightarrow> nat \<Rightarrow> nat \<Rightarrow> nat result option" where
  "bisect attempt lo hi =
     (if (lo + 1) mod 2 ^ 64 < hi
      then
        let mid = ((hi + lo) mod 2 ^ 64) div 2 in
        case attempt mid of
          Inl e \<Rightarrow> Some (Throw e)
        | Inr failed \<Rightarrow> if failed then bisect attempt mid hi else bisect attempt lo mid
      else Some (Ok hi))"

text \<open>
  The upper end of the search. The sender's account is dereferenced without a check; the number of gas
  units that the balance pays for is converted to a signed 64-bit number and compared as an unsigned one.
\<close>

definition initial_hi ::
  "(u64 \<Rightarrow> block_header result) \<Rightarrow> (bytes \<Rightarrow> u64 \<Rightarrow> u256 option result) \<Rightarrow> call \<Rightarrow> u64 \<Rightarrow> nat result" where
  "initial_hi block_header_provider account_balance c block_number =
     bind_r
       (if unat (value_or (cl_gas c) 0) \<ge> kTxGas then Ok (unat (value_or (cl_gas c) 0))
        else bind_r (block_header_provider block_number) (\<lambda>header. Ok (unat (hdr_gas_limit header))))
       (\<lambda>hi.
          let gas_price = value_or (cl_gas_price c) 0 in
          bind_r
            (if gas_price \<noteq> 0
             then bind_r (account_balance (value_or (cl_from c) (zeros 20)) (block_number + 1)) (\<lambda>account.
               case account of
                 None \<Rightarrow> Throw Bad_optional_access
               | Some balance \<Rightarrow>
                   if value_or (cl_value c) 0 > balance then Throw (Estimate_gas_exn (- 1) ''insufficient funds for transfer'' [])
                   else
                     let allowance = unat (ucast ((balance - value_or (cl_value c) 0) div gas_price) :: u64) in
                     Ok (if hi > allowance then allowance else hi))
             else Ok hi)
            (\<lambda>hi. Ok (if hi > kGasCap then kGasCap else hi)))"

definition estimate_gas ::
  "bytes \<Rightarrow> (transaction \<Rightarrow> execution_result result) \<Rightarrow> (u64 \<Rightarrow> block_header result) \<Rightarrow> (bytes \<Rightarrow> u64 \<Rightarrow> u256 option result) \<Rightarrow>
     call \<Rightarrow> u64 \<Rightarrow> nat result option" where
  "estimate_gas selector executor block_header_provider account_balance c block_number =
     (case initial_hi block_header_provider account_balance c block_number of
        Inl e \<Rightarrow> Some (Throw e)
      | Inr cap \<Rightarrow>
          let attempt = (\<lambda>gas. try_execution selector executor ((to_transaction c)\<lparr>tx_gas_limit := of_nat gas\<rparr>)) in
          case bisect attempt (kTxGas - 1) cap of
            None \<Rightarrow> None
          | Some (Inl e) \<Rightarrow> Some (Throw e)
          | Some (Inr hi) \<Rightarrow>
              if hi = cap
              then Some (bind_r (attempt hi) (\<lambda>failed.
                if failed then Throw (Estimate_gas_exn (- 1) (''gas required exceeds allowance ('' @ to_string cap @ '')'') []) else Ok hi))
              else Some (Ok hi))"

text \<open>For numbers below the cap nothing wraps, and the interval shrinks.\<close>

lemma bisect_step:
  assumes "hi \<le> kGasCap" "lo < kGasCap"
  shows "bisect attempt lo hi =
    (if lo + 1 < hi
     then case attempt ((hi + lo) div 2) of
        Inl e \<Rightarrow> Some (Throw e)
      | Inr failed \<Rightarrow> if failed then bisect attempt ((hi + lo) div 2) hi else bisect attempt lo ((hi + lo) div 2)
     else Some (Ok hi))"
proof -
  have "(lo + 1) mod 2 ^ 64 = lo + 1" "(hi + lo) mod 2 ^ 64 = hi + lo"
    using assms by (simp_all add: kGasCap_def)
  then show ?thesis by (subst bisect.simps) (simp add: Let_def)
qed

text \<open>
  What the bisection returns when nothing throws: a number above which it has seen success and below
  which it has seen failure.
\<close>

lemma bisect_threshold:
  assumes "lo < hi" "hi \<le> kGasCap" "\<And>g. lo < g \<Longrightarrow> g < hi \<Longrightarrow> attempt g = Ok (g < need)"
  shows "bisect attempt lo hi = Some (Ok (if need \<le> lo + 1 then lo + 1 else if need \<le> hi then need else hi))"
  using assms
proof (induction "hi - lo" arbitrary: lo hi rule: less_induct)
  case less
  let ?mid = "(hi + lo) div 2"
  have cap: "lo < kGasCap" using less.prems by linarith
  show ?case
  proof (cases "lo + 1 < hi")
    case False
    then show ?thesis using bisect_step [OF less.prems(2) cap] less.prems(1) by auto
  next
    case True
    then have m: "lo < ?mid" "?mid < hi" by auto
    have a: "attempt ?mid = Ok (?mid < need)" using less.prems(3) [OF m] .
    show ?thesis
    proof (cases "?mid < need")
      case True
      have "bisect attempt ?mid hi = Some (Ok (if need \<le> ?mid + 1 then ?mid + 1 else if need \<le> hi then need else hi))"
        using m less.prems by (intro less.hyps) auto
      then show ?thesis
        using bisect_step [OF less.prems(2) cap, of attempt] \<open>lo + 1 < hi\<close> a True m by auto
    next
      case False
      have "bisect attempt lo ?mid = Some (Ok (if need \<le> lo + 1 then lo + 1 else if need \<le> ?mid then need else ?mid))"
        using m less.prems by (intro less.hyps) auto
      then show ?thesis
        using bisect_step [OF less.prems(2) cap, of attempt] \<open>lo + 1 < hi\<close> a False m by auto
    qed
  qed
qed

text \<open>When an attempt below a threshold throws, and the threshold is above the lower end, the bisection throws.\<close>

lemma bisect_throws:
  assumes "lo + 1 < need" "lo + 1 < hi" "hi \<le> kGasCap"
    and "\<And>g. lo < g \<Longrightarrow> g < hi \<Longrightarrow> attempt g = (if g < need then Throw e else Ok False)"
  shows "bisect attempt lo hi = Some (Throw e)"
  using assms
proof (induction "hi - lo" arbitrary: hi rule: less_induct)
  case less
  let ?mid = "(hi + lo) div 2"
  have cap: "lo < kGasCap" using less.prems by linarith
  have m: "lo < ?mid" "?mid < hi" using less.prems(2) by auto
  have a: "attempt ?mid = (if ?mid < need then Throw e else Ok False)" using less.prems(4) [OF m] .
  show ?case
  proof (cases "?mid < need")
    case True
    then show ?thesis using bisect_step [OF less.prems(3) cap, of attempt] less.prems(2) a by simp
  next
    case False
    then have "lo + 1 < ?mid" using less.prems(1) by linarith
    then have "bisect attempt lo ?mid = Some (Throw e)"
      using m less.prems by (intro less.hyps) auto
    then show ?thesis using bisect_step [OF less.prems(3) cap, of attempt] less.prems(2) a False by simp
  qed
qed

text \<open>An executor whose verdict depends on the gas limit only, from a threshold on.\<close>

definition needs_gas :: "execution_result \<Rightarrow> nat \<Rightarrow> transaction \<Rightarrow> execution_result result" where
  "needs_gas failure need txn =
     Ok (if unat (tx_gas_limit txn) < need then failure
         else \<lparr>er_error_code = EVMC_SUCCESS, er_gas_left = 0, er_data = [], er_pre_check_error = None\<rparr>)"

lemma initial_hi_le: "initial_hi hp ab c n = Ok cap \<Longrightarrow> cap \<le> kGasCap"
  by (auto simp: initial_hi_def Let_def split: if_splits)

lemma unat_of_nat_gas: "g \<le> kGasCap \<Longrightarrow> unat (of_nat g :: u64) = g"
  by (simp add: kGasCap_def unsigned_of_nat take_bit_nat_eq_self)

lemma attempt_needs_gas:
  assumes "g \<le> kGasCap" "er_pre_check_error failure \<noteq> None \<or> er_error_code failure = EVMC_INSUFFICIENT_BALANCE"
  shows "try_execution sel (needs_gas failure need) (t\<lparr>tx_gas_limit := of_nat g\<rparr>) = Ok (g < need)"
  using assms by (auto simp: try_execution_def needs_gas_def unat_of_nat_gas split: option.splits)


text \<open>
  When executions below some amount of gas run out of gas, that error is not retried but leaves the
  estimation: for every amount above the 21000 of a plain transaction the estimation throws the error
  with code -32000 instead of returning the amount.
\<close>
lemma estimate_gas_out_of_gas:
  assumes "initial_hi hp ab c n = Ok cap" "kTxGas < need" "need \<le> cap"
  shows "estimate_gas sel (needs_gas \<lparr>er_error_code = EVMC_OUT_OF_GAS, er_gas_left = 0, er_data = [], er_pre_check_error = None\<rparr> need) hp ab c n =
    Some (bind_r (get_error_message sel EVMC_OUT_OF_GAS [] True) (\<lambda>message. Throw (Estimate_gas_exn (- 32000) message [])))"
proof -
  let ?f = "\<lparr>er_error_code = EVMC_OUT_OF_GAS, er_gas_left = 0, er_data = [], er_pre_check_error = None\<rparr> :: execution_result"
  let ?attempt = "\<lambda>gas. try_execution sel (needs_gas ?f need) ((to_transaction c)\<lparr>tx_gas_limit := of_nat gas\<rparr>)"
  note cap = initial_hi_le [OF assms(1)]
  obtain e where e: "bind_r (get_error_message sel EVMC_OUT_OF_GAS [] True)
      (\<lambda>message. Throw (Estimate_gas_exn (- 32000) message []) :: bool result) = Throw e"
    "bind_r (get_error_message sel EVMC_OUT_OF_GAS [] True)
      (\<lambda>message. Throw (Estimate_gas_exn (- 32000) message []) :: nat result) = Throw e"
    by (cases "get_error_message sel EVMC_OUT_OF_GAS [] True") auto
  have "?attempt g = (if g < need then Throw e else Ok False)" if "g < cap" for g
    using that cap e(1) by (auto simp: try_execution_def needs_gas_def unat_of_nat_gas)
  then have "bisect ?attempt (kTxGas - 1) cap = Some (Throw e)"
    using assms cap by (intro bisect_throws [where need = need]) (auto simp: kTxGas_def)
  then show ?thesis
    using assms(1) e(2) unfolding estimate_gas_def by (simp add: Let_def)
qed

section \<open>Instances\<close>

definition demo_header :: block_header where
  "demo_header = empty_header\<lparr>hdr_number := 7, hdr_beneficiary := [1], hdr_gas_limit := 60000\<rparr>"

definition demo_call :: call where
  "demo_call = \<lparr>cl_from = None, cl_to = Some [3], cl_gas = Some 50000, cl_gas_price = Some 10, cl_max_priority_fee_per_gas = None,
     cl_max_fee_per_gas = None, cl_value = Some 1, cl_data = None, cl_nonce = None, cl_access_list = []\<rparr>"

definition demo_payment :: "u256 \<Rightarrow> transaction" where
  "demo_payment fee = (to_transaction demo_call)\<lparr>tx_max_priority_fee_per_gas := fee, tx_from := Some [9]\<rparr>"

definition demo_block :: block_with_hash where
  "demo_block = \<lparr>bw_transactions = [demo_payment 30, demo_payment 1, demo_payment 20], bw_ommers = [], bw_header = demo_header, bw_hash = []\<rparr>"

lemma demo_initial_hi: "initial_hi (\<lambda>_. Ok demo_header) (\<lambda>_ _. Ok (Some 400001)) demo_call 7 = Ok 40000"
  by (simp add: initial_hi_def demo_call_def value_or_def kTxGas_def kGasCap_def)

theorem suggested_price_bounds_witness:
  "suggested_price (\<lambda>t _. tx_max_priority_fee_per_gas t) (\<lambda>_. Ok demo_block) 1 = Ok 20 \<and>
    20 \<le> kDefaultMaxPrice \<and> (\<exists>ps. load_prices (\<lambda>t _. tx_max_priority_fee_per_gas t) (\<lambda>_. Ok demo_block) 1 [] = Ok ps \<and>
      (ps = [] \<or> kDefaultMinPrice \<le> 20))"
proof -
  have "block_prices (\<lambda>t _. tx_max_priority_fee_per_gas t) demo_block = [30, 20]"
    by (simp add: block_prices_def demo_block_def demo_header_def demo_payment_def kDefaultMinPrice_def)
  then have "load_prices (\<lambda>t _. tx_max_priority_fee_per_gas t) (\<lambda>_. Ok demo_block) (Suc 0) [] = Ok [20, 30]"
    by (simp add: load_block_prices_def kMaxSamples_def kSamples_def kCheckBlocks_def)
  then have "suggested_price (\<lambda>t _. tx_max_priority_fee_per_gas t) (\<lambda>_. Ok demo_block) 1 = Ok 20"
    by (simp add: suggested_price_def kPercentile_def kDefaultMaxPrice_def)
  then show ?thesis using suggested_price_bounds by blast
qed


lemma estimate_gas_out_of_gas_witness:
  "estimate_gas [8, 195, 121, 160]
      (needs_gas \<lparr>er_error_code = EVMC_OUT_OF_GAS, er_gas_left = 0, er_data = [], er_pre_check_error = None\<rparr> 30000)
      (\<lambda>_. Ok demo_header) (\<lambda>_ _. Ok (Some 400001)) demo_call 7 = Some (Throw (Estimate_gas_exn (- 32000) ''out of gas'' []))"
  using estimate_gas_out_of_gas [OF demo_initial_hi, of 30000 "[8, 195, 121, 160]"]
  by (simp add: kTxGas_def get_error_message_def decode_error_reason_def)

end
