(* ===== verification/Ethash.thy ===== *)
theory Ethash
  imports Chain_Types
begin

text \<open>
  The block rewards of \<^verbatim>\<open>consensus/ethash.cpp\<close>. The chain configuration, its revisions and the three
  reward constants belong to another repository and are parameters. Numbers of blocks are 64-bit, rewards
  256-bit, with wrap-around.
\<close>

section \<open>Rewards\<close>

record block_reward =
  miner_reward :: u256
  ommer_rewards :: "u256 list"

text \<open>The revisions that the code names, by their places in the enumeration of revisions.\<close>

definition EVMC_BYZANTIUM :: nat where "EVMC_BYZANTIUM = 4"
definition EVMC_CONSTANTINOPLE :: nat where "EVMC_CONSTANTINOPLE = 5"

record 'c chain_rules =
  cr_from_json :: "json \<Rightarrow> 'c option"
  cr_revision :: "'c \<Rightarrow> u64 \<Rightarrow> u64 \<Rightarrow> nat"
  kBlockRewardFrontier :: u256
  kBlockRewardByzantium :: u256
  kBlockRewardConstantinople :: u256

definition base_reward :: "'c chain_rules \<Rightarrow> nat \<Rightarrow> u256" where
  "base_reward rules revision =
     (let r = kBlockRewardFrontier rules;
          r = (if revision > EVMC_BYZANTIUM then kBlockRewardByzantium rules else r);
          r = (if revision > EVMC_CONSTANTINOPLE then kBlockRewardConstantinople rules else r)
      in r)"

text \<open>One pass of the loop over the ommers; the miner's reward that it raises is the one it computes with.\<close>

definition add_ommer :: "u64 \<Rightarrow> block_header \<Rightarrow> block_reward \<Rightarrow> block_reward" where
  "add_ommer header_number uncle reward =
     (let ommer_reward = (ucast (hdr_number uncle + 8) :: u256);
          ommer_reward = ommer_reward - ucast header_number;
          ommer_reward = ommer_reward * miner_reward reward;
          ommer_reward = ommer_reward div 8;
          reward = reward\<lparr>ommer_rewards := ommer_rewards reward @ [ommer_reward]\<rparr>;
          ommer_reward = miner_reward reward div 32
      in reward\<lparr>miner_reward := miner_reward reward + ommer_reward\<rparr>)"

definition compute_reward :: "'c chain_rules \<Rightarrow> json \<Rightarrow> block_header \<Rightarrow> block_header list \<Rightarrow> block_reward result" where
  "compute_reward rules config header ommers =
     (case cr_from_json rules config of
        None \<Rightarrow> Throw (Runtime_error ''Invalid chain config'')
      | Some chain_config \<Rightarrow>
          let revision = cr_revision rules chain_config (hdr_number header) 0 in
          Ok (fold (add_ommer (hdr_number header)) ommers
            \<lparr>miner_reward = base_reward rules revision, ommer_rewards = []\<rparr>))"

section \<open>The rules of the chain\<close>

text \<open>
  The rewards as the protocol defines them, on natural numbers: every ommer's share is a fraction of the
  same base reward, and the miner receives one thirty-second of it for each ommer.
\<close>

definition protocol_miner_reward :: "nat \<Rightarrow> nat \<Rightarrow> nat" where
  "protocol_miner_reward base ommers = base + ommers * (base div 32)"

definition protocol_ommer_reward :: "nat \<Rightarrow> nat \<Rightarrow> nat \<Rightarrow> nat" where
  "protocol_ommer_reward base number ommer_number = (ommer_number + 8 - number) * base div 8"

lemma unat_div32: "unat (r div 32 :: u256) = unat r div 32"
  by (simp add: unat_div)

lemma unat_raise:
  fixes r :: u256
  assumes "unat r < 2 ^ 128"
  shows "unat (r + r div 32) = unat r + unat r div 32"
  using assms by (simp add: unat_word_ariths unat_div32 mod_less)

lemma ommer_distance:
  fixes n u :: u64
  assumes "unat u < unat n" "unat n < unat u + 8" "unat n < 2 ^ 63"
  shows "unat (ucast (u + 8) - ucast n :: u256) = unat u + 8 - unat n"
proof -
  have u8: "unat (u + 8) = unat u + 8" using assms by (simp add: unat_word_ariths mod_less)
  have c: "unat (ucast (u + 8) :: u256) = unat u + 8" "unat (ucast n :: u256) = unat n"
    using assms u8 by (simp_all add: unsigned_ucast_eq take_bit_nat_eq_self)
  show ?thesis using c assms by (simp add: unat_sub word_le_nat_alt)
qed

lemma ommer_share:
  fixes n u :: u64 and r :: u256
  assumes "unat u < unat n" "unat n < unat u + 8" "unat n < 2 ^ 63" "unat r < 2 ^ 128"
  shows "unat ((ucast (u + 8) - ucast n) * r div 8) = protocol_ommer_reward (unat r) (unat n) (unat u)"
proof -
  have "(unat u + 8 - unat n) * unat r \<le> 8 * unat r" using assms by (intro mult_le_mono) auto
  then have "(unat u + 8 - unat n) * unat r < 2 ^ 256"
    using assms(4) by (elim order_le_less_trans) simp
  then have "unat ((ucast (u + 8) - ucast n) * r) = (unat u + 8 - unat n) * unat r"
    by (simp add: unat_word_ariths(2) ommer_distance [OF assms(1-3)] mod_less)
  then show ?thesis by (simp add: unat_div protocol_ommer_reward_def)
qed

text \<open>An ommer that a block may include: older than the block, by less than eight.\<close>

definition includable :: "block_header \<Rightarrow> block_header \<Rightarrow> bool" where
  "includable header uncle \<longleftrightarrow>
     unat (hdr_number uncle) < unat (hdr_number header) \<and> unat (hdr_number header) < unat (hdr_number uncle) + 8 \<and>
     unat (hdr_number header) < 2 ^ 63"

lemma add_ommer_share:
  assumes "includable header uncle" "unat (miner_reward rw) < 2 ^ 128"
  shows "unat (miner_reward (add_ommer (hdr_number header) uncle rw)) = unat (miner_reward rw) + unat (miner_reward rw) div 32"
    and "map unat (ommer_rewards (add_ommer (hdr_number header) uncle rw)) =
      map unat (ommer_rewards rw) @
        [protocol_ommer_reward (unat (miner_reward rw)) (unat (hdr_number header)) (unat (hdr_number uncle))]"
  using assms by (simp_all add: includable_def add_ommer_def Let_def unat_raise ommer_share)

text \<open>
  For a block with at most one ommer the rewards are those of the protocol, for the base reward that
  the revision selects: the first constant up to and including Byzantium, the second in Constantinople
  only, the third after it.
\<close>
lemma reward_follows_protocol:
  assumes "cr_from_json rules config = Some chain_config" "length ommers \<le> 1" "\<forall>u \<in> set ommers. includable header u"
    and "base = unat (let rev = cr_revision rules chain_config (hdr_number header) 0 in
           if rev \<le> EVMC_BYZANTIUM then kBlockRewardFrontier rules
           else if rev = EVMC_CONSTANTINOPLE then kBlockRewardByzantium rules else kBlockRewardConstantinople rules)"
    and "base < 2 ^ 128"
  shows "\<exists>rw. compute_reward rules config header ommers = Ok rw \<and>
    unat (miner_reward rw) = protocol_miner_reward base (length ommers) \<and>
    map unat (ommer_rewards rw) = map (\<lambda>u. protocol_ommer_reward base (unat (hdr_number header)) (unat (hdr_number u))) ommers"
proof -
  let ?rw = "\<lparr>miner_reward = base_reward rules (cr_revision rules chain_config (hdr_number header) 0), ommer_rewards = []\<rparr>"
  have b: "unat (miner_reward ?rw) = base"
    using assms(4) by (auto simp: base_reward_def Let_def EVMC_BYZANTIUM_def EVMC_CONSTANTINOPLE_def)
  from assms(2) consider "ommers = []" | u where "ommers = [u]"
    by (cases ommers) (auto simp: le_Suc_eq)
  then show ?thesis
  proof cases
    case 1
    then show ?thesis using assms(1) b by (simp add: compute_reward_def protocol_miner_reward_def)
  next
    case 2
    then show ?thesis
      using assms(1,3,5) b add_ommer_share [of header u ?rw] by (simp add: compute_reward_def protocol_miner_reward_def)
  qed
qed

text \<open>
  For a block with two ommers the rewards compound: the second ommer's share and the miner's second
  bonus are fractions of the reward that the first ommer has already raised, so that the miner receives
  more than the protocol grants.
\<close>
lemma reward_compounds:
  assumes "cr_from_json rules config = Some chain_config" "includable header u1" "includable header u2"
    and "base = unat (base_reward rules (cr_revision rules chain_config (hdr_number header) 0))"
    and "1024 \<le> base" "base < 2 ^ 127"
  shows "\<exists>rw. compute_reward rules config header [u1, u2] = Ok rw \<and>
    map unat (ommer_rewards rw) =
      [protocol_ommer_reward base (unat (hdr_number header)) (unat (hdr_number u1)),
       protocol_ommer_reward (base + base div 32) (unat (hdr_number header)) (unat (hdr_number u2))] \<and>
    protocol_miner_reward base 2 < unat (miner_reward rw)"
proof -
  let ?rw = "\<lparr>miner_reward = base_reward rules (cr_revision rules chain_config (hdr_number header) 0), ommer_rewards = []\<rparr>"
  let ?rw1 = "add_ommer (hdr_number header) u1 ?rw"
  have small: "unat (miner_reward ?rw) < 2 ^ 128" using assms(4,6) by simp
  note one = add_ommer_share [OF assms(2) small]
  have m1: "unat (miner_reward ?rw1) = base + base div 32" using one(1) assms(4) by simp
  have small1: "unat (miner_reward ?rw1) < 2 ^ 128"
    unfolding m1 using assms(6) by simp
  note two = add_ommer_share [OF assms(3) small1]
  have "base div 32 + base div 32 < base div 32 + (base + base div 32) div 32" using assms(5) by linarith
  then have "protocol_miner_reward base 2 < unat (miner_reward (add_ommer (hdr_number header) u2 ?rw1))"
    unfolding two(1) m1 by (simp add: protocol_miner_reward_def)
  moreover have "map unat (ommer_rewards (add_ommer (hdr_number header) u2 ?rw1)) =
      [protocol_ommer_reward base (unat (hdr_number header)) (unat (hdr_number u1)),
       protocol_ommer_reward (base + base div 32) (unat (hdr_number header)) (unat (hdr_number u2))]"
    unfolding two(2) m1 one(2) using assms(4) by simp
  ultimately show ?thesis using assms(1) by (simp add: compute_reward_def)
qed

section \<open>Instances\<close>

definition ether :: u256 where
  "ether = 10 ^ 18"

text \<open>A chain that is at Petersburg from its first block on, with the rewards of the main net.\<close>

definition petersburg :: "unit chain_rules" where
  "petersburg = \<lparr>cr_from_json = (\<lambda>_. Some ()), cr_revision = (\<lambda>_ _ _. 6), kBlockRewardFrontier = 5 * ether,
     kBlockRewardByzantium = 3 * ether, kBlockRewardConstantinople = 2 * ether\<rparr>"

definition numbered :: "u64 \<Rightarrow> block_header" where
  "numbered n = empty_header\<lparr>hdr_number := n\<rparr>"

lemma numbered_includable: "includable (numbered 1000) (numbered 999)" "includable (numbered 1000) (numbered 998)"
  by (simp_all add: includable_def numbered_def)

lemma reward_follows_protocol_witness:
  "\<exists>rw. compute_reward petersburg Null (numbered 1000) [numbered 999] = Ok rw \<and>
    unat (miner_reward rw) = protocol_miner_reward 2000000000000000000 1 \<and>
    map unat (ommer_rewards rw) = [protocol_ommer_reward 2000000000000000000 1000 999]"
  using reward_follows_protocol [of petersburg Null "()" "[numbered 999]" "numbered 1000" 2000000000000000000] numbered_includable
  by (simp add: petersburg_def ether_def EVMC_BYZANTIUM_def EVMC_CONSTANTINOPLE_def) (simp add: numbered_def)

lemma reward_compounds_witness:
  "\<exists>rw. compute_reward petersburg Null (numbered 1000) [numbered 999, numbered 998] = Ok rw \<and>
    protocol_miner_reward 2000000000000000000 2 < unat (miner_reward rw)"
proof -
  have "unat (base_reward petersburg (cr_revision petersburg () (hdr_number (numbered 1000)) 0)) = 2000000000000000000"
    by (simp add: petersburg_def ether_def base_reward_def EVMC_BYZANTIUM_def EVMC_CONSTANTINOPLE_def)
  moreover have "cr_from_json petersburg Null = Some ()" by (simp add: petersburg_def)
  ultimately show ?thesis
    using reward_compounds [of petersburg Null "()" "numbered 1000" "numbered 999" "numbered 998" 2000000000000000000] numbered_includable
    by auto
qed

end
