(* ===== verification/Utilities.thy ===== *)
theory Utilities
  imports Chain_Types
begin

text \<open>
  The helpers of \<^verbatim>\<open>common/util.cpp\<close>, \<^verbatim>\<open>common/binary_search.cpp\<close> and \<^verbatim>\<open>protocol/version.cpp\<close>: base64 text, the decimal
  text of a 256-bit number by repeated doubling, the search for the first index that satisfies a
  predicate, the checks on transactions and the version handshake with a service.
\<close>

unbundle bit_operations_syntax

section \<open>Base64\<close>

definition base64_letters :: string where
  "base64_letters = ''ABCDEFGHIJKLMNOPQRSTUVWXYZabcdefghijklmnopqrstuvwxyz0123456789''"

definition kBase64Chars :: "bool \<Rightarrow> string" where
  "kBase64Chars url = base64_letters @ (if url then ''-_'' else ''+/'')"

definition trailing_char :: "bool \<Rightarrow> char" where
  "trailing_char url = (if url then CHR ''.'' else CHR ''='')"

text \<open>
  The loop takes three bytes at a time; the last group may have one or two. (The position is a 32-bit
  number in the code: texts are shorter than that.)
\<close>

fun base64_loop :: "string \<Rightarrow> char \<Rightarrow> bytes \<Rightarrow> string" where
  "base64_loop cs pad [] = []"
| "base64_loop cs pad [a] =
     [cs ! unat (drop_bit 2 (a AND 0xfc)), cs ! unat (push_bit 4 (a AND 0x03)), pad, pad]"
| "base64_loop cs pad [a, b] =
     [cs ! unat (drop_bit 2 (a AND 0xfc)), cs ! unat (push_bit 4 (a AND 0x03) + drop_bit 4 (b AND 0xf0)),
      cs ! unat (push_bit 2 (b AND 0x0f)), pad]"
| "base64_loop cs pad (a # b # c # rest) =
     [cs ! unat (drop_bit 2 (a AND 0xfc)), cs ! unat (push_bit 4 (a AND 0x03) + drop_bit 4 (b AND 0xf0)),
      cs ! unat (push_bit 2 (b AND 0x0f) + drop_bit 6 (c AND 0xc0)), cs ! unat (c AND 0x3f)] @ base64_loop cs pad rest"

definition base64_encode :: "bytes \<Rightarrow> bool \<Rightarrow> string" where
  "base64_encode bs url = base64_loop (kBase64Chars url) (trailing_char url) bs"

section \<open>Decimal text\<close>

definition kMask :: u64 where
  "kMask = 0x8000000000000000"

definition number_words :: "u256 \<Rightarrow> u64 list" where
  "number_words number = map (\<lambda>i. ucast (drop_bit (64 * i) number)) [0, 1, 2, 3]"

text \<open>The number is shifted up by whole words until its highest word is not zero.\<close>

function align_words :: "u64 list \<Rightarrow> nat \<Rightarrow> nat \<Rightarrow> u64 list \<times> nat" where
  "align_words n base count =
     (if n ! 3 = 0 \<and> base < 4
      then align_words ([n ! 0, n ! 0, n ! 1, n ! 2][base := 0]) (base + 1) (count - 64)
      else (n, count))"
  by auto
termination by (relation "measure (\<lambda>(n, base, count). 4 - base)") auto

declare align_words.simps [simp del]

definition top_bit :: "u64 \<Rightarrow> u64" where
  "top_bit w = (if w \<ge> kMask then 1 else 0)"

definition double_words :: "u64 list \<Rightarrow> u64 list" where
  "double_words n =
     [push_bit 1 (n ! 0), push_bit 1 (n ! 1) + top_bit (n ! 0), push_bit 1 (n ! 2) + top_bit (n ! 1),
      push_bit 1 (n ! 3) + top_bit (n ! 2)]"

text \<open>The digits, as character codes, are added to themselves from the last to the first.\<close>

fun double_digits :: "nat \<Rightarrow> nat list \<Rightarrow> nat \<times> nat list" where
  "double_digits carry [] = (carry, [])"
| "double_digits carry (d # ds) =
     (case double_digits carry ds of (c, ds') \<Rightarrow>
        let d1 = d + (d - 48) + c in
        if d1 > 57 then (1, (d1 - 10) # ds') else (0, d1 # ds'))"

fun double_loop :: "nat \<Rightarrow> u64 list \<Rightarrow> nat list \<Rightarrow> nat list" where
  "double_loop 0 n s = s"
| "double_loop (Suc i) n s =
     double_loop i (double_words n) (snd (double_digits (unat (top_bit (n ! 3))) s))"

fun skip_zeros :: "nat list \<Rightarrow> nat list" where
  "skip_zeros (d # e # ds) = (if d = 48 then skip_zeros (e # ds) else d # e # ds)"
| "skip_zeros ds = ds"

definition to_dec :: "u256 \<Rightarrow> string" where
  "to_dec number =
     (case align_words (number_words number) 0 256 of (n, count) \<Rightarrow>
        map char_of (skip_zeros (double_loop count n (replicate (256 div 3 + 1) 48))))"

section \<open>Checks on transactions\<close>

text \<open>
  The fee is compared as a floating point number; the operations on these are a parameter. The product
  of the fee, reduced to 64 bits, and the gas limit wraps around.
\<close>

record 'f floats =
  fl_of_u64 :: "u64 \<Rightarrow> 'f"
  fl_zero :: 'f
  fl_ether :: 'f
  fl_div :: "'f \<Rightarrow> 'f \<Rightarrow> 'f"
  fl_eq :: "'f \<Rightarrow> 'f \<Rightarrow> bool"
  fl_greater :: "'f \<Rightarrow> 'f \<Rightarrow> bool"

definition check_tx_fee_less_cap :: "'f floats \<Rightarrow> 'f \<Rightarrow> u256 \<Rightarrow> u64 \<Rightarrow> bool" where
  "check_tx_fee_less_cap fl cap max_fee_per_gas gas_limit =
     (if fl_eq fl cap (fl_zero fl) then True
      else \<not> fl_greater fl (fl_div fl (fl_of_u64 fl (ucast max_fee_per_gas * gas_limit)) (fl_ether fl)) cap)"

definition is_replay_protected :: "byte \<Rightarrow> u256 \<Rightarrow> bool" where
  "is_replay_protected ty v =
     (if ty \<noteq> 0 then False
      else if v \<noteq> 27 \<and> v \<noteq> 28 \<and> v \<noteq> 0 \<and> v \<noteq> 1 then True
      else False)"

datatype decoding_result =
    kOverflow | kLeadingZero | kInputTooShort | kNonCanonicalSize | kUnexpectedLength | kUnexpectedString | kUnexpectedList
  | kListLengthMismatch | kInvalidVInSignature | kUnsupportedTransactionType | kInvalidFieldset
  | kUnexpectedEip2718Serialization | kInvalidHashesLength | kInvalidMasksSubsets | other_result nat

fun decoding_result_to_string :: "decoding_result \<Rightarrow> string" where
  "decoding_result_to_string kOverflow = ''rlp: uint overflow''"
| "decoding_result_to_string kLeadingZero = ''rlp: leading Zero''"
| "decoding_result_to_string kInputTooShort = ''rlp: value size exceeds available input length''"
| "decoding_result_to_string kNonCanonicalSize = ''rlp: non-canonical size information''"
| "decoding_result_to_string kUnexpectedLength = ''rlp: unexpected Length''"
| "decoding_result_to_string kUnexpectedString = ''rlp: unexpected String''"
| "decoding_result_to_string kUnexpectedList = ''rlp: element is larger than containing list''"
| "decoding_result_to_string kListLengthMismatch = ''rlp: list Length Mismatch''"
| "decoding_result_to_string kInvalidVInSignature = ''rlp: invalid V in signature''"
| "decoding_result_to_string kUnsupportedTransactionType = ''rlp: unknown tx type prefix''"
| "decoding_result_to_string kInvalidFieldset = ''rlp: invalid field set''"
| "decoding_result_to_string kUnexpectedEip2718Serialization = ''rlp: unexpected EIP-2178 serialization''"
| "decoding_result_to_string kInvalidHashesLength = ''rlp: invalid hashes length''"
| "decoding_result_to_string kInvalidMasksSubsets = ''rlp: invalid masks subsets''"
| "decoding_result_to_string (other_result n) = ''rlp: unknown error ['' @ to_string n @ '']''"

definition lookup_chain_config :: "(u64 \<Rightarrow> 'c option) \<Rightarrow> u64 \<Rightarrow> 'c result" where
  "lookup_chain_config lookup_known_chain chain_id =
     (case lookup_known_chain chain_id of
        None \<Rightarrow> Throw (Runtime_error (''unknown chain ID: '' @ to_string (unat chain_id)))
      | Some c \<Rightarrow> Ok c)"

section \<open>Binary search\<close>

text \<open>The predicate may throw. Between the ends nothing wraps around.\<close>

function search_loop :: "(nat \<Rightarrow> bool result) \<Rightarrow> nat \<Rightarrow> nat \<Rightarrow> nat result" where
  "search_loop pred i j =
     (if j > i
      then let m = i + (j - i) div 2 in
           bind_r (pred m) (\<lambda>b. if b then search_loop pred i m else search_loop pred (m + 1) j)
      else Ok i)"
  by auto
termination by (relation "measure (\<lambda>(pred, i, j). j - i)") auto

declare search_loop.simps [simp del]

definition binary_search :: "nat \<Rightarrow> (nat \<Rightarrow> bool result) \<Rightarrow> nat result" where
  "binary_search n pred = search_loop pred 0 n"

section \<open>Protocol versions\<close>

record protocol_version =
  pv_major :: u32
  pv_minor :: u32
  pv_patch :: u32

definition version_text :: "protocol_version \<Rightarrow> string" where
  "version_text v = to_string (unat (pv_major v)) @ ''.'' @ to_string (unat (pv_minor v)) @ ''.'' @ to_string (unat (pv_patch v))"

definition Version :: "u32 \<Rightarrow> u32 \<Rightarrow> u32 \<Rightarrow> protocol_version" where
  "Version a b c = \<lparr>pv_major = a, pv_minor = b, pv_patch = c\<rparr>"

definition KV_SERVICE_API_VERSION :: protocol_version where "KV_SERVICE_API_VERSION = Version 6 0 0"
definition ETHBACKEND_SERVICE_API_VERSION :: protocol_version where "ETHBACKEND_SERVICE_API_VERSION = Version 3 1 0"
definition MINING_SERVICE_API_VERSION :: protocol_version where "MINING_SERVICE_API_VERSION = Version 1 0 0"
definition TXPOOL_SERVICE_API_VERSION :: protocol_version where "TXPOOL_SERVICE_API_VERSION = Version 1 0 0"

text \<open>The answer of the service is an error with its message and details, or its version.\<close>

definition wait_for_protocol_check ::
  "(string \<times> string) + protocol_version \<Rightarrow> protocol_version \<Rightarrow> string \<Rightarrow> bool \<times> string" where
  "wait_for_protocol_check answer version name =
     (case answer of
        Inl (error_message, error_details) \<Rightarrow>
          (False, name @ '' incompatible interface: '' @ error_message @ '' ['' @ error_details @ '']'')
      | Inr server_version \<Rightarrow>
          let vv = ''client='' @ version_text version @ '' server='' @ version_text server_version in
          if pv_major version \<noteq> pv_major server_version then (False, name @ '' incompatible interface: '' @ vv)
          else if pv_minor version \<noteq> pv_minor server_version then (False, name @ '' incompatible interface: '' @ vv)
          else (True, name @ '' compatible interface: '' @ vv))"

definition wait_for_kv_protocol_check :: "(string \<times> string) + protocol_version \<Rightarrow> bool \<times> string" where
  "wait_for_kv_protocol_check answer = wait_for_protocol_check answer KV_SERVICE_API_VERSION ''KV''"

definition wait_for_ethbackend_protocol_check :: "(string \<times> string) + protocol_version \<Rightarrow> bool \<times> string" where
  "wait_for_ethbackend_protocol_check answer = wait_for_protocol_check answer ETHBACKEND_SERVICE_API_VERSION ''ETHBACKEND''"

definition wait_for_mining_protocol_check :: "(string \<times> string) + protocol_version \<Rightarrow> bool \<times> string" where
  "wait_for_mining_protocol_check answer = wait_for_protocol_check answer MINING_SERVICE_API_VERSION ''MINING''"

definition wait_for_txpool_protocol_check :: "(string \<times> string) + protocol_version \<Rightarrow> bool \<times> string" where
  "wait_for_txpool_protocol_check answer = wait_for_protocol_check answer TXPOOL_SERVICE_API_VERSION ''TXPOOL''"

end
