(* ===== verification/Utilities_Props.thy ===== *)
theory Utilities_Props
  imports Utilities
begin

text \<open>
  What the helpers compute: base64 text is decoded back to the bytes, the decimal text of a 256-bit number
  is that of its value, and the search finds the first index that satisfies a monotone predicate.
\<close>

lemma unat_u64: "unat (w :: u64) < 2 ^ 64"
proof -
  have "unat w < 2 ^ LENGTH(64)" by (rule unsigned_less)
  then show ?thesis by simp
qed

section \<open>Base64\<close>

text \<open>Decoding, as a receiver of the text does it.\<close>

definition letter_value :: "string \<Rightarrow> char \<Rightarrow> nat" where
  "letter_value cs c = length (takeWhile (\<lambda>x. x \<noteq> c) cs)"

fun base64_decode :: "string \<Rightarrow> char \<Rightarrow> string \<Rightarrow> bytes" where
  "base64_decode cs pad (w # x # y # z # rest) =
     (let v = letter_value cs in
      if y = pad then [of_nat (v w * 4 + v x div 16)]
      else if z = pad then [of_nat (v w * 4 + v x div 16), of_nat (v x mod 16 * 16 + v y div 4)]
      else [of_nat (v w * 4 + v x div 16), of_nat (v x mod 16 * 16 + v y div 4), of_nat (v y mod 4 * 64 + v z)] @
           base64_decode cs pad rest)"
| "base64_decode cs pad _ = []"

lemma letter_value_nth: "distinct cs \<Longrightarrow> i < length cs \<Longrightarrow> letter_value cs (cs ! i) = i"
proof (induction cs arbitrary: i)
  case (Cons c cs)
  then show ?case by (cases i) (auto simp: letter_value_def)
qed simp

lemma unat_split_byte:
  fixes a :: byte
  shows "unat (drop_bit 2 (a AND 0xfc)) = unat a div 4"
    and "unat (push_bit 4 (a AND 0x03)) = unat a mod 4 * 16"
    and "unat (drop_bit 4 (a AND 0xf0)) = unat a div 16"
    and "unat (push_bit 2 (a AND 0x0f)) = unat a mod 16 * 4"
    and "unat (drop_bit 6 (a AND 0xc0)) = unat a div 64"
    and "unat (a AND 0x3f) = unat a mod 64"
proof -
  have c: "(0xfc :: byte) = push_bit 2 (mask 6)" "(0x03 :: byte) = mask 2" "(0xf0 :: byte) = push_bit 4 (mask 4)"
    "(0x0f :: byte) = mask 4" "(0xc0 :: byte) = push_bit 6 (mask 2)" "(0x3f :: byte) = mask 6"
    by (simp_all add: mask_eq_exp_minus_1 push_bit_eq_mult)
  have low: "unat (a AND mask n) = unat a mod 2 ^ n" for n
    by (simp only: take_bit_eq_mask [symmetric] unsigned_take_bit_eq take_bit_eq_mod [of n "unat a"])
  have high: "unat (drop_bit n (a AND push_bit n (mask (8 - n)))) = unat a div 2 ^ n" if "n \<le> 8" for n
  proof -
    have "drop_bit n (a AND push_bit n (mask (8 - n))) = drop_bit n a"
      by (rule bit_word_eqI) (use that in \<open>auto simp: bit_simps dest: bit_imp_le_length\<close>)
    moreover have "unat (drop_bit n a) = unat a div 2 ^ n"
      using unat_byte [of a] by (simp add: unsigned_drop_bit_eq drop_bit_eq_div [of n "unat a"] take_bit_nat_eq_self)
    ultimately show ?thesis by simp
  qed
  have up: "unat (push_bit k w) = unat w * 2 ^ k" if "unat w * 2 ^ k < 256" for k and w :: byte
    using that by (simp add: unsigned_push_bit_eq push_bit_eq_mult [of k "unat w"] take_bit_nat_eq_self)
  show "unat (drop_bit 2 (a AND 0xfc)) = unat a div 4" using high [of 2] by (simp add: c)
  show "unat (drop_bit 4 (a AND 0xf0)) = unat a div 16" using high [of 4] by (simp add: c)
  show "unat (drop_bit 6 (a AND 0xc0)) = unat a div 64" using high [of 6] by (simp add: c)
  show "unat (push_bit 4 (a AND 0x03)) = unat a mod 4 * 16"
    using up [of "a AND mask 2" 4] low [of 2] mod_less_divisor [of 4 "unat a"] by (simp add: c)
  show "unat (push_bit 2 (a AND 0x0f)) = unat a mod 16 * 4"
    using up [of "a AND mask 4" 2] low [of 4] mod_less_divisor [of 16 "unat a"] by (simp add: c)
  show "unat (a AND 0x3f) = unat a mod 64" using low [of 6] by (simp add: c)
qed

lemma unat_add_small: "unat x + unat y < 256 \<Longrightarrow> unat (x + y :: byte) = unat x + unat y"
  using unat_add_lem [of x y] by simp

lemma unat_join_bytes:
  fixes a b :: byte
  shows "unat (push_bit 4 (a AND 0x03) + drop_bit 4 (b AND 0xf0)) = unat a mod 4 * 16 + unat b div 16"
    and "unat (push_bit 2 (a AND 0x0f) + drop_bit 6 (b AND 0xc0)) = unat a mod 16 * 4 + unat b div 64"
proof -
  have "unat a mod 4 * 16 + unat b div 16 < 256" "unat a mod 16 * 4 + unat b div 64 < 256"
    using unat_byte [of b] by linarith+
  then show "unat (push_bit 4 (a AND 0x03) + drop_bit 4 (b AND 0xf0)) = unat a mod 4 * 16 + unat b div 16"
    "unat (push_bit 2 (a AND 0x0f) + drop_bit 6 (b AND 0xc0)) = unat a mod 16 * 4 + unat b div 64"
    by (simp_all only: unat_add_small unat_split_byte)
qed

lemmas base64_loop_nat = base64_loop.simps [unfolded unat_split_byte unat_join_bytes]

lemma kBase64Chars_distinct: "distinct (kBase64Chars url)" "length (kBase64Chars url) = 64" "trailing_char url \<notin> set (kBase64Chars url)"
  by (cases url; simp add: kBase64Chars_def base64_letters_def trailing_char_def)+

lemma letter_value_base64: "i < 64 \<Longrightarrow> letter_value (kBase64Chars url) (kBase64Chars url ! i) = i"
  by (simp add: letter_value_nth kBase64Chars_distinct)

lemma letter_not_pad: "i < 64 \<Longrightarrow> kBase64Chars url ! i \<noteq> trailing_char url"
  using kBase64Chars_distinct(2,3) [of url] by (metis nth_mem)

text \<open>Six bits at a time, a byte is put together again.\<close>

lemma first_byte: "q < 16 \<Longrightarrow> unat a div 4 * 4 + (unat (a :: byte) mod 4 * 16 + q) div 16 = unat a"
  by simp

lemma second_byte: "r < 4 \<Longrightarrow> (m * 16 + unat (b :: byte) div 16) mod 16 * 16 + (unat b mod 16 * 4 + r) div 4 = unat b"
  using unat_byte [of b] by simp

lemma third_byte: "(k * 4 + unat (c :: byte) div 64) mod 4 * 64 + unat c mod 64 = unat c"
  using unat_byte [of c] by simp

lemma six_bits:
  fixes a b :: byte
  shows "unat a div 4 < 64" "unat a mod 4 * 16 < 64" "unat a mod 4 * 16 + unat b div 16 < 64" "unat a mod 16 * 4 < 64"
    "unat a mod 16 * 4 + unat b div 64 < 64" "unat a mod 64 < 64"
  using unat_byte [of a] unat_byte [of b] by linarith+

lemma base64_decode_loop:
  assumes "\<And>i. i < 64 \<Longrightarrow> letter_value cs (cs ! i) = i" "\<And>i. i < 64 \<Longrightarrow> cs ! i \<noteq> pad"
  shows "base64_decode cs pad (base64_loop cs pad bs) = bs"
  using assms
proof (induction cs pad bs rule: base64_loop.induct)
  case (2 cs pad a)
  then show ?case using first_byte [of 0 a] by (simp add: base64_loop_nat six_bits Let_def del: base64_loop.simps of_nat_add of_nat_mult)
next
  case (3 cs pad a b)
  then show ?case using first_byte [of "unat b div 16" a] second_byte [of 0 "unat a mod 4" b] unat_byte [of b]
    by (simp add: base64_loop_nat six_bits Let_def del: base64_loop.simps of_nat_add of_nat_mult)
next
  case (4 cs pad a b c rest)
  then show ?case
    using first_byte [of "unat b div 16" a] second_byte [of "unat c div 64" "unat a mod 4" b] third_byte [of "unat b mod 16" c]
      unat_byte [of b] unat_byte [of c]
    by (simp add: base64_loop_nat six_bits Let_def del: base64_loop.simps of_nat_add of_nat_mult)
qed simp


section \<open>Decimal text\<close>

text \<open>The value of a list of digit codes, and of a list of words.\<close>

definition digits_value :: "nat list \<Rightarrow> nat" where
  "digits_value ds = foldl (\<lambda>a d. 10 * a + (d - 48)) 0 ds"

definition is_digits :: "nat list \<Rightarrow> bool" where
  "is_digits ds \<longleftrightarrow> (\<forall>d \<in> set ds. 48 \<le> d \<and> d \<le> 57)"

definition words_value :: "u64 list \<Rightarrow> nat" where
  "words_value n = unat (n ! 0) + 2 ^ 64 * unat (n ! 1) + 2 ^ 128 * unat (n ! 2) + 2 ^ 192 * unat (n ! 3)"

lemma foldl_digits: "foldl (\<lambda>a d. 10 * a + (d - 48)) (x :: nat) ds = x * 10 ^ length ds + foldl (\<lambda>a d. 10 * a + (d - 48)) 0 ds"
proof (induction ds arbitrary: x)
  case (Cons d ds)
  let ?f = "\<lambda>a d. 10 * a + (d - 48) :: nat"
  have "foldl ?f x (d # ds) = (10 * x + (d - 48)) * 10 ^ length ds + foldl ?f 0 ds"
    using Cons.IH [of "10 * x + (d - 48)"] by simp
  moreover have "foldl ?f 0 (d # ds) = (d - 48) * 10 ^ length ds + foldl ?f 0 ds"
    using Cons.IH [of "d - 48"] by simp
  ultimately show ?case by (simp add: add_mult_distrib mult.assoc)
qed simp

lemma digits_value_Cons: "digits_value (d # ds) = (d - 48) * 10 ^ length ds + digits_value ds"
  using foldl_digits [of "d - 48" ds] by (simp add: digits_value_def)

lemma digits_value_snoc: "digits_value (ds @ [d]) = 10 * digits_value ds + (d - 48)"
  by (simp add: digits_value_def)

lemma double_digits_value:
  assumes "is_digits ds" "carry \<le> 1"
  shows "case double_digits carry ds of (c, ds') \<Rightarrow>
    c \<le> 1 \<and> is_digits ds' \<and> length ds' = length ds \<and>
    digits_value ds' + c * 10 ^ length ds = 2 * digits_value ds + carry"
  using assms
proof (induction ds)
  case (Cons d ds)
  obtain c ds' where r: "double_digits carry ds = (c, ds')" by (cases "double_digits carry ds")
  have "is_digits ds" using Cons.prems(1) by (simp add: is_digits_def)
  from Cons.IH [OF this Cons.prems(2)] have h: "c \<le> 1" "is_digits ds'" "length ds' = length ds"
    "digits_value ds' + c * 10 ^ length ds = 2 * digits_value ds + carry" unfolding r by simp_all
  have d: "48 \<le> d" "d \<le> 57" using Cons.prems(1) by (simp_all add: is_digits_def)
  define e where "e = d - 48"
  have e: "d = 48 + e" "e \<le> 9" using d by (simp_all add: e_def)
  show ?case
  proof (cases "d + (d - 48) + c > 57")
    case True
    define f where "f = 2 * e + c - 10"
    have f: "2 * e + c = 10 + f" "d + (d - 48) + c - 10 = 48 + f" using True e by (simp_all add: f_def)
    have "digits_value ((48 + f) # ds') + 10 ^ Suc (length ds) = (10 + f) * 10 ^ length ds + digits_value ds'"
      using h(3) by (simp add: digits_value_Cons add_mult_distrib)
    also have "\<dots> = 2 * digits_value (d # ds) + carry"
      unfolding f(1) [symmetric] using h(4) e(1) by (simp add: digits_value_Cons algebra_simps)
    finally have "digits_value ((d + (d - 48) + c - 10) # ds') + 1 * 10 ^ Suc (length ds) = 2 * digits_value (d # ds) + carry"
      unfolding f(2) by simp
    then show ?thesis using True h e r by (simp add: is_digits_def Let_def)
  next
    case False
    then have "digits_value ((d + (d - 48) + c) # ds') = 2 * digits_value (d # ds) + carry"
      using h e by (simp add: digits_value_Cons algebra_simps)
    then show ?thesis using False h e r by (simp add: is_digits_def Let_def)
  qed
qed (simp add: is_digits_def digits_value_def)

lemma double_word:
  fixes w c :: u64
  assumes "unat c \<le> 1"
  shows "unat (push_bit 1 w + c) + 2 ^ 64 * unat (top_bit w) = 2 * unat w + unat c"
proof -
  have lt: "unat w < 2 ^ 64" by (rule unat_u64)
  have "push_bit 1 w + c = of_nat (2 * unat w + unat c)"
    by (simp add: push_bit_eq_mult)
  then have u: "unat (push_bit 1 w + c) = (2 * unat w + unat c) mod 2 ^ 64"
    by (simp only: unsigned_of_nat take_bit_eq_mod len_num1 len_bit0 len_num0) simp
  have m: "w \<ge> kMask \<longleftrightarrow> 2 ^ 63 \<le> unat w" by (simp add: word_le_nat_alt kMask_def)
  show ?thesis
  proof (cases "w \<ge> kMask")
    case True
    then have "(2 * unat w + unat c) mod 2 ^ 64 = 2 * unat w + unat c - 2 ^ 64"
      using m lt assms by (subst le_mod_geq) simp_all
    then show ?thesis using True m u by (simp add: top_bit_def)
  next
    case False
    then show ?thesis using m u assms by (simp add: top_bit_def)
  qed
qed

lemma top_bit_le: "unat (top_bit w) \<le> 1"
  by (simp add: top_bit_def)

lemma double_words_value:
  "words_value (double_words n) + 2 ^ 256 * unat (top_bit (n ! 3)) = 2 * words_value n"
  using double_word [of 0 "n ! 0"] double_word [OF top_bit_le, of "n ! 1" "n ! 0"] double_word [OF top_bit_le, of "n ! 2" "n ! 1"]
    double_word [OF top_bit_le, of "n ! 3" "n ! 2"]
  by (simp add: words_value_def double_words_def)

lemma words_value_less: "words_value n < 2 ^ 256"
  using unat_u64 [of "n ! 0"] unat_u64 [of "n ! 1"] unat_u64 [of "n ! 2"] unat_u64 [of "n ! 3"] by (simp add: words_value_def)

text \<open>Each pass moves the highest bit of the words to the digits.\<close>

lemma double_loop_value:
  assumes "is_digits s" "(digits_value s * B + words_value n) * 2 ^ i < 10 ^ length s * B" "B = 2 ^ 256"
  shows "is_digits (double_loop i n s) \<and> length (double_loop i n s) = length s \<and>
    digits_value (double_loop i n s) = (digits_value s * B + words_value n) * 2 ^ i div B"
  using assms
proof (induction i arbitrary: n s)
  case 0
  then show ?case using words_value_less [of n] by simp
next
  case (Suc i)
  define c where "c = unat (top_bit (n ! 3))"
  obtain k s' where r: "double_digits c s = (k, s')" by (cases "double_digits c s")
  have s': "is_digits s'" "length s' = length s" "digits_value s' + k * 10 ^ length s = 2 * digits_value s + c"
    using double_digits_value [OF Suc.prems(1), of c] top_bit_le [of "n ! 3"] r by (simp_all add: c_def)
  have w: "words_value (double_words n) + B * c = 2 * words_value n"
    using double_words_value [of n] Suc.prems(3) by (simp add: c_def)
  have "(2 * digits_value s + c) * B \<le> (digits_value s * B + words_value n) * 2"
    using w by (simp add: algebra_simps)
  also have "\<dots> \<le> (digits_value s * B + words_value n) * 2 ^ Suc i" by (rule mult_le_mono2) simp
  also note Suc.prems(2)
  finally have "2 * digits_value s + c < 10 ^ length s" by (simp only: mult_less_cancel2)
  then have "k = 0" using s'(3) by (cases k) auto
  then have t: "digits_value s' * B + words_value (double_words n) = (digits_value s * B + words_value n) * 2"
    using s'(3) w by (simp add: algebra_simps)
  then have t': "(digits_value s' * B + words_value (double_words n)) * 2 ^ i = (digits_value s * B + words_value n) * 2 ^ Suc i"
    by (simp only: power_Suc mult.assoc)
  from Suc.IH [OF s'(1) _ Suc.prems(3), of "double_words n"] Suc.prems(2) show ?case
    unfolding t' s'(2) by (simp only: double_loop.simps c_def [symmetric] r snd_conv)
qed

lemma digit_char_of: "48 \<le> d \<Longrightarrow> digit_char (d - 48) = char_of d"
  by (simp add: digit_char_def)

text \<open>Without leading zeros, the digits are the decimal text.\<close>

lemma skip_zeros_snoc:
  "ds \<noteq> [] \<Longrightarrow> skip_zeros (ds @ [d]) = (if \<forall>x \<in> set ds. x = 48 then [d] else skip_zeros ds @ [d])"
proof (induction ds rule: skip_zeros.induct)
  case (1 a b ds)
  then show ?case by auto
qed auto

lemma digits_value_zero: "is_digits ds \<Longrightarrow> digits_value ds = 0 \<longleftrightarrow> (\<forall>x \<in> set ds. x = 48)"
proof (induction ds)
  case Nil
  then show ?case by (simp add: digits_value_def)
next
  case (Cons d ds)
  then show ?case by (auto simp: digits_value_Cons is_digits_def)
qed

lemma skip_zeros_text: "is_digits ds \<Longrightarrow> ds \<noteq> [] \<Longrightarrow> map char_of (skip_zeros ds) = to_string (digits_value ds)"
proof (induction ds rule: rev_induct)
  case (snoc d ds)
  have d: "48 \<le> d" "d \<le> 57" "is_digits ds" using snoc.prems by (auto simp: is_digits_def)
  show ?case
  proof (cases "\<forall>x \<in> set ds. x = 48")
    case True
    then have z: "skip_zeros (ds @ [d]) = [d]" by (cases "ds = []") (simp_all add: skip_zeros_snoc)
    have "digits_value ds = 0" using True d(3) digits_value_zero by blast
    moreover have "d - 48 < 10" using d by linarith
    ultimately show ?thesis using z d by (subst to_string.simps) (simp add: digits_value_snoc digit_char_of)
  next
    case False
    then have ne: "ds \<noteq> []" by auto
    have "digits_value ds \<noteq> 0" using False d(3) digits_value_zero by blast
    then have "10 \<le> digits_value (ds @ [d])" by (simp add: digits_value_snoc)
    moreover obtain e where "d - 48 = e" "e < 10" using d by auto
    then have "digits_value (ds @ [d]) div 10 = digits_value ds" "digits_value (ds @ [d]) mod 10 = d - 48"
      unfolding digits_value_snoc by simp_all
    ultimately have "to_string (digits_value (ds @ [d])) = to_string (digits_value ds) @ [char_of d]"
      using d by (subst to_string.simps) (simp add: digit_char_of)
    then show ?thesis using snoc.IH [OF d(3) ne] False ne by (simp add: skip_zeros_snoc)
  qed
qed simp

text \<open>The number by its words.\<close>

lemma number_word: "unat (ucast (drop_bit k (number :: u256)) :: u64) = unat number div 2 ^ k mod 2 ^ 64"
proof -
  have "unat number < 2 ^ LENGTH(256)" by (rule unsigned_less)
  then have "unat (drop_bit k number) = unat number div 2 ^ k"
    by (simp add: unsigned_drop_bit_eq drop_bit_eq_div [of k "unat number"] take_bit_nat_eq_self)
  then show ?thesis by (simp add: unsigned_ucast_eq take_bit_eq_mod [of _ "unat number div 2 ^ k"])
qed

lemma number_words_length: "length (number_words number) = 4"
  by (simp add: number_words_def)

lemma number_words_value: "words_value (number_words number) = unat number"
proof -
  let ?n = "unat number"
  have "?n < 2 ^ LENGTH(256)" by (rule unsigned_less)
  define b :: nat where "b = 2 ^ 64"
  have b: "b * b = 2 ^ 128" "b * 2 ^ 128 = 2 ^ 192" by (simp_all add: b_def)
  have q: "?n div 2 ^ 128 = ?n div b div b" "?n div 2 ^ 192 = ?n div b div b div b"
    unfolding b(2) [symmetric] b(1) [symmetric] by (simp_all only: div_mult2_eq)
  have "?n div b div b div b < b" using \<open>?n < 2 ^ LENGTH(256)\<close> unfolding q(2) [symmetric] by (simp add: b_def less_mult_imp_div_less)
  then have "?n div b div b div b = ?n div b div b div b mod b" by simp
  moreover have "?n = ?n mod b + b * (?n div b mod b + b * (?n div b div b mod b + b * (?n div b div b div b)))" by simp
  ultimately have "?n = ?n mod b + b * (?n div b mod b) + b * b * (?n div b div b mod b) + b * (b * b) * (?n div b div b div b mod b)"
    by (simp only: distrib_left mult.assoc add.assoc)
  then have "?n = ?n mod 2 ^ 64 + 2 ^ 64 * (?n div 2 ^ 64 mod 2 ^ 64) + 2 ^ 128 * (?n div 2 ^ 128 mod 2 ^ 64) + 2 ^ 192 * (?n div 2 ^ 192 mod 2 ^ 64)"
    unfolding q b by (simp only: b_def [symmetric])
  moreover have "unat (number_words number ! 0) = ?n mod 2 ^ 64" "unat (number_words number ! 1) = ?n div 2 ^ 64 mod 2 ^ 64"
    "unat (number_words number ! 2) = ?n div 2 ^ 128 mod 2 ^ 64" "unat (number_words number ! 3) = ?n div 2 ^ 192 mod 2 ^ 64"
    using number_word [of 0 number] number_word [of 64 number] number_word [of 128 number] number_word [of 192 number]
    by (simp_all add: number_words_def)
  ultimately show ?thesis by (simp only: words_value_def)
qed

lemma align_words_cases:
  "align_words [a, b, c, d] 0 256 =
    (if d \<noteq> 0 then ([a, b, c, d], 256) else if c \<noteq> 0 then ([0, a, b, c], 192) else if b \<noteq> 0 then ([0, 0, a, b], 128)
     else if a \<noteq> 0 then ([0, 0, 0, a], 64) else ([0, 0, 0, 0], 0))"
  by (simp add: align_words.simps)

lemma align_words_value:
  assumes "align_words n 0 256 = (n', count)" "length n = 4"
  shows "\<exists>k \<le> 4. count = 256 - 64 * k \<and> words_value n' = words_value n * 2 ^ (64 * k)"
proof -
  from assms(2) obtain a b c d where n: "n = [a, b, c, d]"
    by (auto simp: length_Suc_conv eval_nat_numeral)
  have v: "words_value [x, y, z, w] = unat x + 2 ^ 64 * unat y + 2 ^ 128 * unat z + 2 ^ 192 * unat w" for x y z w
    by (simp add: words_value_def)
  note r = assms(1) [unfolded n align_words_cases]
  consider "d \<noteq> 0" | "d = 0" "c \<noteq> 0" | "d = 0" "c = 0" "b \<noteq> 0" | "d = 0" "c = 0" "b = 0" "a \<noteq> 0"
    | "d = 0" "c = 0" "b = 0" "a = 0" by auto
  then show ?thesis
  proof cases
    case 1 then show ?thesis using r n by (intro exI [of _ 0]) (simp add: v)
  next
    case 2 then show ?thesis using r n by (intro exI [of _ 1]) (auto simp add: v algebra_simps)
  next
    case 3 then show ?thesis using r n by (intro exI [of _ 2]) (auto simp add: v algebra_simps)
  next
    case 4 then show ?thesis using r n by (intro exI [of _ 3]) (auto simp add: v algebra_simps)
  next
    case 5 then show ?thesis using r n by (intro exI [of _ 4]) (auto simp add: v)
  qed
qed

text \<open>
  C31: The decimal text that repeated doubling produces is the decimal text of the number, for every number
  of 256 bits.
\<close>
theorem to_dec_correct: "to_dec number = to_string (unat number)"
proof -
  obtain n count where r: "align_words (number_words number) 0 256 = (n, count)"
    by (cases "align_words (number_words number) 0 256")
  obtain k where k: "k \<le> 4" "count = 256 - 64 * k" "words_value n = unat number * 2 ^ (64 * k)"
    using align_words_value [OF r number_words_length] unfolding number_words_value by auto
  define s where "s = replicate 86 (48 :: nat)"
  have s: "is_digits s" "digits_value s = 0" "length s = 86"
    using digits_value_zero [of s] by (auto simp: s_def is_digits_def)
  have shift: "words_value n * 2 ^ count = unat number * 2 ^ 256"
    using k by (simp add: mult.assoc power_add [symmetric])
  have "unat number < 2 ^ LENGTH(256)" by (rule unsigned_less)
  then have "unat number < 10 ^ 86" by (rule order_less_trans) simp
  then have less: "(digits_value s * 2 ^ 256 + words_value n) * 2 ^ count < 10 ^ length s * 2 ^ 256"
    unfolding s shift add_0 mult_zero_left by (simp only: mult_less_cancel2) simp
  note loop = double_loop_value [OF s(1) less refl]
  then have "digits_value (double_loop count n s) = unat number"
    by (simp only: s shift add_0 mult_zero_left) simp
  moreover have "double_loop count n s \<noteq> []" using loop s(3) by (metis length_0_conv zero_neq_numeral)
  ultimately show ?thesis
    using skip_zeros_text [of "double_loop count n s"] loop r by (simp add: to_dec_def s_def)
qed

section \<open>Binary search\<close>

lemma search_loop_least:
  assumes "i \<le> j" "\<And>m. i \<le> m \<Longrightarrow> m < j \<Longrightarrow> pred m = Ok (P m)"
    and "\<And>m m'. i \<le> m \<Longrightarrow> m \<le> m' \<Longrightarrow> m' < j \<Longrightarrow> P m \<Longrightarrow> P m'"
  shows "\<exists>r. search_loop pred i j = Ok r \<and> i \<le> r \<and> r \<le> j \<and> (\<forall>m. i \<le> m \<and> m < r \<longrightarrow> \<not> P m) \<and> (\<forall>m. r \<le> m \<and> m < j \<longrightarrow> P m)"
  using assms
proof (induction pred i j rule: search_loop.induct)
  case (1 pred i j)
  show ?case
  proof (cases "i < j")
    case False
    then show ?thesis using 1(3) by (subst search_loop.simps) auto
  next
    case True
    define m where "m = i + (j - i) div 2"
    have m: "i \<le> m" "m < j" using True by (auto simp: m_def)
    have pm: "pred m = Ok (P m)" using 1(4) m by simp
    have step: "search_loop pred i j = (if P m then search_loop pred i m else search_loop pred (m + 1) j)"
      by (subst search_loop.simps) (simp only: Let_def m_def [symmetric] True pm bind_r_simps if_True)
    show ?thesis
    proof (cases "P m")
      case True
      have "\<exists>r. search_loop pred i m = Ok r \<and> i \<le> r \<and> r \<le> m \<and> (\<forall>k. i \<le> k \<and> k < r \<longrightarrow> \<not> P k) \<and> (\<forall>k. r \<le> k \<and> k < m \<longrightarrow> P k)"
        by (rule 1(1) [OF \<open>i < j\<close> m_def True]) (use m 1(4) less_trans in blast, use m 1(4) less_trans in blast, use m 1(5) less_trans in blast)
      moreover have "P k" if "m \<le> k" "k < j" for k using 1(5) [of m k] True m that by simp
      ultimately obtain r where r: "search_loop pred i m = Ok r" "i \<le> r" "r \<le> m" "\<forall>k. i \<le> k \<and> k < r \<longrightarrow> \<not> P k"
        "\<forall>k. r \<le> k \<and> k < j \<longrightarrow> P k" by (meson not_le)
      then show ?thesis using step True m by auto
    next
      case False
      have "\<exists>r. search_loop pred (m + 1) j = Ok r \<and> m + 1 \<le> r \<and> r \<le> j \<and> (\<forall>k. m + 1 \<le> k \<and> k < r \<longrightarrow> \<not> P k) \<and> (\<forall>k. r \<le> k \<and> k < j \<longrightarrow> P k)"
        by (rule 1(2) [OF \<open>i < j\<close> m_def False]) (use m in simp, rule 1(4), use m in simp, assumption, use m 1(5) add_leD1 le_trans in blast)
      moreover have "\<not> P k" if "i \<le> k" "k < m + 1" for k using 1(5) [of k m] False m that by auto
      ultimately obtain r where r: "search_loop pred (m + 1) j = Ok r" "m + 1 \<le> r" "r \<le> j" "\<forall>k. i \<le> k \<and> k < r \<longrightarrow> \<not> P k"
        "\<forall>k. r \<le> k \<and> k < j \<longrightarrow> P k" by (meson not_le)
      then show ?thesis using step False m by auto
    qed
  qed
qed

text \<open>
  When the predicate answers without throwing and holds for every index above one for which it holds,
  the search ends and returns the first index that satisfies it, or the number of indices when none does.
\<close>
lemma binary_search_least:
  assumes "\<And>m. m < n \<Longrightarrow> pred m = Ok (P m)" "\<And>m m'. m \<le> m' \<Longrightarrow> m' < n \<Longrightarrow> P m \<Longrightarrow> P m'"
  shows "\<exists>r \<le> n. binary_search n pred = Ok r \<and> (\<forall>m < r. \<not> P m) \<and> (\<forall>m. r \<le> m \<and> m < n \<longrightarrow> P m)"
  using search_loop_least [of 0 n pred P] assms by (auto simp: binary_search_def)

lemma binary_search_least_witness:
  "\<exists>r \<le> 10. binary_search 10 (\<lambda>m. Ok (7 \<le> m)) = Ok r \<and> (\<forall>m < r. \<not> 7 \<le> m) \<and> (\<forall>m. r \<le> m \<and> m < 10 \<longrightarrow> 7 \<le> m)"
  by (rule binary_search_least) simp_all

end
