(* ===== verification/Dup_Cursor.thy ===== *)
theory Dup_Cursor
  imports Database_Props
begin

text \<open>
  The contract of a cursor on a table with several values for one key, which extends that of a plain
  cursor; reads of the first value at or after a subkey; and the remote transaction as a provider of it.
\<close>

section \<open>The contract\<close>

locale dup_cursor = db_cursor ops tab ahead on inv
  for ops :: "('h, 's) tx_ops" and tab and ahead and on and inv +
  assumes cursor_dup: "inv s \<Longrightarrow> tab s t = Some es \<Longrightarrow>
      \<exists>h s'. op_cursor ops t True s = Ok (h, s') \<and> inv s' \<and> on s' h t \<and> tab s' = tab s"
    and seek_both: "inv s \<Longrightarrow> on s h t \<Longrightarrow> tab s t = Some es \<Longrightarrow>
      \<exists>s'. op_seek_both ops h k v s = Ok (kv_value (first (filter (\<lambda>e. kv_key e = k \<and> v \<le> kv_value e) es)), s') \<and>
        inv s' \<and> on s' h t \<and> tab s' = tab s \<and> ahead s' h = filter (\<lambda>e. kv_key e = k \<and> v \<le> kv_value e) es"
    and nxt_dup: "inv s \<Longrightarrow> on s h t \<Longrightarrow> tab s t = Some es \<Longrightarrow>
      \<exists>s'. op_next_dup ops h s = Ok (first (filter (\<lambda>e. kv_key e = kv_key (first (ahead s h))) (tl (ahead s h))), s') \<and>
        inv s' \<and> on s' h t \<and> tab s' = tab s \<and>
        ahead s' h = filter (\<lambda>e. kv_key e = kv_key (first (ahead s h))) (tl (ahead s h))"
begin

text \<open>The first value of the key at or after the subkey, without the subkey when it starts with it.\<close>

lemma get_both_range_entry:
  assumes "inv s" "tab s t = Some es" "v = kv_value (first (filter (\<lambda>e. kv_key e = k \<and> subkey \<le> kv_value e) es))"
  shows "\<exists>s'. td_get_both_range ops t k subkey s =
      Ok (if take (length subkey) v \<noteq> subkey then None else Some (drop (length subkey) v), s') \<and> inv s' \<and> tab s' = tab s"
proof -
  from cursor_dup [OF assms(1,2)] obtain h s1 where
    s1: "op_cursor ops t True s = Ok (h, s1)" "inv s1" "on s1 h t" "tab s1 = tab s" by blast
  then have "tab s1 t = Some es" using assms(2) by simp
  from seek_both [OF s1(2,3) this, of k subkey] s1 assms(3) show ?thesis by (auto simp: td_get_both_range_def)
qed

end

section \<open>The remote transaction\<close>

lemma serve_on_dup:
  assumes "remote_on tx cid t" "remote_tab tx t = Some es"
  shows "op_seek_both (remote_ops serve) cid k v tx =
      Ok (kv_value (first (filter (\<lambda>e. kv_key e = k \<and> v \<le> kv_value e) es)),
        reposition cid t (filter (\<lambda>e. kv_key e = k \<and> v \<le> kv_value e) es) tx)"
    and "op_next_dup (remote_ops serve) cid tx =
      Ok (first (filter (\<lambda>e. kv_key e = kv_key (first (remote_ahead tx cid))) (tl (remote_ahead tx cid))),
        reposition cid t (filter (\<lambda>e. kv_key e = kv_key (first (remote_ahead tx cid))) (tl (remote_ahead tx cid))) tx)"
  using assms
  by (auto simp: remote_ops_def on_server_def remote_seek_both_def remote_next_dup_def exchange_pair_def
      message_def serve_def remote_on_def remote_tab_def remote_ahead_def reposition_def answer_def KV_def)

lemma serve_cursor_dup:
  assumes "remote_inv tx" "remote_tab tx t = Some es"
  shows "\<exists>cid tx'. op_cursor (remote_ops serve) t True tx = Ok (cid, tx') \<and> remote_inv tx' \<and> remote_on tx' cid t \<and>
    remote_tab tx' = remote_tab tx"
proof (cases "rt_dup_cursors tx t")
  case (Some cid)
  then show ?thesis using assms(1) by (auto simp: remote_ops_def get_cursor_def remote_inv_def)
next
  case None
  define n where "n = cursor_number (sv_tables (rt_server tx)) t True"
  let ?tx = "(reposition n t [] tx)\<lparr>rt_dup_cursors := (rt_dup_cursors tx)(t \<mapsto> n)\<rparr>"
  have r: "remote_inv (reposition n t [] tx)"
    using reposition_inv [OF assms(1)] assms(2) n_def by (simp add: remote_tab_def)
  have "op_cursor (remote_ops serve) t True tx = Ok (n, ?tx)"
    using None assms(2)
    by (simp add: remote_ops_def get_cursor_def open_cursor_def message_def serve_def remote_tab_def n_def answer_def
        reposition_def Let_def)
  moreover have "remote_inv ?tx"
    using r by (auto simp: remote_inv_def remote_on_def reposition_def)
  moreover have "remote_on ?tx n t" "remote_tab ?tx = remote_tab tx"
    by (simp_all add: remote_on_def remote_tab_def reposition_def fun_eq_iff)
  ultimately show ?thesis by blast
qed

interpretation remote_dup: dup_cursor "remote_ops serve" remote_tab remote_ahead remote_on remote_inv
proof
  fix tx t es assume "remote_inv tx" "remote_tab tx t = Some es"
  then show "\<exists>h tx'. op_cursor (remote_ops serve) t True tx = Ok (h, tx') \<and> remote_inv tx' \<and> remote_on tx' h t \<and>
    remote_tab tx' = remote_tab tx" by (rule serve_cursor_dup)
next
  fix tx cid t es k v assume a: "remote_inv tx" "remote_on tx cid t" "remote_tab tx t = Some es"
  note on_reposition_inv [OF a(1,2)] reposition_facts serve_on_dup [OF a(2,3)]
  then show "\<exists>tx'. op_seek_both (remote_ops serve) cid k v tx =
        Ok (kv_value (first (filter (\<lambda>e. kv_key e = k \<and> v \<le> kv_value e) es)), tx') \<and>
      remote_inv tx' \<and> remote_on tx' cid t \<and> remote_tab tx' = remote_tab tx \<and>
      remote_ahead tx' cid = filter (\<lambda>e. kv_key e = k \<and> v \<le> kv_value e) es"
    and "\<exists>tx'. op_next_dup (remote_ops serve) cid tx =
        Ok (first (filter (\<lambda>e. kv_key e = kv_key (first (remote_ahead tx cid))) (tl (remote_ahead tx cid))), tx') \<and>
      remote_inv tx' \<and> remote_on tx' cid t \<and> remote_tab tx' = remote_tab tx \<and>
      remote_ahead tx' cid = filter (\<lambda>e. kv_key e = kv_key (first (remote_ahead tx cid))) (tl (remote_ahead tx cid))"
    by simp_all
qed

end
