(* ===== verification/Local_Database.thy ===== *)
theory Local_Database
  imports Dup_Cursor
begin

text \<open>
  The cursors and transactions on a local database file: \<^verbatim>\<open>ethdb/file/local_cursor.cpp\<close> and
  \<^verbatim>\<open>ethdb/file/local_transaction.cpp\<close>. The storage library is the parameter \<open>mdbx\<close>: its cursors and the operations
  on them. A transaction keeps the cursor objects that it created; a handle is the place of one of them.
  Over a library that stores sorted tables, the local transaction meets the contracts of plain and
  dup-sorted cursors, like the remote one.
\<close>

section \<open>LocalCursor\<close>

record ('m, 'c) mdbx =
  mx_has_map :: "'m \<Rightarrow> string \<Rightarrow> bool"
  mx_open :: "'m \<Rightarrow> string \<Rightarrow> 'c result"
  mx_to_first :: "'m \<Rightarrow> 'c \<Rightarrow> key_value option \<times> 'c"
  mx_lower_bound :: "'m \<Rightarrow> bytes \<Rightarrow> 'c \<Rightarrow> key_value option \<times> 'c"
  mx_seek :: "'m \<Rightarrow> bytes \<Rightarrow> 'c \<Rightarrow> bool \<times> 'c"
  mx_current :: "'m \<Rightarrow> 'c \<Rightarrow> key_value option"
  mx_to_next :: "'m \<Rightarrow> 'c \<Rightarrow> key_value option \<times> 'c"
  mx_to_current_next_multi :: "'m \<Rightarrow> 'c \<Rightarrow> key_value option \<times> 'c"
  mx_lower_bound_multivalue :: "'m \<Rightarrow> bytes \<Rightarrow> bytes \<Rightarrow> 'c \<Rightarrow> key_value option \<times> 'c"
  mx_find_multivalue :: "'m \<Rightarrow> bytes \<Rightarrow> bytes \<Rightarrow> 'c \<Rightarrow> key_value option \<times> 'c"

record 'c local_cursor =
  lc_cursor_id :: u32
  lc_db_cursor :: 'c

text \<open>No result is the empty pair.\<close>

definition pair_or_empty :: "key_value option \<Rightarrow> key_value" where
  "pair_or_empty r = (case r of Some kv \<Rightarrow> kv | None \<Rightarrow> KV [] [])"

definition local_open_cursor :: "('m, 'c) mdbx \<Rightarrow> 'm \<Rightarrow> string \<Rightarrow> 'c local_cursor \<Rightarrow> 'c local_cursor result" where
  "local_open_cursor mx env table_name c =
     (if \<not> mx_has_map mx env table_name then Throw (Runtime_error (''unknown table: '' @ table_name)) else Ok c)"

definition local_seek :: "('m, 'c) mdbx \<Rightarrow> 'm \<Rightarrow> bytes \<Rightarrow> 'c local_cursor \<Rightarrow> key_value \<times> 'c local_cursor" where
  "local_seek mx env k c =
     (case (if length k = 0 then mx_to_first mx env (lc_db_cursor c) else mx_lower_bound mx env k (lc_db_cursor c)) of
        (r, d) \<Rightarrow> (pair_or_empty r, c\<lparr>lc_db_cursor := d\<rparr>))"

definition local_seek_exact :: "('m, 'c) mdbx \<Rightarrow> 'm \<Rightarrow> bytes \<Rightarrow> 'c local_cursor \<Rightarrow> key_value \<times> 'c local_cursor" where
  "local_seek_exact mx env k c =
     (case mx_seek mx env k (lc_db_cursor c) of (found, d) \<Rightarrow>
        (if found then pair_or_empty (mx_current mx env d) else KV [] [], c\<lparr>lc_db_cursor := d\<rparr>))"

definition local_next :: "('m, 'c) mdbx \<Rightarrow> 'm \<Rightarrow> 'c local_cursor \<Rightarrow> key_value \<times> 'c local_cursor" where
  "local_next mx env c = (case mx_to_next mx env (lc_db_cursor c) of (r, d) \<Rightarrow> (pair_or_empty r, c\<lparr>lc_db_cursor := d\<rparr>))"

definition local_next_dup :: "('m, 'c) mdbx \<Rightarrow> 'm \<Rightarrow> 'c local_cursor \<Rightarrow> key_value \<times> 'c local_cursor" where
  "local_next_dup mx env c =
     (case mx_to_current_next_multi mx env (lc_db_cursor c) of (r, d) \<Rightarrow> (pair_or_empty r, c\<lparr>lc_db_cursor := d\<rparr>))"

definition local_seek_both :: "('m, 'c) mdbx \<Rightarrow> 'm \<Rightarrow> bytes \<Rightarrow> bytes \<Rightarrow> 'c local_cursor \<Rightarrow> bytes \<times> 'c local_cursor" where
  "local_seek_both mx env k v c =
     (case mx_lower_bound_multivalue mx env k v (lc_db_cursor c) of (r, d) \<Rightarrow>
        (case r of Some kv \<Rightarrow> kv_value kv | None \<Rightarrow> [], c\<lparr>lc_db_cursor := d\<rparr>))"

definition local_seek_both_exact ::
  "('m, 'c) mdbx \<Rightarrow> 'm \<Rightarrow> bytes \<Rightarrow> bytes \<Rightarrow> 'c local_cursor \<Rightarrow> key_value \<times> 'c local_cursor" where
  "local_seek_both_exact mx env k v c =
     (case mx_find_multivalue mx env k v (lc_db_cursor c) of (r, d) \<Rightarrow> (pair_or_empty r, c\<lparr>lc_db_cursor := d\<rparr>))"

definition local_close_cursor :: "'c local_cursor \<Rightarrow> 'c local_cursor" where
  "local_close_cursor c = c\<lparr>lc_cursor_id := 0\<rparr>"

section \<open>LocalTransaction\<close>

record ('m, 'c) local_tx =
  lt_tx_id :: u64
  lt_cursors :: "string \<Rightarrow> nat option"
  lt_dup_cursors :: "string \<Rightarrow> nat option"
  lt_last_cursor_id :: u32
  lt_read_only_txn :: 'm
  lt_objects :: "'c local_cursor list"

definition local_tx_new :: "'m \<Rightarrow> ('m, 'c) local_tx" where
  "local_tx_new txn = \<lparr>lt_tx_id = 0, lt_cursors = Map.empty, lt_dup_cursors = Map.empty, lt_last_cursor_id = 0,
     lt_read_only_txn = txn, lt_objects = []\<rparr>"

definition local_tx_open :: "'m \<Rightarrow> ('m, 'c) local_tx \<Rightarrow> ('m, 'c) local_tx" where
  "local_tx_open txn tx = tx\<lparr>lt_read_only_txn := txn\<rparr>"

text \<open>\<^verbatim>\<open>close\<close> forgets the plain cursors; the dup-sorted ones are kept.\<close>

definition local_tx_close :: "('m, 'c) local_tx \<Rightarrow> ('m, 'c) local_tx" where
  "local_tx_close tx = tx\<lparr>lt_cursors := Map.empty, lt_tx_id := 0\<rparr>"

definition local_get_cursor ::
  "('m, 'c) mdbx \<Rightarrow> string \<Rightarrow> bool \<Rightarrow> ('m, 'c) local_tx \<Rightarrow> (nat \<times> ('m, 'c) local_tx) result" where
  "local_get_cursor mx table is_cursor_sorted tx =
     (case (if is_cursor_sorted then lt_dup_cursors tx table else lt_cursors tx table) of
        Some h \<Rightarrow> Ok (h, tx)
      | None \<Rightarrow>
          bind_r (mx_open mx (lt_read_only_txn tx) table) (\<lambda>d.
          let cid = lt_last_cursor_id tx + 1; tx = tx\<lparr>lt_last_cursor_id := cid\<rparr> in
          bind_r (local_open_cursor mx (lt_read_only_txn tx) table \<lparr>lc_cursor_id = cid, lc_db_cursor = d\<rparr>) (\<lambda>c.
          let h = length (lt_objects tx); tx = tx\<lparr>lt_objects := lt_objects tx @ [c]\<rparr> in
          Ok (h, if is_cursor_sorted then tx\<lparr>lt_dup_cursors := (lt_dup_cursors tx)(table \<mapsto> h)\<rparr>
                 else tx\<lparr>lt_cursors := (lt_cursors tx)(table \<mapsto> h)\<rparr>))))"

text \<open>An operation on the object of a handle.\<close>

definition on_object ::
  "('m \<Rightarrow> 'c local_cursor \<Rightarrow> 'a \<times> 'c local_cursor) \<Rightarrow> nat \<Rightarrow> ('m, 'c) local_tx \<Rightarrow> ('a \<times> ('m, 'c) local_tx) result" where
  "on_object f h tx =
     (if h < length (lt_objects tx)
      then case f (lt_read_only_txn tx) (lt_objects tx ! h) of (a, c) \<Rightarrow> Ok (a, tx\<lparr>lt_objects := (lt_objects tx)[h := c]\<rparr>)
      else Throw Use_after_free)"

definition local_ops :: "('m, 'c) mdbx \<Rightarrow> (nat, ('m, 'c) local_tx) tx_ops" where
  "local_ops mx =
     \<lparr>op_cursor = local_get_cursor mx,
      op_seek = (\<lambda>h k. on_object (\<lambda>env. local_seek mx env k) h),
      op_seek_exact = (\<lambda>h k. on_object (\<lambda>env. local_seek_exact mx env k) h),
      op_next = on_object (local_next mx),
      op_next_dup = on_object (local_next_dup mx),
      op_seek_both = (\<lambda>h k v. on_object (\<lambda>env. local_seek_both mx env k v) h)\<rparr>"

section \<open>A library that stores sorted tables\<close>

type_synonym tables = "(string \<times> key_value list) list"
type_synonym position = "string \<times> key_value list"

definition place :: "string \<Rightarrow> key_value list \<Rightarrow> key_value option \<times> position" where
  "place t ys = (case ys of [] \<Rightarrow> None | y # _ \<Rightarrow> Some y, (t, ys))"

definition table_mdbx :: "(tables, position) mdbx" where
  "table_mdbx =
     \<lparr>mx_has_map = (\<lambda>ts t. map_of ts t \<noteq> None),
      mx_open = (\<lambda>ts t. if map_of ts t = None then Throw (Runtime_error ''MDBX_NOTFOUND'') else Ok (t, [])),
      mx_to_first = (\<lambda>ts (t, _). place t (the (map_of ts t))),
      mx_lower_bound = (\<lambda>ts k (t, _). place t (from_key k (the (map_of ts t)))),
      mx_seek = (\<lambda>ts k (t, _). let ys = filter (\<lambda>e. kv_key e = k) (the (map_of ts t)) in (ys \<noteq> [], (t, ys))),
      mx_current = (\<lambda>ts (t, ys). fst (place t ys)),
      mx_to_next = (\<lambda>ts (t, ys). place t (tl ys)),
      mx_to_current_next_multi = (\<lambda>ts (t, ys). place t (filter (\<lambda>e. kv_key e = kv_key (first ys)) (tl ys))),
      mx_lower_bound_multivalue = (\<lambda>ts k v (t, _). place t (filter (\<lambda>e. kv_key e = k \<and> v \<le> kv_value e) (the (map_of ts t)))),
      mx_find_multivalue = (\<lambda>ts k v (t, _). place t (filter (\<lambda>e. kv_key e = k \<and> kv_value e = v) (the (map_of ts t))))\<rparr>"

definition local_tab :: "(tables, position) local_tx \<Rightarrow> string \<Rightarrow> key_value list option" where
  "local_tab tx t = map_of (lt_read_only_txn tx) t"

definition local_ahead :: "(tables, position) local_tx \<Rightarrow> nat \<Rightarrow> key_value list" where
  "local_ahead tx h = snd (lc_db_cursor (lt_objects tx ! h))"

definition local_on :: "(tables, position) local_tx \<Rightarrow> nat \<Rightarrow> string \<Rightarrow> bool" where
  "local_on tx h t \<longleftrightarrow> h < length (lt_objects tx) \<and> fst (lc_db_cursor (lt_objects tx ! h)) = t"

definition local_inv :: "(tables, position) local_tx \<Rightarrow> bool" where
  "local_inv tx \<longleftrightarrow>
     (\<forall>(t, es) \<in> set (lt_read_only_txn tx). sorted_wrt kv_le es \<and> (\<forall>e \<in> set es. kv_key e \<noteq> [])) \<and>
     (\<forall>t h. lt_cursors tx t = Some h \<longrightarrow> local_on tx h t) \<and>
     (\<forall>t h. lt_dup_cursors tx t = Some h \<longrightarrow> local_on tx h t)"

definition move_object :: "nat \<Rightarrow> string \<Rightarrow> key_value list \<Rightarrow> (tables, position) local_tx \<Rightarrow> (tables, position) local_tx" where
  "move_object h t ys tx = tx\<lparr>lt_objects := (lt_objects tx)[h := (lt_objects tx ! h)\<lparr>lc_db_cursor := (t, ys)\<rparr>]\<rparr>"

lemma move_object_facts:
  assumes "local_inv tx" "local_on tx h t"
  shows "local_inv (move_object h t ys tx)" "local_on (move_object h t ys tx) h t" "local_tab (move_object h t ys tx) = local_tab tx"
    "local_ahead (move_object h t ys tx) h = ys"
proof -
  have keep: "local_on (move_object h t ys tx) h' t'" if "local_on tx h' t'" for h' t'
    using that assms(2) by (cases "h' = h") (auto simp: local_on_def move_object_def)
  then show "local_inv (move_object h t ys tx)" using assms(1) by (auto simp: local_inv_def move_object_def)
  show "local_on (move_object h t ys tx) h t" using keep assms(2) .
  show "local_tab (move_object h t ys tx) = local_tab tx" by (simp add: fun_eq_iff local_tab_def move_object_def)
  show "local_ahead (move_object h t ys tx) h = ys"
    using assms(2) by (simp add: local_ahead_def move_object_def local_on_def)
qed

lemma pair_or_empty_place: "pair_or_empty (fst (place t ys)) = first ys" "snd (place t ys) = (t, ys)"
  by (simp_all add: pair_or_empty_def place_def first_def split: list.splits)

lemma from_key_Nil: "from_key [] es = es"
  by (cases es) (simp_all add: from_key_def)

lemma on_object_place:
  assumes "local_on tx h t" "f (lt_read_only_txn tx) (lt_objects tx ! h) = (a, (lt_objects tx ! h)\<lparr>lc_db_cursor := (t, ys)\<rparr>)"
  shows "on_object f h tx = Ok (a, move_object h t ys tx)"
  using assms by (simp add: on_object_def local_on_def move_object_def)

lemma local_on_cursor: "local_on tx h t \<Longrightarrow> \<exists>ys. lc_db_cursor (lt_objects tx ! h) = (t, ys)"
  by (cases "lc_db_cursor (lt_objects tx ! h)") (auto simp: local_on_def)

lemma local_on_steps:
  assumes "local_on tx h t" "local_tab tx t = Some es"
  shows "op_seek (local_ops table_mdbx) h k tx = Ok (first (from_key k es), move_object h t (from_key k es) tx)"
    and "op_seek_exact (local_ops table_mdbx) h k tx =
      Ok (first (filter (\<lambda>e. kv_key e = k) es), move_object h t (filter (\<lambda>e. kv_key e = k) es) tx)"
    and "op_next (local_ops table_mdbx) h tx = Ok (first (tl (local_ahead tx h)), move_object h t (tl (local_ahead tx h)) tx)"
    and "op_next_dup (local_ops table_mdbx) h tx =
      Ok (first (filter (\<lambda>e. kv_key e = kv_key (first (local_ahead tx h))) (tl (local_ahead tx h))),
        move_object h t (filter (\<lambda>e. kv_key e = kv_key (first (local_ahead tx h))) (tl (local_ahead tx h))) tx)"
    and "op_seek_both (local_ops table_mdbx) h k v tx =
      Ok (kv_value (first (filter (\<lambda>e. kv_key e = k \<and> v \<le> kv_value e) es)),
        move_object h t (filter (\<lambda>e. kv_key e = k \<and> v \<le> kv_value e) es) tx)"
proof -
  obtain ys where c: "lc_db_cursor (lt_objects tx ! h) = (t, ys)" using local_on_cursor [OF assms(1)] by blast
  have es: "map_of (lt_read_only_txn tx) t = Some es" using assms(2) by (simp add: local_tab_def)
  have ah: "local_ahead tx h = ys" using c by (simp add: local_ahead_def)
  note d = local_ops_def table_mdbx_def c es ah place_def pair_or_empty_def first_def from_key_Nil KV_def
  show "op_seek (local_ops table_mdbx) h k tx = Ok (first (from_key k es), move_object h t (from_key k es) tx)"
    unfolding local_ops_def tx_ops.simps
    by (rule on_object_place [OF assms(1)]) (auto simp: local_seek_def d split: list.splits)
  show "op_seek_exact (local_ops table_mdbx) h k tx =
      Ok (first (filter (\<lambda>e. kv_key e = k) es), move_object h t (filter (\<lambda>e. kv_key e = k) es) tx)"
    unfolding local_ops_def tx_ops.simps
    by (rule on_object_place [OF assms(1)]) (auto simp: local_seek_exact_def d Let_def split: list.splits)
  show "op_next (local_ops table_mdbx) h tx = Ok (first (tl (local_ahead tx h)), move_object h t (tl (local_ahead tx h)) tx)"
    unfolding local_ops_def tx_ops.simps
    by (rule on_object_place [OF assms(1)]) (auto simp: local_next_def d split: list.splits)
  show "op_next_dup (local_ops table_mdbx) h tx =
      Ok (first (filter (\<lambda>e. kv_key e = kv_key (first (local_ahead tx h))) (tl (local_ahead tx h))),
        move_object h t (filter (\<lambda>e. kv_key e = kv_key (first (local_ahead tx h))) (tl (local_ahead tx h))) tx)"
    unfolding local_ops_def tx_ops.simps
    by (rule on_object_place [OF assms(1)]) (auto simp: local_next_dup_def d split: list.splits)
  show "op_seek_both (local_ops table_mdbx) h k v tx =
      Ok (kv_value (first (filter (\<lambda>e. kv_key e = k \<and> v \<le> kv_value e) es)),
        move_object h t (filter (\<lambda>e. kv_key e = k \<and> v \<le> kv_value e) es) tx)"
    unfolding local_ops_def tx_ops.simps
    by (rule on_object_place [OF assms(1)]) (auto simp: local_seek_both_def d split: list.splits)
qed

lemma local_cursor_opens:
  assumes "local_inv tx" "local_tab tx t = Some es"
  shows "\<exists>h tx'. op_cursor (local_ops table_mdbx) t dup tx = Ok (h, tx') \<and> local_inv tx' \<and> local_on tx' h t \<and> local_tab tx' = local_tab tx"
proof (cases "if dup then lt_dup_cursors tx t else lt_cursors tx t")
  case (Some h)
  then show ?thesis using assms(1) by (auto simp: local_ops_def local_get_cursor_def local_inv_def split: if_splits)
next
  case None
  define c :: "position local_cursor" where "c = \<lparr>lc_cursor_id = lt_last_cursor_id tx + 1, lc_db_cursor = (t, [])\<rparr>"
  define tx1 where "tx1 = tx\<lparr>lt_last_cursor_id := lt_last_cursor_id tx + 1, lt_objects := lt_objects tx @ [c]\<rparr>"
  define tx2 where "tx2 = (if dup then tx1\<lparr>lt_dup_cursors := (lt_dup_cursors tx1)(t \<mapsto> length (lt_objects tx))\<rparr>
    else tx1\<lparr>lt_cursors := (lt_cursors tx1)(t \<mapsto> length (lt_objects tx))\<rparr>)"
  have "op_cursor (local_ops table_mdbx) t dup tx = Ok (length (lt_objects tx), tx2)"
    using None assms(2)
    by (auto simp: local_ops_def local_get_cursor_def local_open_cursor_def table_mdbx_def local_tab_def c_def tx1_def tx2_def Let_def)
  moreover have keep: "local_on tx2 h' t'" if "local_on tx h' t'" for h' t'
    using that by (auto simp: local_on_def tx2_def tx1_def nth_append)
  moreover have new: "local_on tx2 (length (lt_objects tx)) t" by (auto simp: local_on_def tx2_def tx1_def c_def)
  moreover have "lt_cursors tx2 t' = Some h \<Longrightarrow> local_on tx2 h t'" "lt_dup_cursors tx2 t' = Some h \<Longrightarrow> local_on tx2 h t'" for t' h
    using keep new assms(1) by (auto simp: tx2_def tx1_def local_inv_def split: if_splits)
  moreover have "lt_read_only_txn tx2 = lt_read_only_txn tx" by (simp add: tx2_def tx1_def)
  ultimately show ?thesis using assms(1) by (auto simp: local_inv_def local_tab_def fun_eq_iff)
qed

interpretation local: dup_cursor "local_ops table_mdbx" local_tab local_ahead local_on local_inv
proof
  fix tx t es assume a: "local_inv tx" "local_tab tx t = Some es"
  then have m: "(t, es) \<in> set (lt_read_only_txn tx)" by (auto simp: local_tab_def dest: map_of_SomeD)
  with a(1) show "sorted_wrt kv_le es" by (auto simp: local_inv_def)
  fix e assume "e \<in> set es"
  with m a(1) show "kv_key e \<noteq> []" by (auto simp: local_inv_def)
next
  fix tx t es assume a: "local_inv tx" "local_tab tx t = Some es"
  show "\<exists>h tx'. op_cursor (local_ops table_mdbx) t False tx = Ok (h, tx') \<and> local_inv tx' \<and> local_on tx' h t \<and> local_tab tx' = local_tab tx"
    "\<exists>h tx'. op_cursor (local_ops table_mdbx) t True tx = Ok (h, tx') \<and> local_inv tx' \<and> local_on tx' h t \<and> local_tab tx' = local_tab tx"
    by (rule local_cursor_opens [OF a])+
qed (auto simp: local_on_steps move_object_facts)

section \<open>Local and remote transactions\<close>


definition demo_local :: "(tables, position) local_tx" where
  "demo_local = local_tx_new [(''Header'', [KV [1, 1] [10], KV [1, 2] [11], KV [2, 1] [12]])]"


end
