(* ===== verification/Cursor_Frames.thy ===== *)
theory Cursor_Frames
  imports Local_Database
begin

text \<open>
  Several cursors of one transaction: a cursor is on one table, and moving it or opening one on another table
  leaves the other cursors where they are. Remote and local transactions are providers.
\<close>

locale cursors = dup_cursor ops tab ahead on inv
  for ops :: "('h, 's) tx_ops" and tab and ahead and on and inv +
  assumes on_table: "on s h t \<Longrightarrow> on s h t' \<Longrightarrow> t' = t"
    and cursor_frame: "inv s \<Longrightarrow> tab s t = Some es \<Longrightarrow> op_cursor ops t dup s = Ok (h, s') \<Longrightarrow> on s h' t' \<Longrightarrow> t' \<noteq> t \<Longrightarrow>
      on s' h' t' \<and> ahead s' h' = ahead s h'"
    and seek_frame: "inv s \<Longrightarrow> on s h t \<Longrightarrow> tab s t = Some es \<Longrightarrow> op_seek ops h k s = Ok (kv, s') \<Longrightarrow> on s h' t' \<Longrightarrow> h' \<noteq> h \<Longrightarrow>
      on s' h' t' \<and> ahead s' h' = ahead s h'"
    and next_frame: "inv s \<Longrightarrow> on s h t \<Longrightarrow> tab s t = Some es \<Longrightarrow> op_next ops h s = Ok (kv, s') \<Longrightarrow> on s h' t' \<Longrightarrow> h' \<noteq> h \<Longrightarrow>
      on s' h' t' \<and> ahead s' h' = ahead s h'"
    and next_dup_frame: "inv s \<Longrightarrow> on s h t \<Longrightarrow> tab s t = Some es \<Longrightarrow> op_next_dup ops h s = Ok (kv, s') \<Longrightarrow> on s h' t' \<Longrightarrow> h' \<noteq> h \<Longrightarrow>
      on s' h' t' \<and> ahead s' h' = ahead s h'"
    and seek_both_frame: "inv s \<Longrightarrow> on s h t \<Longrightarrow> tab s t = Some es \<Longrightarrow> op_seek_both ops h k v s = Ok (x, s') \<Longrightarrow> on s h' t' \<Longrightarrow> h' \<noteq> h \<Longrightarrow>
      on s' h' t' \<and> ahead s' h' = ahead s h'"

section \<open>The remote transaction\<close>

lemma reposition_frame:
  "h' \<noteq> h \<Longrightarrow> remote_on tx h' t' \<Longrightarrow> remote_on (reposition h t ys tx) h' t' \<and> remote_ahead (reposition h t ys tx) h' = remote_ahead tx h'"
  by (simp add: reposition_def remote_on_def remote_ahead_def)

lemma serve_cursor_frame:
  assumes "remote_inv tx" "remote_tab tx t = Some es" "op_cursor (remote_ops serve) t dup tx = Ok (h, tx')" "remote_on tx h' t'" "t' \<noteq> t"
  shows "remote_on tx' h' t' \<and> remote_ahead tx' h' = remote_ahead tx h'"
proof (cases "if dup then rt_dup_cursors tx t else rt_cursors tx t")
  case (Some cid)
  then have "tx' = tx" using assms(3) by (auto simp: remote_ops_def get_cursor_def split: if_splits)
  then show ?thesis using assms(4) by simp
next
  case None
  let ?ts = "sv_tables (rt_server tx)"
  from assms(4) obtain xs where "sv_open (rt_server tx) h' = Some (t', xs)" by (auto simp: remote_on_def)
  with assms(1) obtain es' d where "map_of ?ts t' = Some es'" "h' = cursor_number ?ts t' d" unfolding remote_inv_def by blast
  then have "h' \<noteq> cursor_number ?ts t dup"
    using cursor_number_inj [of ?ts t' es' t es d dup] assms(1,2,5) by (auto simp: remote_inv_def remote_tab_def)
  then show ?thesis using None assms(2-4)
    by (auto simp: remote_ops_def get_cursor_def open_cursor_def message_def serve_def remote_tab_def answer_def Let_def
        remote_on_def remote_ahead_def split: if_splits)
qed

interpretation remote_frames: cursors "remote_ops serve" remote_tab remote_ahead remote_on remote_inv
proof
  fix tx h t t' assume "remote_on tx h t" "remote_on tx h t'"
  then show "t' = t" by (auto simp: remote_on_def)
next
  fix tx t es dup h tx' h' t'
  assume "remote_inv tx" "remote_tab tx t = Some es" "op_cursor (remote_ops serve) t dup tx = Ok (h, tx')" "remote_on tx h' t'" "t' \<noteq> t"
  then show "remote_on tx' h' t' \<and> remote_ahead tx' h' = remote_ahead tx h'" by (rule serve_cursor_frame)
next
  fix tx h t es k v kv x tx' h' t'
  assume a: "remote_on tx h t" "remote_tab tx t = Some es" and h': "remote_on tx h' t'" "h' \<noteq> h"
  note f = serve_on [OF a] serve_on_dup [OF a] reposition_frame [OF h'(2,1)]
  show "op_seek (remote_ops serve) h k tx = Ok (kv, tx') \<Longrightarrow> remote_on tx' h' t' \<and> remote_ahead tx' h' = remote_ahead tx h'"
    "op_next (remote_ops serve) h tx = Ok (kv, tx') \<Longrightarrow> remote_on tx' h' t' \<and> remote_ahead tx' h' = remote_ahead tx h'"
    "op_next_dup (remote_ops serve) h tx = Ok (kv, tx') \<Longrightarrow> remote_on tx' h' t' \<and> remote_ahead tx' h' = remote_ahead tx h'"
    "op_seek_both (remote_ops serve) h k v tx = Ok (x, tx') \<Longrightarrow> remote_on tx' h' t' \<and> remote_ahead tx' h' = remote_ahead tx h'"
    using f by auto
qed

section \<open>The local transaction\<close>

lemma move_object_frame:
  "h' \<noteq> h \<Longrightarrow> local_on tx h' t' \<Longrightarrow> local_on (move_object h t ys tx) h' t' \<and> local_ahead (move_object h t ys tx) h' = local_ahead tx h'"
  by (simp add: move_object_def local_on_def local_ahead_def)

lemma local_cursor_frame:
  assumes "op_cursor (local_ops table_mdbx) t dup tx = Ok (h, tx')" "local_on tx h' t'"
  shows "local_on tx' h' t' \<and> local_ahead tx' h' = local_ahead tx h'"
  using assms
  by (auto simp: local_ops_def local_get_cursor_def local_on_def local_ahead_def nth_append Let_def split: option.splits if_splits)

interpretation local_frames: cursors "local_ops table_mdbx" local_tab local_ahead local_on local_inv
proof
  fix tx h t t' assume "local_on tx h t" "local_on tx h t'"
  then show "t' = t" by (auto simp: local_on_def)
next
  fix tx t es dup h tx' h' t'
  assume "op_cursor (local_ops table_mdbx) t dup tx = Ok (h, tx')" "local_on tx h' t'"
  then show "local_on tx' h' t' \<and> local_ahead tx' h' = local_ahead tx h'" by (rule local_cursor_frame)
next
  fix tx h t es k v kv x tx' h' t'
  assume a: "local_on tx h t" "local_tab tx t = Some es" and h': "local_on tx h' t'" "h' \<noteq> h"
  note f = local_on_steps [OF a] move_object_frame [OF h'(2,1)]
  show "op_seek (local_ops table_mdbx) h k tx = Ok (kv, tx') \<Longrightarrow> local_on tx' h' t' \<and> local_ahead tx' h' = local_ahead tx h'"
    "op_next (local_ops table_mdbx) h tx = Ok (kv, tx') \<Longrightarrow> local_on tx' h' t' \<and> local_ahead tx' h' = local_ahead tx h'"
    "op_next_dup (local_ops table_mdbx) h tx = Ok (kv, tx') \<Longrightarrow> local_on tx' h' t' \<and> local_ahead tx' h' = local_ahead tx h'"
    "op_seek_both (local_ops table_mdbx) h k v tx = Ok (x, tx') \<Longrightarrow> local_on tx' h' t' \<and> local_ahead tx' h' = local_ahead tx h'"
    using f by auto
qed

end
