(* ===== verification/State_Reader.thy ===== *)
theory State_Reader
  imports Rawdb State_Cache
begin

text \<open>
  Reading the state of accounts: \<^verbatim>\<open>core/state_reader.cpp\<close>, which looks a value up in the history before it
  falls back to the current state; \<^verbatim>\<open>core/remote_state.cpp\<close>, which gives it to the virtual machine and turns
  every exception into a default; and \<^verbatim>\<open>ethdb/kv/cached_database.cpp\<close>, which reads through the state cache.
  Keys, bitmaps and the encoding of accounts come from another repository: the record \<open>state_ext\<close>.
\<close>

section \<open>Accounts\<close>

record account =
  ac_nonce :: u64
  ac_balance :: u256
  ac_code_hash :: bytes
  ac_incarnation :: u64

text \<open>A bitmap is the ascending list of the block numbers in it; \<open>sx_seek\<close> finds the first at or after a number.\<close>

record state_ext =
  sx_account_history_key :: "bytes \<Rightarrow> u64 \<Rightarrow> bytes"
  sx_storage_history_key :: "bytes \<Rightarrow> bytes \<Rightarrow> u64 \<Rightarrow> bytes"
  sx_block_key :: "u64 \<Rightarrow> bytes"
  sx_storage_change_key :: "u64 \<Rightarrow> bytes \<Rightarrow> u64 \<Rightarrow> bytes"
  sx_storage_prefix :: "bytes \<Rightarrow> u64 \<Rightarrow> bytes"
  sx_store_big_u64 :: "u64 \<Rightarrow> bytes"
  sx_load_big_u64 :: "bytes \<Rightarrow> u64"
  sx_to_evmc_address :: "bytes \<Rightarrow> bytes"
  sx_to_bytes32 :: "bytes \<Rightarrow> bytes"
  sx_hash_of :: "bytes \<Rightarrow> bytes"
  sx_parse :: "bytes \<Rightarrow> u64 list result"
  sx_seek :: "u64 list \<Rightarrow> u64 \<Rightarrow> u64 option"
  sx_decode_account :: "bytes \<Rightarrow> string + account"
  sx_empty_hash :: bytes

definition kAddressLength :: nat where "kAddressLength = 20"
definition kHashLength :: nat where "kHashLength = 32"

definition composite_storage_key_without_hash_lookup :: "(u64 \<Rightarrow> bytes) \<Rightarrow> bytes \<Rightarrow> u64 \<Rightarrow> bytes" where
  "composite_storage_key_without_hash_lookup store_big adr inc = adr @ store_big inc"

section \<open>StateReader\<close>

definition read_historical_account :: "state_ext \<Rightarrow> reader \<Rightarrow> bytes \<Rightarrow> u64 \<Rightarrow> bytes option result" where
  "read_historical_account sx rd adr block_number =
     bind_r (rd_get rd ''AccountHistory'' (sx_account_history_key sx adr block_number)) (\<lambda>kv.
       if take kAddressLength (kv_key kv) \<noteq> adr then Ok None
       else if kv_value kv = [] then Ok None
       else bind_r (sx_parse sx (kv_value kv)) (\<lambda>bitmap.
         case sx_seek sx bitmap block_number of
           None \<Rightarrow> Ok None
         | Some change_block \<Rightarrow> rd_get_both_range rd ''AccountChangeSet'' (sx_block_key sx change_block) adr))"

definition read_historical_storage ::
  "state_ext \<Rightarrow> reader \<Rightarrow> bytes \<Rightarrow> u64 \<Rightarrow> bytes \<Rightarrow> u64 \<Rightarrow> bytes option result" where
  "read_historical_storage sx rd adr inc location_hash block_number =
     bind_r (rd_get rd ''StorageHistory'' (sx_storage_history_key sx adr location_hash block_number)) (\<lambda>kv.
       if take kAddressLength (kv_key kv) \<noteq> adr then Ok None
       else if length (kv_key kv) < kAddressLength then Throw (Out_of_range ''substr'')
       else if take kHashLength (drop kAddressLength (kv_key kv)) \<noteq> location_hash then Ok None
       else bind_r (sx_parse sx (kv_value kv)) (\<lambda>bitmap.
         case sx_seek sx bitmap block_number of
           None \<Rightarrow> Ok None
         | Some change_block \<Rightarrow>
             rd_get_both_range rd ''StorageChangeSet'' (sx_storage_change_key sx change_block adr inc) location_hash))"

definition decode_account :: "state_ext \<Rightarrow> reader \<Rightarrow> bytes \<Rightarrow> bytes \<Rightarrow> account option result" where
  "decode_account sx rd adr encoded =
     (if encoded = [] then Ok None
      else case sx_decode_account sx encoded of
        Inl err \<Rightarrow> Throw (Runtime_error err)
      | Inr account \<Rightarrow>
          if ac_incarnation account > 0 \<and> ac_code_hash account = sx_empty_hash sx
          then bind_r (rd_get_one rd ''PlainCodeHash'' (sx_storage_prefix sx adr (ac_incarnation account))) (\<lambda>code_hash.
            Ok (Some (if length code_hash = kHashLength then account\<lparr>ac_code_hash := code_hash\<rparr> else account)))
          else Ok (Some account))"

definition read_account :: "state_ext \<Rightarrow> reader \<Rightarrow> bytes \<Rightarrow> u64 \<Rightarrow> account option result" where
  "read_account sx rd adr block_number =
     bind_r (read_historical_account sx rd adr block_number) (\<lambda>historical.
     bind_r (case historical of Some e \<Rightarrow> Ok e | None \<Rightarrow> rd_get_one rd ''PlainState'' adr) (decode_account sx rd adr))"

text \<open>The value is copied to the end of the 32 bytes; a longer one would be copied past them.\<close>

definition pad_storage_value :: "bytes \<Rightarrow> bytes result" where
  "pad_storage_value v = (if length v > kHashLength then Throw Out_of_bounds else Ok (zeros (kHashLength - length v) @ v))"

definition read_storage :: "state_ext \<Rightarrow> reader \<Rightarrow> bytes \<Rightarrow> u64 \<Rightarrow> bytes \<Rightarrow> u64 \<Rightarrow> bytes result" where
  "read_storage sx rd adr inc location_hash block_number =
     bind_r (read_historical_storage sx rd adr inc location_hash block_number) (\<lambda>historical.
     bind_r (case historical of
         Some v \<Rightarrow> Ok (Some v)
       | None \<Rightarrow> rd_get_both_range rd ''PlainState''
           (composite_storage_key_without_hash_lookup (sx_store_big_u64 sx) adr inc) location_hash) (\<lambda>v.
       case v of None \<Rightarrow> Ok (zeros kHashLength) | Some v \<Rightarrow> pad_storage_value v))"

definition read_code :: "state_ext \<Rightarrow> reader \<Rightarrow> bytes \<Rightarrow> bytes option result" where
  "read_code sx rd code_hash =
     (if code_hash = sx_empty_hash sx then Ok None
      else bind_r (rd_get_one rd ''Code'' code_hash) (\<lambda>c. Ok (Some c)))"

section \<open>RemoteState\<close>

text \<open>
  The state that the virtual machine reads, after the block \<open>block_number\<close>. \<^verbatim>\<open>AsyncRemoteState\<close> forwards to the
  reader; \<^verbatim>\<open>RemoteState\<close> waits for the answer and returns a default when there is an exception. Code is
  kept in a table that never forgets.
\<close>

definition or_default :: "'a \<Rightarrow> 'a result \<Rightarrow> 'a" where
  "or_default d r = (case r of Inl _ \<Rightarrow> d | Inr v \<Rightarrow> v)"

definition async_read_account :: "state_ext \<Rightarrow> reader \<Rightarrow> u64 \<Rightarrow> bytes \<Rightarrow> account option result" where
  "async_read_account sx rd block_number adr = read_account sx rd adr (block_number + 1)"

definition async_read_code ::
  "state_ext \<Rightarrow> reader \<Rightarrow> bytes \<Rightarrow> (bytes \<Rightarrow> bytes option) \<Rightarrow> (bytes \<times> (bytes \<Rightarrow> bytes option)) result" where
  "async_read_code sx rd code_hash codes =
     bind_r (read_code sx rd code_hash) (\<lambda>optional_code.
       case optional_code of
         Some c \<Rightarrow> let codes = codes(code_hash \<mapsto> c) in Ok (the (codes code_hash), codes)
       | None \<Rightarrow> Ok ([], codes))"

definition async_read_storage :: "state_ext \<Rightarrow> reader \<Rightarrow> u64 \<Rightarrow> bytes \<Rightarrow> u64 \<Rightarrow> bytes \<Rightarrow> bytes result" where
  "async_read_storage sx rd block_number adr inc loc =
     read_storage sx rd adr inc loc (block_number + 1)"

definition rs_read_account :: "state_ext \<Rightarrow> reader \<Rightarrow> u64 \<Rightarrow> bytes \<Rightarrow> account option" where
  "rs_read_account sx rd block_number adr = or_default None (async_read_account sx rd block_number adr)"

definition rs_read_code ::
  "state_ext \<Rightarrow> reader \<Rightarrow> bytes \<Rightarrow> (bytes \<Rightarrow> bytes option) \<Rightarrow> bytes \<times> (bytes \<Rightarrow> bytes option)" where
  "rs_read_code sx rd code_hash codes = or_default ([], codes) (async_read_code sx rd code_hash codes)"

definition rs_read_storage :: "state_ext \<Rightarrow> reader \<Rightarrow> u64 \<Rightarrow> bytes \<Rightarrow> u64 \<Rightarrow> bytes \<Rightarrow> bytes" where
  "rs_read_storage sx rd block_number adr inc loc =
     or_default (zeros kHashLength) (async_read_storage sx rd block_number adr inc loc)"

definition rs_previous_incarnation :: "bytes \<Rightarrow> u64" where
  "rs_previous_incarnation adr = 0"

definition rs_read_header :: "ext \<Rightarrow> reader \<Rightarrow> u64 \<Rightarrow> bytes \<Rightarrow> block_header option" where
  "rs_read_header x rd block_number block_hash =
     or_default None (bind_r (read_header x rd block_hash block_number) (\<lambda>h. Ok (Some h)))"

definition rs_read_body :: "ext \<Rightarrow> reader \<Rightarrow> u64 \<Rightarrow> bytes \<Rightarrow> block_body \<Rightarrow> bool \<times> block_body" where
  "rs_read_body x rd block_number block_hash filled_body =
     or_default (False, filled_body) (bind_r (read_body x rd block_hash block_number) (\<lambda>b. Ok (True, b)))"

definition rs_total_difficulty :: "ext \<Rightarrow> reader \<Rightarrow> u64 \<Rightarrow> bytes \<Rightarrow> u256 option" where
  "rs_total_difficulty x rd block_number block_hash =
     or_default None (bind_r (read_total_difficulty x rd block_hash block_number) (\<lambda>d. Ok (Some d)))"

section \<open>CachedDatabase\<close>

text \<open>
  The database of a transaction (with its view identifier) read through the state cache: the tables of
  state and code go through the view of the transaction when it is ready. \<open>one\<close> is \<^verbatim>\<open>get_one\<close> of the transaction.
\<close>

definition cached_get_one ::
  "(string \<Rightarrow> bytes \<Rightarrow> bytes) \<Rightarrow> u64 \<Rightarrow> string \<Rightarrow> bytes \<Rightarrow> coherent_state_cache \<Rightarrow> (bytes \<times> coherent_state_cache) result" where
  "cached_get_one one tx_id table k s =
     (if table = ''PlainState''
      then bind_r (get_view tx_id s) (\<lambda>(s1, view).
        case view of
          Some v \<Rightarrow> bind_r (get (one table) k v s1) (\<lambda>(s2, r). Ok (case r of Some x \<Rightarrow> x | None \<Rightarrow> [], s2))
        | None \<Rightarrow> Ok (one table k, s1))
      else if table = ''Code''
      then bind_r (get_view tx_id s) (\<lambda>(s1, view).
        case view of
          Some v \<Rightarrow> bind_r (get_code (one table) k v s1) (\<lambda>(s2, r). Ok (case r of Some x \<Rightarrow> x | None \<Rightarrow> [], s2))
        | None \<Rightarrow> Ok (one table k, s1))
      else Ok (one table k, s))"

end
