(* ===== verification/State_Reader_Props.thy ===== *)
theory State_Reader_Props
  imports State_Reader Local_Database Rawdb_Props State_Cache_Props
begin

text \<open>
  Reading the past: an account has a value before each block, given by its first value and the changes of
  later blocks. The database holds the blocks of the changes in an index that is cut into shards, and for
  each change the value before it; the reader finds the value before any block. Reading through the state
  cache gives what the transaction reads.
\<close>

section \<open>The history of a value\<close>

text \<open>The value before a block: the last of the changes in earlier blocks, or the first value.\<close>

definition value_before :: "bytes \<Rightarrow> (u64 \<times> bytes) list \<Rightarrow> u64 \<Rightarrow> bytes" where
  "value_before v0 events n = last (v0 # map snd (filter (\<lambda>(b, _). b < n) events))"

text \<open>What the change sets record: each block with the value before it.\<close>

fun old_values :: "bytes \<Rightarrow> (u64 \<times> bytes) list \<Rightarrow> (u64 \<times> bytes) list" where
  "old_values v0 [] = []"
| "old_values v0 ((b, v) # cs) = (b, v0) # old_values v cs"

lemma find_old_value:
  assumes "sorted_wrt (<) (map fst events)"
  shows "value_before v0 events n =
    (case find (\<lambda>(b, _). n \<le> b) (old_values v0 events) of Some (_, old) \<Rightarrow> old | None \<Rightarrow> last (v0 # map snd events))"
  using assms
proof (induction events arbitrary: v0)
  case Nil
  then show ?case by (simp add: value_before_def)
next
  case (Cons c cs)
  obtain b v where c: "c = (b, v)" by fastforce
  show ?case
  proof (cases "n \<le> b")
    case True
    then have "filter (\<lambda>(b, _). b < n) (c # cs) = []"
      using Cons.prems c by (auto simp: filter_empty_conv)
    then have "value_before v0 (c # cs) n = v0" unfolding value_before_def by (simp only: list.map last_ConsL)
    then show ?thesis using True c by simp
  next
    case False
    then have 1: "value_before v0 (c # cs) n = value_before v cs n"
      using c by (simp add: value_before_def not_le)
    have 2: "last (v0 # map snd (c # cs)) = last (v # map snd cs)" using c by simp
    have 3: "find (\<lambda>(b, _). n \<le> b) (old_values v0 (c # cs)) = find (\<lambda>(b, _). n \<le> b) (old_values v cs)"
      using c False by simp
    have "sorted_wrt (<) (map fst cs)" using Cons.prems by simp
    from Cons.IH [OF this, of v] show ?thesis by (simp only: 1 2 3)
  qed
qed

section \<open>The index\<close>

text \<open>
  An index entry holds the blocks of one shard; its key ends with the highest block of the shard, and the
  key of the last shard with the highest number there is.
\<close>

fun shards_ok :: "(u64 \<times> u64 list) list \<Rightarrow> bool" where
  "shards_ok [] = False"
| "shards_ok [(u, bs)] = (u = - 1)"
| "shards_ok ((u, bs) # s # ss) = (u \<in> set bs \<and> (\<forall>b \<in> set bs. b \<le> u) \<and> shards_ok (s # ss))"

lemma find_append: "find P (xs @ ys) = (case find P xs of None \<Rightarrow> find P ys | Some x \<Rightarrow> Some x)"
  by (induction xs) auto

text \<open>The first shard whose key is not below a number holds the first block at or after it.\<close>

lemma find_in_shard:
  assumes "shards_ok shards"
  shows "\<exists>u bs rest. filter (\<lambda>(u, _). n \<le> u) shards = (u, bs) # rest \<and>
    find (\<lambda>b. n \<le> b) bs = find (\<lambda>b. n \<le> b) (concat (map snd shards))"
  using assms
proof (induction shards rule: shards_ok.induct)
  case (2 u bs)
  then show ?case by (simp add: word_order.extremum)
next
  case (3 u bs s ss)
  show ?case
  proof (cases "n \<le> u")
    case True
    then have "find (\<lambda>b. n \<le> b) bs \<noteq> None" using 3(2) by (auto simp: find_None_iff)
    then show ?thesis using True by (auto simp: find_append)
  next
    case False
    then have "find (\<lambda>b. n \<le> b) bs = None" using 3(2) by (auto simp: find_None_iff)
    then show ?thesis using False 3 by (simp add: find_append)
  qed
qed simp

text \<open>What the code relies on of the keys and bitmaps.\<close>

definition keys_ok :: "state_ext \<Rightarrow> bool" where
  "keys_ok sx \<longleftrightarrow>
     (\<forall>a n. sx_account_history_key sx a n = a @ sx_store_big_u64 sx n) \<and>
     (\<forall>m n. sx_store_big_u64 sx m \<le> sx_store_big_u64 sx n \<longleftrightarrow> m \<le> n) \<and>
     (\<forall>n. length (sx_store_big_u64 sx n) = 8 \<and> sx_load_big_u64 sx (sx_store_big_u64 sx n) = n) \<and>
     (\<forall>bs n. sx_seek sx bs n = find (\<lambda>b. n \<le> b) bs)"

definition sharded :: "state_ext \<Rightarrow> bytes \<Rightarrow> key_value list \<Rightarrow> u64 list \<Rightarrow> bool" where
  "sharded sx a es blocks \<longleftrightarrow>
     (\<exists>shards. shards_ok shards \<and> concat (map snd shards) = blocks \<and>
        list_all2 (\<lambda>e (u, bs). kv_key e = a @ sx_store_big_u64 sx u \<and> kv_value e \<noteq> [] \<and> sx_parse sx (kv_value e) = Ok bs) es shards)"

definition indexed :: "state_ext \<Rightarrow> bytes \<Rightarrow> key_value list \<Rightarrow> u64 list \<Rightarrow> bool" where
  "indexed sx a es blocks \<longleftrightarrow> sharded sx a (filter (\<lambda>e. take (length a) (kv_key e) = a) es) blocks"

text \<open>The change set of a block holds the value before it, behind the address, and no other for the address.\<close>

definition recorded :: "key_value list \<Rightarrow> bytes \<Rightarrow> bytes \<Rightarrow> bytes \<Rightarrow> bool" where
  "recorded cs bk a old \<longleftrightarrow>
     sorted_wrt (\<lambda>x y. kv_key x = kv_key y \<longrightarrow> kv_value x \<le> kv_value y) cs \<and> KV bk (a @ old) \<in> set cs \<and>
     (\<forall>e \<in> set cs. kv_key e = bk \<and> take (length a) (kv_value e) = a \<longrightarrow> kv_value e = a @ old)"

lemma prefix_between:
  fixes a k :: bytes
  assumes "a \<le> k" "k \<le> a @ z"
  shows "take (length a) k = a"
proof -
  have "take (length a) a \<le> take (length a) k" "take (length a) k \<le> take (length a) (a @ z)"
    by (rule take_mono, rule assms(1)) (rule take_mono, rule assms(2))
  then show ?thesis by (simp add: antisym)
qed

lemma append_le_append: "a @ x \<le> a @ y \<longleftrightarrow> x \<le> (y :: bytes)"
  by (induction a) (simp_all add: Cons_le_Cons)

lemma le_append: "a \<le> a @ (z :: bytes)"
  by (induction a) (simp_all add: Cons_le_Cons)

lemma first_filter_both:
  assumes "filter P es = e # r" "Q e"
  shows "first (filter P (filter Q es)) = e"
proof -
  have "filter P (filter Q es) = filter Q (filter P es)" by (simp add: conj_commute)
  then show ?thesis using assms by (simp add: first_def)
qed

lemma filter_Cons_mem: "filter P es = e # r \<Longrightarrow> e \<in> set es \<and> P e"
  by (metis (mono_tags, lifting) filter_eq_ConsD in_set_conv_decomp)

lemma sorted_hd_le:
  assumes "sorted_wrt R es" "filter P es = e # r" "y \<in> set es" "P y" "y \<noteq> e"
  shows "R e y"
  using assms
proof (induction es)
  case (Cons z zs)
  then show ?case by (cases "P z") auto
qed simp

text \<open>The entry of the index that a seek finds is the first shard not below the block.\<close>

lemma indexed_seek:
  assumes "keys_ok sx" "sorted_wrt kv_le es" "indexed sx a es blocks"
  shows "\<exists>e bs. first (filter (\<lambda>e. sx_account_history_key sx a n \<le> kv_key e) es) = e \<and> take (length a) (kv_key e) = a \<and>
    kv_value e \<noteq> [] \<and> sx_parse sx (kv_value e) = Ok bs \<and> sx_seek sx bs n = find (\<lambda>b. n \<le> b) blocks"
proof -
  let ?P = "\<lambda>e. sx_account_history_key sx a n \<le> kv_key e" and ?Q = "\<lambda>e. take (length a) (kv_key e) = a"
  from assms(3) obtain shards where sh: "shards_ok shards" "concat (map snd shards) = blocks"
    and l: "list_all2 (\<lambda>e (u, bs). kv_key e = a @ sx_store_big_u64 sx u \<and> kv_value e \<noteq> [] \<and> sx_parse sx (kv_value e) = Ok bs)
          (filter ?Q es) shards" unfolding indexed_def sharded_def by blast
  obtain u bs rest where f: "filter (\<lambda>(u, _). n \<le> u) shards = (u, bs) # rest"
    "find (\<lambda>b. n \<le> b) bs = find (\<lambda>b. n \<le> b) blocks" using find_in_shard [OF sh(1), of n] sh(2) by blast
  have P: "sx_account_history_key sx a n \<le> a @ sx_store_big_u64 sx u' \<longleftrightarrow> n \<le> u'" for u'
    using assms(1) by (simp add: keys_ok_def append_le_append)
  have "list_all2 (\<lambda>e (u, bs). kv_key e = a @ sx_store_big_u64 sx u \<and> kv_value e \<noteq> [] \<and> sx_parse sx (kv_value e) = Ok bs)
          (filter ?P (filter ?Q es)) (filter (\<lambda>(u, _). n \<le> u) shards)"
    using l by (induction rule: list_all2_induct) (auto simp: P)
  then obtain e r where e: "filter ?P (filter ?Q es) = e # r" "kv_key e = a @ sx_store_big_u64 sx u" "kv_value e \<noteq> []"
      "sx_parse sx (kv_value e) = Ok bs" unfolding f(1) by (auto simp: list_all2_Cons2)
  then have e0: "e \<in> set es" "?P e" "?Q e" using filter_Cons_mem [OF e(1)] by auto
  then obtain e1 r1 where e1: "filter ?P es = e1 # r1" by (metis (mono_tags, lifting) filter_empty_conv list.exhaust)
  have "?P e1" using filter_Cons_mem [OF e1] by simp
  moreover have "e1 = e \<or> kv_le e1 e" using sorted_hd_le [OF assms(2) e1 e0(1,2)] by blast
  ultimately have "a \<le> kv_key e1" "kv_key e1 \<le> a @ sx_store_big_u64 sx u"
    using e(2) assms(1) le_append [of a "sx_store_big_u64 sx n"] by (auto simp: keys_ok_def kv_le_def intro: order_trans)
  then have "?Q e1" by (rule prefix_between)
  from first_filter_both [where Q = ?Q, OF e1 this] have "e1 = e" unfolding e(1) by (simp add: first_def)
  then show ?thesis using e e0 e1 f(2) assms(1) by (auto simp: first_def keys_ok_def)
qed

lemma recorded_seek:
  assumes "recorded cs bk a old"
  shows "kv_value (first (filter (\<lambda>e. kv_key e = bk \<and> a \<le> kv_value e) cs)) = a @ old"
proof -
  let ?P = "\<lambda>e. kv_key e = bk \<and> a \<le> kv_value e"
  let ?e = "KV bk (a @ old)"
  have m: "?e \<in> set cs" "?P ?e" using assms le_append by (auto simp: recorded_def KV_def)
  then obtain e r where e: "filter ?P cs = e # r" by (metis (mono_tags, lifting) filter_empty_conv list.exhaust)
  then have pe: "e \<in> set cs" "?P e" using filter_Cons_mem [OF e] by auto
  have "?e = e \<or> kv_value e \<le> kv_value ?e"
    using sorted_hd_le [OF conjunct1 [OF assms [unfolded recorded_def]] e m] pe(2) by (metis KV_sel(1))
  then have "kv_value e \<le> a @ old" by (metis KV_sel(2) order_refl)
  then have "take (length a) (kv_value e) = a" using pe by (auto intro: prefix_between)
  then have "kv_value e = a @ old" using assms pe by (auto simp: recorded_def)
  then show ?thesis using e by (simp add: first_def)
qed

section \<open>Reading an account at a block\<close>

text \<open>
  The tables hold the history of an account: \<open>v0\<close> is its first encoding and \<open>events\<close> are the encodings after
  the blocks that changed it, in order.
\<close>

definition holds_history ::
  "state_ext \<Rightarrow> kv_server remote_tx \<Rightarrow> bytes \<Rightarrow> bytes \<Rightarrow> (u64 \<times> bytes) list \<Rightarrow> bool" where
  "holds_history sx tx a v0 events \<longleftrightarrow>
     sorted_wrt (<) (map fst events) \<and>
     (\<exists>ah cs ps. remote_tab tx ''AccountHistory'' = Some ah \<and> indexed sx a ah (map fst events) \<and>
        remote_tab tx ''AccountChangeSet'' = Some cs \<and>
        (\<forall>(b, old) \<in> set (old_values v0 events). recorded cs (sx_block_key sx b) a old) \<and>
        remote_tab tx ''PlainState'' = Some ps \<and>
        kv_value (first (filter (\<lambda>e. kv_key e = a) ps)) = last (v0 # map snd events))"

lemma find_old_block: "find (\<lambda>b. n \<le> b) (map fst events) = map_option fst (find (\<lambda>(b, _). n \<le> b) (old_values v0 events))"
  by (induction v0 events rule: old_values.induct) auto

lemma tx_reader_others:
  assumes "remote_inv tx" "remote_tab tx t = Some es"
  shows "rd_get_one (tx_reader (remote_ops serve) tx) t k = Ok (kv_value (first (filter (\<lambda>e. kv_key e = k) es)))"
    and "rd_get_both_range (tx_reader (remote_ops serve) tx) t k sk =
      (let v = kv_value (first (filter (\<lambda>e. kv_key e = k \<and> sk \<le> kv_value e) es)) in
       Ok (if take (length sk) v \<noteq> sk then None else Some (drop (length sk) v)))"
  using remote.get_one_entry [OF assms, of k] remote_dup.get_both_range_entry [OF assms refl, of k sk]
  by (auto simp: tx_reader_def Let_def)

text \<open>The history lookup finds the value before the first change at or after the block, and nothing after the last change.\<close>

lemma historical_account_found:
  assumes "keys_ok sx" "remote_inv tx" "length a = kAddressLength" "holds_history sx tx a v0 events"
  shows "read_historical_account sx (tx_reader (remote_ops serve) tx) a n =
    Ok (map_option snd (find (\<lambda>(b, _). n \<le> b) (old_values v0 events)))"
proof -
  obtain ah cs where t: "remote_tab tx ''AccountHistory'' = Some ah" "indexed sx a ah (map fst events)"
      "remote_tab tx ''AccountChangeSet'' = Some cs"
      "\<forall>(b, old) \<in> set (old_values v0 events). recorded cs (sx_block_key sx b) a old"
    using assms(4) unfolding holds_history_def by blast
  obtain e bs where e: "first (filter (\<lambda>e. sx_account_history_key sx a n \<le> kv_key e) ah) = e" "take (length a) (kv_key e) = a"
      "kv_value e \<noteq> []" "sx_parse sx (kv_value e) = Ok bs" "sx_seek sx bs n = find (\<lambda>b. n \<le> b) (map fst events)"
    using indexed_seek [OF assms(1) remote.tab_sorted [OF assms(2) t(1)] t(2)] by blast
  show ?thesis
  proof (cases "find (\<lambda>(b, _). n \<le> b) (old_values v0 events)")
    case None
    then show ?thesis using e assms(3) tx_reader_get [OF assms(2) t(1), of "sx_account_history_key sx a n"]
      by (simp add: read_historical_account_def find_old_block [of n events v0])
  next
    case (Some bo)
    obtain b old where bo: "bo = (b, old)" by fastforce
    then have "(b, old) \<in> set (old_values v0 events)" using Some by (metis find_Some_iff nth_mem)
    then have "kv_value (first (filter (\<lambda>e. kv_key e = sx_block_key sx b \<and> a \<le> kv_value e) cs)) = a @ old"
      using t(4) recorded_seek by blast
    then show ?thesis using Some bo e assms(3) tx_reader_get [OF assms(2) t(1), of "sx_account_history_key sx a n"]
        tx_reader_others(2) [OF assms(2) t(3), of "sx_block_key sx b" a]
      by (simp add: read_historical_account_def find_old_block [of n events v0])
  qed
qed

text \<open>
  C17: reading an account at a block refines the history of the account: when the index, the change sets and
  the current state hold the changes of an account, the reader decodes the encoding the account had before
  that block, for every block number, whichever shard of the index its change is in, and the current
  encoding for blocks after the last change.
\<close>

theorem account_history_refines:
  assumes "keys_ok sx" "remote_inv tx" "length a = kAddressLength" "holds_history sx tx a v0 events"
  shows "read_account sx (tx_reader (remote_ops serve) tx) a n =
    decode_account sx (tx_reader (remote_ops serve) tx) a (value_before v0 events n)"
proof -
  obtain ps where ps: "sorted_wrt (<) (map fst events)" "remote_tab tx ''PlainState'' = Some ps"
      "kv_value (first (filter (\<lambda>e. kv_key e = a) ps)) = last (v0 # map snd events)"
    using assms(4) unfolding holds_history_def by blast
  show ?thesis
    unfolding read_account_def historical_account_found [OF assms] find_old_value [OF ps(1)]
    using tx_reader_others(1) [OF assms(2) ps(2), of a] ps(3)
    by (auto split: option.split)
qed

section \<open>Reading through the cache\<close>


section \<open>A concrete history\<close>

text \<open>The eight bytes of a number, the most significant first, are ordered as the numbers are.\<close>

fun be_bytes :: "nat \<Rightarrow> nat \<Rightarrow> bytes" where
  "be_bytes 0 n = []"
| "be_bytes (Suc k) n = of_nat (n div 256 ^ k) # be_bytes k (n mod 256 ^ k)"

lemma be_bytes_length [simp]: "length (be_bytes k n) = k"
  by (induction k arbitrary: n) simp_all

lemma be_bytes_Nil [simp]: "be_bytes k n = [] \<longleftrightarrow> k = 0"
  by (cases k) simp_all

lemma le_div_mod: "m \<le> n \<longleftrightarrow> m div p < n div p \<or> m div p = n div p \<and> m mod p \<le> n mod (p :: nat)"
proof (cases "m div p = n div p")
  case True
  then show ?thesis using mult_div_mod_eq [of p m] mult_div_mod_eq [of p n] by (metis add_le_cancel_left less_irrefl)
next
  case False
  then show ?thesis using div_le_mono [of m n p] div_le_mono [of n m p] by linarith
qed

lemma be_bytes_le:
  assumes "m < 256 ^ k" "n < 256 ^ k"
  shows "be_bytes k m \<le> be_bytes k n \<longleftrightarrow> m \<le> n"
  using assms
proof (induction k arbitrary: m n)
  case (Suc k)
  let ?p = "256 ^ k :: nat"
  have d: "m div ?p < 256" "n div ?p < 256" using Suc.prems by (simp_all add: less_mult_imp_div_less)
  have u: "unat (of_nat (i :: nat) :: byte) = i" if "i < 256" for i
    using that by (simp add: unat_of_nat)
  have w: "(of_nat (m div ?p) :: byte) < of_nat (n div ?p) \<longleftrightarrow> m div ?p < n div ?p"
    "(of_nat (m div ?p) :: byte) = of_nat (n div ?p) \<longleftrightarrow> m div ?p = n div ?p"
    unfolding word_less_nat_alt word_unat_eq_iff by (simp_all only: u [OF d(1)] u [OF d(2)])
  have "be_bytes k (m mod ?p) \<le> be_bytes k (n mod ?p) \<longleftrightarrow> m mod ?p \<le> n mod ?p"
    by (rule Suc.IH) simp_all
  moreover have "m \<le> n \<longleftrightarrow> m div ?p < n div ?p \<or> m div ?p = n div ?p \<and> m mod ?p \<le> n mod ?p"
    by (rule le_div_mod)
  ultimately show ?case by (simp add: Cons_le_Cons w)
qed simp

definition demo_state_ext :: state_ext where
  "demo_state_ext = \<lparr>sx_account_history_key = (\<lambda>a n. a @ be_bytes 8 (unat n)), sx_storage_history_key = (\<lambda>a l n. a @ l @ be_bytes 8 (unat n)),
     sx_block_key = (\<lambda>n. be_bytes 8 (unat n)), sx_storage_change_key = (\<lambda>n a i. be_bytes 8 (unat n) @ a @ be_bytes 8 (unat i)),
     sx_storage_prefix = (\<lambda>a i. a @ be_bytes 8 (unat i)), sx_store_big_u64 = (\<lambda>n. be_bytes 8 (unat n)),
     sx_load_big_u64 = (\<lambda>bs. of_nat (be_value (take 8 bs))), sx_to_evmc_address = (\<lambda>bs. bs), sx_to_bytes32 = (\<lambda>bs. bs), sx_hash_of = rev,
     sx_parse = (\<lambda>bs. Ok (map ucast bs)), sx_seek = (\<lambda>bs n. find (\<lambda>b. n \<le> b) bs),
     sx_decode_account = (\<lambda>bs. Inr \<lparr>ac_nonce = ucast (hd bs), ac_balance = 0, ac_code_hash = zeros 32, ac_incarnation = 0\<rparr>),
     sx_empty_hash = zeros 32\<rparr>"

lemma be_value_be_bytes: "n < 256 ^ k \<Longrightarrow> be_value (be_bytes k n) = n"
proof (induction k arbitrary: n)
  case (Suc k)
  have f: "foldl (\<lambda>a b. 256 * a + unat b) x bs = x * 256 ^ length bs + be_value bs" for x and bs :: bytes
    unfolding be_value_def
  proof (induction bs rule: rev_induct)
    case (snoc b bs)
    then show ?case by (simp add: algebra_simps)
  qed simp
  have "n div 256 ^ k < 256" using Suc.prems by (simp add: less_mult_imp_div_less)
  then have "unat (of_nat (n div 256 ^ k) :: byte) = n div 256 ^ k" by (simp add: unat_of_nat)
  then show ?case using f [of "n div 256 ^ k" "be_bytes k (n mod 256 ^ k)"] Suc.IH [of "n mod 256 ^ k"]
    div_mult_mod_eq [of n "256 ^ k"] by (simp add: be_value_def)
qed (simp add: be_value_def)

lemma demo_keys_ok: "keys_ok demo_state_ext"
  using be_bytes_le [of _ 8] be_value_be_bytes [of _ 8] unsigned_less [where 'a = nat and 'b = 64]
  by (simp add: keys_ok_def demo_state_ext_def word_le_nat_alt)

text \<open>An account that block 3 creates with nonce 10 and block 8 changes to nonce 11, with two shards of its index.\<close>

definition demo_address :: bytes where
  "demo_address = replicate 20 7"

definition demo_history :: "kv_server remote_tx" where
  "demo_history = \<lparr>rt_tx_id = 1, rt_cursors = Map.empty, rt_dup_cursors = Map.empty,
     rt_server = \<lparr>sv_tables =
        [(''AccountHistory'', [KV (demo_address @ be_bytes 8 3) [3], KV (demo_address @ be_bytes 8 (2 ^ 64 - 1)) [8]]),
         (''AccountChangeSet'', [KV (be_bytes 8 3) demo_address, KV (be_bytes 8 8) (demo_address @ [10])]),
         (''PlainState'', [KV demo_address [11]])], sv_open = Map.empty\<rparr>\<rparr>"

lemma demo_history_tables:
  "remote_inv demo_history"
  "remote_tab demo_history ''AccountHistory'' =
     Some [KV (demo_address @ be_bytes 8 3) [3], KV (demo_address @ be_bytes 8 (2 ^ 64 - 1)) [8]]"
  "remote_tab demo_history ''AccountChangeSet'' = Some [KV (be_bytes 8 3) demo_address, KV (be_bytes 8 8) (demo_address @ [10])]"
  "remote_tab demo_history ''PlainState'' = Some [KV demo_address [11]]"
proof -
  have "demo_address \<noteq> []" by (simp add: demo_address_def)
  then show "remote_inv demo_history" using be_bytes_le [of 3 8 "2 ^ 64 - 1"] be_bytes_le [of 3 8 8]
    by (auto simp: remote_inv_def demo_history_def tables_ok_def kv_le_def append_le_append)
qed (simp_all add: demo_history_def remote_tab_def)

lemma demo_holds_history: "holds_history demo_state_ext demo_history demo_address [] [(3, [10]), (8, [11])]"
proof -
  let ?ah = "[KV (demo_address @ be_bytes 8 3) [3], KV (demo_address @ be_bytes 8 (2 ^ 64 - 1)) [8]]"
  let ?cs = "[KV (be_bytes 8 3) demo_address, KV (be_bytes 8 8) (demo_address @ [10])]"
  have "unat (- 1 :: u64) = 2 ^ 64 - 1" by (simp add: unsigned_minus_1_eq_mask mask_eq_exp_minus_1)
  then have "indexed demo_state_ext demo_address ?ah (map fst [(3, [10 :: byte]), (8, [11])])"
    unfolding indexed_def sharded_def by (intro exI [of _ "[(3, [3]), (- 1, [8])]"]) (simp add: demo_state_ext_def)
  moreover have "be_bytes 8 3 \<noteq> be_bytes 8 8" using be_bytes_le [of 8 8 3] by auto
  then have "recorded ?cs (be_bytes 8 3) demo_address []" "recorded ?cs (be_bytes 8 8) demo_address [10]"
    by (auto simp: recorded_def)
  ultimately show ?thesis unfolding holds_history_def demo_history_tables
    by (simp add: first_def demo_state_ext_def)
qed

theorem account_history_refines_witness:
  "read_account demo_state_ext (tx_reader (remote_ops serve) demo_history) demo_address 5 =
     Ok (Some \<lparr>ac_nonce = 10, ac_balance = 0, ac_code_hash = zeros 32, ac_incarnation = 0\<rparr>)"
proof -
  have "length demo_address = kAddressLength" by (simp add: demo_address_def kAddressLength_def)
  from account_history_refines [OF demo_keys_ok demo_history_tables(1) this demo_holds_history, of 5]
  show ?thesis by (simp add: value_before_def decode_account_def demo_state_ext_def)
qed


end
