(* ===== verification/Walkers.thy ===== *)
theory Walkers
  imports State_Reader Utilities Database
begin

text \<open>
  Walking over the accounts or over the storage of an account as they were before a block:
  \<^verbatim>\<open>core/account_walker.cpp\<close>, \<^verbatim>\<open>core/storage_walker.cpp\<close>, and the dump of accounts built on them,
  \<^verbatim>\<open>core/account_dumper.cpp\<close> and \<^verbatim>\<open>types/dump_account.cpp\<close>. A walk merges the current state with the index of
  the history, which are both in key order. A loop that does not end is the value None.
\<close>

text \<open>Reading eight bytes of a shorter byte string is out of bounds.\<close>

definition load_u64_key :: "state_ext \<Rightarrow> bytes \<Rightarrow> u64 result" where
  "load_u64_key sx bs = (if length bs < 8 then Throw Out_of_bounds else Ok (sx_load_big_u64 sx bs))"

section \<open>AccountWalker\<close>

partial_function (option) aw_next :: "('h, 's) tx_ops \<Rightarrow> 'h \<Rightarrow> nat \<Rightarrow> 's \<Rightarrow> (key_value \<times> 's) result option" where
  "aw_next ops h len s =
     (case op_next ops h s of
        Inl e \<Rightarrow> Some (Throw e)
      | Inr (kv, s') \<Rightarrow> if kv_key kv \<noteq> [] \<and> length (kv_key kv) > len then aw_next ops h len s' else Some (Ok (kv, s')))"

definition aw_seek :: "('h, 's) tx_ops \<Rightarrow> 'h \<Rightarrow> bytes \<Rightarrow> nat \<Rightarrow> 's \<Rightarrow> (key_value \<times> 's) result option" where
  "aw_seek ops h k len s =
     (case op_seek ops h k s of
        Inl e \<Rightarrow> Some (Throw e)
      | Inr (kv, s') \<Rightarrow> if length (kv_key kv) > len then aw_next ops h len s' else Some (Ok (kv, s')))"

text \<open>The next entry of another address whose shard reaches the block.\<close>

partial_function (option) aw_split_next ::
  "state_ext \<Rightarrow> ('h, 's) tx_ops \<Rightarrow> 'h \<Rightarrow> split_cursor \<Rightarrow> u64 \<Rightarrow> bytes \<Rightarrow> u64 \<Rightarrow> bytes \<Rightarrow> splitted_key_value \<Rightarrow> 's \<Rightarrow>
     (splitted_key_value \<times> 's) result option" where
  "aw_split_next sx ops h c number tmp_addr block addr skv s =
     (if addr \<noteq> [] \<and> (tmp_addr = addr \<or> block < number)
      then (case split_next ops h c s of
          Inl e \<Rightarrow> Some (Throw e)
        | Inr (skv', s') \<Rightarrow>
            if skv_key1 skv' = [] then Some (Ok (skv', s'))
            else (case load_u64_key sx (skv_key2 skv') of
                Inl e \<Rightarrow> Some (Throw e)
              | Inr block' \<Rightarrow> aw_split_next sx ops h c number tmp_addr block' (skv_key1 skv') skv' s'))
      else Some (Ok (skv, s)))"

partial_function (option) aw_split_seek_loop ::
  "state_ext \<Rightarrow> ('h, 's) tx_ops \<Rightarrow> 'h \<Rightarrow> split_cursor \<Rightarrow> u64 \<Rightarrow> u64 \<Rightarrow> splitted_key_value \<Rightarrow> 's \<Rightarrow>
     (splitted_key_value \<times> 's) result option" where
  "aw_split_seek_loop sx ops h c number block kv s =
     (if block < number
      then (case split_next ops h c s of
          Inl e \<Rightarrow> Some (Throw e)
        | Inr (kv', s') \<Rightarrow>
            if skv_key2 kv' = [] then Some (Ok (kv', s'))
            else (case load_u64_key sx (skv_key2 kv') of
                Inl e \<Rightarrow> Some (Throw e)
              | Inr block' \<Rightarrow> aw_split_seek_loop sx ops h c number block' kv' s'))
      else Some (Ok (kv, s)))"

definition aw_split_seek ::
  "state_ext \<Rightarrow> ('h, 's) tx_ops \<Rightarrow> 'h \<Rightarrow> split_cursor \<Rightarrow> u64 \<Rightarrow> 's \<Rightarrow> (splitted_key_value \<times> 's) result option" where
  "aw_split_seek sx ops h c number s =
     (case split_seek ops h c s of
        Inl e \<Rightarrow> Some (Throw e)
      | Inr (kv, s') \<Rightarrow>
          if skv_key1 kv = [] then Some (Ok (kv, s'))
          else (case load_u64_key sx (skv_key2 kv) of
              Inl e \<Rightarrow> Some (Throw e)
            | Inr block \<Rightarrow> aw_split_seek_loop sx ops h c number block kv s'))"

text \<open>
  One pass of the loop hands at most one pair to the collector: the current value of an address without
  history, the value that the change set of the first change at or after the block recorded, or the current
  value when there is no such change. A recorded value is handed over only when it is longer than the address.
\<close>

definition aw_collect ::
  "state_ext \<Rightarrow> ('h, 's) tx_ops \<Rightarrow> 'h \<Rightarrow> (bytes \<Rightarrow> bytes \<Rightarrow> 'a \<Rightarrow> 'a \<times> bool) \<Rightarrow> u64 \<Rightarrow> key_value \<Rightarrow> splitted_key_value \<Rightarrow> 'a \<Rightarrow> 's \<Rightarrow>
     ('a \<times> bool \<times> 's) result" where
  "aw_collect sx ops acs collector block_number ps_kv s_kv a s =
     (if kv_key ps_kv < skv_key1 s_kv
      then (case collector (kv_key ps_kv) (kv_value ps_kv) a of (a', go_on) \<Rightarrow> Ok (a', go_on, s))
      else bind_r (sx_parse sx (skv_value s_kv)) (\<lambda>bitmap.
        case sx_seek sx bitmap block_number of
          Some found \<Rightarrow>
            bind_r (op_seek_both ops acs (sx_block_key sx found) (skv_key1 s_kv) s) (\<lambda>(data, s').
              if length data > kAddressLength
              then (case collector (skv_key1 s_kv) (drop kAddressLength data) a of (a', go_on) \<Rightarrow> Ok (a', go_on, s'))
              else Ok (a, True, s'))
        | None \<Rightarrow>
            if kv_key ps_kv = skv_key1 s_kv
            then (case collector (kv_key ps_kv) (kv_value ps_kv) a of (a', go_on) \<Rightarrow> Ok (a', go_on, s))
            else Ok (a, True, s)))"

partial_function (option) aw_loop ::
  "state_ext \<Rightarrow> ('h, 's) tx_ops \<Rightarrow> 'h \<Rightarrow> 'h \<Rightarrow> 'h \<Rightarrow> split_cursor \<Rightarrow> (bytes \<Rightarrow> bytes \<Rightarrow> 'a \<Rightarrow> 'a \<times> bool) \<Rightarrow> u64 \<Rightarrow>
     key_value \<Rightarrow> splitted_key_value \<Rightarrow> 'a \<Rightarrow> 's \<Rightarrow> ('a \<times> 's) result option" where
  "aw_loop sx ops ps ah acs c collector block_number ps_kv s_kv a s =
     (if kv_key ps_kv = [] \<and> skv_key1 s_kv = [] then Some (Ok (a, s))
      else case aw_collect sx ops acs collector block_number ps_kv s_kv a s of
        Inl e \<Rightarrow> Some (Throw e)
      | Inr (a', go_on, s1) \<Rightarrow>
          if \<not> go_on then Some (Ok (a', s1))
          else (case (if kv_key ps_kv \<le> skv_key1 s_kv then aw_next ops ps kAddressLength s1 else Some (Ok (ps_kv, s1))) of
              None \<Rightarrow> None
            | Some (Inl e) \<Rightarrow> Some (Throw e)
            | Some (Inr (ps_kv', s2)) \<Rightarrow>
                (case (if skv_key1 s_kv \<le> kv_key ps_kv
                    then (case load_u64_key sx (skv_key2 s_kv) of
                        Inl e \<Rightarrow> Some (Throw e)
                      | Inr block \<Rightarrow> aw_split_next sx ops ah c block_number (skv_key1 s_kv) block (skv_key1 s_kv) empty_skv s2)
                    else Some (Ok (s_kv, s2))) of
                  None \<Rightarrow> None
                | Some (Inl e) \<Rightarrow> Some (Throw e)
                | Some (Inr (s_kv', s3)) \<Rightarrow> aw_loop sx ops ps ah acs c collector block_number ps_kv' s_kv' a' s3)))"

definition walk_of_accounts ::
  "state_ext \<Rightarrow> ('h, 's) tx_ops \<Rightarrow> u64 \<Rightarrow> bytes \<Rightarrow> (bytes \<Rightarrow> bytes \<Rightarrow> 'a \<Rightarrow> 'a \<times> bool) \<Rightarrow> 'a \<Rightarrow> 's \<Rightarrow> ('a \<times> 's) result option" where
  "walk_of_accounts sx ops block_number start_address collector a s =
     (case op_cursor ops ''PlainState'' False s of
        Inl e \<Rightarrow> Some (Throw e)
      | Inr (ps, s1) \<Rightarrow>
      (case aw_seek ops ps start_address kAddressLength s1 of
        None \<Rightarrow> None
      | Some (Inl e) \<Rightarrow> Some (Throw e)
      | Some (Inr (ps_kv, s2)) \<Rightarrow>
        if kv_key ps_kv = [] then Some (Ok (a, s2))
        else (case op_cursor ops ''AccountHistory'' False s2 of
          Inl e \<Rightarrow> Some (Throw e)
        | Inr (ah, s3) \<Rightarrow>
        (case make_split_cursor start_address 0 kAddressLength kAddressLength (kAddressLength + 8) of
          Inl e \<Rightarrow> Some (Throw e)
        | Inr c \<Rightarrow>
        (case aw_split_seek sx ops ah c block_number s3 of
          None \<Rightarrow> None
        | Some (Inl e) \<Rightarrow> Some (Throw e)
        | Some (Inr (s_kv, s4)) \<Rightarrow>
        (case op_cursor ops ''AccountChangeSet'' True s4 of
          Inl e \<Rightarrow> Some (Throw e)
        | Inr (acs, s5) \<Rightarrow> aw_loop sx ops ps ah acs c collector block_number ps_kv s_kv a s5))))))"

section \<open>StorageWalker\<close>

definition make_location_key :: "bytes \<Rightarrow> bytes \<Rightarrow> bytes" where
  "make_location_key adr loc = adr @ loc"

definition make_incarnation_key :: "state_ext \<Rightarrow> bytes \<Rightarrow> u64 \<Rightarrow> bytes" where
  "make_incarnation_key sx adr inc = adr @ sx_store_big_u64 sx inc"

record storage_item =
  si_key :: bytes
  si_sec_key :: bytes
  si_value :: bytes

text \<open>\<^verbatim>\<open>std::set<StorageItem>\<close>, ordered by the key alone.\<close>

fun insert_item :: "storage_item \<Rightarrow> storage_item list \<Rightarrow> storage_item list" where
  "insert_item i [] = [i]"
| "insert_item i (j # js) =
     (if si_key i < si_key j then i # j # js else if si_key j < si_key i then j # insert_item i js else j # js)"

definition has_item :: "storage_item \<Rightarrow> storage_item list \<Rightarrow> bool" where
  "has_item i js = list_ex (\<lambda>j. si_key j = si_key i) js"

text \<open>The first of the two functions named \<^verbatim>\<open>next\<close>: the entry after the current one whose shard reaches the block.\<close>

partial_function (option) sw_next_loop ::
  "state_ext \<Rightarrow> ('h, 's) tx_ops \<Rightarrow> 'h \<Rightarrow> split_cursor \<Rightarrow> u64 \<Rightarrow> 's \<Rightarrow> (splitted_key_value \<times> 's) result option" where
  "sw_next_loop sx ops h c number s =
     (case split_next ops h c s of
        Inl e \<Rightarrow> Some (Throw e)
      | Inr (kv, s') \<Rightarrow>
          if skv_key2 kv = [] then Some (Ok (kv, s'))
          else (case load_u64_key sx (skv_key3 kv) of
              Inl e \<Rightarrow> Some (Throw e)
            | Inr block \<Rightarrow> if block < number then sw_next_loop sx ops h c number s' else Some (Ok (kv, s'))))"

text \<open>The second one: the entry of another location whose shard reaches the block.\<close>

partial_function (option) sw_next_location ::
  "state_ext \<Rightarrow> ('h, 's) tx_ops \<Rightarrow> 'h \<Rightarrow> split_cursor \<Rightarrow> u64 \<Rightarrow> bytes \<Rightarrow> u64 \<Rightarrow> bytes \<Rightarrow> splitted_key_value \<Rightarrow> 's \<Rightarrow>
     (splitted_key_value \<times> 's) result option" where
  "sw_next_location sx ops h c number tmp_loc block loc skv s =
     (if loc \<noteq> [] \<and> (tmp_loc = loc \<or> block < number)
      then (case split_next ops h c s of
          Inl e \<Rightarrow> Some (Throw e)
        | Inr (skv', s') \<Rightarrow>
            if skv_key2 skv' = [] then Some (Ok (skv', s'))
            else (case load_u64_key sx (skv_key3 skv') of
                Inl e \<Rightarrow> Some (Throw e)
              | Inr block' \<Rightarrow> sw_next_location sx ops h c number tmp_loc block' (skv_key2 skv') skv' s'))
      else Some (Ok (skv, s)))"

text \<open>
  The comparison of one pass of the loop: None ends the loop, otherwise whether the current state is before
  (\<open>-1\<close>), at (\<open>0\<close>) or after (\<open>1\<close>) the history.
\<close>

definition compare_bytes :: "bytes \<Rightarrow> bytes \<Rightarrow> int" where
  "compare_bytes x y = (if x < y then - 1 else if x = y then 0 else 1)"

definition sw_compare :: "splitted_key_value \<Rightarrow> splitted_key_value \<Rightarrow> bytes \<Rightarrow> int option" where
  "sw_compare ps_skv sh_skv h_loc =
     (if skv_key1 ps_skv = [] \<and> skv_key1 sh_skv = [] then None
      else let cmp = compare_bytes (skv_key1 ps_skv) (skv_key1 sh_skv) in
        if cmp = 0
        then if skv_key2 ps_skv = [] \<and> h_loc = [] then None else Some (compare_bytes (skv_key2 ps_skv) h_loc)
        else Some cmp)"

text \<open>
  What a pass hands to the collector. A value found in the history is handed over under the address and
  location of the current state, also when the location of the history is another one.
\<close>

definition sw_collect ::
  "state_ext \<Rightarrow> ('h, 's) tx_ops \<Rightarrow> 'h \<Rightarrow> (bytes \<Rightarrow> bytes \<Rightarrow> bytes \<Rightarrow> 'a \<Rightarrow> 'a \<times> bool) \<Rightarrow> u64 \<Rightarrow> bytes \<Rightarrow> u64 \<Rightarrow> int \<Rightarrow>
     splitted_key_value \<Rightarrow> splitted_key_value \<Rightarrow> bytes \<Rightarrow> 'a \<Rightarrow> 's \<Rightarrow> ('a \<times> bool \<times> 's) result" where
  "sw_collect sx ops cs collector block_number adr inc cmp ps_skv sh_skv h_loc a s =
     (if cmp < 0
      then (case collector (sx_to_evmc_address sx (skv_key1 ps_skv)) (skv_key2 ps_skv) (skv_value ps_skv) a of
          (a', go_on) \<Rightarrow> Ok (a', go_on, s))
      else bind_r (if skv_value sh_skv \<noteq> []
          then bind_r (sx_parse sx (skv_value sh_skv)) (\<lambda>bitmap. Ok (sx_seek sx bitmap block_number)) else Ok None) (\<lambda>found.
        case found of
          Some change_block \<Rightarrow>
            bind_r (op_seek_both ops cs (sx_storage_change_key sx change_block adr inc) h_loc s) (\<lambda>(data, s').
              if length data > kHashLength
              then (case collector (sx_to_evmc_address sx (skv_key1 ps_skv)) (skv_key2 ps_skv) (drop kHashLength data) a of
                  (a', go_on) \<Rightarrow> Ok (a', go_on, s'))
              else Ok (a, True, s'))
        | None \<Rightarrow>
            if cmp = 0
            then (case collector (sx_to_evmc_address sx (skv_key1 ps_skv)) (skv_key2 ps_skv) (skv_value ps_skv) a of
                (a', go_on) \<Rightarrow> Ok (a', go_on, s))
            else Ok (a, True, s)))"

partial_function (option) sw_loop ::
  "state_ext \<Rightarrow> ('h, 's) tx_ops \<Rightarrow> 'h \<Rightarrow> 'h \<Rightarrow> 'h \<Rightarrow> split_cursor \<Rightarrow> split_cursor \<Rightarrow>
     (bytes \<Rightarrow> bytes \<Rightarrow> bytes \<Rightarrow> 'a \<Rightarrow> 'a \<times> bool) \<Rightarrow> u64 \<Rightarrow> bytes \<Rightarrow> u64 \<Rightarrow>
     splitted_key_value \<Rightarrow> splitted_key_value \<Rightarrow> bytes \<Rightarrow> 'a \<Rightarrow> 's \<Rightarrow> ('a \<times> 's) result option" where
  "sw_loop sx ops ps sh cs psc shc collector block_number adr inc ps_skv sh_skv h_loc a s =
     (case sw_compare ps_skv sh_skv h_loc of
        None \<Rightarrow> Some (Ok (a, s))
      | Some cmp \<Rightarrow>
        (case sw_collect sx ops cs collector block_number adr inc cmp ps_skv sh_skv h_loc a s of
          Inl e \<Rightarrow> Some (Throw e)
        | Inr (a', go_on, s1) \<Rightarrow>
            if \<not> go_on then Some (Ok (a', s1))
            else (case (if cmp \<le> 0 then split_next_dup ops ps psc (of_nat kHashLength) s1 else Ok (ps_skv, s1)) of
                Inl e \<Rightarrow> Some (Throw e)
              | Inr (ps_skv', s2) \<Rightarrow>
                  if cmp \<ge> 0
                  then (case load_u64_key sx (skv_key3 sh_skv) of
                      Inl e \<Rightarrow> Some (Throw e)
                    | Inr block \<Rightarrow>
                      (case sw_next_location sx ops sh shc block_number h_loc block h_loc empty_skv s2 of
                        None \<Rightarrow> None
                      | Some (Inl e) \<Rightarrow> Some (Throw e)
                      | Some (Inr (sh_skv', s3)) \<Rightarrow>
                          sw_loop sx ops ps sh cs psc shc collector block_number adr inc ps_skv' sh_skv' (skv_key2 sh_skv') a' s3))
                  else sw_loop sx ops ps sh cs psc shc collector block_number adr inc ps_skv' sh_skv h_loc a' s2)))"

text \<open>The location of the history is set before the first entries are skipped and not after.\<close>

definition walk_of_storages ::
  "state_ext \<Rightarrow> ('h, 's) tx_ops \<Rightarrow> u64 \<Rightarrow> bytes \<Rightarrow> bytes \<Rightarrow> u64 \<Rightarrow> (bytes \<Rightarrow> bytes \<Rightarrow> bytes \<Rightarrow> 'a \<Rightarrow> 'a \<times> bool) \<Rightarrow> 'a \<Rightarrow> 's \<Rightarrow>
     ('a \<times> 's) result option" where
  "walk_of_storages sx ops block_number adr location_hash inc collector a s =
     (case
        bind_r (op_cursor ops ''PlainState'' True s) (\<lambda>(ps, s).
        bind_r (make_split_cursor (make_incarnation_key sx adr inc) (8 * (kAddressLength + 8)) kAddressLength (kAddressLength + 8) 0) (\<lambda>psc.
        bind_r (op_cursor ops ''StorageHistory'' False s) (\<lambda>(sh, s).
        bind_r (make_split_cursor (make_location_key adr location_hash) (8 * kAddressLength) kAddressLength kAddressLength
            (kAddressLength + kHashLength)) (\<lambda>shc.
        bind_r (split_seek_both ops ps psc location_hash (of_nat kHashLength) s) (\<lambda>(ps_skv, s).
        bind_r (split_seek ops sh shc s) (\<lambda>(sh_skv, s).
        bind_r (load_u64_key sx (skv_key3 sh_skv)) (\<lambda>block.
        bind_r (op_cursor ops ''StorageChangeSet'' True s) (\<lambda>(cs, s).
          Ok (ps, psc, sh, shc, cs, ps_skv, sh_skv, block, s))))))))) of
        Inl e \<Rightarrow> Some (Throw e)
      | Inr (ps, psc, sh, shc, cs, ps_skv, sh_skv, block, s) \<Rightarrow>
        (case (if block < block_number then sw_next_loop sx ops sh shc block_number s else Some (Ok (sh_skv, s))) of
          None \<Rightarrow> None
        | Some (Inl e) \<Rightarrow> Some (Throw e)
        | Some (Inr (sh_skv', s)) \<Rightarrow>
            sw_loop sx ops ps sh cs psc shc collector block_number adr inc ps_skv sh_skv' (skv_key2 sh_skv) a s))"

text \<open>\<^verbatim>\<open>storage.size() <= max_result\<close> compares in 64 bits without sign.\<close>

definition range_collector ::
  "state_ext \<Rightarrow> bytes \<Rightarrow> 16 word \<Rightarrow> bytes \<Rightarrow> bytes \<Rightarrow> bytes \<Rightarrow> storage_item list \<Rightarrow> storage_item list \<times> bool" where
  "range_collector sx adr max_result addr loc dat storage =
     (if addr \<noteq> adr then (storage, False)
      else if length dat = 0 then (storage, True)
      else let item = \<lparr>si_key = loc, si_sec_key = sx_hash_of sx loc, si_value = dat\<rparr> in
        if has_item item storage then (storage, True)
        else let storage = insert_item item storage in (storage, (of_nat (length storage) :: u64) \<le> scast max_result))"

definition storage_range_at ::
  "state_ext \<Rightarrow> ('h, 's) tx_ops \<Rightarrow> u64 \<Rightarrow> bytes \<Rightarrow> bytes \<Rightarrow> 16 word \<Rightarrow> (bytes \<Rightarrow> bytes \<Rightarrow> bytes \<Rightarrow> 'a \<Rightarrow> 'a) \<Rightarrow> 'a \<Rightarrow> 's \<Rightarrow>
     ('a \<times> 's) result option" where
  "storage_range_at sx ops block_number adr start_location max_result collector a s =
     (case td_get_one ops ''PlainState'' adr s of
        Inl e \<Rightarrow> Some (Throw e)
      | Inr (account_data, s) \<Rightarrow>
        (case sx_decode_account sx account_data of
          Inl err \<Rightarrow> Some (Throw (Runtime_error err))
        | Inr account \<Rightarrow>
          (case walk_of_storages sx ops (block_number + 1) adr start_location (ac_incarnation account)
              (range_collector sx adr max_result) [] s of
            None \<Rightarrow> None
          | Some (Inl e) \<Rightarrow> Some (Throw e)
          | Some (Inr (storage, s)) \<Rightarrow>
              Some (Ok (fold (\<lambda>item. collector (si_key item) (si_sec_key item) (si_value item)) storage a, s)))))"

end
