(* ===== verification/Walkers_Props.thy ===== *)
theory Walkers_Props
  imports Cursor_Frames Walkers State_Reader_Props
begin

text \<open>
  Walking over the accounts before a block hands the value that each account had then to the collector, in
  the order of the addresses, when the current state and the history end with the same account; it does not
  end when the history goes on after the current state. A walk over storage hands a value of the history
  over under the wrong location.
\<close>

section \<open>The cursors of a walk\<close>

definition skip_long :: "key_value list \<Rightarrow> key_value list" where
  "skip_long = dropWhile (\<lambda>e. length (kv_key e) > kAddressLength)"

definition shard_block :: "state_ext \<Rightarrow> key_value \<Rightarrow> u64" where
  "shard_block sx e = sx_load_big_u64 sx (drop kAddressLength (kv_key e))"

definition shard_address :: "key_value \<Rightarrow> bytes" where
  "shard_address e = take kAddressLength (kv_key e)"

definition history_key :: "key_value \<Rightarrow> bool" where
  "history_key e \<longleftrightarrow> length (kv_key e) = kAddressLength + 8"

text \<open>What an operation on one cursor leaves as it was.\<close>

definition kept :: "('s \<Rightarrow> string \<Rightarrow> key_value list option) \<Rightarrow> ('s \<Rightarrow> 'h \<Rightarrow> key_value list) \<Rightarrow> ('s \<Rightarrow> 'h \<Rightarrow> string \<Rightarrow> bool) \<Rightarrow> ('s \<Rightarrow> bool) \<Rightarrow>
    'h \<Rightarrow> 's \<Rightarrow> 's \<Rightarrow> bool" where
  "kept tab ahead on ok h s s' \<longleftrightarrow> ok s' \<and> tab s' = tab s \<and>
     (\<forall>h' t'. on s h' t' \<longrightarrow> h' \<noteq> h \<longrightarrow> on s' h' t' \<and> ahead s' h' = ahead s h')"

lemma kept_trans: "kept tab ahead on ok h s s1 \<Longrightarrow> kept tab ahead on ok h s1 s2 \<Longrightarrow> kept tab ahead on ok h s s2"
  unfolding kept_def by metis

text \<open>The split cursor of the account history, which matches every key.\<close>

definition history_cursor :: "bytes \<Rightarrow> split_cursor" where
  "history_cursor k = \<lparr>sc_key = k, sc_first_bytes = k, sc_last_bits = 0, sc_part1_end = kAddressLength, sc_part2_start = kAddressLength,
     sc_part3_start = kAddressLength + 8, sc_match_bytes = 0, sc_mask = 0xff\<rparr>"

lemma history_cursor_key: "sc_key (history_cursor k) = k"
  by (simp add: history_cursor_def)

lemma make_history_cursor: "make_split_cursor k 0 kAddressLength kAddressLength (kAddressLength + 8) = Ok (history_cursor k)"
  by (simp add: make_split_cursor_def history_cursor_def mask_of_def)

definition history_split :: "key_value \<Rightarrow> splitted_key_value" where
  "history_split e = split_key_value (history_cursor []) e"

lemma split_history_cursor: "split_key_value (history_cursor k) e = history_split e"
  by (simp add: history_split_def split_key_value_def match_key_def history_cursor_def Let_def)

lemma history_split_simps:
  "history_key e \<Longrightarrow> skv_key1 (history_split e) = shard_address e \<and> skv_key2 (history_split e) = drop kAddressLength (kv_key e) \<and>
     skv_value (history_split e) = kv_value e"
  "history_split (KV [] []) = empty_skv"
  by (auto simp: history_split_def history_cursor_def split_key_value_def match_key_def history_key_def shard_address_def Let_def)

lemma history_key_address: "history_key e \<Longrightarrow> shard_address e \<noteq> []"
  by (auto simp: history_key_def shard_address_def kAddressLength_def)

lemma history_key_block: "history_key e \<Longrightarrow> load_u64_key sx (skv_key2 (history_split e)) = Ok (shard_block sx e)"
  by (simp add: history_split_simps load_u64_key_def shard_block_def history_key_def)

lemma first_simps [simp]: "first [] = KV [] []" "first (x # xs) = x"
  by (simp_all add: first_def)

section \<open>The tables of a walk\<close>

text \<open>The current value of an account with a first value and later changes.\<close>

definition current :: "bytes \<Rightarrow> (u64 \<times> bytes) list \<Rightarrow> bytes" where
  "current fv events = last (fv # map snd events)"

text \<open>The rows of the current state, the rows of the history, and what a walk hands over, for accounts in order.\<close>

definition current_rows :: "(bytes \<Rightarrow> bytes) \<Rightarrow> (bytes \<Rightarrow> (u64 \<times> bytes) list) \<Rightarrow> bytes list \<Rightarrow> key_value list" where
  "current_rows fv ev as = map (\<lambda>a. KV a (current (fv a) (ev a))) (filter (\<lambda>a. current (fv a) (ev a) \<noteq> []) as)"

definition history_rows :: "(bytes \<Rightarrow> key_value list) \<Rightarrow> (bytes \<Rightarrow> (u64 \<times> bytes) list) \<Rightarrow> bytes list \<Rightarrow> key_value list" where
  "history_rows g ev as = concat (map g (filter (\<lambda>a. ev a \<noteq> []) as))"

definition rows_before :: "(bytes \<Rightarrow> bytes) \<Rightarrow> (bytes \<Rightarrow> (u64 \<times> bytes) list) \<Rightarrow> u64 \<Rightarrow> bytes list \<Rightarrow> key_value list" where
  "rows_before fv ev n as = map (\<lambda>a. KV a (value_before (fv a) (ev a) n)) (filter (\<lambda>a. value_before (fv a) (ev a) n \<noteq> []) as)"

text \<open>An account is there now or has changed, and its changes are in the index and in the change sets.\<close>

definition account_held ::
  "state_ext \<Rightarrow> key_value list \<Rightarrow> (bytes \<Rightarrow> key_value list) \<Rightarrow> (bytes \<Rightarrow> bytes) \<Rightarrow> (bytes \<Rightarrow> (u64 \<times> bytes) list) \<Rightarrow> bytes \<Rightarrow> bool" where
  "account_held sx cs g fv ev a \<longleftrightarrow> length a = kAddressLength \<and> sorted_wrt (<) (map fst (ev a)) \<and>
     (current (fv a) (ev a) \<noteq> [] \<or> ev a \<noteq> []) \<and> (ev a \<noteq> [] \<longrightarrow> sharded sx a (g a) (map fst (ev a))) \<and>
     (\<forall>(b, old) \<in> set (old_values (fv a) (ev a)). recorded cs (sx_block_key sx b) a old)"

definition low :: "state_ext \<Rightarrow> u64 \<Rightarrow> key_value \<Rightarrow> bool" where
  "low sx n e \<longleftrightarrow> shard_block sx e < n"

lemma filter_dropWhile: "filter P xs = x # r \<Longrightarrow> \<exists>ys. dropWhile (\<lambda>x. \<not> P x) xs = x # ys"
  by (induction xs) (auto split: if_splits)

lemma sharded_entries:
  assumes "keys_ok sx" "length a = kAddressLength" "sharded sx a es blocks" "e \<in> set es"
  shows "shard_address e = a \<and> history_key e"
proof -
  obtain shards where "list_all2 (\<lambda>e (u, bs). kv_key e = a @ sx_store_big_u64 sx u \<and> kv_value e \<noteq> [] \<and> sx_parse sx (kv_value e) = Ok bs) es shards"
    using assms(3) unfolding sharded_def by blast
  from list_all2_lengthD [OF this] list_all2_nthD [OF this] assms(4) obtain u where "kv_key e = a @ sx_store_big_u64 sx u"
    by (fastforce simp: in_set_conv_nth)
  then show ?thesis using assms(1,2) by (simp add: shard_address_def history_key_def keys_ok_def)
qed

text \<open>The first row of an account that reaches the block holds the first change at or after the block.\<close>

lemma sharded_head:
  assumes "keys_ok sx" "length a = kAddressLength" "sharded sx a es blocks"
  obtains z zs bs where "dropWhile (low sx n) es = z # zs" "shard_address z = a" "history_key z" "sx_parse sx (kv_value z) = Ok bs"
    "sx_seek sx bs n = find (\<lambda>b. n \<le> b) blocks" "\<forall>e \<in> set zs. shard_address e = a"
proof -
  let ?R = "\<lambda>e (u, bs). kv_key e = a @ sx_store_big_u64 sx u \<and> kv_value e \<noteq> [] \<and> sx_parse sx (kv_value e) = Ok bs"
  obtain shards where sh: "shards_ok shards" "concat (map snd shards) = blocks" and l: "list_all2 ?R es shards"
    using assms(3) unfolding sharded_def by blast
  obtain u bs rest where f: "filter (\<lambda>(u, _). n \<le> u) shards = (u, bs) # rest"
    "find (\<lambda>b. n \<le> b) bs = find (\<lambda>b. n \<le> b) blocks" using find_in_shard [OF sh(1), of n] sh(2) by blast
  then obtain ys where d: "dropWhile (\<lambda>x. \<not> (\<lambda>(u, _). n \<le> u) x) shards = (u, bs) # ys" using filter_dropWhile [OF f(1)] by auto
  have low: "low sx n e \<longleftrightarrow> \<not> n \<le> u'" if "kv_key e = a @ sx_store_big_u64 sx u'" for e u'
    using assms(1,2) that by (simp add: low_def shard_block_def keys_ok_def not_le)
  have "list_all2 ?R (dropWhile (low sx n) es) (dropWhile (\<lambda>x. \<not> (\<lambda>(u, _). n \<le> u) x) shards)"
    using l by (induction rule: list_all2_induct) (auto simp: low)
  then obtain z zs where z: "dropWhile (low sx n) es = z # zs" "sx_parse sx (kv_value z) = Ok bs" unfolding d by (auto simp: list_all2_Cons2)
  have "e \<in> set (z # zs) \<Longrightarrow> e \<in> set es" for e using z(1) set_dropWhileD by metis
  then have e: "e \<in> set (z # zs) \<Longrightarrow> shard_address e = a \<and> history_key e" for e using sharded_entries [OF assms] by blast
  show thesis using that [OF z(1) _ _ z(2)] e f(2) assms(1) by (auto simp: keys_ok_def)
qed

lemma history_rows_head:
  assumes "keys_ok sx" "\<forall>a \<in> set as. account_held sx cs g fv ev a" "a \<in> set as" "ev a \<noteq> []"
  obtains a1 z zs where "dropWhile (low sx n) (history_rows g ev as) = z # zs" "a1 \<in> set as" "shard_address z = a1" "history_key z"
proof -
  obtain a1 r where f: "filter (\<lambda>a. ev a \<noteq> []) as = a1 # r" using assms(3,4) by (metis (mono_tags, lifting) filter_empty_conv neq_Nil_conv)
  then have a1: "a1 \<in> set as" "ev a1 \<noteq> []" using filter_eq_ConsD [OF f] by auto
  then have "length a1 = kAddressLength" "sharded sx a1 (g a1) (map fst (ev a1))" using assms(2) by (auto simp: account_held_def)
  then obtain z zs where "dropWhile (low sx n) (g a1) = z # zs" "shard_address z = a1" "history_key z"
    using sharded_head [OF assms(1)] by metis
  moreover have "history_rows g ev as = g a1 @ concat (map g r)" by (simp add: history_rows_def f)
  ultimately show thesis using that a1 by (metis append_Cons dropWhile_append1 dropWhile_append3 dropWhile_eq_Nil_conv list.distinct(1) dropWhile_append)
qed

lemma history_rows_Cons:
  "ev a = [] \<Longrightarrow> history_rows g ev (a # as) = history_rows g ev as"
  "ev a \<noteq> [] \<Longrightarrow> history_rows g ev (a # as) = g a @ history_rows g ev as"
  by (simp_all add: history_rows_def)

lemma history_rows_mem:
  assumes "keys_ok sx" "\<forall>a \<in> set as. account_held sx cs g fv ev a" "e \<in> set (history_rows g ev as)"
  shows "shard_address e \<in> set as \<and> history_key e"
proof -
  obtain a where a: "a \<in> set as" "ev a \<noteq> []" "e \<in> set (g a)" using assms(3) by (auto simp: history_rows_def)
  then show ?thesis using sharded_entries [OF assms(1) _ _ a(3)] assms(2) by (fastforce simp: account_held_def)
qed

text \<open>Skipping the other rows of an account gives the rows of the accounts after it.\<close>

lemma skip_account:
  assumes "keys_ok sx" "\<forall>a \<in> set (a # as). account_held sx cs g fv ev a" "sorted_wrt (<) (a # as)" "ev a \<noteq> []"
  obtains z zs bs where "dropWhile (low sx n) (history_rows g ev (a # as)) = z # zs" "shard_address z = a" "history_key z"
    "sx_parse sx (kv_value z) = Ok bs" "sx_seek sx bs n = find (\<lambda>b. n \<le> b) (map fst (ev a))"
    "dropWhile (\<lambda>e. shard_address e = a \<or> shard_block sx e < n) zs = dropWhile (low sx n) (history_rows g ev as)"
proof -
  have "length a = kAddressLength" "sharded sx a (g a) (map fst (ev a))" using assms(2,4) by (auto simp: account_held_def)
  then obtain z zs bs where z: "dropWhile (low sx n) (g a) = z # zs" "shard_address z = a" "history_key z" "sx_parse sx (kv_value z) = Ok bs"
    "sx_seek sx bs n = find (\<lambda>b. n \<le> b) (map fst (ev a))" "\<forall>e \<in> set zs. shard_address e = a" using sharded_head [OF assms(1)] by metis
  let ?r = "history_rows g ev as"
  have "\<exists>e \<in> set (g a). \<not> low sx n e" using z(1) by (metis dropWhile_eq_Nil_conv list.distinct(1))
  then have "dropWhile (low sx n) (g a @ ?r) = z # (zs @ ?r)" using z(1) by (auto simp: dropWhile_append1)
  moreover have "dropWhile (\<lambda>e. shard_address e = a \<or> shard_block sx e < n) (zs @ ?r) = dropWhile (\<lambda>e. shard_address e = a \<or> shard_block sx e < n) ?r"
    using z(6) by (simp add: dropWhile_append2)
  moreover have "\<dots> = dropWhile (low sx n) ?r"
  proof (rule dropWhile_cong [OF refl])
    fix e assume "e \<in> set ?r"
    then have "shard_address e \<in> set as" using history_rows_mem [OF assms(1)] assms(2) by (metis list.set_intros(2))
    then show "(shard_address e = a \<or> shard_block sx e < n) = low sx n e" using assms(3) by (auto simp: low_def)
  qed
  ultimately show thesis using that [of z "zs @ ?r" bs] z history_rows_Cons(2) [of ev a, OF assms(4)] by simp
qed

abbreviation short :: "key_value \<Rightarrow> bool" where
  "short e \<equiv> length (kv_key e) \<le> kAddressLength"

lemma skip_long_idem: "skip_long (skip_long ys) = skip_long ys"
  by (simp add: skip_long_def dropWhile_idem)

lemma filter_skip_long: "filter short (skip_long ys) = filter short ys"
  by (induction ys) (auto simp: skip_long_def)

lemma skip_long_head:
  assumes "skip_long ys = ys" "filter short ys = r # rs"
  obtains ys' where "ys = r # ys'" "filter short ys' = rs"
proof -
  obtain y ys' where ys: "ys = y # ys'" using assms(2) by (cases ys) auto
  then have "short y" using assms(1) by (auto simp: skip_long_def not_less dest: dropWhile_eq_Cons_conv [THEN iffD1] split: if_splits)
  then show thesis using that assms(2) ys by auto
qed

text \<open>The first account row, when an account is the first that is left.\<close>

lemma first_account:
  assumes "sorted_wrt (<) (a # as)" "current (fv (last (a # as))) (ev (last (a # as))) \<noteq> []" "skip_long ys = ys"
    "filter short ys = current_rows fv ev (a # as)"
  obtains y where "first ys = y" "\<not> kv_key y < a"
    "if current (fv a) (ev a) = [] then kv_key y \<noteq> a else y = KV a (current (fv a) (ev a))" "kv_key y \<le> a \<longleftrightarrow> current (fv a) (ev a) \<noteq> []"
    "current (fv a) (ev a) \<noteq> [] \<longrightarrow> filter short (tl ys) = current_rows fv ev as"
    "current (fv a) (ev a) = [] \<longrightarrow> filter short ys = current_rows fv ev as"
proof (cases "current (fv a) (ev a) = []")
  case True
  then have r: "filter short ys = current_rows fv ev as" using assms(4) by (simp add: current_rows_def)
  have "last as \<in> set as" "current (fv (last as)) (ev (last as)) \<noteq> []" using assms(2) True by (cases "as = []"; simp)+
  then obtain a1 rs where f: "filter (\<lambda>a. current (fv a) (ev a) \<noteq> []) as = a1 # rs" by (metis (mono_tags, lifting) filter_empty_conv neq_Nil_conv)
  then have "a1 \<in> set as" using filter_eq_ConsD [OF f] by auto
  then have "a < a1" using assms(1) by simp
  obtain ys' where "ys = KV a1 (current (fv a1) (ev a1)) # ys'"
    using skip_long_head [OF assms(3), of "KV a1 (current (fv a1) (ev a1))"] r f by (auto simp: current_rows_def)
  then show thesis using that True r \<open>a < a1\<close> by auto
next
  case False
  then obtain ys' where "ys = KV a (current (fv a) (ev a)) # ys'" "filter short ys' = current_rows fv ev as"
    using skip_long_head [OF assms(3), of "KV a (current (fv a) (ev a))" "current_rows fv ev as"] assms(4) by (auto simp: current_rows_def)
  then show thesis using that False by auto
qed

lemma le_append_same_length:
  assumes "length p = length (a :: bytes)"
  shows "p \<le> a @ x \<longleftrightarrow> p \<le> a"
  using assms by (induction p a rule: list_induct2) (simp_all add: Cons_le_Cons)

lemma history_rows_from:
  assumes "keys_ok sx" "\<forall>a \<in> set as. account_held sx cs g fv ev a" "length start = kAddressLength" "sorted_wrt kv_le (history_rows g ev as)"
  shows "from_key start (history_rows g ev as) = history_rows g ev (filter (\<lambda>a. start \<le> a) as)"
proof -
  have "filter (\<lambda>e. start \<le> kv_key e) (history_rows g ev as) = history_rows g ev (filter (\<lambda>a. start \<le> a) as)"
    using assms(2)
  proof (induction as)
    case (Cons a as)
    have k: "start \<le> kv_key e \<longleftrightarrow> start \<le> a" if "ev a \<noteq> []" "e \<in> set (g a)" for e
    proof -
      have a: "length a = kAddressLength" "sharded sx a (g a) (map fst (ev a))" using Cons.prems that(1) by (simp_all add: account_held_def)
      from sharded_entries [OF assms(1) this that(2)] have "kv_key e = a @ drop kAddressLength (kv_key e)"
        by (metis append_take_drop_id shard_address_def)
      then show ?thesis using le_append_same_length [of start a] assms(3) a(1) by metis
    qed
    show ?case
    proof (cases "ev a = []")
      case False
      then have "filter (\<lambda>e. start \<le> kv_key e) (g a) = (if start \<le> a then g a else [])"
        using k [OF False] by (auto simp: filter_id_conv filter_empty_conv)
      then show ?thesis using Cons False by (simp add: history_rows_def)
    qed (use Cons in \<open>simp add: history_rows_def\<close>)
  qed (simp add: history_rows_def)
  then show ?thesis using from_key_filter [OF assms(4)] by simp
qed

lemma current_rows_from:
  assumes "filter short es = current_rows fv ev as" "sorted_wrt kv_le es"
  shows "filter short (from_key start es) = current_rows fv ev (filter (\<lambda>a. start \<le> a) as)"
proof -
  have "filter short (from_key start es) = filter (\<lambda>e. start \<le> kv_key e) (filter short es)"
    by (simp add: from_key_filter [OF assms(2)] conj_commute)
  also have "\<dots> = current_rows fv ev (filter (\<lambda>a. start \<le> a) as)"
    unfolding assms(1) current_rows_def by (simp add: filter_map o_def conj_commute)
  finally show ?thesis .
qed

context cursors
begin

lemma next_step:
  assumes "inv s" "on s h t" "tab s t = Some es"
  obtains s' where "op_next ops h s = Ok (first (tl (ahead s h)), s')" "on s' h t" "ahead s' h = tl (ahead s h)"
    "kept tab ahead on inv h s s'"
  using nxt [OF assms] next_frame [OF assms] unfolding kept_def by metis

lemma aw_next_skips:
  assumes "inv s" "on s h t" "tab s t = Some es"
  shows "\<exists>s'. aw_next ops h kAddressLength s = Some (Ok (first (skip_long (tl (ahead s h))), s')) \<and> on s' h t \<and>
    ahead s' h = skip_long (tl (ahead s h)) \<and> kept tab ahead on inv h s s'"
  using assms
proof (induction "tl (ahead s h)" arbitrary: s)
  case Nil
  obtain s' where "op_next ops h s = Ok (first (tl (ahead s h)), s')" "on s' h t" "ahead s' h = tl (ahead s h)"
    "kept tab ahead on inv h s s'" by (rule next_step [OF Nil(2-4)])
  then show ?case using Nil(1) by (subst aw_next.simps) (auto simp: skip_long_def Nil(1) [symmetric])
next
  case (Cons x xs)
  obtain s1 where s1: "op_next ops h s = Ok (first (tl (ahead s h)), s1)" "on s1 h t" "ahead s1 h = tl (ahead s h)"
    "kept tab ahead on inv h s s1" by (rule next_step [OF Cons.prems])
  show ?case
  proof (cases "length (kv_key x) > kAddressLength")
    case True
    have "xs = tl (ahead s1 h)" "inv s1" "tab s1 t = Some es"
      using s1(3,4) Cons.hyps(2) Cons.prems(3) by (auto simp: kept_def) (metis list.sel(3))
    from Cons.hyps(1) [OF this(1,2) s1(2) this(3)] obtain s2 where s2: "aw_next ops h kAddressLength s1 = Some (Ok (first (skip_long xs), s2))" "on s2 h t"
      "ahead s2 h = skip_long xs" "kept tab ahead on inv h s1 s2" using \<open>xs = tl (ahead s1 h)\<close> by metis
    moreover have "skip_long (tl (ahead s h)) = skip_long xs" using True Cons.hyps(2) by (simp add: skip_long_def flip: Cons.hyps(2))
    moreover have "kv_key x \<noteq> []" using True by auto
    ultimately show ?thesis using True s1(1) kept_trans [OF s1(4) s2(4)]
      by (subst aw_next.simps) (simp flip: Cons.hyps(2))
  next
    case False
    then have "skip_long (tl (ahead s h)) = tl (ahead s h)" by (simp add: skip_long_def flip: Cons.hyps(2))
    then show ?thesis using False s1 by (subst aw_next.simps) (auto simp flip: Cons.hyps(2))
  qed
qed

lemma split_next_step:
  assumes "inv s" "on s h t" "tab s t = Some es"
  obtains s' where "split_next ops h (history_cursor k) s = Ok (history_split (first (tl (ahead s h))), s')" "on s' h t"
    "ahead s' h = tl (ahead s h)" "kept tab ahead on inv h s s'"
proof -
  obtain s' where "op_next ops h s = Ok (first (tl (ahead s h)), s')" "on s' h t" "ahead s' h = tl (ahead s h)"
    "kept tab ahead on inv h s s'" by (rule next_step [OF assms])
  then show thesis using that by (simp add: split_next_def split_history_cursor)
qed

lemma aw_split_next_skips:
  fixes sx :: state_ext
  assumes "inv s" "on s h t" "tab s t = Some es" "\<forall>e \<in> set (ahead s h). history_key e"
    and "addr \<noteq> []" "a = addr \<or> block < n"
  defines "P \<equiv> \<lambda>e. shard_address e = a \<or> shard_block sx e < n"
  shows "\<exists>s'. aw_split_next sx ops h (history_cursor k) n a block addr skv s = Some (Ok (history_split (first (dropWhile P (tl (ahead s h)))), s')) \<and>
    on s' h t \<and> ahead s' h = dropWhile P (tl (ahead s h)) \<and> kept tab ahead on inv h s s'"
  using assms(1-6)
proof (induction "tl (ahead s h)" arbitrary: s block addr skv)
  case Nil
  obtain s' where "split_next ops h (history_cursor k) s = Ok (history_split (first (tl (ahead s h))), s')" "on s' h t"
    "ahead s' h = tl (ahead s h)" "kept tab ahead on inv h s s'" by (rule split_next_step [OF Nil.prems(1-3)])
  then show ?case using Nil.prems(5,6) by (subst aw_split_next.simps) (auto simp: history_split_simps empty_skv_def simp flip: Nil.hyps)
next
  case (Cons x xs)
  obtain s1 where s1: "split_next ops h (history_cursor k) s = Ok (history_split (first (tl (ahead s h))), s1)" "on s1 h t"
    "ahead s1 h = tl (ahead s h)" "kept tab ahead on inv h s s1" by (rule split_next_step [OF Cons.prems(1-3)])
  have tl1: "tl (ahead s h) = x # xs" using Cons.hyps(2) by simp
  have "x \<in> set (ahead s h)" using tl1 by (metis list.sel(2) list.set_intros(1) list.set_sel(2) list.distinct(1))
  then have x: "history_key x" using Cons.prems(4) by blast
  note xs = history_split_simps(1) [OF x] history_key_address [OF x] history_key_block [OF x, of sx]
  have unf: "aw_split_next sx ops h (history_cursor k) n a block addr skv s =
      aw_split_next sx ops h (history_cursor k) n a (shard_block sx x) (shard_address x) (history_split x) s1"
    using Cons.prems(5,6) s1(1) xs by (subst aw_split_next.simps) (auto simp: tl1)
  show ?case
  proof (cases "P x")
    case True
    have p: "xs = tl (ahead s1 h)" "inv s1" "tab s1 t = Some es" using s1(3,4) tl1 Cons.prems(3) by (auto simp: kept_def)
    have "\<forall>e \<in> set (ahead s1 h). history_key e" using Cons.prems(4) s1(3) by (metis list.sel(2) list.set_sel(2))
    from Cons.hyps(1) [OF p(1,2) s1(2) p(3) this, of "shard_address x" "shard_block sx x" "history_split x"] True xs(2)
    obtain s2 where "aw_split_next sx ops h (history_cursor k) n a (shard_block sx x) (shard_address x) (history_split x) s1 =
        Some (Ok (history_split (first (dropWhile P xs)), s2))" "on s2 h t" "ahead s2 h = dropWhile P xs" "kept tab ahead on inv h s1 s2"
      using p(1) unfolding P_def by auto
    then show ?thesis using True kept_trans [OF s1(4)] unf by (auto simp: tl1)
  next
    case False
    then have "aw_split_next sx ops h (history_cursor k) n a (shard_block sx x) (shard_address x) (history_split x) s1 = Some (Ok (history_split x, s1))"
      by (subst aw_split_next.simps) (auto simp: P_def)
    then show ?thesis using False s1(2-4) unf by (auto simp: tl1)
  qed
qed

lemma aw_seek_loop_skips:
  fixes sx :: state_ext and n :: u64
  assumes "inv s" "on s h t" "tab s t = Some es" "\<forall>e \<in> set (ahead s h). history_key e" "ahead s h = y # ys"
  defines "P \<equiv> \<lambda>e. shard_block sx e < n"
  shows "\<exists>s'. aw_split_seek_loop sx ops h (history_cursor k) n (shard_block sx y) (history_split y) s =
      Some (Ok (history_split (first (dropWhile P (ahead s h))), s')) \<and>
    on s' h t \<and> ahead s' h = dropWhile P (ahead s h) \<and> kept tab ahead on inv h s s'"
  using assms(1-5)
proof (induction ys arbitrary: s y)
  case Nil
  obtain s' where s': "split_next ops h (history_cursor k) s = Ok (history_split (first (tl (ahead s h))), s')" "on s' h t"
    "ahead s' h = tl (ahead s h)" "kept tab ahead on inv h s s'" by (rule split_next_step [OF Nil.prems(1-3)])
  show ?case
  proof (cases "P y")
    case True
    then show ?thesis using s' Nil.prems(5)
      by (subst aw_split_seek_loop.simps) (auto simp: P_def history_split_simps empty_skv_def)
  next
    case False
    then show ?thesis using Nil.prems by (subst aw_split_seek_loop.simps) (auto simp: P_def kept_def)
  qed
next
  case (Cons z zs)
  obtain s1 where s1: "split_next ops h (history_cursor k) s = Ok (history_split (first (tl (ahead s h))), s1)" "on s1 h t"
    "ahead s1 h = tl (ahead s h)" "kept tab ahead on inv h s s1" by (rule split_next_step [OF Cons.prems(1-3)])
  have z: "history_key z" using Cons.prems(4,5) by simp
  show ?case
  proof (cases "P y")
    case True
    have p: "ahead s1 h = z # zs" "inv s1" "tab s1 t = Some es" "\<forall>e \<in> set (ahead s1 h). history_key e"
      using s1(3,4) Cons.prems(3,4,5) by (auto simp: kept_def)
    from Cons.IH [OF p(2) s1(2) p(3,4,1)] obtain s2 where
      s2: "aw_split_seek_loop sx ops h (history_cursor k) n (shard_block sx z) (history_split z) s1 = Some (Ok (history_split (first (dropWhile P (z # zs))), s2))"
      "on s2 h t" "ahead s2 h = dropWhile P (z # zs)" "kept tab ahead on inv h s1 s2" using p(1) by auto
    have "skv_key2 (history_split z) \<noteq> []" using z by (auto simp: history_split_simps(1) [OF z] history_key_def)
    then have "aw_split_seek_loop sx ops h (history_cursor k) n (shard_block sx y) (history_split y) s =
        aw_split_seek_loop sx ops h (history_cursor k) n (shard_block sx z) (history_split z) s1"
      using True s1(1) Cons.prems(5) history_key_block [OF z, of sx] by (subst aw_split_seek_loop.simps) (simp add: P_def)
    then show ?thesis using True s2 kept_trans [OF s1(4)] Cons.prems(5) by auto
  next
    case False
    then show ?thesis using Cons.prems by (subst aw_split_seek_loop.simps) (auto simp: P_def kept_def)
  qed
qed

text \<open>At an account with history a pass hands over the value before the block, if there is one.\<close>

lemma collect_history:
  assumes "keys_ok sx" "inv s" "on s acs t" "tab s t = Some cs" "account_held sx cs g fv ev a"
    and "history_key z" "shard_address z = a" "sx_parse sx (kv_value z) = Ok bs" "sx_seek sx bs n = find (\<lambda>b. n \<le> b) (map fst (ev a))"
    and "\<not> kv_key y < a" "if current (fv a) (ev a) = [] then kv_key y \<noteq> a else y = KV a (current (fv a) (ev a))"
  defines "v \<equiv> value_before (fv a) (ev a) n"
  shows "\<exists>s'. aw_collect sx ops acs col n y (history_split z) acc s =
      (if v = [] then Ok (acc, True, s') else case col a v acc of (acc', go) \<Rightarrow> Ok (acc', go, s')) \<and> on s' acs t \<and> kept tab ahead on inv acs s s'"
proof -
  have sorted: "sorted_wrt (<) (map fst (ev a))" and len: "length a = kAddressLength" using assms(5) by (auto simp: account_held_def)
  note z = history_split_simps(1) [OF assms(6)]
  have v: "v = (case find (\<lambda>(b, _). n \<le> b) (old_values (fv a) (ev a)) of Some (_, old) \<Rightarrow> old | None \<Rightarrow> current (fv a) (ev a))"
    unfolding v_def find_old_value [OF sorted] current_def ..
  have keep: "on s acs t" "kept tab ahead on inv acs s s" using assms(2,3) by (simp_all add: kept_def)
  show ?thesis
  proof (cases "find (\<lambda>(b, _). n \<le> b) (old_values (fv a) (ev a))")
    case None
    then show ?thesis using keep v z assms(7-11) by (auto simp: aw_collect_def find_old_block [of n "ev a" "fv a"] split: prod.splits if_splits)
  next
    case (Some bo)
    obtain b old where bo: "bo = (b, old)" by fastforce
    then have "(b, old) \<in> set (old_values (fv a) (ev a))" using Some by (metis find_Some_iff nth_mem)
    then have "recorded cs (sx_block_key sx b) a old" using assms(5) by (auto simp: account_held_def)
    from seek_both [OF assms(2-4), of "sx_block_key sx b" a] seek_both_frame [OF assms(2-4)] recorded_seek [OF this]
    obtain s' where "op_seek_both ops acs (sx_block_key sx b) a s = Ok (a @ old, s')" "on s' acs t" "kept tab ahead on inv acs s s'"
      unfolding kept_def by metis
    then show ?thesis using Some bo v z len assms(7-10)
      by (auto simp: aw_collect_def find_old_block [of n "ev a" "fv a"] split: prod.splits)
  qed
qed

text \<open>
  The state of the loop when the accounts \<open>as\<close> are left: the cursor of the current state is at the first account
  row, the cursor of the history at the first row that reaches the block.
\<close>

lemma walk_step_without_history:
  assumes "keys_ok sx" "sorted_wrt (<) (a # as)" "\<forall>a \<in> set (a # as). account_held sx cs g fv ev a" "ev a = []"
    and "ev (last (a # as)) \<noteq> []" "inv s" "tab s ''PlainState'' = Some pst" "on s ps ''PlainState''"
    and "ahead s ps = ys" "skip_long ys = ys" "filter short ys = current_rows fv ev (a # as)"
    and "ahead s ah = dropWhile (low sx n) (history_rows g ev (a # as))"
    and "col a (current (fv a) (ev a)) acc = (acc', go)"
  obtains s1 ys1 where "aw_loop sx ops ps ah acs (history_cursor k) col n (first ys) (history_split (first (ahead s ah))) acc s =
      (if go then aw_loop sx ops ps ah acs (history_cursor k) col n (first ys1) (history_split (first (ahead s ah))) acc' s1 else Some (Ok (acc', s)))"
    "on s1 ps ''PlainState''" "ahead s1 ps = ys1" "skip_long ys1 = ys1" "filter short ys1 = current_rows fv ev as" "kept tab ahead on inv ps s s1"
proof -
  have cur: "current (fv a) (ev a) \<noteq> []" using assms(3,4) by (simp add: account_held_def)
  then obtain ys' where ys: "ys = KV a (current (fv a) (ev a)) # ys'" "filter short ys' = current_rows fv ev as"
    using skip_long_head [OF assms(10), of "KV a (current (fv a) (ev a))" "current_rows fv ev as"] assms(11) by (auto simp: current_rows_def)
  have "as \<noteq> []" using assms(4,5) by auto
  then have "last as \<in> set as" "ev (last as) \<noteq> []" using assms(5) by auto
  then obtain a1 z zs where z: "dropWhile (low sx n) (history_rows g ev as) = z # zs" "a1 \<in> set as" "shard_address z = a1" "history_key z"
    using history_rows_head [OF assms(1)] assms(3) by (metis list.set_intros(2))
  then have h: "ahead s ah = z # zs" using assms(12) history_rows_Cons(1) [of ev a, OF assms(4)] by simp
  have "a < a1" using assms(2) z(2) by simp
  then have key: "skv_key1 (history_split z) = a1" "a < a1" "\<not> a1 \<le> a" "a \<le> a1" using z(3) history_split_simps(1) [OF z(4)] by auto
  obtain s1 where s1: "aw_next ops ps kAddressLength s = Some (Ok (first (skip_long ys'), s1))" "on s1 ps ''PlainState''"
      "ahead s1 ps = skip_long ys'" "kept tab ahead on inv ps s s1"
    using aw_next_skips [OF assms(6,8,7)] assms(9) ys(1) by auto
  have "a1 \<noteq> []" using key(2) by auto
  then have "aw_loop sx ops ps ah acs (history_cursor k) col n (first ys) (history_split (first (ahead s ah))) acc s =
      (if go then aw_loop sx ops ps ah acs (history_cursor k) col n (first (skip_long ys')) (history_split (first (ahead s ah))) acc' s1 else Some (Ok (acc', s)))"
    using key s1(1) assms(13) ys(1) h by (subst aw_loop.simps) (simp add: aw_collect_def)
  then show thesis using that s1 skip_long_idem filter_skip_long ys(2) by metis
qed

lemma walk_step_with_history:
  assumes "keys_ok sx" "sorted_wrt (<) (a # as)" "\<forall>a \<in> set (a # as). account_held sx cs g fv ev a" "ev a \<noteq> []"
    and "current (fv (last (a # as))) (ev (last (a # as))) \<noteq> []"
    and "inv s" "tab s ''PlainState'' = Some pst" "tab s ''AccountHistory'' = Some aht" "tab s ''AccountChangeSet'' = Some cs"
    and "on s ps ''PlainState''" "on s ah ''AccountHistory''" "on s acs ''AccountChangeSet''"
    and "ahead s ps = ys" "skip_long ys = ys" "filter short ys = current_rows fv ev (a # as)"
    and "ahead s ah = dropWhile (low sx n) (history_rows g ev (a # as))"
    and "(if value_before (fv a) (ev a) n = [] then (acc, True) else col a (value_before (fv a) (ev a) n) acc) = (acc', go)"
  obtains s1 s3 ys1 where "aw_loop sx ops ps ah acs (history_cursor k) col n (first ys) (history_split (first (ahead s ah))) acc s =
      (if go then aw_loop sx ops ps ah acs (history_cursor k) col n (first ys1) (history_split (first (ahead s3 ah))) acc' s3 else Some (Ok (acc', s1)))"
    "inv s1" "tab s1 = tab s" "inv s3" "tab s3 = tab s" "on s3 ps ''PlainState''" "on s3 ah ''AccountHistory''" "on s3 acs ''AccountChangeSet''"
    "ahead s3 ps = ys1" "skip_long ys1 = ys1" "filter short ys1 = current_rows fv ev as" "ahead s3 ah = dropWhile (low sx n) (history_rows g ev as)"
proof -
  have neq: "ps \<noteq> ah" "acs \<noteq> ps" "acs \<noteq> ah" using on_table assms(10-12) by blast+
  let ?cur = "current (fv a) (ev a)"
  obtain y where y: "first ys = y" "\<not> kv_key y < a" "if ?cur = [] then kv_key y \<noteq> a else y = KV a ?cur" "kv_key y \<le> a \<longleftrightarrow> ?cur \<noteq> []"
      and rest: "?cur \<noteq> [] \<longrightarrow> filter short (tl ys) = current_rows fv ev as" "?cur = [] \<longrightarrow> filter short ys = current_rows fv ev as"
    by (rule first_account [OF assms(2,5,14,15)])
  obtain z zs bs where z: "dropWhile (low sx n) (history_rows g ev (a # as)) = z # zs" "shard_address z = a" "history_key z"
    "sx_parse sx (kv_value z) = Ok bs" "sx_seek sx bs n = find (\<lambda>b. n \<le> b) (map fst (ev a))"
    "dropWhile (\<lambda>e. shard_address e = a \<or> shard_block sx e < n) zs = dropWhile (low sx n) (history_rows g ev as)"
    by (rule skip_account [where ev = ev, OF assms(1,3,2,4)])
  have held: "account_held sx cs g fv ev a" using assms(3) by simp
  obtain s1 where s1: "aw_collect sx ops acs col n y (history_split z) acc s = Ok (acc', go, s1)" "kept tab ahead on inv acs s s1"
      "on s1 acs ''AccountChangeSet''"
    using collect_history [OF assms(1,6,12,9) held z(3,2,4,5) y(2,3), of col acc] assms(17)
    by (auto split: if_splits)
  have k1: "inv s1" "tab s1 = tab s" "on s1 ps ''PlainState''" "ahead s1 ps = ys" "on s1 ah ''AccountHistory''" "ahead s1 ah = z # zs"
    using s1(2) assms(10,11,13,16) neq z(1) unfolding kept_def by metis+
  obtain s2 ys1 where s2: "(if kv_key y \<le> a then aw_next ops ps kAddressLength s1 else Some (Ok (y, s1))) = Some (Ok (first ys1, s2))"
      "on s2 ps ''PlainState''" "ahead s2 ps = ys1" "skip_long ys1 = ys1" "filter short ys1 = current_rows fv ev as" "kept tab ahead on inv ps s1 s2"
  proof (cases "?cur = []")
    case True
    then show thesis using that [of ys s1] y rest(2) k1 assms(14) by (auto simp: kept_def)
  next
    case False
    have "tab s1 ''PlainState'' = Some pst" using k1(2) assms(7) by simp
    from aw_next_skips [OF k1(1,3) this] k1(4) obtain s2 where "aw_next ops ps kAddressLength s1 = Some (Ok (first (skip_long (tl ys)), s2))"
      "on s2 ps ''PlainState''" "ahead s2 ps = skip_long (tl ys)" "kept tab ahead on inv ps s1 s2" by auto
    moreover have "filter short (skip_long (tl ys)) = current_rows fv ev as" using rest(1) False by (simp add: filter_skip_long)
    moreover have "kv_key y \<le> a" using y(4) False by simp
    ultimately show thesis using that [of "skip_long (tl ys)" s2] skip_long_idem by simp
  qed
  have k2: "inv s2" "tab s2 = tab s" "on s2 ah ''AccountHistory''" "ahead s2 ah = z # zs" "on s2 acs ''AccountChangeSet''"
    using s2(6) k1 neq s1(3) unfolding kept_def by metis+
  have hk: "\<forall>e \<in> set (ahead s2 ah). history_key e"
  proof
    fix e assume "e \<in> set (ahead s2 ah)"
    then have "e \<in> set (history_rows g ev (a # as))" using k2(4) z(1) set_dropWhileD by metis
    then show "history_key e" using history_rows_mem [OF assms(1,3)] by blast
  qed
  have a: "a \<noteq> []" using history_key_address [OF z(3)] z(2) by simp
  have "tab s2 ''AccountHistory'' = Some aht" using k2(2) assms(8) by simp
  from aw_split_next_skips [where a = a and addr = a and n = n and sx = sx, OF k2(1,3) this hk a, of "shard_block sx z" k empty_skv]
  obtain s3 where s3: "aw_split_next sx ops ah (history_cursor k) n a (shard_block sx z) a empty_skv s2 = Some (Ok (history_split (first (ahead s3 ah)), s3))"
    "on s3 ah ''AccountHistory''" "ahead s3 ah = dropWhile (low sx n) (history_rows g ev as)" "kept tab ahead on inv ah s2 s3"
    using k2(4) z(6) by auto
  have k3: "inv s3" "tab s3 = tab s" "on s3 ps ''PlainState''" "ahead s3 ps = ys1" "on s3 acs ''AccountChangeSet''"
    using s3(4) k2 s2(2,3) neq unfolding kept_def by metis+
  have key: "skv_key1 (history_split z) = a" "load_u64_key sx (skv_key2 (history_split z)) = Ok (shard_block sx z)" "a \<le> kv_key y"
    using history_split_simps(1) [OF z(3)] z(2) history_key_block [OF z(3), of sx] y(2) by auto
  have "aw_loop sx ops ps ah acs (history_cursor k) col n (first ys) (history_split (first (ahead s ah))) acc s =
      (if go then aw_loop sx ops ps ah acs (history_cursor k) col n (first ys1) (history_split (first (ahead s3 ah))) acc' s3 else Some (Ok (acc', s1)))"
    unfolding y(1) assms(16) z(1) first_simps
    by (subst aw_loop.simps) (simp only: key a s1(1) s2(1) s3(1) sum.case prod.case option.case if_True if_False simp_thms cong: if_cong; simp)
  then show thesis by (rule that [OF _ k1(1,2) k3(1-3) s3(2) k3(5,4) s2(4,5) s3(3)])
qed

text \<open>The loop over the accounts that are left.\<close>

lemma aw_loop_walks:
  assumes "keys_ok sx" "sorted_wrt (<) as" "\<forall>a \<in> set as. account_held sx cs g fv ev a"
    and "as \<noteq> [] \<longrightarrow> current (fv (last as)) (ev (last as)) \<noteq> [] \<and> ev (last as) \<noteq> []"
    and "inv s" "tab s ''PlainState'' = Some pst" "tab s ''AccountHistory'' = Some aht" "tab s ''AccountChangeSet'' = Some cs"
    and "on s ps ''PlainState''" "on s ah ''AccountHistory''" "on s acs ''AccountChangeSet''"
    and "ahead s ps = ys" "skip_long ys = ys" "filter short ys = current_rows fv ev as"
    and "ahead s ah = dropWhile (low sx n) (history_rows g ev as)"
  shows "\<exists>s'. aw_loop sx ops ps ah acs (history_cursor k) col n (first ys) (history_split (first (ahead s ah))) acc s =
      Some (Ok (walk_list (\<lambda>e. col (kv_key e) (kv_value e)) (rows_before fv ev n as) acc, s')) \<and> inv s' \<and> tab s' = tab s"
  using assms(2-)
proof (induction as arbitrary: s ys acc)
  case Nil
  have "ys = []"
  proof (rule ccontr)
    assume "ys \<noteq> []"
    then obtain y ys' where "ys = y # ys'" by (cases ys) auto
    then show False using Nil.prems(12,13) by (auto simp: current_rows_def filter_empty_conv skip_long_def dropWhile_eq_Cons_conv split: if_splits)
  qed
  then show ?case using Nil.prems(4,14) by (subst aw_loop.simps) (simp add: history_rows_def rows_before_def history_split_simps empty_skv_def)
next
  case (Cons a as)
  have neq: "ps \<noteq> ah" "acs \<noteq> ps" "acs \<noteq> ah" using on_table Cons.prems(8-10) by blast+
  have held: "account_held sx cs g fv ev a" using Cons.prems(2) by simp
  show ?case
  proof (cases "ev a = []")
    case True
    obtain acc' go where c: "col a (current (fv a) (ev a)) acc = (acc', go)" by fastforce
    have l: "ev (last (a # as)) \<noteq> []" using Cons.prems(3) by simp
    obtain s1 ys1 where s1: "aw_loop sx ops ps ah acs (history_cursor k) col n (first ys) (history_split (first (ahead s ah))) acc s =
        (if go then aw_loop sx ops ps ah acs (history_cursor k) col n (first ys1) (history_split (first (ahead s ah))) acc' s1 else Some (Ok (acc', s)))"
      "on s1 ps ''PlainState''" "ahead s1 ps = ys1" "skip_long ys1 = ys1" "filter short ys1 = current_rows fv ev as" "kept tab ahead on inv ps s s1"
      by (rule walk_step_without_history [where a = a and as = as and ev = ev and fv = fv and g = g and col = col and acc = acc and acs = acs and k = k, OF assms(1) Cons.prems(1,2) True l Cons.prems(4,5,8,11-14) c])
    have k: "inv s1" "tab s1 = tab s" "on s1 ah ''AccountHistory''" "on s1 acs ''AccountChangeSet''" "ahead s1 ah = ahead s ah"
      using s1(6) Cons.prems(9,10) neq unfolding kept_def by metis+
    have "value_before (fv a) (ev a) n = current (fv a) (ev a)" "current (fv a) (ev a) \<noteq> []"
      using True held by (simp_all add: value_before_def current_def account_held_def)
    then have "walk_list (\<lambda>e. col (kv_key e) (kv_value e)) (rows_before fv ev n (a # as)) acc =
        (if go then walk_list (\<lambda>e. col (kv_key e) (kv_value e)) (rows_before fv ev n as) acc' else acc')"
      using c by (simp add: rows_before_def)
    moreover have "as \<noteq> [] \<longrightarrow> current (fv (last as)) (ev (last as)) \<noteq> [] \<and> ev (last as) \<noteq> []" using Cons.prems(3) by auto
    moreover have "ahead s1 ah = dropWhile (low sx n) (history_rows g ev as)"
      using k(5) Cons.prems(14) history_rows_Cons(1) [of ev a, OF True] by simp
    ultimately show ?thesis using s1(1) Cons.prems(1,2,4-7)
        Cons.IH [of s1 ys1 acc'] k s1(2-5) by auto
  next
    case False
    define v where "v = value_before (fv a) (ev a) n"
    define r where "r = (if v = [] then (acc, True) else col a v acc)"
    obtain acc' go where c: "r = (acc', go)" by fastforce
    have l: "current (fv (last (a # as))) (ev (last (a # as))) \<noteq> []" using Cons.prems(3) by simp
    obtain s1 s3 ys1 where s3: "aw_loop sx ops ps ah acs (history_cursor k) col n (first ys) (history_split (first (ahead s ah))) acc s =
        (if go then aw_loop sx ops ps ah acs (history_cursor k) col n (first ys1) (history_split (first (ahead s3 ah))) acc' s3 else Some (Ok (acc', s1)))"
      "inv s1" "tab s1 = tab s" "inv s3" "tab s3 = tab s" "on s3 ps ''PlainState''" "on s3 ah ''AccountHistory''" "on s3 acs ''AccountChangeSet''"
      "ahead s3 ps = ys1" "skip_long ys1 = ys1" "filter short ys1 = current_rows fv ev as" "ahead s3 ah = dropWhile (low sx n) (history_rows g ev as)"
      by (rule walk_step_with_history [where a = a and as = as and ev = ev and fv = fv and g = g and col = col and acc = acc and k = k and acc' = acc' and go = go,
          OF assms(1) Cons.prems(1,2) False l Cons.prems(4-14)]) (use c in \<open>auto simp: r_def v_def\<close>)
    have "walk_list (\<lambda>e. col (kv_key e) (kv_value e)) (rows_before fv ev n (a # as)) acc =
        (if go then walk_list (\<lambda>e. col (kv_key e) (kv_value e)) (rows_before fv ev n as) acc' else acc')"
      using c by (auto simp: rows_before_def r_def v_def split: if_splits)
    moreover have "as \<noteq> [] \<longrightarrow> current (fv (last as)) (ev (last as)) \<noteq> [] \<and> ev (last as) \<noteq> []" using Cons.prems(3) by auto
    ultimately show ?thesis using s3(1-3) Cons.prems(1,2,5-7) Cons.IH [of s3 ys1 acc'] s3(4-12) by auto
  qed
qed

lemma aw_seek_skips:
  assumes "inv s" "on s h t" "tab s t = Some es"
  shows "\<exists>s'. aw_seek ops h k kAddressLength s = Some (Ok (first (skip_long (from_key k es)), s')) \<and> on s' h t \<and>
    ahead s' h = skip_long (from_key k es) \<and> inv s' \<and> tab s' = tab s"
proof -
  from seek [OF assms] obtain s1 where s1: "op_seek ops h k s = Ok (first (from_key k es), s1)" "inv s1" "on s1 h t" "tab s1 = tab s"
    "ahead s1 h = from_key k es" by blast
  show ?thesis
  proof (cases "length (kv_key (first (from_key k es))) > kAddressLength")
    case True
    then obtain x xs where x: "from_key k es = x # xs" "length (kv_key x) > kAddressLength"
      by (cases "from_key k es") auto
    have "tab s1 t = Some es" using s1(4) assms(3) by simp
    from aw_next_skips [OF s1(2,3) this] s1 x show ?thesis by (auto simp: aw_seek_def skip_long_def kept_def)
  next
    case False
    then have "skip_long (from_key k es) = from_key k es" by (cases "from_key k es") (auto simp: skip_long_def)
    then show ?thesis using False s1 by (simp add: aw_seek_def)
  qed
qed

lemma aw_split_seek_skips:
  assumes "inv s" "on s h t" "tab s t = Some es" "from_key k es \<noteq> []" "\<forall>e \<in> set (from_key k es). history_key e"
  obtains s' where "aw_split_seek sx ops h (history_cursor k) n s = Some (Ok (history_split (first (dropWhile (low sx n) (from_key k es))), s'))"
    "on s' h t" "ahead s' h = dropWhile (low sx n) (from_key k es)" "kept tab ahead on inv h s s'"
proof -
  from seek [OF assms(1-3)] seek_frame [OF assms(1-3)] obtain s1 where s1: "op_seek ops h k s = Ok (first (from_key k es), s1)" "on s1 h t"
    "ahead s1 h = from_key k es" "kept tab ahead on inv h s s1" unfolding kept_def by metis
  obtain y ys where y: "from_key k es = y # ys" using assms(4) by (cases "from_key k es") auto
  then have yk: "history_key y" using assms(5) by simp
  have p: "inv s1" "tab s1 t = Some es" "\<forall>e \<in> set (ahead s1 h). history_key e" "ahead s1 h = y # ys"
    using s1(3,4) assms(3,5) y by (simp_all add: kept_def)
  from aw_seek_loop_skips [where sx = sx and n = n and k = k, OF p(1) s1(2) p(2-4)] obtain s2 where
    s2: "aw_split_seek_loop sx ops h (history_cursor k) n (shard_block sx y) (history_split y) s1 =
        Some (Ok (history_split (first (dropWhile (low sx n) (from_key k es))), s2))"
      "on s2 h t" "ahead s2 h = dropWhile (low sx n) (from_key k es)" "kept tab ahead on inv h s1 s2"
    unfolding s1(3) low_def by blast
  have "split_seek ops h (history_cursor k) s = Ok (history_split y, s1)"
    using s1(1) y by (simp add: split_seek_def split_history_cursor history_cursor_key)
  then have "aw_split_seek sx ops h (history_cursor k) n s = aw_split_seek_loop sx ops h (history_cursor k) n (shard_block sx y) (history_split y) s1"
    using history_split_simps(1) [OF yk] history_key_address [OF yk] history_key_block [OF yk, of sx] by (simp add: aw_split_seek_def)
  then show thesis using that s2 kept_trans [OF s1(4) s2(4)] by simp
qed

lemma walk_of_accounts_walks:
  assumes "keys_ok sx" "sorted_wrt (<) as" "\<forall>a \<in> set as. account_held sx cs g fv ev a" "length start = kAddressLength"
    and "inv s" "tab s ''PlainState'' = Some pst" "filter short pst = current_rows fv ev as"
    and "tab s ''AccountHistory'' = Some (history_rows g ev as)" "tab s ''AccountChangeSet'' = Some cs"
    and "as \<noteq> []" "start \<le> last as" "current (fv (last as)) (ev (last as)) \<noteq> []" "ev (last as) \<noteq> []"
  shows "\<exists>s'. walk_of_accounts sx ops n start col acc s =
      Some (Ok (walk_list (\<lambda>e. col (kv_key e) (kv_value e)) (rows_before fv ev n (filter (\<lambda>a. start \<le> a) as)) acc, s')) \<and> inv s' \<and> tab s' = tab s"
proof -
  let ?as = "filter (\<lambda>a. start \<le> a) as"
  obtain bs where as: "as = bs @ [last as]" using assms(10) by (metis append_butlast_last_id)
  have "?as = filter (\<lambda>a. start \<le> a) bs @ [last as]" by (subst as) (simp add: assms(11))
  then have last: "?as \<noteq> []" "last ?as = last as" by simp_all
  have held: "\<forall>a \<in> set ?as. account_held sx cs g fv ev a" and sorted: "sorted_wrt (<) ?as" using assms(2,3) by (auto intro: sorted_wrt_filter)
  have H: "from_key start (history_rows g ev as) = history_rows g ev ?as"
    by (rule history_rows_from [OF assms(1,3,4) tab_sorted [OF assms(5,8)]])
  let ?ys = "skip_long (from_key start pst)"
  have ys: "skip_long ?ys = ?ys" "filter short ?ys = current_rows fv ev ?as"
    using current_rows_from [OF assms(7) tab_sorted [OF assms(5,6)]] by (simp_all add: skip_long_idem filter_skip_long)
  from cursor [OF assms(5,6)] obtain ps s1 where s1: "op_cursor ops ''PlainState'' False s = Ok (ps, s1)" "inv s1" "on s1 ps ''PlainState''" "tab s1 = tab s" by blast
  have t1: "tab s1 ''PlainState'' = Some pst" using s1(4) assms(6) by simp
  from aw_seek_skips [OF s1(2,3) t1, of start] obtain s2 where s2: "aw_seek ops ps start kAddressLength s1 = Some (Ok (first ?ys, s2))" "on s2 ps ''PlainState''"
    "ahead s2 ps = ?ys" "inv s2" "tab s2 = tab s" using s1(4) by auto
  have ne: "kv_key (first ?ys) \<noteq> []"
  proof -
    have "last as \<in> set ?as" using last by (metis last_in_set)
    then obtain a1 rs where f: "filter (\<lambda>a. current (fv a) (ev a) \<noteq> []) ?as = a1 # rs" using assms(12) by (metis (mono_tags, lifting) filter_empty_conv neq_Nil_conv)
    then have "a1 \<in> set ?as" using filter_Cons_mem [OF f] by blast
    then have "length a1 = kAddressLength" using held by (simp add: account_held_def)
    moreover obtain ys' where "?ys = KV a1 (current (fv a1) (ev a1)) # ys'"
      using skip_long_head [OF ys(1), of "KV a1 (current (fv a1) (ev a1))"] ys(2) f by (auto simp: current_rows_def)
    ultimately show ?thesis by (auto simp: kAddressLength_def)
  qed
  have t2: "tab s2 ''AccountHistory'' = Some (history_rows g ev as)" using s2(5) assms(8) by simp
  from cursor [OF s2(4) t2] cursor_frame [OF s2(4) t2] s2(2,3,5) obtain ah s3 where
    s3: "op_cursor ops ''AccountHistory'' False s2 = Ok (ah, s3)" "inv s3" "on s3 ah ''AccountHistory''" "tab s3 = tab s"
      "on s3 ps ''PlainState''" "ahead s3 ps = ?ys" by fastforce
  have t3: "tab s3 ''AccountHistory'' = Some (history_rows g ev as)" using s3(4) assms(8) by simp
  have hne: "from_key start (history_rows g ev as) \<noteq> []" unfolding H
    using history_rows_head [OF assms(1) held, of "last as" "0"] last assms(13) by (metis dropWhile.simps(1) last_in_set list.distinct(1))
  have hk: "\<forall>e \<in> set (from_key start (history_rows g ev as)). history_key e" unfolding H using history_rows_mem [OF assms(1) held] by blast
  obtain s4 where s4: "aw_split_seek sx ops ah (history_cursor start) n s3 = Some (Ok (history_split (first (dropWhile (low sx n) (history_rows g ev ?as))), s4))"
    "on s4 ah ''AccountHistory''" "ahead s4 ah = dropWhile (low sx n) (history_rows g ev ?as)" "kept tab ahead on inv ah s3 s4"
    using aw_split_seek_skips [OF s3(2,3) t3 hne hk] unfolding H by blast
  have "ps \<noteq> ah" using on_table s3(3,5) by blast
  then have k4: "inv s4" "tab s4 = tab s" "on s4 ps ''PlainState''" "ahead s4 ps = ?ys" using s4(4) s3(4-6) unfolding kept_def by metis+
  have t4: "tab s4 ''AccountChangeSet'' = Some cs" using k4(2) assms(9) by simp
  from cursor_dup [OF k4(1) t4] cursor_frame [OF k4(1) t4] k4 s4(2,3) obtain acs s5 where
    s5: "op_cursor ops ''AccountChangeSet'' True s4 = Ok (acs, s5)" "inv s5" "on s5 acs ''AccountChangeSet''" "tab s5 = tab s"
      "on s5 ps ''PlainState''" "ahead s5 ps = ?ys" "on s5 ah ''AccountHistory''" "ahead s5 ah = dropWhile (low sx n) (history_rows g ev ?as)" by fastforce
  have "\<exists>s'. aw_loop sx ops ps ah acs (history_cursor start) col n (first ?ys) (history_split (first (ahead s5 ah))) acc s5 =
      Some (Ok (walk_list (\<lambda>e. col (kv_key e) (kv_value e)) (rows_before fv ev n ?as) acc, s')) \<and> inv s' \<and> tab s' = tab s5"
    by (rule aw_loop_walks [OF assms(1) sorted held _ s5(2)]) (use s5 assms(6,8,9,12,13) last ys in simp_all)
  then show ?thesis using s1(1) s2(1) ne s3(1) s4(1) s5(1,4,8) by (auto simp: walk_of_accounts_def make_history_cursor)
qed

text \<open>At the end of the current state the loop goes on over an empty pair.\<close>

lemma aw_loop_no_end:
  assumes "aw_loop sx ops' ps ah acs c col n ps_kv s_kv acc s = Some r"
  shows "ops' = ops \<Longrightarrow> inv s \<Longrightarrow> on s ps t \<Longrightarrow> tab s t = Some es \<Longrightarrow> ahead s ps = [] \<Longrightarrow> kv_key ps_kv = [] \<Longrightarrow> skv_key1 s_kv \<noteq> [] \<Longrightarrow>
    (\<And>k v b. snd (col k v b)) \<Longrightarrow> False"
  using assms
proof (induction sx ops' ps ah acs c col n ps_kv s_kv acc s r rule: aw_loop.raw_induct [rotated, consumes 1, case_names step])
  case (step f sx ops' ps ah acs c col n ps_kv s_kv acc s r)
  from aw_next_skips [OF step(4-6)] step(3,7) obtain s' where n: "aw_next ops' ps kAddressLength s = Some (Ok (KV [] [], s'))" "on s' ps t"
    "ahead s' ps = []" "inv s'" "tab s' = tab s" by (auto simp: skip_long_def kept_def)
  obtain acc' where c: "col (kv_key ps_kv) (kv_value ps_kv) acc = (acc', True)" using step(10) by (metis prod.collapse)
  have l: "kv_key ps_kv < skv_key1 s_kv" "\<not> skv_key1 s_kv \<le> kv_key ps_kv" "kv_key ps_kv \<le> skv_key1 s_kv"
    using step(8,9) by (auto simp: Nil_less_Cons neq_Nil_conv)
  then have "f sx ops' ps ah acs c col n (KV [] []) s_kv acc' s' = Some r"
    using step(2,9) n(1) c by (simp add: aw_collect_def)
  from step(1) [OF this step(3) n(4,2)] n(3,5) step(6,9,10) show False by simp
qed

end

section \<open>Walking over the accounts\<close>

text \<open>
  The tables of a transaction hold accounts: the account rows of the current state, the index of the history
  with the shards of each account, and the change sets. Rows of storage have longer keys and do not matter.
\<close>

definition holds_accounts ::
  "state_ext \<Rightarrow> (string \<Rightarrow> key_value list option) \<Rightarrow> (bytes \<Rightarrow> bytes) \<Rightarrow> (bytes \<Rightarrow> (u64 \<times> bytes) list) \<Rightarrow> bytes list \<Rightarrow> bool" where
  "holds_accounts sx tab fv ev as \<longleftrightarrow> sorted_wrt (<) as \<and>
     (\<exists>ps g cs. tab ''PlainState'' = Some ps \<and> filter short ps = current_rows fv ev as \<and>
        tab ''AccountHistory'' = Some (history_rows g ev as) \<and> tab ''AccountChangeSet'' = Some cs \<and>
        (\<forall>a \<in> set as. account_held sx cs g fv ev a))"

text \<open>
  C12: when the last account that the tables hold is there now and has a history, walking over the accounts
  before a block ends and hands to the collector, in the order of the addresses from the start on and until
  it asks to stop, exactly the accounts that existed before the block, each with the value it had then: from
  the change sets if it changed since, from the current state otherwise.
\<close>

theorem walk_of_accounts_before_block:
  assumes "keys_ok sx" "remote_inv tx" "holds_accounts sx (remote_tab tx) fv ev as" "length start = kAddressLength"
    and "as \<noteq> []" "start \<le> last as" "current (fv (last as)) (ev (last as)) \<noteq> []" "ev (last as) \<noteq> []"
  shows "\<exists>tx'. walk_of_accounts sx (remote_ops serve) n start collector acc tx =
      Some (Ok (walk_list (\<lambda>e. collector (kv_key e) (kv_value e))
        [KV a (value_before (fv a) (ev a) n). a \<leftarrow> as, start \<le> a \<and> value_before (fv a) (ev a) n \<noteq> []] acc, tx'))"
proof -
  have rows: "rows_before fv ev n (filter (\<lambda>a. start \<le> a) as) = [KV a (value_before (fv a) (ev a) n). a \<leftarrow> as, start \<le> a \<and> value_before (fv a) (ev a) n \<noteq> []]"
    by (induction as) (auto simp: rows_before_def)
  obtain ps g cs where t: "remote_tab tx ''PlainState'' = Some ps" "filter short ps = current_rows fv ev as"
      "remote_tab tx ''AccountHistory'' = Some (history_rows g ev as)" "remote_tab tx ''AccountChangeSet'' = Some cs"
      "\<forall>a \<in> set as. account_held sx cs g fv ev a" "sorted_wrt (<) as"
    using assms(3) unfolding holds_accounts_def by blast
  from remote_frames.walk_of_accounts_walks [OF assms(1) t(6,5) assms(4,2) t(1-4) assms(5-8), of n collector acc]
  show ?thesis unfolding rows by blast
qed

text \<open>
  Once the cursor of the current state is at its end while the history goes on, as for an account that
  was deleted and has no live account after it, the walk never ends: it hands an empty pair to the collector
  again and again, unless the collector stops it.
\<close>

lemma walk_of_accounts_diverges:
  assumes "remote_inv tx" "remote_on tx ps ''PlainState''" "remote_tab tx ''PlainState'' = Some es" "remote_ahead tx ps = []"
    and "kv_key ps_kv = []" "skv_key1 s_kv \<noteq> []" "\<And>k v b. snd (collector k v b)"
  shows "aw_loop sx (remote_ops serve) ps ah acs c collector n ps_kv s_kv acc tx = None"
proof (rule ccontr)
  assume "aw_loop sx (remote_ops serve) ps ah acs c collector n ps_kv s_kv acc tx \<noteq> None"
  then obtain r where "aw_loop sx (remote_ops serve) ps ah acs c collector n ps_kv s_kv acc tx = Some r" by blast
  from remote_frames.aw_loop_no_end [OF this refl assms] show False .
qed

section \<open>Walking over storage\<close>

definition stored :: "storage_item list \<Rightarrow> bytes \<Rightarrow> bytes option" where
  "stored sts loc = map_option si_value (find (\<lambda>j. si_key j = loc) sts)"

lemma stored_insert: "\<not> has_item i sts \<Longrightarrow> sorted_wrt (\<lambda>i j. si_key i < si_key j) sts \<Longrightarrow> stored (insert_item i sts) (si_key i) = Some (si_value i)"
proof (induction sts)
  case (Cons j js)
  then show ?case by (cases "si_key i < si_key j"; cases "si_key j < si_key i") (auto simp: stored_def has_item_def)
qed (simp add: stored_def)

lemma has_item_stored: "has_item i sts \<longleftrightarrow> stored sts (si_key i) \<noteq> None"
  by (induction sts) (auto simp: has_item_def stored_def)

text \<open>
  When a location has a value in the history before a block and the current state goes on with a later
  location, the walk hands that value over under the later location: the range of storage then holds, for
  the later location, the value that the other location had, and ignores the value of the later location
  itself when the walk comes to it.
\<close>

lemma storage_range_reports_wrong_location:
  assumes "skv_key1 ps_skv = adr" "skv_key1 sh_skv = adr" "adr \<noteq> []" "sx_to_evmc_address sx adr = adr"
    and "h_loc < skv_key2 ps_skv" "length h_loc = kHashLength" "skv_value sh_skv \<noteq> []" "sx_parse sx (skv_value sh_skv) = Ok bitmap"
    and "sx_seek sx bitmap n = Some b" "op_seek_both ops cs (sx_storage_change_key sx b adr inc) h_loc s = Ok (h_loc @ v, s')" "v \<noteq> []"
    and "sorted_wrt (\<lambda>i j. si_key i < si_key j) sts" "stored sts (skv_key2 ps_skv) = None"
  shows "\<exists>cmp sts' go. sw_compare ps_skv sh_skv h_loc = Some cmp \<and>
    sw_collect sx ops cs (range_collector sx adr max_result) n adr inc cmp ps_skv sh_skv h_loc sts s = Ok (sts', go, s') \<and>
    stored sts' (skv_key2 ps_skv) = Some v \<and>
    (\<forall>w. w \<noteq> [] \<longrightarrow> range_collector sx adr max_result adr (skv_key2 ps_skv) w sts' = (sts', True))"
proof -
  let ?loc = "skv_key2 ps_skv"
  let ?i = "\<lparr>si_key = ?loc, si_sec_key = sx_hash_of sx ?loc, si_value = v\<rparr>"
  have "sw_compare ps_skv sh_skv h_loc = Some 1"
    using assms(1-3,5) by (auto simp: sw_compare_def compare_bytes_def Let_def)
  moreover have n: "\<not> has_item ?i sts" using assms(13) by (simp add: has_item_stored)
  then have "\<exists>go. sw_collect sx ops cs (range_collector sx adr max_result) n adr inc 1 ps_skv sh_skv h_loc sts s = Ok (insert_item ?i sts, go, s')"
    using assms by (simp add: sw_collect_def range_collector_def Let_def)
  moreover have st: "stored (insert_item ?i sts) ?loc = Some v" using stored_insert [OF n assms(12)] by simp
  moreover have "range_collector sx adr max_result adr ?loc w (insert_item ?i sts) = (insert_item ?i sts, True)" if "w \<noteq> []" for w
    using that st has_item_stored [of "\<lparr>si_key = ?loc, si_sec_key = sx_hash_of sx ?loc, si_value = w\<rparr>" "insert_item ?i sts"]
    by (simp add: range_collector_def Let_def)
  ultimately show ?thesis by blast
qed

section \<open>Concrete accounts\<close>

text \<open>Block 3 creates the first account and block 8 changes it; block 6 changes the second one.\<close>

definition addr1 :: bytes where "addr1 = replicate 20 5"
definition addr2 :: bytes where "addr2 = replicate 20 7"

lemma addr_order: "addr1 < addr2" "addr1 \<noteq> addr2" "addr1 \<noteq> []" "addr2 \<noteq> []" "length addr1 = kAddressLength" "length addr2 = kAddressLength"
proof -
  have "replicate (Suc 19) (5 :: byte) < replicate (Suc 19) 7" by (simp only: replicate_Suc Cons_less_Cons) simp
  then show "addr1 < addr2" by (simp add: addr1_def addr2_def)
  then show "addr1 \<noteq> addr2" by simp
qed (simp_all add: addr1_def addr2_def kAddressLength_def)

definition first_values :: "bytes \<Rightarrow> bytes" where
  "first_values a = (if a = addr1 then [] else [20])"

definition account_events :: "bytes \<Rightarrow> (u64 \<times> bytes) list" where
  "account_events a = (if a = addr1 then [(3, [10]), (8, [11])] else [(6, [22])])"

definition account_shards :: "bytes \<Rightarrow> key_value list" where
  "account_shards a =
     (if a = addr1 then [KV (addr1 @ be_bytes 8 3) [3], KV (addr1 @ be_bytes 8 (2 ^ 64 - 1)) [8]]
      else [KV (addr2 @ be_bytes 8 (2 ^ 64 - 1)) [6]])"

definition account_changes :: "key_value list" where
  "account_changes = [KV (be_bytes 8 3) addr1, KV (be_bytes 8 6) (addr2 @ [20]), KV (be_bytes 8 8) (addr1 @ [10])]"

definition demo_accounts :: "kv_server remote_tx" where
  "demo_accounts = \<lparr>rt_tx_id = 1, rt_cursors = Map.empty, rt_dup_cursors = Map.empty,
     rt_server = \<lparr>sv_tables =
        [(''PlainState'', [KV addr1 [11], KV addr2 [22]]), (''AccountHistory'', account_shards addr1 @ account_shards addr2),
         (''AccountChangeSet'', account_changes)], sv_open = Map.empty\<rparr>\<rparr>"

lemmas account_defs = first_values_def account_events_def account_shards_def account_changes_def

lemma be_bytes_neq: "be_bytes 8 3 \<noteq> be_bytes 8 6" "be_bytes 8 3 \<noteq> be_bytes 8 8" "be_bytes 8 6 \<noteq> be_bytes 8 8"
  using be_bytes_le [of 6 8 3] be_bytes_le [of 8 8 3] be_bytes_le [of 8 8 6] by auto

lemma append_le_longer:
  assumes "(a :: bytes) < b" "length a = length b"
  shows "a @ x \<le> b @ y"
  using assms(2,1) by (induction a b rule: list_induct2) (auto simp: Cons_le_Cons Cons_less_Cons)

lemma demo_accounts_inv: "remote_inv demo_accounts"
proof -
  have "addr1 @ x \<le> addr2 @ y" for x y by (rule append_le_longer) (simp_all add: addr_order)
  then show ?thesis
    using be_bytes_le [of 3 8 "2 ^ 64 - 1"] be_bytes_le [of 3 8 6] be_bytes_le [of 3 8 8] be_bytes_le [of 6 8 8] addr_order
    by (auto simp: remote_inv_def demo_accounts_def tables_ok_def kv_le_def append_le_append account_defs less_imp_le)
qed

lemma demo_shards:
  "sharded demo_state_ext addr1 (account_shards addr1) [3, 8]" "sharded demo_state_ext addr2 (account_shards addr2) [6]"
proof -
  have u: "unat (- 1 :: u64) = 2 ^ 64 - 1" by (simp add: unsigned_minus_1_eq_mask mask_eq_exp_minus_1)
  show "sharded demo_state_ext addr1 (account_shards addr1) [3, 8]"
    unfolding sharded_def by (intro exI [of _ "[(3, [3]), (- 1, [8])]"]) (simp add: demo_state_ext_def account_shards_def u)
  show "sharded demo_state_ext addr2 (account_shards addr2) [6]"
    unfolding sharded_def using addr_order by (intro exI [of _ "[(- 1, [6])]"]) (simp add: demo_state_ext_def account_shards_def u)
qed

lemma demo_recorded:
  "recorded account_changes (be_bytes 8 3) addr1 []" "recorded account_changes (be_bytes 8 8) addr1 [10]"
  "recorded account_changes (be_bytes 8 6) addr2 [20]"
  using be_bytes_neq addr_order by (auto simp: recorded_def account_changes_def)

lemma demo_holds_accounts: "holds_accounts demo_state_ext (remote_tab demo_accounts) first_values account_events [addr1, addr2]"
proof -
  have "account_held demo_state_ext account_changes account_shards first_values account_events addr1"
    "account_held demo_state_ext account_changes account_shards first_values account_events addr2"
    using demo_shards demo_recorded addr_order by (simp_all add: account_held_def account_events_def first_values_def demo_state_ext_def)
  moreover have "remote_tab demo_accounts ''PlainState'' = Some [KV addr1 [11], KV addr2 [22]]"
    "remote_tab demo_accounts ''AccountHistory'' = Some (history_rows account_shards account_events [addr1, addr2])"
    "remote_tab demo_accounts ''AccountChangeSet'' = Some account_changes"
    by (simp_all add: remote_tab_def demo_accounts_def history_rows_def account_events_def)
  ultimately show ?thesis unfolding holds_accounts_def
    using addr_order by (auto simp: current_rows_def current_def first_values_def account_events_def)
qed

definition collect_pairs :: "bytes \<Rightarrow> bytes \<Rightarrow> (bytes \<times> bytes) list \<Rightarrow> (bytes \<times> bytes) list \<times> bool" where
  "collect_pairs k v ps = (ps @ [(k, v)], True)"

theorem walk_of_accounts_before_block_witness:
  "\<exists>tx'. walk_of_accounts demo_state_ext (remote_ops serve) 5 addr1 collect_pairs [] demo_accounts =
     Some (Ok ([(addr1, [10]), (addr2, [20])], tx'))"
proof -
  have "addr1 \<le> last [addr1, addr2]" "current (first_values (last [addr1, addr2])) (account_events (last [addr1, addr2])) \<noteq> []"
    "account_events (last [addr1, addr2]) \<noteq> []" using addr_order by (simp_all add: account_events_def current_def less_imp_le)
  from walk_of_accounts_before_block [OF demo_keys_ok demo_accounts_inv demo_holds_accounts addr_order(5) _ this, of 5 collect_pairs "[]"]
  show ?thesis using addr_order
    by (simp add: value_before_def first_values_def account_events_def collect_pairs_def less_imp_le)
qed

text \<open>A transaction whose cursor of the current state is at the end.\<close>

definition demo_ended :: "kv_server remote_tx" where
  "demo_ended = \<lparr>rt_tx_id = 1, rt_cursors = [''PlainState'' \<mapsto> 1], rt_dup_cursors = Map.empty,
     rt_server = \<lparr>sv_tables = [(''PlainState'', [KV addr1 [11]])], sv_open = [1 \<mapsto> (''PlainState'', [])]\<rparr>\<rparr>"

lemma walk_of_accounts_diverges_witness:
  "aw_loop demo_state_ext (remote_ops serve) 1 2 3 (history_cursor []) collect_pairs 5 (KV [] []) (empty_skv\<lparr>skv_key1 := addr2\<rparr>) [] demo_ended = None"
proof -
  have "remote_inv demo_ended" using addr_order
    by (auto simp: remote_inv_def demo_ended_def tables_ok_def remote_on_def cursor_number_def intro: exI [of _ False] split: if_splits)
  then show ?thesis
    by (rule walk_of_accounts_diverges)
      (use addr_order in \<open>simp_all add: demo_ended_def remote_on_def remote_tab_def remote_ahead_def collect_pairs_def\<close>)
qed

text \<open>Location 1 was deleted since and had the value 9 at the block; location 2 is there with another value.\<close>

definition loc1 :: bytes where "loc1 = replicate 32 1"
definition loc2 :: bytes where "loc2 = replicate 32 2"

definition demo_change_set :: "(unit, unit) tx_ops" where
  "demo_change_set = \<lparr>op_cursor = (\<lambda>_ _ s. Ok ((), s)), op_seek = (\<lambda>_ _ s. Ok (KV [] [], s)), op_seek_exact = (\<lambda>_ _ s. Ok (KV [] [], s)),
     op_next = (\<lambda>_ s. Ok (KV [] [], s)), op_next_dup = (\<lambda>_ s. Ok (KV [] [], s)), op_seek_both = (\<lambda>_ _ _ s. Ok (loc1 @ [9], s))\<rparr>"

lemma storage_range_reports_wrong_location_witness:
  "\<exists>cmp sts'. sw_compare (empty_skv\<lparr>skv_key1 := addr1, skv_key2 := loc2, skv_value := [4]\<rparr>)
       (empty_skv\<lparr>skv_key1 := addr1, skv_key2 := loc1, skv_value := [7]\<rparr>) loc1 = Some cmp \<and> stored sts' loc2 = Some [9]"
proof -
  have "replicate (Suc 31) (1 :: byte) < replicate (Suc 31) 2" by (simp only: replicate_Suc Cons_less_Cons) simp
  then have l: "loc1 < loc2" "length loc1 = kHashLength" by (simp_all add: loc1_def loc2_def kHashLength_def)
  from storage_range_reports_wrong_location [of "empty_skv\<lparr>skv_key1 := addr1, skv_key2 := loc2, skv_value := [4]\<rparr>" addr1
      "empty_skv\<lparr>skv_key1 := addr1, skv_key2 := loc1, skv_value := [7]\<rparr>" demo_state_ext loc1 "[7]" 5 7 demo_change_set "()" 1 "()" "[9]" "()" "[]" 10]
  show ?thesis using l addr_order by (auto simp: demo_state_ext_def demo_change_set_def stored_def)
qed

end
