(* ===== verification/Json_Types.thy ===== *)
theory Json_Types
  imports Gas_Oracles Utilities Blocks
begin

text \<open>
  The conversions between the types of the daemon and JSON: \<^verbatim>\<open>json/types.cpp\<close>, with the types of \<^verbatim>\<open>types/\<close> that
  are converted. What a conversion uses of other repositories (hexadecimal text, fixed size byte strings,
  big endian encodings, hashes, sender recovery, RLP lengths) is the record \<open>json_ext\<close>.
\<close>

record json_ext =
  jx_to_hex :: "bytes \<Rightarrow> string"
  jx_from_hex :: "string \<Rightarrow> bytes option"
  jx_to_evmc_address :: "bytes \<Rightarrow> bytes"
  jx_to_bytes32 :: "bytes \<Rightarrow> bytes"
  jx_u256_from_string :: "string \<Rightarrow> u256 result"
  jx_store_big_u64 :: "u64 \<Rightarrow> bytes"
  jx_to_big_compact :: "u256 \<Rightarrow> bytes"
  jx_trunc_double :: "string \<Rightarrow> int"
  jx_header_hash :: "block_header \<Rightarrow> bytes"
  jx_hash_of_transaction :: "transaction \<Rightarrow> bytes"
  jx_recover_sender :: "transaction \<Rightarrow> bytes option"
  jx_v :: "transaction \<Rightarrow> u256"
  jx_effective_gas_price :: "transaction \<Rightarrow> u256 \<Rightarrow> u256"
  jx_rlp_length_header :: "block_header \<Rightarrow> u64"
  jx_rlp_length_transactions :: "transaction list \<Rightarrow> u64"
  jx_rlp_length_ommers :: "block_header list \<Rightarrow> u64"
  jx_length_of_length :: "u64 \<Rightarrow> u64"
  jx_parse_or_discarded :: "string \<Rightarrow> json"

section \<open>Quantities\<close>

text \<open>The loop over the bytes; \<open>found\<close> is \<^verbatim>\<open>found_nonzero\<close>.\<close>

fun no_leading_zeros :: "bool \<Rightarrow> bytes \<Rightarrow> string" where
  "no_leading_zeros found [] = []"
| "no_leading_zeros found (x # xs) =
     (let lo = hex_char (unat (x AND 0x0f)); hi = hex_char (unat (drop_bit 4 x));
          found_hi = (found \<or> hi \<noteq> CHR ''0'');
          found_lo = (found_hi \<or> lo \<noteq> CHR ''0'')
      in (if found_hi then [hi] else []) @ (if found_lo \<or> xs = [] then [lo] else []) @ no_leading_zeros found_lo xs)"

definition to_hex_no_leading_zeros :: "bytes \<Rightarrow> string" where
  "to_hex_no_leading_zeros bs = (if length bs = 0 then ''0'' else no_leading_zeros False bs)"

definition to_quantity_bytes :: "bytes \<Rightarrow> string" where
  "to_quantity_bytes bs = ''0x'' @ to_hex_no_leading_zeros bs"

definition to_quantity :: "json_ext \<Rightarrow> u64 \<Rightarrow> string" where
  "to_quantity jx number = ''0x'' @ to_hex_no_leading_zeros (jx_store_big_u64 jx number)"

definition to_quantity_u256 :: "json_ext \<Rightarrow> u256 \<Rightarrow> string" where
  "to_quantity_u256 jx number = (if number = 0 then ''0x0'' else to_quantity_bytes (jx_to_big_compact jx number))"

section \<open>Values\<close>

text \<open>Assigning members one by one to a value that was null; a value with no member stays null.\<close>

definition members :: "(string \<times> json) list \<Rightarrow> json" where
  "members fs = (if fs = [] then Null else Object (fold assign fs []))"

fun get_string :: "json \<Rightarrow> string result" where
  "get_string (String s) = Ok s"
| "get_string _ = Throw (Runtime_error ''type must be string'')"

fun get_u64 :: "json_ext \<Rightarrow> json \<Rightarrow> u64 result" where
  "get_u64 jx (Number n) = Ok (word_of_int n)"
| "get_u64 jx (Double d) = Ok (word_of_int (jx_trunc_double jx d))"
| "get_u64 jx _ = Throw (Runtime_error ''type must be number'')"

fun get_vector :: "(json \<Rightarrow> 'a result) \<Rightarrow> json \<Rightarrow> 'a list result" where
  "get_vector f (Array xs) = map_r f xs"
| "get_vector f _ = Throw (Runtime_error ''type must be array'')"

fun is_string :: "json \<Rightarrow> bool" where
  "is_string (String _) = True"
| "is_string _ = False"

definition prefixed_hex :: "json_ext \<Rightarrow> bytes \<Rightarrow> json" where
  "prefixed_hex jx bs = String (''0x'' @ jx_to_hex jx bs)"

definition to_json_address :: "json_ext \<Rightarrow> bytes \<Rightarrow> json" where
  "to_json_address jx addr = prefixed_hex jx addr"

definition from_json_address :: "json_ext \<Rightarrow> json \<Rightarrow> bytes result" where
  "from_json_address jx j = bind_r (get_string j) (\<lambda>s. Ok (jx_to_evmc_address jx (value_or (jx_from_hex jx s) [])))"

definition to_json_bytes32 :: "json_ext \<Rightarrow> bytes \<Rightarrow> json" where
  "to_json_bytes32 jx b32 = prefixed_hex jx b32"

definition from_json_bytes32 :: "json_ext \<Rightarrow> json \<Rightarrow> bytes result" where
  "from_json_bytes32 jx j = bind_r (get_string j) (\<lambda>s. Ok (jx_to_bytes32 jx (value_or (jx_from_hex jx s) [])))"

definition from_json_uint256 :: "json_ext \<Rightarrow> json \<Rightarrow> u256 result" where
  "from_json_uint256 jx j = bind_r (get_string j) (jx_u256_from_string jx)"

text \<open>\<^verbatim>\<open>static_cast<uint64_t>(std::stol(s, 0, 16))\<close>: a negative number wraps around.\<close>

definition get_hex_long :: "json \<Rightarrow> u64 result" where
  "get_hex_long j = bind_r (get_string j) (\<lambda>s. bind_r (stol 16 s) (\<lambda>n. Ok (word_of_int n)))"

definition at_get :: "(json \<Rightarrow> 'a result) \<Rightarrow> json \<Rightarrow> string \<Rightarrow> 'a result" where
  "at_get f j name = bind_r (at_field j name) f"

section \<open>Headers, transactions and blocks\<close>

definition from_json_AccessListEntry :: "json_ext \<Rightarrow> json \<Rightarrow> (bytes \<times> bytes list) result" where
  "from_json_AccessListEntry jx j =
     bind_r (at_get (from_json_address jx) j ''address'') (\<lambda>account.
     bind_r (at_get (get_vector (from_json_bytes32 jx)) j ''storageKeys'') (\<lambda>storage_keys.
       Ok (account, storage_keys)))"

definition to_json_AccessListEntry :: "json_ext \<Rightarrow> bytes \<times> bytes list \<Rightarrow> json" where
  "to_json_AccessListEntry jx e =
     members [(''address'', to_json_address jx (fst e)), (''storageKeys'', Array (map (to_json_bytes32 jx) (snd e)))]"

definition to_json_BlockHeader :: "json_ext \<Rightarrow> block_header \<Rightarrow> json" where
  "to_json_BlockHeader jx header =
     members
       [(''number'', String (to_quantity jx (hdr_number header))),
        (''hash'', String (to_quantity_bytes (jx_header_hash jx header))),
        (''parentHash'', to_json_bytes32 jx (hdr_parent_hash header)),
        (''nonce'', prefixed_hex jx (hdr_nonce header)),
        (''sha3Uncles'', to_json_bytes32 jx (hdr_ommers_hash header)),
        (''logsBloom'', prefixed_hex jx (hdr_logs_bloom header)),
        (''transactionsRoot'', to_json_bytes32 jx (hdr_transactions_root header)),
        (''stateRoot'', to_json_bytes32 jx (hdr_state_root header)),
        (''receiptsRoot'', to_json_bytes32 jx (hdr_receipts_root header)),
        (''miner'', to_json_address jx (hdr_beneficiary header)),
        (''difficulty'', String (to_quantity_bytes (jx_to_big_compact jx (hdr_difficulty header)))),
        (''extraData'', prefixed_hex jx (hdr_extra_data header)),
        (''mixHash'', to_json_bytes32 jx (hdr_mix_hash header)),
        (''gasLimit'', String (to_quantity jx (hdr_gas_limit header))),
        (''gasUsed'', String (to_quantity jx (hdr_gas_used header))),
        (''timestamp'', String (to_quantity jx (hdr_timestamp header))),
        (''baseFeePerGas'', case hdr_base_fee_per_gas header of Some fee \<Rightarrow> String (to_quantity_u256 jx fee) | None \<Rightarrow> Null),
        (''withdrawalsRoot'', Null)]"

definition kLegacy :: byte where "kLegacy = 0"
definition kEip2930 :: byte where "kEip2930 = 1"
definition kEip1559 :: byte where "kEip1559 = 2"

text \<open>A typed transaction without a chain identifier dereferences an empty optional.\<close>

definition transaction_members :: "json_ext \<Rightarrow> transaction \<Rightarrow> (string \<times> json) list result" where
  "transaction_members jx t =
     (let from = (case tx_from t of Some a \<Rightarrow> Some a | None \<Rightarrow> jx_recover_sender jx t);
          common =
            (case from of Some a \<Rightarrow> [(''from'', to_json_address jx a)] | None \<Rightarrow> []) @
            [(''gas'', String (to_quantity jx (tx_gas_limit t))),
             (''hash'', to_json_bytes32 jx (jx_to_bytes32 jx (jx_hash_of_transaction jx t))),
             (''input'', prefixed_hex jx (tx_data t)),
             (''nonce'', String (to_quantity jx (tx_nonce t))),
             (''to'', case tx_to t of Some a \<Rightarrow> to_json_address jx a | None \<Rightarrow> Null),
             (''type'', String (to_quantity jx (ucast (tx_type t))))] @
            (if tx_type t = kEip1559
             then [(''maxPriorityFeePerGas'', String (to_quantity_u256 jx (tx_max_priority_fee_per_gas t))),
                   (''maxFeePerGas'', String (to_quantity_u256 jx (tx_max_fee_per_gas t)))]
             else []);
          last =
            [(''value'', String (to_quantity_u256 jx (tx_value t))),
             (''r'', String (to_quantity_bytes (jx_to_big_compact jx (tx_r t)))),
             (''s'', String (to_quantity_bytes (jx_to_big_compact jx (tx_s t))))]
      in bind_r
        (if tx_type t \<noteq> kLegacy
         then (case tx_chain_id t of
             None \<Rightarrow> Throw Uninitialized_read
           | Some c \<Rightarrow> Ok
               [(''chainId'', String (to_quantity_u256 jx c)),
                (''v'', String (to_quantity jx (of_bool (tx_odd_y_parity t)))),
                (''accessList'', Array (map (to_json_AccessListEntry jx) (tx_access_list t)))])
         else (case tx_chain_id t of
             Some c \<Rightarrow> Ok
               [(''chainId'', String (to_quantity_u256 jx c)),
                (''v'', String (to_quantity_bytes (jx_to_big_compact jx (jx_v jx t))))]
           | None \<Rightarrow> Ok [(''v'', String (to_quantity_bytes (jx_to_big_compact jx (jx_v jx t))))]))
        (\<lambda>signature. Ok (common @ signature @ last)))"

definition to_json_Transaction :: "json_ext \<Rightarrow> transaction \<Rightarrow> json result" where
  "to_json_Transaction jx t = bind_r (transaction_members jx t) (\<lambda>fs. Ok (members fs))"

text \<open>A transaction with the block it is in, \<^verbatim>\<open>types/transaction.hpp\<close>.\<close>

record chain_transaction =
  ct_transaction :: transaction
  ct_block_hash :: bytes
  ct_block_number :: u64
  ct_block_base_fee_per_gas :: "u256 option"
  ct_transaction_index :: u64
  ct_queued_in_pool :: bool

definition effective_gas_price :: "json_ext \<Rightarrow> chain_transaction \<Rightarrow> u256" where
  "effective_gas_price jx t = jx_effective_gas_price jx (ct_transaction t) (value_or (ct_block_base_fee_per_gas t) 0)"

definition to_json_chain_transaction :: "json_ext \<Rightarrow> chain_transaction \<Rightarrow> json result" where
  "to_json_chain_transaction jx t =
     bind_r (transaction_members jx (ct_transaction t)) (\<lambda>fs.
       Ok (members (fs @ [(''gasPrice'', String (to_quantity_u256 jx (effective_gas_price jx t)))] @
         (if ct_queued_in_pool t
          then [(''blockHash'', Null), (''blockNumber'', Null), (''transactionIndex'', Null)]
          else [(''blockHash'', to_json_bytes32 jx (ct_block_hash t)),
                (''blockNumber'', String (to_quantity jx (ct_block_number t))),
                (''transactionIndex'', String (to_quantity jx (ct_transaction_index t)))]))))"

text \<open>A block with what is known of it, \<^verbatim>\<open>types/block.hpp\<close>.\<close>

record block =
  bk_block :: block_with_hash
  bk_total_difficulty :: u256
  bk_full_tx :: bool

definition get_block_size :: "json_ext \<Rightarrow> block \<Rightarrow> u64" where
  "get_block_size jx b =
     (let payload_length = jx_rlp_length_header jx (bw_header (bk_block b)) +
          jx_rlp_length_transactions jx (bw_transactions (bk_block b)) + jx_rlp_length_ommers jx (bw_ommers (bk_block b))
      in payload_length + jx_length_of_length jx payload_length)"

text \<open>The members that \<^verbatim>\<open>to_json(Block)\<close> adds to the transaction with index \<open>i\<close>.\<close>

definition block_transaction :: "json_ext \<Rightarrow> block \<Rightarrow> nat \<Rightarrow> transaction \<Rightarrow> json result" where
  "block_transaction jx b i t =
     bind_r (transaction_members jx t) (\<lambda>fs.
       Ok (members (fs @
         [(''transactionIndex'', String (to_quantity jx (of_nat i))),
          (''blockHash'', to_json_bytes32 jx (bw_hash (bk_block b))),
          (''blockNumber'', String (to_quantity jx (hdr_number (bw_header (bk_block b))))),
          (''gasPrice'', String (to_quantity_u256 jx
             (jx_effective_gas_price jx t (value_or (hdr_base_fee_per_gas (bw_header (bk_block b))) 0))))])))"

definition to_json_Block :: "json_ext \<Rightarrow> block \<Rightarrow> json result" where
  "to_json_Block jx b =
     (let header = bw_header (bk_block b); txs = bw_transactions (bk_block b) in
      bind_r (if bk_full_tx b then map_r (\<lambda>(i, t). block_transaction jx b i t) (enumerate 0 txs)
          else Ok (map (\<lambda>t. to_json_bytes32 jx (jx_to_bytes32 jx (jx_hash_of_transaction jx t))) txs)) (\<lambda>transactions.
        Ok (members
          ([(''number'', String (to_quantity jx (hdr_number header))),
            (''hash'', to_json_bytes32 jx (bw_hash (bk_block b))),
            (''parentHash'', to_json_bytes32 jx (hdr_parent_hash header)),
            (''nonce'', prefixed_hex jx (hdr_nonce header)),
            (''sha3Uncles'', to_json_bytes32 jx (hdr_ommers_hash header)),
            (''logsBloom'', prefixed_hex jx (hdr_logs_bloom header)),
            (''transactionsRoot'', to_json_bytes32 jx (hdr_transactions_root header)),
            (''stateRoot'', to_json_bytes32 jx (hdr_state_root header)),
            (''receiptsRoot'', to_json_bytes32 jx (hdr_receipts_root header)),
            (''miner'', to_json_address jx (hdr_beneficiary header)),
            (''difficulty'', String (to_quantity_bytes (jx_to_big_compact jx (hdr_difficulty header)))),
            (''totalDifficulty'', String (to_quantity_bytes (jx_to_big_compact jx (bk_total_difficulty b)))),
            (''extraData'', prefixed_hex jx (hdr_extra_data header)),
            (''mixHash'', to_json_bytes32 jx (hdr_mix_hash header)),
            (''size'', String (to_quantity jx (get_block_size jx b))),
            (''gasLimit'', String (to_quantity jx (hdr_gas_limit header))),
            (''gasUsed'', String (to_quantity jx (hdr_gas_used header)))] @
           (case hdr_base_fee_per_gas header of Some fee \<Rightarrow> [(''baseFeePerGas'', String (to_quantity_u256 jx fee))] | None \<Rightarrow> []) @
           [(''timestamp'', String (to_quantity jx (hdr_timestamp header))),
            (''transactions'', Array transactions),
            (''uncles'', Array (map (\<lambda>o'. to_json_bytes32 jx (jx_header_hash jx o')) (bw_ommers (bk_block b))))]))))"

section \<open>Calls, logs and receipts\<close>

definition get_number_or_hex :: "json_ext \<Rightarrow> json \<Rightarrow> u64 result" where
  "get_number_or_hex jx j = (if is_string j then get_hex_long j else get_u64 jx j)"

definition optional_member :: "(json \<Rightarrow> 'a result) \<Rightarrow> json \<Rightarrow> string \<Rightarrow> 'a option result" where
  "optional_member f j name = (if contains j name then bind_r (f (field j name)) (\<lambda>v. Ok (Some v)) else Ok None)"

definition from_json_Call :: "json_ext \<Rightarrow> json \<Rightarrow> call result" where
  "from_json_Call jx j =
     bind_r (optional_member (from_json_address jx) j ''from'') (\<lambda>from.
     bind_r (if contains j ''to'' \<and> field j ''to'' \<noteq> Null then optional_member (from_json_address jx) j ''to'' else Ok None) (\<lambda>to.
     bind_r (optional_member (get_number_or_hex jx) j ''nonce'') (\<lambda>nonce.
     bind_r (optional_member (get_number_or_hex jx) j ''gas'') (\<lambda>gas.
     bind_r (optional_member (from_json_uint256 jx) j ''gasPrice'') (\<lambda>gas_price.
     bind_r (optional_member (from_json_uint256 jx) j ''value'') (\<lambda>value.
     bind_r (optional_member get_string j ''data'') (\<lambda>json_data.
     bind_r (optional_member (get_vector (from_json_AccessListEntry jx)) j ''accessList'') (\<lambda>access_list.
       Ok \<lparr>cl_from = from, cl_to = to, cl_gas = gas, cl_gas_price = gas_price, cl_max_priority_fee_per_gas = None,
          cl_max_fee_per_gas = None, cl_value = value, cl_data = (case json_data of Some d \<Rightarrow> jx_from_hex jx d | None \<Rightarrow> None),
          cl_nonce = nonce, cl_access_list = value_or access_list []\<rparr>))))))))"

definition to_json_Log :: "json_ext \<Rightarrow> log \<Rightarrow> json" where
  "to_json_Log jx l =
     members
       [(''address'', to_json_address jx (log_address l)),
        (''topics'', Array (map (to_json_bytes32 jx) (log_topics l))),
        (''data'', prefixed_hex jx (log_data l)),
        (''blockNumber'', String (to_quantity jx (log_block_number l))),
        (''blockHash'', to_json_bytes32 jx (log_block_hash l)),
        (''transactionHash'', to_json_bytes32 jx (log_tx_hash l)),
        (''transactionIndex'', String (to_quantity jx (ucast (log_tx_index l)))),
        (''logIndex'', String (to_quantity jx (ucast (log_index l)))),
        (''removed'', Boolean (log_removed l))]"

definition to_json_Receipt :: "json_ext \<Rightarrow> receipt \<Rightarrow> json" where
  "to_json_Receipt jx r =
     members
       [(''blockHash'', to_json_bytes32 jx (rc_block_hash r)),
        (''blockNumber'', String (to_quantity jx (rc_block_number r))),
        (''transactionHash'', to_json_bytes32 jx (rc_tx_hash r)),
        (''transactionIndex'', String (to_quantity jx (ucast (rc_tx_index r)))),
        (''from'', to_json_address jx (value_or (rc_from r) (zeros 20))),
        (''to'', to_json_address jx (value_or (rc_to r) (zeros 20))),
        (''type'', String (to_quantity jx (case rc_type r of Some t \<Rightarrow> ucast t | None \<Rightarrow> 0))),
        (''gasUsed'', String (to_quantity jx (rc_gas_used r))),
        (''cumulativeGasUsed'', String (to_quantity jx (rc_cumulative_gas_used r))),
        (''effectiveGasPrice'', String (to_quantity_u256 jx (rc_effective_gas_price r))),
        (''contractAddress'', if rc_contract_address r = zeros 20 then Null else to_json_address jx (rc_contract_address r)),
        (''logs'', Array (map (to_json_Log jx) (rc_logs r))),
        (''logsBloom'', prefixed_hex jx (rc_bloom r)),
        (''status'', String (to_quantity jx (if rc_success r then 1 else 0)))]"

section \<open>Filters\<close>

record log_filter =
  fl_from_block :: "string option"
  fl_to_block :: "string option"
  fl_addresses :: "bytes list option"
  fl_topics :: "bytes list list option"
  fl_block_hash :: "string option"

definition optional_field :: "string \<Rightarrow> ('a \<Rightarrow> json) \<Rightarrow> 'a option \<Rightarrow> (string \<times> json) list" where
  "optional_field name f v = (case v of Some x \<Rightarrow> [(name, f x)] | None \<Rightarrow> [])"

definition to_json_Filter :: "json_ext \<Rightarrow> log_filter \<Rightarrow> json" where
  "to_json_Filter jx f =
     members
       (optional_field ''fromBlock'' String (fl_from_block f) @
        optional_field ''toBlock'' String (fl_to_block f) @
        optional_field ''address'' (\<lambda>as. if length as = 1 then to_json_address jx (as ! 0) else Array (map (to_json_address jx) as))
          (fl_addresses f) @
        optional_field ''topics'' (\<lambda>ts. Array (map (\<lambda>t. Array (map (to_json_bytes32 jx) t)) ts)) (fl_topics f) @
        optional_field ''blockHash'' String (fl_block_hash f))"

definition get_block_id :: "json_ext \<Rightarrow> json \<Rightarrow> string result" where
  "get_block_id jx j = (if is_string j then get_string j else bind_r (get_u64 jx j) (\<lambda>n. Ok (to_quantity jx n)))"

text \<open>A topic that is null becomes the empty list, one that is text a list with the topic it denotes.\<close>

definition topic_item :: "json_ext \<Rightarrow> json \<Rightarrow> json result" where
  "topic_item jx j =
     (case j of
        Null \<Rightarrow> Ok (Array [])
      | String _ \<Rightarrow> bind_r (from_json_bytes32 jx j) (\<lambda>t. Ok (Array [to_json_bytes32 jx t]))
      | _ \<Rightarrow> Ok j)"

definition get_filter_topics :: "json_ext \<Rightarrow> json \<Rightarrow> bytes list list option result" where
  "get_filter_topics jx topics =
     (case topics of
        Null \<Rightarrow> Ok None
      | Array xs \<Rightarrow> bind_r (map_r (topic_item jx) xs) (\<lambda>xs.
          bind_r (map_r (get_vector (from_json_bytes32 jx)) xs) (\<lambda>ts. Ok (Some ts)))
      | _ \<Rightarrow> Throw (Runtime_error ''type must be array''))"

definition from_json_Filter :: "json_ext \<Rightarrow> json \<Rightarrow> log_filter result" where
  "from_json_Filter jx j =
     bind_r (optional_member (get_block_id jx) j ''fromBlock'') (\<lambda>from_block.
     bind_r (optional_member (get_block_id jx) j ''toBlock'') (\<lambda>to_block.
     bind_r (optional_member (\<lambda>a. if is_string a then bind_r (from_json_address jx a) (\<lambda>x. Ok [x])
         else get_vector (from_json_address jx) a) j ''address'') (\<lambda>addresses.
     bind_r (if contains j ''topics'' then get_filter_topics jx (field j ''topics'') else Ok None) (\<lambda>topics.
     bind_r (optional_member get_string j ''blockHash'') (\<lambda>block_hash.
       Ok \<lparr>fl_from_block = from_block, fl_to_block = to_block, fl_addresses = addresses, fl_topics = topics,
          fl_block_hash = block_hash\<rparr>)))))"

section \<open>The engine interface\<close>

record execution_payload =
  ep_number :: u64
  ep_timestamp :: u64
  ep_gas_limit :: u64
  ep_gas_used :: u64
  ep_suggested_fee_recipient :: bytes
  ep_state_root :: bytes
  ep_receipts_root :: bytes
  ep_parent_hash :: bytes
  ep_block_hash :: bytes
  ep_prev_randao :: bytes
  ep_base_fee :: u256
  ep_logs_bloom :: bytes
  ep_extra_data :: bytes
  ep_transactions :: "bytes list"

text \<open>The list of transactions starts as null and becomes an array with the first one.\<close>

definition to_json_ExecutionPayload :: "json_ext \<Rightarrow> execution_payload \<Rightarrow> json" where
  "to_json_ExecutionPayload jx p =
     members
       [(''parentHash'', to_json_bytes32 jx (ep_parent_hash p)),
        (''feeRecipient'', to_json_address jx (ep_suggested_fee_recipient p)),
        (''stateRoot'', to_json_bytes32 jx (ep_state_root p)),
        (''receiptsRoot'', to_json_bytes32 jx (ep_receipts_root p)),
        (''logsBloom'', prefixed_hex jx (ep_logs_bloom p)),
        (''prevRandao'', to_json_bytes32 jx (ep_prev_randao p)),
        (''blockNumber'', String (to_quantity jx (ep_number p))),
        (''gasLimit'', String (to_quantity jx (ep_gas_limit p))),
        (''gasUsed'', String (to_quantity jx (ep_gas_used p))),
        (''timestamp'', String (to_quantity jx (ep_timestamp p))),
        (''extraData'', prefixed_hex jx (ep_extra_data p)),
        (''baseFeePerGas'', String (to_quantity_u256 jx (ep_base_fee p))),
        (''blockHash'', to_json_bytes32 jx (ep_block_hash p)),
        (''transactions'', if ep_transactions p = [] then Null else Array (map (prefixed_hex jx) (ep_transactions p)))]"

text \<open>Text that is not hexadecimal is dereferenced unchecked, and 256 bytes of bloom are copied from what it denotes.\<close>

definition deref_hex :: "json_ext \<Rightarrow> json \<Rightarrow> bytes result" where
  "deref_hex jx j = bind_r (get_string j) (\<lambda>s. case jx_from_hex jx s of None \<Rightarrow> Throw Uninitialized_read | Some bs \<Rightarrow> Ok bs)"

definition kBloomByteLength :: nat where "kBloomByteLength = 256"

definition from_json_ExecutionPayload :: "json_ext \<Rightarrow> json \<Rightarrow> execution_payload result" where
  "from_json_ExecutionPayload jx j =
     bind_r (at_get (deref_hex jx) j ''logsBloom'') (\<lambda>bloom.
     if length bloom < kBloomByteLength then Throw Out_of_bounds else
     bind_r (at_get (\<lambda>ts. map_r (deref_hex jx) (items ts)) j ''transactions'') (\<lambda>transactions.
     bind_r (at_get get_hex_long j ''blockNumber'') (\<lambda>number.
     bind_r (at_get get_hex_long j ''timestamp'') (\<lambda>timestamp.
     bind_r (at_get get_hex_long j ''gasLimit'') (\<lambda>gas_limit.
     bind_r (at_get get_hex_long j ''gasUsed'') (\<lambda>gas_used.
     bind_r (at_get (from_json_address jx) j ''feeRecipient'') (\<lambda>fee_recipient.
     bind_r (at_get (from_json_bytes32 jx) j ''stateRoot'') (\<lambda>state_root.
     bind_r (at_get (from_json_bytes32 jx) j ''receiptsRoot'') (\<lambda>receipts_root.
     bind_r (at_get (from_json_bytes32 jx) j ''parentHash'') (\<lambda>parent_hash.
     bind_r (at_get (from_json_bytes32 jx) j ''blockHash'') (\<lambda>block_hash.
     bind_r (at_get (from_json_bytes32 jx) j ''prevRandao'') (\<lambda>prev_randao.
     bind_r (at_get (from_json_uint256 jx) j ''baseFeePerGas'') (\<lambda>base_fee.
     bind_r (at_get (deref_hex jx) j ''extraData'') (\<lambda>extra_data.
       Ok \<lparr>ep_number = number, ep_timestamp = timestamp, ep_gas_limit = gas_limit, ep_gas_used = gas_used,
          ep_suggested_fee_recipient = fee_recipient, ep_state_root = state_root, ep_receipts_root = receipts_root,
          ep_parent_hash = parent_hash, ep_block_hash = block_hash, ep_prev_randao = prev_randao, ep_base_fee = base_fee,
          ep_logs_bloom = take kBloomByteLength bloom, ep_extra_data = extra_data, ep_transactions = transactions\<rparr>))))))))))))))"

record fork_choice_state =
  fc_head_block_hash :: bytes
  fc_safe_block_hash :: bytes
  fc_finalized_block_hash :: bytes

definition to_json_ForkChoiceState :: "json_ext \<Rightarrow> fork_choice_state \<Rightarrow> json" where
  "to_json_ForkChoiceState jx f =
     members [(''headBlockHash'', to_json_bytes32 jx (fc_head_block_hash f)), (''safeBlockHash'', to_json_bytes32 jx (fc_safe_block_hash f)),
       (''finalizedBlockHash'', to_json_bytes32 jx (fc_finalized_block_hash f))]"

definition from_json_ForkChoiceState :: "json_ext \<Rightarrow> json \<Rightarrow> fork_choice_state result" where
  "from_json_ForkChoiceState jx j =
     bind_r (at_get (from_json_bytes32 jx) j ''headBlockHash'') (\<lambda>head.
     bind_r (at_get (from_json_bytes32 jx) j ''safeBlockHash'') (\<lambda>safe.
     bind_r (at_get (from_json_bytes32 jx) j ''finalizedBlockHash'') (\<lambda>finalized.
       Ok \<lparr>fc_head_block_hash = head, fc_safe_block_hash = safe, fc_finalized_block_hash = finalized\<rparr>)))"

record payload_attributes =
  pa_timestamp :: u64
  pa_prev_randao :: bytes
  pa_suggested_fee_recipient :: bytes

definition to_json_PayloadAttributes :: "json_ext \<Rightarrow> payload_attributes \<Rightarrow> json" where
  "to_json_PayloadAttributes jx p =
     members [(''timestamp'', String (to_quantity jx (pa_timestamp p))), (''prevRandao'', to_json_bytes32 jx (pa_prev_randao p)),
       (''feeRecipient'', to_json_address jx (pa_suggested_fee_recipient p))]"

definition from_json_PayloadAttributes :: "json_ext \<Rightarrow> json \<Rightarrow> payload_attributes result" where
  "from_json_PayloadAttributes jx j =
     bind_r (at_get get_hex_long j ''timestamp'') (\<lambda>timestamp.
     bind_r (at_get (from_json_bytes32 jx) j ''prevRandao'') (\<lambda>prev_randao.
     bind_r (at_get (from_json_address jx) j ''feeRecipient'') (\<lambda>fee_recipient.
       Ok \<lparr>pa_timestamp = timestamp, pa_prev_randao = prev_randao, pa_suggested_fee_recipient = fee_recipient\<rparr>)))"

record payload_status =
  ps_status :: string
  ps_latest_valid_hash :: "bytes option"
  ps_validation_error :: "string option"

definition to_json_PayloadStatus :: "json_ext \<Rightarrow> payload_status \<Rightarrow> json" where
  "to_json_PayloadStatus jx s =
     members ([(''status'', String (ps_status s))] @ optional_field ''latestValidHash'' (to_json_bytes32 jx) (ps_latest_valid_hash s) @
       optional_field ''validationError'' String (ps_validation_error s))"

record fork_choice_updated_reply =
  fr_payload_status :: payload_status
  fr_payload_id :: "u64 option"

definition to_json_ForkChoiceUpdatedReply :: "json_ext \<Rightarrow> fork_choice_updated_reply \<Rightarrow> json" where
  "to_json_ForkChoiceUpdatedReply jx r =
     members ([(''payloadStatus'', to_json_PayloadStatus jx (fr_payload_status r))] @
       optional_field ''payloadId'' (\<lambda>i. String (to_quantity jx i)) (fr_payload_id r))"

record transition_configuration =
  tc_terminal_total_difficulty :: u256
  tc_terminal_block_hash :: bytes
  tc_terminal_block_number :: u64

definition to_json_TransitionConfiguration :: "json_ext \<Rightarrow> transition_configuration \<Rightarrow> json" where
  "to_json_TransitionConfiguration jx c =
     members [(''terminalTotalDifficulty'', String (to_quantity_u256 jx (tc_terminal_total_difficulty c))),
       (''terminalBlockHash'', to_json_bytes32 jx (tc_terminal_block_hash c)),
       (''terminalBlockNumber'', String (to_quantity jx (tc_terminal_block_number c)))]"

definition from_json_TransitionConfiguration :: "json_ext \<Rightarrow> json \<Rightarrow> transition_configuration result" where
  "from_json_TransitionConfiguration jx j =
     bind_r (at_get (from_json_uint256 jx) j ''terminalTotalDifficulty'') (\<lambda>difficulty.
     bind_r (at_get (from_json_bytes32 jx) j ''terminalBlockHash'') (\<lambda>block_hash.
     bind_r (at_get get_hex_long j ''terminalBlockNumber'') (\<lambda>block_number.
       Ok \<lparr>tc_terminal_total_difficulty = difficulty, tc_terminal_block_hash = block_hash, tc_terminal_block_number = block_number\<rparr>)))"

section \<open>Node, pool and bundle information\<close>

definition to_json_ChainTraffic :: "json_ext \<Rightarrow> u256 \<Rightarrow> u64 \<Rightarrow> json" where
  "to_json_ChainTraffic jx cumulative_gas_used cumulative_transactions_count =
     members [(''cumulativeGasUsed'', String (to_quantity_u256 jx cumulative_gas_used)),
       (''cumulativeTransactionsCount'', String (to_quantity jx cumulative_transactions_count))]"

definition to_json_StageData :: "string \<times> string \<Rightarrow> json" where
  "to_json_StageData st = members [(''stage_name'', String (fst st)), (''block_number'', String (snd st))]"

definition to_json_SyncingData :: "string \<Rightarrow> string \<Rightarrow> (string \<times> string) list \<Rightarrow> json" where
  "to_json_SyncingData current_block highest_block stages =
     members [(''currentBlock'', String current_block), (''highestBlock'', String highest_block),
       (''stages'', Array (map to_json_StageData stages))]"

record tx_pool_status_info =
  pi_base_fee :: u32
  pi_pending :: u32
  pi_queued :: u32

definition to_json_TxPoolStatusInfo :: "json_ext \<Rightarrow> tx_pool_status_info \<Rightarrow> json" where
  "to_json_TxPoolStatusInfo jx i =
     members [(''queued'', String (to_quantity jx (ucast (pi_queued i)))), (''pending'', String (to_quantity jx (ucast (pi_pending i)))),
       (''baseFee'', String (to_quantity jx (ucast (pi_base_fee i))))]"

definition to_json_Rlp :: "json_ext \<Rightarrow> bytes \<Rightarrow> json" where
  "to_json_Rlp jx buffer = prefixed_hex jx buffer"

record node_info =
  ni_id :: string
  ni_name :: string
  ni_enode :: string
  ni_enr :: string
  ni_listener_addr :: string
  ni_protocols :: string
  ni_discovery :: u64
  ni_listener :: u64

definition to_json_NodeInfoPorts :: "node_info \<Rightarrow> json" where
  "to_json_NodeInfoPorts n = members [(''discovery'', Number (uint (ni_discovery n))), (''listener'', Number (uint (ni_listener n)))]"

definition to_json_NodeInfo :: "json_ext \<Rightarrow> node_info \<Rightarrow> json" where
  "to_json_NodeInfo jx n =
     members [(''id'', String (ni_id n)), (''name'', String (ni_name n)), (''enode'', String (ni_enode n)), (''enr'', String (ni_enr n)),
       (''listenAddr'', String (ni_listener_addr n)), (''ports'', to_json_NodeInfoPorts n), (''ip'', String (ni_enode n)),
       (''protocols'', jx_parse_or_discarded jx (ni_protocols n))]"

record call_bundle_tx_info =
  bt_hash :: bytes
  bt_gas_used :: u64
  bt_value :: bytes
  bt_error_message :: string

definition to_json_CallBundleTxInfo :: "json_ext \<Rightarrow> call_bundle_tx_info \<Rightarrow> json" where
  "to_json_CallBundleTxInfo jx i =
     members [(''gasUsed'', Number (uint (bt_gas_used i))), (''txHash'', to_json_bytes32 jx (jx_to_bytes32 jx (bt_hash i))),
       (if length (bt_error_message i) \<noteq> 0 then (''error'', String (bt_error_message i))
        else (''value'', to_json_bytes32 jx (jx_to_bytes32 jx (bt_value i))))]"

definition to_json_CallBundleInfo :: "json_ext \<Rightarrow> bytes \<Rightarrow> call_bundle_tx_info list \<Rightarrow> json" where
  "to_json_CallBundleInfo jx bundle_hash txs_info =
     members [(''bundleHash'', to_json_bytes32 jx (jx_to_bytes32 jx bundle_hash)),
       (''results'', Array (map (to_json_CallBundleTxInfo jx) txs_info))]"

definition to_json_AccessListResult :: "json_ext \<Rightarrow> (bytes \<times> bytes list) list \<Rightarrow> string option \<Rightarrow> u64 \<Rightarrow> json" where
  "to_json_AccessListResult jx access_list error gas_used =
     members ([(''accessList'', Array (map (to_json_AccessListEntry jx) access_list))] @ optional_field ''error'' String error @
       [(''gasUsed'', String (to_quantity jx gas_used))])"

definition to_json_Forks :: "json_ext \<Rightarrow> bytes \<Rightarrow> u64 list \<Rightarrow> json" where
  "to_json_Forks jx genesis_hash block_numbers =
     members [(''genesis'', to_json_bytes32 jx genesis_hash), (''forks'', Array (map (\<lambda>n. Number (uint n)) block_numbers))]"

record issuance_info =
  is_block_reward :: "string option"
  is_ommer_reward :: "string option"
  is_issuance :: "string option"
  is_burnt :: "string option"
  is_total_issued :: "string option"
  is_total_burnt :: "string option"
  is_tips :: "string option"

definition string_or_null :: "string option \<Rightarrow> json" where
  "string_or_null v = (case v of Some s \<Rightarrow> String s | None \<Rightarrow> Null)"

definition to_json_Issuance :: "issuance_info \<Rightarrow> json" where
  "to_json_Issuance i =
     members [(''blockReward'', string_or_null (is_block_reward i)), (''uncleReward'', string_or_null (is_ommer_reward i)),
       (''issuance'', string_or_null (is_issuance i)), (''burnt'', string_or_null (is_burnt i)),
       (''totalIssued'', string_or_null (is_total_issued i)), (''totalBurnt'', string_or_null (is_total_burnt i)),
       (''tips'', string_or_null (is_tips i))]"

definition to_json_RevertError :: "json_ext \<Rightarrow> int \<Rightarrow> string \<Rightarrow> bytes \<Rightarrow> json" where
  "to_json_RevertError jx code message revert_data =
     json_object [(''code'', Number code), (''message'', String message), (''data'', prefixed_hex jx revert_data)]"

definition to_json_addresses :: "json_ext \<Rightarrow> bytes list \<Rightarrow> json" where
  "to_json_addresses jx addresses = Array (map (prefixed_hex jx) addresses)"

definition make_json_content_null :: "u32 \<Rightarrow> json" where
  "make_json_content_null rid = json_object [(''jsonrpc'', String ''2.0''), (''id'', Number (uint rid)), (''result'', Null)]"

definition make_json_revert_error :: "json_ext \<Rightarrow> u32 \<Rightarrow> int \<Rightarrow> string \<Rightarrow> bytes \<Rightarrow> json" where
  "make_json_revert_error jx rid code message revert_data =
     json_object [(''jsonrpc'', String ''2.0''), (''id'', Number (uint rid)), (''error'', to_json_RevertError jx code message revert_data)]"

text \<open>A block number or hash from JSON, as the template specialization in \<^verbatim>\<open>json/types.hpp\<close> reads it.\<close>

definition from_json_BlockNumberOrHash :: "json_ext \<Rightarrow> codec \<Rightarrow> json \<Rightarrow> block_number_or_hash result" where
  "from_json_BlockNumberOrHash jx cd j =
     (if is_string j then bind_r (get_string j) (bnoh_build (jx_from_hex jx) cd)
      else if is_number j then bind_r (get_u64 jx j) (\<lambda>n. Ok (Block_number n))
      else Ok (Block_number 0))"

end
