(* ===== verification/Account_Dumper.thy ===== *)
theory Account_Dumper
  imports Walkers Json_Types
begin

text \<open>
  The dump of accounts: \<^verbatim>\<open>core/account_dumper.cpp\<close> and \<^verbatim>\<open>types/dump_account.cpp\<close>. The walks run on the cursors of
  the transaction, the other reads on the \<^verbatim>\<open>TransactionDatabase\<close> over it, the reader \<open>rd\<close>. The trie builder of
  another repository is the function \<open>root_hash\<close> from the leaves, hashed location and value, to the root.
\<close>

section \<open>Ordered maps\<close>

text \<open>\<^verbatim>\<open>std::map\<close>: insertion keeps an entry that is there, assignment through the index operator replaces it.\<close>

fun map_insert :: "('k :: linorder) \<times> 'v \<Rightarrow> ('k \<times> 'v) list \<Rightarrow> ('k \<times> 'v) list" where
  "map_insert (k, v) [] = [(k, v)]"
| "map_insert (k, v) ((k', v') # m) =
     (if k < k' then (k, v) # (k', v') # m else if k' < k then (k', v') # map_insert (k, v) m else (k', v') # m)"

fun map_assign :: "('k :: linorder) \<times> 'v \<Rightarrow> ('k \<times> 'v) list \<Rightarrow> ('k \<times> 'v) list" where
  "map_assign (k, v) [] = [(k, v)]"
| "map_assign (k, v) ((k', v') # m) =
     (if k < k' then (k, v) # (k', v') # m else if k' < k then (k', v') # map_assign (k, v) m else (k, v) # m)"

section \<open>The dump\<close>

record dump_account =
  da_balance :: u256
  da_nonce :: u64
  da_incarnation :: u64
  da_root :: bytes
  da_code_hash :: bytes
  da_code :: "bytes option"
  da_storage :: "(bytes \<times> bytes) list option"

record dump_accounts =
  dp_root :: bytes
  dp_next :: bytes
  dp_accounts :: "(bytes \<times> dump_account) list"

text \<open>The collector of \<^verbatim>\<open>dump_accounts\<close>: the pairs so far and the address where a limited dump goes on.\<close>

definition dump_collector ::
  "state_ext \<Rightarrow> 16 word \<Rightarrow> bytes \<Rightarrow> bytes \<Rightarrow> key_value list \<times> bytes \<Rightarrow> (key_value list \<times> bytes) \<times> bool" where
  "dump_collector sx max_result k v acc =
     (let (collected, nxt) = acc in
      if sint max_result > 0 \<and> (of_nat (length collected) :: u64) \<ge> scast max_result
      then ((collected, sx_to_evmc_address sx k), False)
      else if length k > kAddressLength then ((collected, nxt), True)
      else ((collected @ [KV k v], nxt), True))"

text \<open>The code is read with the hash of the stored account, also when the hash of the dump was read from the table of code hashes.\<close>

definition load_account :: "state_ext \<Rightarrow> reader \<Rightarrow> bool \<Rightarrow> key_value \<Rightarrow> (bytes \<times> dump_account) result" where
  "load_account sx rd exclude_code kv =
     (let adr = sx_to_evmc_address sx (kv_key kv) in
      case sx_decode_account sx (kv_value kv) of
        Inl err \<Rightarrow> Throw (Runtime_error err)
      | Inr account \<Rightarrow>
          bind_r
            (if ac_incarnation account > 0 \<and> ac_code_hash account = sx_empty_hash sx
             then bind_r (rd_get_one rd ''PlainCodeHash'' (sx_storage_prefix sx adr (ac_incarnation account))) (\<lambda>code_hash.
               Ok (if length code_hash = kHashLength then code_hash else ac_code_hash account))
             else Ok (ac_code_hash account)) (\<lambda>code_hash.
          bind_r (if exclude_code then Ok None else read_code sx rd (ac_code_hash account)) (\<lambda>codes.
            Ok (adr, \<lparr>da_balance = ac_balance account, da_nonce = ac_nonce account, da_incarnation = ac_incarnation account,
              da_root = zeros 32, da_code_hash = code_hash, da_code = codes, da_storage = None\<rparr>))))"

definition load_accounts :: "state_ext \<Rightarrow> reader \<Rightarrow> key_value list \<Rightarrow> bool \<Rightarrow> dump_accounts \<Rightarrow> dump_accounts result" where
  "load_accounts sx rd collected exclude_code d =
     fold_r (\<lambda>kv d. bind_r (load_account sx rd exclude_code kv) (\<lambda>entry. Ok (d\<lparr>dp_accounts := map_insert entry (dp_accounts d)\<rparr>)))
       collected d"

text \<open>The collector of \<^verbatim>\<open>load_storage\<close>: the storage of the account and the leaves of its trie.\<close>

definition storage_collector ::
  "state_ext \<Rightarrow> bytes \<Rightarrow> bytes \<Rightarrow> bytes \<Rightarrow> (bytes \<times> bytes) list option \<times> (bytes \<times> bytes) list \<Rightarrow>
     ((bytes \<times> bytes) list option \<times> (bytes \<times> bytes) list) \<times> bool" where
  "storage_collector sx addr loc dat acc =
     (let (storage, collected_entries) = acc;
          st = (case storage of None \<Rightarrow> [] | Some st \<Rightarrow> st)
      in ((Some (map_assign (sx_to_bytes32 sx loc, dat) st), map_assign (sx_hash_of sx loc, dat) collected_entries), True))"

definition load_account_storage ::
  "state_ext \<Rightarrow> ((bytes \<times> bytes) list \<Rightarrow> bytes) \<Rightarrow> ('h, 's) tx_ops \<Rightarrow> u64 \<Rightarrow> bytes \<Rightarrow> dump_account \<Rightarrow> 's \<Rightarrow>
     (dump_account \<times> 's) result option" where
  "load_account_storage sx root_hash ops block_number adr account s =
     (case walk_of_storages sx ops block_number adr (zeros 32) (da_incarnation account) (storage_collector sx)
         (da_storage account, []) s of
        None \<Rightarrow> None
      | Some (Inl e) \<Rightarrow> Some (Throw e)
      | Some (Inr ((storage, collected_entries), s')) \<Rightarrow>
          Some (Ok (account\<lparr>da_storage := storage, da_root := root_hash collected_entries\<rparr>, s')))"

fun load_storage ::
  "state_ext \<Rightarrow> ((bytes \<times> bytes) list \<Rightarrow> bytes) \<Rightarrow> ('h, 's) tx_ops \<Rightarrow> u64 \<Rightarrow> (bytes \<times> dump_account) list \<Rightarrow> 's \<Rightarrow>
     ((bytes \<times> dump_account) list \<times> 's) result option" where
  "load_storage sx root_hash ops block_number [] s = Some (Ok ([], s))"
| "load_storage sx root_hash ops block_number ((adr, account) # accounts) s =
     (case load_account_storage sx root_hash ops block_number adr account s of
        None \<Rightarrow> None
      | Some (Inl e) \<Rightarrow> Some (Throw e)
      | Some (Inr (account', s1)) \<Rightarrow>
        (case load_storage sx root_hash ops block_number accounts s1 of
          None \<Rightarrow> None
        | Some (Inl e) \<Rightarrow> Some (Throw e)
        | Some (Inr (accounts', s2)) \<Rightarrow> Some (Ok ((adr, account') # accounts', s2))))"

definition dump_accounts_of ::
  "state_ext \<Rightarrow> ((bytes \<times> bytes) list \<Rightarrow> bytes) \<Rightarrow> 'c block_cache \<Rightarrow> stage_keys \<Rightarrow> ext \<Rightarrow> reader \<Rightarrow> ('h, 's) tx_ops \<Rightarrow>
     block_number_or_hash \<Rightarrow> bytes \<Rightarrow> 16 word \<Rightarrow> bool \<Rightarrow> bool \<Rightarrow> 'c \<Rightarrow> 's \<Rightarrow> (dump_accounts \<times> 's) result option \<times> 'c" where
  "dump_accounts_of sx root_hash bc ks x rd ops bnoh start_address max_result exclude_code exclude_storage c s =
     (case read_block_by_number_or_hash bc ks x rd bnoh c of
        (Inl e, c') \<Rightarrow> (Some (Throw e), c')
      | (Inr block, c') \<Rightarrow>
        let block_number = hdr_number (bw_header block) in
        (case walk_of_accounts sx ops (block_number + 1) start_address (dump_collector sx max_result) ([], zeros 20) s of
          None \<Rightarrow> None
        | Some (Inl e) \<Rightarrow> Some (Throw e)
        | Some (Inr ((collected, nxt), s1)) \<Rightarrow>
          (case load_accounts sx rd collected exclude_code
              \<lparr>dp_root = hdr_state_root (bw_header block), dp_next = nxt, dp_accounts = []\<rparr> of
            Inl e \<Rightarrow> Some (Throw e)
          | Inr d \<Rightarrow>
              if exclude_storage then Some (Ok (d, s1))
              else (case load_storage sx root_hash ops block_number (dp_accounts d) s1 of
                  None \<Rightarrow> None
                | Some (Inl e) \<Rightarrow> Some (Throw e)
                | Some (Inr (accounts, s2)) \<Rightarrow> Some (Ok (d\<lparr>dp_accounts := accounts\<rparr>, s2)))), c'))"

section \<open>As JSON\<close>

definition to_json_DumpAccount :: "json_ext \<Rightarrow> dump_account \<Rightarrow> json" where
  "to_json_DumpAccount jx a =
     members
       ([(''balance'', String (to_dec (da_balance a))), (''nonce'', Number (uint (da_nonce a))),
         (''root'', to_json_bytes32 jx (da_root a)), (''codeHash'', to_json_bytes32 jx (da_code_hash a))] @
        optional_field ''code'' (prefixed_hex jx) (da_code a) @
        optional_field ''storage'' (\<lambda>st. Object (fold (\<lambda>(k, v). assign (''0x'' @ jx_to_hex jx k, String (jx_to_hex jx v))) st []))
          (da_storage a))"

definition to_json_DumpAccounts :: "json_ext \<Rightarrow> dump_accounts \<Rightarrow> json" where
  "to_json_DumpAccounts jx d =
     json_object
       [(''root'', to_json_bytes32 jx (dp_root d)),
        (''accounts'', Object (fold (\<lambda>(a, acc). emplace (''0x'' @ jx_to_hex jx a, to_json_DumpAccount jx acc)) (dp_accounts d) [])),
        (''next'', String (base64_encode (dp_next d) False))]"

text \<open>An account whose code hash comes from the table of code hashes is dumped without its code.\<close>

lemma dump_omits_code:
  assumes "sx_decode_account sx (kv_value kv) = Inr account" "ac_incarnation account > 0" "ac_code_hash account = sx_empty_hash sx"
    and "rd_get_one rd ''PlainCodeHash'' (sx_storage_prefix sx (sx_to_evmc_address sx (kv_key kv)) (ac_incarnation account)) = Ok code_hash"
    and "length code_hash = kHashLength"
  shows "\<exists>d. load_account sx rd False kv = Ok (sx_to_evmc_address sx (kv_key kv), d) \<and> da_code_hash d = code_hash \<and> da_code d = None"
  using assms by (simp add: load_account_def read_code_def Let_def)

text \<open>A dump that is limited to a positive number of accounts collects at most this many.\<close>

lemma dump_collector_limit:
  assumes "0 < m" "m < 2 ^ 15" "length (fst acc) \<le> m"
  shows "length (fst (fst (dump_collector sx (of_nat m) k v acc))) \<le> m"
proof -
  obtain collected nxt where acc: "acc = (collected, nxt)" by fastforce
  have s: "sint (of_nat m :: 16 word) = int m" using assms(2) by (simp add: signed_of_nat signed_take_bit_int_eq_self)
  show ?thesis
  proof (cases "length collected = m")
    case True
    have "scast (of_nat m :: 16 word) = (of_nat m :: u64)" using s by (metis of_int_of_nat_eq of_int_sint)
    then show ?thesis using True s assms(1) acc by (simp add: dump_collector_def)
  next
    case False
    then show ?thesis using assms(3) acc by (auto simp: dump_collector_def Let_def)
  qed
qed

end
