(* ===== verification/Json_Types_Props.thy ===== *)
theory Json_Types_Props
  imports Json_Types
begin

text \<open>
  What the JSON conversions guarantee: quantities are the shortest hexadecimal text of their value and are
  read back as that value, and what is written for the engine interface and for filters is read back.
\<close>

section \<open>Quantities\<close>

lemma nibbles: "unat ((x :: byte) AND 0x0f) = unat x mod 16" "unat (drop_bit 4 (x :: byte)) = unat x div 16"
proof -
  have "x AND 0x0f = take_bit 4 x" by (simp add: take_bit_eq_mask mask_eq_exp_minus_1)
  then have "unat (x AND 0x0f) = take_bit 4 (unat x)" by (metis unsigned_take_bit_eq)
  then show "unat (x AND 0x0f) = unat x mod 16" by (simp add: take_bit_eq_mod [of 4 "unat x"])
  have "take_bit 8 (unat x) = unat x" using unat_byte [of x] by (simp add: take_bit_nat_eq_self_iff)
  then have "unat (drop_bit 4 x) = drop_bit 4 (unat x)" by (simp only: unsigned_drop_bit_eq) simp
  then show "unat (drop_bit 4 x) = unat x div 16" by (simp add: drop_bit_eq_div [of 4 "unat x"])
qed

lemma hex_char_0: "hex_char 0 = CHR ''0''"
  by (simp add: hex_char_def) code_simp

lemma hex_char_zero: "d < 16 \<Longrightarrow> hex_char d = CHR ''0'' \<longleftrightarrow> d = 0"
proof -
  assume "d < 16"
  moreover have "digit_val (hex_char 0) = Some 0" by (rule digit_val_hex_char) simp
  ultimately show ?thesis using digit_val_hex_char [of d] hex_char_0 by (metis option.inject)
qed

lemma no_leading_zeros_True: "no_leading_zeros True bs = hex_of_bytes bs"
  by (induction bs) (simp_all add: hex_of_bytes_def hex_of_byte_def nibbles Let_def)

text \<open>The loop removes the leading zeros of the hexadecimal text and keeps its last digit.\<close>

lemma no_leading_zeros_False:
  assumes "bs \<noteq> []"
  shows "no_leading_zeros False bs =
    (let ds = dropWhile (\<lambda>c. c = CHR ''0'') (hex_of_bytes bs) in if ds = [] then ''0'' else ds)"
  using assms
proof (induction bs)
  case (Cons x xs)
  note z = hex_char_zero [OF byte_nibbles(1) [of x]] hex_char_zero [OF byte_nibbles(2) [of x]]
  have h: "hex_of_bytes (x # xs) = hex_char (unat x div 16) # hex_char (unat x mod 16) # hex_of_bytes xs"
    by (simp add: hex_of_bytes_def hex_of_byte_def)
  show ?case
  proof (cases "unat x div 16 = 0 \<and> unat x mod 16 = 0")
    case True
    note e = hex_char_0
    show ?thesis
    proof (cases "xs = []")
      case True
      with \<open>unat x div 16 = 0 \<and> unat x mod 16 = 0\<close> e h show ?thesis
        by (simp add: nibbles Let_def hex_of_bytes_def)
    next
      case False
      with \<open>unat x div 16 = 0 \<and> unat x mod 16 = 0\<close> e h Cons.IH show ?thesis by (simp add: nibbles Let_def)
    qed
  next
    case False
    obtain hi lo where c: "hi = hex_char (unat x div 16)" "lo = hex_char (unat x mod 16)" by blast
    with False z have "hi \<noteq> CHR ''0'' \<or> lo \<noteq> CHR ''0''" by metis
    then show ?thesis unfolding h no_leading_zeros.simps nibbles Let_def c [symmetric]
      by (cases "hi = CHR ''0''") (simp_all add: no_leading_zeros_True)
  qed
qed simp

lemma strto_hex_prefixed:
  assumes "ds \<noteq> []" "\<forall>c \<in> set ds. is_digit_of 16 c"
  shows "strto 16 (''0x'' @ ds) = Some (False, value_of 16 ds)"
proof -
  obtain c s where ds: "ds = c # s" using assms(1) by (cases ds) auto
  have "\<not> is_space CHR ''0''" by (simp add: is_space_def char_nat_def)
  then have "read_sign (dropWhile is_space (''0x'' @ ds)) = (False, ''0x'' @ ds)" by simp
  moreover have "read_base 16 (''0x'' @ ds) = (16, ds)" using assms(2) ds by simp
  moreover have "takeWhile (is_digit_of 16) ds = ds"
    using assms(2) by (simp only: takeWhile_eq_all_conv)
  ultimately show ?thesis using assms(1) by (simp add: strto_def Let_def del: takeWhile_eq_all_conv)
qed

lemma value_of_dropWhile_zero:
  "value_of 16 (dropWhile (\<lambda>c. c = CHR ''0'') ds) = value_of 16 ds"
proof (induction ds)
  case (Cons c cs)
  have "digit_val (CHR ''0'') = Some 0" by (simp add: digit_val_def char_nat_def)
  then have "c = CHR ''0'' \<Longrightarrow> value_of 16 (c # cs) = value_of 16 cs" by (simp add: value_of_def)
  then show ?case using Cons by simp
qed simp

lemma quantity_shape:
  obtains ds where "to_hex_no_leading_zeros bs = ds" "ds \<noteq> []" "hd ds = CHR ''0'' \<longrightarrow> ds = ''0''" "\<forall>c \<in> set ds. is_digit_of 16 c"
    "value_of 16 ds = be_value bs" "length ds \<le> 2 * length bs \<or> ds = ''0''"
proof -
  let ?hs = "dropWhile (\<lambda>c. c = CHR ''0'') (hex_of_bytes bs)" and ?ds = "to_hex_no_leading_zeros bs"
  have ds: "?ds = (if ?hs = [] then ''0'' else ?hs)"
    by (cases "bs = []") (simp_all add: to_hex_no_leading_zeros_def no_leading_zeros_False Let_def hex_of_bytes_def)
  have "value_of 16 ''0'' = value_of 16 []" by (simp add: value_of_def digit_val_def char_nat_def)
  then have "value_of 16 ?ds = be_value bs"
    using value_of_dropWhile_zero [of "hex_of_bytes bs"] value_of_hex [of bs] ds by metis
  moreover have "\<forall>c \<in> set ?ds. is_digit_of 16 c"
    using hex_of_bytes_digits [of bs] is_digit_hex_char [of 0] unfolding ds hex_char_0
    by (auto dest: set_dropWhileD)
  moreover have "hd ?ds = CHR ''0'' \<longrightarrow> ?ds = ''0''"
    using ds hd_dropWhile [of "\<lambda>c. c = CHR ''0''" "hex_of_bytes bs"] by auto
  moreover have "length (hex_of_bytes bs) = 2 * length bs" by (induction bs) (simp_all add: hex_of_bytes_def hex_of_byte_def)
  then have "length ?ds \<le> 2 * length bs \<or> ?ds = ''0''"
    using length_dropWhile_le [of "\<lambda>c. c = CHR ''0''" "hex_of_bytes bs"] ds by auto
  ultimately show thesis using that [of ?ds] ds by auto
qed

lemma quantity_strto: "strto 16 (to_quantity_bytes bs) = Some (False, be_value bs)"
proof -
  obtain ds where "to_hex_no_leading_zeros bs = ds" "ds \<noteq> []" "\<forall>c \<in> set ds. is_digit_of 16 c" "value_of 16 ds = be_value bs"
    by (rule quantity_shape [of bs])
  then show ?thesis using strto_hex_prefixed [of ds] by (simp add: to_quantity_bytes_def)
qed

text \<open>
  The quantity of a byte string is the hexadecimal text of the number it denotes: after the prefix come
  hexadecimal digits with no leading zero, only the digit zero for zero, and the standard library reads the
  number back from it.
\<close>

lemma quantity_shortest_and_exact:
  "\<exists>ds. to_quantity_bytes bs = ''0x'' @ ds \<and> ds \<noteq> [] \<and> (hd ds = CHR ''0'' \<longrightarrow> ds = ''0'') \<and>
     strto 16 (to_quantity_bytes bs) = Some (False, be_value bs)"
proof -
  obtain ds where "to_hex_no_leading_zeros bs = ds" "ds \<noteq> []" "hd ds = CHR ''0'' \<longrightarrow> ds = ''0''" by (rule quantity_shape [of bs])
  then show ?thesis using quantity_strto [of bs] by (auto simp: to_quantity_bytes_def)
qed

lemma quantity_shortest_and_exact_witness:
  "to_quantity_bytes [0, 10, 1] = ''0xa01'' \<and> strto 16 (to_quantity_bytes [0, 10, 1]) = Some (False, be_value [0, 10, 1])"
proof -
  have "to_quantity_bytes [0, 10, 1] = ''0xa01''" by code_simp
  then show ?thesis using quantity_shortest_and_exact [of "[0, 10, 1]"] by auto
qed

section \<open>Members\<close>

lemma map_of_assign: "map_of (assign (k, v) fs) = (map_of fs)(k \<mapsto> v)"
  by (induction fs) auto

lemma map_of_assigns: "map_of (fold assign fs gs) = map_of gs ++ map_of (rev fs)"
  by (induction fs arbitrary: gs) (auto simp: map_of_assign fun_eq_iff map_add_def split: option.split)

lemma at_field_members:
  "at_field (members fs) name = (case map_of (rev fs) name of Some v \<Rightarrow> Ok v | None \<Rightarrow> Throw (Out_of_range name))"
  by (auto simp: at_field_def members_def map_of_assigns map_add_def split: option.split)

lemma at_get_members:
  "at_get f (members fs) name = (case map_of (rev fs) name of Some v \<Rightarrow> f v | None \<Rightarrow> Throw (Out_of_range name))"
  by (simp add: at_get_def at_field_members split: option.split)

lemma optional_member_members:
  "optional_member f (members fs) name =
     (case map_of (rev fs) name of Some v \<Rightarrow> bind_r (f v) (\<lambda>x. Ok (Some x)) | None \<Rightarrow> Ok None)"
  by (auto simp: optional_member_def members_def map_of_assigns map_add_def split: option.split)

lemma contains_members: "contains (members fs) name \<longleftrightarrow> map_of (rev fs) name \<noteq> None"
  by (auto simp: members_def map_of_assigns map_add_def split: option.split)

lemma field_members: "field (members fs) name = (case map_of (rev fs) name of Some v \<Rightarrow> v | None \<Rightarrow> Null)"
  by (auto simp: members_def map_of_assigns map_add_def split: option.split)

lemma map_of_optional_field: "map_of (rev (optional_field n f v)) m = (if m = n then map_option f v else None)"
  by (auto simp: optional_field_def split: option.split)

lemma map_r_map: "(\<And>x. x \<in> set xs \<Longrightarrow> f (g x) = Ok x) \<Longrightarrow> map_r f (map g xs) = Ok xs"
  by (induction xs) auto

section \<open>Round trips\<close>

text \<open>
  What the conversions rely on of the libraries: hexadecimal text denotes the bytes it was made from, byte
  strings of the right length are converted unchanged, the encodings are big endian, and the number of a
  hexadecimal text of at most 64 digits is read.
\<close>

definition json_laws :: "json_ext \<Rightarrow> bool" where
  "json_laws jx \<longleftrightarrow>
     (\<forall>bs. jx_from_hex jx (''0x'' @ jx_to_hex jx bs) = Some bs) \<and>
     (\<forall>bs. length bs = 20 \<longrightarrow> jx_to_evmc_address jx bs = bs) \<and>
     (\<forall>bs. length bs = 32 \<longrightarrow> jx_to_bytes32 jx bs = bs) \<and>
     (\<forall>n. be_value (jx_store_big_u64 jx n) = unat n) \<and>
     (\<forall>n. be_value (jx_to_big_compact jx n) = unat n) \<and>
     (\<forall>ds. ds \<noteq> [] \<and> length ds \<le> 64 \<and> (\<forall>c \<in> set ds. is_digit_of 16 c) \<longrightarrow>
        jx_u256_from_string jx (''0x'' @ ds) = Ok (of_nat (value_of 16 ds)))"

lemma address_roundtrip: "json_laws jx \<Longrightarrow> length a = 20 \<Longrightarrow> from_json_address jx (to_json_address jx a) = Ok a"
  by (simp add: json_laws_def from_json_address_def to_json_address_def prefixed_hex_def value_or_def)

lemma bytes32_roundtrip: "json_laws jx \<Longrightarrow> length a = 32 \<Longrightarrow> from_json_bytes32 jx (to_json_bytes32 jx a) = Ok a"
  by (simp add: json_laws_def from_json_bytes32_def to_json_bytes32_def prefixed_hex_def value_or_def)

lemma deref_hex_roundtrip: "json_laws jx \<Longrightarrow> deref_hex jx (prefixed_hex jx bs) = Ok bs"
  by (simp add: json_laws_def deref_hex_def prefixed_hex_def)

text \<open>A quantity of 64 bits is read with a signed conversion: the upper half of the range is out of range.\<close>

lemma hex_long_quantity:
  assumes "json_laws jx"
  shows "get_hex_long (String (to_quantity jx n)) = (if n < 2 ^ 63 then Ok n else Throw (Out_of_range ''stol''))"
proof -
  have "strto 16 (to_quantity jx n) = Some (False, unat n)"
    using quantity_strto [of "jx_store_big_u64 jx n"] assms by (simp add: to_quantity_def to_quantity_bytes_def json_laws_def)
  moreover have "n < 2 ^ 63 \<longleftrightarrow> unat n < 2 ^ 63" by (simp add: word_less_nat_alt)
  moreover have "word_of_int (int (unat n)) = n" by simp
  ultimately show ?thesis by (auto simp: get_hex_long_def stol_def Let_def not_less)
qed

lemma value_of_Cons: "value_of 16 (c # cs) = the (digit_val c) * 16 ^ length cs + value_of 16 cs"
proof -
  have "foldl (\<lambda>a c. 16 * a + the (digit_val c)) a cs = a * 16 ^ length cs + foldl (\<lambda>a c. 16 * a + the (digit_val c)) 0 cs" for a
  proof (induction cs arbitrary: a)
    case (Cons d ds)
    have e: "(16 * a + x) * p + f = a * (16 * p) + (x * p + f)" for x p f :: nat by (simp add: algebra_simps)
    show ?case unfolding foldl_Cons length_Cons power_Suc mult_zero_right add_0
      unfolding Cons.IH [of "16 * a + the (digit_val d)"] Cons.IH [of "the (digit_val d)"] by (rule e)
  qed simp
  from this [of "the (digit_val c)"] show ?thesis by (simp add: value_of_def)
qed

lemma digits_bound:
  assumes "ds \<noteq> []" "hd ds \<noteq> CHR ''0''" "is_digit_of 16 (hd ds)" "value_of 16 ds < 16 ^ n"
  shows "length ds \<le> n"
proof -
  obtain c cs where ds: "ds = c # cs" using assms(1) by (cases ds) auto
  have "c = char_of (char_nat c)" by (simp add: char_nat_def)
  then have "char_nat c \<noteq> 48" using assms(2) ds hex_char_0 by (auto simp: hex_char_def)
  then have "the (digit_val c) \<noteq> 0"
    using assms(3) ds by (auto simp: is_digit_of_def digit_val_def Let_def split: if_splits)
  then have "16 ^ length cs \<le> value_of 16 ds" unfolding ds value_of_Cons by (cases "the (digit_val c)") auto
  then have "(16 :: nat) ^ length cs < 16 ^ n" using assms(4) by (rule order_le_less_trans)
  then show ?thesis using ds by (simp add: power_strict_increasing_iff)
qed

lemma uint256_roundtrip:
  assumes "json_laws jx"
  shows "from_json_uint256 jx (String (to_quantity_u256 jx n)) = Ok n"
proof -
  define bs where "bs = jx_to_big_compact jx n"
  obtain ds where ds: "to_hex_no_leading_zeros bs = ds" "ds \<noteq> []" "hd ds = CHR ''0'' \<longrightarrow> ds = ''0''" "\<forall>c \<in> set ds. is_digit_of 16 c"
    "value_of 16 ds = be_value bs" by (rule quantity_shape [of bs])
  have v: "be_value bs = unat n" using assms by (simp add: json_laws_def bs_def)
  have "unat n < 2 ^ 256" using unsigned_less [of n, where 'a = nat] by simp
  then have "value_of 16 ds < 16 ^ 64" using ds(5) v by simp
  then have "length ds \<le> 64" using digits_bound [OF ds(2)] ds(2,3,4) by (cases "hd ds = CHR ''0''") auto
  then have "jx_u256_from_string jx (''0x'' @ ds) = Ok n" using assms ds v by (simp add: json_laws_def)
  moreover have "jx_u256_from_string jx (''0x'' @ ''0'') = Ok (of_nat (value_of 16 ''0''))"
    using assms is_digit_hex_char [of 0] unfolding json_laws_def hex_char_0 by auto
  moreover have "value_of 16 ''0'' = 0" by (simp add: value_of_def digit_val_def char_nat_def)
  ultimately show ?thesis using ds(1)
    by (auto simp: from_json_uint256_def to_quantity_u256_def to_quantity_bytes_def bs_def)
qed

text \<open>
  C33: what is written for an execution payload is read back as the same payload when its block number, time,
  gas limit and gas used are below 2 to the 63; otherwise reading fails with an out of range exception,
  because they are read with a signed conversion.
\<close>

theorem execution_payload_roundtrip:
  assumes "json_laws jx" "length (ep_suggested_fee_recipient p) = 20" "length (ep_state_root p) = 32" "length (ep_receipts_root p) = 32"
    "length (ep_parent_hash p) = 32" "length (ep_block_hash p) = 32" "length (ep_prev_randao p) = 32" "length (ep_logs_bloom p) = 256"
  shows "from_json_ExecutionPayload jx (to_json_ExecutionPayload jx p) =
    (if ep_number p < 2 ^ 63 \<and> ep_timestamp p < 2 ^ 63 \<and> ep_gas_limit p < 2 ^ 63 \<and> ep_gas_used p < 2 ^ 63
     then Ok p else Throw (Out_of_range ''stol''))"
proof -
  have t: "map_r (deref_hex jx) (items (if ep_transactions p = [] then Null else Array (map (prefixed_hex jx) (ep_transactions p)))) =
      Ok (ep_transactions p)"
    using map_r_map [of "ep_transactions p" "deref_hex jx" "prefixed_hex jx"] deref_hex_roundtrip [OF assms(1)] by simp
  show ?thesis
    unfolding to_json_ExecutionPayload_def from_json_ExecutionPayload_def at_get_members
    using assms t by (simp add: address_roundtrip bytes32_roundtrip deref_hex_roundtrip hex_long_quantity uint256_roundtrip
        kBloomByteLength_def)
qed

definition filter_ok :: "log_filter \<Rightarrow> bool" where
  "filter_ok f \<longleftrightarrow> (\<forall>as. fl_addresses f = Some as \<longrightarrow> (\<forall>a \<in> set as. length a = 20)) \<and>
     (\<forall>ts. fl_topics f = Some ts \<longrightarrow> (\<forall>t \<in> set ts. \<forall>x \<in> set t. length x = 32))"

lemma topics_roundtrip:
  assumes "json_laws jx" "\<forall>t \<in> set ts. \<forall>x \<in> set t. length x = 32"
  shows "get_filter_topics jx (Array (map (\<lambda>t. Array (map (to_json_bytes32 jx) t)) ts)) = Ok (Some ts)"
proof -
  let ?js = "map (\<lambda>t. Array (map (to_json_bytes32 jx) t)) ts"
  have "map_r (topic_item jx) ?js = Ok ?js" by (induction ts) (simp_all add: topic_item_def)
  moreover have "map_r (get_vector (from_json_bytes32 jx)) ?js = Ok ts"
    using assms by (intro map_r_map) (simp add: map_r_map bytes32_roundtrip)
  ultimately show ?thesis by (simp add: get_filter_topics_def)
qed

lemma addresses_roundtrip:
  assumes "json_laws jx" "\<forall>a \<in> set as. length a = 20"
  defines "j \<equiv> if length as = 1 then to_json_address jx (as ! 0) else Array (map (to_json_address jx) as)"
  shows "(if is_string j then bind_r (from_json_address jx j) (\<lambda>x. Ok [x]) else get_vector (from_json_address jx) j) = Ok as"
proof (cases "length as = 1")
  case True
  then obtain a where "as = [a]" by (metis One_nat_def length_0_conv length_Suc_conv)
  then show ?thesis using assms address_roundtrip [of jx a] by (simp add: j_def to_json_address_def prefixed_hex_def)
next
  case False
  then show ?thesis using assms by (simp add: j_def map_r_map address_roundtrip)
qed

text \<open>
  A filter that is written as JSON is read back as the same filter, also when it has no member at all,
  a single address, or topics that are empty lists.
\<close>

lemma filter_roundtrip:
  assumes "json_laws jx" "filter_ok f"
  shows "from_json_Filter jx (to_json_Filter jx f) = Ok f"
proof -
  obtain fs where fs: "to_json_Filter jx f = members fs"
      "map_of (rev fs) ''fromBlock'' = map_option String (fl_from_block f)"
      "map_of (rev fs) ''toBlock'' = map_option String (fl_to_block f)"
      "map_of (rev fs) ''address'' = map_option
         (\<lambda>as. if length as = 1 then to_json_address jx (as ! 0) else Array (map (to_json_address jx) as)) (fl_addresses f)"
      "map_of (rev fs) ''topics'' = map_option (\<lambda>ts. Array (map (\<lambda>t. Array (map (to_json_bytes32 jx) t)) ts)) (fl_topics f)"
      "map_of (rev fs) ''blockHash'' = map_option String (fl_block_hash f)"
    by (rule that, unfold to_json_Filter_def, rule refl)
      (simp_all add: map_of_optional_field map_add_def split: option.split)
  have b: "optional_member (get_block_id jx) (members fs) ''fromBlock'' = Ok (fl_from_block f)"
    "optional_member (get_block_id jx) (members fs) ''toBlock'' = Ok (fl_to_block f)"
    "optional_member get_string (members fs) ''blockHash'' = Ok (fl_block_hash f)"
    unfolding optional_member_members fs(2,3,6) by (simp_all add: get_block_id_def split: option.split)
  have a: "optional_member (\<lambda>a. if is_string a then bind_r (from_json_address jx a) (\<lambda>x. Ok [x])
      else get_vector (from_json_address jx) a) (members fs) ''address'' = Ok (fl_addresses f)"
  proof (cases "fl_addresses f")
    case (Some as)
    then have "\<forall>a \<in> set as. length a = 20" using assms(2) by (simp add: filter_ok_def)
    from addresses_roundtrip [OF assms(1) this] show ?thesis
      unfolding optional_member_members fs(4) Some option.map option.case by (simp only: bind_r_simps)
  qed (simp add: optional_member_members fs(4))
  have t: "(if contains (members fs) ''topics'' then get_filter_topics jx (field (members fs) ''topics'') else Ok None) = Ok (fl_topics f)"
    using topics_roundtrip [OF assms(1)] assms(2) unfolding contains_members field_members fs(5) filter_ok_def
    by (cases "fl_topics f") simp_all
  show ?thesis unfolding from_json_Filter_def fs(1) b a t by simp
qed

section \<open>Hashes\<close>

lemma be_value_bound: "be_value bs < 256 ^ length bs"
proof (induction bs rule: rev_induct)
  case (snoc b bs)
  then have "be_value bs + 1 \<le> 256 ^ length bs" by simp
  then have "256 * (be_value bs + 1) \<le> 256 * 256 ^ length bs" by (rule mult_le_mono2)
  then show ?case using unat_byte [of b] by (simp add: be_value_def)
qed (simp add: be_value_def)

text \<open>
  The hash of a header is written as a quantity and not as data: a hash that starts with a zero byte is
  written with fewer than its 64 digits.
\<close>

lemma header_hash_loses_zeros:
  assumes "jx_header_hash jx h = 0 # hs" "length hs = 31"
  shows "\<exists>s. field (to_json_BlockHeader jx h) ''hash'' = String s \<and> length s < 2 + 2 * length (jx_header_hash jx h)"
proof -
  define bs where "bs = jx_header_hash jx h"
  obtain ds where ds: "to_hex_no_leading_zeros bs = ds" "ds \<noteq> []" "hd ds = CHR ''0'' \<longrightarrow> ds = ''0''" "\<forall>c \<in> set ds. is_digit_of 16 c"
    "value_of 16 ds = be_value bs" by (rule quantity_shape [of bs])
  have "be_value bs = be_value hs" using assms(1) by (simp add: bs_def be_value_def)
  then have "value_of 16 ds < 16 ^ 62" using be_value_bound [of hs] assms(2) ds(5) by simp
  then have "length ds \<le> 62" using digits_bound [OF ds(2)] ds(2,3,4) by (cases "hd ds = CHR ''0''") auto
  then have "length (to_quantity_bytes bs) < 66" using ds(1) by (simp add: to_quantity_bytes_def)
  moreover have "field (to_json_BlockHeader jx h) ''hash'' = String (to_quantity_bytes bs)"
    unfolding to_json_BlockHeader_def field_members bs_def by simp
  ultimately show ?thesis using assms by (simp add: bs_def)
qed

section \<open>A concrete library\<close>

fun plain_from_hex :: "string \<Rightarrow> bytes option" where
  "plain_from_hex [] = Some []"
| "plain_from_hex [c] = None"
| "plain_from_hex (c # d # s) =
     (case (digit_val c, digit_val d, plain_from_hex s) of
        (Some h, Some l, Some bs) \<Rightarrow> if h < 16 \<and> l < 16 then Some (of_nat (16 * h + l) # bs) else None
      | _ \<Rightarrow> None)"

fun compact_bytes :: "nat \<Rightarrow> nat \<Rightarrow> bytes" where
  "compact_bytes 0 n = []"
| "compact_bytes (Suc k) n = compact_bytes k (n div 256) @ [of_nat n]"

definition demo_json_ext :: json_ext where
  "demo_json_ext = \<lparr>jx_to_hex = hex_of_bytes, jx_from_hex = (\<lambda>s. plain_from_hex (drop 2 s)), jx_to_evmc_address = (\<lambda>b. b),
     jx_to_bytes32 = (\<lambda>b. b), jx_u256_from_string = (\<lambda>s. Ok (of_nat (value_of 16 (drop 2 s)))),
     jx_store_big_u64 = (\<lambda>n. compact_bytes 8 (unat n)), jx_to_big_compact = (\<lambda>n. compact_bytes 32 (unat n)), jx_trunc_double = (\<lambda>_. 0),
     jx_header_hash = (\<lambda>h. 0 # replicate 31 7), jx_hash_of_transaction = (\<lambda>_. zeros 32), jx_recover_sender = (\<lambda>_. None), jx_v = (\<lambda>_. 0),
     jx_effective_gas_price = (\<lambda>t b. b), jx_rlp_length_header = (\<lambda>_. 0), jx_rlp_length_transactions = (\<lambda>_. 0),
     jx_rlp_length_ommers = (\<lambda>_. 0), jx_length_of_length = (\<lambda>_. 0), jx_parse_or_discarded = (\<lambda>_. Null)\<rparr>"

lemma unat_of_byte: "of_nat (unat (b :: byte)) = b"
  by simp

lemma plain_from_hex_of_bytes: "plain_from_hex (hex_of_bytes bs) = Some bs"
proof (induction bs)
  case (Cons b bs)
  have "16 * (unat b div 16) + unat b mod 16 = unat b" by simp
  then have "of_nat (16 * (unat b div 16) + unat b mod 16) = b" by (simp only: unat_of_byte)
  then show ?case using Cons
    by (simp add: hex_of_bytes_def hex_of_byte_def digit_val_hex_char byte_nibbles)
qed (simp add: hex_of_bytes_def)

lemma compact_bytes_value: "n < 256 ^ k \<Longrightarrow> be_value (compact_bytes k n) = n"
proof (induction k arbitrary: n)
  case (Suc k)
  then have "n div 256 < 256 ^ k" by (simp add: less_mult_imp_div_less mult.commute)
  moreover have "unat (of_nat n :: byte) = n mod 256" by (simp add: unat_of_nat)
  ultimately show ?case using Suc.IH by (simp add: be_value_def)
qed (simp add: be_value_def)

lemma demo_json_laws: "json_laws demo_json_ext"
proof -
  have "unat (n :: u64) < 256 ^ 8" "unat (m :: u256) < 256 ^ 32" for n m
    using unsigned_less [of n, where 'a = nat] unsigned_less [of m, where 'a = nat] by simp_all
  then show ?thesis by (simp add: json_laws_def demo_json_ext_def plain_from_hex_of_bytes compact_bytes_value)
qed

definition demo_payload :: "u64 \<Rightarrow> execution_payload" where
  "demo_payload n = \<lparr>ep_number = n, ep_timestamp = 5, ep_gas_limit = 30000000, ep_gas_used = 21000, ep_suggested_fee_recipient = zeros 20,
     ep_state_root = zeros 32, ep_receipts_root = zeros 32, ep_parent_hash = zeros 32, ep_block_hash = zeros 32, ep_prev_randao = zeros 32,
     ep_base_fee = 7, ep_logs_bloom = zeros 256, ep_extra_data = [1, 2], ep_transactions = [[3], []]\<rparr>"

theorem execution_payload_roundtrip_witness:
  "from_json_ExecutionPayload demo_json_ext (to_json_ExecutionPayload demo_json_ext (demo_payload 17)) = Ok (demo_payload 17) \<and>
   from_json_ExecutionPayload demo_json_ext (to_json_ExecutionPayload demo_json_ext (demo_payload (2 ^ 63))) = Throw (Out_of_range ''stol'')"
  using execution_payload_roundtrip [OF demo_json_laws, of "demo_payload 17"]
    execution_payload_roundtrip [OF demo_json_laws, of "demo_payload (2 ^ 63)"]
  by (simp add: demo_payload_def zeros_def)

lemma filter_roundtrip_witness:
  "from_json_Filter demo_json_ext (to_json_Filter demo_json_ext
     \<lparr>fl_from_block = Some ''0x1'', fl_to_block = None, fl_addresses = Some [zeros 20], fl_topics = Some [[], [zeros 32]], fl_block_hash = None\<rparr>) =
   Ok \<lparr>fl_from_block = Some ''0x1'', fl_to_block = None, fl_addresses = Some [zeros 20], fl_topics = Some [[], [zeros 32]], fl_block_hash = None\<rparr>"
  by (rule filter_roundtrip [OF demo_json_laws]) (simp add: filter_ok_def zeros_def)

lemma header_hash_loses_zeros_witness:
  "\<exists>s. field (to_json_BlockHeader demo_json_ext empty_header) ''hash'' = String s \<and> length s < 66"
  using header_hash_loses_zeros [of demo_json_ext empty_header "replicate 31 7"] by (simp add: demo_json_ext_def)

end
