(* ===== verification/Rpc_Actions.thy ===== *)
theory Rpc_Actions
  imports Json_Types Blocks State_Reader Utilities Access_List
begin

text \<open>
  What the bodies of the RPC handlers share (\<^verbatim>\<open>commands/\<close>). A handler is an action: a function from the state
  of the server to a result and a new state, so that what an exception leaves behind is part of the model.
  The state holds the block cache, the number of database transactions that are open, and the state of the
  services behind the server. A handler checks its parameters, begins a transaction, runs its body inside a
  \<^verbatim>\<open>try\<close> block, turns exceptions into error replies and closes the transaction.
\<close>

section \<open>Actions\<close>

type_synonym ('s, 'a) action = "'s \<Rightarrow> 'a result \<times> 's"

definition bind_a :: "('s, 'a) action \<Rightarrow> ('a \<Rightarrow> ('s, 'b) action) \<Rightarrow> ('s, 'b) action" where
  "bind_a m f s = (case m s of (Inl e, s') \<Rightarrow> (Throw e, s') | (Inr x, s') \<Rightarrow> f x s')"

definition lift :: "'a result \<Rightarrow> ('s, 'a) action" where
  "lift r s = (r, s)"

definition ret :: "'a \<Rightarrow> ('s, 'a) action" where
  "ret x s = (Ok x, s)"

fun fold_a :: "('a \<Rightarrow> 'b \<Rightarrow> ('s, 'b) action) \<Rightarrow> 'a list \<Rightarrow> 'b \<Rightarrow> ('s, 'b) action" where
  "fold_a f [] b = ret b"
| "fold_a f (x # xs) b = bind_a (f x b) (fold_a f xs)"

section \<open>The state and what the handlers call\<close>

record ('c, 'w) api =
  api_blocks :: 'c
  api_open :: nat
  api_world :: 'w

text \<open>
  The messages of the services as the clients of this repository return them; the status of the pool is the
  number of queued, pending and base fee transactions.
\<close>

record work_result =
  wk_header_hash :: bytes
  wk_seed_hash :: bytes
  wk_target :: bytes
  wk_block_number :: bytes

datatype pool_type = QUEUED | PENDING | BASE_FEE

record transaction_info =
  ti_type :: pool_type
  ti_sender :: bytes
  ti_rlp :: bytes

record 'w services =
  sv_protocol_version :: "('w, u64) action"
  sv_net_version :: "('w, u64) action"
  sv_net_peer_count :: "('w, u64) action"
  sv_client_version :: "('w, string) action"
  sv_etherbase :: "('w, bytes) action"
  sv_get_payload :: "u64 \<Rightarrow> ('w, execution_payload) action"
  sv_new_payload :: "execution_payload \<Rightarrow> ('w, payload_status) action"
  sv_forkchoice_updated :: "fork_choice_state \<Rightarrow> payload_attributes option \<Rightarrow> ('w, fork_choice_updated_reply) action"
  sv_node_info :: "('w, node_info list) action"
  sv_get_transaction :: "bytes \<Rightarrow> ('w, bytes option) action"
  sv_add_transaction :: "bytes \<Rightarrow> ('w, bool \<times> string) action"
  sv_pool_nonce :: "bytes \<Rightarrow> ('w, u64 option) action"
  sv_pool_status :: "('w, u32 \<times> u32 \<times> u32) action"
  sv_pool_transactions :: "('w, transaction_info list) action"
  sv_mining :: "('w, bool \<times> bool) action"
  sv_hash_rate :: "('w, u64) action"
  sv_submit_hash_rate :: "u256 \<Rightarrow> bytes \<Rightarrow> ('w, bool) action"
  sv_work :: "('w, work_result) action"
  sv_submit_work :: "bytes \<Rightarrow> bytes \<Rightarrow> bytes \<Rightarrow> ('w, bool) action"

text \<open>
  The parameters of the handlers. \<open>ae_begin\<close> begins a transaction and gives the two readers on it: the
  transaction database and the database on the state cache. \<open>ae_chains\<close> gives the machine of a known chain
  for a block, \<open>ae_state\<close> the state that it runs on, \<open>ae_observed\<close> the instructions that a run left in it.
\<close>

record ('c, 'w, 's) api_env =
  ae_x :: ext
  ae_jx :: json_ext
  ae_sx :: state_ext
  ae_ks :: stage_keys
  ae_all_stages :: "string list"
  ae_cache :: "'c block_cache"
  ae_sv :: "'w services"
  ae_begin :: "('w, reader \<times> reader) action"
  ae_uint32 :: "json \<Rightarrow> u32 result"
  ae_dump :: "json \<Rightarrow> string result"
  ae_intx_hex :: "u256 \<Rightarrow> string"
  ae_decode_transaction :: "bytes \<Rightarrow> decoding_result + transaction"
  ae_decode_wrapped :: "bytes \<Rightarrow> transaction option"
  ae_encode_transaction :: "transaction \<Rightarrow> bytes"
  ae_priority_fee :: "transaction \<Rightarrow> u256 \<Rightarrow> u256"
  ae_chains :: "u64 \<Rightarrow> (block_with_hash \<Rightarrow> 's vm) option"
  ae_so :: "'s state_ops"
  ae_state :: "reader \<Rightarrow> u64 \<Rightarrow> 's"
  ae_observed :: "'s \<Rightarrow> instruction list"
  ae_words :: words
  ae_selector :: bytes

definition on_cache :: "('c \<Rightarrow> 'a result \<times> 'c) \<Rightarrow> (('c, 'w) api, 'a) action" where
  "on_cache f s = (case f (api_blocks s) of (r, c) \<Rightarrow> (r, s\<lparr>api_blocks := c\<rparr>))"

definition on_world :: "('w, 'a) action \<Rightarrow> (('c, 'w) api, 'a) action" where
  "on_world f s = (case f (api_world s) of (r, w) \<Rightarrow> (r, s\<lparr>api_world := w\<rparr>))"

section \<open>Replies\<close>

definition reply_content :: "('c, 'w, 's) api_env \<Rightarrow> json \<Rightarrow> json \<Rightarrow> json result" where
  "reply_content env request result =
     bind_r (ae_uint32 env (field request ''id'')) (\<lambda>rid. Ok (make_json_content rid result))"

definition reply_error :: "('c, 'w, 's) api_env \<Rightarrow> json \<Rightarrow> int \<Rightarrow> string \<Rightarrow> json result" where
  "reply_error env request ecode message =
     bind_r (ae_uint32 env (field request ''id'')) (\<lambda>rid. Ok (make_json_error rid ecode message))"

definition reply_revert :: "('c, 'w, 's) api_env \<Rightarrow> json \<Rightarrow> int \<Rightarrow> string \<Rightarrow> bytes \<Rightarrow> json result" where
  "reply_revert env request ecode message revert_data =
     bind_r (ae_uint32 env (field request ''id'')) (\<lambda>rid. Ok (make_json_revert_error (ae_jx env) rid ecode message revert_data))"

section \<open>Exceptions\<close>

text \<open>
  What \<^verbatim>\<open>catch (const std::exception& e)\<close> reads with \<^verbatim>\<open>e.what()\<close>. Undefined behaviour and a failed assertion
  are not exceptions: they end every run that reaches them. Nor is there anything to catch when a loop in the
  block does not end.
\<close>

fun what_of :: "exn \<Rightarrow> string option" where
  "what_of (Runtime_error w) = Some w"
| "what_of (Invalid_argument w) = Some w"
| "what_of (Logic_error w) = Some w"
| "what_of (Out_of_range w) = Some w"
| "what_of (Estimate_gas_exn ecode w revert_data) = Some w"
| "what_of (System_error message w) = Some w"
| "what_of Bad_optional_access = Some ''bad optional access''"
| "what_of Length_error = Some ''length_error''"
| "what_of Use_after_free = None"
| "what_of Stack_underflow = None"
| "what_of Uninitialized_read = None"
| "what_of Out_of_bounds = None"
| "what_of Assertion_failed = None"
| "what_of No_return = None"

text \<open>
  The clauses after a \<^verbatim>\<open>try\<close> block: None when no clause is for the exception. A clause builds a reply, which
  may itself throw.
\<close>

type_synonym clauses = "exn \<Rightarrow> json result option"

definition catch_std :: "('c, 'w, 's) api_env \<Rightarrow> json \<Rightarrow> int \<Rightarrow> clauses" where
  "catch_std env request ecode e = map_option (reply_error env request ecode) (what_of e)"

definition catch_invalid_argument :: "('c, 'w, 's) api_env \<Rightarrow> json \<Rightarrow> json \<Rightarrow> clauses \<Rightarrow> clauses" where
  "catch_invalid_argument env request result next_clause e =
     (case e of Invalid_argument w \<Rightarrow> Some (reply_content env request result) | _ \<Rightarrow> next_clause e)"

definition catch_system_error :: "('c, 'w, 's) api_env \<Rightarrow> json \<Rightarrow> int \<Rightarrow> clauses \<Rightarrow> clauses" where
  "catch_system_error env request ecode next_clause e =
     (case e of System_error message w \<Rightarrow> Some (reply_error env request ecode message) | _ \<Rightarrow> next_clause e)"

definition try_catch :: "clauses \<Rightarrow> ('s, json) action \<Rightarrow> ('s, json) action" where
  "try_catch cs body s =
     (case body s of
        (Inr j, s') \<Rightarrow> (Ok j, s')
      | (Inl e, s') \<Rightarrow> (case cs e of None \<Rightarrow> (Throw e, s') | Some r \<Rightarrow> (r, s')))"

text \<open>
  \<^verbatim>\<open>auto tx = co_await database_->begin(); try { ... } catch ... co_await tx->close();\<close> The transaction stays
  open when an exception leaves the handler after it was begun.
\<close>

definition begin_tx :: "('c, 'w, 's) api_env \<Rightarrow> (('c, 'w) api, reader \<times> reader) action" where
  "begin_tx env = bind_a (on_world (ae_begin env)) (\<lambda>dbs s. (Ok dbs, s\<lparr>api_open := Suc (api_open s)\<rparr>))"

definition close_tx :: "('c, 'w) api \<Rightarrow> ('c, 'w) api" where
  "close_tx s = s\<lparr>api_open := api_open s - 1\<rparr>"

definition with_transaction ::
  "('c, 'w, 's) api_env \<Rightarrow> clauses \<Rightarrow> (reader \<Rightarrow> reader \<Rightarrow> (('c, 'w) api, json) action) \<Rightarrow> (('c, 'w) api, json) action" where
  "with_transaction env cs body =
     bind_a (begin_tx env) (\<lambda>(rd, cached).
     bind_a (try_catch cs (body rd cached)) (\<lambda>reply s. (Ok reply, close_tx s)))"

section \<open>Parameters\<close>

text \<open>
  \<^verbatim>\<open>request["params"]\<close> on a constant value has no defined result when there is no such member;
  \<^verbatim>\<open>request.at("params")\<close> throws. \<^verbatim>\<open>params.size()\<close> is 0 for null and 1 for a value that is not a container.
\<close>

definition params_of :: "json \<Rightarrow> json result" where
  "params_of request = (if contains request ''params'' then Ok (field request ''params'') else Throw Assertion_failed)"

fun json_size :: "json \<Rightarrow> nat" where
  "json_size Null = 0"
| "json_size (Array xs) = length xs"
| "json_size (Object fs) = length fs"
| "json_size _ = 1"

text \<open>\<^verbatim>\<open>params[i]\<close>: an array is extended with null, a null becomes an array.\<close>

fun element :: "json \<Rightarrow> nat \<Rightarrow> json result" where
  "element (Array xs) i = Ok (if i < length xs then xs ! i else Null)"
| "element Null i = Ok Null"
| "element _ i = Throw (Runtime_error ''cannot use operator[] with a numeric argument'')"

fun get_boolean :: "json \<Rightarrow> bool result" where
  "get_boolean (Boolean b) = Ok b"
| "get_boolean _ = Throw (Runtime_error ''type must be boolean'')"

definition param :: "(json \<Rightarrow> 'a result) \<Rightarrow> json \<Rightarrow> nat \<Rightarrow> ('s, 'a) action" where
  "param f params i = lift (bind_r (element params i) f)"

definition invalid_params :: "('c, 'w, 's) api_env \<Rightarrow> string \<Rightarrow> json \<Rightarrow> json \<Rightarrow> json result" where
  "invalid_params env name request params =
     bind_r (ae_dump env params) (\<lambda>d. reply_error env request 100 (''invalid '' @ name @ '' params: '' @ d))"

definition with_params ::
  "('c, 'w, 's) api_env \<Rightarrow> string \<Rightarrow> (nat \<Rightarrow> bool) \<Rightarrow> json \<Rightarrow> (json \<Rightarrow> (('c, 'w) api, json) action) \<Rightarrow> (('c, 'w) api, json) action" where
  "with_params env name ok request body =
     bind_a (lift (params_of request)) (\<lambda>params.
       if ok (json_size params) then body params else lift (invalid_params env name request params))"

section \<open>Running transactions\<close>

text \<open>
  One call of a new executor for a block, with the machine of the chain, on the state that a reader gives at
  a block number: the result and the state after it. \<open>returned\<close> is the value of a loop that may not end.
\<close>

definition execute ::
  "('c, 'w, 's) api_env \<Rightarrow> 's vm \<Rightarrow> reader \<Rightarrow> u64 \<Rightarrow> bool \<Rightarrow> bool \<Rightarrow> transaction \<Rightarrow> (execution_result \<times> 's) result" where
  "execute env machine rd block_number refund gas_bailout txn =
     executor_call machine (ae_so env) txn refund gas_bailout (ae_state env rd block_number)"

definition returned :: "'a result option \<Rightarrow> 'a result" where
  "returned r = (case r of None \<Rightarrow> Throw No_return | Some x \<Rightarrow> x)"

section \<open>Laws\<close>

lemma bind_a_lift [simp]: "bind_a (lift r) f s = (case r of Inl e \<Rightarrow> (Throw e, s) | Inr x \<Rightarrow> f x s)"
  by (simp add: bind_a_def lift_def split: sum.splits)

lemma bind_a_ret [simp]: "bind_a (ret x) f = f x"
  by (simp add: bind_a_def ret_def fun_eq_iff)

lemma bind_a_assoc: "bind_a (bind_a m f) g = bind_a m (\<lambda>x. bind_a (f x) g)"
  by (auto simp: bind_a_def fun_eq_iff split: prod.splits sum.splits)

end
