(* ===== verification/Rpc_Actions_Props.thy ===== *)
theory Rpc_Actions_Props
  imports Rpc_Actions
begin

text \<open>
  Rules for the actions of the RPC handlers. A body is quiet when it neither begins nor closes a transaction;
  a handler settles when it leaves as many transactions open as there were, unless it runs into undefined
  behaviour or does not return. What a handler returns is an envelope of JSON-RPC with the identifier of the
  request.
\<close>

named_theorems handler_rules "rules for the bodies of handlers"

section \<open>Envelopes\<close>

definition is_reply :: "json_ext \<Rightarrow> u32 \<Rightarrow> json \<Rightarrow> bool" where
  "is_reply jx rid j \<longleftrightarrow>
     (\<exists>result. j = make_json_content rid result) \<or> (\<exists>c m. j = make_json_error rid c m) \<or>
     (\<exists>c m d. j = make_json_revert_error jx rid c m d)"

lemma envelope_names_order [simp]:
  "\<not> ''id'' < (''error'' :: string)" "''id'' < (''jsonrpc'' :: string)" "\<not> ''result'' < (''id'' :: string)"
  "\<not> ''result'' < (''jsonrpc'' :: string)" "''error'' < (''id'' :: string)"
  by code_simp+

text \<open>An envelope names the version and the request, and holds either a result or an error.\<close>

lemma is_reply_members:
  assumes "is_reply jx rid j"
  shows "field j ''jsonrpc'' = String ''2.0'' \<and> field j ''id'' = Number (uint rid) \<and>
    contains j ''result'' \<noteq> contains j ''error''"
  using assms
  by (auto simp: is_reply_def make_json_content_def make_json_error_def make_json_revert_error_def json_object_def)

section \<open>Quiet bodies\<close>

definition quiet :: "(('c, 'w) api, 'a) action \<Rightarrow> bool" where
  "quiet m \<longleftrightarrow> (\<forall>s. api_open (snd (m s)) = api_open s)"

lemma quiet_lift [handler_rules]: "quiet (lift r)"
  by (simp add: quiet_def lift_def)

lemma quiet_ret [handler_rules]: "quiet (ret x)"
  by (simp add: quiet_def ret_def)

lemma quiet_param [handler_rules]: "quiet (param f params i)"
  unfolding param_def by (rule quiet_lift)

lemma quiet_on_cache [handler_rules]: "quiet (on_cache f)"
  by (simp add: quiet_def on_cache_def split: prod.split)

lemma quiet_on_world [handler_rules]: "quiet (on_world f)"
  by (simp add: quiet_def on_world_def split: prod.split)

lemma quiet_bind [handler_rules]: "quiet m \<Longrightarrow> (\<And>x. quiet (f x)) \<Longrightarrow> quiet (bind_a m f)"
  by (auto simp: quiet_def bind_a_def split: prod.split sum.split) (metis snd_conv)+

lemma quiet_if [handler_rules]: "quiet m \<Longrightarrow> quiet m' \<Longrightarrow> quiet (if b then m else m')"
  by simp

lemma quiet_option [handler_rules]: "quiet m \<Longrightarrow> (\<And>x. quiet (f x)) \<Longrightarrow> quiet (case o' of None \<Rightarrow> m | Some x \<Rightarrow> f x)"
  by (cases o') simp_all

lemma quiet_sum [handler_rules]: "(\<And>x. quiet (f x)) \<Longrightarrow> (\<And>y. quiet (g y)) \<Longrightarrow> quiet (case r of Inl x \<Rightarrow> f x | Inr y \<Rightarrow> g y)"
  by (cases r) simp_all

lemma quiet_prod [handler_rules]: "(\<And>a b. quiet (f a b)) \<Longrightarrow> quiet (case p of (a, b) \<Rightarrow> f a b)"
  by (cases p) simp

section \<open>What handlers return\<close>

definition answers :: "json_ext \<Rightarrow> u32 \<Rightarrow> ('s, json) action \<Rightarrow> bool" where
  "answers jx rid m \<longleftrightarrow> (\<forall>s j s'. m s = (Ok j, s') \<longrightarrow> is_reply jx rid j)"

definition good :: "json_ext \<Rightarrow> u32 \<Rightarrow> (('c, 'w) api, json) action \<Rightarrow> bool" where
  "good jx rid m \<longleftrightarrow> quiet m \<and> answers jx rid m"

definition settles :: "(('c, 'w) api, json) action \<Rightarrow> bool" where
  "settles h \<longleftrightarrow> (\<forall>s. (case fst (h s) of Inl e \<Rightarrow> what_of e \<noteq> None | Inr _ \<Rightarrow> True) \<longrightarrow> api_open (snd (h s)) = api_open s)"

definition handles :: "json_ext \<Rightarrow> u32 \<Rightarrow> (('c, 'w) api, json) action \<Rightarrow> bool" where
  "handles jx rid h \<longleftrightarrow> settles h \<and> answers jx rid h"

lemma good_handles: "good jx rid m \<Longrightarrow> handles jx rid m"
  by (simp add: good_def handles_def settles_def quiet_def)

lemma answers_bind: "(\<And>x. answers jx rid (f x)) \<Longrightarrow> answers jx rid (bind_a m f)"
  by (auto simp: answers_def bind_a_def split: prod.splits sum.splits)

lemma good_bind [handler_rules]: "quiet m \<Longrightarrow> (\<And>x. good jx rid (f x)) \<Longrightarrow> good jx rid (bind_a m f)"
  by (simp add: good_def quiet_bind answers_bind)

lemma settles_bind:
  assumes "quiet m" "\<And>x. settles (f x)"
  shows "settles (bind_a m f)"
  unfolding settles_def
proof (intro allI impI)
  fix s
  assume outcome: "case fst (bind_a m f s) of Inl e \<Rightarrow> what_of e \<noteq> None | Inr _ \<Rightarrow> True"
  obtain r s1 where m: "m s = (r, s1)" by fastforce
  then have "api_open s1 = api_open s" using assms(1) by (metis quiet_def snd_conv)
  then show "api_open (snd (bind_a m f s)) = api_open s"
  proof (cases r)
    case (Inl e)
    then show ?thesis using m \<open>api_open s1 = api_open s\<close> by (simp add: bind_a_def)
  next
    case (Inr x)
    then have eq: "bind_a m f s = f x s1" by (simp add: m bind_a_def)
    have "settles (f x)" by (rule assms(2))
    then have "api_open (snd (f x s1)) = api_open s1"
      unfolding settles_def using outcome by (simp add: eq)
    then show ?thesis by (simp add: eq \<open>api_open s1 = api_open s\<close>)
  qed
qed

lemma handles_bind [handler_rules]: "quiet m \<Longrightarrow> (\<And>x. handles jx rid (f x)) \<Longrightarrow> handles jx rid (bind_a m f)"
  by (simp add: handles_def settles_bind answers_bind)

lemma good_if [handler_rules]: "good jx rid m \<Longrightarrow> good jx rid m' \<Longrightarrow> good jx rid (if b then m else m')"
  by simp

lemma good_option [handler_rules]:
  "good jx rid m \<Longrightarrow> (\<And>x. good jx rid (f x)) \<Longrightarrow> good jx rid (case o' of None \<Rightarrow> m | Some x \<Rightarrow> f x)"
  by (cases o') simp_all

lemma good_sum [handler_rules]:
  "(\<And>x. good jx rid (f x)) \<Longrightarrow> (\<And>y. good jx rid (g y)) \<Longrightarrow> good jx rid (case r of Inl x \<Rightarrow> f x | Inr y \<Rightarrow> g y)"
  by (cases r) simp_all

lemma good_prod [handler_rules]: "(\<And>a b. good jx rid (f a b)) \<Longrightarrow> good jx rid (case p of (a, b) \<Rightarrow> f a b)"
  by (cases p) simp

lemma good_throw [handler_rules]: "good jx rid (lift (Throw e))"
  by (simp add: good_def quiet_lift answers_def lift_def)

lemma handles_if [handler_rules]: "handles jx rid m \<Longrightarrow> handles jx rid m' \<Longrightarrow> handles jx rid (if b then m else m')"
  by simp

lemma handles_option [handler_rules]:
  "handles jx rid m \<Longrightarrow> (\<And>x. handles jx rid (f x)) \<Longrightarrow> handles jx rid (case o' of None \<Rightarrow> m | Some x \<Rightarrow> f x)"
  by (cases o') simp_all

lemma handles_sum [handler_rules]:
  "(\<And>x. handles jx rid (f x)) \<Longrightarrow> (\<And>y. handles jx rid (g y)) \<Longrightarrow> handles jx rid (case r of Inl x \<Rightarrow> f x | Inr y \<Rightarrow> g y)"
  by (cases r) simp_all

lemma handles_prod [handler_rules]: "(\<And>a b. handles jx rid (f a b)) \<Longrightarrow> handles jx rid (case p of (a, b) \<Rightarrow> f a b)"
  by (cases p) simp

lemma good_let [handler_rules]: "good jx rid (f x) \<Longrightarrow> good jx rid (let y = x in f y)"
  by simp

lemma good_bind_r [handler_rules]:
  assumes "\<And>x. good jx rid (lift (f x) :: (('c, 'w) api, json) action)"
  shows "good jx rid (lift (bind_r r f) :: (('c, 'w) api, json) action)"
  by (cases r) (simp_all add: assms good_throw)

lemma good_state: "(\<And>t. good jx rid (f t)) \<Longrightarrow> good jx rid (\<lambda>s. f s s)"
  by (auto simp: good_def quiet_def answers_def)

definition yields :: "('a \<Rightarrow> bool) \<Rightarrow> ('s, 'a) action \<Rightarrow> bool" where
  "yields P m \<longleftrightarrow> (\<forall>s x s'. m s = (Ok x, s') \<longrightarrow> P x)"

lemma yields_bind: "(\<And>x. yields P (f x)) \<Longrightarrow> yields P (bind_a m f)"
  by (auto simp: yields_def bind_a_def split: prod.splits sum.splits)

lemma yields_ret: "P x \<Longrightarrow> yields P (ret x)"
  by (simp add: yields_def ret_def)

lemma yields_if: "yields P m \<Longrightarrow> yields P m' \<Longrightarrow> yields P (if b then m else m')"
  by simp

lemma yields_option: "yields P m \<Longrightarrow> (\<And>x. yields P (f x)) \<Longrightarrow> yields P (case o' of None \<Rightarrow> m | Some x \<Rightarrow> f x)"
  by (cases o') simp_all

lemma yields_lift_bind: "(\<And>x. r = Ok x \<Longrightarrow> yields P (f x)) \<Longrightarrow> yields P (bind_a (lift r) f)"
  by (cases r) (auto simp: yields_def)

lemma good_bind_yields:
  assumes "quiet m" "yields P m" "\<And>x. P x \<Longrightarrow> good jx rid (f x)"
  shows "good jx rid (bind_a m f)"
proof -
  have "api_open (snd (bind_a m f s)) = api_open s \<and> (\<forall>j s'. bind_a m f s = (Ok j, s') \<longrightarrow> is_reply jx rid j)" for s
  proof -
    obtain r s1 where m: "m s = (r, s1)" by fastforce
    then have "api_open s1 = api_open s" using assms(1) by (metis quiet_def snd_conv)
    show ?thesis
    proof (cases r)
      case (Inl e)
      then show ?thesis using m \<open>api_open s1 = api_open s\<close> by (simp add: bind_a_def)
    next
      case (Inr x)
      then have "good jx rid (f x)" using assms(2,3) m by (auto simp: yields_def)
      then show ?thesis using Inr m \<open>api_open s1 = api_open s\<close>
        by (auto simp: bind_a_def good_def quiet_def answers_def)
    qed
  qed
  then show ?thesis by (simp add: good_def quiet_def answers_def)
qed

section \<open>Requests with a readable identifier\<close>

text \<open>
  The request handler reads the identifier before it calls a handler, so that a handler only sees requests
  whose identifier is a number.
\<close>

locale identified =
  fixes env :: "('c, 'w, 's) api_env" and request :: json and rid :: u32
  assumes rid: "ae_uint32 env (field request ''id'') = Ok rid"
begin

lemma replies:
  "reply_content env request result = Ok (make_json_content rid result)"
  "reply_error env request c m = Ok (make_json_error rid c m)"
  "reply_revert env request c m d = Ok (make_json_revert_error (ae_jx env) rid c m d)"
  by (simp_all add: reply_content_def reply_error_def reply_revert_def rid)

lemma reply_is_reply:
  "is_reply jx rid (make_json_content rid result)"
  "is_reply jx rid (make_json_error rid c m)"
  "is_reply jx rid (make_json_revert_error jx rid c m d)"
  unfolding is_reply_def by blast+

lemma good_lift: "(\<And>j. r = Ok j \<Longrightarrow> is_reply (ae_jx env) rid j) \<Longrightarrow> good (ae_jx env) rid (lift r)"
  by (auto simp: good_def quiet_lift answers_def lift_def)

lemma good_replies:
  "good (ae_jx env) rid (lift (reply_content env request result))"
  "good (ae_jx env) rid (lift (reply_error env request c m))"
  "good (ae_jx env) rid (lift (reply_revert env request c m d))"
  "good (ae_jx env) rid (lift (invalid_params env name request params))"
  by (auto intro!: good_lift simp: invalid_params_def replies reply_is_reply bind_r_def split: sum.splits)

lemmas handles_replies = good_replies [THEN good_handles]

text \<open>Clauses that answer every exception of the standard library and nothing else.\<close>

definition complete :: "clauses \<Rightarrow> bool" where
  "complete cs \<longleftrightarrow> (\<forall>e. case what_of e of None \<Rightarrow> cs e = None | Some w \<Rightarrow> \<exists>j. cs e = Some (Ok j) \<and> is_reply (ae_jx env) rid j)"

lemma complete_catch_std: "complete (catch_std env request c)"
  by (simp add: complete_def catch_std_def replies reply_is_reply split: option.splits)

lemma complete_catch_invalid_argument:
  assumes "complete cs"
  shows "complete (catch_invalid_argument env request result cs)"
  unfolding complete_def
proof
  fix e
  from assms have "case what_of e of None \<Rightarrow> cs e = None | Some w \<Rightarrow> \<exists>j. cs e = Some (Ok j) \<and> is_reply (ae_jx env) rid j"
    by (simp add: complete_def)
  then show "case what_of e of None \<Rightarrow> catch_invalid_argument env request result cs e = None
    | Some w \<Rightarrow> \<exists>j. catch_invalid_argument env request result cs e = Some (Ok j) \<and> is_reply (ae_jx env) rid j"
    by (cases e) (simp_all add: catch_invalid_argument_def replies reply_is_reply)
qed

lemma complete_catch_system_error:
  assumes "complete cs"
  shows "complete (catch_system_error env request c cs)"
  unfolding complete_def
proof
  fix e
  from assms have "case what_of e of None \<Rightarrow> cs e = None | Some w \<Rightarrow> \<exists>j. cs e = Some (Ok j) \<and> is_reply (ae_jx env) rid j"
    by (simp add: complete_def)
  then show "case what_of e of None \<Rightarrow> catch_system_error env request c cs e = None
    | Some w \<Rightarrow> \<exists>j. catch_system_error env request c cs e = Some (Ok j) \<and> is_reply (ae_jx env) rid j"
    by (cases e) (simp_all add: catch_system_error_def replies reply_is_reply)
qed

lemmas complete_clauses = complete_catch_std complete_catch_invalid_argument complete_catch_system_error

lemma try_catch_cases:
  assumes "complete cs" "body s = (r, s1)"
  obtains e where "r = Inl e" "what_of e = None" "try_catch cs body s = (Throw e, s1)"
  | e j where "r = Inl e" "is_reply (ae_jx env) rid j" "try_catch cs body s = (Ok j, s1)"
  | j where "r = Ok j" "try_catch cs body s = (Ok j, s1)"
proof (cases r)
  case (Inl e)
  with assms that(1,2) show ?thesis
    by (cases "what_of e") (auto simp: try_catch_def complete_def dest!: spec [of _ e])
qed (use assms that(3) in \<open>auto simp: try_catch_def\<close>)

lemma good_try_catch:
  assumes "complete cs" "good (ae_jx env) rid body"
  shows "good (ae_jx env) rid (try_catch cs body)"
proof -
  have "api_open (snd (try_catch cs body s)) = api_open s \<and>
    (\<forall>j s'. try_catch cs body s = (Ok j, s') \<longrightarrow> is_reply (ae_jx env) rid j)" for s
  proof -
    obtain r s1 where b: "body s = (r, s1)" by fastforce
    then have "api_open s1 = api_open s" "\<And>j. r = Ok j \<Longrightarrow> is_reply (ae_jx env) rid j"
      using assms(2) unfolding good_def quiet_def answers_def by (metis snd_conv, blast)
    note props = this
    from assms(1) b show ?thesis by (rule try_catch_cases) (use props in auto)
  qed
  then show ?thesis by (simp add: good_def quiet_def answers_def)
qed

lemmas handles_try_catch = good_try_catch [THEN good_handles]

lemma handles_with_transaction:
  assumes "complete cs" "\<And>rd cached. good (ae_jx env) rid (body rd cached)"
  shows "handles (ae_jx env) rid (with_transaction env cs body)"
proof -
  have "((case fst (with_transaction env cs body s) of Inl e \<Rightarrow> what_of e \<noteq> None | Inr _ \<Rightarrow> True) \<longrightarrow>
      api_open (snd (with_transaction env cs body s)) = api_open s) \<and>
    (\<forall>j s'. with_transaction env cs body s = (Ok j, s') \<longrightarrow> is_reply (ae_jx env) rid j)" for s
  proof -
    obtain b w where b: "ae_begin env (api_world s) = (b, w)" by fastforce
    show ?thesis
    proof (cases b)
      case (Inl e)
      then show ?thesis by (simp add: with_transaction_def begin_tx_def on_world_def bind_a_def b)
    next
      case (Inr dbs)
      obtain rd cached where dbs: "dbs = (rd, cached)" by fastforce
      let ?s = "s\<lparr>api_world := w, api_open := Suc (api_open s)\<rparr>"
      obtain r s1 where r: "body rd cached ?s = (r, s1)" by fastforce
      have s1: "api_open s1 = Suc (api_open s)"
        using assms(2) [of rd cached] r by (auto simp: good_def quiet_def dest!: spec [of _ ?s])
      have j: "\<And>j. r = Ok j \<Longrightarrow> is_reply (ae_jx env) rid j"
        using assms(2) [of rd cached] r by (auto simp: good_def answers_def)
      have "with_transaction env cs body s =
          (case try_catch cs (body rd cached) ?s of (Inl e, s') \<Rightarrow> (Throw e, s') | (Inr j, s') \<Rightarrow> (Ok j, close_tx s'))"
        using b Inr dbs by (simp add: with_transaction_def begin_tx_def on_world_def bind_a_def)
      note props = s1 j this
      from assms(1) r show ?thesis by (rule try_catch_cases) (use props in \<open>auto simp: close_tx_def\<close>)
    qed
  qed
  then show ?thesis by (simp add: handles_def settles_def answers_def)
qed

text \<open>A body that throws nothing that a clause could be for does not need one.\<close>

lemma handles_with_transaction_bare:
  assumes "\<And>rd cached. good (ae_jx env) rid (body rd cached)"
    and "\<And>rd cached s e s'. body rd cached s = (Throw e, s') \<Longrightarrow> what_of e = None"
  shows "handles (ae_jx env) rid (with_transaction env (\<lambda>_. None) body)"
proof -
  have "try_catch (\<lambda>_. None) (body rd cached) = try_catch (catch_std env request 100) (body rd cached)" for rd cached
    using assms(2) [of rd cached] by (auto simp: try_catch_def catch_std_def fun_eq_iff split: prod.splits sum.splits)
  then have "with_transaction env (\<lambda>_. None) body = with_transaction env (catch_std env request 100) body"
    by (simp add: with_transaction_def)
  then show ?thesis using handles_with_transaction [OF complete_catch_std assms(1)] by simp
qed

lemma handles_with_params:
  assumes "\<And>params. handles (ae_jx env) rid (body params)"
  shows "handles (ae_jx env) rid (with_params env name ok request body)"
  unfolding with_params_def by (intro handler_rules handles_replies assms)

end

end
