(* ===== verification/Eth_Api.thy ===== *)
theory Eth_Api
  imports Rpc_Actions Gas_Oracles
begin

text \<open>
  The handlers of the namespace eth (\<^verbatim>\<open>commands/eth_api.cpp\<close>) that read blocks, transactions, receipts and
  accounts, talk to the transaction pool and the miner, or answer with a constant.
\<close>

section \<open>Chain\<close>

definition handle_eth_block_number :: "('c, 'w, 's) api_env \<Rightarrow> json \<Rightarrow> (('c, 'w) api, json) action" where
  "handle_eth_block_number env request =
     with_transaction env (catch_std env request 100) (\<lambda>rd _.
       bind_a (lift (get_latest_block_number (ae_ks env) (ae_x env) rd)) (\<lambda>block_height.
       lift (reply_content env request (String (to_quantity (ae_jx env) block_height)))))"

definition handle_eth_chain_id :: "('c, 'w, 's) api_env \<Rightarrow> json \<Rightarrow> (('c, 'w) api, json) action" where
  "handle_eth_chain_id env request =
     with_transaction env (catch_std env request 100) (\<lambda>rd _.
       bind_a (lift (read_chain_id (ae_x env) rd)) (\<lambda>chain_id.
       lift (reply_content env request (String (to_quantity (ae_jx env) chain_id)))))"

definition handle_eth_protocol_version :: "('c, 'w, 's) api_env \<Rightarrow> json \<Rightarrow> (('c, 'w) api, json) action" where
  "handle_eth_protocol_version env request =
     try_catch (catch_std env request (- 32000))
       (bind_a (on_world (sv_protocol_version (ae_sv env))) (\<lambda>protocol_version.
        lift (reply_content env request (String (to_quantity (ae_jx env) protocol_version)))))"

text \<open>The stages but the last, \<^verbatim>\<open>Unwind\<close>, each with its progress.\<close>

definition stage_progress :: "('c, 'w, 's) api_env \<Rightarrow> reader \<Rightarrow> string \<Rightarrow> (string \<times> string) result" where
  "stage_progress env rd name =
     bind_r (get_sync_stage_progress (ae_x env) rd (bytes_of_string name)) (\<lambda>n. Ok (name, to_quantity (ae_jx env) n))"

definition handle_eth_syncing :: "('c, 'w, 's) api_env \<Rightarrow> json \<Rightarrow> (('c, 'w) api, json) action" where
  "handle_eth_syncing env request =
     with_transaction env (catch_std env request 100) (\<lambda>rd _.
       bind_a (lift (get_current_block_number (ae_ks env) (ae_x env) rd)) (\<lambda>current_block_height.
       bind_a (lift (get_highest_block_number (ae_ks env) (ae_x env) rd)) (\<lambda>highest_block_height.
       if current_block_height \<ge> highest_block_height
       then lift (reply_content env request (Boolean False))
       else
         bind_a (lift (map_r (stage_progress env rd) (butlast (ae_all_stages env)))) (\<lambda>stages.
         lift (reply_content env request (to_json_SyncingData (to_quantity (ae_jx env) current_block_height)
           (to_quantity (ae_jx env) highest_block_height) stages))))))"

text \<open>
  The oracle reads blocks through the block cache. It is given the blocks as the cache at the start returns
  them; the insertions that its reads make are not followed.
\<close>

definition handle_eth_gas_price :: "('c, 'w, 's) api_env \<Rightarrow> json \<Rightarrow> (('c, 'w) api, json) action" where
  "handle_eth_gas_price env request =
     with_transaction env (catch_std env request 100) (\<lambda>rd _.
       bind_a (lift (get_block_number (ae_ks env) (ae_x env) rd ''latest'' False)) (\<lambda>(block_number, _) s.
       bind_a (lift (suggested_price (ae_priority_fee env)
           (\<lambda>n. fst (cached_read_block_by_number (ae_cache env) (ae_x env) rd (of_nat n) (api_blocks s))) (unat block_number))) (\<lambda>gas_price.
       bind_a (on_cache (cached_read_block_by_number (ae_cache env) (ae_x env) rd block_number)) (\<lambda>block.
       lift (reply_content env request (String (to_quantity_u256 (ae_jx env)
         (gas_price + value_or (hdr_base_fee_per_gas (bw_header block)) 0)))))) s))"

section \<open>Blocks\<close>

text \<open>The block of an identifier: a number, a tag, or a hash.\<close>

definition block_by_id :: "('c, 'w, 's) api_env \<Rightarrow> reader \<Rightarrow> string \<Rightarrow> (('c, 'w) api, block_with_hash) action" where
  "block_by_id env rd block_id =
     bind_a (lift (get_block_number (ae_ks env) (ae_x env) rd block_id False)) (\<lambda>(block_number, _).
     on_cache (cached_read_block_by_number (ae_cache env) (ae_x env) rd block_number))"

definition block_by_hash :: "('c, 'w, 's) api_env \<Rightarrow> reader \<Rightarrow> bytes \<Rightarrow> (('c, 'w) api, block_with_hash) action" where
  "block_by_hash env rd block_hash = on_cache (cached_read_block_by_hash (ae_cache env) (ae_x env) rd block_hash)"

definition handle_eth_get_block_by_hash :: "('c, 'w, 's) api_env \<Rightarrow> json \<Rightarrow> (('c, 'w) api, json) action" where
  "handle_eth_get_block_by_hash env request =
     with_params env ''eth_getBlockByHash'' (\<lambda>n. n = 2) request (\<lambda>params.
     bind_a (param (from_json_bytes32 (ae_jx env)) params 0) (\<lambda>block_hash.
     bind_a (param get_boolean params 1) (\<lambda>full_tx.
     with_transaction env (catch_invalid_argument env request Null (catch_std env request 100)) (\<lambda>rd _.
       bind_a (block_by_hash env rd block_hash) (\<lambda>block.
       bind_a (lift (read_total_difficulty (ae_x env) rd block_hash (hdr_number (bw_header block)))) (\<lambda>total_difficulty.
       bind_a (lift (to_json_Block (ae_jx env) \<lparr>bk_block = block, bk_total_difficulty = total_difficulty, bk_full_tx = full_tx\<rparr>)) (\<lambda>j.
       lift (reply_content env request j))))))))"

definition handle_eth_get_block_by_number :: "('c, 'w, 's) api_env \<Rightarrow> json \<Rightarrow> (('c, 'w) api, json) action" where
  "handle_eth_get_block_by_number env request =
     with_params env ''getBlockByNumber'' (\<lambda>n. n = 2) request (\<lambda>params.
     bind_a (param get_string params 0) (\<lambda>block_id.
     bind_a (param get_boolean params 1) (\<lambda>full_tx.
     with_transaction env (catch_invalid_argument env request Null (catch_std env request 100)) (\<lambda>rd _.
       bind_a (lift (get_block_number (ae_ks env) (ae_x env) rd block_id False)) (\<lambda>(block_number, _).
       bind_a (on_cache (cached_read_block_by_number (ae_cache env) (ae_x env) rd block_number)) (\<lambda>block.
       bind_a (lift (read_total_difficulty (ae_x env) rd (bw_hash block) block_number)) (\<lambda>total_difficulty.
       bind_a (lift (to_json_Block (ae_jx env) \<lparr>bk_block = block, bk_total_difficulty = total_difficulty, bk_full_tx = full_tx\<rparr>)) (\<lambda>j.
       lift (reply_content env request j)))))))))"

text \<open>\<^verbatim>\<open>to_quantity\<close> of the size of a vector.\<close>

definition quantity_of_size :: "('c, 'w, 's) api_env \<Rightarrow> 'a list \<Rightarrow> json" where
  "quantity_of_size env xs = String (to_quantity (ae_jx env) (of_nat (length xs)))"

definition handle_eth_get_block_transaction_count_by_hash :: "('c, 'w, 's) api_env \<Rightarrow> json \<Rightarrow> (('c, 'w) api, json) action" where
  "handle_eth_get_block_transaction_count_by_hash env request =
     with_params env ''eth_getBlockTransactionCountByHash'' (\<lambda>n. n = 1) request (\<lambda>params.
     bind_a (param (from_json_bytes32 (ae_jx env)) params 0) (\<lambda>block_hash.
     with_transaction env (catch_std env request 100) (\<lambda>rd _.
       bind_a (block_by_hash env rd block_hash) (\<lambda>block.
       lift (reply_content env request (quantity_of_size env (bw_transactions block)))))))"

definition handle_eth_get_block_transaction_count_by_number :: "('c, 'w, 's) api_env \<Rightarrow> json \<Rightarrow> (('c, 'w) api, json) action" where
  "handle_eth_get_block_transaction_count_by_number env request =
     with_params env ''eth_getBlockTransactionCountByNumber'' (\<lambda>n. n = 1) request (\<lambda>params.
     bind_a (param get_string params 0) (\<lambda>block_id.
     with_transaction env (catch_std env request 100) (\<lambda>rd _.
       bind_a (block_by_id env rd block_id) (\<lambda>block.
       lift (reply_content env request (quantity_of_size env (bw_transactions block)))))))"

section \<open>Uncles\<close>

text \<open>The block that is made of an uncle: its header alone.\<close>

definition uncle_block :: "('c, 'w, 's) api_env \<Rightarrow> block_header \<Rightarrow> u256 \<Rightarrow> block" where
  "uncle_block env uncle total_difficulty =
     \<lparr>bk_block = \<lparr>bw_transactions = [], bw_ommers = [], bw_header = uncle, bw_hash = jx_header_hash (ae_jx env) uncle\<rparr>,
      bk_total_difficulty = total_difficulty, bk_full_tx = False\<rparr>"

text \<open>What both uncle handlers do with the block; the total difficulty is that of the block.\<close>

definition reply_uncle ::
  "('c, 'w, 's) api_env \<Rightarrow> json \<Rightarrow> reader \<Rightarrow> bytes \<Rightarrow> u64 \<Rightarrow> string \<Rightarrow> block_with_hash \<Rightarrow> (('c, 'w) api, json) action" where
  "reply_uncle env request rd block_hash block_number index block =
     bind_a (lift (stoul 16 index)) (\<lambda>idx.
     if unat idx \<ge> length (bw_ommers block) then lift (reply_content env request Null)
     else
       bind_a (lift (read_total_difficulty (ae_x env) rd block_hash block_number)) (\<lambda>total_difficulty.
       bind_a (lift (to_json_Block (ae_jx env) (uncle_block env (bw_ommers block ! unat idx) total_difficulty))) (\<lambda>j.
       lift (reply_content env request j))))"

definition handle_eth_get_uncle_by_block_hash_and_index :: "('c, 'w, 's) api_env \<Rightarrow> json \<Rightarrow> (('c, 'w) api, json) action" where
  "handle_eth_get_uncle_by_block_hash_and_index env request =
     with_params env ''eth_getUncleByBlockHashAndIndex'' (\<lambda>n. n = 2) request (\<lambda>params.
     bind_a (param (from_json_bytes32 (ae_jx env)) params 0) (\<lambda>block_hash.
     bind_a (param get_string params 1) (\<lambda>index.
     with_transaction env (catch_std env request 100) (\<lambda>rd _.
       bind_a (block_by_hash env rd block_hash) (\<lambda>block.
       reply_uncle env request rd block_hash (hdr_number (bw_header block)) index block)))))"

definition handle_eth_get_uncle_by_block_number_and_index :: "('c, 'w, 's) api_env \<Rightarrow> json \<Rightarrow> (('c, 'w) api, json) action" where
  "handle_eth_get_uncle_by_block_number_and_index env request =
     with_params env ''eth_getUncleByBlockNumberAndIndex'' (\<lambda>n. n = 2) request (\<lambda>params.
     bind_a (param get_string params 0) (\<lambda>block_id.
     bind_a (param get_string params 1) (\<lambda>index.
     with_transaction env (catch_std env request 100) (\<lambda>rd _.
       bind_a (lift (get_block_number (ae_ks env) (ae_x env) rd block_id False)) (\<lambda>(block_number, _).
       bind_a (on_cache (cached_read_block_by_number (ae_cache env) (ae_x env) rd block_number)) (\<lambda>block.
       reply_uncle env request rd (bw_hash block) block_number index block))))))"

definition handle_eth_get_uncle_count_by_block_hash :: "('c, 'w, 's) api_env \<Rightarrow> json \<Rightarrow> (('c, 'w) api, json) action" where
  "handle_eth_get_uncle_count_by_block_hash env request =
     with_params env ''eth_getUncleCountByBlockHash'' (\<lambda>n. n = 1) request (\<lambda>params.
     bind_a (param (from_json_bytes32 (ae_jx env)) params 0) (\<lambda>block_hash.
     with_transaction env (catch_std env request 100) (\<lambda>rd _.
       bind_a (block_by_hash env rd block_hash) (\<lambda>block.
       lift (reply_content env request (quantity_of_size env (bw_ommers block)))))))"

definition handle_eth_get_uncle_count_by_block_number :: "('c, 'w, 's) api_env \<Rightarrow> json \<Rightarrow> (('c, 'w) api, json) action" where
  "handle_eth_get_uncle_count_by_block_number env request =
     with_params env ''eth_getUncleCountByBlockNumber'' (\<lambda>n. n = 1) request (\<lambda>params.
     bind_a (param get_string params 0) (\<lambda>block_id.
     with_transaction env (catch_std env request 100) (\<lambda>rd _.
       bind_a (block_by_id env rd block_id) (\<lambda>block.
       lift (reply_content env request (quantity_of_size env (bw_ommers block)))))))"

section \<open>Transactions\<close>

text \<open>\<^verbatim>\<open>Transaction\<close> is a transaction with the block it is in; the members it does not set are zero.\<close>

definition in_block :: "block_with_hash \<Rightarrow> nat \<Rightarrow> transaction \<Rightarrow> chain_transaction" where
  "in_block block i t =
     \<lparr>ct_transaction = t, ct_block_hash = bw_hash block, ct_block_number = hdr_number (bw_header block),
      ct_block_base_fee_per_gas = hdr_base_fee_per_gas (bw_header block), ct_transaction_index = of_nat i, ct_queued_in_pool = False\<rparr>"

definition in_pool :: "transaction \<Rightarrow> chain_transaction" where
  "in_pool t =
     \<lparr>ct_transaction = t, ct_block_hash = zeros 32, ct_block_number = 0, ct_block_base_fee_per_gas = None,
      ct_transaction_index = 0, ct_queued_in_pool = True\<rparr>"

definition handle_eth_get_transaction_by_hash :: "('c, 'w, 's) api_env \<Rightarrow> json \<Rightarrow> (('c, 'w) api, json) action" where
  "handle_eth_get_transaction_by_hash env request =
     with_params env ''eth_getTransactionByHash'' (\<lambda>n. n = 1) request (\<lambda>params.
     bind_a (param (from_json_bytes32 (ae_jx env)) params 0) (\<lambda>transaction_hash.
     with_transaction env (catch_invalid_argument env request Null (catch_std env request 100)) (\<lambda>rd _.
       bind_a (on_cache (read_transaction_by_hash (ae_cache env) (ae_x env) rd transaction_hash)) (\<lambda>tx_with_block.
       case tx_with_block of
         None \<Rightarrow>
           bind_a (on_world (sv_get_transaction (ae_sv env) transaction_hash)) (\<lambda>tx_rlp_buffer.
           case tx_rlp_buffer of
             None \<Rightarrow> lift (reply_error env request 100 (''tx hash: '' @ jx_to_hex (ae_jx env) transaction_hash @ '' does not exist in pool''))
           | Some rlp \<Rightarrow>
               (case ae_decode_transaction env rlp of
                  Inl _ \<Rightarrow> lift (reply_error env request 100 (''invalid RLP decoding for tx hash: '' @ jx_to_hex (ae_jx env) transaction_hash))
                | Inr t \<Rightarrow>
                    bind_a (lift (to_json_chain_transaction (ae_jx env) (in_pool t))) (\<lambda>j.
                    lift (reply_content env request j))))
       | Some tb \<Rightarrow>
           bind_a (lift (to_json_chain_transaction (ae_jx env) (in_block (tb_block tb) (tb_index tb) (tb_transaction tb)))) (\<lambda>j.
           lift (reply_content env request j))))))"

definition handle_eth_get_raw_transaction_by_hash :: "('c, 'w, 's) api_env \<Rightarrow> json \<Rightarrow> (('c, 'w) api, json) action" where
  "handle_eth_get_raw_transaction_by_hash env request =
     with_params env ''eth_getRawTransactionByHash'' (\<lambda>n. n = 1) request (\<lambda>params.
     bind_a (param (from_json_bytes32 (ae_jx env)) params 0) (\<lambda>transaction_hash.
     with_transaction env (catch_invalid_argument env request (to_json_Rlp (ae_jx env) []) (catch_std env request 100)) (\<lambda>rd _.
       bind_a (on_cache (read_transaction_by_hash (ae_cache env) (ae_x env) rd transaction_hash)) (\<lambda>tx_with_block.
       case tx_with_block of
         None \<Rightarrow>
           bind_a (on_world (sv_get_transaction (ae_sv env) transaction_hash)) (\<lambda>tx_rlp_buffer.
           case tx_rlp_buffer of
             None \<Rightarrow> lift (reply_error env request 100 (''tx hash: '' @ jx_to_hex (ae_jx env) transaction_hash @ '' does not exist in pool''))
           | Some rlp \<Rightarrow> lift (reply_content env request (to_json_Rlp (ae_jx env) rlp)))
       | Some tb \<Rightarrow> lift (reply_content env request (to_json_Rlp (ae_jx env) (ae_encode_transaction env (tb_transaction tb))))))))"

text \<open>What the handlers by index do with the block.\<close>

definition reply_transaction_at :: "('c, 'w, 's) api_env \<Rightarrow> json \<Rightarrow> string \<Rightarrow> block_with_hash \<Rightarrow> (('c, 'w) api, json) action" where
  "reply_transaction_at env request index block =
     bind_a (lift (stoul 16 index)) (\<lambda>idx.
     if unat idx \<ge> length (bw_transactions block) then lift (reply_content env request Null)
     else
       bind_a (lift (to_json_chain_transaction (ae_jx env) (in_block block (unat idx) (bw_transactions block ! unat idx)))) (\<lambda>j.
       lift (reply_content env request j)))"

definition reply_raw_transaction_at :: "('c, 'w, 's) api_env \<Rightarrow> json \<Rightarrow> string \<Rightarrow> block_with_hash \<Rightarrow> (('c, 'w) api, json) action" where
  "reply_raw_transaction_at env request index block =
     bind_a (lift (stoul 16 index)) (\<lambda>idx.
     lift (reply_content env request (to_json_Rlp (ae_jx env)
       (if unat idx \<ge> length (bw_transactions block) then [] else ae_encode_transaction env (bw_transactions block ! unat idx)))))"

definition handle_eth_get_transaction_by_block_hash_and_index :: "('c, 'w, 's) api_env \<Rightarrow> json \<Rightarrow> (('c, 'w) api, json) action" where
  "handle_eth_get_transaction_by_block_hash_and_index env request =
     with_params env ''eth_getTransactionByBlockHashAndIndex'' (\<lambda>n. n = 2) request (\<lambda>params.
     bind_a (param (from_json_bytes32 (ae_jx env)) params 0) (\<lambda>block_hash.
     bind_a (param get_string params 1) (\<lambda>index.
     with_transaction env (catch_std env request 100) (\<lambda>rd _.
       bind_a (block_by_hash env rd block_hash) (reply_transaction_at env request index)))))"

definition handle_eth_get_raw_transaction_by_block_hash_and_index :: "('c, 'w, 's) api_env \<Rightarrow> json \<Rightarrow> (('c, 'w) api, json) action" where
  "handle_eth_get_raw_transaction_by_block_hash_and_index env request =
     with_params env ''eth_getRawTransactionByBlockHashAndIndex'' (\<lambda>n. n = 2) request (\<lambda>params.
     bind_a (param (from_json_bytes32 (ae_jx env)) params 0) (\<lambda>block_hash.
     bind_a (param get_string params 1) (\<lambda>index.
     with_transaction env (catch_invalid_argument env request (to_json_Rlp (ae_jx env) []) (catch_std env request 100)) (\<lambda>rd _.
       bind_a (block_by_hash env rd block_hash) (reply_raw_transaction_at env request index)))))"

definition handle_eth_get_transaction_by_block_number_and_index :: "('c, 'w, 's) api_env \<Rightarrow> json \<Rightarrow> (('c, 'w) api, json) action" where
  "handle_eth_get_transaction_by_block_number_and_index env request =
     with_params env ''eth_getTransactionByBlockNumberAndIndex'' (\<lambda>n. n = 2) request (\<lambda>params.
     bind_a (param get_string params 0) (\<lambda>block_id.
     bind_a (param get_string params 1) (\<lambda>index.
     with_transaction env (catch_std env request 100) (\<lambda>rd _.
       bind_a (block_by_id env rd block_id) (reply_transaction_at env request index)))))"

definition handle_eth_get_raw_transaction_by_block_number_and_index :: "('c, 'w, 's) api_env \<Rightarrow> json \<Rightarrow> (('c, 'w) api, json) action" where
  "handle_eth_get_raw_transaction_by_block_number_and_index env request =
     with_params env ''eth_getRawTransactionByBlockNumberAndIndex'' (\<lambda>n. n = 2) request (\<lambda>params.
     bind_a (param get_string params 0) (\<lambda>block_id.
     bind_a (param get_string params 1) (\<lambda>index.
     with_transaction env (catch_invalid_argument env request (to_json_Rlp (ae_jx env) []) (catch_std env request 100)) (\<lambda>rd _.
       bind_a (block_by_id env rd block_id) (reply_raw_transaction_at env request index)))))"

end
