(* ===== verification/Eth_Api_Accounts.thy ===== *)
theory Eth_Api_Accounts
  imports Eth_Api
begin

text \<open>
  The handlers of the namespace eth (\<^verbatim>\<open>commands/eth_api.cpp\<close>) for receipts and accounts, for the transaction
  pool and the miner, and those that are not implemented and answer with a constant.
\<close>

section \<open>Receipts\<close>

text \<open>\<^verbatim>\<open>get_receipts\<close> of \<^verbatim>\<open>core/receipts.cpp\<close>: receipts that are not in the database are not computed.\<close>

definition get_receipts :: "ext \<Rightarrow> reader \<Rightarrow> block_with_hash \<Rightarrow> receipt list result" where
  "get_receipts x rd block =
     bind_r (read_receipts x rd block) (\<lambda>cached_receipts. if cached_receipts \<noteq> [] then Ok cached_receipts else Ok [])"

definition receipt_gas_price :: "('c, 'w, 's) api_env \<Rightarrow> block_with_hash \<Rightarrow> transaction \<Rightarrow> u256" where
  "receipt_gas_price env block t =
     (let base_fee = value_or (hdr_base_fee_per_gas (bw_header block)) 0 in
      if tx_max_fee_per_gas t \<ge> base_fee then jx_effective_gas_price (ae_jx env) t base_fee else tx_max_priority_fee_per_gas t)"

definition handle_eth_get_transaction_receipt :: "('c, 'w, 's) api_env \<Rightarrow> json \<Rightarrow> (('c, 'w) api, json) action" where
  "handle_eth_get_transaction_receipt env request =
     with_params env ''eth_getTransactionReceipt'' (\<lambda>n. n = 1) request (\<lambda>params.
     bind_a (param (from_json_bytes32 (ae_jx env)) params 0) (\<lambda>transaction_hash.
     with_transaction env (catch_invalid_argument env request Null (catch_std env request 100)) (\<lambda>rd _.
       bind_a (on_cache (read_block_by_transaction_hash (ae_cache env) (ae_x env) rd transaction_hash)) (\<lambda>block.
       bind_a (lift (get_receipts (ae_x env) rd block)) (\<lambda>receipts.
       if length receipts \<noteq> length (bw_transactions block)
       then lift (Throw (Invalid_argument ''Unexpected size for receipts in handle_eth_get_transaction_receipt''))
       else
         (case find_transaction (ae_x env) transaction_hash 0 (bw_transactions block) of
            None \<Rightarrow> lift (Throw (Invalid_argument ''Unexpected transaction index in handle_eth_get_transaction_receipt''))
          | Some (tx_index, t) \<Rightarrow>
              lift (reply_content env request (to_json_Receipt (ae_jx env)
                ((receipts ! tx_index)\<lparr>rc_effective_gas_price := receipt_gas_price env block t\<rparr>)))))))))"

section \<open>Accounts\<close>

text \<open>
  The reader of the state at a block: the state cache serves the latest block only. The identifier is also
  given to the database on the cache, as a \<^verbatim>\<open>BlockNumberOrHash\<close>, which may throw.
\<close>

definition state_at ::
  "('c, 'w, 's) api_env \<Rightarrow> string \<Rightarrow> reader \<Rightarrow> reader \<Rightarrow> (('c, 'w) api, u64 \<times> reader) action" where
  "state_at env block_id rd cached =
     bind_a (lift (bnoh_build (jx_from_hex (ae_jx env)) (x_codec (ae_x env)) block_id)) (\<lambda>_.
     bind_a (lift (get_block_number (ae_ks env) (ae_x env) rd block_id True)) (\<lambda>(block_number, is_latest_block).
     ret (block_number, if is_latest_block then cached else rd)))"

definition handle_eth_get_balance :: "('c, 'w, 's) api_env \<Rightarrow> json \<Rightarrow> (('c, 'w) api, json) action" where
  "handle_eth_get_balance env request =
     with_params env ''eth_getBalance'' (\<lambda>n. n = 2) request (\<lambda>params.
     bind_a (param (from_json_address (ae_jx env)) params 0) (\<lambda>adr.
     bind_a (param get_string params 1) (\<lambda>block_id.
     with_transaction env (catch_std env request 100) (\<lambda>rd cached.
       bind_a (state_at env block_id rd cached) (\<lambda>(block_number, db).
       bind_a (lift (read_account (ae_sx env) db adr (block_number + 1))) (\<lambda>acc.
       lift (reply_content env request (String (''0x'' @
         (case acc of Some a \<Rightarrow> ae_intx_hex env (ac_balance a) | None \<Rightarrow> ''0''))))))))))"

definition handle_eth_get_code :: "('c, 'w, 's) api_env \<Rightarrow> json \<Rightarrow> (('c, 'w) api, json) action" where
  "handle_eth_get_code env request =
     with_params env ''eth_getCode'' (\<lambda>n. n = 2) request (\<lambda>params.
     bind_a (param (from_json_address (ae_jx env)) params 0) (\<lambda>adr.
     bind_a (param get_string params 1) (\<lambda>block_id.
     with_transaction env (catch_std env request 100) (\<lambda>rd cached.
       bind_a (state_at env block_id rd cached) (\<lambda>(block_number, db).
       bind_a (lift (read_account (ae_sx env) db adr (block_number + 1))) (\<lambda>acc.
       case acc of
         Some a \<Rightarrow>
           bind_a (lift (read_code (ae_sx env) db (ac_code_hash a))) (\<lambda>found.
           lift (reply_content env request (case found of Some c \<Rightarrow> prefixed_hex (ae_jx env) c | None \<Rightarrow> String ''0x'')))
       | None \<Rightarrow> lift (reply_content env request (String ''0x''))))))))"

definition handle_eth_get_transaction_count :: "('c, 'w, 's) api_env \<Rightarrow> json \<Rightarrow> (('c, 'w) api, json) action" where
  "handle_eth_get_transaction_count env request =
     with_params env ''eth_getTransactionCount'' (\<lambda>n. n = 2) request (\<lambda>params.
     bind_a (param (from_json_address (ae_jx env)) params 0) (\<lambda>adr.
     bind_a (param get_string params 1) (\<lambda>block_id.
     with_transaction env (catch_std env request 100) (\<lambda>rd cached.
       bind_a (state_at env block_id rd cached) (\<lambda>(block_number, db).
       bind_a (lift (read_account (ae_sx env) db adr (block_number + 1))) (\<lambda>acc.
       lift (reply_content env request (String
         (case acc of Some a \<Rightarrow> to_quantity (ae_jx env) (ac_nonce a) | None \<Rightarrow> ''0x0'')))))))))"

definition handle_eth_get_storage_at :: "('c, 'w, 's) api_env \<Rightarrow> json \<Rightarrow> (('c, 'w) api, json) action" where
  "handle_eth_get_storage_at env request =
     with_params env ''eth_getStorageAt'' (\<lambda>n. n = 3) request (\<lambda>params.
     bind_a (param (from_json_address (ae_jx env)) params 0) (\<lambda>adr.
     bind_a (param (from_json_bytes32 (ae_jx env)) params 1) (\<lambda>loc.
     bind_a (param get_string params 2) (\<lambda>block_id.
     with_transaction env (catch_std env request 100) (\<lambda>rd cached.
       bind_a (state_at env block_id rd cached) (\<lambda>(block_number, db).
       bind_a (lift (read_account (ae_sx env) db adr (block_number + 1))) (\<lambda>acc.
       case acc of
         Some a \<Rightarrow>
           bind_a (lift (read_storage (ae_sx env) db adr (ac_incarnation a) loc (block_number + 1))) (\<lambda>storage.
           lift (reply_content env request (prefixed_hex (ae_jx env) storage)))
       | None \<Rightarrow>
           lift (reply_content env request (String (''0x'' @ replicate 64 CHR ''0''))))))))))"

section \<open>Transactions for the pool\<close>

definition handle_eth_send_raw_transaction ::
  "'f floats \<Rightarrow> ('c, 'w, 's) api_env \<Rightarrow> json \<Rightarrow> (('c, 'w) api, json) action" where
  "handle_eth_send_raw_transaction fl env request =
     with_params env ''eth_sendRawTransaction'' (\<lambda>n. n = 1) request (\<lambda>params.
     bind_a (param get_string params 0) (\<lambda>encoded_tx_string.
     case jx_from_hex (ae_jx env) encoded_tx_string of
       None \<Rightarrow> lift (reply_error env request (- 32602) (''invalid eth_sendRawTransaction encoded tx: '' @ encoded_tx_string))
     | Some encoded_tx_bytes \<Rightarrow>
         (case ae_decode_transaction env encoded_tx_bytes of
            Inl err \<Rightarrow> lift (reply_error env request (- 32000) (decoding_result_to_string err))
          | Inr txn \<Rightarrow>
              if \<not> check_tx_fee_less_cap fl (fl_of_u64 fl 1) (tx_max_fee_per_gas txn) (tx_gas_limit txn)
              then lift (reply_error env request (- 32000) ''tx fee exceeds the configured cap'')
              else if \<not> is_replay_protected (tx_type txn) (jx_v (ae_jx env) txn)
              then lift (reply_error env request (- 32000) ''only replay-protected (EIP-155) transactions allowed over RPC'')
              else
                bind_a (on_world (sv_add_transaction (ae_sv env) encoded_tx_bytes)) (\<lambda>(success, error_descr).
                if \<not> success then lift (reply_error env request (- 32000) error_descr)
                else
                  (case jx_recover_sender (ae_jx env) txn of
                     None \<Rightarrow> lift (reply_error env request (- 32000) ''cannot recover sender'')
                   | Some _ \<Rightarrow>
                       lift (reply_content env request (to_json_bytes32 (ae_jx env)
                         (jx_to_bytes32 (ae_jx env) (jx_hash_of_transaction (ae_jx env) txn)))))))))"

section \<open>Mining\<close>

definition mining_clauses :: "('c, 'w, 's) api_env \<Rightarrow> json \<Rightarrow> clauses" where
  "mining_clauses env request = catch_system_error env request (- 32000) (catch_std env request (- 32000))"

definition handle_eth_mining :: "('c, 'w, 's) api_env \<Rightarrow> json \<Rightarrow> (('c, 'w) api, json) action" where
  "handle_eth_mining env request =
     try_catch (mining_clauses env request)
       (bind_a (on_world (sv_mining (ae_sv env))) (\<lambda>(enabled, running).
        lift (reply_content env request (Boolean (enabled \<and> running)))))"

definition handle_eth_coinbase :: "('c, 'w, 's) api_env \<Rightarrow> json \<Rightarrow> (('c, 'w) api, json) action" where
  "handle_eth_coinbase env request =
     try_catch (mining_clauses env request)
       (bind_a (on_world (sv_etherbase (ae_sv env))) (\<lambda>coinbase_address.
        lift (reply_content env request (to_json_address (ae_jx env) coinbase_address))))"

definition handle_eth_hashrate :: "('c, 'w, 's) api_env \<Rightarrow> json \<Rightarrow> (('c, 'w) api, json) action" where
  "handle_eth_hashrate env request =
     try_catch (mining_clauses env request)
       (bind_a (on_world (sv_hash_rate (ae_sv env))) (\<lambda>hash_rate.
        lift (reply_content env request (String (to_quantity (ae_jx env) hash_rate)))))"

definition handle_eth_submit_hashrate :: "('c, 'w, 's) api_env \<Rightarrow> json \<Rightarrow> (('c, 'w) api, json) action" where
  "handle_eth_submit_hashrate env request =
     with_params env ''eth_submitHashrate'' (\<lambda>n. n = 2) request (\<lambda>params.
     try_catch (mining_clauses env request)
       (bind_a (param (from_json_uint256 (ae_jx env)) params 0) (\<lambda>hash_rate.
        bind_a (param (from_json_bytes32 (ae_jx env)) params 1) (\<lambda>miner_id.
        bind_a (on_world (sv_submit_hash_rate (ae_sv env) hash_rate miner_id)) (\<lambda>success.
        lift (reply_content env request (Boolean success)))))))"

definition handle_eth_get_work :: "('c, 'w, 's) api_env \<Rightarrow> json \<Rightarrow> (('c, 'w) api, json) action" where
  "handle_eth_get_work env request =
     try_catch (mining_clauses env request)
       (bind_a (on_world (sv_work (ae_sv env))) (\<lambda>w.
        lift (reply_content env request (Array (map (\<lambda>bs. String (jx_to_hex (ae_jx env) bs))
          [wk_header_hash w, wk_seed_hash w, wk_target w, wk_block_number w])))))"

definition handle_eth_submit_work :: "('c, 'w, 's) api_env \<Rightarrow> json \<Rightarrow> (('c, 'w) api, json) action" where
  "handle_eth_submit_work env request =
     with_params env ''eth_submitWork'' (\<lambda>n. n = 3) request (\<lambda>params.
     try_catch (mining_clauses env request)
       (bind_a (param get_string params 0) (\<lambda>nonce_text.
        case jx_from_hex (ae_jx env) nonce_text of
          None \<Rightarrow> lift (invalid_params env ''eth_submitWork'' request params)
        | Some block_nonce \<Rightarrow>
            bind_a (param (from_json_bytes32 (ae_jx env)) params 1) (\<lambda>pow_hash.
            bind_a (param (from_json_bytes32 (ae_jx env)) params 2) (\<lambda>digest.
            bind_a (on_world (sv_submit_work (ae_sv env) block_nonce pow_hash digest)) (\<lambda>success.
            lift (reply_content env request (Boolean success))))))))"

section \<open>Handlers that are not implemented\<close>

definition reply_zero :: "('c, 'w, 's) api_env \<Rightarrow> json \<Rightarrow> (('c, 'w) api, json) action" where
  "reply_zero env request =
     with_transaction env (catch_std env request 100) (\<lambda>_ _.
       lift (reply_content env request (String (to_quantity (ae_jx env) 0))))"

definition handle_eth_new_filter :: "('c, 'w, 's) api_env \<Rightarrow> json \<Rightarrow> (('c, 'w) api, json) action" where
  "handle_eth_new_filter = reply_zero"

definition handle_eth_new_block_filter :: "('c, 'w, 's) api_env \<Rightarrow> json \<Rightarrow> (('c, 'w) api, json) action" where
  "handle_eth_new_block_filter = reply_zero"

definition handle_eth_new_pending_transaction_filter :: "('c, 'w, 's) api_env \<Rightarrow> json \<Rightarrow> (('c, 'w) api, json) action" where
  "handle_eth_new_pending_transaction_filter = reply_zero"

definition handle_eth_get_filter_changes :: "('c, 'w, 's) api_env \<Rightarrow> json \<Rightarrow> (('c, 'w) api, json) action" where
  "handle_eth_get_filter_changes = reply_zero"

definition handle_eth_uninstall_filter :: "('c, 'w, 's) api_env \<Rightarrow> json \<Rightarrow> (('c, 'w) api, json) action" where
  "handle_eth_uninstall_filter = reply_zero"

definition handle_eth_send_transaction :: "('c, 'w, 's) api_env \<Rightarrow> json \<Rightarrow> (('c, 'w) api, json) action" where
  "handle_eth_send_transaction = reply_zero"

definition handle_eth_sign_transaction :: "('c, 'w, 's) api_env \<Rightarrow> json \<Rightarrow> (('c, 'w) api, json) action" where
  "handle_eth_sign_transaction = reply_zero"

definition handle_eth_get_proof :: "('c, 'w, 's) api_env \<Rightarrow> json \<Rightarrow> (('c, 'w) api, json) action" where
  "handle_eth_get_proof = reply_zero"

definition handle_eth_subscribe :: "('c, 'w, 's) api_env \<Rightarrow> json \<Rightarrow> (('c, 'w) api, json) action" where
  "handle_eth_subscribe = reply_zero"

definition handle_eth_unsubscribe :: "('c, 'w, 's) api_env \<Rightarrow> json \<Rightarrow> (('c, 'w) api, json) action" where
  "handle_eth_unsubscribe = reply_zero"

end
