(* ===== verification/Eth_Api_Exec.thy ===== *)
theory Eth_Api_Exec
  imports Eth_Api
begin

text \<open>
  The handlers of the namespace eth that execute transactions (\<^verbatim>\<open>commands/eth_api.cpp\<close>): \<^verbatim>\<open>eth_call\<close>,
  \<^verbatim>\<open>eth_createAccessList\<close> and \<^verbatim>\<open>eth_callBundle\<close>.
\<close>

section \<open>Calls\<close>

definition reply_execution :: "('c, 'w, 's) api_env \<Rightarrow> json \<Rightarrow> execution_result \<Rightarrow> json result" where
  "reply_execution env request r =
     (case er_pre_check_error r of
        Some error \<Rightarrow> reply_error env request (- 32000) error
      | None \<Rightarrow>
          if er_error_code r = EVMC_SUCCESS then reply_content env request (prefixed_hex (ae_jx env) (er_data r))
          else
            bind_r (get_error_message (ae_selector env) (er_error_code r) (er_data r) True) (\<lambda>error_message.
            if er_data r = [] then reply_error env request (- 32000) error_message
            else reply_revert env request 3 error_message (er_data r)))"

definition handle_eth_call :: "('c, 'w, 's) api_env \<Rightarrow> json \<Rightarrow> (('c, 'w) api, json) action" where
  "handle_eth_call env request =
     with_params env ''eth_call'' (\<lambda>n. n = 2) request (\<lambda>params.
     bind_a (param (from_json_Call (ae_jx env)) params 0) (\<lambda>call.
     bind_a (param get_string params 1) (\<lambda>block_id.
     with_transaction env (catch_std env request 100) (\<lambda>rd cached.
       bind_a (lift (bnoh_build (jx_from_hex (ae_jx env)) (x_codec (ae_x env)) block_id)) (\<lambda>_.
       bind_a (lift (read_chain_id (ae_x env) rd)) (\<lambda>chain_id.
       bind_a (lift (lookup_chain_config (ae_chains env) chain_id)) (\<lambda>machine.
       bind_a (lift (get_block_number (ae_ks env) (ae_x env) rd block_id True)) (\<lambda>(block_number, is_latest_block).
       bind_a (on_cache (cached_read_block_by_number (ae_cache env) (ae_x env) rd block_number)) (\<lambda>block.
       bind_a (lift (execute env (machine block) (if is_latest_block then cached else rd) block_number True False (to_transaction call))) (\<lambda>(r, _).
       lift (reply_execution env request r)))))))))))"

section \<open>Access lists\<close>

text \<open>
  The contract that the call creates: the nonce is that of the call, the next one in the pool, or that of
  the account. The sender is dereferenced without a check; \<open>optional_value\<close> is \<^verbatim>\<open>*optional\<close>.
\<close>

definition optional_value :: "'a option \<Rightarrow> 'a result" where
  "optional_value o' = (case o' of None \<Rightarrow> Throw Uninitialized_read | Some x \<Rightarrow> Ok x)"

definition recipient ::
  "('c, 'w, 's) api_env \<Rightarrow> reader \<Rightarrow> block_with_hash \<Rightarrow> call \<Rightarrow> (('c, 'w) api, bytes \<times> call) action" where
  "recipient env db block call =
     (case cl_to call of
        Some to \<Rightarrow> ret (to, call)
      | None \<Rightarrow>
          bind_a
            (case cl_nonce call of
               Some nonce \<Rightarrow> ret nonce
             | None \<Rightarrow>
                 bind_a (lift (optional_value (cl_from call))) (\<lambda>from.
                 bind_a (on_world (sv_pool_nonce (ae_sv env) from)) (\<lambda>nonce_option.
                 case nonce_option of
                   None \<Rightarrow>
                     bind_a (lift (read_account (ae_sx env) db from (hdr_number (bw_header block) + 1))) (\<lambda>acc.
                     ret (case acc of Some a \<Rightarrow> ac_nonce a | None \<Rightarrow> 0))
                 | Some nonce \<Rightarrow> ret (nonce + 1))))
            (\<lambda>nonce.
               bind_a (lift (optional_value (cl_from call))) (\<lambda>from.
               ret (x_create_address (ae_x env) from nonce, call\<lparr>cl_nonce := Some nonce\<rparr>))))"

definition call_list :: "call \<Rightarrow> access_list" where
  "call_list call = map (\<lambda>(a, ks). Entry a ks) (cl_access_list call)"

definition set_access_list :: "access_list \<Rightarrow> call \<Rightarrow> call" where
  "set_access_list acl call = call\<lparr>cl_access_list := map (\<lambda>e. (acl_account e, acl_storage_keys e)) acl\<rparr>"

text \<open>
  One execution of the call with its list: the result of the machine and the list that the tracer has
  collected from the instructions.
\<close>

definition traced_execution ::
  "('c, 'w, 's) api_env \<Rightarrow> 's vm \<Rightarrow> reader \<Rightarrow> u64 \<Rightarrow> tracer \<Rightarrow> call \<Rightarrow> (execution_result \<times> access_list) result" where
  "traced_execution env machine db block_number tr call =
     bind_r (execute env machine db block_number True False (to_transaction call)) (\<lambda>(r, s).
       Ok (r, tr_access_list (trace (ae_words env) (ae_observed env s) (reset_access_list tr))))"

definition access_list_reply :: "('c, 'w, 's) api_env \<Rightarrow> json \<Rightarrow> call \<Rightarrow> execution_result \<Rightarrow> access_list \<Rightarrow> json result" where
  "access_list_reply env request call r acl =
     bind_r
       (if er_error_code r \<noteq> EVMC_SUCCESS
        then bind_r (get_error_message (ae_selector env) (er_error_code r) (er_data r) False) (\<lambda>m. Ok (Some m))
        else Ok None)
       (\<lambda>error. reply_content env request (to_json_AccessListResult (ae_jx env)
          (map (\<lambda>e. (acl_account e, acl_storage_keys e)) acl) error
          (tx_gas_limit (to_transaction call) - er_gas_left r)))"

text \<open>The loop ends when the list of the call and the list of the run compare as equal.\<close>

partial_function (option) access_list_loop ::
  "(call \<Rightarrow> (execution_result \<times> access_list) result) \<Rightarrow> ('c, 'w, 's) api_env \<Rightarrow> json \<Rightarrow> call \<Rightarrow> json result option" where
  "access_list_loop run env request call =
     (case run call of
        Inl e \<Rightarrow> Some (Throw e)
      | Inr (r, current_access_list) \<Rightarrow>
          (case er_pre_check_error r of
             Some error \<Rightarrow> Some (reply_error env request (- 32000) error)
           | None \<Rightarrow>
               if compare (call_list call) current_access_list
               then Some (access_list_reply env request call r current_access_list)
               else access_list_loop run env request (set_access_list current_access_list call)))"

definition handle_eth_create_access_list :: "('c, 'w, 's) api_env \<Rightarrow> json \<Rightarrow> (('c, 'w) api, json) action" where
  "handle_eth_create_access_list env request =
     with_params env ''eth_call'' (\<lambda>n. n = 2) request (\<lambda>params.
     bind_a (param (from_json_Call (ae_jx env)) params 0) (\<lambda>call.
     bind_a (param (from_json_BlockNumberOrHash (ae_jx env) (x_codec (ae_x env))) params 1) (\<lambda>bnoh.
     with_transaction env (catch_std env request 100) (\<lambda>rd cached.
       bind_a (on_cache (read_block_by_number_or_hash (ae_cache env) (ae_ks env) (ae_x env) rd bnoh)) (\<lambda>block.
       bind_a (lift (read_chain_id (ae_x env) rd)) (\<lambda>chain_id.
       bind_a (lift (lookup_chain_config (ae_chains env) chain_id)) (\<lambda>machine.
       bind_a (lift (get_latest_executed_block_number (ae_ks env) (ae_x env) rd)) (\<lambda>latest.
       let block_number = hdr_number (bw_header block); db = (if latest = block_number then cached else rd) in
       bind_a (recipient env db block call) (\<lambda>(to, call).
       bind_a (lift (optional_value (cl_from call))) (\<lambda>from.
       lift (returned (access_list_loop (traced_execution env (machine block) db block_number
         \<lparr>tr_access_list = [], tr_from = from, tr_to = to\<rparr>) env request call))))))))))))"

section \<open>Bundles\<close>

text \<open>
  The result of the loop over the transactions of a bundle: the reply of an iteration that breaks out of the
  loop, whether \<^verbatim>\<open>error\<close> was set, the transactions so far and the bytes to be hashed. \<open>elapsed i\<close> is the
  number of nanoseconds that have passed when transaction \<open>i\<close> has been executed.
\<close>

record call_bundle =
  bn_reply :: "json option"
  bn_error :: bool
  bn_txs_info :: "call_bundle_tx_info list"
  bn_hash_data :: bytes

definition bundle_tx_info :: "('c, 'w, 's) api_env \<Rightarrow> transaction \<Rightarrow> execution_result \<Rightarrow> call_bundle_tx_info result" where
  "bundle_tx_info env t r =
     (let gas_used = tx_gas_limit t - er_gas_left r; h = jx_hash_of_transaction (ae_jx env) t in
      if er_error_code r \<noteq> EVMC_SUCCESS
      then bind_r (get_error_message (ae_selector env) (er_error_code r) (er_data r) False) (\<lambda>m.
        Ok \<lparr>bt_hash = h, bt_gas_used = gas_used, bt_value = zeros 32, bt_error_message = m\<rparr>)
      else Ok \<lparr>bt_hash = h, bt_gas_used = gas_used, bt_value = jx_to_bytes32 (ae_jx env) (er_data r), bt_error_message = []\<rparr>)"

fun bundle_loop ::
  "('c, 'w, 's) api_env \<Rightarrow> json \<Rightarrow> (nat \<Rightarrow> u64) \<Rightarrow> u64 \<Rightarrow> reader \<Rightarrow> (transaction \<Rightarrow> execution_result result) \<Rightarrow>
     nat \<Rightarrow> bytes list \<Rightarrow> call_bundle \<Rightarrow> (('c, 'w) api, call_bundle) action" where
  "bundle_loop env request elapsed timeout rd run i [] b = ret b"
| "bundle_loop env request elapsed timeout rd run i (h # hs) b =
     bind_a (on_cache (read_transaction_by_hash (ae_cache env) (ae_x env) rd h)) (\<lambda>tx_with_block.
     case tx_with_block of
       None \<Rightarrow>
         bind_a (lift (reply_error env request 100 ''invalid transaction hash'')) (\<lambda>j. ret (b\<lparr>bn_reply := Some j\<rparr>))
     | Some tb \<Rightarrow>
         bind_a (lift (run (tb_transaction tb))) (\<lambda>r.
         case er_pre_check_error r of
           Some error \<Rightarrow>
             bind_a (lift (reply_error env request (- 32000) error)) (\<lambda>j. ret (b\<lparr>bn_reply := Some j, bn_error := True\<rparr>))
         | None \<Rightarrow>
             if elapsed i div 1000000 > timeout
             then bind_a (lift (reply_error env request (- 32000) ''execution aborted (timeout)'')) (\<lambda>j.
               ret (b\<lparr>bn_reply := Some j, bn_error := True\<rparr>))
             else
               bind_a (lift (bundle_tx_info env (tb_transaction tb) r)) (\<lambda>tx_info.
               bundle_loop env request elapsed timeout rd run (Suc i) hs
                 (b\<lparr>bn_txs_info := bn_txs_info b @ [tx_info], bn_hash_data := bn_hash_data b @ bt_hash tx_info\<rparr>))))"

definition empty_bundle :: call_bundle where
  "empty_bundle = \<lparr>bn_reply = None, bn_error = False, bn_txs_info = [], bn_hash_data = []\<rparr>"

text \<open>The reply after the loop; without an error the reply is assigned again.\<close>

definition bundle_reply :: "('c, 'w, 's) api_env \<Rightarrow> json \<Rightarrow> call_bundle \<Rightarrow> json result" where
  "bundle_reply env request b =
     (if \<not> bn_error b
      then reply_content env request (to_json_CallBundleInfo (ae_jx env) (sx_hash_of (ae_sx env) (bn_hash_data b)) (bn_txs_info b))
      else Ok (case bn_reply b of Some j \<Rightarrow> j | None \<Rightarrow> Null))"

text \<open>Both databases of this handler are databases on the state cache.\<close>

definition handle_eth_call_bundle :: "(nat \<Rightarrow> u64) \<Rightarrow> ('c, 'w, 's) api_env \<Rightarrow> json \<Rightarrow> (('c, 'w) api, json) action" where
  "handle_eth_call_bundle elapsed env request =
     with_params env ''eth_callBundle'' (\<lambda>n. n = 3) request (\<lambda>params.
     bind_a (param (get_vector (from_json_bytes32 (ae_jx env))) params 0) (\<lambda>tx_hash_list.
     bind_a (param (from_json_BlockNumberOrHash (ae_jx env) (x_codec (ae_x env))) params 1) (\<lambda>bnoh.
     bind_a (param (get_u64 (ae_jx env)) params 2) (\<lambda>timeout.
     if length tx_hash_list = 0
     then lift (bind_r (ae_dump env params) (\<lambda>d. reply_error env request 100 (''invalid eth_callBundle hash list: '' @ d)))
     else
       with_transaction env (catch_std env request 100) (\<lambda>_ cached.
         bind_a (on_cache (read_block_by_number_or_hash (ae_cache env) (ae_ks env) (ae_x env) cached bnoh)) (\<lambda>block.
         bind_a (lift (read_chain_id (ae_x env) cached)) (\<lambda>chain_id.
         bind_a (lift (lookup_chain_config (ae_chains env) chain_id)) (\<lambda>machine.
         bind_a (lift (get_latest_executed_block_number (ae_ks env) (ae_x env) cached)) (\<lambda>_.
         bind_a (bundle_loop env request elapsed timeout cached
             (\<lambda>t. bind_r (execute env (machine block) cached (hdr_number (bw_header block)) True False t) (\<lambda>(r, _). Ok r))
             0 tx_hash_list empty_bundle) (\<lambda>b.
         lift (bundle_reply env request b)))))))))))"

end
