(* ===== verification/Eth_Logs.thy ===== *)
theory Eth_Logs
  imports Eth_Api
begin

text \<open>
  \<^verbatim>\<open>eth_getLogs\<close> of \<^verbatim>\<open>commands/eth_api.cpp\<close> with the bitmap reads of \<^verbatim>\<open>ethdb/bitmap.cpp\<close>. A Roaring bitmap is
  the ascending list of the numbers in it; its union, intersection and iteration are those of the library.
  Reading a bitmap from bytes and adding a range are parameters, as is the big endian form of 32 bits.
\<close>

section \<open>Bitmaps\<close>

record log_ext =
  lx_read :: "bytes \<Rightarrow> nat list result"
  lx_range :: "u64 \<Rightarrow> u64 \<Rightarrow> nat list"
  lx_store_big_u32 :: "u32 \<Rightarrow> bytes"

definition bm_or :: "nat list \<Rightarrow> nat list \<Rightarrow> nat list" where
  "bm_or a b = sort (remdups (a @ b))"

definition bm_and :: "nat list \<Rightarrow> nat list \<Rightarrow> nat list" where
  "bm_and a b = filter (\<lambda>n. n \<in> set b) a"

definition fast_or :: "nat list list \<Rightarrow> nat list" where
  "fast_or inputs = foldr bm_or inputs []"

text \<open>The walker of \<^verbatim>\<open>bitmap::get\<close> reads the last four bytes of the key.\<close>

definition bitmap_walker :: "ext \<Rightarrow> log_ext \<Rightarrow> u32 \<Rightarrow> key_value \<Rightarrow> nat list list \<Rightarrow> (nat list list \<times> bool) result" where
  "bitmap_walker x lx to_block kv chuncks =
     bind_r (lx_read lx (kv_value kv)) (\<lambda>chunck.
       if length (kv_key kv) < 4 then Throw Out_of_bounds
       else Ok (chuncks @ [chunck], x_load_big_u32 x (drop (length (kv_key kv) - 4) (kv_key kv)) < to_block))"

definition bitmap_get :: "ext \<Rightarrow> log_ext \<Rightarrow> reader \<Rightarrow> string \<Rightarrow> bytes \<Rightarrow> u32 \<Rightarrow> u32 \<Rightarrow> nat list result" where
  "bitmap_get x lx rd table key from_block to_block =
     bind_r (rd_walk rd table (key @ lx_store_big_u32 lx from_block) (8 * length key)) (\<lambda>es.
     bind_r (walk_r (bitmap_walker x lx to_block) es []) (\<lambda>chuncks.
       Ok (fast_or chuncks)))"

text \<open>The numbers of the first and the last block are cut to 32 bits when they are passed to \<^verbatim>\<open>bitmap::get\<close>.\<close>

fun keys_bitmap :: "ext \<Rightarrow> log_ext \<Rightarrow> reader \<Rightarrow> string \<Rightarrow> u64 \<Rightarrow> u64 \<Rightarrow> bytes list \<Rightarrow> nat list \<Rightarrow> nat list result" where
  "keys_bitmap x lx rd table start end' [] result_bitmap = Ok result_bitmap"
| "keys_bitmap x lx rd table start end' (k # ks) result_bitmap =
     bind_r (bitmap_get x lx rd table k (ucast start) (ucast end')) (\<lambda>bitmap.
       keys_bitmap x lx rd table start end' ks (bm_or result_bitmap bitmap))"

definition get_addresses_bitmap :: "ext \<Rightarrow> log_ext \<Rightarrow> reader \<Rightarrow> bytes list \<Rightarrow> u64 \<Rightarrow> u64 \<Rightarrow> nat list result" where
  "get_addresses_bitmap x lx rd addresses start end' = keys_bitmap x lx rd ''LogAddressIndex'' start end' addresses []"

text \<open>Topics for which the index holds nothing are left out, whether or not they are wild cards.\<close>

fun topics_loop :: "ext \<Rightarrow> log_ext \<Rightarrow> reader \<Rightarrow> u64 \<Rightarrow> u64 \<Rightarrow> bytes list list \<Rightarrow> nat list \<Rightarrow> nat list result" where
  "topics_loop x lx rd start end' [] result_bitmap = Ok result_bitmap"
| "topics_loop x lx rd start end' (subtopics # topics) result_bitmap =
     bind_r (keys_bitmap x lx rd ''LogTopicIndex'' start end' subtopics []) (\<lambda>subtopic_bitmap.
       topics_loop x lx rd start end' topics
         (if subtopic_bitmap \<noteq> []
          then if result_bitmap = [] then subtopic_bitmap else bm_and result_bitmap subtopic_bitmap
          else result_bitmap))"

definition get_topics_bitmap :: "ext \<Rightarrow> log_ext \<Rightarrow> reader \<Rightarrow> bytes list list \<Rightarrow> u64 \<Rightarrow> u64 \<Rightarrow> nat list result" where
  "get_topics_bitmap x lx rd topics start end' = topics_loop x lx rd start end' topics []"

section \<open>Filtering\<close>

text \<open>The loop over the topics of a filter: an empty list of subtopics matches every topic.\<close>

fun matches_topics :: "bytes list list \<Rightarrow> bytes list \<Rightarrow> bool" where
  "matches_topics [] ts = True"
| "matches_topics (subtopics # topics) [] = False"
| "matches_topics (subtopics # topics) (t # ts) =
     (if \<not> (subtopics = [] \<or> t \<in> set subtopics) then False else matches_topics topics ts)"

definition matches :: "log_filter \<Rightarrow> log \<Rightarrow> bool" where
  "matches f l \<longleftrightarrow>
     (case fl_addresses f of Some addresses \<Rightarrow> log_address l \<in> set addresses | None \<Rightarrow> True) \<and>
     (case fl_topics f of
        Some topics \<Rightarrow> \<not> length topics > length (log_topics l) \<and> matches_topics topics (log_topics l)
      | None \<Rightarrow> True)"

definition filter_logs :: "log list \<Rightarrow> log_filter \<Rightarrow> log list" where
  "filter_logs logs f = filter (matches f) logs"

section \<open>The handler\<close>

text \<open>The first and the last block; Inr holds an error message when the hash of the block is not hexadecimal.\<close>

definition block_range :: "('c, 'w, 's) api_env \<Rightarrow> reader \<Rightarrow> log_filter \<Rightarrow> ((u64 \<times> u64) + string) result" where
  "block_range env rd f =
     (case fl_block_hash f of
        Some h \<Rightarrow>
          (case jx_from_hex (ae_jx env) h of
             None \<Rightarrow> Ok (Inr (''invalid eth_getLogs filter block_hash: '' @ h))
           | Some bs \<Rightarrow>
               bind_r (read_header_number (ae_x env) rd (jx_to_bytes32 (ae_jx env) bs)) (\<lambda>n. Ok (Inl (n, n))))
      | None \<Rightarrow>
          bind_r (case fl_from_block f of
              Some b \<Rightarrow> bind_r (get_block_number (ae_ks env) (ae_x env) rd b False) (\<lambda>(n, _). Ok n)
            | None \<Rightarrow> get_latest_executed_block_number (ae_ks env) (ae_x env) rd) (\<lambda>start.
          bind_r (case fl_to_block f of
              Some b \<Rightarrow> bind_r (get_block_number (ae_ks env) (ae_x env) rd b False) (\<lambda>(n, _). Ok n)
            | None \<Rightarrow> get_latest_executed_block_number (ae_ks env) (ae_x env) rd) (\<lambda>end'.
          Ok (Inl (start, end')))))"

text \<open>The blocks that may hold logs: \<^verbatim>\<open>end + 1\<close> wraps around in 64 bits.\<close>

definition candidate_blocks :: "ext \<Rightarrow> log_ext \<Rightarrow> reader \<Rightarrow> log_filter \<Rightarrow> u64 \<Rightarrow> u64 \<Rightarrow> nat list result" where
  "candidate_blocks x lx rd f start end' =
     bind_r (case fl_topics f of
         Some topics \<Rightarrow>
           bind_r (get_topics_bitmap x lx rd topics start end') (\<lambda>topics_bitmap.
             Ok (if topics_bitmap = [] then topics_bitmap else bm_and (lx_range lx start (end' + 1)) topics_bitmap))
       | None \<Rightarrow> Ok (lx_range lx start (end' + 1))) (\<lambda>block_numbers.
     case fl_addresses f of
       Some addresses \<Rightarrow>
         bind_r (get_addresses_bitmap x lx rd addresses start end') (\<lambda>addresses_bitmap.
           Ok (if addresses_bitmap = [] then addresses_bitmap else bm_and block_numbers addresses_bitmap))
     | None \<Rightarrow> Ok block_numbers)"

fun number_logs :: "nat \<Rightarrow> log list \<Rightarrow> log list" where
  "number_logs i [] = []"
| "number_logs i (l # ls) = l\<lparr>log_index := of_nat i\<rparr> # number_logs (Suc i) ls"

definition chunk_walker :: "ext \<Rightarrow> log_filter \<Rightarrow> key_value \<Rightarrow> nat \<times> log list \<Rightarrow> ((nat \<times> log list) \<times> bool) result" where
  "chunk_walker x f kv st =
     (case st of (log_index', found) \<Rightarrow>
        bind_r (cbor_decode_logs (x_codec x) (kv_value kv)) (\<lambda>decoded.
          case decoded of
            None \<Rightarrow> Ok (st, False)
          | Some chunck_logs \<Rightarrow>
              let filtered = filter_logs (number_logs log_index' chunck_logs) f; next_index = log_index' + length chunck_logs in
              if filtered = [] then Ok ((next_index, found), True)
              else if length (kv_key kv) < 12 then Throw Out_of_bounds
              else
                let tx_id = x_load_big_u32 x (take 4 (drop 8 (kv_key kv))) in
                Ok ((next_index, found @ map (\<lambda>l. l\<lparr>log_tx_index := tx_id\<rparr>) filtered), True)))"

definition filtered_block_logs :: "ext \<Rightarrow> reader \<Rightarrow> log_filter \<Rightarrow> nat \<Rightarrow> log list result" where
  "filtered_block_logs x rd f n =
     bind_r (rd_for_prefix rd ''TransactionLog'' (x_block_key x (of_nat n))) (\<lambda>es.
     bind_r (walk_r (chunk_walker x f) es (0, [])) (\<lambda>(_, found). Ok found))"

text \<open>The transaction of a log is read from the block without a check of its index.\<close>

definition complete_log :: "ext \<Rightarrow> block_with_hash \<Rightarrow> nat \<Rightarrow> log \<Rightarrow> log result" where
  "complete_log x block n l =
     (let i = unat (log_tx_index l) in
      if i < length (bw_transactions block)
      then Ok (l\<lparr>log_block_number := of_nat n, log_block_hash := bw_hash block,
             log_tx_hash := to_bytes32 (x_codec x) (x_hash_of_transaction x (bw_transactions block ! i))\<rparr>)
      else Throw Out_of_bounds)"

definition matched_block_logs :: "('c, 'w, 's) api_env \<Rightarrow> reader \<Rightarrow> log_filter \<Rightarrow> nat \<Rightarrow> (('c, 'w) api, log list) action" where
  "matched_block_logs env rd f n =
     bind_a (lift (filtered_block_logs (ae_x env) rd f n)) (\<lambda>found.
     if found = [] then ret []
     else
       bind_a (on_cache (cached_read_block_by_number (ae_cache env) (ae_x env) rd (of_nat n))) (\<lambda>block.
       lift (map_r (complete_log (ae_x env) block n) found)))"

text \<open>The loop over the blocks; the logs that were found before an exception stay in \<^verbatim>\<open>logs\<close>.\<close>

fun logs_loop ::
  "('c, 'w, 's) api_env \<Rightarrow> reader \<Rightarrow> log_filter \<Rightarrow> nat list \<Rightarrow> log list \<Rightarrow> (('c, 'w) api, log list \<times> exn option) action" where
  "logs_loop env rd f [] logs s = (Ok (logs, None), s)"
| "logs_loop env rd f (n # ns) logs s =
     (case matched_block_logs env rd f n s of
        (Inl e, s') \<Rightarrow> (Ok (logs, Some e), s')
      | (Inr ls, s') \<Rightarrow> logs_loop env rd f ns (logs @ ls) s')"

definition reply_logs :: "('c, 'w, 's) api_env \<Rightarrow> json \<Rightarrow> log list \<Rightarrow> json result" where
  "reply_logs env request logs = reply_content env request (Array (map (to_json_Log (ae_jx env)) logs))"

definition handle_eth_get_logs :: "log_ext \<Rightarrow> ('c, 'w, 's) api_env \<Rightarrow> json \<Rightarrow> (('c, 'w) api, json) action" where
  "handle_eth_get_logs lx env request =
     with_params env ''eth_getLogs'' (\<lambda>n. n = 1) request (\<lambda>params.
     bind_a (param (from_json_Filter (ae_jx env)) params 0) (\<lambda>f.
     with_transaction env (catch_invalid_argument env request (Array []) (catch_std env request 100)) (\<lambda>rd _.
       bind_a (lift (block_range env rd f)) (\<lambda>range.
       case range of
         Inr error_msg \<Rightarrow> lift (reply_error env request 100 error_msg)
       | Inl (start, end') \<Rightarrow>
           bind_a (lift (candidate_blocks (ae_x env) lx rd f start end')) (\<lambda>block_numbers.
           if length block_numbers = 0 then lift (reply_logs env request [])
           else
             bind_a (logs_loop env rd f block_numbers []) (\<lambda>(logs, err).
             case err of
               None \<Rightarrow> lift (reply_logs env request logs)
             | Some (Invalid_argument w) \<Rightarrow> lift (reply_logs env request logs)
             | Some e \<Rightarrow> lift (Throw e)))))))"

end
