(* ===== verification/Node_Apis.thy ===== *)
theory Node_Apis
  imports Eth_Api_Accounts Account_Dumper
begin

text \<open>
  The handlers of the namespaces net, web3, txpool, parity, engine and ots (\<^verbatim>\<open>commands/net_api.cpp\<close>,
  \<^verbatim>\<open>commands/web3_api.cpp\<close>, \<^verbatim>\<open>commands/txpool_api.cpp\<close>, \<^verbatim>\<open>commands/parity_api.cpp\<close>, \<^verbatim>\<open>commands/engine_api.cpp\<close>,
  \<^verbatim>\<open>commands/ots_api.cpp\<close>).
\<close>

section \<open>net and web3\<close>

definition handle_net_listening :: "('c, 'w, 's) api_env \<Rightarrow> json \<Rightarrow> (('c, 'w) api, json) action" where
  "handle_net_listening env request = lift (reply_content env request (Boolean True))"

definition handle_net_peer_count :: "('c, 'w, 's) api_env \<Rightarrow> json \<Rightarrow> (('c, 'w) api, json) action" where
  "handle_net_peer_count env request =
     try_catch (catch_std env request (- 32000))
       (bind_a (on_world (sv_net_peer_count (ae_sv env))) (\<lambda>peer_count.
        lift (reply_content env request (String (to_quantity (ae_jx env) peer_count)))))"

definition handle_net_version :: "('c, 'w, 's) api_env \<Rightarrow> json \<Rightarrow> (('c, 'w) api, json) action" where
  "handle_net_version env request =
     try_catch (catch_std env request (- 32000))
       (bind_a (on_world (sv_net_version (ae_sv env))) (\<lambda>net_version.
        lift (reply_content env request (String (to_string (unat net_version))))))"

definition handle_web3_client_version :: "('c, 'w, 's) api_env \<Rightarrow> json \<Rightarrow> (('c, 'w) api, json) action" where
  "handle_web3_client_version env request =
     try_catch (catch_std env request (- 32000))
       (bind_a (on_world (sv_client_version (ae_sv env))) (\<lambda>client_version.
        lift (reply_content env request (String client_version))))"

definition handle_web3_sha3 :: "('c, 'w, 's) api_env \<Rightarrow> json \<Rightarrow> (('c, 'w) api, json) action" where
  "handle_web3_sha3 env request =
     with_params env ''web3_sha3'' (\<lambda>n. n = 1) request (\<lambda>params.
     bind_a (param get_string params 0) (\<lambda>input_string.
     case jx_from_hex (ae_jx env) input_string of
       None \<Rightarrow> lift (reply_error env request 100 (''invalid input: '' @ input_string))
     | Some input_bytes \<Rightarrow> lift (reply_content env request (prefixed_hex (ae_jx env) (sx_hash_of (ae_sx env) input_bytes)))))"

section \<open>txpool\<close>

definition handle_txpool_status :: "('c, 'w, 's) api_env \<Rightarrow> json \<Rightarrow> (('c, 'w) api, json) action" where
  "handle_txpool_status env request =
     try_catch (catch_std env request 100)
       (bind_a (on_world (sv_pool_status (ae_sv env))) (\<lambda>(queued_count, pending_count, base_fee_count).
        lift (reply_content env request (to_json_TxPoolStatusInfo (ae_jx env)
          \<lparr>pi_base_fee = base_fee_count, pi_pending = pending_count, pi_queued = queued_count\<rparr>))))"

text \<open>\<^verbatim>\<open>TransactionContent\<close>: for every kind of transaction the senders, for every sender the nonces as text.\<close>

type_synonym sender_map = "(string \<times> (string \<times> chain_transaction) list) list"

record pool_content =
  pc_queued :: sender_map
  pc_pending :: sender_map
  pc_base_fee :: sender_map

definition insert_transaction :: "string \<Rightarrow> transaction \<Rightarrow> sender_map \<Rightarrow> sender_map" where
  "insert_transaction from_text t m =
     map_assign (from_text, map_insert (to_string (unat (tx_nonce t)), in_pool t) (value_or (map_of m from_text) [])) m"

definition add_pool_transaction :: "('c, 'w, 's) api_env \<Rightarrow> transaction_info \<Rightarrow> transaction \<Rightarrow> pool_content \<Rightarrow> pool_content" where
  "add_pool_transaction env info t c =
     (let from_text = ''0x'' @ jx_to_hex (ae_jx env) (ti_sender info) in
      case ti_type info of
        QUEUED \<Rightarrow> c\<lparr>pc_queued := insert_transaction from_text t (pc_queued c)\<rparr>
      | PENDING \<Rightarrow> c\<lparr>pc_pending := insert_transaction from_text t (pc_pending c)\<rparr>
      | BASE_FEE \<Rightarrow> c\<lparr>pc_base_fee := insert_transaction from_text t (pc_base_fee c)\<rparr>)"

text \<open>The loop over the pool: None when a transaction cannot be decoded.\<close>

fun pool_content_of :: "('c, 'w, 's) api_env \<Rightarrow> transaction_info list \<Rightarrow> pool_content \<Rightarrow> pool_content option" where
  "pool_content_of env [] c = Some c"
| "pool_content_of env (i # is) c =
     (case ae_decode_wrapped env (ti_rlp i) of
        None \<Rightarrow> None
      | Some t \<Rightarrow> pool_content_of env is (add_pool_transaction env i t c))"

definition to_json_senders :: "json_ext \<Rightarrow> sender_map \<Rightarrow> json result" where
  "to_json_senders jx m =
     bind_r (map_r (\<lambda>(sender, ts).
        bind_r (map_r (\<lambda>(nonce, t). bind_r (to_json_chain_transaction jx t) (\<lambda>j. Ok (nonce, j))) ts) (\<lambda>fs.
        Ok (sender, Object fs))) m) (\<lambda>fs. Ok (Object fs))"

definition to_json_pool_content :: "json_ext \<Rightarrow> pool_content \<Rightarrow> json result" where
  "to_json_pool_content jx c =
     bind_r (to_json_senders jx (pc_base_fee c)) (\<lambda>base_fee.
     bind_r (to_json_senders jx (pc_pending c)) (\<lambda>pending.
     bind_r (to_json_senders jx (pc_queued c)) (\<lambda>queued.
       Ok (Object [(''baseFee'', base_fee), (''pending'', pending), (''queued'', queued)]))))"

definition handle_txpool_content :: "('c, 'w, 's) api_env \<Rightarrow> json \<Rightarrow> (('c, 'w) api, json) action" where
  "handle_txpool_content env request =
     try_catch (catch_std env request 100)
       (bind_a (on_world (sv_pool_transactions (ae_sv env))) (\<lambda>txs.
        case pool_content_of env txs \<lparr>pc_queued = [], pc_pending = [], pc_base_fee = []\<rparr> of
          None \<Rightarrow> lift (reply_error env request 100 ''RLP decoding error'')
        | Some c \<Rightarrow> bind_a (lift (to_json_pool_content (ae_jx env) c)) (\<lambda>j. lift (reply_content env request j))))"

section \<open>parity\<close>

text \<open>The receipts are indexed by the transactions of the block, without a check.\<close>

fun set_gas_prices :: "json_ext \<Rightarrow> u256 \<Rightarrow> transaction list \<Rightarrow> receipt list \<Rightarrow> receipt list result" where
  "set_gas_prices jx fee [] rs = Ok rs"
| "set_gas_prices jx fee (t # ts) [] = Throw Out_of_bounds"
| "set_gas_prices jx fee (t # ts) (r # rs) =
     bind_r (set_gas_prices jx fee ts rs) (\<lambda>rs'. Ok (r\<lparr>rc_effective_gas_price := jx_effective_gas_price jx t fee\<rparr> # rs'))"

definition handle_parity_get_block_receipts :: "('c, 'w, 's) api_env \<Rightarrow> json \<Rightarrow> (('c, 'w) api, json) action" where
  "handle_parity_get_block_receipts env request =
     with_params env ''parity_getBlockReceipts'' (\<lambda>n. n = 1) request (\<lambda>params.
     bind_a (param get_string params 0) (\<lambda>block_id.
     with_transaction env (catch_invalid_argument env request Null (catch_std env request 100)) (\<lambda>rd _.
       bind_a (block_by_id env rd block_id) (\<lambda>block.
       bind_a (lift (get_receipts (ae_x env) rd block)) (\<lambda>receipts.
       bind_a (lift (set_gas_prices (ae_jx env) (value_or (hdr_base_fee_per_gas (bw_header block)) 0) (bw_transactions block) receipts)) (\<lambda>rs.
       lift (reply_content env request (Array (map (to_json_Receipt (ae_jx env)) rs)))))))))"

text \<open>
  The loop over the values of the account in the dup-sorted table, on the cursor of a transaction; a value
  begins with the location. \<open>bytes32_from_hex\<close> is a function of another repository.
\<close>

partial_function (option) list_keys_loop ::
  "('h, 't) tx_ops \<Rightarrow> 'h \<Rightarrow> (bytes \<Rightarrow> bytes) \<Rightarrow> bytes \<Rightarrow> u64 \<Rightarrow> bytes \<Rightarrow> bytes list \<Rightarrow> 't \<Rightarrow> bytes list result option" where
  "list_keys_loop ops cursor location_of seek_bytes quantity v keys t =
     (if length v \<ge> kHashLength \<and> length keys \<noteq> unat quantity
      then
        (case op_next_dup ops cursor t of
           Inl e \<Rightarrow> Some (Throw e)
         | Inr (kv, t') \<Rightarrow>
             if kv_key kv \<noteq> seek_bytes then Some (Ok (keys @ [location_of v]))
             else list_keys_loop ops cursor location_of seek_bytes quantity (kv_value kv) (keys @ [location_of v]) t')
      else Some (Ok keys))"

definition list_storage_keys ::
  "('h, 't) tx_ops \<Rightarrow> (bytes \<Rightarrow> bytes) \<Rightarrow> bytes \<Rightarrow> bytes \<Rightarrow> u64 \<Rightarrow> 't \<Rightarrow> bytes list result" where
  "list_storage_keys ops location_of seek_bytes seek_val quantity t =
     bind_r (op_cursor ops ''PlainState'' True t) (\<lambda>(cursor, t1).
     bind_r (op_seek_both ops cursor seek_bytes seek_val t1) (\<lambda>(v, t2).
       returned (list_keys_loop ops cursor location_of seek_bytes quantity v [] t2)))"

definition handle_parity_list_storage_keys ::
  "('h, 't) tx_ops \<Rightarrow> 't \<Rightarrow> (bytes \<Rightarrow> bytes) \<Rightarrow> ('c, 'w, 's) api_env \<Rightarrow> json \<Rightarrow> (('c, 'w) api, json) action" where
  "handle_parity_list_storage_keys ops t location_of env request =
     with_params env ''parity_listStorageKeys'' (\<lambda>n. \<not> n < 2) request (\<lambda>params.
     bind_a (param (from_json_address (ae_jx env)) params 0) (\<lambda>adr.
     bind_a (param (get_u64 (ae_jx env)) params 1) (\<lambda>quantity.
     bind_a (if json_size params \<ge> 3
         then bind_a (param Ok params 2) (\<lambda>j. if j \<noteq> Null then bind_a (lift (get_bytes (x_codec (ae_x env)) j)) (\<lambda>bs. ret bs) else ret [])
         else ret []) (\<lambda>seek_val.
     bind_a (if json_size params \<ge> 4 then param get_string params 3 else ret ''latest'') (\<lambda>block_id.
     with_transaction env (catch_invalid_argument env request Null (catch_std env request 100)) (\<lambda>rd _.
       bind_a (lift (get_block_number (ae_ks env) (ae_x env) rd block_id False)) (\<lambda>(block_number, _).
       bind_a (lift (read_account (ae_sx env) rd adr block_number)) (\<lambda>acc.
       case acc of
         None \<Rightarrow> lift (Throw (Logic_error ''account not found''))
       | Some a \<Rightarrow>
           bind_a (lift (list_storage_keys ops location_of (sx_storage_prefix (ae_sx env) adr (ac_incarnation a)) seek_val quantity t)) (\<lambda>keys.
           lift (reply_content env request (Array (map (to_json_bytes32 (ae_jx env)) keys))))))))))))"

section \<open>engine\<close>

text \<open>The engine handlers read the parameters with \<^verbatim>\<open>at\<close>, which throws when there are none.\<close>

definition with_params_at ::
  "('c, 'w, 's) api_env \<Rightarrow> string \<Rightarrow> (nat \<Rightarrow> bool) \<Rightarrow> json \<Rightarrow> (json \<Rightarrow> (('c, 'w) api, json) action) \<Rightarrow> (('c, 'w) api, json) action" where
  "with_params_at env name ok request body =
     bind_a (lift (at_field request ''params'')) (\<lambda>params.
       if ok (json_size params) then body params else lift (invalid_params env name request params))"

definition engine_clauses :: "('c, 'w, 's) api_env \<Rightarrow> json \<Rightarrow> int \<Rightarrow> clauses" where
  "engine_clauses env request error_code = catch_system_error env request error_code (catch_std env request error_code)"

definition handle_engine_get_payload_v1 :: "('c, 'w, 's) api_env \<Rightarrow> json \<Rightarrow> (('c, 'w) api, json) action" where
  "handle_engine_get_payload_v1 env request =
     with_params_at env ''engine_getPayloadV1'' (\<lambda>n. n = 1) request (\<lambda>params.
     try_catch (engine_clauses env request (- 38001))
       (bind_a (param get_string params 0) (\<lambda>payload_id.
        bind_a (lift (stoul 16 payload_id)) (\<lambda>n.
        bind_a (on_world (sv_get_payload (ae_sv env) n)) (\<lambda>payload.
        lift (reply_content env request (to_json_ExecutionPayload (ae_jx env) payload)))))))"

definition handle_engine_new_payload_v1 :: "('c, 'w, 's) api_env \<Rightarrow> json \<Rightarrow> (('c, 'w) api, json) action" where
  "handle_engine_new_payload_v1 env request =
     with_params_at env ''engine_newPayloadV1'' (\<lambda>n. n = 1) request (\<lambda>params.
     try_catch (engine_clauses env request 100)
       (bind_a (param (from_json_ExecutionPayload (ae_jx env)) params 0) (\<lambda>payload.
        bind_a (on_world (sv_new_payload (ae_sv env) payload)) (\<lambda>new_payload.
        lift (reply_content env request (to_json_PayloadStatus (ae_jx env) new_payload))))))"

definition handle_engine_forkchoice_updated_v1 :: "('c, 'w, 's) api_env \<Rightarrow> json \<Rightarrow> (('c, 'w) api, json) action" where
  "handle_engine_forkchoice_updated_v1 env request =
     with_params_at env ''engine_forkchoiceUpdatedV1'' (\<lambda>n. n = 1 \<or> n = 2) request (\<lambda>params.
     try_catch (engine_clauses env request 100)
       (bind_a (param (from_json_ForkChoiceState (ae_jx env)) params 0) (\<lambda>state.
        if fc_safe_block_hash state = zeros 32 then lift (reply_error env request 100 ''safe block hash is empty'')
        else if fc_finalized_block_hash state = zeros 32 then lift (reply_error env request 100 ''finalized block hash is empty'')
        else
          bind_a
            (if json_size params = 2
             then bind_a (param Ok params 1) (\<lambda>j.
               if j \<noteq> Null then bind_a (lift (from_json_PayloadAttributes (ae_jx env) j)) (\<lambda>a. ret (Some a)) else ret None)
             else ret None)
            (\<lambda>attributes.
               bind_a (on_world (sv_forkchoice_updated (ae_sv env) state attributes)) (\<lambda>fork_updated.
               lift (reply_content env request (to_json_ForkChoiceUpdatedReply (ae_jx env) fork_updated)))))))"

text \<open>
  The body of \<^verbatim>\<open>exchangeTransitionConfiguration\<close>: its reply and whether it returns at once, without reaching
  the end of the handler. \<open>terminal\<close> reads the terminal total difficulty of a chain configuration; its
  outer option is None when the configuration cannot be read.
\<close>

definition transition_body ::
  "('c, 'w, 's) api_env \<Rightarrow> (json \<Rightarrow> u256 option option) \<Rightarrow> json \<Rightarrow> transition_configuration \<Rightarrow> reader \<Rightarrow> (json \<times> bool) result" where
  "transition_body env terminal request cl rd =
     bind_r (read_chain_config (ae_x env) rd) (\<lambda>chain_config.
     case terminal (cc_config chain_config) of
       None \<Rightarrow> Throw Bad_optional_access
     | Some difficulty \<Rightarrow>
         if tc_terminal_block_number cl \<noteq> 0
         then bind_r (reply_error env request 100 ''consensus layer terminal block number is not zero'') (\<lambda>j. Ok (j, True))
         else case difficulty of
           None \<Rightarrow> bind_r (reply_error env request 100 ''execution layer does not have terminal total difficulty'') (\<lambda>j. Ok (j, True))
         | Some d \<Rightarrow>
             if d \<noteq> tc_terminal_total_difficulty cl
             then bind_r (reply_error env request 100 ''incorrect terminal total difficulty'') (\<lambda>j. Ok (j, True))
             else
               bind_r (reply_content env request (to_json_TransitionConfiguration (ae_jx env)
                 \<lparr>tc_terminal_total_difficulty = d, tc_terminal_block_hash = zeros 32, tc_terminal_block_number = 0\<rparr>)) (\<lambda>j. Ok (j, False)))"

definition handle_engine_exchange_transition_configuration_v1 ::
  "(json \<Rightarrow> u256 option option) \<Rightarrow> ('c, 'w, 's) api_env \<Rightarrow> json \<Rightarrow> (('c, 'w) api, json) action" where
  "handle_engine_exchange_transition_configuration_v1 terminal env request =
     with_params_at env ''engine_exchangeTransitionConfigurationV1'' (\<lambda>n. n = 1) request (\<lambda>params.
     bind_a (param (from_json_TransitionConfiguration (ae_jx env)) params 0) (\<lambda>cl.
     bind_a (begin_tx env) (\<lambda>(rd, _) s.
       case transition_body env terminal request cl rd of
         Inr (reply, True) \<Rightarrow> (Ok reply, s)
       | Inr (reply, False) \<Rightarrow> (Ok reply, close_tx s)
       | Inl e \<Rightarrow>
           (case catch_std env request 100 e of
              None \<Rightarrow> (Throw e, s)
            | Some (Inl e') \<Rightarrow> (Throw e', s)
            | Some (Inr reply) \<Rightarrow> (Ok reply, close_tx s)))))"

section \<open>ots\<close>

definition kCurrentApiLevel :: int where
  "kCurrentApiLevel = 8"

definition handle_ots_get_api_level :: "('c, 'w, 's) api_env \<Rightarrow> json \<Rightarrow> (('c, 'w) api, json) action" where
  "handle_ots_get_api_level env request = lift (reply_content env request (Number kCurrentApiLevel))"

definition handle_ots_has_code :: "('c, 'w, 's) api_env \<Rightarrow> json \<Rightarrow> (('c, 'w) api, json) action" where
  "handle_ots_has_code env request =
     with_params env ''ots_hasCode'' (\<lambda>n. n = 2) request (\<lambda>params.
     bind_a (param (from_json_address (ae_jx env)) params 0) (\<lambda>adr.
     bind_a (param get_string params 1) (\<lambda>block_id.
     with_transaction env (catch_std env request 100) (\<lambda>rd cached.
       bind_a (lift (bnoh_build (jx_from_hex (ae_jx env)) (x_codec (ae_x env)) block_id)) (\<lambda>bnoh.
       bind_a (lift (is_latest_block_number (ae_ks env) (ae_x env) rd bnoh)) (\<lambda>is_latest_block.
       let db = (if is_latest_block then cached else rd) in
       bind_a (lift (get_block_number (ae_ks env) (ae_x env) rd block_id False)) (\<lambda>(block_number, _).
       bind_a (lift (read_account (ae_sx env) db adr (block_number + 1))) (\<lambda>acc.
       case acc of
         Some a \<Rightarrow>
           bind_a (lift (read_code (ae_sx env) db (ac_code_hash a))) (\<lambda>found.
           lift (reply_content env request (Boolean (found \<noteq> None))))
       | None \<Rightarrow> lift (reply_content env request (Boolean False))))))))))"

end
