(* ===== verification/Erigon_Api.thy ===== *)
theory Erigon_Api
  imports Eth_Api_Accounts Ethash
begin

text \<open>
  The handlers of the namespace erigon (\<^verbatim>\<open>commands/erigon_api.cpp\<close>), and the forks of a chain
  (\<^verbatim>\<open>types/chain_config.hpp\<close>).
\<close>

section \<open>Blocks by time\<close>

text \<open>
  The part of the text between the first and the last character that is neither a blank nor a quote. When
  there is no such character the position is the largest number and \<^verbatim>\<open>substr\<close> throws.
\<close>

definition strip_quotes :: "string \<Rightarrow> string result" where
  "strip_quotes s =
     (let skip = dropWhile (\<lambda>c. c = CHR '' '' \<or> c = CHR 0x22) in
      if skip s = [] then Throw (Out_of_range ''basic_string::substr'')
      else Ok (rev (skip (rev (skip s)))))"

definition header_time :: "('c, 'w, 's) api_env \<Rightarrow> reader \<Rightarrow> u64 \<Rightarrow> u64 result" where
  "header_time env rd n = bind_r (read_header_by_number (ae_x env) rd n) (\<lambda>header. Ok (hdr_timestamp header))"

text \<open>The number of the block for a time; the predicate of the search reads a header.\<close>

definition block_number_at :: "('c, 'w, 's) api_env \<Rightarrow> reader \<Rightarrow> u64 \<Rightarrow> u64 result" where
  "block_number_at env rd timestamp =
     bind_r (header_time env rd 0) (\<lambda>first_time.
     bind_r (read_current_header (ae_x env) rd) (\<lambda>current_header.
     if hdr_timestamp current_header \<le> timestamp then Ok (hdr_number current_header)
     else if first_time \<ge> timestamp then Ok 0
     else
       bind_r (binary_search (unat (hdr_number current_header))
           (\<lambda>i. bind_r (header_time env rd (of_nat i)) (\<lambda>t. Ok (t \<ge> timestamp)))) (\<lambda>matching.
       bind_r (header_time env rd (of_nat matching)) (\<lambda>matching_time.
       Ok (if matching_time > timestamp then of_nat matching - 1 else of_nat matching)))))"

definition handle_erigon_get_block_by_timestamp :: "('c, 'w, 's) api_env \<Rightarrow> json \<Rightarrow> (('c, 'w) api, json) action" where
  "handle_erigon_get_block_by_timestamp env request =
     with_params env ''erigon_getBlockByTimestamp'' (\<lambda>n. n = 2) request (\<lambda>params.
     bind_a (param get_string params 0) (\<lambda>block_timestamp.
     bind_a (param get_boolean params 1) (\<lambda>full_tx.
     bind_a (lift (bind_r (strip_quotes block_timestamp) (stol 0))) (\<lambda>timestamp.
     with_transaction env (catch_std env request 100) (\<lambda>rd _.
       bind_a (lift (block_number_at env rd (word_of_int timestamp))) (\<lambda>block_number.
       bind_a (on_cache (cached_read_block_by_number (ae_cache env) (ae_x env) rd block_number)) (\<lambda>block.
       bind_a (lift (read_total_difficulty (ae_x env) rd (bw_hash block) block_number)) (\<lambda>total_difficulty.
       bind_a (lift (to_json_Block (ae_jx env) \<lparr>bk_block = block, bk_total_difficulty = total_difficulty, bk_full_tx = full_tx\<rparr>)) (\<lambda>j.
       lift (reply_content env request j))))))))))"

section \<open>Headers and logs\<close>

definition handle_erigon_get_header_by_hash :: "('c, 'w, 's) api_env \<Rightarrow> json \<Rightarrow> (('c, 'w) api, json) action" where
  "handle_erigon_get_header_by_hash env request =
     with_params env ''erigon_getHeaderByHash'' (\<lambda>n. n = 1) request (\<lambda>params.
     bind_a (param (from_json_bytes32 (ae_jx env)) params 0) (\<lambda>block_hash.
     with_transaction env (catch_std env request 100) (\<lambda>rd _.
       bind_a (lift (read_header_by_hash (ae_x env) rd block_hash)) (\<lambda>header.
       lift (reply_content env request (to_json_BlockHeader (ae_jx env) header))))))"

definition handle_erigon_get_header_by_number :: "('c, 'w, 's) api_env \<Rightarrow> json \<Rightarrow> (('c, 'w) api, json) action" where
  "handle_erigon_get_header_by_number env request =
     with_params env ''erigon_getHeaderByNumber'' (\<lambda>n. n = 1) request (\<lambda>params.
     bind_a (param get_string params 0) (\<lambda>block_id.
     if block_id = ''pending''
     then lift (reply_error env request 100 ''pending block not implemented in erigon_getHeaderByNumber'')
     else
       with_transaction env (catch_std env request 100) (\<lambda>rd _.
         bind_a (lift (get_block_number (ae_ks env) (ae_x env) rd block_id False)) (\<lambda>(block_number, _).
         bind_a (lift (read_header_by_number (ae_x env) rd block_number)) (\<lambda>header.
         lift (reply_content env request (to_json_BlockHeader (ae_jx env) header)))))))"

definition handle_erigon_get_logs_by_hash :: "('c, 'w, 's) api_env \<Rightarrow> json \<Rightarrow> (('c, 'w) api, json) action" where
  "handle_erigon_get_logs_by_hash env request =
     with_params env ''erigon_getHeaderByHash'' (\<lambda>n. n = 1) request (\<lambda>params.
     bind_a (param (from_json_bytes32 (ae_jx env)) params 0) (\<lambda>block_hash.
     with_transaction env (catch_std env request 100) (\<lambda>rd _.
       bind_a (block_by_hash env rd block_hash) (\<lambda>block.
       bind_a (lift (get_receipts (ae_x env) rd block)) (\<lambda>receipts.
       lift (reply_content env request (Array (map (\<lambda>r. Array (map (to_json_Log (ae_jx env)) (rc_logs r))) receipts))))))))"

section \<open>Forks and issuance\<close>

text \<open>\<^verbatim>\<open>Forks\<close>: the fork blocks that the configuration names, without those at the genesis block.\<close>

definition forks_of :: "(json \<Rightarrow> u64 list option) \<Rightarrow> chain_config \<Rightarrow> u64 list result" where
  "forks_of distinct_fork_numbers cfg =
     (case distinct_fork_numbers (cc_config cfg) of
        None \<Rightarrow> Throw (System_error ''Invalid argument'' ''Chain config missing: Invalid argument'')
      | Some blocks \<Rightarrow> Ok (filter (\<lambda>b. b \<noteq> 0) blocks))"

definition handle_erigon_forks ::
  "(json \<Rightarrow> u64 list option) \<Rightarrow> ('c, 'w, 's) api_env \<Rightarrow> json \<Rightarrow> (('c, 'w) api, json) action" where
  "handle_erigon_forks distinct_fork_numbers env request =
     with_transaction env (catch_std env request 100) (\<lambda>rd _.
       bind_a (lift (read_chain_config (ae_x env) rd)) (\<lambda>config.
       bind_a (lift (forks_of distinct_fork_numbers config)) (\<lambda>block_numbers.
       lift (reply_content env request (to_json_Forks (ae_jx env) (cc_genesis_hash config) block_numbers)))))"

fun add_tips :: "json_ext \<Rightarrow> u256 \<Rightarrow> transaction list \<Rightarrow> receipt list \<Rightarrow> u256 \<Rightarrow> u256 result" where
  "add_tips jx fee [] rs tips = Ok tips"
| "add_tips jx fee (t # ts) [] tips = Throw Out_of_bounds"
| "add_tips jx fee (t # ts) (r # rs) tips = add_tips jx fee ts rs (tips + jx_effective_gas_price jx t fee * ucast (rc_gas_used r))"

definition block_issuance ::
  "'k chain_rules \<Rightarrow> ('c, 'w, 's) api_env \<Rightarrow> reader \<Rightarrow> json \<Rightarrow> u64 \<Rightarrow> block_with_hash \<Rightarrow> issuance_info result" where
  "block_issuance rules env rd cfg block_number block =
     bind_r (compute_reward rules cfg (bw_header block) (bw_ommers block)) (\<lambda>reward.
     let total_ommer_reward = sum_list (ommer_rewards reward);
         hex = (\<lambda>n. Some (''0x'' @ ae_intx_hex env n));
         burnt = (case hdr_base_fee_per_gas (bw_header block) of Some fee \<Rightarrow> fee * ucast (hdr_gas_used (bw_header block)) | None \<Rightarrow> 0)
     in
     bind_r (read_total_issued (ae_x env) rd block_number) (\<lambda>total_issued.
     bind_r (read_total_burnt (ae_x env) rd block_number) (\<lambda>total_burnt.
     bind_r
       (case hdr_base_fee_per_gas (bw_header block) of
          Some fee \<Rightarrow> bind_r (get_receipts (ae_x env) rd block) (\<lambda>receipts. add_tips (ae_jx env) fee (bw_transactions block) receipts 0)
        | None \<Rightarrow> Ok 0)
       (\<lambda>tips.
          Ok \<lparr>is_block_reward = hex (miner_reward reward), is_ommer_reward = hex total_ommer_reward,
             is_issuance = hex (miner_reward reward + total_ommer_reward), is_burnt = hex burnt, is_total_issued = hex total_issued,
             is_total_burnt = hex total_burnt, is_tips = hex tips\<rparr>))))"

definition no_issuance :: issuance_info where
  "no_issuance = \<lparr>is_block_reward = None, is_ommer_reward = None, is_issuance = None, is_burnt = None, is_total_issued = None,
     is_total_burnt = None, is_tips = None\<rparr>"

definition handle_erigon_watch_the_burn ::
  "'k chain_rules \<Rightarrow> ('c, 'w, 's) api_env \<Rightarrow> json \<Rightarrow> (('c, 'w) api, json) action" where
  "handle_erigon_watch_the_burn rules env request =
     with_params env ''erigon_watchTheBurn'' (\<lambda>n. n = 1) request (\<lambda>params.
     bind_a (param get_string params 0) (\<lambda>block_id.
     with_transaction env (catch_std env request 100) (\<lambda>rd _.
       bind_a (lift (read_chain_config (ae_x env) rd)) (\<lambda>config.
       bind_a
         (if contains (cc_config config) ''ethash''
          then
            bind_a (lift (get_block_number (ae_ks env) (ae_x env) rd block_id False)) (\<lambda>(block_number, _).
            bind_a (lift (read_block_by_number (ae_x env) rd block_number)) (\<lambda>block.
            lift (block_issuance rules env rd (cc_config config) block_number block)))
          else ret no_issuance)
         (\<lambda>issuance. lift (reply_content env request (to_json_Issuance issuance)))))))"

section \<open>Numbers\<close>

definition handle_erigon_block_number :: "('c, 'w, 's) api_env \<Rightarrow> json \<Rightarrow> (('c, 'w) api, json) action" where
  "handle_erigon_block_number env request =
     with_params env ''erigon_blockNumber'' (\<lambda>n. n = 0 \<or> n = 1) request (\<lambda>params.
     bind_a (if json_size params = 0 then ret ''latestExecuted'' else param get_string params 0) (\<lambda>block_id.
     with_transaction env (catch_std env request 100) (\<lambda>rd _.
       bind_a (lift (get_block_number_by_tag (ae_ks env) (ae_x env) rd block_id)) (\<lambda>block_number.
       lift (reply_content env request (String (to_quantity (ae_jx env) block_number)))))))"

text \<open>
  An exception is answered with what has been read so far; the number of transactions has no initial value.
\<close>

definition handle_erigon_cumulative_chain_traffic :: "('c, 'w, 's) api_env \<Rightarrow> json \<Rightarrow> (('c, 'w) api, json) action" where
  "handle_erigon_cumulative_chain_traffic env request =
     with_params env ''erigon_cumulativeChainTraffic'' (\<lambda>n. n = 1) request (\<lambda>params.
     bind_a (param get_string params 0) (\<lambda>block_id.
     with_transaction env (\<lambda>_. None) (\<lambda>rd _.
       case bind_r (get_block_number (ae_ks env) (ae_x env) rd block_id False) (\<lambda>(block_number, _).
           bind_r (read_cumulative_transaction_count (ae_x env) rd block_number) (\<lambda>count. Ok (block_number, count))) of
         Inl e \<Rightarrow> (if what_of e = None then lift (Throw e) else lift (Throw Uninitialized_read))
       | Inr (block_number, count) \<Rightarrow>
           (case read_cumulative_gas_used (ae_x env) rd block_number of
              Inl e \<Rightarrow>
                (if what_of e = None then lift (Throw e)
                 else lift (reply_content env request (to_json_ChainTraffic (ae_jx env) 0 count)))
            | Inr gas \<Rightarrow> lift (reply_content env request (to_json_ChainTraffic (ae_jx env) gas count))))))"

definition handle_erigon_node_info :: "('c, 'w, 's) api_env \<Rightarrow> json \<Rightarrow> (('c, 'w) api, json) action" where
  "handle_erigon_node_info env request =
     try_catch (catch_std env request 100)
       (bind_a (on_world (sv_node_info (ae_sv env))) (\<lambda>infos.
        lift (reply_content env request (Array (map (to_json_NodeInfo (ae_jx env)) infos)))))"

end
