(* ===== verification/Evm_Events.thy ===== *)
theory Evm_Events
  imports Evm_Executor Account_Dumper Rpc_Actions Json_Stream
begin

text \<open>
  What the tracers of \<^verbatim>\<open>core/evm_debug.cpp\<close> and \<^verbatim>\<open>core/evm_trace.cpp\<close> observe. The machine of another repository
  calls a tracer when a frame starts, before every instruction, when a precompiled contract has run, when a
  frame ends and when the creation of a contract is complete; the executor calls it when the reward has been
  granted. A run of the machine is the list of these calls, as events.
\<close>

section \<open>Events\<close>

datatype call_kind = EVMC_CALL | EVMC_DELEGATECALL | EVMC_CALLCODE | EVMC_CREATE | EVMC_CREATE2

text \<open>\<^verbatim>\<open>evmc_message\<close>: the fields that the tracers read.\<close>

record message =
  msg_kind :: call_kind
  msg_static :: bool
  msg_depth :: u32
  msg_gas :: u64
  msg_recipient :: bytes
  msg_sender :: bytes
  msg_input :: bytes
  msg_value :: u256
  msg_code_address :: bytes

text \<open>What can be read of an \<^verbatim>\<open>IntraBlockState\<close> at the moment of a call; the set of touched accounts is a list.\<close>

record view =
  vw_exists :: "bytes \<Rightarrow> bool"
  vw_balance :: "bytes \<Rightarrow> u256"
  vw_nonce :: "bytes \<Rightarrow> u64"
  vw_code :: "bytes \<Rightarrow> bytes"
  vw_current_storage :: "bytes \<Rightarrow> bytes \<Rightarrow> bytes"
  vw_original_storage :: "bytes \<Rightarrow> bytes \<Rightarrow> bytes"
  vw_touched :: "bytes list"

text \<open>The state before an instruction; the stack has its top first, so that \<^verbatim>\<open>stack_top[-i]\<close> is element \<open>i\<close>.\<close>

record execution_state =
  es_pc :: u32
  es_opcode :: byte
  es_stack :: "u256 list"
  es_memory :: bytes
  es_gas_left :: u64
  es_status :: evmc_status
  es_msg :: message

record evmc_result =
  res_status :: evmc_status
  res_gas_left :: u64
  res_output :: bytes

datatype event =
    Execution_start nat message bytes
  | Instruction_start execution_state view
  | Precompiled_run evmc_result u64 view
  | Execution_end evmc_result view
  | Creation_completed evmc_result view
  | Reward_granted call_result view

section \<open>Parameters\<close>

text \<open>
  The functions of other libraries that the tracers use: the table of instruction names of a revision, the
  text of numbers in base 16 and of bytes. \<open>te_uninitialized\<close> is the number that a field has which was never
  assigned.
\<close>

record tracer_ext =
  te_names :: "nat \<Rightarrow> byte \<Rightarrow> string option"
  te_to_string16 :: "u256 \<Rightarrow> string"
  te_intx_hex :: "u256 \<Rightarrow> string"
  te_evmc_hex :: "bytes \<Rightarrow> string"
  te_jx :: json_ext
  te_uninitialized :: u64

definition bytes32_from_hex :: "json_ext \<Rightarrow> string \<Rightarrow> bytes" where
  "bytes32_from_hex jx s = jx_to_bytes32 jx (value_or (jx_from_hex jx s) [])"

text \<open>
  How a state of the machine is observed: the events of the last run that led to it, and what can be read of it.
\<close>

record 's tracing =
  tg_ext :: tracer_ext
  tg_events :: "'s \<Rightarrow> event list"
  tg_view :: "'s \<Rightarrow> view"

text \<open>One call of the executor with tracers. There are no events when the checks before the run fail.\<close>

definition traced_call ::
  "'s tracing \<Rightarrow> 's vm \<Rightarrow> 's state_ops \<Rightarrow> transaction \<Rightarrow> bool \<Rightarrow> bool \<Rightarrow> 's \<Rightarrow> (execution_result \<times> event list \<times> 's) result" where
  "traced_call tg machine so txn refund gas_bailout s =
     bind_r (executor_call machine so txn refund gas_bailout s) (\<lambda>(r, s').
       Ok (r, if er_pre_check_error r = None then tg_events tg s' else [], s'))"

definition recover_sender :: "json_ext \<Rightarrow> transaction \<Rightarrow> transaction" where
  "recover_sender jx txn = (if tx_from txn = None then txn\<lparr>tx_from := jx_recover_sender jx txn\<rparr> else txn)"

text \<open>A stream is written by actions on the list of the calls it has got.\<close>

definition emit :: "json op list \<Rightarrow> (json op list, unit) action" where
  "emit ops written = (Ok (), written @ ops)"

definition emit_if :: "bool \<Rightarrow> json op list \<Rightarrow> (json op list, unit) action" where
  "emit_if streaming ops = (if streaming then emit ops else ret ())"

text \<open>\<^verbatim>\<open>stack_top[-i]\<close>: the stack is not checked.\<close>

definition stack_at :: "u256 list \<Rightarrow> nat \<Rightarrow> u256 result" where
  "stack_at st i = (if i < length st then Ok (st ! i) else Throw Out_of_bounds)"

lemma bind_a_emit [simp]: "bind_a (emit ops) f w = f () (w @ ops)"
  by (simp add: bind_a_def emit_def)

lemma emit_if_simps [simp]: "emit_if True ops = emit ops" "emit_if False ops = ret ()"
  by (simp_all add: emit_if_def)

end
