(* ===== verification/Debug_Tracer.thy ===== *)
theory Debug_Tracer
  imports Evm_Events
begin

text \<open>
  The tracer behind the methods \<^verbatim>\<open>debug_trace*\<close>: \<^verbatim>\<open>core/evm_debug.hpp\<close> and \<^verbatim>\<open>core/evm_debug.cpp\<close>. Every instruction
  adds a log; what it costs is known when the next one starts or the frame ends, so the tracer corrects the
  last log. With a stream a log is written as soon as it is not the last one. Gas is a 64-bit word that is
  read as a signed number; the cost of a new log is not initialised.
\<close>

section \<open>Configuration and logs\<close>

record debug_config =
  disable_storage :: bool
  disable_memory :: bool
  disable_stack :: bool

definition DEFAULT_DEBUG_CONFIG :: debug_config where
  "DEFAULT_DEBUG_CONFIG = \<lparr>disable_storage = False, disable_memory = False, disable_stack = False\<rparr>"

definition from_json_DebugConfig :: "json \<Rightarrow> debug_config result" where
  "from_json_DebugConfig j =
     bind_r (at_get get_boolean j ''disableStorage'') (\<lambda>no_storage.
     bind_r (at_get get_boolean j ''disableMemory'') (\<lambda>no_memory.
     bind_r (at_get get_boolean j ''disableStack'') (\<lambda>no_stack.
       Ok \<lparr>disable_storage = no_storage, disable_memory = no_memory, disable_stack = no_stack\<rparr>)))"

record debug_log =
  dl_pc :: u32
  dl_op :: string
  dl_gas :: u64
  dl_gas_cost :: "u64 option"
  dl_depth :: u32
  dl_error :: bool
  dl_memory :: "string list"
  dl_stack :: "string list"
  dl_storage :: "(string \<times> string) list"

definition number_i64 :: "u64 \<Rightarrow> json" where
  "number_i64 w = Number (sint w)"

definition string_map :: "(string \<times> string) list \<Rightarrow> json" where
  "string_map m = Object (map (\<lambda>(k, v). (k, String v)) m)"

text \<open>The members that \<^verbatim>\<open>to_json\<close> and \<^verbatim>\<open>write_log\<close> give a log.\<close>

definition debug_log_json :: "tracer_ext \<Rightarrow> debug_config \<Rightarrow> debug_log \<Rightarrow> json" where
  "debug_log_json te cfg log =
     members
       ([(''depth'', Number (uint (dl_depth log))), (''gas'', number_i64 (dl_gas log)),
         (''gasCost'', number_i64 (case dl_gas_cost log of Some c \<Rightarrow> c | None \<Rightarrow> te_uninitialized te)),
         (''op'', String (dl_op log)), (''pc'', Number (uint (dl_pc log)))] @
        (if \<not> disable_stack cfg then [(''stack'', Array (map String (dl_stack log)))] else []) @
        (if \<not> disable_memory cfg then [(''memory'', Array (map String (dl_memory log)))] else []) @
        (if \<not> disable_storage cfg \<and> dl_storage log \<noteq> [] then [(''storage'', string_map (dl_storage log))] else []) @
        (if dl_error log then [(''error'', Object [])] else []))"

record debug_trace =
  db_failed :: bool
  db_gas :: u64
  db_return_value :: string
  db_logs :: "debug_log list"
  db_config :: debug_config

definition to_json_DebugTrace :: "tracer_ext \<Rightarrow> debug_trace \<Rightarrow> json" where
  "to_json_DebugTrace te t =
     members [(''failed'', Boolean (db_failed t)), (''gas'', number_i64 (db_gas t)),
       (''returnValue'', String (db_return_value t)),
       (''structLogs'', Array (map (debug_log_json te (db_config t)) (db_logs t)))]"

section \<open>The tracer\<close>

text \<open>
  \<open>dt_streaming\<close> says whether there is a stream, \<open>dt_written\<close> is what was written to it; \<open>dt_names\<close> is the
  revision whose table of names was looked up.
\<close>

record debug_tracer =
  dt_logs :: "debug_log list"
  dt_config :: debug_config
  dt_streaming :: bool
  dt_written :: "json list"
  dt_storage :: "(bytes \<times> (string \<times> string) list) list"
  dt_names :: "nat option"
  dt_start_gas :: u64
  dt_gas_on_precompiled :: u64

definition debug_tracer_of :: "debug_config \<Rightarrow> bool \<Rightarrow> debug_tracer" where
  "debug_tracer_of cfg streaming =
     \<lparr>dt_logs = [], dt_config = cfg, dt_streaming = streaming, dt_written = [], dt_storage = [], dt_names = None,
      dt_start_gas = 0, dt_gas_on_precompiled = 0\<rparr>"

definition get_opcode_name :: "tracer_ext \<Rightarrow> (byte \<Rightarrow> string option) \<Rightarrow> byte \<Rightarrow> string" where
  "get_opcode_name te names opcode =
     (case names opcode of Some name \<Rightarrow> name | None \<Rightarrow> ''opcode 0x'' @ te_evmc_hex te [opcode] @ '' not defined'')"

definition EMPTY_MEMORY :: string where
  "EMPTY_MEMORY = replicate 64 (CHR ''0'')"

text \<open>From the bottom of the stack to its top.\<close>

definition output_stack :: "tracer_ext \<Rightarrow> u256 list \<Rightarrow> string list" where
  "output_stack te st = map (\<lambda>w. ''0x'' @ te_to_string16 te w) (rev st)"

text \<open>The memory of the machine has a multiple of 32 bytes.\<close>

fun output_memory :: "tracer_ext \<Rightarrow> bytes \<Rightarrow> string list" where
  "output_memory te [] = []"
| "output_memory te (b # bs) = te_evmc_hex te (take 32 (b # bs)) # output_memory te (drop 31 bs)"

definition insert_error :: "evmc_status \<Rightarrow> debug_log \<Rightarrow> debug_log" where
  "insert_error status log =
     log\<lparr>dl_error := (status = EVMC_FAILURE \<or> status = EVMC_UNDEFINED_INSTRUCTION \<or> status = EVMC_OUT_OF_GAS)\<rparr>"

definition write_log :: "tracer_ext \<Rightarrow> debug_log \<Rightarrow> debug_tracer \<Rightarrow> debug_tracer" where
  "write_log te log tr = tr\<lparr>dt_written := dt_written tr @ [debug_log_json te (dt_config tr) log]\<rparr>"

text \<open>The first log is written to the stream and erased when it is not the only one.\<close>

definition write_front :: "tracer_ext \<Rightarrow> debug_tracer \<Rightarrow> debug_tracer" where
  "write_front te tr =
     (if dt_streaming tr \<and> length (dt_logs tr) > 1
      then (write_log te (hd (dt_logs tr)) tr)\<lparr>dt_logs := tl (dt_logs tr)\<rparr> else tr)"

definition update_last :: "(debug_log \<Rightarrow> debug_log) \<Rightarrow> debug_log list \<Rightarrow> debug_log list" where
  "update_last f logs = (if logs = [] then [] else butlast logs @ [f (last logs)])"

definition debug_on_execution_start :: "nat \<Rightarrow> message \<Rightarrow> bytes \<Rightarrow> debug_tracer \<Rightarrow> debug_tracer" where
  "debug_on_execution_start rev' msg codes tr =
     tr\<lparr>dt_names := (case dt_names tr of None \<Rightarrow> Some rev' | Some n \<Rightarrow> Some n), dt_start_gas := msg_gas msg\<rparr>"

text \<open>The storage slot that the instruction reads or writes, with its value; None for other instructions.\<close>

definition storage_access ::
  "tracer_ext \<Rightarrow> debug_config \<Rightarrow> string \<Rightarrow> bytes \<Rightarrow> u256 list \<Rightarrow> view \<Rightarrow> (string \<times> string) option" where
  "storage_access te cfg opcode_name recipient st ibs =
     (if disable_storage cfg then None
      else if opcode_name = ''SLOAD'' \<and> length st \<ge> 1
      then let address = bytes32_from_hex (te_jx te) (te_intx_hex te (st ! 0))
           in Some (jx_to_hex (te_jx te) address, jx_to_hex (te_jx te) (vw_current_storage ibs recipient address))
      else if opcode_name = ''SSTORE'' \<and> length st \<ge> 2
      then Some (jx_to_hex (te_jx te) (bytes32_from_hex (te_jx te) (te_intx_hex te (st ! 0))),
             jx_to_hex (te_jx te) (bytes32_from_hex (te_jx te) (te_intx_hex te (st ! 1))))
      else None)"

definition storage_of :: "(bytes \<times> (string \<times> string) list) list \<Rightarrow> bytes \<Rightarrow> (string \<times> string) list" where
  "storage_of m adr = value_or (map_of m adr) []"

text \<open>
  What the start of an instruction tells of the last log: the gas it has used, with the run of a precompiled
  contract apart, and the memory it has grown to.
\<close>

definition complete_last_log ::
  "debug_config \<Rightarrow> u64 \<Rightarrow> u32 \<Rightarrow> u64 \<Rightarrow> string list \<Rightarrow> debug_log \<Rightarrow> debug_log" where
  "complete_last_log cfg gas_on_precompiled depth gas_left current_memory log =
     (if dl_depth log = depth + 1
      then log\<lparr>dl_gas_cost := Some (dl_gas log - (if gas_on_precompiled \<noteq> 0 then gas_on_precompiled else gas_left)),
             dl_memory := (if disable_memory cfg then dl_memory log
               else dl_memory log @ replicate (length current_memory - length (dl_memory log)) EMPTY_MEMORY)\<rparr>
      else if dl_depth log = depth then log\<lparr>dl_gas_cost := Some (dl_gas log - gas_left)\<rparr>
      else log)"

definition new_log ::
  "tracer_ext \<Rightarrow> debug_config \<Rightarrow> string \<Rightarrow> execution_state \<Rightarrow> string list \<Rightarrow> (string \<times> string) list \<Rightarrow> debug_log" where
  "new_log te cfg opcode_name es current_memory storage =
     insert_error (es_status es)
       \<lparr>dl_pc = es_pc es, dl_op = opcode_name, dl_gas = es_gas_left es, dl_gas_cost = None,
        dl_depth = msg_depth (es_msg es) + 1, dl_error = False,
        dl_memory = (if disable_memory cfg then [] else current_memory),
        dl_stack = (if disable_stack cfg then [] else output_stack te (es_stack es)), dl_storage = storage\<rparr>"

text \<open>
  The tracer after the storage has been noted and the last log completed, and the log of the instruction. The
  log shows the storage of the account only when the instruction has accessed it.
\<close>

definition opcode_name_of :: "tracer_ext \<Rightarrow> nat \<Rightarrow> execution_state \<Rightarrow> string" where
  "opcode_name_of te rev' es = get_opcode_name te (te_names te rev') (es_opcode es)"

definition current_memory :: "tracer_ext \<Rightarrow> debug_config \<Rightarrow> execution_state \<Rightarrow> string list" where
  "current_memory te cfg es = (if disable_memory cfg then [] else output_memory te (es_memory es))"

definition instruction_update :: "tracer_ext \<Rightarrow> nat \<Rightarrow> execution_state \<Rightarrow> view \<Rightarrow> debug_tracer \<Rightarrow> debug_tracer" where
  "instruction_update te rev' es ibs tr =
     (let cfg = dt_config tr;
          recipient = msg_recipient (es_msg es);
          depth = msg_depth (es_msg es);
          uses_precompiled = dt_logs tr \<noteq> [] \<and> dl_depth (last (dt_logs tr)) = depth + 1 \<and> dt_gas_on_precompiled tr \<noteq> 0
      in tr\<lparr>dt_storage := (case storage_access te cfg (opcode_name_of te rev' es) recipient (es_stack es) ibs of
               None \<Rightarrow> dt_storage tr
             | Some entry \<Rightarrow> map_assign (recipient, map_assign entry (storage_of (dt_storage tr) recipient)) (dt_storage tr)),
           dt_logs := update_last
             (complete_last_log cfg (dt_gas_on_precompiled tr) depth (es_gas_left es) (current_memory te cfg es)) (dt_logs tr),
           dt_gas_on_precompiled := (if uses_precompiled then 0 else dt_gas_on_precompiled tr)\<rparr>)"

definition instruction_log :: "tracer_ext \<Rightarrow> nat \<Rightarrow> execution_state \<Rightarrow> view \<Rightarrow> debug_tracer \<Rightarrow> debug_log" where
  "instruction_log te rev' es ibs tr =
     (let cfg = dt_config tr; recipient = msg_recipient (es_msg es) in
      new_log te cfg (opcode_name_of te rev' es) es (current_memory te cfg es)
        (if storage_access te cfg (opcode_name_of te rev' es) recipient (es_stack es) ibs = None then []
         else storage_of (dt_storage tr) recipient))"

definition debug_on_instruction_start ::
  "tracer_ext \<Rightarrow> execution_state \<Rightarrow> view \<Rightarrow> debug_tracer \<Rightarrow> debug_tracer result" where
  "debug_on_instruction_start te es ibs tr =
     (case dt_names tr of
        None \<Rightarrow> Throw Uninitialized_read
      | Some rev' \<Rightarrow>
          let tr' = write_front te (instruction_update te rev' es ibs tr)
          in Ok (tr'\<lparr>dt_logs := dt_logs tr' @ [instruction_log te rev' es ibs tr']\<rparr>))"

definition debug_on_precompiled_run :: "u64 \<Rightarrow> debug_tracer \<Rightarrow> debug_tracer" where
  "debug_on_precompiled_run gas tr = tr\<lparr>dt_gas_on_precompiled := gas\<rparr>"

definition end_log :: "u64 \<Rightarrow> evmc_result \<Rightarrow> debug_log \<Rightarrow> debug_log" where
  "end_log start_gas res log =
     (insert_error (res_status res) log)\<lparr>dl_gas_cost :=
        Some (if res_status res = EVMC_UNDEFINED_INSTRUCTION then start_gas - dl_gas log else dl_gas log - res_gas_left res)\<rparr>"

definition debug_on_execution_end :: "tracer_ext \<Rightarrow> evmc_result \<Rightarrow> debug_tracer \<Rightarrow> debug_tracer" where
  "debug_on_execution_end te res tr =
     write_front te (tr\<lparr>dt_logs := update_last (end_log (dt_start_gas tr) res) (dt_logs tr)\<rparr>)"

fun debug_on_event :: "tracer_ext \<Rightarrow> event \<Rightarrow> debug_tracer \<Rightarrow> debug_tracer result" where
  "debug_on_event te (Execution_start rev' msg codes) tr = Ok (debug_on_execution_start rev' msg codes tr)"
| "debug_on_event te (Instruction_start es ibs) tr = debug_on_instruction_start te es ibs tr"
| "debug_on_event te (Precompiled_run res gas ibs) tr = Ok (debug_on_precompiled_run gas tr)"
| "debug_on_event te (Execution_end res ibs) tr = Ok (debug_on_execution_end te res tr)"
| "debug_on_event te (Creation_completed res ibs) tr = Ok tr"
| "debug_on_event te (Reward_granted res ibs) tr = Ok tr"

definition debug_on_events :: "tracer_ext \<Rightarrow> event list \<Rightarrow> debug_tracer \<Rightarrow> debug_tracer result" where
  "debug_on_events te evs tr = fold_r (debug_on_event te) evs tr"

definition flush_logs :: "tracer_ext \<Rightarrow> debug_tracer \<Rightarrow> debug_tracer" where
  "flush_logs te tr = fold (write_log te) (dt_logs tr) tr"

section \<open>The executor\<close>

text \<open>
  \<^verbatim>\<open>DebugExecutor\<close>: the traces of the transactions of a block, and of one transaction or call after the earlier
  transactions of its block. The stream gets what the tracers write and what surrounds it.
\<close>

record debug_executor_result =
  dr_trace :: debug_trace
  dr_pre_check_error :: "string option"

definition empty_debug_trace :: "debug_config \<Rightarrow> debug_trace" where
  "empty_debug_trace cfg = \<lparr>db_failed = False, db_gas = 0, db_return_value = [], db_logs = [], db_config = cfg\<rparr>"

definition outcome_fields :: "tracer_ext \<Rightarrow> transaction \<Rightarrow> execution_result \<Rightarrow> json op list" where
  "outcome_fields te txn r =
     [Write_field_value ''failed'' (Boolean (er_error_code r \<noteq> EVMC_SUCCESS)),
      Write_field_value ''gas'' (Number (uint (tx_gas_limit txn - er_gas_left r))),
      Write_field_value ''returnValue'' (String (jx_to_hex (te_jx te) (er_data r)))]"

definition outcome_trace :: "tracer_ext \<Rightarrow> transaction \<Rightarrow> execution_result \<Rightarrow> debug_trace \<Rightarrow> debug_trace" where
  "outcome_trace te txn r t =
     t\<lparr>db_failed := er_error_code r \<noteq> EVMC_SUCCESS, db_gas := tx_gas_limit txn - er_gas_left r,
       db_return_value := jx_to_hex (te_jx te) (er_data r)\<rparr>"

fun debug_execute_transactions ::
  "'s tracing \<Rightarrow> 's vm \<Rightarrow> 's state_ops \<Rightarrow> debug_config \<Rightarrow> bool \<Rightarrow> transaction list \<Rightarrow> 's \<Rightarrow>
     (json op list, debug_trace list) action" where
  "debug_execute_transactions tg machine so cfg streaming [] s = ret []"
| "debug_execute_transactions tg machine so cfg streaming (t # ts) s =
     (let te = tg_ext tg; txn = recover_sender (te_jx te) t in
      bind_a (emit_if streaming [Open_object, Write_field ''result'', Open_object, Write_field ''structLogs'', Open_array]) (\<lambda>_.
      bind_a (lift (traced_call tg machine so txn False False s)) (\<lambda>(r, evs, s').
      bind_a (lift (debug_on_events te evs (debug_tracer_of cfg streaming))) (\<lambda>tr.
      bind_a (emit_if streaming (map Write_json (dt_written (flush_logs te tr)) @ [Close_array])) (\<lambda>_.
      let debug_trace = (empty_debug_trace cfg)\<lparr>db_logs := dt_logs tr\<rparr> in
      bind_a
        (emit_if streaming
           ((if er_pre_check_error r \<noteq> None then [Write_field_value ''failed'' (Boolean True)] else outcome_fields te txn r) @
            [Close_object, Close_object])) (\<lambda>_.
      bind_a (debug_execute_transactions tg machine so cfg streaming ts s') (\<lambda>traces.
        ret ((if streaming then debug_trace
              else if er_pre_check_error r \<noteq> None then debug_trace\<lparr>db_failed := True\<rparr>
              else outcome_trace te txn r debug_trace) # traces))))))))"

definition debug_execute_block ::
  "('c, 'w, 's) api_env \<Rightarrow> 's tracing \<Rightarrow> reader \<Rightarrow> debug_config \<Rightarrow> block_with_hash \<Rightarrow> bool \<Rightarrow> (json op list, debug_trace list) action" where
  "debug_execute_block env tg rd cfg block streaming =
     bind_a (lift (read_chain_id (ae_x env) rd)) (\<lambda>chain_id.
     bind_a (lift (lookup_chain_config (ae_chains env) chain_id)) (\<lambda>machine.
     debug_execute_transactions tg (machine block) (ae_so env) cfg streaming (bw_transactions block)
       (ae_state env rd (hdr_number (bw_header block) - 1))))"

text \<open>The transactions before the traced one, without tracers.\<close>

definition replay :: "json_ext \<Rightarrow> 's vm \<Rightarrow> 's state_ops \<Rightarrow> transaction list \<Rightarrow> 's \<Rightarrow> 's result" where
  "replay jx machine so txns s =
     fold_r (\<lambda>t s. bind_r (executor_call machine so (recover_sender jx t) True False s) (\<lambda>(r, s'). Ok s')) txns s"

definition debug_execute ::
  "('c, 'w, 's) api_env \<Rightarrow> 's tracing \<Rightarrow> reader \<Rightarrow> debug_config \<Rightarrow> u64 \<Rightarrow> block_with_hash \<Rightarrow> transaction \<Rightarrow> nat \<Rightarrow> bool \<Rightarrow>
     (json op list, debug_executor_result) action" where
  "debug_execute env tg rd cfg block_number block transaction index streaming =
     (let te = tg_ext tg; so = ae_so env in
      bind_a (lift (read_chain_id (ae_x env) rd)) (\<lambda>chain_id.
      bind_a (lift (lookup_chain_config (ae_chains env) chain_id)) (\<lambda>machine.
      if index > length (bw_transactions block) then lift (Throw Out_of_bounds)
      else
        bind_a (lift (replay (te_jx te) (machine block) so (take index (bw_transactions block)) (ae_state env rd block_number))) (\<lambda>s.
        bind_a (emit_if streaming [Write_field ''structLogs'', Open_array]) (\<lambda>_.
        bind_a (lift (traced_call tg (machine block) so transaction True False (executor_reset so s))) (\<lambda>(r, evs, s').
        bind_a (lift (debug_on_events te evs (debug_tracer_of cfg streaming))) (\<lambda>tr.
        bind_a (emit_if streaming (map Write_json (dt_written (flush_logs te tr)) @ [Close_array])) (\<lambda>_.
        let debug_trace = (empty_debug_trace cfg)\<lparr>db_logs := dt_logs tr\<rparr> in
        case er_pre_check_error r of
          Some error \<Rightarrow> ret \<lparr>dr_trace = debug_trace, dr_pre_check_error = Some (''tracing failed: '' @ error)\<rparr>
        | None \<Rightarrow>
            bind_a (emit_if streaming (outcome_fields te transaction r)) (\<lambda>_.
            ret \<lparr>dr_trace = (if streaming then debug_trace else outcome_trace te transaction r debug_trace),
              dr_pre_check_error = None\<rparr>)))))))))"

definition debug_execute_call ::
  "('c, 'w, 's) api_env \<Rightarrow> 's tracing \<Rightarrow> reader \<Rightarrow> debug_config \<Rightarrow> block_with_hash \<Rightarrow> call \<Rightarrow> bool \<Rightarrow>
     (json op list, debug_executor_result) action" where
  "debug_execute_call env tg rd cfg block call streaming =
     debug_execute env tg rd cfg (hdr_number (bw_header block)) block (to_transaction call) 0 streaming"

definition debug_execute_transaction ::
  "('c, 'w, 's) api_env \<Rightarrow> 's tracing \<Rightarrow> reader \<Rightarrow> debug_config \<Rightarrow> transaction_with_block \<Rightarrow> bool \<Rightarrow>
     (json op list, debug_executor_result) action" where
  "debug_execute_transaction env tg rd cfg tb streaming =
     debug_execute env tg rd cfg (hdr_number (bw_header (tb_block tb)) - 1) (tb_block tb) (tb_transaction tb) (tb_index tb) streaming"

end
