(* ===== verification/Rpc_Streams.thy ===== *)
theory Rpc_Streams
  imports Evm_Events
begin

text \<open>
  The handlers that write their reply to a stream (\<^verbatim>\<open>commands/debug_api.cpp\<close>, \<^verbatim>\<open>commands/trace_api.cpp\<close>). Their
  state is that of the other handlers and the calls that the stream has got, so that what was written before
  an exception is still there after it. They open the object of the reply, begin a transaction, run their body
  inside a \<^verbatim>\<open>try\<close> block, write exceptions as the member \<^verbatim>\<open>error\<close>, close the object and the transaction.
\<close>

type_synonym ('c, 'w) streaming = "('c, 'w) api \<times> json op list"

definition on_api :: "(('c, 'w) api, 'a) action \<Rightarrow> (('c, 'w) streaming, 'a) action" where
  "on_api m sw = (case m (fst sw) of (r, s') \<Rightarrow> (r, (s', snd sw)))"

definition on_stream :: "(json op list, 'a) action \<Rightarrow> (('c, 'w) streaming, 'a) action" where
  "on_stream m sw = (case m (snd sw) of (r, w') \<Rightarrow> (r, (fst sw, w')))"

definition write_ops :: "json op list \<Rightarrow> (('c, 'w) streaming, unit) action" where
  "write_ops ops = on_stream (emit ops)"

definition error_field :: "int \<Rightarrow> string \<Rightarrow> json op list" where
  "error_field ecode what_text = [Write_field_value ''error'' (to_json_Error ecode what_text)]"

text \<open>The clauses after the \<^verbatim>\<open>try\<close> block: what is written for an exception, None when no clause is for it.\<close>

type_synonym stream_clauses = "exn \<Rightarrow> json op list option"

definition stream_catch :: "stream_clauses \<Rightarrow> (('c, 'w) streaming, unit) action \<Rightarrow> (('c, 'w) streaming, unit) action" where
  "stream_catch cs body s =
     (case body s of
        (Inr u, s') \<Rightarrow> (Ok u, s')
      | (Inl e, s') \<Rightarrow> (case cs e of None \<Rightarrow> (Throw e, s') | Some ops \<Rightarrow> write_ops ops s'))"

definition catch_what :: "int \<Rightarrow> stream_clauses" where
  "catch_what ecode e = map_option (error_field ecode) (what_of e)"

definition catch_invalid :: "int \<Rightarrow> string \<Rightarrow> stream_clauses \<Rightarrow> stream_clauses" where
  "catch_invalid ecode what_text next_clause e =
     (case e of Invalid_argument w \<Rightarrow> Some (error_field ecode what_text) | _ \<Rightarrow> next_clause e)"

definition reply_header :: "json \<Rightarrow> json op list" where
  "reply_header request =
     [Open_object, Write_field_value ''id'' (field request ''id''), Write_field_value ''jsonrpc'' (String ''2.0'')]"

definition stream_transaction ::
  "('c, 'w, 's) api_env \<Rightarrow> json \<Rightarrow> stream_clauses \<Rightarrow> (reader \<Rightarrow> reader \<Rightarrow> (('c, 'w) streaming, unit) action) \<Rightarrow>
     (('c, 'w) streaming, unit) action" where
  "stream_transaction env request cs body =
     bind_a (write_ops (reply_header request)) (\<lambda>_.
     bind_a (on_api (begin_tx env)) (\<lambda>(rd, cached).
     bind_a (stream_catch cs (body rd cached)) (\<lambda>_.
     bind_a (write_ops [Close_object]) (\<lambda>_ (s, w). (Ok (), (close_tx s, w))))))"

text \<open>A reply with wrong parameters is written at once.\<close>

definition stream_params ::
  "('c, 'w, 's) api_env \<Rightarrow> string \<Rightarrow> (nat \<Rightarrow> bool) \<Rightarrow> json \<Rightarrow> (json \<Rightarrow> (('c, 'w) streaming, unit) action) \<Rightarrow>
     (('c, 'w) streaming, unit) action" where
  "stream_params env name ok request body =
     bind_a (lift (params_of request)) (\<lambda>params.
       if ok (json_size params) then body params
       else bind_a (lift (invalid_params env name request params)) (\<lambda>reply. write_ops [Write_json reply]))"

text \<open>\<^verbatim>\<open>get<T>\<close> for a number of another width than 64 bits, which takes a boolean too.\<close>

fun get_number :: "json_ext \<Rightarrow> json \<Rightarrow> 'a::len word result" where
  "get_number jx (Number n) = Ok (word_of_int n)"
| "get_number jx (Double d) = Ok (word_of_int (jx_trunc_double jx d))"
| "get_number jx (Boolean b) = Ok (if b then 1 else 0)"
| "get_number jx _ = Throw (Runtime_error ''type must be number'')"

section \<open>Laws\<close>

lemma bind_a_on_api: "bind_a (on_api m) f (s, w) = (case m s of (Inl e, s') \<Rightarrow> (Throw e, (s', w)) | (Inr x, s') \<Rightarrow> f x (s', w))"
  by (simp add: bind_a_def on_api_def split: prod.splits)

lemma bind_a_write_ops [simp]: "bind_a (write_ops ops) f (s, w) = f () (s, w @ ops)"
  by (simp add: bind_a_def write_ops_def on_stream_def emit_def)

lemma write_ops_simp [simp]: "write_ops ops (s, w) = (Ok (), (s, w @ ops))"
  by (simp add: write_ops_def on_stream_def emit_def)

end
