(* ===== verification/Debug_Api.thy ===== *)
theory Debug_Api
  imports Debug_Tracer Rpc_Streams
begin

text \<open>
  The handlers of the namespace debug (\<^verbatim>\<open>commands/debug_api.cpp\<close>): the dump of accounts, the modified accounts and
  the storage of an account as JSON replies, and the traces of transactions, calls and blocks as streams. The
  walks over accounts and storage run on the cursors \<open>ops\<close> of the transaction, from its state \<open>t\<close>.
\<close>

section \<open>Accounts\<close>

definition kAccountRangeMaxResults :: int where
  "kAccountRangeMaxResults = 256"

definition limit_results :: "16 word \<Rightarrow> 16 word" where
  "limit_results max_result =
     (if sint max_result > kAccountRangeMaxResults \<or> sint max_result \<le> 0 then word_of_int kAccountRangeMaxResults else max_result)"

definition handle_debug_account_range ::
  "('h, 't) tx_ops \<Rightarrow> 't \<Rightarrow> ((bytes \<times> bytes) list \<Rightarrow> bytes) \<Rightarrow> ('c, 'w, 's) api_env \<Rightarrow> json \<Rightarrow> (('c, 'w) api, json) action" where
  "handle_debug_account_range ops t root_hash env request =
     with_params env ''debug_accountRange'' (\<lambda>n. n = 5) request (\<lambda>params.
     bind_a (param (from_json_BlockNumberOrHash (ae_jx env) (x_codec (ae_x env))) params 0) (\<lambda>bnoh.
     bind_a (param (get_vector (get_number (ae_jx env))) params 1) (\<lambda>start_key.
     bind_a (param (get_number (ae_jx env)) params 2) (\<lambda>max_result.
     bind_a (param get_boolean params 3) (\<lambda>exclude_code.
     bind_a (param get_boolean params 4) (\<lambda>exclude_storage.
     with_transaction env (catch_std env request 100) (\<lambda>rd _.
       bind_a (on_cache (\<lambda>c.
         case dump_accounts_of (ae_sx env) root_hash (ae_cache env) (ae_ks env) (ae_x env) rd ops bnoh
             (jx_to_evmc_address (ae_jx env) start_key) (limit_results max_result) exclude_code exclude_storage c t of
           (r, c') \<Rightarrow> (returned r, c'))) (\<lambda>(dump, _).
       lift (reply_content env request (to_json_DumpAccounts (ae_jx env) dump))))))))))"

section \<open>Modified accounts\<close>

text \<open>The walker stops at the first key of a later block; a block number with the sign bit counts as large.\<close>

definition modified_walker :: "json_ext \<Rightarrow> u64 \<Rightarrow> key_value \<Rightarrow> bytes list \<Rightarrow> (bytes list \<times> bool) result" where
  "modified_walker jx end_block_number kv addresses =
     bind_r (stol 16 (jx_to_hex jx (kv_key kv))) (\<lambda>n.
       if (word_of_int n :: u64) \<le> end_block_number
       then Ok (insort_insert (jx_to_evmc_address jx (take kAddressLength (kv_value kv))) addresses, True)
       else Ok (addresses, False))"

definition get_modified_accounts :: "('c, 'w, 's) api_env \<Rightarrow> reader \<Rightarrow> u64 \<Rightarrow> u64 \<Rightarrow> bytes list result" where
  "get_modified_accounts env rd start_block_number end_block_number =
     bind_r (get_block_number (ae_ks env) (ae_x env) rd ''latest'' False) (\<lambda>(latest_block_number, _).
       if start_block_number > latest_block_number
       then Throw (Invalid_argument (''start block ('' @ to_string (unat start_block_number) @ '') is later than the latest block ('' @
              to_string (unat latest_block_number) @ '')''))
       else if start_block_number \<le> end_block_number
       then bind_r (rd_walk rd ''AccountChangeSet'' (x_block_key (ae_x env) start_block_number) 0) (\<lambda>kvs.
              walk_r (modified_walker (ae_jx env) end_block_number) kvs [])
       else Ok [])"

definition modified_clauses :: "('c, 'w, 's) api_env \<Rightarrow> json \<Rightarrow> clauses" where
  "modified_clauses env request e =
     (case e of Invalid_argument w \<Rightarrow> Some (reply_error env request (- 32000) w) | _ \<Rightarrow> catch_std env request 100 e)"

definition addresses_reply :: "('c, 'w, 's) api_env \<Rightarrow> json \<Rightarrow> bytes list \<Rightarrow> json result" where
  "addresses_reply env request addresses = reply_content env request (Array (map (to_json_address (ae_jx env)) addresses))"

definition handle_debug_get_modified_accounts_by_number :: "('c, 'w, 's) api_env \<Rightarrow> json \<Rightarrow> (('c, 'w) api, json) action" where
  "handle_debug_get_modified_accounts_by_number env request =
     with_params env ''debug_getModifiedAccountsByNumber'' (\<lambda>n. \<not> (n = 0 \<or> n > 2)) request (\<lambda>params.
     bind_a (param get_string params 0) (\<lambda>start_block_id.
     bind_a (if json_size params = 2 then param get_string params 1 else ret start_block_id) (\<lambda>end_block_id.
     with_transaction env (modified_clauses env request) (\<lambda>rd _.
       bind_a (lift (get_block_number (ae_ks env) (ae_x env) rd start_block_id False)) (\<lambda>(start_block_number, _).
       bind_a (lift (get_block_number (ae_ks env) (ae_x env) rd end_block_id False)) (\<lambda>(end_block_number, _).
       bind_a (lift (get_modified_accounts env rd start_block_number end_block_number)) (\<lambda>addresses.
       lift (addresses_reply env request addresses))))))))"

definition handle_debug_get_modified_accounts_by_hash :: "('c, 'w, 's) api_env \<Rightarrow> json \<Rightarrow> (('c, 'w) api, json) action" where
  "handle_debug_get_modified_accounts_by_hash env request =
     with_params env ''debug_getModifiedAccountsByHash'' (\<lambda>n. \<not> (n = 0 \<or> n > 2)) request (\<lambda>params.
     bind_a (param (from_json_bytes32 (ae_jx env)) params 0) (\<lambda>start_hash.
     bind_a (if json_size params = 2 then param (from_json_bytes32 (ae_jx env)) params 1 else ret start_hash) (\<lambda>end_hash.
     with_transaction env (modified_clauses env request) (\<lambda>rd _.
       bind_a (lift (read_header_number (ae_x env) rd start_hash)) (\<lambda>start_block_number.
       bind_a (lift (read_header_number (ae_x env) rd end_hash)) (\<lambda>end_block_number.
       bind_a (lift (get_modified_accounts env rd start_block_number end_block_number)) (\<lambda>addresses.
       lift (addresses_reply env request addresses))))))))"

section \<open>Storage\<close>

record storage_page =
  pg_storage :: "(string \<times> json) list"
  pg_next_key :: bytes
  pg_count :: "16 word"

text \<open>
  The collector: the value is padded to 32 bytes, and \<^verbatim>\<open>insert\<close> throws for one that is longer. The counter has
  16 bits.
\<close>

definition page_collector :: "json_ext \<Rightarrow> u64 \<Rightarrow> bytes \<Rightarrow> bytes \<Rightarrow> bytes \<Rightarrow> storage_page result \<Rightarrow> storage_page result" where
  "page_collector jx max_result k sec_key v page =
     bind_r page (\<lambda>p.
       let val = jx_to_hex jx v in
       if length val > 64 then Throw Length_error
       else if ucast (pg_count p) < max_result
       then Ok (p\<lparr>pg_storage := assign (''0x'' @ jx_to_hex jx sec_key,
                  json_object [(''key'', String (''0x'' @ jx_to_hex jx k)),
                    (''value'', String (''0x'' @ replicate (64 - length val) (CHR ''0'') @ val))]) (pg_storage p),
                 pg_count := pg_count p + 1\<rparr>)
       else Ok (p\<lparr>pg_next_key := k, pg_count := pg_count p + 1\<rparr>))"

definition page_json :: "json_ext \<Rightarrow> storage_page \<Rightarrow> json" where
  "page_json jx p =
     members [(''storage'', Object (pg_storage p)),
       (''nextKey'', if length (pg_next_key p) > 0 then String (''0x'' @ jx_to_hex jx (pg_next_key p)) else Null)]"

definition handle_debug_storage_range_at ::
  "('h, 't) tx_ops \<Rightarrow> 't \<Rightarrow> ('c, 'w, 's) api_env \<Rightarrow> json \<Rightarrow> (('c, 'w) api, json) action" where
  "handle_debug_storage_range_at ops t env request =
     with_params env ''debug_storageRangeAt'' (\<lambda>n. \<not> (n = 0 \<or> n > 5)) request (\<lambda>params.
     bind_a (param (from_json_bytes32 (ae_jx env)) params 0) (\<lambda>block_hash.
     bind_a (param (get_u64 (ae_jx env)) params 1) (\<lambda>tx_index.
     bind_a (param (from_json_address (ae_jx env)) params 2) (\<lambda>adr.
     bind_a (param (from_json_bytes32 (ae_jx env)) params 3) (\<lambda>start_key.
     bind_a (param (get_u64 (ae_jx env)) params 4) (\<lambda>max_result.
     with_transaction env (catch_std env request 100) (\<lambda>rd _.
       bind_a (lift (read_block_by_hash (ae_x env) rd block_hash)) (\<lambda>block.
       bind_a (lift (returned (storage_range_at (ae_sx env) ops (hdr_number (bw_header block) - 1) adr start_key (ucast max_result)
           (page_collector (ae_jx env) max_result) (Ok \<lparr>pg_storage = [], pg_next_key = [], pg_count = 0\<rparr>) t))) (\<lambda>(page, _).
       bind_a (lift page) (\<lambda>p.
       lift (reply_content env request (page_json (ae_jx env) p))))))))))))"

section \<open>Traces\<close>

definition config_param :: "json \<Rightarrow> nat \<Rightarrow> ('s, debug_config) action" where
  "config_param params i =
     (if json_size params > i then param from_json_DebugConfig params i else ret DEFAULT_DEBUG_CONFIG)"

definition pre_check_field :: "debug_executor_result \<Rightarrow> json op list" where
  "pre_check_field r = (case dr_pre_check_error r of None \<Rightarrow> [] | Some error \<Rightarrow> error_field (- 32000) error)"

definition handle_debug_trace_transaction ::
  "'s tracing \<Rightarrow> ('c, 'w, 's) api_env \<Rightarrow> json \<Rightarrow> (('c, 'w) streaming, unit) action" where
  "handle_debug_trace_transaction tg env request =
     stream_params env ''debug_traceTransaction'' (\<lambda>n. \<not> n < 1) request (\<lambda>params.
     bind_a (param (from_json_bytes32 (ae_jx env)) params 0) (\<lambda>transaction_hash.
     bind_a (config_param params 1) (\<lambda>cfg.
     stream_transaction env request (catch_what 100) (\<lambda>rd _.
       bind_a (on_api (on_cache (read_transaction_by_hash (ae_cache env) (ae_x env) rd transaction_hash))) (\<lambda>tx_with_block.
       case tx_with_block of
         None \<Rightarrow> write_ops (error_field (- 32000) (''transaction 0x'' @ jx_to_hex (ae_jx env) transaction_hash @ '' not found''))
       | Some tb \<Rightarrow>
           bind_a (write_ops [Write_field ''result'', Open_object]) (\<lambda>_.
           bind_a (on_stream (debug_execute_transaction env tg rd cfg tb True)) (\<lambda>r.
           write_ops ([Close_object] @ pre_check_field r))))))))"

fun bnoh_number :: "block_number_or_hash \<Rightarrow> u64" where
  "bnoh_number (Block_number n) = n"
| "bnoh_number _ = 0"

fun bnoh_hash :: "block_number_or_hash \<Rightarrow> bytes" where
  "bnoh_hash (Block_hash h) = h"
| "bnoh_hash _ = zeros 32"

definition block_not_found :: "json_ext \<Rightarrow> block_number_or_hash \<Rightarrow> string" where
  "block_not_found jx bnoh =
     ''block '' @ to_string (unat (bnoh_number bnoh)) @ ''('' @ jx_to_hex jx (bnoh_hash bnoh) @ '') not found''"

definition handle_debug_trace_call ::
  "'s tracing \<Rightarrow> ('c, 'w, 's) api_env \<Rightarrow> json \<Rightarrow> (('c, 'w) streaming, unit) action" where
  "handle_debug_trace_call tg env request =
     stream_params env ''debug_traceCall'' (\<lambda>n. \<not> n < 2) request (\<lambda>params.
     bind_a (param (from_json_Call (ae_jx env)) params 0) (\<lambda>call.
     bind_a (param (from_json_BlockNumberOrHash (ae_jx env) (x_codec (ae_x env))) params 1) (\<lambda>bnoh.
     bind_a (config_param params 2) (\<lambda>cfg.
     stream_transaction env request
       (\<lambda>e. map_option (\<lambda>_. error_field (- 32000) (block_not_found (ae_jx env) bnoh)) (what_of e)) (\<lambda>rd cached.
       bind_a (on_api (on_cache (read_block_by_number_or_hash (ae_cache env) (ae_ks env) (ae_x env) rd bnoh))) (\<lambda>block.
       bind_a (lift (is_latest_block_number (ae_ks env) (ae_x env) rd (Block_number (hdr_number (bw_header block))))) (\<lambda>is_latest_block.
       bind_a (write_ops [Write_field ''result'', Open_object]) (\<lambda>_.
       bind_a (on_stream (debug_execute_call env tg (if is_latest_block then cached else rd) cfg block call True)) (\<lambda>r.
       write_ops ([Close_object] @ pre_check_field r))))))))))"

text \<open>The trace of a block that was read; the text of the error when the block is not found is \<open>what_text\<close>.\<close>

definition stream_block ::
  "'s tracing \<Rightarrow> ('c, 'w, 's) api_env \<Rightarrow> json \<Rightarrow> string \<Rightarrow> debug_config \<Rightarrow> (reader \<Rightarrow> (('c, 'w) api, block_with_hash) action) \<Rightarrow>
     (('c, 'w) streaming, unit) action" where
  "stream_block tg env request what_text cfg the_block =
     stream_transaction env request (catch_invalid (- 32000) what_text (catch_what 100)) (\<lambda>rd _.
       bind_a (on_api (the_block rd)) (\<lambda>block.
       bind_a (write_ops [Write_field ''result'', Open_array]) (\<lambda>_.
       bind_a (on_stream (debug_execute_block env tg rd cfg block True)) (\<lambda>_.
       write_ops [Close_array]))))"

definition handle_debug_trace_block_by_number ::
  "'s tracing \<Rightarrow> ('c, 'w, 's) api_env \<Rightarrow> json \<Rightarrow> (('c, 'w) streaming, unit) action" where
  "handle_debug_trace_block_by_number tg env request =
     stream_params env ''debug_traceBlockByNumber'' (\<lambda>n. \<not> n < 1) request (\<lambda>params.
     bind_a (param (get_u64 (ae_jx env)) params 0) (\<lambda>block_number.
     bind_a (config_param params 1) (\<lambda>cfg.
     stream_block tg env request (''block_number '' @ to_string (unat block_number) @ '' not found'') cfg
       (\<lambda>rd. on_cache (cached_read_block_by_number (ae_cache env) (ae_x env) rd block_number)))))"

definition handle_debug_trace_block_by_hash ::
  "'s tracing \<Rightarrow> ('c, 'w, 's) api_env \<Rightarrow> json \<Rightarrow> (('c, 'w) streaming, unit) action" where
  "handle_debug_trace_block_by_hash tg env request =
     stream_params env ''debug_traceBlockByHash'' (\<lambda>n. \<not> n < 1) request (\<lambda>params.
     bind_a (param (from_json_bytes32 (ae_jx env)) params 0) (\<lambda>block_hash.
     bind_a (config_param params 1) (\<lambda>cfg.
     stream_block tg env request (''block_hash '' @ jx_to_hex (ae_jx env) block_hash @ '' not found'') cfg
       (\<lambda>rd. on_cache (cached_read_block_by_hash (ae_cache env) (ae_x env) rd block_hash)))))"

end
