(* ===== verification/Vm_Trace.thy ===== *)
theory Vm_Trace
  imports Evm_Events
begin

text \<open>
  The configuration of the methods \<^verbatim>\<open>trace_*\<close> and the tracer of single instructions: \<^verbatim>\<open>core/evm_trace.hpp\<close> and
  \<^verbatim>\<open>core/evm_trace.cpp\<close>, \<^verbatim>\<open>VmTraceTracer\<close>. A trace is a list of instructions, and an instruction that calls another
  contract owns the trace of that call, so a trace is a tree. The tracer keeps a stack of references into
  the tree. Every node has a number of its own; a reference is such a number, and it is dangling when the node is
  no longer in the tree, because the pointer that owned it was overwritten.
\<close>

section \<open>Configuration\<close>

record trace_config =
  tcf_vm_trace :: bool
  tcf_trace :: bool
  tcf_state_diff :: bool

definition from_json_TraceConfig :: "json \<Rightarrow> trace_config result" where
  "from_json_TraceConfig j =
     bind_r (get_vector get_string j) (\<lambda>cfg.
       Ok \<lparr>tcf_vm_trace = (''vmTrace'' \<in> set cfg), tcf_trace = (''trace'' \<in> set cfg), tcf_state_diff = (''stateDiff'' \<in> set cfg)\<rparr>)"

definition trace_only :: trace_config where
  "trace_only = \<lparr>tcf_vm_trace = False, tcf_trace = True, tcf_state_diff = False\<rparr>"

record trace_call_request =
  tcr_call :: call
  tcr_config :: trace_config

definition array_at :: "json \<Rightarrow> nat \<Rightarrow> json result" where
  "array_at j i =
     (case j of Array xs \<Rightarrow> (if i < length xs then Ok (xs ! i) else Throw (Out_of_range ''array index out of range''))
      | _ \<Rightarrow> Throw (Runtime_error ''cannot use at()''))"

definition from_json_TraceCall :: "json_ext \<Rightarrow> json \<Rightarrow> trace_call_request result" where
  "from_json_TraceCall jx j =
     bind_r (array_at j 0) (\<lambda>j0. bind_r (from_json_Call jx j0) (\<lambda>call.
     bind_r (array_at j 1) (\<lambda>j1. bind_r (from_json_TraceConfig j1) (\<lambda>cfg.
       Ok \<lparr>tcr_call = call, tcr_config = cfg\<rparr>))))"

record trace_filter =
  tf_from_block :: block_number_or_hash
  tf_to_block :: block_number_or_hash
  tf_from_addresses :: "bytes list"
  tf_to_addresses :: "bytes list"
  tf_mode :: "string option"
  tf_after :: u32
  tf_count :: u32

text \<open>A member that is there is read; otherwise the default stays.\<close>

definition member_or :: "json \<Rightarrow> string \<Rightarrow> (json \<Rightarrow> 'a result) \<Rightarrow> 'a \<Rightarrow> 'a result" where
  "member_or j name f d = (if contains j name then f (field j name) else Ok d)"

definition from_json_TraceFilter :: "json_ext \<Rightarrow> codec \<Rightarrow> (json \<Rightarrow> u32 result) \<Rightarrow> json \<Rightarrow> trace_filter result" where
  "from_json_TraceFilter jx cd get_uint32 j =
     bind_r (member_or j ''fromBlock'' (from_json_BlockNumberOrHash jx cd) (Block_number 0)) (\<lambda>from_block.
     bind_r (member_or j ''toBlock'' (from_json_BlockNumberOrHash jx cd) (Block_tag ''latest'')) (\<lambda>to_block.
     bind_r (member_or j ''fromAddress'' (get_vector (from_json_address jx)) []) (\<lambda>from_addresses.
     bind_r (member_or j ''toAddress'' (get_vector (from_json_address jx)) []) (\<lambda>to_addresses.
     bind_r (member_or j ''mode'' (\<lambda>m. bind_r (get_string m) (\<lambda>s. Ok (Some s))) None) (\<lambda>mode.
     bind_r (member_or j ''after'' get_uint32 0) (\<lambda>after.
     bind_r (member_or j ''count'' get_uint32 (- 1)) (\<lambda>count.
       Ok \<lparr>tf_from_block = from_block, tf_to_block = to_block, tf_from_addresses = from_addresses, tf_to_addresses = to_addresses,
           tf_mode = mode, tf_after = after, tf_count = count\<rparr>)))))))"

section \<open>Traces of instructions\<close>

record trace_storage =
  ts_key :: string
  ts_value :: string

record trace_memory =
  tm_offset :: u64
  tm_len :: u64
  tm_data :: string

record trace_ex =
  ex_memory :: "trace_memory option"
  ex_stack :: "string list"
  ex_storage :: "trace_storage option"
  ex_used :: u64

record op_info =
  oi_gas_cost :: u64
  oi_precompiled_call_gas :: "u64 option"
  oi_call_gas_cap :: "u64 option"
  oi_trace_ex :: trace_ex
  oi_idx :: string
  oi_depth :: u32
  oi_op_code :: byte
  oi_op_name :: string
  oi_pc :: u32

datatype vm_trace = Vm_trace (vt_id: nat) (vt_code: string) (vt_ops: "trace_op list")
and trace_op = Trace_op (tp_info: op_info) (tp_sub: "vm_trace option")

definition to_json_TraceMemory :: "trace_memory \<Rightarrow> json" where
  "to_json_TraceMemory m = json_object [(''data'', String (tm_data m)), (''off'', Number (uint (tm_offset m)))]"

definition to_json_TraceStorage :: "trace_storage \<Rightarrow> json" where
  "to_json_TraceStorage st = json_object [(''key'', String (ts_key st)), (''val'', String (ts_value st))]"

definition or_null :: "('a \<Rightarrow> json) \<Rightarrow> 'a option \<Rightarrow> json" where
  "or_null f x = (case x of None \<Rightarrow> Null | Some y \<Rightarrow> f y)"

definition to_json_TraceEx :: "trace_ex \<Rightarrow> json" where
  "to_json_TraceEx ex =
     members [(''mem'', or_null to_json_TraceMemory (ex_memory ex)), (''push'', Array (map String (ex_stack ex))),
       (''store'', or_null to_json_TraceStorage (ex_storage ex)), (''used'', Number (uint (ex_used ex)))]"

primrec to_json_VmTrace :: "vm_trace \<Rightarrow> json" and to_json_TraceOp :: "trace_op \<Rightarrow> json" where
  "to_json_VmTrace (Vm_trace i codes ops) = members [(''code'', String codes), (''ops'', Array (map to_json_TraceOp ops))]"
| "to_json_TraceOp (Trace_op info sub) =
     members [(''cost'', Number (uint (oi_gas_cost info))), (''ex'', to_json_TraceEx (oi_trace_ex info)),
       (''idx'', String (oi_idx info)), (''op'', String (oi_op_name info)), (''pc'', Number (uint (oi_pc info))),
       (''sub'', case map_option to_json_VmTrace sub of None \<Rightarrow> Null | Some j \<Rightarrow> j)]"

section \<open>Instructions\<close>

text \<open>The numbers of the instructions in \<^verbatim>\<open>evmc_opcode\<close> are those of the Ethereum virtual machine.\<close>

abbreviation OP_STOP :: byte where "OP_STOP \<equiv> 0x00"
abbreviation OP_CALLDATACOPY :: byte where "OP_CALLDATACOPY \<equiv> 0x37"
abbreviation OP_CODECOPY :: byte where "OP_CODECOPY \<equiv> 0x39"
abbreviation OP_RETURNDATACOPY :: byte where "OP_RETURNDATACOPY \<equiv> 0x3e"
abbreviation OP_MLOAD :: byte where "OP_MLOAD \<equiv> 0x51"
abbreviation OP_MSTORE :: byte where "OP_MSTORE \<equiv> 0x52"
abbreviation OP_MSTORE8 :: byte where "OP_MSTORE8 \<equiv> 0x53"
abbreviation OP_SSTORE :: byte where "OP_SSTORE \<equiv> 0x55"
abbreviation OP_PUSH1 :: byte where "OP_PUSH1 \<equiv> 0x60"
abbreviation OP_PUSH32 :: byte where "OP_PUSH32 \<equiv> 0x7f"
abbreviation OP_DUP1 :: byte where "OP_DUP1 \<equiv> 0x80"
abbreviation OP_DUP16 :: byte where "OP_DUP16 \<equiv> 0x8f"
abbreviation OP_SWAP1 :: byte where "OP_SWAP1 \<equiv> 0x90"
abbreviation OP_SWAP16 :: byte where "OP_SWAP16 \<equiv> 0x9f"
abbreviation OP_CREATE :: byte where "OP_CREATE \<equiv> 0xf0"
abbreviation OP_CALL :: byte where "OP_CALL \<equiv> 0xf1"
abbreviation OP_CALLCODE :: byte where "OP_CALLCODE \<equiv> 0xf2"
abbreviation OP_DELEGATECALL :: byte where "OP_DELEGATECALL \<equiv> 0xf4"
abbreviation OP_CREATE2 :: byte where "OP_CREATE2 \<equiv> 0xf5"
abbreviation OP_STATICCALL :: byte where "OP_STATICCALL \<equiv> 0xfa"

text \<open>
  The other instructions with one result: arithmetic 0x01 to 0x0b, comparison and bitwise logic 0x10 to 0x1d,
  the hash 0x20, the environment 0x30 to 0x3f without the four that copy to memory, the block 0x40 to 0x48, and loads,
  counters and calls.
\<close>

definition one_result :: "byte \<Rightarrow> bool" where
  "one_result op_code \<longleftrightarrow> 0x01 \<le> op_code \<and> op_code \<le> 0x0b \<or> 0x10 \<le> op_code \<and> op_code \<le> 0x1d \<or> op_code = 0x20 \<or>
     0x30 \<le> op_code \<and> op_code \<le> 0x3f \<and> op_code \<notin> {0x37, 0x39, 0x3c, 0x3e} \<or> 0x40 \<le> op_code \<and> op_code \<le> 0x48 \<or>
     op_code \<in> {0x51, 0x54, 0x58, 0x59, 0x5a, OP_CREATE, OP_CALL, OP_CALLCODE, OP_DELEGATECALL, OP_CREATE2, OP_STATICCALL}"

definition get_stack_count :: "byte \<Rightarrow> nat" where
  "get_stack_count op_code =
     (if OP_PUSH1 \<le> op_code \<and> op_code \<le> OP_PUSH32 then 1
      else if OP_SWAP1 \<le> op_code \<and> op_code \<le> OP_SWAP16 then unat (op_code - OP_SWAP1) + 2
      else if OP_DUP1 \<le> op_code \<and> op_code \<le> OP_DUP16 then unat (op_code - OP_DUP1) + 2
      else if one_result op_code then 1 else 0)"

definition hex_number :: "tracer_ext \<Rightarrow> u256 \<Rightarrow> string" where
  "hex_number te w = ''0x'' @ te_to_string16 te w"

definition copy_stack :: "tracer_ext \<Rightarrow> byte \<Rightarrow> u256 list \<Rightarrow> string list result" where
  "copy_stack te op_code st =
     (let top = get_stack_count op_code in
      if top \<le> length st then Ok (map (hex_number te) (rev (take top st))) else Throw Out_of_bounds)"

definition copy_memory :: "tracer_ext \<Rightarrow> bytes \<Rightarrow> trace_memory option \<Rightarrow> trace_memory option result" where
  "copy_memory te memory trace_memory =
     (case trace_memory of
        None \<Rightarrow> Ok None
      | Some tm \<Rightarrow>
          if tm_len tm = 0 then Ok None
          else if unat (tm_offset tm) + unat (tm_len tm) \<le> length memory
          then Ok (Some (tm\<lparr>tm_data := ''0x'' @ concat (map (\<lambda>b. te_evmc_hex te [b])
                 (take (unat (tm_len tm)) (drop (unat (tm_offset tm)) memory)))\<rparr>))
          else Throw Out_of_bounds)"

definition copy_store :: "tracer_ext \<Rightarrow> byte \<Rightarrow> u256 list \<Rightarrow> trace_storage option result" where
  "copy_store te op_code st =
     (if op_code = OP_SSTORE
      then bind_r (stack_at st 0) (\<lambda>k. bind_r (stack_at st 1) (\<lambda>v.
        Ok (Some \<lparr>ts_key = hex_number te k, ts_value = hex_number te v\<rparr>)))
      else Ok None)"

text \<open>\<^verbatim>\<open>stack[-i][0]\<close>: the low 64 bits of a word of the stack.\<close>

definition memory_range :: "u64 result \<Rightarrow> u64 result \<Rightarrow> trace_memory option result" where
  "memory_range offset len =
     bind_r offset (\<lambda>o'. bind_r len (\<lambda>l. Ok (Some \<lparr>tm_offset = o', tm_len = l, tm_data = []\<rparr>)))"

definition low_word :: "u256 list \<Rightarrow> nat \<Rightarrow> u64 result" where
  "low_word st i = bind_r (stack_at st i) (\<lambda>w. Ok (ucast w))"

definition copy_memory_offset_len :: "byte \<Rightarrow> u256 list \<Rightarrow> trace_memory option result" where
  "copy_memory_offset_len op_code st =
     (if op_code \<in> {OP_MSTORE, OP_MLOAD} then memory_range (low_word st 0) (Ok 32)
      else if op_code = OP_MSTORE8 then memory_range (low_word st 0) (Ok 1)
      else if op_code \<in> {OP_RETURNDATACOPY, OP_CALLDATACOPY, OP_CODECOPY} then memory_range (low_word st 0) (low_word st 2)
      else if op_code \<in> {OP_STATICCALL, OP_DELEGATECALL} then memory_range (low_word st 4) (low_word st 5)
      else if op_code \<in> {OP_CALL, OP_CALLCODE} then memory_range (low_word st 5) (low_word st 6)
      else if op_code \<in> {OP_CREATE, OP_CREATE2} then memory_range (Ok 0) (Ok 0)
      else Ok None)"

definition push_memory_offset_len :: "byte \<Rightarrow> u256 list \<Rightarrow> trace_memory list \<Rightarrow> trace_memory list result" where
  "push_memory_offset_len op_code st tms =
     (if op_code \<in> {OP_STATICCALL, OP_DELEGATECALL, OP_CALL, OP_CALLCODE, OP_CREATE, OP_CREATE2}
      then bind_r (copy_memory_offset_len op_code st) (\<lambda>tm. Ok (case tm of None \<Rightarrow> tms | Some m \<Rightarrow> m # tms))
      else Ok tms)"

definition get_op_name :: "tracer_ext \<Rightarrow> (byte \<Rightarrow> string option) \<Rightarrow> byte \<Rightarrow> string" where
  "get_op_name te names opcode =
     (case names opcode of
        Some name \<Rightarrow> name
      | None \<Rightarrow>
          let hex = te_evmc_hex te [opcode] in
          ''opcode 0x'' @ (if opcode < 16 then drop 1 hex else hex) @ '' not defined'')"

text \<open>Sixty-four digits after the prefix; \<^verbatim>\<open>substr\<close> takes a count, which wraps around when the text is too long.\<close>

definition PADDING :: string where
  "PADDING = ''0x'' @ replicate 64 (CHR ''0'')"

definition padded_hex :: "tracer_ext \<Rightarrow> u256 \<Rightarrow> string" where
  "padded_hex te w =
     (let out = te_to_string16 te w in
      take (if length out \<le> length PADDING then length PADDING - length out else length PADDING) PADDING @ out)"

section \<open>The tree of traces\<close>

text \<open>The nodes of a trace, the node of a number, and the change of a node.\<close>

primrec nodes_of :: "vm_trace \<Rightarrow> vm_trace list" and op_nodes :: "trace_op \<Rightarrow> vm_trace list" where
  "nodes_of (Vm_trace i codes ops) = Vm_trace i codes ops # concat (map op_nodes ops)"
| "op_nodes (Trace_op info sub) = (case map_option nodes_of sub of None \<Rightarrow> [] | Some ts \<Rightarrow> ts)"

definition find_trace :: "nat \<Rightarrow> vm_trace \<Rightarrow> vm_trace option" where
  "find_trace i t = List.find (\<lambda>n. vt_id n = i) (nodes_of t)"

primrec change_trace :: "nat \<Rightarrow> (trace_op list \<Rightarrow> trace_op list) \<Rightarrow> vm_trace \<Rightarrow> vm_trace"
  and change_in_op :: "nat \<Rightarrow> (trace_op list \<Rightarrow> trace_op list) \<Rightarrow> trace_op \<Rightarrow> trace_op" where
  "change_trace i f (Vm_trace j codes ops) =
     Vm_trace j codes (if i = j then f ops else map (change_in_op i f) ops)"
| "change_in_op i f (Trace_op info sub) = Trace_op info (map_option (change_trace i f) sub)"

section \<open>The tracer\<close>

text \<open>The stacks have their top first. \<open>vm_next\<close> is a number that no node has.\<close>

record vm_tracer =
  vm_root :: vm_trace
  vm_transaction_index :: int
  vm_index_prefix :: "string list"
  vm_traces_stack :: "nat list"
  vm_names :: "nat option"
  vm_start_gas :: "u64 list"
  vm_next :: nat

definition vm_tracer_of :: "int \<Rightarrow> vm_tracer" where
  "vm_tracer_of index =
     \<lparr>vm_root = Vm_trace 0 ''0x'' [], vm_transaction_index = index, vm_index_prefix = [], vm_traces_stack = [], vm_names = None,
      vm_start_gas = [], vm_next = 1\<rparr>"

definition top_of :: "'a list \<Rightarrow> 'a result" where
  "top_of st = (case st of [] \<Rightarrow> Throw Stack_underflow | x # _ \<Rightarrow> Ok x)"

definition deref :: "vm_tracer \<Rightarrow> nat \<Rightarrow> vm_trace result" where
  "deref tr i = (case find_trace i (vm_root tr) of None \<Rightarrow> Throw Use_after_free | Some t \<Rightarrow> Ok t)"

text \<open>The trace on top of the stack of references.\<close>

definition current_trace :: "vm_tracer \<Rightarrow> vm_trace result" where
  "current_trace tr = bind_r (top_of (vm_traces_stack tr)) (deref tr)"

definition int_text :: "int \<Rightarrow> string" where
  "int_text i = (if i < 0 then CHR ''-'' # to_string (nat (- i)) else to_string (nat i))"

text \<open>The last instruction when a frame starts: what it passes on is not its own cost.\<close>

definition enter_call :: "message \<Rightarrow> trace_op list \<Rightarrow> op_info result" where
  "enter_call msg ops =
     (let info = tp_info (last ops) in
      if oi_op_code info \<in> {OP_STATICCALL, OP_DELEGATECALL, OP_CALL}
      then if length ops < 2 then Throw Out_of_bounds
           else Ok (info\<lparr>oi_depth := msg_depth msg, oi_gas_cost := oi_gas_cost info - msg_gas msg,
                  oi_call_gas_cap := Some (ex_used (oi_trace_ex (tp_info (ops ! (length ops - 2)))) - msg_gas msg)\<rparr>)
      else Ok info)"

definition vm_on_execution_start :: "tracer_ext \<Rightarrow> nat \<Rightarrow> message \<Rightarrow> bytes \<Rightarrow> vm_tracer \<Rightarrow> vm_tracer result" where
  "vm_on_execution_start te rev' msg codes tr =
     (let tr = tr\<lparr>vm_names := (case vm_names tr of None \<Rightarrow> Some rev' | Some n \<Rightarrow> Some n), vm_start_gas := msg_gas msg # vm_start_gas tr\<rparr>;
          code_text = ''0x'' @ jx_to_hex (te_jx te) codes
      in if msg_depth msg = 0
      then Ok (tr\<lparr>vm_root := Vm_trace (vt_id (vm_root tr)) code_text (vt_ops (vm_root tr)),
             vm_traces_stack := vt_id (vm_root tr) # vm_traces_stack tr,
             vm_index_prefix := (if vm_transaction_index tr = - 1 then [] else int_text (vm_transaction_index tr) @ ''-'') # vm_index_prefix tr\<rparr>)
      else if vt_ops (vm_root tr) \<noteq> []
      then bind_r (current_trace tr) (\<lambda>vm_trace.
           bind_r (top_of (vm_index_prefix tr)) (\<lambda>index_prefix.
             let ops = vt_ops vm_trace in
             if ops = [] then Throw Out_of_bounds
             else bind_r (enter_call msg ops) (\<lambda>info.
               Ok (tr\<lparr>vm_index_prefix := (index_prefix @ to_string (length ops - 1) @ ''-'') # vm_index_prefix tr,
                   vm_root := change_trace (vt_id vm_trace) (\<lambda>ops. butlast ops @ [Trace_op info (Some (Vm_trace (vm_next tr) code_text []))]) (vm_root tr),
                   vm_traces_stack := vm_next tr # vm_traces_stack tr, vm_next := Suc (vm_next tr)\<rparr>))))
      else bind_r (top_of (vm_index_prefix tr)) (\<lambda>_. Ok tr))"

text \<open>What the start of an instruction tells of the one before it.\<close>

definition complete_op :: "tracer_ext \<Rightarrow> execution_state \<Rightarrow> op_info \<Rightarrow> op_info result" where
  "complete_op te es info =
     bind_r (copy_memory te (es_memory es) (ex_memory (oi_trace_ex info))) (\<lambda>memory.
     bind_r (copy_stack te (oi_op_code info) (es_stack es)) (\<lambda>st.
       Ok (info\<lparr>oi_gas_cost :=
              (case oi_precompiled_call_gas info of
                 Some gas \<Rightarrow> oi_gas_cost info - gas
               | None \<Rightarrow> if oi_depth info = msg_depth (es_msg es) then oi_gas_cost info - es_gas_left es else oi_gas_cost info),
            oi_trace_ex := (oi_trace_ex info)\<lparr>ex_used := es_gas_left es, ex_memory := memory, ex_stack := ex_stack (oi_trace_ex info) @ st\<rparr>\<rparr>)))"

definition complete_last :: "tracer_ext \<Rightarrow> execution_state \<Rightarrow> trace_op list \<Rightarrow> trace_op list result" where
  "complete_last te es ops =
     (if ops = [] then Ok []
      else bind_r (complete_op te es (tp_info (last ops))) (\<lambda>info. Ok (butlast ops @ [Trace_op info (tp_sub (last ops))])))"

definition new_op :: "tracer_ext \<Rightarrow> nat \<Rightarrow> string \<Rightarrow> execution_state \<Rightarrow> op_info result" where
  "new_op te rev' idx es =
     bind_r (copy_memory_offset_len (es_opcode es) (es_stack es)) (\<lambda>memory.
     bind_r (copy_store te (es_opcode es) (es_stack es)) (\<lambda>storage.
       Ok \<lparr>oi_gas_cost = es_gas_left es, oi_precompiled_call_gas = None, oi_call_gas_cap = None,
           oi_trace_ex = \<lparr>ex_memory = memory, ex_stack = [], ex_storage = storage, ex_used = 0\<rparr>,
           oi_idx = idx, oi_depth = msg_depth (es_msg es), oi_op_code = es_opcode es,
           oi_op_name = get_op_name te (te_names te rev') (es_opcode es), oi_pc = es_pc es\<rparr>))"

definition vm_on_instruction_start :: "tracer_ext \<Rightarrow> execution_state \<Rightarrow> vm_tracer \<Rightarrow> vm_tracer result" where
  "vm_on_instruction_start te es tr =
     (case vm_names tr of
        None \<Rightarrow> Throw Uninitialized_read
      | Some rev' \<Rightarrow>
          bind_r (current_trace tr) (\<lambda>vm_trace.
          bind_r (complete_last te es (vt_ops vm_trace)) (\<lambda>ops.
          bind_r (top_of (vm_index_prefix tr)) (\<lambda>index_prefix.
          bind_r (new_op te rev' (index_prefix @ to_string (length ops)) es) (\<lambda>info.
            Ok (tr\<lparr>vm_root := change_trace (vt_id vm_trace) (\<lambda>_. ops @ [Trace_op info None]) (vm_root tr)\<rparr>))))))"

text \<open>The run of a precompiled contract is noted at the last instruction of the whole trace, not of the current one.\<close>

definition vm_on_precompiled_run :: "u64 \<Rightarrow> vm_tracer \<Rightarrow> vm_tracer" where
  "vm_on_precompiled_run gas tr =
     (case vm_root tr of
        Vm_trace i codes ops \<Rightarrow>
          if ops = [] then tr
          else tr\<lparr>vm_root := Vm_trace i codes (butlast ops @
                   [Trace_op ((tp_info (last ops))\<lparr>oi_precompiled_call_gas := Some gas\<rparr>) (Some (Vm_trace (vm_next tr) ''0x'' []))]),
                 vm_next := Suc (vm_next tr)\<rparr>)"

definition end_op :: "u64 \<Rightarrow> evmc_result \<Rightarrow> op_info \<Rightarrow> op_info" where
  "end_op start_gas res info =
     (let ex = oi_trace_ex info; gas_left = res_gas_left res; cost = oi_gas_cost info in
      if res_status res = EVMC_UNDEFINED_INSTRUCTION
      then info\<lparr>oi_gas_cost := start_gas - cost, oi_trace_ex := ex\<lparr>ex_used := cost - (start_gas - cost)\<rparr>\<rparr>
      else info\<lparr>oi_gas_cost := cost - gas_left, oi_trace_ex := ex\<lparr>ex_used := gas_left\<rparr>\<rparr>)"

definition end_ops :: "u64 \<Rightarrow> evmc_result \<Rightarrow> trace_op list \<Rightarrow> trace_op list" where
  "end_ops start_gas res ops =
     (if ops = [] then []
      else if oi_op_code (tp_info (last ops)) = OP_STOP \<and> length ops = 1 then []
      else butlast ops @ [Trace_op (end_op start_gas res (tp_info (last ops))) (tp_sub (last ops))])"

definition vm_on_execution_end :: "evmc_result \<Rightarrow> vm_tracer \<Rightarrow> vm_tracer result" where
  "vm_on_execution_end res tr =
     bind_r (current_trace tr) (\<lambda>vm_trace.
     bind_r (top_of (vm_start_gas tr)) (\<lambda>start_gas.
     bind_r (top_of (vm_index_prefix tr)) (\<lambda>_.
       Ok (tr\<lparr>vm_traces_stack := tl (vm_traces_stack tr), vm_start_gas := tl (vm_start_gas tr), vm_index_prefix := tl (vm_index_prefix tr),
           vm_root := change_trace (vt_id vm_trace) (end_ops start_gas res) (vm_root tr)\<rparr>))))"

fun vm_on_event :: "tracer_ext \<Rightarrow> event \<Rightarrow> vm_tracer \<Rightarrow> vm_tracer result" where
  "vm_on_event te (Execution_start rev' msg codes) tr = vm_on_execution_start te rev' msg codes tr"
| "vm_on_event te (Instruction_start es ibs) tr = vm_on_instruction_start te es tr"
| "vm_on_event te (Precompiled_run res gas ibs) tr = Ok (vm_on_precompiled_run gas tr)"
| "vm_on_event te (Execution_end res ibs) tr = vm_on_execution_end res tr"
| "vm_on_event te (Creation_completed res ibs) tr = Ok tr"
| "vm_on_event te (Reward_granted res ibs) tr = Ok tr"

end
