(* ===== verification/State_Diff.thy ===== *)
theory State_Diff
  imports Vm_Trace
begin

text \<open>
  The tracer of state changes: \<^verbatim>\<open>StateAddresses\<close>, \<^verbatim>\<open>StateDiffTracer\<close> and \<^verbatim>\<open>IntraBlockStateTracer\<close> of
  \<^verbatim>\<open>core/evm_trace.hpp\<close> and \<^verbatim>\<open>core/evm_trace.cpp\<close>. When the reward of a transaction has been granted, the accounts
  that it has touched are compared with what they were before it; the earlier transactions of the block are
  remembered in \<^verbatim>\<open>StateAddresses\<close>.
\<close>

section \<open>Differences\<close>

record diff_value =
  dv_from :: "string option"
  dv_to :: "string option"

record state_diff_entry =
  de_balance :: diff_value
  de_code :: diff_value
  de_nonce :: diff_value
  de_storage :: "(string \<times> diff_value) list"

type_synonym state_diff = "(string \<times> state_diff_entry) list"

definition no_diff :: diff_value where
  "no_diff = \<lparr>dv_from = None, dv_to = None\<rparr>"

definition changed :: "string \<Rightarrow> string \<Rightarrow> diff_value" where
  "changed from to = \<lparr>dv_from = Some from, dv_to = Some to\<rparr>"

definition removed :: "string \<Rightarrow> diff_value" where
  "removed from = \<lparr>dv_from = Some from, dv_to = None\<rparr>"

definition added :: "string \<Rightarrow> diff_value" where
  "added to = \<lparr>dv_from = None, dv_to = Some to\<rparr>"

definition empty_entry :: state_diff_entry where
  "empty_entry = \<lparr>de_balance = no_diff, de_code = no_diff, de_nonce = no_diff, de_storage = []\<rparr>"

definition to_json_DiffValue :: "diff_value \<Rightarrow> json" where
  "to_json_DiffValue dv =
     (case (dv_from dv, dv_to dv) of
        (Some from, Some to) \<Rightarrow> members [(''*'', json_object [(''from'', String from), (''to'', String to)])]
      | (Some from, None) \<Rightarrow> members [(''-'', String from)]
      | (None, Some to) \<Rightarrow> members [(''+'', String to)]
      | (None, None) \<Rightarrow> String ''='')"

definition to_json_StateDiffEntry :: "state_diff_entry \<Rightarrow> json" where
  "to_json_StateDiffEntry e =
     members [(''balance'', to_json_DiffValue (de_balance e)), (''code'', to_json_DiffValue (de_code e)),
       (''nonce'', to_json_DiffValue (de_nonce e)),
       (''storage'', Object (map (\<lambda>(k, v). (k, to_json_DiffValue v)) (de_storage e)))]"

section \<open>The accounts before a transaction\<close>

record state_addresses =
  sa_balances :: "(bytes \<times> u256) list"
  sa_nonces :: "(bytes \<times> u64) list"
  sa_codes :: "(bytes \<times> bytes) list"
  sa_initial :: view

definition state_addresses_of :: "view \<Rightarrow> state_addresses" where
  "state_addresses_of initial = \<lparr>sa_balances = [], sa_nonces = [], sa_codes = [], sa_initial = initial\<rparr>"

definition sa_exists :: "state_addresses \<Rightarrow> bytes \<Rightarrow> bool" where
  "sa_exists sa adr = vw_exists (sa_initial sa) adr"

definition sa_get_balance :: "state_addresses \<Rightarrow> bytes \<Rightarrow> u256" where
  "sa_get_balance sa adr = (case map_of (sa_balances sa) adr of Some b \<Rightarrow> b | None \<Rightarrow> vw_balance (sa_initial sa) adr)"

definition sa_get_nonce :: "state_addresses \<Rightarrow> bytes \<Rightarrow> u64" where
  "sa_get_nonce sa adr = (case map_of (sa_nonces sa) adr of Some n \<Rightarrow> n | None \<Rightarrow> vw_nonce (sa_initial sa) adr)"

definition sa_get_code :: "state_addresses \<Rightarrow> bytes \<Rightarrow> bytes" where
  "sa_get_code sa adr = (case map_of (sa_codes sa) adr of Some c \<Rightarrow> c | None \<Rightarrow> vw_code (sa_initial sa) adr)"

text \<open>\<^verbatim>\<open>IntraBlockStateTracer::on_reward_granted\<close> remembers the accounts that were touched.\<close>

definition remember_account :: "view \<Rightarrow> bytes \<Rightarrow> state_addresses \<Rightarrow> state_addresses" where
  "remember_account ibs adr sa =
     sa\<lparr>sa_balances := map_assign (adr, vw_balance ibs adr) (sa_balances sa),
        sa_nonces := map_assign (adr, vw_nonce ibs adr) (sa_nonces sa),
        sa_codes := map_assign (adr, vw_code ibs adr) (sa_codes sa)\<rparr>"

definition ibs_on_reward_granted :: "view \<Rightarrow> state_addresses \<Rightarrow> state_addresses" where
  "ibs_on_reward_granted ibs sa = fold (remember_account ibs) (vw_touched ibs) sa"

fun ibs_on_event :: "event \<Rightarrow> state_addresses \<Rightarrow> state_addresses" where
  "ibs_on_event (Reward_granted res ibs) sa = ibs_on_reward_granted ibs sa"
| "ibs_on_event _ sa = sa"

section \<open>The tracer\<close>

record diff_tracer =
  dft_diff :: state_diff
  dft_storage :: "(bytes \<times> string list) list"
  dft_code :: "(bytes \<times> bytes) list"
  dft_names :: "nat option"

definition diff_tracer_of :: diff_tracer where
  "diff_tracer_of = \<lparr>dft_diff = [], dft_storage = [], dft_code = [], dft_names = None\<rparr>"

definition diff_on_execution_start :: "nat \<Rightarrow> message \<Rightarrow> bytes \<Rightarrow> diff_tracer \<Rightarrow> diff_tracer" where
  "diff_on_execution_start rev' msg codes tr =
     tr\<lparr>dft_names := (case dft_names tr of None \<Rightarrow> Some rev' | Some n \<Rightarrow> Some n),
        dft_code := map_assign (msg_recipient msg, codes) (dft_code tr)\<rparr>"

definition keys_of :: "diff_tracer \<Rightarrow> bytes \<Rightarrow> string list" where
  "keys_of tr adr = value_or (map_of (dft_storage tr) adr) []"

definition diff_on_instruction_start :: "tracer_ext \<Rightarrow> execution_state \<Rightarrow> diff_tracer \<Rightarrow> diff_tracer result" where
  "diff_on_instruction_start te es tr =
     (if dft_names tr = None then Throw Uninitialized_read
      else if es_opcode es = OP_SSTORE
      then bind_r (stack_at (es_stack es) 0) (\<lambda>k. bind_r (stack_at (es_stack es) 1) (\<lambda>v.
        let adr = msg_recipient (es_msg es)
        in Ok (tr\<lparr>dft_storage := map_assign (adr, insort_insert (padded_hex te k) (keys_of tr adr)) (dft_storage tr)\<rparr>)))
      else Ok tr)"

definition storage_text :: "tracer_ext \<Rightarrow> bytes \<Rightarrow> string" where
  "storage_text te b32 = ''0x'' @ jx_to_hex (te_jx te) b32"

text \<open>The slots of an account that exists before and after the transaction: those that differ.\<close>

definition diff_slots :: "tracer_ext \<Rightarrow> view \<Rightarrow> bytes \<Rightarrow> string list \<Rightarrow> (string \<times> diff_value) list \<Rightarrow> (string \<times> diff_value) list" where
  "diff_slots te ibs adr ks m =
     fold (\<lambda>k m.
       let key_b32 = bytes32_from_hex (te_jx te) k;
           initial = vw_original_storage ibs adr key_b32; final = vw_current_storage ibs adr key_b32
       in if initial \<noteq> final then map_assign (k, changed (storage_text te initial) (storage_text te final)) m else m) ks m"

definition slots_equal :: "tracer_ext \<Rightarrow> view \<Rightarrow> bytes \<Rightarrow> string list \<Rightarrow> bool" where
  "slots_equal te ibs adr ks =
     list_all (\<lambda>k. vw_original_storage ibs adr (bytes32_from_hex (te_jx te) k) = vw_current_storage ibs adr (bytes32_from_hex (te_jx te) k)) ks"

text \<open>
  What becomes of the entry of an account: None when it is erased. An account that exists neither before nor
  after keeps the entry it has got.
\<close>

definition diff_both :: "tracer_ext \<Rightarrow> state_addresses \<Rightarrow> view \<Rightarrow> bytes \<Rightarrow> string list \<Rightarrow> state_diff_entry \<Rightarrow> state_diff_entry option" where
  "diff_both te sa ibs adr ks e =
     (let ib = sa_get_balance sa adr; fb = vw_balance ibs adr; ic = sa_get_code sa adr; fc = vw_code ibs adr;
          n0 = sa_get_nonce sa adr; fn = vw_nonce ibs adr
      in if ib = fb \<and> ic = fc \<and> n0 = fn \<and> slots_equal te ibs adr ks then None
      else Some (e\<lparr>
        de_balance := (if ib \<noteq> fb then changed (hex_number te ib) (hex_number te fb) else de_balance e),
        de_code := (if ic \<noteq> fc then changed (storage_text te ic) (storage_text te fc) else de_code e),
        de_nonce := (if n0 \<noteq> fn then changed (to_quantity (te_jx te) n0) (to_quantity (te_jx te) fn) else de_nonce e),
        de_storage := diff_slots te ibs adr ks (de_storage e)\<rparr>))"

definition diff_removed :: "tracer_ext \<Rightarrow> state_addresses \<Rightarrow> view \<Rightarrow> bytes \<Rightarrow> string list \<Rightarrow> state_diff_entry \<Rightarrow> state_diff_entry" where
  "diff_removed te sa ibs adr ks e =
     e\<lparr>de_balance := removed (hex_number te (sa_get_balance sa adr)), de_code := removed (storage_text te (sa_get_code sa adr)),
       de_nonce := removed (to_quantity (te_jx te) (sa_get_nonce sa adr)),
       de_storage := fold (\<lambda>k. map_assign (k, removed (storage_text te
         (vw_original_storage ibs adr (bytes32_from_hex (te_jx te) k))))) ks (de_storage e)\<rparr>"

definition diff_added :: "tracer_ext \<Rightarrow> view \<Rightarrow> bytes \<Rightarrow> string list \<Rightarrow> state_diff_entry \<Rightarrow> state_diff_entry option" where
  "diff_added te ibs adr ks e =
     (if vw_balance ibs adr = 0 \<and> vw_code ibs adr = [] \<and> vw_nonce ibs adr = 0 \<and> ks = [] then None
      else Some (e\<lparr>de_balance := added (hex_number te (vw_balance ibs adr)), de_code := added (storage_text te (vw_code ibs adr)),
        de_nonce := added (to_quantity (te_jx te) (vw_nonce ibs adr)),
        de_storage := fold (\<lambda>k m.
          let final = vw_current_storage ibs adr (bytes32_from_hex (te_jx te) k)
          in if final \<noteq> zeros 32 then map_assign (k, added (storage_text te final)) m else m) ks (de_storage e)\<rparr>))"

definition diff_entry ::
  "tracer_ext \<Rightarrow> state_addresses \<Rightarrow> view \<Rightarrow> bytes \<Rightarrow> string list \<Rightarrow> state_diff_entry \<Rightarrow> state_diff_entry option" where
  "diff_entry te sa ibs adr ks e =
     (if sa_exists sa adr
      then if vw_exists ibs adr then diff_both te sa ibs adr ks e else Some (diff_removed te sa ibs adr ks e)
      else if vw_exists ibs adr then diff_added te ibs adr ks e else Some e)"

definition address_key :: "tracer_ext \<Rightarrow> bytes \<Rightarrow> string" where
  "address_key te adr = ''0x'' @ jx_to_hex (te_jx te) adr"

definition diff_account :: "tracer_ext \<Rightarrow> state_addresses \<Rightarrow> view \<Rightarrow> bytes \<Rightarrow> diff_tracer \<Rightarrow> diff_tracer" where
  "diff_account te sa ibs adr tr =
     (let k = address_key te adr; e = value_or (map_of (dft_diff tr) k) empty_entry in
      tr\<lparr>dft_storage := map_assign (adr, keys_of tr adr) (dft_storage tr),
         dft_diff := (case diff_entry te sa ibs adr (keys_of tr adr) e of
             None \<Rightarrow> filter (\<lambda>(k', _). k' \<noteq> k) (dft_diff tr)
           | Some e' \<Rightarrow> map_assign (k, e') (dft_diff tr))\<rparr>)"

definition diff_on_reward_granted :: "tracer_ext \<Rightarrow> state_addresses \<Rightarrow> view \<Rightarrow> diff_tracer \<Rightarrow> diff_tracer" where
  "diff_on_reward_granted te sa ibs tr = fold (diff_account te sa ibs) (vw_touched ibs) tr"

fun diff_on_event :: "tracer_ext \<Rightarrow> state_addresses \<Rightarrow> event \<Rightarrow> diff_tracer \<Rightarrow> diff_tracer result" where
  "diff_on_event te sa (Execution_start rev' msg codes) tr = Ok (diff_on_execution_start rev' msg codes tr)"
| "diff_on_event te sa (Instruction_start es ibs) tr = diff_on_instruction_start te es tr"
| "diff_on_event te sa (Reward_granted res ibs) tr = Ok (diff_on_reward_granted te sa ibs tr)"
| "diff_on_event te sa _ tr = Ok tr"

end
