(* ===== verification/Trace_Tracer.thy ===== *)
theory Trace_Tracer
  imports Evm_Events
begin

text \<open>
  The tracer of calls: \<^verbatim>\<open>TraceTracer\<close> of \<^verbatim>\<open>core/evm_trace.hpp\<close> and \<^verbatim>\<open>core/evm_trace.cpp\<close>. It keeps a flat list of traces,
  one for every frame, with the address of the frame in the tree of calls; a stack of indices says which
  frames are open. Dereferencing an optional that has no value is \<open>Uninitialized_read\<close>.
\<close>

section \<open>Traces\<close>

record trace_action =
  ta_call_type :: "string option"
  ta_from :: bytes
  ta_to :: "bytes option"
  ta_gas :: u64
  ta_input :: "bytes option"
  ta_init :: "bytes option"
  ta_value :: u256

record reward_action =
  ra_author :: bytes
  ra_reward_type :: string
  ra_value :: u256

datatype trace_or_reward = Trace_action trace_action | Reward_action reward_action

record trace_result =
  rs_address :: "bytes option"
  rs_code :: "bytes option"
  rs_output :: "bytes option"
  rs_gas_used :: u64

record call_trace =
  ct_action :: trace_or_reward
  ct_result :: "trace_result option"
  ct_sub_traces :: u32
  ct_trace_address :: "u32 list"
  ct_error :: "string option"
  ct_type :: string
  ct_block_hash :: "bytes option"
  ct_block_number :: "u64 option"
  ct_transaction_hash :: "bytes option"
  ct_transaction_position :: "u32 option"

definition empty_action :: trace_action where
  "empty_action = \<lparr>ta_call_type = None, ta_from = zeros 20, ta_to = None, ta_gas = 0, ta_input = None, ta_init = None, ta_value = 0\<rparr>"

definition empty_result :: trace_result where
  "empty_result = \<lparr>rs_address = None, rs_code = None, rs_output = None, rs_gas_used = 0\<rparr>"

definition empty_trace :: call_trace where
  "empty_trace = \<lparr>ct_action = Trace_action empty_action, ct_result = None, ct_sub_traces = 0, ct_trace_address = [], ct_error = None,
     ct_type = [], ct_block_hash = None, ct_block_number = None, ct_transaction_hash = None, ct_transaction_position = None\<rparr>"

section \<open>As JSON\<close>

text \<open>A number that a stream prints with \<^verbatim>\<open>std::hex\<close>.\<close>

fun hex_string :: "nat \<Rightarrow> string" where
  "hex_string n = (if n < 16 then [hex_char n] else hex_string (n div 16) @ [hex_char (n mod 16)])"

declare hex_string.simps [simp del]

definition gas_text :: "u64 \<Rightarrow> json" where
  "gas_text gas = String (''0x'' @ hex_string (unat gas))"

definition to_json_TraceAction :: "json_ext \<Rightarrow> trace_action \<Rightarrow> json" where
  "to_json_TraceAction jx a =
     members
       (optional_field ''callType'' String (ta_call_type a) @ [(''from'', to_json_address jx (ta_from a))] @
        optional_field ''to'' (to_json_address jx) (ta_to a) @ [(''gas'', gas_text (ta_gas a))] @
        optional_field ''input'' (prefixed_hex jx) (ta_input a) @ optional_field ''init'' (prefixed_hex jx) (ta_init a) @
        [(''value'', String (to_quantity_u256 jx (ta_value a)))])"

definition to_json_RewardAction :: "json_ext \<Rightarrow> reward_action \<Rightarrow> json" where
  "to_json_RewardAction jx a =
     members [(''author'', to_json_address jx (ra_author a)), (''rewardType'', String (ra_reward_type a)),
       (''value'', String (to_quantity_u256 jx (ra_value a)))]"

definition to_json_TraceResult :: "json_ext \<Rightarrow> trace_result \<Rightarrow> json" where
  "to_json_TraceResult jx r =
     members
       (optional_field ''address'' (to_json_address jx) (rs_address r) @ optional_field ''code'' (prefixed_hex jx) (rs_code r) @
        optional_field ''output'' (prefixed_hex jx) (rs_output r) @ [(''gasUsed'', gas_text (rs_gas_used r))])"

definition to_json_Trace :: "json_ext \<Rightarrow> call_trace \<Rightarrow> json" where
  "to_json_Trace jx t =
     members
       ([(''action'', case ct_action t of Trace_action a \<Rightarrow> to_json_TraceAction jx a | Reward_action a \<Rightarrow> to_json_RewardAction jx a),
         (''result'', case ct_result t of Some r \<Rightarrow> to_json_TraceResult jx r | None \<Rightarrow> Null),
         (''subtraces'', Number (sint (ct_sub_traces t))),
         (''traceAddress'', Array (map (\<lambda>n. Number (uint n)) (ct_trace_address t)))] @
        optional_field ''error'' String (ct_error t) @ [(''type'', String (ct_type t))] @
        optional_field ''blockHash'' (to_json_bytes32 jx) (ct_block_hash t) @
        optional_field ''blockNumber'' (\<lambda>n. Number (uint n)) (ct_block_number t) @
        optional_field ''transactionHash'' (to_json_bytes32 jx) (ct_transaction_hash t) @
        optional_field ''transactionPosition'' (\<lambda>n. Number (uint n)) (ct_transaction_position t))"

section \<open>The tracer\<close>

text \<open>
  \<open>tt_exists\<close> is whether an account exists in the state before the transaction; the stacks have their top first;
  the initial gas is not initialised before the first frame starts.
\<close>

record trace_tracer =
  tt_traces :: "call_trace list"
  tt_exists :: "bytes \<Rightarrow> bool"
  tt_initial_gas :: "u64 option"
  tt_current_depth :: u32
  tt_created_address :: "bytes set"
  tt_index_stack :: "nat list"
  tt_start_gas :: "u64 list"

definition trace_tracer_of :: "(bytes \<Rightarrow> bool) \<Rightarrow> trace_tracer" where
  "trace_tracer_of exist =
     \<lparr>tt_traces = [], tt_exists = exist, tt_initial_gas = None, tt_current_depth = - 1, tt_created_address = {}, tt_index_stack = [],
      tt_start_gas = []\<rparr>"

text \<open>Whether a frame counts as the creation of a contract.\<close>

definition is_create :: "trace_tracer \<Rightarrow> message \<Rightarrow> bool" where
  "is_create tr msg \<longleftrightarrow>
     \<not> tt_exists tr (msg_recipient msg) \<and> msg_recipient msg \<notin> tt_created_address tr \<and> msg_recipient msg \<noteq> msg_code_address msg"

definition action_of :: "bool \<Rightarrow> message \<Rightarrow> bytes \<Rightarrow> trace_action" where
  "action_of create msg codes =
     (let a = empty_action\<lparr>ta_from := msg_sender msg, ta_gas := msg_gas msg, ta_value := msg_value msg\<rparr> in
      if create then a\<lparr>ta_init := Some codes\<rparr>
      else
        let a = a\<lparr>ta_input := Some (msg_input msg), ta_to := Some (msg_recipient msg)\<rparr> in
        (case msg_kind msg of
           EVMC_CALL \<Rightarrow> a\<lparr>ta_call_type := Some (if msg_static msg then ''staticcall'' else ''call'')\<rparr>
         | EVMC_DELEGATECALL \<Rightarrow> a\<lparr>ta_call_type := Some ''delegatecall'', ta_to := Some (msg_code_address msg), ta_from := msg_recipient msg\<rparr>
         | EVMC_CALLCODE \<Rightarrow> a\<lparr>ta_call_type := Some ''callcode''\<rparr>
         | _ \<Rightarrow> a))"

definition start_result :: "bool \<Rightarrow> message \<Rightarrow> trace_result" where
  "start_result create msg =
     (if create then empty_result\<lparr>rs_code := Some [], rs_address := Some (msg_recipient msg)\<rparr>
      else empty_result\<lparr>rs_output := Some []\<rparr>)"

definition start_trace :: "bool \<Rightarrow> message \<Rightarrow> bytes \<Rightarrow> call_trace" where
  "start_trace create msg codes =
     empty_trace\<lparr>ct_type := (if create then ''create'' else ''call''), ct_action := Trace_action (action_of create msg codes),
       ct_result := Some (start_result create msg)\<rparr>"

definition trace_on_execution_start :: "message \<Rightarrow> bytes \<Rightarrow> trace_tracer \<Rightarrow> trace_tracer result" where
  "trace_on_execution_start msg codes tr =
     (let create = is_create tr msg;
          index = length (tt_traces tr);
          trace = start_trace create msg codes;
          tr = tr\<lparr>tt_current_depth := msg_depth msg, tt_start_gas := msg_gas msg # tt_start_gas tr, tt_index_stack := index # tt_index_stack tr,
            tt_created_address := (if create then insert (msg_recipient msg) (tt_created_address tr) else tt_created_address tr)\<rparr>
      in if sint (msg_depth msg) > 0
      then (case tl (tt_index_stack tr) of
              [] \<Rightarrow> Ok (tr\<lparr>tt_traces := tt_traces tr @ [trace]\<rparr>)
            | i # _ \<Rightarrow>
                if i < length (tt_traces tr)
                then let calling = tt_traces tr ! i
                     in Ok (tr\<lparr>tt_traces := (tt_traces tr)[i := calling\<lparr>ct_sub_traces := ct_sub_traces calling + 1\<rparr>] @
                          [trace\<lparr>ct_trace_address := ct_trace_address calling @ [ct_sub_traces calling]\<rparr>]\<rparr>)
                else Throw Out_of_bounds)
      else Ok (tr\<lparr>tt_traces := tt_traces tr @ [trace], tt_initial_gas := Some (msg_gas msg)\<rparr>))"

text \<open>The error of a frame that neither succeeded nor reverted; such a trace has no result.\<close>

fun failure_text :: "evmc_status \<Rightarrow> string" where
  "failure_text EVMC_OUT_OF_GAS = ''Out of gas''"
| "failure_text EVMC_STACK_OVERFLOW = ''Out of gas''"
| "failure_text EVMC_UNDEFINED_INSTRUCTION = ''Bad instruction''"
| "failure_text EVMC_INVALID_INSTRUCTION = ''Bad instruction''"
| "failure_text EVMC_STACK_UNDERFLOW = ''Stack underflow''"
| "failure_text EVMC_BAD_JUMP_DESTINATION = ''Bad jump destination''"
| "failure_text _ = []"

definition set_output :: "bytes \<Rightarrow> trace_result \<Rightarrow> trace_result" where
  "set_output output r =
     (if rs_code r \<noteq> None then r\<lparr>rs_code := Some output\<rparr>
      else if rs_output r \<noteq> None then r\<lparr>rs_output := Some output\<rparr> else r)"

text \<open>What the status of a frame makes of its trace.\<close>

definition finish_trace :: "evmc_status \<Rightarrow> u64 \<Rightarrow> trace_result \<Rightarrow> call_trace \<Rightarrow> call_trace" where
  "finish_trace status gas_used r t =
     (if status = EVMC_SUCCESS then t\<lparr>ct_result := Some (r\<lparr>rs_gas_used := gas_used\<rparr>)\<rparr>
      else if status = EVMC_REVERT then t\<lparr>ct_error := Some ''Reverted'', ct_result := Some (r\<lparr>rs_gas_used := gas_used\<rparr>)\<rparr>
      else t\<lparr>ct_error := Some (failure_text status), ct_result := None\<rparr>)"

definition trace_on_execution_end :: "evmc_result \<Rightarrow> trace_tracer \<Rightarrow> trace_tracer result" where
  "trace_on_execution_end res tr =
     (case (tt_index_stack tr, tt_start_gas tr) of
        (index # indices, start_gas # gases) \<Rightarrow>
          if index < length (tt_traces tr)
          then (case ct_result (tt_traces tr ! index) of
                  None \<Rightarrow> Throw Uninitialized_read
                | Some r \<Rightarrow>
                    let r' = (if sint (tt_current_depth tr) > 0 then set_output (res_output res) r else r);
                        tr' = tr\<lparr>tt_current_depth := tt_current_depth tr - 1,
                          tt_traces := (tt_traces tr)[index :=
                            finish_trace (res_status res) (start_gas - res_gas_left res) r' (tt_traces tr ! index)]\<rparr>
                    in Ok (if rs_code r = None then tr'\<lparr>tt_index_stack := indices, tt_start_gas := gases\<rparr> else tr'))
          else Throw Out_of_bounds
      | _ \<Rightarrow> Throw Stack_underflow)"

definition trace_on_creation_completed :: "evmc_result \<Rightarrow> trace_tracer \<Rightarrow> trace_tracer result" where
  "trace_on_creation_completed res tr =
     (case tt_index_stack tr of
        [] \<Rightarrow> Ok tr
      | index # indices \<Rightarrow>
          (case tt_start_gas tr of
             [] \<Rightarrow> Throw Stack_underflow
           | start_gas # gases \<Rightarrow>
               if index < length (tt_traces tr)
               then (case ct_result (tt_traces tr ! index) of
                       None \<Rightarrow> Throw Uninitialized_read
                     | Some r \<Rightarrow>
                         Ok (tr\<lparr>tt_index_stack := indices, tt_start_gas := gases,
                           tt_traces := (tt_traces tr)[index := (tt_traces tr ! index)\<lparr>ct_result :=
                             Some (r\<lparr>rs_gas_used := start_gas - res_gas_left res\<rparr>)\<rparr>]\<rparr>))
               else Throw Out_of_bounds))"

text \<open>The reward belongs to the whole transaction, whose trace is the first one.\<close>

definition trace_on_reward_granted :: "call_result \<Rightarrow> trace_tracer \<Rightarrow> trace_tracer result" where
  "trace_on_reward_granted res tr =
     (case tt_traces tr of
        [] \<Rightarrow> Ok tr
      | t # ts \<Rightarrow>
          if cr_status res = EVMC_SUCCESS \<or> cr_status res = EVMC_REVERT
          then (case (ct_result t, tt_initial_gas tr) of
                  (Some r, Some initial_gas) \<Rightarrow>
                    let r' = (if length (cr_data res) > 0 then set_output (cr_data res) r else r)
                    in Ok (tr\<lparr>tt_traces := finish_trace (cr_status res) (initial_gas - cr_gas_left res) r' t # ts\<rparr>)
                | _ \<Rightarrow> Throw Uninitialized_read)
          else Ok (tr\<lparr>tt_traces := finish_trace (cr_status res) 0 empty_result t # ts\<rparr>))"

fun trace_on_event :: "event \<Rightarrow> trace_tracer \<Rightarrow> trace_tracer result" where
  "trace_on_event (Execution_start rev' msg codes) tr = trace_on_execution_start msg codes tr"
| "trace_on_event (Instruction_start es ibs) tr = Ok tr"
| "trace_on_event (Precompiled_run res gas ibs) tr = Ok tr"
| "trace_on_event (Execution_end res ibs) tr = trace_on_execution_end res tr"
| "trace_on_event (Creation_completed res ibs) tr = trace_on_creation_completed res tr"
| "trace_on_event (Reward_granted res ibs) tr = trace_on_reward_granted res tr"

definition trace_on_events :: "event list \<Rightarrow> trace_tracer \<Rightarrow> trace_tracer result" where
  "trace_on_events evs tr = fold_r trace_on_event evs tr"

end
