(* ===== verification/Trace_Executor.thy ===== *)
theory Trace_Executor
  imports State_Diff Trace_Tracer Rpc_Streams Ethash
begin

text \<open>
  \<^verbatim>\<open>TraceCallExecutor\<close> of \<^verbatim>\<open>core/evm_trace.cpp\<close>: the traces of the transactions of a block, of a call, of several calls
  and of a transaction after the earlier ones of its block, and the filter over the traces of a range of
  blocks, which is written to a stream.
\<close>

section \<open>Results\<close>

record trace_call_traces =
  tct_output :: string
  tct_transaction_hash :: "bytes option"
  tct_state_diff :: "state_diff option"
  tct_trace :: "call_trace list"
  tct_vm_trace :: "vm_trace option"

record trace_call_result =
  tcx_traces :: trace_call_traces
  tcx_pre_check_error :: "string option"

record trace_many_call_result =
  tmc_traces :: "trace_call_traces list"
  tmc_pre_check_error :: "string option"

definition to_json_TraceCallTraces :: "json_ext \<Rightarrow> trace_call_traces \<Rightarrow> json" where
  "to_json_TraceCallTraces jx t =
     members
       ([(''output'', String (tct_output t)),
         (''stateDiff'', or_null (\<lambda>d. Object (map (\<lambda>(k, e). (k, to_json_StateDiffEntry e)) d)) (tct_state_diff t)),
         (''trace'', Array (map (to_json_Trace jx) (tct_trace t))),
         (''vmTrace'', or_null to_json_VmTrace (tct_vm_trace t))] @
        optional_field ''transactionHash'' (to_json_bytes32 jx) (tct_transaction_hash t))"

definition to_json_TraceManyCallResult :: "json_ext \<Rightarrow> trace_many_call_result \<Rightarrow> json" where
  "to_json_TraceManyCallResult jx r = Array (map (to_json_TraceCallTraces jx) (tmc_traces r))"

section \<open>Tracing a run\<close>

text \<open>
  The tracers that the configuration asks for, each with the events of the run. \<open>exist\<close> and \<open>sa\<close> are the
  state before the block, and the accounts before the transaction.
\<close>

definition run_tracers ::
  "tracer_ext \<Rightarrow> trace_config \<Rightarrow> int \<Rightarrow> (bytes \<Rightarrow> bool) \<Rightarrow> state_addresses \<Rightarrow> bytes option \<Rightarrow> event list \<Rightarrow> trace_call_traces result" where
  "run_tracers te cfg index exist sa hash evs =
     bind_r (if tcf_vm_trace cfg then bind_r (fold_r (vm_on_event te) evs (vm_tracer_of index)) (\<lambda>tr. Ok (Some (vm_root tr))) else Ok None) (\<lambda>vm.
     bind_r (if tcf_trace cfg then bind_r (trace_on_events evs (trace_tracer_of exist)) (\<lambda>tr. Ok (tt_traces tr)) else Ok []) (\<lambda>traces.
     bind_r (if tcf_state_diff cfg then bind_r (fold_r (diff_on_event te sa) evs diff_tracer_of) (\<lambda>tr. Ok (Some (dft_diff tr))) else Ok None) (\<lambda>diff.
       Ok \<lparr>tct_output = ''0x'', tct_transaction_hash = hash, tct_state_diff = diff, tct_trace = traces, tct_vm_trace = vm\<rparr>)))"

definition call_outcome :: "tracer_ext \<Rightarrow> execution_result \<Rightarrow> trace_call_traces \<Rightarrow> trace_call_result" where
  "call_outcome te r traces =
     (case er_pre_check_error r of
        Some error \<Rightarrow> \<lparr>tcx_traces = traces, tcx_pre_check_error = Some error\<rparr>
      | None \<Rightarrow> \<lparr>tcx_traces = traces\<lparr>tct_output := ''0x'' @ jx_to_hex (te_jx te) (er_data r)\<rparr>, tcx_pre_check_error = None\<rparr>)"

definition remember :: "event list \<Rightarrow> state_addresses \<Rightarrow> state_addresses" where
  "remember evs sa = fold ibs_on_event evs sa"

section \<open>Blocks, calls and transactions\<close>

fun trace_transactions ::
  "'s tracing \<Rightarrow> 's vm \<Rightarrow> 's state_ops \<Rightarrow> trace_config \<Rightarrow> (bytes \<Rightarrow> bool) \<Rightarrow> nat \<Rightarrow> transaction list \<Rightarrow> state_addresses \<Rightarrow> 's \<Rightarrow>
     trace_call_result list result" where
  "trace_transactions tg machine so cfg exist index [] sa s = Ok []"
| "trace_transactions tg machine so cfg exist index (t # ts) sa s =
     (let te = tg_ext tg; txn = recover_sender (te_jx te) t in
      bind_r (traced_call tg machine so txn True True s) (\<lambda>(r, evs, s').
      bind_r (run_tracers te cfg (int index) exist sa (Some (jx_hash_of_transaction (te_jx te) txn)) evs) (\<lambda>traces.
      bind_r (trace_transactions tg machine so cfg exist (Suc index) ts (remember evs sa) (executor_reset so s')) (\<lambda>results.
        Ok (call_outcome te r traces # results)))))"

definition trace_block_transactions ::
  "('c, 'w, 's) api_env \<Rightarrow> 's tracing \<Rightarrow> reader \<Rightarrow> block_with_hash \<Rightarrow> trace_config \<Rightarrow> trace_call_result list result" where
  "trace_block_transactions env tg rd block cfg =
     bind_r (read_chain_id (ae_x env) rd) (\<lambda>chain_id.
     bind_r (lookup_chain_config (ae_chains env) chain_id) (\<lambda>machine.
       let s = ae_state env rd (hdr_number (bw_header block) - 1); initial = tg_view tg s in
       trace_transactions tg (machine block) (ae_so env) cfg (vw_exists initial) 0 (bw_transactions block) (state_addresses_of initial) s))"

text \<open>The transactions before the traced one; only the accounts they touch are remembered.\<close>

fun trace_replay ::
  "'s tracing \<Rightarrow> 's vm \<Rightarrow> 's state_ops \<Rightarrow> transaction list \<Rightarrow> state_addresses \<Rightarrow> 's \<Rightarrow> (state_addresses \<times> 's) result" where
  "trace_replay tg machine so [] sa s = Ok (sa, s)"
| "trace_replay tg machine so (t # ts) sa s =
     bind_r (traced_call tg machine so (recover_sender (te_jx (tg_ext tg)) t) True True s) (\<lambda>(r, evs, s').
       trace_replay tg machine so ts (remember evs sa) (executor_reset so s'))"

definition trace_execute ::
  "('c, 'w, 's) api_env \<Rightarrow> 's tracing \<Rightarrow> reader \<Rightarrow> u64 \<Rightarrow> block_with_hash \<Rightarrow> transaction \<Rightarrow> nat \<Rightarrow> int \<Rightarrow> trace_config \<Rightarrow> trace_call_result result" where
  "trace_execute env tg rd block_number block transaction transaction_index index cfg =
     bind_r (read_chain_id (ae_x env) rd) (\<lambda>chain_id.
     bind_r (lookup_chain_config (ae_chains env) chain_id) (\<lambda>machine.
       let s = ae_state env rd block_number; initial = tg_view tg s; so = ae_so env; te = tg_ext tg in
       if transaction_index > length (bw_transactions block) then Throw Out_of_bounds
       else
         bind_r (trace_replay tg (machine block) so (take transaction_index (bw_transactions block)) (state_addresses_of initial) s) (\<lambda>(sa, s').
         bind_r (traced_call tg (machine block) so transaction True True s') (\<lambda>(r, evs, _).
         bind_r (run_tracers te cfg index (vw_exists initial) sa None evs) (\<lambda>traces.
           Ok (call_outcome te r traces))))))"

definition trace_call ::
  "('c, 'w, 's) api_env \<Rightarrow> 's tracing \<Rightarrow> reader \<Rightarrow> block_with_hash \<Rightarrow> call \<Rightarrow> trace_config \<Rightarrow> trace_call_result result" where
  "trace_call env tg rd block call cfg =
     trace_execute env tg rd (hdr_number (bw_header block)) block (to_transaction call) 0 (- 1) cfg"

fun trace_calls_loop ::
  "'s tracing \<Rightarrow> 's vm \<Rightarrow> 's state_ops \<Rightarrow> (bytes \<Rightarrow> bool) \<Rightarrow> nat \<Rightarrow> trace_call_request list \<Rightarrow> trace_call_traces list \<Rightarrow> state_addresses \<Rightarrow> 's \<Rightarrow>
     trace_many_call_result result" where
  "trace_calls_loop tg machine so exist index [] traces sa s = Ok \<lparr>tmc_traces = traces, tmc_pre_check_error = None\<rparr>"
| "trace_calls_loop tg machine so exist index (c # cs) traces sa s =
     (let te = tg_ext tg in
      bind_r (traced_call tg machine so (to_transaction (tcr_call c)) True True s) (\<lambda>(r, evs, s').
      bind_r (run_tracers te (tcr_config c) (int index) exist sa None evs) (\<lambda>t.
        case er_pre_check_error r of
          Some error \<Rightarrow>
            Ok \<lparr>tmc_traces = [], tmc_pre_check_error = Some (''first run for txIndex '' @ to_string index @ '' error: '' @ error)\<rparr>
        | None \<Rightarrow>
            trace_calls_loop tg machine so exist (Suc index) cs
              (traces @ [t\<lparr>tct_output := ''0x'' @ jx_to_hex (te_jx te) (er_data r)\<rparr>]) (remember evs sa) (executor_reset so s'))))"

definition trace_calls ::
  "('c, 'w, 's) api_env \<Rightarrow> 's tracing \<Rightarrow> reader \<Rightarrow> block_with_hash \<Rightarrow> trace_call_request list \<Rightarrow> trace_many_call_result result" where
  "trace_calls env tg rd block cs =
     bind_r (read_chain_id (ae_x env) rd) (\<lambda>chain_id.
     bind_r (lookup_chain_config (ae_chains env) chain_id) (\<lambda>machine.
       let s = ae_state env rd (hdr_number (bw_header block)); initial = tg_view tg s in
       trace_calls_loop tg (machine block) (ae_so env) (vw_exists initial) 0 cs [] (state_addresses_of initial) s))"

text \<open>A transaction with a configuration, and the traces of a transaction with its place in the chain.\<close>

definition trace_transaction_config ::
  "('c, 'w, 's) api_env \<Rightarrow> 's tracing \<Rightarrow> reader \<Rightarrow> block_with_hash \<Rightarrow> transaction \<Rightarrow> nat \<Rightarrow> trace_config \<Rightarrow> trace_call_result result" where
  "trace_transaction_config env tg rd block transaction index cfg =
     trace_execute env tg rd (hdr_number (bw_header block) - 1) block transaction index (int index) cfg"

definition located :: "block_with_hash \<Rightarrow> nat \<Rightarrow> bytes \<Rightarrow> call_trace \<Rightarrow> call_trace" where
  "located block pos hash t =
     t\<lparr>ct_block_number := Some (hdr_number (bw_header block)), ct_block_hash := Some (bw_hash block),
       ct_transaction_position := Some (of_nat pos), ct_transaction_hash := Some hash\<rparr>"

definition trace_transaction ::
  "('c, 'w, 's) api_env \<Rightarrow> 's tracing \<Rightarrow> reader \<Rightarrow> transaction_with_block \<Rightarrow> call_trace list result" where
  "trace_transaction env tg rd tb =
     bind_r (trace_transaction_config env tg rd (tb_block tb) (tb_transaction tb) (tb_index tb) trace_only) (\<lambda>r.
       Ok (map (located (tb_block tb) (tb_index tb) (jx_hash_of_transaction (te_jx (tg_ext tg)) (tb_transaction tb)))
         (tct_trace (tcx_traces r))))"

section \<open>Filters\<close>

record filter_state =
  ft_from_addresses :: "bytes list"
  ft_to_addresses :: "bytes list"
  ft_after :: u32
  ft_count :: u32

definition default_filter :: filter_state where
  "default_filter = \<lparr>ft_from_addresses = [], ft_to_addresses = [], ft_after = 0, ft_count = - 1\<rparr>"

text \<open>Whether a trace is skipped: an action of the wanted sender, or to the wanted recipient, is not.\<close>

definition skipped :: "filter_state \<Rightarrow> call_trace \<Rightarrow> bool" where
  "skipped flt t \<longleftrightarrow>
     \<not> (ft_from_addresses flt = [] \<and> ft_to_addresses flt = []) \<and>
     (case ct_action t of
        Trace_action a \<Rightarrow>
          \<not> (ta_from a \<in> set (ft_from_addresses flt)) \<and>
          \<not> (case ta_to a of Some to \<Rightarrow> to \<in> set (ft_to_addresses flt) | None \<Rightarrow> False)
      | Reward_action a \<Rightarrow> True)"

text \<open>One trace of the loop: the filter after it, and the trace when it is part of the result.\<close>

definition filter_step :: "filter_state \<Rightarrow> call_trace \<Rightarrow> filter_state \<times> bool" where
  "filter_step flt t =
     (if skipped flt t then (flt, False)
      else if ft_after flt > 0 then (flt\<lparr>ft_after := ft_after flt - 1\<rparr>, False)
      else (flt\<lparr>ft_count := ft_count flt - 1\<rparr>, True))"

text \<open>The two loops over the traces of the transactions break when the count is 0 after a trace.\<close>

fun filter_traces :: "filter_state \<Rightarrow> call_trace list \<Rightarrow> call_trace list \<times> filter_state" where
  "filter_traces flt [] = ([], flt)"
| "filter_traces flt (t # ts) =
     (case filter_step flt t of (flt', taken) \<Rightarrow>
        let (rest, flt'') = (if ft_count flt' = 0 then ([], flt') else filter_traces flt' ts)
        in ((if taken then [t] else []) @ rest, flt''))"

text \<open>
  After the traces of a transaction the outer loop breaks too when the count is 0, also when the transaction
  has no traces.
\<close>

fun filter_transactions :: "filter_state \<Rightarrow> call_trace list list \<Rightarrow> call_trace list \<times> filter_state" where
  "filter_transactions flt [] = ([], flt)"
| "filter_transactions flt (ts # tss) =
     (case filter_traces flt ts of (taken, flt') \<Rightarrow>
        if ft_count flt' = 0 then (taken, flt')
        else case filter_transactions flt' tss of (rest, flt'') \<Rightarrow> (taken @ rest, flt''))"

definition reward_trace :: "block_with_hash \<Rightarrow> u256 \<Rightarrow> call_trace" where
  "reward_trace block reward =
     empty_trace\<lparr>ct_block_number := Some (hdr_number (bw_header block)), ct_block_hash := Some (bw_hash block), ct_type := ''reward'',
       ct_action := Reward_action \<lparr>ra_author = hdr_beneficiary (bw_header block), ra_reward_type = ''block'', ra_value = reward\<rparr>\<rparr>"

definition write_traces :: "json_ext \<Rightarrow> call_trace list \<Rightarrow> json op list" where
  "write_traces jx ts = map (\<lambda>t. Write_json (to_json_Trace jx t)) ts"

definition located_traces :: "json_ext \<Rightarrow> block_with_hash \<Rightarrow> trace_call_result list \<Rightarrow> call_trace list list" where
  "located_traces jx block results =
     map (\<lambda>(pos, t, r). map (located block pos (jx_hash_of_transaction jx (recover_sender jx t))) (tct_trace (tcx_traces r)))
       (zip [0..<length results] (zip (bw_transactions block) results))"

definition trace_block ::
  "'k chain_rules \<Rightarrow> ('c, 'w, 's) api_env \<Rightarrow> 's tracing \<Rightarrow> reader \<Rightarrow> block_with_hash \<Rightarrow> filter_state \<Rightarrow> bool \<Rightarrow>
     (json op list, call_trace list \<times> filter_state) action" where
  "trace_block rules env tg rd block flt streaming =
     (let jx = te_jx (tg_ext tg) in
      bind_a (lift (trace_block_transactions env tg rd block trace_only)) (\<lambda>results.
      case filter_transactions flt (located_traces jx block results) of (traces, flt') \<Rightarrow>
      bind_a (emit_if streaming (write_traces jx traces)) (\<lambda>_.
      if ft_from_addresses flt' \<noteq> [] \<or> ft_to_addresses flt' \<noteq> [] then ret (if streaming then [] else traces, flt')
      else if ft_count flt' > 0 \<and> ft_after flt' = 0
      then
        bind_a (lift (read_chain_config (ae_x env) rd)) (\<lambda>info.
        bind_a (lift (compute_reward rules (cc_config info) (bw_header block) (bw_ommers block))) (\<lambda>reward.
        let t = reward_trace block (miner_reward reward) in
        bind_a (emit_if streaming (write_traces jx [t])) (\<lambda>_.
        ret (if streaming then [] else traces @ [t], flt'\<lparr>ft_count := ft_count flt' - 1\<rparr>))))
      else ret (if streaming then [] else traces, if ft_after flt' > 0 then flt'\<lparr>ft_after := ft_after flt' - 1\<rparr> else flt'))))"

text \<open>
  The loop over the blocks. The number is raised before the next block is read, so that the block after the
  last one is read too. The loop does not end when the last number is the largest one.
\<close>

definition next_block ::
  "('c, 'w, 's) api_env \<Rightarrow> reader \<Rightarrow> block_with_hash \<Rightarrow> u64 \<Rightarrow> (('c, 'w) streaming, block_with_hash) action" where
  "next_block env rd to_block block_number =
     (if block_number = hdr_number (bw_header to_block) then ret to_block
      else on_api (on_cache (cached_read_block_by_number (ae_cache env) (ae_x env) rd block_number)))"

partial_function (option) trace_filter_loop ::
  "'k chain_rules \<Rightarrow> ('c, 'w, 's) api_env \<Rightarrow> 's tracing \<Rightarrow> reader \<Rightarrow> block_with_hash \<Rightarrow> u64 \<Rightarrow> block_with_hash \<Rightarrow> filter_state \<Rightarrow>
     ('c, 'w) streaming \<Rightarrow> (unit result \<times> ('c, 'w) streaming) option" where
  "trace_filter_loop rules env tg rd to_block block_number block flt sw =
     (if block_number \<le> hdr_number (bw_header to_block)
      then (case on_stream (trace_block rules env tg rd block flt True) sw of
              (Inl e, sw1) \<Rightarrow> Some (Throw e, sw1)
            | (Inr (_, flt'), sw1) \<Rightarrow>
                if ft_count flt' = 0 then Some (Ok (), sw1)
                else (case next_block env rd to_block (block_number + 1) sw1 of
                        (Inl e, sw2) \<Rightarrow> Some (Throw e, sw2)
                      | (Inr block', sw2) \<Rightarrow> trace_filter_loop rules env tg rd to_block (block_number + 1) block' flt' sw2))
      else Some (Ok (), sw))"

definition filter_of :: "trace_filter \<Rightarrow> filter_state" where
  "filter_of tf =
     \<lparr>ft_from_addresses = tf_from_addresses tf, ft_to_addresses = tf_to_addresses tf, ft_after = tf_after tf, ft_count = tf_count tf\<rparr>"

definition trace_filter_of ::
  "'k chain_rules \<Rightarrow> ('c, 'w, 's) api_env \<Rightarrow> 's tracing \<Rightarrow> reader \<Rightarrow> trace_filter \<Rightarrow> (('c, 'w) streaming, unit) action" where
  "trace_filter_of rules env tg rd tf =
     bind_a (on_api (on_cache (read_block_by_number_or_hash (ae_cache env) (ae_ks env) (ae_x env) rd (tf_from_block tf)))) (\<lambda>from_block.
     bind_a (on_api (on_cache (read_block_by_number_or_hash (ae_cache env) (ae_ks env) (ae_x env) rd (tf_to_block tf)))) (\<lambda>to_block.
     if hdr_number (bw_header from_block) > hdr_number (bw_header to_block)
     then write_ops (error_field (- 32000) ''invalid parameters: fromBlock cannot be greater than toBlock'')
     else
       bind_a (write_ops [Write_field ''result'', Open_array]) (\<lambda>_.
       bind_a (\<lambda>sw. case trace_filter_loop rules env tg rd to_block (hdr_number (bw_header from_block)) from_block (filter_of tf) sw of
           None \<Rightarrow> (Throw No_return, sw) | Some out \<Rightarrow> out) (\<lambda>_.
       write_ops [Close_array]))))"

end
