(* ===== verification/Trace_Api.thy ===== *)
theory Trace_Api
  imports Trace_Executor Eth_Api_Accounts
begin

text \<open>The handlers of the namespace trace (\<^verbatim>\<open>commands/trace_api.cpp\<close>): JSON replies, and the filter as a stream.\<close>

section \<open>Calls and transactions\<close>

definition trace_result_reply :: "('c, 'w, 's) api_env \<Rightarrow> json \<Rightarrow> trace_call_result \<Rightarrow> json result" where
  "trace_result_reply env request r =
     (case tcx_pre_check_error r of
        Some error \<Rightarrow> reply_error env request (- 32000) error
      | None \<Rightarrow> reply_content env request (to_json_TraceCallTraces (ae_jx env) (tcx_traces r)))"

text \<open>The block of a call, and the database on which it runs: the cache for the latest block.\<close>

definition call_block ::
  "('c, 'w, 's) api_env \<Rightarrow> reader \<Rightarrow> reader \<Rightarrow> block_number_or_hash \<Rightarrow> (('c, 'w) api, block_with_hash \<times> reader) action" where
  "call_block env rd cached bnoh =
     bind_a (on_cache (read_block_by_number_or_hash (ae_cache env) (ae_ks env) (ae_x env) rd bnoh)) (\<lambda>block.
     bind_a (lift (is_latest_block_number (ae_ks env) (ae_x env) rd (Block_number (hdr_number (bw_header block))))) (\<lambda>is_latest_block.
     ret (block, if is_latest_block then cached else rd)))"

definition handle_trace_call :: "'s tracing \<Rightarrow> ('c, 'w, 's) api_env \<Rightarrow> json \<Rightarrow> (('c, 'w) api, json) action" where
  "handle_trace_call tg env request =
     with_params env ''trace_call'' (\<lambda>n. \<not> n < 3) request (\<lambda>params.
     bind_a (param (from_json_Call (ae_jx env)) params 0) (\<lambda>call.
     bind_a (param from_json_TraceConfig params 1) (\<lambda>cfg.
     bind_a (param (from_json_BlockNumberOrHash (ae_jx env) (x_codec (ae_x env))) params 2) (\<lambda>bnoh.
     with_transaction env (catch_std env request 100) (\<lambda>rd cached.
       bind_a (call_block env rd cached bnoh) (\<lambda>(block, db).
       bind_a (lift (trace_call env tg db block call cfg)) (\<lambda>r.
       lift (trace_result_reply env request r))))))))"

definition handle_trace_call_many :: "'s tracing \<Rightarrow> ('c, 'w, 's) api_env \<Rightarrow> json \<Rightarrow> (('c, 'w) api, json) action" where
  "handle_trace_call_many tg env request =
     with_params env ''trace_callMany'' (\<lambda>n. \<not> n < 2) request (\<lambda>params.
     bind_a (param (get_vector (from_json_TraceCall (ae_jx env))) params 0) (\<lambda>cs.
     bind_a (param (from_json_BlockNumberOrHash (ae_jx env) (x_codec (ae_x env))) params 1) (\<lambda>bnoh.
     with_transaction env (catch_std env request 100) (\<lambda>rd cached.
       bind_a (call_block env rd cached bnoh) (\<lambda>(block, db).
       bind_a (lift (trace_calls env tg db block cs)) (\<lambda>r.
       lift (case tmc_pre_check_error r of
           Some error \<Rightarrow> reply_error env request (- 32000) error
         | None \<Rightarrow> reply_content env request (Array (map (to_json_TraceCallTraces (ae_jx env)) (tmc_traces r))))))))))"

definition handle_trace_raw_transaction :: "'f floats \<Rightarrow> 's tracing \<Rightarrow> ('c, 'w, 's) api_env \<Rightarrow> json \<Rightarrow> (('c, 'w) api, json) action" where
  "handle_trace_raw_transaction fl tg env request =
     with_params env ''trace_rawTransaction'' (\<lambda>n. \<not> n < 2) request (\<lambda>params.
     bind_a (param get_string params 0) (\<lambda>encoded_tx_string.
     case jx_from_hex (ae_jx env) encoded_tx_string of
       None \<Rightarrow> lift (reply_error env request (- 32602) (''invalid trace_rawTransaction encoded tx: '' @ encoded_tx_string))
     | Some encoded_tx_bytes \<Rightarrow>
         (case ae_decode_transaction env encoded_tx_bytes of
            Inl err \<Rightarrow> lift (reply_error env request (- 32000) (decoding_result_to_string err))
          | Inr txn \<Rightarrow>
              if \<not> check_tx_fee_less_cap fl (fl_of_u64 fl 1) (tx_max_fee_per_gas txn) (tx_gas_limit txn)
              then lift (reply_error env request (- 32000) ''tx fee exceeds the configured cap'')
              else if \<not> is_replay_protected (tx_type txn) (jx_v (ae_jx env) txn)
              then lift (reply_error env request (- 32000) ''only replay-protected (EIP-155) transactions allowed over RPC'')
              else
                (case jx_recover_sender (ae_jx env) txn of
                   None \<Rightarrow> lift (reply_error env request (- 32000) ''cannot recover sender'')
                 | Some from \<Rightarrow>
                     bind_a (param from_json_TraceConfig params 1) (\<lambda>cfg.
                     with_transaction env (catch_std env request 100) (\<lambda>rd _.
                       bind_a (lift (get_latest_block_number (ae_ks env) (ae_x env) rd)) (\<lambda>block_number.
                       bind_a (on_cache (cached_read_block_by_number (ae_cache env) (ae_x env) rd block_number)) (\<lambda>block.
                       bind_a (lift (trace_transaction_config env tg rd block (txn\<lparr>tx_from := Some from\<rparr>) 0 cfg)) (\<lambda>r.
                       lift (trace_result_reply env request r))))))))))"

definition handle_trace_replay_block_transactions :: "'s tracing \<Rightarrow> ('c, 'w, 's) api_env \<Rightarrow> json \<Rightarrow> (('c, 'w) api, json) action" where
  "handle_trace_replay_block_transactions tg env request =
     with_params env ''trace_replayBlockTransactions'' (\<lambda>n. \<not> n < 2) request (\<lambda>params.
     bind_a (param (from_json_BlockNumberOrHash (ae_jx env) (x_codec (ae_x env))) params 0) (\<lambda>bnoh.
     bind_a (param from_json_TraceConfig params 1) (\<lambda>cfg.
     with_transaction env (catch_std env request 100) (\<lambda>rd _.
       bind_a (on_cache (read_block_by_number_or_hash (ae_cache env) (ae_ks env) (ae_x env) rd bnoh)) (\<lambda>block.
       bind_a (lift (trace_block_transactions env tg rd block cfg)) (\<lambda>results.
       lift (reply_content env request (Array (map (\<lambda>r. to_json_TraceCallTraces (ae_jx env) (tcx_traces r)) results)))))))))"

definition handle_trace_replay_transaction :: "'s tracing \<Rightarrow> ('c, 'w, 's) api_env \<Rightarrow> json \<Rightarrow> (('c, 'w) api, json) action" where
  "handle_trace_replay_transaction tg env request =
     with_params env ''trace_replayTransaction'' (\<lambda>n. \<not> n < 2) request (\<lambda>params.
     bind_a (param (from_json_bytes32 (ae_jx env)) params 0) (\<lambda>transaction_hash.
     bind_a (param from_json_TraceConfig params 1) (\<lambda>cfg.
     with_transaction env (catch_std env request 100) (\<lambda>rd _.
       bind_a (on_cache (read_transaction_by_hash (ae_cache env) (ae_x env) rd transaction_hash)) (\<lambda>tx_with_block.
       case tx_with_block of
         None \<Rightarrow> lift (reply_error env request (- 32000) (''transaction 0x'' @ jx_to_hex (ae_jx env) transaction_hash @ '' not found''))
       | Some tb \<Rightarrow>
           bind_a (lift (trace_transaction_config env tg rd (tb_block tb) (tb_transaction tb) (tb_index tb) cfg)) (\<lambda>r.
           lift (trace_result_reply env request r)))))))"

section \<open>Traces\<close>

definition handle_trace_block :: "'k chain_rules \<Rightarrow> 's tracing \<Rightarrow> ('c, 'w, 's) api_env \<Rightarrow> json \<Rightarrow> (('c, 'w) api, json) action" where
  "handle_trace_block rules tg env request =
     with_params env ''trace_block'' (\<lambda>n. \<not> n < 1) request (\<lambda>params.
     bind_a (param (from_json_BlockNumberOrHash (ae_jx env) (x_codec (ae_x env))) params 0) (\<lambda>bnoh.
     with_transaction env (catch_std env request 100) (\<lambda>rd _.
       bind_a (on_cache (read_block_by_number_or_hash (ae_cache env) (ae_ks env) (ae_x env) rd bnoh)) (\<lambda>block.
       bind_a (lift (fst (trace_block rules env tg rd block default_filter False []))) (\<lambda>(traces, _).
       lift (reply_content env request (Array (map (to_json_Trace (ae_jx env)) traces))))))))"

definition handle_trace_filter ::
  "'k chain_rules \<Rightarrow> 's tracing \<Rightarrow> ('c, 'w, 's) api_env \<Rightarrow> json \<Rightarrow> (('c, 'w) streaming, unit) action" where
  "handle_trace_filter rules tg env request =
     stream_params env ''trace_filter'' (\<lambda>n. \<not> n < 1) request (\<lambda>params.
     bind_a (param (from_json_TraceFilter (ae_jx env) (x_codec (ae_x env)) (ae_uint32 env)) params 0) (\<lambda>tf.
     stream_transaction env request (catch_what 100) (\<lambda>rd _. trace_filter_of rules env tg rd tf)))"

text \<open>\<^verbatim>\<open>std::stoi\<close> in base 16: the number has to be one of 32 bits.\<close>

definition stoi16 :: "string \<Rightarrow> int result" where
  "stoi16 s =
     (case strto 16 s of
        None \<Rightarrow> Throw (Invalid_argument ''stoi'')
      | Some (neg, n) \<Rightarrow>
          let i = (if neg then - int n else int n) in
          if - (2 ^ 31) \<le> i \<and> i < 2 ^ 31 then Ok i else Throw (Out_of_range ''stoi''))"

text \<open>Exceptions of these two handlers are answered with null.\<close>

definition null_clauses :: "('c, 'w, 's) api_env \<Rightarrow> json \<Rightarrow> clauses" where
  "null_clauses env request e = map_option (\<lambda>_. reply_content env request Null) (what_of e)"

definition handle_trace_get :: "'s tracing \<Rightarrow> ('c, 'w, 's) api_env \<Rightarrow> json \<Rightarrow> (('c, 'w) api, json) action" where
  "handle_trace_get tg env request =
     with_params env ''trace_get'' (\<lambda>n. \<not> n < 2) request (\<lambda>params.
     bind_a (param (from_json_bytes32 (ae_jx env)) params 0) (\<lambda>transaction_hash.
     bind_a (param (get_vector get_string) params 1) (\<lambda>str_indices.
     bind_a (lift (map_r (\<lambda>s. bind_r (stoi16 s) (\<lambda>i. Ok (word_of_int i :: 16 word))) str_indices)) (\<lambda>indices.
     if length indices > 1 then lift (reply_content env request Null)
     else
       with_transaction env (null_clauses env request) (\<lambda>rd _.
         bind_a (on_cache (read_transaction_by_hash (ae_cache env) (ae_x env) rd transaction_hash)) (\<lambda>tx_with_block.
         case tx_with_block of
           None \<Rightarrow> lift (reply_content env request Null)
         | Some tb \<Rightarrow>
             bind_a (lift (trace_transaction env tg rd tb)) (\<lambda>traces.
             case indices of
               [] \<Rightarrow> lift (Throw Out_of_bounds)
             | i # _ \<Rightarrow>
                 let index = unat i + 1 in
                 lift (reply_content env request
                   (if length traces > index then to_json_Trace (ae_jx env) (traces ! index) else Null)))))))))"

definition handle_trace_transaction :: "'s tracing \<Rightarrow> ('c, 'w, 's) api_env \<Rightarrow> json \<Rightarrow> (('c, 'w) api, json) action" where
  "handle_trace_transaction tg env request =
     with_params env ''trace_transaction'' (\<lambda>n. \<not> n < 1) request (\<lambda>params.
     bind_a (param (from_json_bytes32 (ae_jx env)) params 0) (\<lambda>transaction_hash.
     with_transaction env (null_clauses env request) (\<lambda>rd _.
       bind_a (on_cache (read_transaction_by_hash (ae_cache env) (ae_x env) rd transaction_hash)) (\<lambda>tx_with_block.
       case tx_with_block of
         None \<Rightarrow> lift (reply_content env request Null)
       | Some tb \<Rightarrow>
           bind_a (lift (trace_transaction env tg rd tb)) (\<lambda>traces.
           lift (reply_content env request (Array (map (to_json_Trace (ae_jx env)) traces))))))))"

end
