(* ===== verification/Rpc_Methods.thy ===== *)
theory Rpc_Methods
  imports Rpc_Actions_Props Eth_Api_Accounts Eth_Api_Exec Eth_Logs Node_Apis Erigon_Api Rpc_Api_Table Debug_Api Trace_Api
begin

text \<open>
  The handlers as the methods of one object, \<^verbatim>\<open>RpcApi\<close> (\<^verbatim>\<open>commands/rpc_api.hpp\<close>), each under the name that the
  table of methods gives it. A handler answers with an envelope for the request and leaves no transaction
  open; the handler of the transition configuration is the exception.
\<close>

section \<open>The methods\<close>

text \<open>What single handlers use besides the environment that all of them share.\<close>

record ('f, 'h, 't, 'k) node =
  nd_floats :: "'f floats"
  nd_elapsed :: "nat \<Rightarrow> u64"
  nd_log_ext :: log_ext
  nd_terminal :: "json \<Rightarrow> u256 option option"
  nd_forks :: "json \<Rightarrow> u64 list option"
  nd_rules :: "'k chain_rules"
  nd_ops :: "('h, 't) tx_ops"
  nd_tx :: 't
  nd_location_of :: "bytes \<Rightarrow> bytes"
  nd_root_hash :: "(bytes \<times> bytes) list \<Rightarrow> bytes"

type_synonym ('c, 'w) handler = "json \<Rightarrow> (('c, 'w) api, json) action"

definition eth_block_methods :: "('c, 'w, 's) api_env \<Rightarrow> (string \<times> ('c, 'w) handler) list" where
  "eth_block_methods env =
     [(''handle_eth_block_number'', handle_eth_block_number env),
      (''handle_eth_chain_id'', handle_eth_chain_id env),
      (''handle_eth_protocol_version'', handle_eth_protocol_version env),
      (''handle_eth_syncing'', handle_eth_syncing env),
      (''handle_eth_gas_price'', handle_eth_gas_price env),
      (''handle_eth_get_block_by_hash'', handle_eth_get_block_by_hash env),
      (''handle_eth_get_block_by_number'', handle_eth_get_block_by_number env),
      (''handle_eth_get_block_transaction_count_by_hash'', handle_eth_get_block_transaction_count_by_hash env),
      (''handle_eth_get_block_transaction_count_by_number'', handle_eth_get_block_transaction_count_by_number env),
      (''handle_eth_get_uncle_by_block_hash_and_index'', handle_eth_get_uncle_by_block_hash_and_index env),
      (''handle_eth_get_uncle_by_block_number_and_index'', handle_eth_get_uncle_by_block_number_and_index env),
      (''handle_eth_get_uncle_count_by_block_hash'', handle_eth_get_uncle_count_by_block_hash env),
      (''handle_eth_get_uncle_count_by_block_number'', handle_eth_get_uncle_count_by_block_number env),
      (''handle_eth_get_transaction_by_hash'', handle_eth_get_transaction_by_hash env),
      (''handle_eth_get_transaction_by_block_hash_and_index'', handle_eth_get_transaction_by_block_hash_and_index env),
      (''handle_eth_get_transaction_by_block_number_and_index'', handle_eth_get_transaction_by_block_number_and_index env),
      (''handle_eth_get_raw_transaction_by_hash'', handle_eth_get_raw_transaction_by_hash env),
      (''handle_eth_get_raw_transaction_by_block_hash_and_index'', handle_eth_get_raw_transaction_by_block_hash_and_index env),
      (''handle_eth_get_raw_transaction_by_block_number_and_index'', handle_eth_get_raw_transaction_by_block_number_and_index env)]"

definition eth_account_methods :: "('f, 'h, 't, 'k) node \<Rightarrow> ('c, 'w, 's) api_env \<Rightarrow> (string \<times> ('c, 'w) handler) list" where
  "eth_account_methods nd env =
     [(''handle_eth_get_transaction_receipt'', handle_eth_get_transaction_receipt env),
      (''handle_eth_get_balance'', handle_eth_get_balance env),
      (''handle_eth_get_code'', handle_eth_get_code env),
      (''handle_eth_get_transaction_count'', handle_eth_get_transaction_count env),
      (''handle_eth_get_storage_at'', handle_eth_get_storage_at env),
      (''handle_eth_call'', handle_eth_call env),
      (''handle_eth_call_bundle'', handle_eth_call_bundle (nd_elapsed nd) env),
      (''handle_eth_create_access_list'', handle_eth_create_access_list env),
      (''handle_eth_new_filter'', handle_eth_new_filter env),
      (''handle_eth_new_block_filter'', handle_eth_new_block_filter env),
      (''handle_eth_new_pending_transaction_filter'', handle_eth_new_pending_transaction_filter env),
      (''handle_eth_get_filter_changes'', handle_eth_get_filter_changes env),
      (''handle_eth_uninstall_filter'', handle_eth_uninstall_filter env),
      (''handle_eth_get_logs'', handle_eth_get_logs (nd_log_ext nd) env),
      (''handle_eth_send_raw_transaction'', handle_eth_send_raw_transaction (nd_floats nd) env),
      (''handle_eth_send_transaction'', handle_eth_send_transaction env),
      (''handle_eth_sign_transaction'', handle_eth_sign_transaction env),
      (''handle_eth_get_proof'', handle_eth_get_proof env),
      (''handle_eth_mining'', handle_eth_mining env),
      (''handle_eth_coinbase'', handle_eth_coinbase env),
      (''handle_eth_hashrate'', handle_eth_hashrate env),
      (''handle_eth_submit_hashrate'', handle_eth_submit_hashrate env),
      (''handle_eth_get_work'', handle_eth_get_work env),
      (''handle_eth_submit_work'', handle_eth_submit_work env),
      (''handle_eth_subscribe'', handle_eth_subscribe env),
      (''handle_eth_unsubscribe'', handle_eth_unsubscribe env)]"

definition node_methods :: "('f, 'h, 't, 'k) node \<Rightarrow> ('c, 'w, 's) api_env \<Rightarrow> (string \<times> ('c, 'w) handler) list" where
  "node_methods nd env =
     [(''handle_net_listening'', handle_net_listening env),
      (''handle_net_peer_count'', handle_net_peer_count env),
      (''handle_net_version'', handle_net_version env),
      (''handle_web3_client_version'', handle_web3_client_version env),
      (''handle_web3_sha3'', handle_web3_sha3 env),
      (''handle_txpool_status'', handle_txpool_status env),
      (''handle_txpool_content'', handle_txpool_content env),
      (''handle_parity_get_block_receipts'', handle_parity_get_block_receipts env),
      (''handle_parity_list_storage_keys'', handle_parity_list_storage_keys (nd_ops nd) (nd_tx nd) (nd_location_of nd) env),
      (''handle_engine_get_payload_v1'', handle_engine_get_payload_v1 env),
      (''handle_engine_new_payload_v1'', handle_engine_new_payload_v1 env),
      (''handle_engine_forkchoice_updated_v1'', handle_engine_forkchoice_updated_v1 env),
      (''handle_ots_get_api_level'', handle_ots_get_api_level env),
      (''handle_ots_has_code'', handle_ots_has_code env)]"

definition erigon_methods :: "('f, 'h, 't, 'k) node \<Rightarrow> ('c, 'w, 's) api_env \<Rightarrow> (string \<times> ('c, 'w) handler) list" where
  "erigon_methods nd env =
     [(''handle_erigon_get_block_by_timestamp'', handle_erigon_get_block_by_timestamp env),
      (''handle_erigon_get_header_by_hash'', handle_erigon_get_header_by_hash env),
      (''handle_erigon_get_header_by_number'', handle_erigon_get_header_by_number env),
      (''handle_erigon_get_logs_by_hash'', handle_erigon_get_logs_by_hash env),
      (''handle_erigon_forks'', handle_erigon_forks (nd_forks nd) env),
      (''handle_erigon_watch_the_burn'', handle_erigon_watch_the_burn (nd_rules nd) env),
      (''handle_erigon_cumulative_chain_traffic'', handle_erigon_cumulative_chain_traffic env),
      (''handle_erigon_block_number'', handle_erigon_block_number env),
      (''handle_erigon_node_info'', handle_erigon_node_info env)]"

text \<open>The methods of debug and trace that reply with a value; the others write to a stream.\<close>

definition tracing_methods ::
  "'s tracing \<Rightarrow> ('f, 'h, 't, 'k) node \<Rightarrow> ('c, 'w, 's) api_env \<Rightarrow> (string \<times> ('c, 'w) handler) list" where
  "tracing_methods tg nd env =
     [(''handle_debug_account_range'', handle_debug_account_range (nd_ops nd) (nd_tx nd) (nd_root_hash nd) env),
      (''handle_debug_get_modified_accounts_by_number'', handle_debug_get_modified_accounts_by_number env),
      (''handle_debug_get_modified_accounts_by_hash'', handle_debug_get_modified_accounts_by_hash env),
      (''handle_debug_storage_range_at'', handle_debug_storage_range_at (nd_ops nd) (nd_tx nd) env),
      (''handle_trace_call'', handle_trace_call tg env),
      (''handle_trace_call_many'', handle_trace_call_many tg env),
      (''handle_trace_raw_transaction'', handle_trace_raw_transaction (nd_floats nd) tg env),
      (''handle_trace_replay_block_transactions'', handle_trace_replay_block_transactions tg env),
      (''handle_trace_replay_transaction'', handle_trace_replay_transaction tg env),
      (''handle_trace_block'', handle_trace_block (nd_rules nd) tg env),
      (''handle_trace_get'', handle_trace_get tg env),
      (''handle_trace_transaction'', handle_trace_transaction tg env)]"

definition settling_methods :: "'s tracing \<Rightarrow> ('f, 'h, 't, 'k) node \<Rightarrow> ('c, 'w, 's) api_env \<Rightarrow> (string \<times> ('c, 'w) handler) list" where
  "settling_methods tg nd env =
     eth_block_methods env @ eth_account_methods nd env @ node_methods nd env @ erigon_methods nd env @ tracing_methods tg nd env"

definition rpc_methods :: "'s tracing \<Rightarrow> ('f, 'h, 't, 'k) node \<Rightarrow> ('c, 'w, 's) api_env \<Rightarrow> (string \<times> ('c, 'w) handler) list" where
  "rpc_methods tg nd env =
     (''handle_engine_exchange_transition_configuration_v1'', handle_engine_exchange_transition_configuration_v1 (nd_terminal nd) env) #
     settling_methods tg nd env"

definition stream_methods ::
  "'s tracing \<Rightarrow> ('f, 'h, 't, 'k) node \<Rightarrow> ('c, 'w, 's) api_env \<Rightarrow> (string \<times> (json \<Rightarrow> (('c, 'w) streaming, unit) action)) list" where
  "stream_methods tg nd env =
     [(''handle_debug_trace_transaction'', handle_debug_trace_transaction tg env),
      (''handle_debug_trace_call'', handle_debug_trace_call tg env),
      (''handle_debug_trace_block_by_number'', handle_debug_trace_block_by_number tg env),
      (''handle_debug_trace_block_by_hash'', handle_debug_trace_block_by_hash tg env),
      (''handle_trace_filter'', handle_trace_filter (nd_rules nd) tg env)]"

section \<open>Quiet parts\<close>

lemma quiet_state_at [handler_rules]: "quiet (state_at env block_id rd cached)"
  unfolding state_at_def by (intro handler_rules)

lemma quiet_block_by_id [handler_rules]: "quiet (block_by_id env rd block_id)"
  unfolding block_by_id_def by (intro handler_rules)

lemma quiet_block_by_hash [handler_rules]: "quiet (block_by_hash env rd h)"
  unfolding block_by_hash_def by (intro handler_rules)

lemma quiet_recipient [handler_rules]: "quiet (recipient env db block call)"
  unfolding recipient_def by (intro handler_rules)

lemma quiet_matched_block_logs: "quiet (matched_block_logs env rd f n)"
  unfolding matched_block_logs_def by (intro handler_rules)

lemma quiet_logs_loop [handler_rules]: "quiet (logs_loop env rd f ns logs)"
proof (induction ns arbitrary: logs)
  case (Cons n ns)
  have "api_open (snd (matched_block_logs env rd f n s)) = api_open s" for s
    using quiet_matched_block_logs [of env rd f n] by (simp add: quiet_def)
  with Cons show ?case
    unfolding quiet_def by (auto split: prod.split sum.split) (metis snd_conv)+
qed (simp add: quiet_def)

lemma quiet_bundle_loop [handler_rules]: "quiet (bundle_loop env request elapsed timeout rd exec i hs b)"
proof (induction hs arbitrary: i b)
  case (Cons h hs)
  then show ?case unfolding bundle_loop.simps by (intro handler_rules)
qed (simp add: quiet_ret)

lemma quiet_call_block: "quiet (call_block env rd cached bnoh)"
  unfolding call_block_def by (intro handler_rules)

section \<open>Every handler\<close>

lemmas eth_block_defs =
  handle_eth_block_number_def handle_eth_chain_id_def handle_eth_protocol_version_def handle_eth_syncing_def
   handle_eth_get_block_by_hash_def handle_eth_get_block_by_number_def
  handle_eth_get_block_transaction_count_by_hash_def handle_eth_get_block_transaction_count_by_number_def
  handle_eth_get_uncle_by_block_hash_and_index_def handle_eth_get_uncle_by_block_number_and_index_def
  handle_eth_get_uncle_count_by_block_hash_def handle_eth_get_uncle_count_by_block_number_def
  handle_eth_get_transaction_by_hash_def handle_eth_get_transaction_by_block_hash_and_index_def
  handle_eth_get_transaction_by_block_number_and_index_def handle_eth_get_raw_transaction_by_hash_def
  handle_eth_get_raw_transaction_by_block_hash_and_index_def
  handle_eth_get_raw_transaction_by_block_number_and_index_def

lemmas eth_account_defs =
  handle_eth_get_transaction_receipt_def handle_eth_get_balance_def handle_eth_get_code_def
  handle_eth_get_transaction_count_def handle_eth_get_storage_at_def handle_eth_call_def 
  handle_eth_create_access_list_def handle_eth_new_filter_def handle_eth_new_block_filter_def
  handle_eth_new_pending_transaction_filter_def handle_eth_get_filter_changes_def handle_eth_uninstall_filter_def
  handle_eth_get_logs_def handle_eth_send_raw_transaction_def handle_eth_send_transaction_def
  handle_eth_sign_transaction_def handle_eth_get_proof_def handle_eth_mining_def handle_eth_coinbase_def
  handle_eth_hashrate_def handle_eth_submit_hashrate_def handle_eth_get_work_def handle_eth_submit_work_def
  handle_eth_subscribe_def handle_eth_unsubscribe_def

lemmas node_defs =
  handle_net_listening_def handle_net_peer_count_def handle_net_version_def handle_web3_client_version_def
  handle_web3_sha3_def handle_txpool_status_def handle_txpool_content_def handle_parity_get_block_receipts_def
  handle_parity_list_storage_keys_def handle_engine_get_payload_v1_def handle_engine_new_payload_v1_def
  handle_engine_forkchoice_updated_v1_def handle_ots_get_api_level_def handle_ots_has_code_def

lemmas erigon_defs =
  handle_erigon_get_block_by_timestamp_def handle_erigon_get_header_by_hash_def handle_erigon_get_header_by_number_def
  handle_erigon_get_logs_by_hash_def handle_erigon_forks_def handle_erigon_watch_the_burn_def
  handle_erigon_block_number_def handle_erigon_node_info_def

lemmas tracing_defs =
  handle_debug_account_range_def handle_debug_get_modified_accounts_by_number_def handle_debug_get_modified_accounts_by_hash_def
  handle_debug_storage_range_at_def handle_trace_call_def handle_trace_call_many_def handle_trace_raw_transaction_def
  handle_trace_replay_block_transactions_def handle_trace_replay_transaction_def handle_trace_block_def handle_trace_get_def
  handle_trace_transaction_def

context identified
begin

lemma good_reply_uncle: "good (ae_jx env) rid (reply_uncle env request rd h n index block)"
  unfolding reply_uncle_def by (intro handler_rules good_replies)

lemma good_reply_transaction_at:
  "good (ae_jx env) rid (reply_transaction_at env request index block)"
  "good (ae_jx env) rid (reply_raw_transaction_at env request index block)"
  unfolding reply_transaction_at_def reply_raw_transaction_at_def by (intro handler_rules good_replies)+

lemma good_reply_execution: "good (ae_jx env) rid (lift (reply_execution env request r))"
  by (cases "er_pre_check_error r")
    (auto intro!: good_lift simp: reply_execution_def replies reply_is_reply split: if_splits)

lemma access_list_reply_is_reply: "access_list_reply env request call r acl = Ok j \<Longrightarrow> is_reply (ae_jx env) rid j"
  by (auto simp: access_list_reply_def replies reply_is_reply)

end

lemma access_list_loop_reply:
  assumes "access_list_loop exec env request call = Some (Ok j)" "identified env request rid"
  shows "is_reply (ae_jx env) rid j"
proof -
  let ?P = "\<lambda>exec env request call y. identified env request rid \<longrightarrow> y = Ok j \<longrightarrow> is_reply (ae_jx env) rid j"
  have "?P exec env request call (Ok j)"
  proof (rule access_list_loop.raw_induct [where P = ?P, OF _ assms(1)])
    fix loop exec env request call y
    assume IH: "\<And>exec env request call y. loop exec env request call = Some y \<Longrightarrow> ?P exec env request call y"
      and step: "(case exec call of Inl e \<Rightarrow> Some (Throw e)
        | Inr (r, current_access_list) \<Rightarrow>
            (case er_pre_check_error r of
               Some error \<Rightarrow> Some (reply_error env request (- 32000) error)
             | None \<Rightarrow>
                 if compare (call_list call) current_access_list
                 then Some (access_list_reply env request call r current_access_list)
                 else loop exec env request (set_access_list current_access_list call))) = Some y"
    show "?P exec env request call y"
    proof (intro impI)
      assume i: "identified env request rid" and y: "y = Ok j"
      from step show "is_reply (ae_jx env) rid j"
        using i y identified.access_list_reply_is_reply [OF i] IH
        by (auto simp: identified.replies [OF i] identified.reply_is_reply [OF i] split: sum.splits option.splits if_splits)
    qed
  qed
  with assms show ?thesis by blast
qed

context identified
begin

lemma good_access_list_loop: "good (ae_jx env) rid (lift (returned (access_list_loop exec env request call)))"
  using identified_axioms
  by (auto intro!: good_lift simp: returned_def split: option.splits dest: access_list_loop_reply)

lemmas body_rules = handler_rules good_replies handles_replies handles_try_catch handles_with_transaction handles_with_params
  complete_clauses good_reply_uncle good_reply_transaction_at good_reply_execution good_access_list_loop

text \<open>After the loop over a bundle an error is set only together with a reply.\<close>

abbreviation bundle_ok :: "call_bundle \<Rightarrow> bool" where
  "bundle_ok b \<equiv> bn_error b \<longrightarrow> (\<exists>j. bn_reply b = Some j \<and> is_reply (ae_jx env) rid j)"

lemma yields_bundle_loop: "bundle_ok b \<Longrightarrow> yields bundle_ok (bundle_loop env request elapsed timeout rd exec i hs b)"
proof (induction hs arbitrary: i b)
  case (Cons h hs)
  show ?case
    unfolding bundle_loop.simps
    by (intro yields_bind yields_option yields_if yields_lift_bind)
      (use Cons in \<open>auto intro!: yields_ret simp: replies reply_is_reply\<close>)
qed (simp add: yields_ret)

lemma good_bundle_reply: "bundle_ok b \<Longrightarrow> good (ae_jx env) rid (lift (bundle_reply env request b))"
  by (auto intro!: good_lift simp: bundle_reply_def replies reply_is_reply)

lemma handles_gas_price: "handles (ae_jx env) rid (handle_eth_gas_price env request)"
  unfolding handle_eth_gas_price_def
  by (intro body_rules, rule good_state) (intro body_rules)

lemma eth_block_methods_handle: "list_all (\<lambda>(name, h). handles (ae_jx env) rid (h request)) (eth_block_methods env)"
  unfolding eth_block_methods_def eth_block_defs list.pred_inject(2) prod.case
  by (intro conjI list.pred_inject(1) handles_gas_price body_rules)

lemma good_bundle:
  "good (ae_jx env) rid (bind_a (bundle_loop env request elapsed timeout rd exec i hs empty_bundle) (\<lambda>b. lift (bundle_reply env request b)))"
  by (rule good_bind_yields [OF quiet_bundle_loop yields_bundle_loop good_bundle_reply]) (simp_all add: empty_bundle_def)

lemma handles_call_bundle: "handles (ae_jx env) rid (handle_eth_call_bundle elapsed env request)"
  unfolding handle_eth_call_bundle_def by (intro good_bundle good_handles [OF good_bind_r] body_rules)

lemma good_case_invalid_argument:
  assumes "\<And>w. good (ae_jx env) rid (f w)"
  shows "good (ae_jx env) rid (case e of Invalid_argument w \<Rightarrow> f w | e' \<Rightarrow> lift (Throw e'))"
  by (cases e) (simp_all add: assms good_throw)

lemma eth_account_methods_handle: "list_all (\<lambda>(name, h). handles (ae_jx env) rid (h request)) (eth_account_methods nd env)"
  unfolding eth_account_methods_def eth_account_defs reply_zero_def mining_clauses_def reply_logs_def list.pred_inject(2) prod.case
  by (intro conjI list.pred_inject(1) handles_call_bundle body_rules good_case_invalid_argument)

lemma handles_with_params_at:
  assumes "\<And>params. handles (ae_jx env) rid (body params)"
  shows "handles (ae_jx env) rid (with_params_at env name ok request body)"
  unfolding with_params_at_def by (intro body_rules assms)

lemma node_methods_handle: "list_all (\<lambda>(name, h). handles (ae_jx env) rid (h request)) (node_methods nd env)"
  unfolding node_methods_def node_defs engine_clauses_def list.pred_inject(2) prod.case
  by (intro conjI list.pred_inject(1) body_rules handles_with_params_at)

lemma handles_chain_traffic: "handles (ae_jx env) rid (handle_erigon_cumulative_chain_traffic env request)"
  unfolding handle_erigon_cumulative_chain_traffic_def
  by (intro body_rules handles_with_transaction_bare) (auto simp: lift_def replies split: sum.splits prod.splits if_splits)

lemma erigon_methods_handle: "list_all (\<lambda>(name, h). handles (ae_jx env) rid (h request)) (erigon_methods nd env)"
  unfolding erigon_methods_def erigon_defs list.pred_inject(2) prod.case
  by (intro conjI list.pred_inject(1) handles_chain_traffic body_rules)

lemma good_trace_replies:
  "good (ae_jx env) rid (lift (trace_result_reply env request r))" "good (ae_jx env) rid (lift (addresses_reply env request adrs))"
  "good (ae_jx env) rid (lift (case x of None \<Rightarrow> reply_content env request j | Some error \<Rightarrow> reply_error env request c error))"
  by (auto intro!: good_lift simp: trace_result_reply_def addresses_reply_def replies reply_is_reply split: option.splits)

lemma complete_modified: "complete (modified_clauses env request)"
  unfolding complete_def
proof
  fix e
  have "complete (catch_std env request 100)" by (rule complete_catch_std)
  then show "case what_of e of None \<Rightarrow> modified_clauses env request e = None
    | Some w \<Rightarrow> \<exists>j. modified_clauses env request e = Some (Ok j) \<and> is_reply (ae_jx env) rid j"
    by (cases e) (simp_all add: complete_def modified_clauses_def catch_std_def replies reply_is_reply)
qed

lemma complete_null: "complete (null_clauses env request)"
  by (simp add: complete_def null_clauses_def replies reply_is_reply split: option.splits)

lemma good_list: "good jx rid f \<Longrightarrow> (\<And>x ys. good jx rid (g x ys)) \<Longrightarrow> good jx rid (case xs of [] \<Rightarrow> f | x # ys \<Rightarrow> g x ys)"
  by (cases xs) simp_all

lemma tracing_methods_handle: "list_all (\<lambda>(name, h). handles (ae_jx env) rid (h request)) (tracing_methods tg nd env)"
  unfolding tracing_methods_def tracing_defs list.pred_inject(2) prod.case
  by (intro conjI list.pred_inject(1) body_rules good_trace_replies good_list complete_modified complete_null quiet_call_block)

end

end
