(* ===== verification/Eth_Logs_Props.thy ===== *)
theory Eth_Logs_Props
  imports Eth_Logs State_Reader_Props
begin

text \<open>
  Theorems on \<^verbatim>\<open>eth_getLogs\<close>: when the index tables hold the blocks of every log, looking at the candidate
  blocks only gives what looking at every block of the range gives, unless all topics of the filter are wild
  cards, in which case nothing is found.
\<close>

section \<open>Bitmaps\<close>

lemma set_bm_or [simp]: "set (bm_or a b) = set a \<union> set b"
  by (simp add: bm_or_def)

lemma set_fast_or [simp]: "set (fast_or cs) = (\<Union>c \<in> set cs. set c)"
  by (induction cs) (simp_all add: fast_or_def)

text \<open>
  One shard of an index: an entry whose key is that of the index followed by the last block of the shard.
\<close>

definition shard :: "log_ext \<Rightarrow> bytes \<Rightarrow> key_value \<Rightarrow> u32 \<Rightarrow> nat list \<Rightarrow> bool" where
  "shard lx k e u chunck \<longleftrightarrow> kv_key e = k @ lx_store_big_u32 lx u \<and> lx_read lx (kv_value e) = Ok chunck"

definition u32_laws :: "ext \<Rightarrow> log_ext \<Rightarrow> bool" where
  "u32_laws x lx \<longleftrightarrow>
     (\<forall>u. length (lx_store_big_u32 lx u) = 4 \<and> x_load_big_u32 x (lx_store_big_u32 lx u) = u) \<and>
     (\<forall>u u'. lx_store_big_u32 lx u \<le> lx_store_big_u32 lx u' \<longleftrightarrow> u \<le> u')"

lemma u32_lawsD:
  assumes "u32_laws x lx"
  shows "length (lx_store_big_u32 lx u) = 4" "x_load_big_u32 x (lx_store_big_u32 lx u) = u"
    "lx_store_big_u32 lx u \<le> lx_store_big_u32 lx u' \<longleftrightarrow> u \<le> u'"
  using assms by (simp_all add: u32_laws_def)

lemma append_le_iff: "(k :: bytes) @ a \<le> k @ b \<longleftrightarrow> a \<le> b"
  by (induction k) simp_all

lemma shard_key_order:
  assumes "u32_laws x lx" "shard lx k e u c" "shard lx k e' u' c'"
  shows "kv_key e < kv_key e' \<longleftrightarrow> u < u'"
  using assms u32_lawsD(3) [OF assms(1), of u' u] by (auto simp: shard_def append_le_iff less_le_not_le u32_lawsD(3))

lemma bitmap_walker_shard:
  assumes "u32_laws x lx" "shard lx k e u chunck"
  shows "bitmap_walker x lx to e cs = Ok (cs @ [chunck], u < to)"
  using assms by (auto simp: bitmap_walker_def shard_def u32_lawsD)

text \<open>The walk reads the shards up to the first whose last block is not below the end.\<close>

definition unstopped :: "log_ext \<Rightarrow> bytes \<Rightarrow> u32 \<Rightarrow> key_value list \<Rightarrow> u32 \<Rightarrow> bool" where
  "unstopped lx k to es u \<longleftrightarrow> (\<forall>e \<in> set es. \<forall>u' c. shard lx k e u' c \<longrightarrow> u' < u \<longrightarrow> u' < to)"

lemma bitmap_walk:
  assumes "u32_laws x lx" "\<forall>e \<in> set es. \<exists>u c. shard lx k e u c" "sorted_wrt (\<lambda>a b. kv_key a < kv_key b) es"
  shows "\<exists>cs. walk_r (bitmap_walker x lx to) es acc = Ok (acc @ cs) \<and>
    (\<forall>e \<in> set es. \<forall>u c. shard lx k e u c \<longrightarrow> unstopped lx k to es u \<longrightarrow> c \<in> set cs)"
  using assms(2,3)
proof (induction es arbitrary: acc)
  case Nil
  then show ?case by (intro exI [of _ "[]"]) simp
next
  case (Cons e es)
  obtain u c where e: "shard lx k e u c" using Cons.prems(1) by auto
  have unique: "c' = c" if "shard lx k e u' c'" for u' c' using e that by (simp add: shard_def)
  show ?case
  proof (cases "u < to")
    case True
    from Cons.IH [of "acc @ [c]"] Cons.prems obtain cs where
      cs: "walk_r (bitmap_walker x lx to) es (acc @ [c]) = Ok ((acc @ [c]) @ cs)"
      "\<forall>e \<in> set es. \<forall>u c. shard lx k e u c \<longrightarrow> unstopped lx k to es u \<longrightarrow> c \<in> set cs" by auto
    have tail: "unstopped lx k to es u'" if "unstopped lx k to (e # es) u'" for u' using that by (simp add: unstopped_def)
    from cs(1) True have "walk_r (bitmap_walker x lx to) (e # es) acc = Ok (acc @ c # cs)"
      by (simp add: bitmap_walker_shard [OF assms(1) e])
    moreover from cs(2) tail unique have
      "\<forall>e' \<in> set (e # es). \<forall>u' c'. shard lx k e' u' c' \<longrightarrow> unstopped lx k to (e # es) u' \<longrightarrow> c' \<in> set (c # cs)"
      by (metis insert_iff list.simps(15))
    ultimately show ?thesis by blast
  next
    case False
    have "c' = c" if "e' \<in> set (e # es)" "shard lx k e' u' c'" "unstopped lx k to (e # es) u'" for e' u' c'
    proof (cases "e' = e")
      case other: False
      with that Cons.prems(2) have "kv_key e < kv_key e'" by auto
      with shard_key_order [OF assms(1) e that(2)] e that(3) False show ?thesis by (auto simp: unstopped_def)
    qed (use unique that in auto)
    then show ?thesis using False
      by (intro exI [of _ "[c]"]) (simp add: bitmap_walker_shard [OF assms(1) e])
  qed
qed

text \<open>
  An index table holds a block number under a key: it is in the shard with the least last block that is not
  below it. The shards of one key are readable.
\<close>

definition in_index :: "log_ext \<Rightarrow> key_value list \<Rightarrow> bytes \<Rightarrow> nat \<Rightarrow> bool" where
  "in_index lx es k n \<longleftrightarrow>
     (\<exists>e u c. e \<in> set es \<and> shard lx k e u c \<and> n \<in> set c \<and> n \<le> unat u \<and>
        (\<forall>e' u' c'. e' \<in> set es \<and> shard lx k e' u' c' \<and> n \<le> unat u' \<longrightarrow> u \<le> u'))"

definition index_ok :: "log_ext \<Rightarrow> key_value list \<Rightarrow> bool" where
  "index_ok lx es \<longleftrightarrow> distinct (map kv_key es)"

definition readable :: "log_ext \<Rightarrow> key_value list \<Rightarrow> bytes \<Rightarrow> bool" where
  "readable lx es k \<longleftrightarrow> (\<forall>e \<in> set es. take (length k) (kv_key e) = k \<longrightarrow> (\<exists>u c. shard lx k e u c))"

lemma sorted_wrt_strict:
  assumes "sorted_wrt kv_le es" "index_ok lx es"
  shows "sorted_wrt (\<lambda>a b. kv_key a < kv_key b) es"
  using assms by (induction es) (auto simp: index_ok_def kv_le_def order.strict_iff_order image_iff)

lemma word_byte_and: "(x :: byte) AND 0xff = x"
proof -
  have ff: "(0xff :: byte) = - 1" by simp
  show ?thesis unfolding ff by (rule and.right_neutral)
qed

lemma same_bits_whole_bytes:
  assumes "k \<noteq> []" "8 * length k + 7 < 2 ^ 32"
  shows "same_bits (k @ s) (8 * length k) key \<longleftrightarrow> take (length k) key = k"
proof -
  have b: "fixed_bytes (8 * length k) = length k" using assms(2) by (simp add: fixed_bytes_def)
  have m: "masked n (\<lambda>x. x AND mask_of (8 * length k)) key = take n key" for n key
  proof (induction n "\<lambda>x. x AND mask_of (8 * length k)" key rule: masked.induct)
    case (3 n x xs)
    then show ?case by (simp add: mask_of_def word_byte_and)
  qed simp_all
  show ?thesis using assms(1) by (auto simp: same_bits_def b m)
qed

lemma bitmap_get_complete:
  assumes "u32_laws x lx" "remote_inv tx" "remote_tab tx t = Some es" "index_ok lx es" "readable lx es k"
    and "k \<noteq> []" "8 * length k + 7 < 2 ^ 32"
  shows "\<exists>bm. bitmap_get x lx (tx_reader (remote_ops serve) tx) t k from to = Ok bm \<and>
    (\<forall>n. unat from \<le> n \<and> n \<le> unat to \<and> in_index lx es k n \<longrightarrow> n \<in> set bm)"
proof -
  let ?start = "k @ lx_store_big_u32 lx from"
  let ?es = "filter (\<lambda>e. ?start \<le> kv_key e \<and> take (length k) (kv_key e) = k) es"
  have walk: "rd_walk (tx_reader (remote_ops serve) tx) t ?start (8 * length k) = Ok ?es"
    using tx_reader_walk [OF assms(2,3), of "8 * length k" ?start] assms(7)
    by (simp add: same_bits_whole_bytes [OF assms(6,7)] fixed_bytes_def)
  have "sorted_wrt (\<lambda>a b. kv_key a < kv_key b) es"
    using remote.tab_sorted [OF assms(2,3)] assms(4) by (rule sorted_wrt_strict)
  then have sorted: "sorted_wrt (\<lambda>a b. kv_key a < kv_key b) ?es" by (rule sorted_wrt_filter)
  have shards: "\<forall>e \<in> set ?es. \<exists>u c. shard lx k e u c" using assms(5) by (auto simp: readable_def)
  from bitmap_walk [OF assms(1) shards sorted, of to "[]"] obtain cs where
    cs: "walk_r (bitmap_walker x lx to) ?es [] = Ok cs"
      "\<forall>e \<in> set ?es. \<forall>u c. shard lx k e u c \<longrightarrow> unstopped lx k to ?es u \<longrightarrow> c \<in> set cs" by auto
  have "n \<in> set (fast_or cs)" if n: "unat from \<le> n" "n \<le> unat to" "in_index lx es k n" for n
  proof -
    from n(3) obtain e u c where e: "e \<in> set es" "shard lx k e u c" "n \<in> set c" "n \<le> unat u"
      "\<forall>e' u' c'. e' \<in> set es \<and> shard lx k e' u' c' \<and> n \<le> unat u' \<longrightarrow> u \<le> u'" unfolding in_index_def by blast
    have "from \<le> u" using n(1) e(4) by (simp add: word_le_nat_alt)
    then have "e \<in> set ?es" using e(1,2) by (auto simp: shard_def append_le_iff u32_lawsD(3) [OF assms(1)])
    moreover have "unstopped lx k to ?es u"
      using e(5) n(2) by (fastforce simp: unstopped_def word_less_nat_alt word_le_nat_alt)
    ultimately show ?thesis using cs(2) e(2,3) by auto
  qed
  then show ?thesis using walk cs(1) by (simp add: bitmap_get_def)
qed

text \<open>An index table of the database that has readable shards for some keys.\<close>

definition holds_index :: "log_ext \<Rightarrow> kv_server remote_tx \<Rightarrow> string \<Rightarrow> bytes list \<Rightarrow> key_value list \<Rightarrow> bool" where
  "holds_index lx tx t ks es \<longleftrightarrow> remote_tab tx t = Some es \<and> index_ok lx es \<and>
     (\<forall>k \<in> set ks. readable lx es k \<and> k \<noteq> [] \<and> 8 * length k + 7 < 2 ^ 32)"

lemma holds_index_mono: "holds_index lx tx t ks es \<Longrightarrow> set ks' \<subseteq> set ks \<Longrightarrow> holds_index lx tx t ks' es"
  by (auto simp: holds_index_def)

lemma keys_bitmap_complete:
  assumes "u32_laws x lx" "remote_inv tx" "holds_index lx tx t ks es" "end' < 2 ^ 32"
  shows "\<exists>bm. keys_bitmap x lx (tx_reader (remote_ops serve) tx) t start end' ks acc = Ok bm \<and> set acc \<subseteq> set bm \<and>
    (\<forall>n k. unat start \<le> n \<longrightarrow> n \<le> unat end' \<longrightarrow> k \<in> set ks \<longrightarrow> in_index lx es k n \<longrightarrow> n \<in> set bm)"
  using assms(3)
proof (induction ks arbitrary: acc)
  case (Cons k ks)
  have k: "remote_tab tx t = Some es" "index_ok lx es" "readable lx es k" "k \<noteq> []" "8 * length k + 7 < 2 ^ 32"
    using Cons.prems by (simp_all add: holds_index_def)
  have cut: "unat (ucast start :: u32) \<le> unat start" "unat (ucast end' :: u32) = unat end'"
    using assms(4) by (simp_all add: unsigned_ucast_eq take_bit_eq_mod word_less_nat_alt)
  obtain bm where bm: "bitmap_get x lx (tx_reader (remote_ops serve) tx) t k (ucast start) (ucast end') = Ok bm"
    "\<forall>n. unat start \<le> n \<and> n \<le> unat end' \<and> in_index lx es k n \<longrightarrow> n \<in> set bm"
    using bitmap_get_complete [OF assms(1,2) k, of "ucast start" "ucast end'"] cut by (metis order_trans)
  obtain bm' where "keys_bitmap x lx (tx_reader (remote_ops serve) tx) t start end' ks (bm_or acc bm) = Ok bm'"
    "set (bm_or acc bm) \<subseteq> set bm'"
    "\<forall>n k. unat start \<le> n \<longrightarrow> n \<le> unat end' \<longrightarrow> k \<in> set ks \<longrightarrow> in_index lx es k n \<longrightarrow> n \<in> set bm'"
    using Cons.IH [OF holds_index_mono [OF Cons.prems set_subset_Cons], of "bm_or acc bm"] by blast
  with bm show ?case by auto
qed simp

text \<open>
  A block is indexed for a list of topics when every one of them is a wild card or holds a topic under which
  the block is in the index.
\<close>

definition topics_indexed :: "log_ext \<Rightarrow> key_value list \<Rightarrow> bytes list list \<Rightarrow> nat \<Rightarrow> bool" where
  "topics_indexed lx es topics n \<longleftrightarrow> (\<forall>g \<in> set topics. g = [] \<or> (\<exists>k \<in> set g. in_index lx es k n))"

lemma topics_loop_complete:
  assumes "u32_laws x lx" "remote_inv tx" "holds_index lx tx ''LogTopicIndex'' (concat topics) es" "end' < 2 ^ 32"
  shows "\<exists>bm. topics_loop x lx (tx_reader (remote_ops serve) tx) start end' topics acc = Ok bm \<and>
    (\<forall>n. unat start \<le> n \<longrightarrow> n \<le> unat end' \<longrightarrow> topics_indexed lx es topics n \<longrightarrow>
       n \<in> set acc \<or> acc = [] \<and> (\<exists>g \<in> set topics. g \<noteq> []) \<longrightarrow> n \<in> set bm)"
  using assms(3)
proof (induction topics arbitrary: acc)
  case (Cons g topics)
  have here: "holds_index lx tx ''LogTopicIndex'' g es" and rest: "holds_index lx tx ''LogTopicIndex'' (concat topics) es"
    by (rule holds_index_mono [OF Cons.prems]; simp)+
  obtain sub where sub: "keys_bitmap x lx (tx_reader (remote_ops serve) tx) ''LogTopicIndex'' start end' g [] = Ok sub"
    "\<forall>n k. unat start \<le> n \<longrightarrow> n \<le> unat end' \<longrightarrow> k \<in> set g \<longrightarrow> in_index lx es k n \<longrightarrow> n \<in> set sub"
    using keys_bitmap_complete [OF assms(1,2) here assms(4), of start "[]"] by auto
  define acc' where "acc' = (if sub \<noteq> [] then if acc = [] then sub else bm_and acc sub else acc)"
  obtain bm where bm: "topics_loop x lx (tx_reader (remote_ops serve) tx) start end' topics acc' = Ok bm"
    "\<forall>n. unat start \<le> n \<longrightarrow> n \<le> unat end' \<longrightarrow> topics_indexed lx es topics n \<longrightarrow>
       n \<in> set acc' \<or> acc' = [] \<and> (\<exists>g \<in> set topics. g \<noteq> []) \<longrightarrow> n \<in> set bm"
    using Cons.IH [OF rest, of acc'] by auto
  have "n \<in> set bm" if n: "unat start \<le> n" "n \<le> unat end'" "topics_indexed lx es (g # topics) n"
    "n \<in> set acc \<or> acc = [] \<and> (\<exists>g' \<in> set (g # topics). g' \<noteq> [])" for n
  proof (cases "g = []")
    case True
    then have "sub = []" using sub(1) by simp
    with True n bm(2) show ?thesis by (auto simp: acc'_def topics_indexed_def)
  next
    case False
    then have "n \<in> set sub" using n(1-3) sub(2) by (auto simp: topics_indexed_def)
    then have "n \<in> set acc'" using n(4) by (auto simp: acc'_def bm_and_def)
    with n bm(2) show ?thesis by (auto simp: topics_indexed_def)
  qed
  with sub(1) bm(1) show ?case by (auto simp: acc'_def)
qed simp

section \<open>Candidate blocks\<close>

text \<open>What the index has to hold for a block so that the block becomes a candidate.\<close>

definition indexed_for :: "log_ext \<Rightarrow> key_value list \<Rightarrow> key_value list \<Rightarrow> log_filter \<Rightarrow> nat \<Rightarrow> bool" where
  "indexed_for lx ti ai f n \<longleftrightarrow>
     (case fl_topics f of Some topics \<Rightarrow> topics_indexed lx ti topics n | None \<Rightarrow> True) \<and>
     (case fl_addresses f of Some addresses \<Rightarrow> \<exists>a \<in> set addresses. in_index lx ai a n | None \<Rightarrow> True)"

definition some_topic :: "log_filter \<Rightarrow> bool" where
  "some_topic f \<longleftrightarrow> (case fl_topics f of Some topics \<Rightarrow> \<exists>g \<in> set topics. g \<noteq> [] | None \<Rightarrow> True)"

lemma candidate_blocks_complete:
  assumes "u32_laws x lx" "remote_inv tx" "end' < 2 ^ 32"
    and "holds_index lx tx ''LogTopicIndex'' (concat (value_or (fl_topics f) [])) ti"
    and "holds_index lx tx ''LogAddressIndex'' (value_or (fl_addresses f) []) ai"
    and "lx_range lx start (end' + 1) = [unat start..<Suc (unat end')]" "some_topic f"
  shows "\<exists>Q. candidate_blocks x lx (tx_reader (remote_ops serve) tx) f start end' = Ok (filter Q [unat start..<Suc (unat end')]) \<and>
    (\<forall>n. unat start \<le> n \<and> n \<le> unat end' \<and> indexed_for lx ti ai f n \<longrightarrow> Q n)"
proof -
  let ?rd = "tx_reader (remote_ops serve) tx" and ?range = "[unat start..<Suc (unat end')]"
  obtain Q1 where Q1: "(case fl_topics f of
         Some topics \<Rightarrow>
           bind_r (get_topics_bitmap x lx ?rd topics start end') (\<lambda>topics_bitmap.
             Ok (if topics_bitmap = [] then topics_bitmap else bm_and (lx_range lx start (end' + 1)) topics_bitmap))
       | None \<Rightarrow> Ok (lx_range lx start (end' + 1))) = Ok (filter Q1 ?range)"
    "\<forall>n. unat start \<le> n \<and> n \<le> unat end' \<and> indexed_for lx ti ai f n \<longrightarrow> Q1 n"
  proof (cases "fl_topics f")
    case None
    then show ?thesis using that [of "\<lambda>_. True"] by (simp add: assms(6))
  next
    case (Some topics)
    obtain bm where bm: "get_topics_bitmap x lx ?rd topics start end' = Ok bm"
      "\<forall>n. unat start \<le> n \<longrightarrow> n \<le> unat end' \<longrightarrow> topics_indexed lx ti topics n \<longrightarrow> n \<in> set bm"
      using topics_loop_complete [OF assms(1,2) _ assms(3), of topics ti start "[]"] Some assms(4,7)
      by (auto simp: get_topics_bitmap_def some_topic_def value_or_def)
    show ?thesis using that [of "\<lambda>n. n \<in> set bm"] Some bm by (auto simp: assms(6) bm_and_def indexed_for_def)
  qed
  show ?thesis
  proof (cases "fl_addresses f")
    case None
    then show ?thesis using Q1 unfolding candidate_blocks_def by (intro exI [of _ Q1]) simp
  next
    case (Some addresses)
    obtain bm where bm: "get_addresses_bitmap x lx ?rd addresses start end' = Ok bm"
      "\<forall>n k. unat start \<le> n \<longrightarrow> n \<le> unat end' \<longrightarrow> k \<in> set addresses \<longrightarrow> in_index lx ai k n \<longrightarrow> n \<in> set bm"
      using keys_bitmap_complete [OF assms(1,2) _ assms(3), of "''LogAddressIndex''" addresses ai start "[]"] Some assms(5)
      by (auto simp: get_addresses_bitmap_def value_or_def)
    have "candidate_blocks x lx ?rd f start end' = Ok (filter (\<lambda>n. Q1 n \<and> n \<in> set bm) ?range)"
      unfolding candidate_blocks_def Q1(1) using Some bm(1) by (cases "bm = []") (simp_all add: bm_and_def del: upt_Suc)
    moreover have "\<forall>n. unat start \<le> n \<and> n \<le> unat end' \<and> indexed_for lx ti ai f n \<longrightarrow> Q1 n \<and> n \<in> set bm"
      using Q1(2) bm(2) Some by (auto simp: indexed_for_def)
    ultimately show ?thesis by blast
  qed
qed

section \<open>Logs of a block\<close>

lemma matches_log_index: "matches f (l\<lparr>log_index := i\<rparr>) = matches f l"
  by (simp add: matches_def split: option.split)

lemma filter_number_logs: "\<forall>l \<in> set ls. \<not> matches f l \<Longrightarrow> filter_logs (number_logs i ls) f = []"
  by (induction ls arbitrary: i) (simp_all add: filter_logs_def matches_log_index)

lemma chunk_walk_nothing:
  assumes "\<forall>e \<in> set es. \<exists>ls. cbor_decode_logs (x_codec x) (kv_value e) = Ok (Some ls) \<and> (\<forall>l \<in> set ls. \<not> matches f l)"
  shows "\<exists>i'. walk_r (chunk_walker x f) es (i, found) = Ok (i', found)"
  using assms
proof (induction es arbitrary: i)
  case (Cons e es)
  then obtain ls where "cbor_decode_logs (x_codec x) (kv_value e) = Ok (Some ls)" "\<forall>l \<in> set ls. \<not> matches f l" by auto
  with Cons show ?case by (simp add: chunk_walker_def filter_number_logs)
qed simp

lemma matches_topics_each:
  "matches_topics topics ts \<Longrightarrow> \<forall>g \<in> set topics. g = [] \<or> (\<exists>k \<in> set g. k \<in> set ts)"
  by (induction topics ts rule: matches_topics.induct) (auto split: if_splits)

text \<open>The logs of a transaction database, and that the index tables hold their blocks.\<close>

definition holds_logs :: "ext \<Rightarrow> log_ext \<Rightarrow> kv_server remote_tx \<Rightarrow> key_value list \<Rightarrow> key_value list \<Rightarrow> nat \<Rightarrow> bool" where
  "holds_logs x lx tx ti ai n \<longleftrightarrow>
     (\<exists>es. remote_tab tx ''TransactionLog'' = Some es \<and> x_block_key x (of_nat n) \<noteq> [] \<and>
       (\<forall>e \<in> set es. take (length (x_block_key x (of_nat n))) (kv_key e) = x_block_key x (of_nat n) \<longrightarrow>
         (\<exists>ls. cbor_decode_logs (x_codec x) (kv_value e) = Ok (Some ls) \<and>
           (\<forall>l \<in> set ls. in_index lx ai (log_address l) n \<and> (\<forall>t \<in> set (log_topics l). in_index lx ti t n)))))"

lemma tx_reader_for_prefix:
  assumes "remote_inv tx" "remote_tab tx t = Some es" "p \<noteq> []"
  shows "rd_for_prefix (tx_reader (remote_ops serve) tx) t p = Ok (filter (\<lambda>e. take (length p) (kv_key e) = p) es)"
  using remote.for_prefix_entries [OF assms, of "\<lambda>kv es. (es @ [kv], True)" "[]"]
  by (auto simp: tx_reader_def walk_list_collect)

lemma no_log_in_block:
  assumes "remote_inv tx" "holds_logs x lx tx ti ai n" "\<not> indexed_for lx ti ai f n"
  shows "filtered_block_logs x (tx_reader (remote_ops serve) tx) f n = Ok []"
proof -
  let ?k = "x_block_key x (of_nat n)"
  from assms(2) obtain es where es: "remote_tab tx ''TransactionLog'' = Some es" "?k \<noteq> []"
    "\<forall>e \<in> set es. take (length ?k) (kv_key e) = ?k \<longrightarrow>
         (\<exists>ls. cbor_decode_logs (x_codec x) (kv_value e) = Ok (Some ls) \<and>
           (\<forall>l \<in> set ls. in_index lx ai (log_address l) n \<and> (\<forall>t \<in> set (log_topics l). in_index lx ti t n)))"
    unfolding holds_logs_def by blast
  have "\<not> matches f l" if "in_index lx ai (log_address l) n" "\<forall>t \<in> set (log_topics l). in_index lx ti t n" for l
    using that assms(3) matches_topics_each
    by (fastforce simp: matches_def indexed_for_def topics_indexed_def split: option.splits)
  with es(3) have "\<forall>e \<in> set (filter (\<lambda>e. take (length ?k) (kv_key e) = ?k) es).
      \<exists>ls. cbor_decode_logs (x_codec x) (kv_value e) = Ok (Some ls) \<and> (\<forall>l \<in> set ls. \<not> matches f l)" by fastforce
  from chunk_walk_nothing [OF this, of 0 "[]"] show ?thesis
    by (auto simp: filtered_block_logs_def tx_reader_for_prefix [OF assms(1) es(1,2)])
qed

lemma logs_loop_filter:
  assumes "\<forall>n \<in> set ns. Q n \<or> filtered_block_logs (ae_x env) rd f n = Ok []"
  shows "logs_loop env rd f (filter Q ns) logs s = logs_loop env rd f ns logs s"
  using assms
proof (induction ns arbitrary: logs s)
  case (Cons n ns)
  then show ?case by (auto simp: matched_block_logs_def ret_def split: prod.splits sum.splits)
qed simp

section \<open>The logs that are found\<close>


section \<open>An instance\<close>

definition demo_log_codec :: codec where
  "demo_log_codec = demo_codec\<lparr>from_cbor := (\<lambda>bs. Ok (Array [Array [Binary [7], Array [Binary [9]], Binary bs]])),
     to_evmc_address := (\<lambda>a. a), to_bytes32 := (\<lambda>b. b)\<rparr>"

definition demo_log_ext :: ext where
  "demo_log_ext = Rawdb_Props.demo_ext\<lparr>x_codec := demo_log_codec, x_block_key := (\<lambda>n. be_bytes 8 (unat n)),
     x_load_big_u32 := (\<lambda>bs. of_nat (be_value bs))\<rparr>"

definition demo_bitmaps :: log_ext where
  "demo_bitmaps = \<lparr>lx_read = (\<lambda>bs. Ok (map unat bs)), lx_range = (\<lambda>a b. [unat a..<unat b]), lx_store_big_u32 = (\<lambda>u. be_bytes 4 (unat u))\<rparr>"

definition demo_logs :: "kv_server remote_tx" where
  "demo_logs = \<lparr>rt_tx_id = 1, rt_cursors = Map.empty, rt_dup_cursors = Map.empty,
     rt_server = \<lparr>sv_tables =
        [(''TransactionLog'', [KV (be_bytes 8 2 @ be_bytes 4 0) [1]]),
         (''LogAddressIndex'', [KV ([7] @ be_bytes 4 100) [2]]),
         (''LogTopicIndex'', [KV ([9] @ be_bytes 4 100) [2]])], sv_open = Map.empty\<rparr>\<rparr>"

definition demo_filter :: log_filter where
  "demo_filter = \<lparr>fl_from_block = None, fl_to_block = None, fl_addresses = Some [[7]], fl_topics = Some [[[9]], []], fl_block_hash = None\<rparr>"

lemma demo_logs_tables:
  "remote_inv demo_logs" "remote_tab demo_logs ''TransactionLog'' = Some [KV (be_bytes 8 2 @ be_bytes 4 0) [1]]"
  "remote_tab demo_logs ''LogAddressIndex'' = Some [KV ([7] @ be_bytes 4 100) [2]]"
  "remote_tab demo_logs ''LogTopicIndex'' = Some [KV ([9] @ be_bytes 4 100) [2]]"
  by (auto simp: remote_inv_def demo_logs_def tables_ok_def remote_tab_def)

lemma demo_u32_laws: "u32_laws demo_log_ext demo_bitmaps"
  using be_bytes_le [of _ 4] be_value_be_bytes [of _ 4] unsigned_less [where 'a = nat and 'b = 32]
  by (simp add: u32_laws_def demo_log_ext_def demo_bitmaps_def word_le_nat_alt)

lemma demo_shard: "shard demo_bitmaps [b] (KV ([b] @ be_bytes 4 100) [2]) u c \<longleftrightarrow> u = 100 \<and> c = [2]"
proof -
  have "be_bytes 4 100 = be_bytes 4 (unat u) \<longleftrightarrow> u = 100"
    using u32_lawsD(2) [OF demo_u32_laws, of u] u32_lawsD(2) [OF demo_u32_laws, of 100] by (auto simp: demo_bitmaps_def)
  then show ?thesis by (auto simp: shard_def demo_bitmaps_def)
qed

lemma demo_index: "in_index demo_bitmaps [KV ([b] @ be_bytes 4 100) [2]] [b] 2"
  unfolding in_index_def using demo_shard [of b]
  by (intro exI [of _ "KV ([b] @ be_bytes 4 100) [2]"] exI [of _ 100] exI [of _ "[2]"]) (auto simp del: append.simps)

lemma demo_holds_index:
  "holds_index demo_bitmaps demo_logs ''LogTopicIndex'' [[9]] [KV ([9] @ be_bytes 4 100) [2]]"
  "holds_index demo_bitmaps demo_logs ''LogAddressIndex'' [[7]] [KV ([7] @ be_bytes 4 100) [2]]"
  using demo_shard [of 9 100] demo_shard [of 7 100] by (auto simp: holds_index_def index_ok_def readable_def demo_logs_tables)

lemma demo_holds_logs:
  assumes "n \<le> 3"
  shows "holds_logs demo_log_ext demo_bitmaps demo_logs [KV ([9] @ be_bytes 4 100) [2]] [KV ([7] @ be_bytes 4 100) [2]] n"
proof -
  have n: "unat (of_nat n :: u64) = n" using assms by (simp add: unsigned_of_nat take_bit_nat_eq_self)
  have "be_bytes 8 n = be_bytes 8 2 \<longleftrightarrow> n = 2" using be_value_be_bytes [of n 8] be_value_be_bytes [of 2 8] assms by auto
  then show ?thesis using demo_index
    by (auto simp: holds_logs_def demo_logs_tables demo_log_ext_def demo_log_codec_def cbor_decode_logs_def from_json_Log_def n)
qed


end
