(* ===== verification/Api_Props.thy ===== *)
theory Api_Props
  imports Rpc_Methods Eth_Logs_Props Evm_Executor_Props Json_Types_Props State_Reader_Props Rawdb_Props
begin

text \<open>
  What the handlers of the RPC methods guarantee, whatever method is called: no transaction stays open and
  every reply is an envelope for the request. Then the behaviour of single handlers that the shared rules do
  not show.
\<close>

section \<open>All methods\<close>

lemma settling_methods_handle:
  assumes "ae_uint32 env (field request ''id'') = Ok rid" "(name, h) \<in> set (settling_methods tg nd env)"
  shows "handles (ae_jx env) rid (h request)"
proof -
  have "identified env request rid" using assms(1) by unfold_locales
  from identified.eth_block_methods_handle [OF this] identified.eth_account_methods_handle [OF this, of nd]
    identified.node_methods_handle [OF this, of nd] identified.erigon_methods_handle [OF this, of nd] identified.tracing_methods_handle [OF this, of tg nd]
  have "list_all (\<lambda>(name, h). handles (ae_jx env) rid (h request)) (settling_methods tg nd env)"
    by (simp add: settling_methods_def)
  with assms(2) show ?thesis by (auto simp: list_all_iff)
qed



text \<open>
  The exchange of the transition configuration returns from inside its \<^verbatim>\<open>try\<close> block when it finds that
  the consensus layer is wrong, and the transaction that it began stays open: here for a terminal block
  number that is not zero.
\<close>
lemma transition_leaves_transaction_open:
  assumes "field request ''params'' = Array [j]" "from_json_TransitionConfiguration (ae_jx env) j = Ok cl"
    and "tc_terminal_block_number cl \<noteq> 0" "ae_begin env (api_world s) = (Ok (rd, cached), w)"
    and "read_chain_config (ae_x env) rd = Ok cfg" "terminal (cc_config cfg) \<noteq> None"
    and "ae_uint32 env (field request ''id'') = Ok rid" "contains request ''params''"
  shows "handle_engine_exchange_transition_configuration_v1 terminal env request s =
    (Ok (make_json_error rid 100 ''consensus layer terminal block number is not zero''), s\<lparr>api_world := w, api_open := Suc (api_open s)\<rparr>)"
proof -
  have "at_field request ''params'' = Ok (Array [j])"
    using assms(1,8) by (cases request) (auto simp: at_field_def split: option.splits)
  with assms show ?thesis
    by (auto simp: handle_engine_exchange_transition_configuration_v1_def with_params_at_def param_def begin_tx_def on_world_def
        bind_a_def lift_def transition_body_def reply_error_def)
qed

text \<open>
  A filter whose topics are all wild cards, or an empty list of topics, matches every log, but
  \<^verbatim>\<open>eth_getLogs\<close> answers with no log at all: the bitmap of such topics is empty, and an empty bitmap is taken
  as the set of blocks to look at.
\<close>

lemma wildcard_topics_find_nothing:
  assumes "contains request ''params''" "field request ''params'' = Array [j]" "from_json_Filter (ae_jx env) j = Ok f"
    and "fl_topics f = Some topics" "\<forall>g \<in> set topics. g = []" "fl_addresses f = None"
    and "ae_begin env (api_world s) = (Ok (rd, cached), w)" "block_range env rd f = Ok (Inl (start, end'))"
    and "ae_uint32 env (field request ''id'') = Ok rid"
  shows "handle_eth_get_logs lx env request s = (Ok (make_json_content rid (Array [])), s\<lparr>api_world := w\<rparr>)"
proof -
  have "topics_loop (ae_x env) lx rd start end' topics [] = Ok []" using assms(5) by (induction topics) simp_all
  then have "candidate_blocks (ae_x env) lx rd f start end' = Ok []"
    using assms(4,6) by (simp add: candidate_blocks_def get_topics_bitmap_def)
  with assms show ?thesis
    by (simp add: handle_eth_get_logs_def with_params_def params_of_def param_def with_transaction_def begin_tx_def close_tx_def
        on_world_def try_catch_def bind_a_def lift_def reply_logs_def reply_content_def)
qed


section \<open>An instance\<close>

text \<open>
  A node whose database has nothing in it, and whose services answer with constants; the transaction pool
  is the list of what was sent to it.
\<close>

definition demo_services :: "bytes list services" where
  "demo_services =
     \<lparr>sv_protocol_version = ret 66, sv_net_version = ret 1, sv_net_peer_count = ret 8, sv_client_version = ret ''erigon'',
      sv_etherbase = lift (Throw (System_error ''no etherbase'' ''no etherbase: 3'')), sv_get_payload = (\<lambda>n. ret (demo_payload n)),
      sv_new_payload = (\<lambda>_. lift (Throw (System_error ''busy'' ''busy: 4''))),
      sv_forkchoice_updated = (\<lambda>_ _. lift (Throw (System_error ''busy'' ''busy: 4''))), sv_node_info = ret [],
      sv_get_transaction = (\<lambda>h. ret None), sv_add_transaction = (\<lambda>bs pool. (Ok (True, []), pool @ [bs])), sv_pool_nonce = (\<lambda>_. ret None),
      sv_pool_status = (\<lambda>pool. (Ok (0, of_nat (length pool), 0), pool)), sv_pool_transactions = ret [], sv_mining = ret (True, False),
      sv_hash_rate = ret 0, sv_submit_hash_rate = (\<lambda>_ _. ret True),
      sv_work = ret \<lparr>wk_header_hash = [], wk_seed_hash = [], wk_target = [], wk_block_number = []\<rparr>, sv_submit_work = (\<lambda>_ _ _. ret False)\<rparr>"

fun demo_uint32 :: "json \<Rightarrow> u32 result" where
  "demo_uint32 (Number i) = Ok (word_of_int i)"
| "demo_uint32 _ = Throw (Runtime_error ''type must be number'')"

definition demo_api_reader :: reader where
  "demo_api_reader = demo_reader\<lparr>rd_get_one := (\<lambda>_ _. Ok [1])\<rparr>"

definition demo_api_env :: "(unit, bytes list, ledger) api_env" where
  "demo_api_env =
     \<lparr>ae_x = Rawdb_Props.demo_ext, ae_jx = demo_json_ext, ae_sx = demo_state_ext, ae_ks = \<lparr>k_Headers = [1], k_Execution = [2], k_Finish = [3]\<rparr>,
      ae_all_stages = [''Headers'', ''Unwind''], ae_cache = \<lparr>bc_get = (\<lambda>_ c. (None, c)), bc_insert = (\<lambda>_ _ c. c)\<rparr>, ae_sv = demo_services,
      ae_begin = ret (demo_api_reader, demo_api_reader), ae_uint32 = demo_uint32, ae_dump = (\<lambda>_. Ok []), ae_intx_hex = (\<lambda>n. to_string (unat n)),
      ae_decode_transaction = (\<lambda>bs. Inr (demo_txn\<lparr>tx_type := ucast (hd bs)\<rparr>)), ae_decode_wrapped = (\<lambda>_. None), ae_encode_transaction = (\<lambda>_. []),
      ae_priority_fee = (\<lambda>_ _. 0), ae_chains = (\<lambda>_. Some (\<lambda>_. demo_vm)), ae_so = ledger_ops, ae_state = (\<lambda>_ _. demo_ledger),
      ae_observed = (\<lambda>_. []), ae_words = \<lparr>w_storage = (\<lambda>_. zeros 32), w_address = (\<lambda>_. zeros 20)\<rparr>, ae_selector = [8, 195, 121, 160]\<rparr>"

definition demo_node :: "(nat, unit, unit, unit) node" where
  "demo_node =
     \<lparr>nd_floats = \<lparr>fl_of_u64 = unat, fl_zero = 0, fl_ether = 10 ^ 18, fl_div = (div), fl_eq = (=), fl_greater = (>)\<rparr>,
      nd_elapsed = (\<lambda>_. 0), nd_log_ext = demo_bitmaps, nd_terminal = (\<lambda>_. Some (Some 7)), nd_forks = (\<lambda>_. None),
      nd_rules = \<lparr>cr_from_json = (\<lambda>_. None), cr_revision = (\<lambda>_ _ _. 0), kBlockRewardFrontier = 5, kBlockRewardByzantium = 3,
        kBlockRewardConstantinople = 2\<rparr>,
      nd_ops = \<lparr>op_cursor = (\<lambda>_ _ t. Ok ((), t)), op_seek = (\<lambda>_ _ t. Ok (KV [] [], t)), op_seek_exact = (\<lambda>_ _ t. Ok (KV [] [], t)),
        op_next = (\<lambda>_ t. Ok (KV [] [], t)), op_next_dup = (\<lambda>_ t. Ok (KV [] [], t)), op_seek_both = (\<lambda>_ _ _ t. Ok ([], t))\<rparr>,
      nd_tx = (), nd_location_of = take 32, nd_root_hash = (\<lambda>_. [])\<rparr>"

definition demo_call_request :: "json list \<Rightarrow> json" where
  "demo_call_request params = Object [(''id'', Number 5), (''jsonrpc'', String ''2.0''), (''params'', Array params)]"

definition demo_state :: "(unit, bytes list) api" where
  "demo_state = \<lparr>api_blocks = (), api_open = 2, api_world = []\<rparr>"

lemma demo_api_simps:
  "ae_uint32 demo_api_env (field (demo_call_request ps) ''id'') = Ok 5"
  "ae_begin demo_api_env w = (Ok (demo_api_reader, demo_api_reader), w)"
  "contains (demo_call_request ps) ''params''" "field (demo_call_request ps) ''params'' = Array ps"
  "get_sync_stage_progress (ae_x demo_api_env) demo_api_reader k = Ok 0"
  "get_latest_block_number (ae_ks demo_api_env) (ae_x demo_api_env) demo_api_reader = Ok 0"
  by (simp_all add: demo_api_env_def demo_call_request_def ret_def get_latest_block_number_def forkchoice_number_def
      get_sync_stage_progress_def demo_api_reader_def demo_reader_def)

text \<open>The number of the latest block, from an empty table.\<close>

lemma demo_block_number:
  "handle_eth_block_number demo_api_env (demo_call_request []) demo_state =
     (Ok (make_json_content 5 (String (to_quantity (ae_jx demo_api_env) 0))), demo_state)"
  by (simp add: handle_eth_block_number_def with_transaction_def begin_tx_def on_world_def bind_a_def try_catch_def close_tx_def
      lift_def demo_api_simps reply_content_def demo_state_def)

lemma demo_method: "(''handle_eth_block_number'', handle_eth_block_number demo_api_env) \<in> set (settling_methods tg demo_node demo_api_env)"
  by (simp add: settling_methods_def eth_block_methods_def)



definition demo_transition :: json where
  "demo_transition = Object [(''terminalBlockHash'', String ''0x01''), (''terminalBlockNumber'', String ''0x1''),
     (''terminalTotalDifficulty'', String ''0x7'')]"

lemma demo_numbers: "stol 16 ''0x1'' = Ok 1" "plain_from_hex ''01'' = Some [1]"
  by code_simp+

lemma demo_transition_read:
  "\<exists>d. from_json_TransitionConfiguration (ae_jx demo_api_env) demo_transition =
     Ok \<lparr>tc_terminal_total_difficulty = d, tc_terminal_block_hash = [1], tc_terminal_block_number = 1\<rparr>"
  by (simp add: demo_transition_def from_json_TransitionConfiguration_def at_get_def at_field_def demo_api_env_def demo_json_ext_def
      from_json_uint256_def from_json_bytes32_def get_hex_long_def demo_numbers value_or_def del: plain_from_hex.simps)

lemma transition_leaves_transaction_open_witness:
  "api_open (snd (handle_engine_exchange_transition_configuration_v1 (nd_terminal demo_node) demo_api_env
     (demo_call_request [demo_transition]) demo_state)) = 3"
proof -
  obtain d where d: "from_json_TransitionConfiguration (ae_jx demo_api_env) demo_transition =
     Ok \<lparr>tc_terminal_total_difficulty = d, tc_terminal_block_hash = [1], tc_terminal_block_number = 1\<rparr>"
    using demo_transition_read by blast
  have "read_chain_config (ae_x demo_api_env) demo_api_reader = Ok \<lparr>cc_genesis_hash = [1], cc_config = Null\<rparr>"
    by (simp add: read_chain_config_def read_canonical_block_hash_def demo_api_reader_def demo_api_env_def Rawdb_Props.demo_ext_def demo_codec_def)
  from transition_leaves_transaction_open [OF demo_api_simps(4) d _ demo_api_simps(2) this, of "nd_terminal demo_node" 5]
  show ?thesis by (simp add: demo_api_simps demo_node_def demo_state_def)
qed

lemma demo_wildcards:
  "from_json_Filter (ae_jx demo_api_env) (Object [(''topics'', Array [Array [], Array []])]) =
     Ok \<lparr>fl_from_block = None, fl_to_block = None, fl_addresses = None, fl_topics = Some [[], []], fl_block_hash = None\<rparr>"
  by (simp add: from_json_Filter_def optional_member_def get_filter_topics_def topic_item_def)

lemma wildcard_topics_find_nothing_witness:
  "handle_eth_get_logs demo_bitmaps demo_api_env (demo_call_request [Object [(''topics'', Array [Array [], Array []])]]) demo_state =
     (Ok (make_json_content 5 (Array [])), demo_state)"
proof -
  have "block_range demo_api_env demo_api_reader
      \<lparr>fl_from_block = None, fl_to_block = None, fl_addresses = None, fl_topics = Some [[], []], fl_block_hash = None\<rparr> = Ok (Inl (0, 0))"
    by (simp add: block_range_def get_latest_executed_block_number_def demo_api_simps)
  from wildcard_topics_find_nothing [OF demo_api_simps(3,4) demo_wildcards _ _ _ demo_api_simps(2) this demo_api_simps(1), of "[[], []]"]
  show ?thesis by (simp add: demo_state_def)
qed

end
