(* ===== verification/Handler_Props.thy ===== *)
theory Handler_Props
  imports Api_Props Utilities_Props
begin

text \<open>
  The behaviour of single handlers: what reaches the transaction pool, which tags the account methods accept,
  that the search for an access list ends, which block a time selects, and what becomes of an error in a
  bundle.
\<close>

section \<open>Transactions for the pool\<close>

lemma try_pool:
  "snd (bind_a (on_world (sv_add_transaction sv bs)) f s) = s\<lparr>api_world := snd (sv_add_transaction sv bs (api_world s))\<rparr>"
  if "\<And>x s. snd (f x s) = s"
  by (simp add: that bind_a_def on_world_def split: prod.split sum.split)


section \<open>Tags of blocks\<close>

text \<open>
  The methods that read an account refuse the tags \<^verbatim>\<open>finalized\<close> and \<^verbatim>\<open>safe\<close>, although a block number is
  defined for them: the identifier is first read as a number or hash. The reply is an error with the text of
  the failed conversion.
\<close>
lemma accounts_refuse_finalized:
  assumes "contains request ''params''" "field request ''params'' = Array [String a, String tag]" "tag = ''finalized'' \<or> tag = ''safe''"
    and "ae_begin env (api_world s) = (Ok (rd, cached), w)" "ae_uint32 env (field request ''id'') = Ok rid"
  shows "handle_eth_get_balance env request s = (Ok (make_json_error rid 100 ''stoul''), s\<lparr>api_world := w\<rparr>) \<and>
    handle_eth_get_code env request s = (Ok (make_json_error rid 100 ''stoul''), s\<lparr>api_world := w\<rparr>) \<and>
    handle_eth_get_transaction_count env request s = (Ok (make_json_error rid 100 ''stoul''), s\<lparr>api_world := w\<rparr>)"
proof -
  have "stoul 10 ''finalized'' = Throw (Invalid_argument ''stoul'')" "stoul 10 ''safe'' = Throw (Invalid_argument ''stoul'')"
    by code_simp+
  then have "bnoh_build f cd ''finalized'' = Throw (Invalid_argument ''stoul'')" "bnoh_build f cd ''safe'' = Throw (Invalid_argument ''stoul'')" for f cd
    by (simp_all add: bnoh_build_def)
  then have "bnoh_build (jx_from_hex (ae_jx env)) (x_codec (ae_x env)) tag = Throw (Invalid_argument ''stoul'')"
    using assms(3) by blast
  then have "state_at env tag rd cached s' = (Throw (Invalid_argument ''stoul''), s')" for s'
    by (simp add: state_at_def)
  with assms show ?thesis
    by (simp add: handle_eth_get_balance_def handle_eth_get_code_def handle_eth_get_transaction_count_def with_params_def
        params_of_def param_def from_json_address_def with_transaction_def begin_tx_def close_tx_def on_world_def try_catch_def
        bind_a_def lift_def catch_std_def reply_error_def)
qed

section \<open>Access lists\<close>

lemma match_keys_refl: "match_keys ks False ks"
  by (cases ks) (simp_all add: match_keys_first del: match_keys.simps)

lemma match_entry_mem: "distinct (map acl_account acl) \<Longrightarrow> e \<in> set acl \<Longrightarrow> match_entry e acl"
  by (induction acl) (auto simp: match_keys_refl image_iff)

lemma match_all_iff: "match_all acl2 acl1 \<longleftrightarrow> (\<forall>e \<in> set acl1. match_entry e acl2)"
  by (induction acl1) auto

lemma compare_refl: "acl_unique acl \<Longrightarrow> compare acl acl"
  by (auto simp: compare_def match_all_iff acl_unique_def intro: match_entry_mem)

lemma call_list_set [simp]: "call_list (set_access_list acl call) = acl"
  by (induction acl) (simp_all add: call_list_def set_access_list_def Entry_def)

lemma set_call_list [simp]: "set_access_list (call_list call) call = call"
  by (simp add: call_list_def set_access_list_def comp_def case_prod_beta)

lemma set_access_list_again [simp]: "set_access_list acl (set_access_list acl' call) = set_access_list acl call"
  by (simp add: set_access_list_def)


section \<open>The block at a time\<close>

text \<open>
  C29: on a chain whose headers can be read and whose times increase, the block for a time that is not before
  the first block is the last block that is not later than the time.
\<close>
theorem block_at_time:
  assumes "read_current_header (ae_x env) rd = Ok header" "unat (hdr_number header) = last_block" "hdr_timestamp header = time last_block"
    and headers: "\<And>n. n \<le> last_block \<Longrightarrow> header_time env rd (of_nat n) = Ok (time n)"
    and increasing: "\<And>m n. m < n \<Longrightarrow> n \<le> last_block \<Longrightarrow> time m < time n" and "time 0 \<le> timestamp"
  shows "\<exists>b \<le> last_block. block_number_at env rd timestamp = Ok (of_nat b) \<and> time b \<le> timestamp \<and>
    (\<forall>n \<le> last_block. time n \<le> timestamp \<longrightarrow> n \<le> b)"
proof -
  have mono: "time m \<le> time n" if "m \<le> n" "n \<le> last_block" for m n
    using that increasing [of m n] by (cases "m = n") auto
  have first: "header_time env rd 0 = Ok (time 0)" using headers [of 0] by simp
  have number: "hdr_number header = of_nat last_block" using assms(2) by (metis of_nat_unat ucast_id)
  note start = block_number_at_def first assms(1-3)
  consider (after) "time last_block \<le> timestamp" | (genesis) "\<not> time last_block \<le> timestamp" "timestamp \<le> time 0"
    | (between) "timestamp < time last_block" "time 0 < timestamp" by (meson linorder_not_le)
  then show ?thesis
  proof cases
    case after
    then show ?thesis by (intro exI [of _ last_block]) (simp add: start number [symmetric])
  next
    case genesis
    then have "timestamp = time 0" using assms(6) by simp
    moreover have "n = 0" if "n \<le> last_block" "time n \<le> time 0" for n
      using increasing [of 0 n] that by (cases n) auto
    ultimately show ?thesis using genesis by (intro exI [of _ 0]) (auto simp: start)
  next
    case between
    let ?pred = "\<lambda>i. bind_r (header_time env rd (of_nat i)) (\<lambda>t. Ok (t \<ge> timestamp))"
    obtain r where r: "binary_search last_block ?pred = Ok r" "r \<le> last_block" "\<forall>m < r. time m < timestamp"
        "\<forall>m. r \<le> m \<and> m < last_block \<longrightarrow> timestamp \<le> time m"
      using search_loop_least [of 0 last_block ?pred "\<lambda>m. timestamp \<le> time m"] headers mono
      by (fastforce simp: binary_search_def)
    have at: "timestamp \<le> time r" using r(2,4) between(1) by (cases "r = last_block") auto
    have pos: "r \<noteq> 0" using at between(2) by (metis leD)
    have eval: "block_number_at env rd timestamp = Ok (if time r > timestamp then of_nat (r - 1) else of_nat r)"
    proof -
      have "\<not> time last_block \<le> timestamp" "\<not> timestamp \<le> time 0" using between by simp_all
      moreover have "(of_nat r - 1 :: u64) = of_nat (r - 1)" using pos by (simp add: of_nat_diff)
      ultimately show ?thesis using r(1) headers [OF r(2)] by (simp add: start)
    qed
    have below: "n < r" if "n \<le> last_block" "time n < time r" for n
      using mono [of r n] that by (meson leD leI)
    show ?thesis
    proof (cases "time r > timestamp")
      case True
      with below have "\<forall>n \<le> last_block. time n \<le> timestamp \<longrightarrow> n \<le> r - 1" by fastforce
      moreover have "time (r - 1) \<le> timestamp" using r(3) pos by (simp add: less_imp_le)
      ultimately show ?thesis using True eval r(2) by (intro exI [of _ "r - 1"]) auto
    next
      case False
      with at have eq: "time r = timestamp" by simp
      have "n \<le> r" if "n \<le> last_block" "time n \<le> timestamp" for n
        using increasing [of r n] that eq by (meson leD leI)
      then show ?thesis using eval r(2) eq by (intro exI [of _ r]) auto
    qed
  qed
qed

section \<open>Transactions that are only in the pool\<close>

text \<open>
  C40: \<^verbatim>\<open>eth_getTransactionByHash\<close> does not find a transaction that is in the pool but not yet in a block, although
  it has a branch that asks the pool: without an entry in the lookup table an exception is thrown before
  that branch, and it is answered with null. The pool is not asked.
\<close>
lemma pooled_transaction_not_found:
  assumes "contains request ''params''" "field request ''params'' = Array [j]" "from_json_bytes32 (ae_jx env) j = Ok h"
    and "ae_begin env (api_world s) = (Ok (rd, cached), w)" "rd_get_one rd ''BlockTransactionLookup'' h = Ok []"
    and "ae_uint32 env (field request ''id'') = Ok rid"
  shows "handle_eth_get_transaction_by_hash env request s = (Ok (make_json_content rid Null), s\<lparr>api_world := w\<rparr>)"
  using assms
  by (simp add: handle_eth_get_transaction_by_hash_def with_params_def params_of_def param_def with_transaction_def begin_tx_def
      close_tx_def on_world_def on_cache_def try_catch_def bind_a_def lift_def catch_invalid_argument_def reply_content_def
      read_transaction_by_hash_def read_block_by_transaction_hash_def read_block_number_by_transaction_hash_def)

section \<open>Instances\<close>

lemma accounts_refuse_finalized_witness:
  "handle_eth_get_balance demo_api_env (demo_call_request [String ''0x01'', String ''safe'']) demo_state =
     (Ok (make_json_error 5 100 ''stoul''), demo_state)"
  using accounts_refuse_finalized [OF demo_api_simps(3,4) _ demo_api_simps(2,1), where s = demo_state and tag = "''safe''" and a = "''0x01''"]
  by (simp add: demo_state_def)

definition empty_lookup_env :: "(unit, bytes list, ledger) api_env" where
  "empty_lookup_env = demo_api_env\<lparr>ae_begin := ret (demo_reader, demo_reader)\<rparr>"

lemma pooled_transaction_not_found_witness:
  "handle_eth_get_transaction_by_hash empty_lookup_env (demo_call_request [String ''0x01'']) demo_state =
     (Ok (make_json_content 5 Null), demo_state)"
proof -
  have h: "from_json_bytes32 (ae_jx empty_lookup_env) (String ''0x01'') = Ok [1]"
    by (simp add: from_json_bytes32_def empty_lookup_env_def demo_api_env_def demo_json_ext_def demo_numbers value_or_def del: plain_from_hex.simps)
  have b: "ae_begin empty_lookup_env w = (Ok (demo_reader, demo_reader), w)" "ae_uint32 empty_lookup_env (field (demo_call_request ps) ''id'') = Ok 5" for w ps
    using demo_api_simps(1) by (simp_all add: empty_lookup_env_def ret_def)
  have "rd_get_one demo_reader ''BlockTransactionLookup'' [1] = Ok []" by (simp add: demo_reader_def)
  from pooled_transaction_not_found [OF demo_api_simps(3,4) h b(1) this b(2), of demo_state] show ?thesis by (simp add: demo_state_def)
qed

text \<open>A chain of three blocks at the times 10, 20 and 30, and a time between the last two.\<close>

definition timed_ext :: ext where
  "timed_ext = Rawdb_Props.demo_ext\<lparr>x_block_key := (\<lambda>n. [ucast n]), x_block_key_hash := (\<lambda>n h. h), x_load_big_u64 := (\<lambda>bs. ucast (hd bs)),
     x_decode_header := (\<lambda>bs. Some (empty_header\<lparr>hdr_number := ucast (hd bs), hdr_timestamp := 10 + 10 * ucast (hd bs)\<rparr>))\<rparr>"

definition timed_reader :: reader where
  "timed_reader = demo_reader\<lparr>rd_get_one := (\<lambda>t k. Ok (if t = ''LastHeader'' then [2] else if t = ''HeaderNumber'' then k @ zeros 7 else k))\<rparr>"

definition timed_env :: "(unit, bytes list, ledger) api_env" where
  "timed_env = demo_api_env\<lparr>ae_x := timed_ext\<rparr>"

lemma timed_headers:
  "read_header_by_hash timed_ext timed_reader [b] = Ok (empty_header\<lparr>hdr_number := ucast b, hdr_timestamp := 10 + 10 * ucast b\<rparr>)"
  "header_time timed_env timed_reader n = Ok (10 + 10 * ucast (ucast n :: byte))"
  by (simp_all add: timed_env_def timed_ext_def timed_reader_def header_time_def read_header_by_number_def read_header_by_hash_def
      read_canonical_block_hash_def read_header_number_def read_header_def read_header_rlp_def load_u64_data_def zeros_def
      Rawdb_Props.demo_ext_def demo_codec_def)

theorem block_at_time_witness:
  "\<exists>b \<le> 2. block_number_at timed_env timed_reader 25 = Ok (of_nat b) \<and> 10 + 10 * of_nat b \<le> (25 :: u64) \<and>
    (\<forall>n \<le> 2. 10 + 10 * of_nat n \<le> (25 :: u64) \<longrightarrow> n \<le> b)"
proof -
  have "read_current_header (ae_x timed_env) timed_reader = Ok (empty_header\<lparr>hdr_number := 2, hdr_timestamp := 30\<rparr>)"
    using timed_headers(1) [of 2]
    by (simp add: read_current_header_def read_head_header_hash_def timed_env_def timed_ext_def timed_reader_def
        Rawdb_Props.demo_ext_def demo_codec_def)
  then show ?thesis
  proof (rule block_at_time [where time = "\<lambda>n. 10 + 10 * of_nat n"])
    show "header_time timed_env timed_reader (of_nat n) = Ok (10 + 10 * of_nat n)" if "n \<le> 2" for n
    proof -
      from that have "n = 0 \<or> n = 1 \<or> n = 2" by linarith
      then show ?thesis by (elim disjE) (simp_all add: timed_headers(2))
    qed
    show "10 + 10 * of_nat m < (10 + 10 * of_nat n :: u64)" if "m < n" "n \<le> 2" for m n
    proof -
      from that have "m = 0 \<and> n = 1 \<or> m = 0 \<and> n = 2 \<or> m = 1 \<and> n = 2" by linarith
      then show ?thesis by (elim disjE) simp_all
    qed
  qed simp_all
qed

definition paid_call :: call where
  "paid_call = \<lparr>cl_from = Some [1], cl_to = Some [3], cl_gas = Some 50000, cl_gas_price = None, cl_max_priority_fee_per_gas = Some 2,
     cl_max_fee_per_gas = Some 10, cl_value = None, cl_data = None, cl_nonce = None, cl_access_list = []\<rparr>"

lemma paid_call_runs:
  "\<exists>r s. execute demo_api_env demo_vm rd n True False (to_transaction (set_access_list acl paid_call)) = Ok (r, s) \<and>
      er_pre_check_error r = None \<and> ae_observed demo_api_env s = []"
proof -
  let ?t = "to_transaction (set_access_list acl paid_call)"
  have t: "tx_from ?t = Some [1]" "tx_max_fee_per_gas ?t = 10" "tx_max_priority_fee_per_gas ?t = 2" "tx_gas_limit ?t = 50000" "tx_value ?t = 0"
    by (simp_all add: to_transaction_def set_access_list_def paid_call_def value_or_def kDefaultGasLimit_def)
  have "pre_check demo_vm ?t [1] 21000 = None"
    by (simp add: pre_check_def t demo_vm_def base_fee_def)
  moreover have "want_of demo_vm ?t = 450000" by (simp add: want_of_def t demo_vm_def base_fee_def)
  moreover have "so_get_balance ledger_ops (so_access_account ledger_ops [1] demo_ledger) [1] = 1000000"
    by (simp add: ledger_ops_def demo_ledger_def)
  moreover have "vm_intrinsic_gas demo_vm ?t = 21000" by (simp add: demo_vm_def)
  ultimately show ?thesis
    by (simp add: execute_def demo_api_env_def executor_call_def sender_def t Let_def split: prod.split)
qed


end
