(* ===== verification/Call_Trees.thy ===== *)
theory Call_Trees
  imports Evm_Events
begin

text \<open>
  The shape of a run, as the specification that the tracers are compared with. A frame is the execution of a
  message: its instructions in order, with the frames and the precompiled contracts that they call between
  them, and its result. A run of the machine is the traversal of a frame.
\<close>

datatype frame =
    Frame (fr_revision: nat) (fr_msg: message) (fr_code: bytes) (fr_items: "item list") (fr_result: evmc_result)
      (fr_view: view)
and item =
    Step execution_state view
  | Nested frame
  | Precompiled evmc_result u64 view

definition creates :: "message \<Rightarrow> bool" where
  "creates msg \<longleftrightarrow> msg_kind msg = EVMC_CREATE \<or> msg_kind msg = EVMC_CREATE2"

text \<open>The calls of a tracer: the completion of a creation is told after the frame that ran the code of the constructor.\<close>

primrec events_of :: "frame \<Rightarrow> event list" and item_events :: "item \<Rightarrow> event list" where
  "events_of (Frame rev' msg codes its res v) =
     Execution_start rev' msg codes # concat (map item_events its) @
     [Execution_end res v] @ (if creates msg then [Creation_completed res v] else [])"
| "item_events (Step es v) = [Instruction_start es v]"
| "item_events (Nested f) = events_of f"
| "item_events (Precompiled res gas v) = [Precompiled_run res gas v]"

text \<open>The instructions of a frame and of the frames below it, in the order of execution.\<close>

primrec steps_of :: "frame \<Rightarrow> execution_state list" and item_steps :: "item \<Rightarrow> execution_state list" where
  "steps_of (Frame rev' msg codes its res v) = concat (map item_steps its)"
| "item_steps (Step es v) = [es]"
| "item_steps (Nested f) = steps_of f"
| "item_steps (Precompiled res gas v) = []"

text \<open>
  Instructions run at the depth of their frame, a frame is one level below the one that calls it, and what a
  frame does begins with an instruction.
\<close>

fun begins_with_step :: "item list \<Rightarrow> bool" where
  "begins_with_step (Nested f # its) = False"
| "begins_with_step (Precompiled res gas v # its) = False"
| "begins_with_step _ = True"

primrec frame_ok :: "u32 \<Rightarrow> frame \<Rightarrow> bool" and item_ok :: "u32 \<Rightarrow> item \<Rightarrow> bool" where
  "frame_ok d (Frame rev' msg codes its res v) \<longleftrightarrow> msg_depth msg = d \<and> begins_with_step its \<and> list_all (item_ok d) its"
| "item_ok d (Step es v) \<longleftrightarrow> msg_depth (es_msg es) = d"
| "item_ok d (Nested f) \<longleftrightarrow> frame_ok (d + 1) f"
| "item_ok d (Precompiled res gas v) \<longleftrightarrow> True"

end
