(* ===== verification/Debug_Tracer_Props.thy ===== *)
theory Debug_Tracer_Props
  imports Debug_Tracer Call_Trees
begin

text \<open>
  What the debug tracer shows: streaming writes exactly the logs that are collected without a stream, and for
  the run of a frame there is one log for every instruction, in order, with a cost that was computed.
\<close>

lemma debug_on_events_simps [simp]:
  "debug_on_events te [] tr = Ok tr"
  "debug_on_events te (ev # evs) tr = bind_r (debug_on_event te ev tr) (debug_on_events te evs)"
  by (simp_all add: debug_on_events_def bind_r_def split: sum.splits)

lemma debug_on_events_append:
  "debug_on_events te (xs @ ys) tr = bind_r (debug_on_events te xs tr) (debug_on_events te ys)"
  by (induction xs arbitrary: tr) (auto simp: bind_r_def split: sum.splits)

section \<open>Streaming\<close>

text \<open>
  The tracer with a stream keeps at most two logs; those it has written and those it keeps are the logs of the
  tracer without one.
\<close>

definition stream_rel :: "tracer_ext \<Rightarrow> debug_tracer \<Rightarrow> debug_tracer \<Rightarrow> bool" where
  "stream_rel te st pl \<longleftrightarrow>
     (\<exists>pre. dt_logs pl = pre @ dt_logs st \<and> (dt_logs st = [] \<longrightarrow> pre = []) \<and>
        dt_written st = map (debug_log_json te (dt_config st)) pre \<and> dt_streaming st \<and>
        pl = st\<lparr>dt_logs := pre @ dt_logs st, dt_streaming := False, dt_written := dt_written pl\<rparr>)"

lemma stream_rel_initial: "stream_rel te (debug_tracer_of cfg True) (debug_tracer_of cfg False)"
  by (simp add: stream_rel_def debug_tracer_of_def)

lemma update_last_append:
  "logs \<noteq> [] \<Longrightarrow> update_last f (pre @ logs) = pre @ update_last f logs"
  by (simp add: update_last_def butlast_append)

lemma update_last_Nil [simp]: "update_last f logs = [] \<longleftrightarrow> logs = []"
  by (simp add: update_last_def)

lemma write_front_plain [simp]: "\<not> dt_streaming tr \<Longrightarrow> write_front te tr = tr"
  by (simp add: write_front_def)

lemma stream_rel_write_front: "stream_rel te st pl \<Longrightarrow> stream_rel te (write_front te st) pl"
proof -
  assume "stream_rel te st pl"
  then obtain pre where pre: "dt_logs st = [] \<longrightarrow> pre = []" "dt_streaming st"
      "dt_written st = map (debug_log_json te (dt_config st)) pre"
      "pl = st\<lparr>dt_logs := pre @ dt_logs st, dt_streaming := False, dt_written := dt_written pl\<rparr>"
    unfolding stream_rel_def by auto
  show ?thesis
  proof (cases "length (dt_logs st) > 1")
    case True
    then obtain a b logs where logs: "dt_logs st = a # b # logs"
      by (cases "dt_logs st"; cases "tl (dt_logs st)") auto
    from pre(4) have "dt_logs pl = pre @ dt_logs st" by (metis debug_tracer.select_convs(1) debug_tracer.surjective debug_tracer.update_convs(1,3,4))
    with pre logs show ?thesis
      unfolding stream_rel_def write_front_def write_log_def
      by (intro exI [of _ "pre @ [a]"]) (cases st; cases pl; simp)
  qed (use \<open>stream_rel te st pl\<close> in \<open>simp add: write_front_def\<close>)
qed

lemma stream_rel_elim:
  assumes "stream_rel te st pl"
  obtains pre w where "pl = st\<lparr>dt_logs := pre @ dt_logs st, dt_streaming := False, dt_written := w\<rparr>"
    "dt_logs st = [] \<longrightarrow> pre = []" "dt_streaming st" "dt_written st = map (debug_log_json te (dt_config st)) pre"
  using assms unfolding stream_rel_def by metis

lemma stream_rel_intro:
  assumes "pl = st\<lparr>dt_logs := pre @ dt_logs st, dt_streaming := False, dt_written := w\<rparr>"
    "dt_logs st = [] \<longrightarrow> pre = []" "dt_streaming st" "dt_written st = map (debug_log_json te (dt_config st)) pre"
  shows "stream_rel te st pl"
  using assms unfolding stream_rel_def by (intro exI [of _ pre]) simp

lemma stream_rel_push:
  assumes "stream_rel te st pl"
  shows "stream_rel te (st\<lparr>dt_logs := dt_logs st @ [log]\<rparr>) (pl\<lparr>dt_logs := dt_logs pl @ [log]\<rparr>)"
  using assms
proof (rule stream_rel_elim)
  fix pre w
  assume "pl = st\<lparr>dt_logs := pre @ dt_logs st, dt_streaming := False, dt_written := w\<rparr>"
    "dt_streaming st" "dt_written st = map (debug_log_json te (dt_config st)) pre"
  then show ?thesis by (intro stream_rel_intro [where pre = pre and w = w]) simp_all
qed

lemma stream_rel_fields:
  "stream_rel te st pl \<Longrightarrow> dt_config pl = dt_config st \<and> dt_storage pl = dt_storage st \<and> dt_names pl = dt_names st \<and>
     dt_start_gas pl = dt_start_gas st \<and> dt_gas_on_precompiled pl = dt_gas_on_precompiled st"
  by (elim stream_rel_elim) simp

lemma stream_rel_update_last:
  assumes "stream_rel te st pl"
  shows "stream_rel te (st\<lparr>dt_logs := update_last f (dt_logs st)\<rparr>) (pl\<lparr>dt_logs := update_last f (dt_logs pl)\<rparr>)"
  using assms
proof (rule stream_rel_elim)
  fix pre w
  assume pl: "pl = st\<lparr>dt_logs := pre @ dt_logs st, dt_streaming := False, dt_written := w\<rparr>"
    and pre: "dt_logs st = [] \<longrightarrow> pre = []" "dt_streaming st" "dt_written st = map (debug_log_json te (dt_config st)) pre"
  have "update_last f (pre @ dt_logs st) = pre @ update_last f (dt_logs st)"
    using pre(1) by (cases "dt_logs st = []") (simp_all add: update_last_append)
  with pl pre show ?thesis by (intro stream_rel_intro [where pre = pre and w = w]) simp_all
qed

lemma stream_rel_set:
  assumes "stream_rel te st pl"
  shows "stream_rel te (st\<lparr>dt_storage := sto\<rparr>) (pl\<lparr>dt_storage := sto\<rparr>)"
    and "stream_rel te (st\<lparr>dt_names := n, dt_start_gas := g\<rparr>) (pl\<lparr>dt_names := n, dt_start_gas := g\<rparr>)"
    and "stream_rel te (st\<lparr>dt_gas_on_precompiled := p\<rparr>) (pl\<lparr>dt_gas_on_precompiled := p\<rparr>)"
  using assms
proof (atomize (full), elim stream_rel_elim)
  fix pre w
  assume "pl = st\<lparr>dt_logs := pre @ dt_logs st, dt_streaming := False, dt_written := w\<rparr>"
    "dt_logs st = [] \<longrightarrow> pre = []" "dt_streaming st" "dt_written st = map (debug_log_json te (dt_config st)) pre"
  then show "stream_rel te (st\<lparr>dt_storage := sto\<rparr>) (pl\<lparr>dt_storage := sto\<rparr>) \<and>
      stream_rel te (st\<lparr>dt_names := n, dt_start_gas := g\<rparr>) (pl\<lparr>dt_names := n, dt_start_gas := g\<rparr>) \<and>
      stream_rel te (st\<lparr>dt_gas_on_precompiled := p\<rparr>) (pl\<lparr>dt_gas_on_precompiled := p\<rparr>)"
    by (intro conjI stream_rel_intro [where pre = pre and w = w]) simp_all
qed

lemma stream_rel_last:
  "stream_rel te st pl \<Longrightarrow> dt_logs pl = [] \<longleftrightarrow> dt_logs st = []"
  "stream_rel te st pl \<Longrightarrow> dt_logs st \<noteq> [] \<Longrightarrow> last (dt_logs pl) = last (dt_logs st)"
  by (elim stream_rel_elim; auto)+

lemma stream_rel_instruction_update:
  assumes "stream_rel te st pl"
  shows "stream_rel te (instruction_update te rev' es ibs st) (instruction_update te rev' es ibs pl)"
proof -
  define f sto p where "f = complete_last_log (dt_config st) (dt_gas_on_precompiled st) (msg_depth (es_msg es)) (es_gas_left es)
      (current_memory te (dt_config st) es)"
    and "sto = dt_storage (instruction_update te rev' es ibs st)"
    and "p = dt_gas_on_precompiled (instruction_update te rev' es ibs st)"
  note defs = f_def sto_def p_def instruction_update_def Let_def
  have "instruction_update te rev' es ibs st = st\<lparr>dt_storage := sto, dt_logs := update_last f (dt_logs st), dt_gas_on_precompiled := p\<rparr>"
    by (simp add: defs)
  moreover have "instruction_update te rev' es ibs pl = pl\<lparr>dt_storage := sto, dt_logs := update_last f (dt_logs pl), dt_gas_on_precompiled := p\<rparr>"
    using stream_rel_fields [OF assms] stream_rel_last [OF assms] by (cases "dt_logs st = []") (simp_all add: defs cong: option.case_cong)
  moreover have "stream_rel te (st\<lparr>dt_storage := sto, dt_logs := update_last f (dt_logs st), dt_gas_on_precompiled := p\<rparr>)
      (pl\<lparr>dt_storage := sto, dt_logs := update_last f (dt_logs pl), dt_gas_on_precompiled := p\<rparr>)"
    using stream_rel_set(3) [OF stream_rel_update_last [OF stream_rel_set(1) [OF assms]]] by simp
  ultimately show ?thesis by simp
qed

lemma write_front_fields [simp]:
  "dt_config (write_front te tr) = dt_config tr" "dt_storage (write_front te tr) = dt_storage tr"
  "dt_names (write_front te tr) = dt_names tr" "dt_streaming (write_front te tr) = dt_streaming tr"
  by (simp_all add: write_front_def write_log_def)

lemma stream_rel_event:
  assumes "stream_rel te st pl"
  shows "rel_sum (=) (stream_rel te) (debug_on_event te ev st) (debug_on_event te ev pl)"
proof -
  note fields = stream_rel_fields [OF assms]
  have plain: "\<not> dt_streaming pl" using assms by (elim stream_rel_elim) simp
  show ?thesis
  proof (cases ev)
    case (Instruction_start es ibs)
    have "stream_rel te (write_front te (instruction_update te n es ibs st)) (instruction_update te n es ibs pl)" for n
      by (intro stream_rel_write_front stream_rel_instruction_update assms)
    note upd = stream_rel_push [OF this] stream_rel_fields [OF this]
    have "write_front te (instruction_update te n es ibs pl) = instruction_update te n es ibs pl" for n
      using plain by (simp add: instruction_update_def Let_def)
    then show ?thesis using fields upd Instruction_start
      by (auto simp: debug_on_instruction_start_def Let_def instruction_log_def split: option.splits)
  next
    case (Execution_end res ibs)
    then show ?thesis
      using stream_rel_write_front [OF stream_rel_update_last [OF assms]] fields plain
      by (simp add: debug_on_execution_end_def)
  next
    case (Execution_start n msg codes)
    then show ?thesis
      using stream_rel_set(2) [OF assms] fields
      by (simp add: debug_on_execution_start_def)
  next
    case (Precompiled_run res gas ibs)
    then show ?thesis
      using stream_rel_set(3) [OF assms] fields
      by (simp add: debug_on_precompiled_run_def)
  qed (use assms in simp_all)
qed

lemma stream_rel_events:
  "stream_rel te st pl \<Longrightarrow> rel_sum (=) (stream_rel te) (debug_on_events te evs st) (debug_on_events te evs pl)"
proof (induction evs arbitrary: st pl)
  case (Cons ev evs)
  from stream_rel_event [OF Cons.prems, of ev] show ?case
    by (cases rule: rel_sum.cases) (simp_all add: Cons.IH)
qed simp

lemma flush_logs_written: "dt_written (flush_logs te tr) = dt_written tr @ map (debug_log_json te (dt_config tr)) (dt_logs tr)"
proof -
  have "dt_written (fold (write_log te) logs tr) = dt_written tr @ map (debug_log_json te (dt_config tr)) logs" for logs
    by (induction logs arbitrary: tr) (simp_all add: write_log_def)
  then show ?thesis by (simp add: flush_logs_def)
qed

text \<open>
  C7: For every sequence of calls of the tracer, what the tracer with a stream has written after its logs are
  flushed is, log by log, the JSON of the logs that the tracer without a stream has collected; when one of
  them fails, the other fails in the same way.
\<close>
theorem streamed_logs_complete:
  "bind_r (debug_on_events te evs (debug_tracer_of cfg True)) (\<lambda>tr. Ok (dt_written (flush_logs te tr))) =
   bind_r (debug_on_events te evs (debug_tracer_of cfg False)) (\<lambda>tr. Ok (map (debug_log_json te (dt_config tr)) (dt_logs tr)))"
proof -
  have "rel_sum (=) (stream_rel te) (debug_on_events te evs (debug_tracer_of cfg True)) (debug_on_events te evs (debug_tracer_of cfg False))"
    by (rule stream_rel_events [OF stream_rel_initial])
  then show ?thesis
    by (cases rule: rel_sum.cases) (auto simp: flush_logs_written elim!: stream_rel_elim)
qed

section \<open>The logs of a frame\<close>

text \<open>All logs have a cost, but the last one may still wait for it when it is of depth \<open>d\<close>.\<close>

definition costs_known :: "u32 \<Rightarrow> debug_log list \<Rightarrow> bool" where
  "costs_known d logs \<longleftrightarrow> (\<forall>log \<in> set (butlast logs). dl_gas_cost log \<noteq> None) \<and>
     (logs \<noteq> [] \<longrightarrow> dl_gas_cost (last logs) \<noteq> None \<or> dl_depth (last logs) = d)"

definition all_costs_known :: "debug_log list \<Rightarrow> bool" where
  "all_costs_known logs \<longleftrightarrow> (\<forall>log \<in> set logs. dl_gas_cost log \<noteq> None)"

text \<open>What a log shows of its instruction.\<close>

definition log_of :: "debug_log \<Rightarrow> u32 \<times> u64 \<times> u32" where
  "log_of log = (dl_pc log, dl_gas log, dl_depth log)"

definition step_of :: "execution_state \<Rightarrow> u32 \<times> u64 \<times> u32" where
  "step_of es = (es_pc es, es_gas_left es, msg_depth (es_msg es) + 1)"

lemma update_last_costs:
  assumes "costs_known d logs \<or> costs_known d' logs"
    and "\<And>log. dl_gas_cost log \<noteq> None \<or> dl_depth log = d \<or> dl_depth log = d' \<Longrightarrow> dl_gas_cost (f log) \<noteq> None"
  shows "all_costs_known (update_last f logs)"
  using assms by (fastforce simp: all_costs_known_def costs_known_def update_last_def)

lemma update_last_log_of: "(\<And>log. log_of (f log) = log_of log) \<Longrightarrow> map log_of (update_last f logs) = map log_of logs"
  by (cases logs rule: rev_cases) (simp_all add: update_last_def)

lemma complete_log_of: "log_of (complete_last_log cfg p d g m log) = log_of log"
  by (simp add: complete_last_log_def log_of_def)

lemma end_log_of: "log_of (end_log g res log) = log_of log"
  by (simp add: end_log_def insert_error_def log_of_def)

lemma all_costs_known_mono: "all_costs_known logs \<Longrightarrow> costs_known d logs"
  by (auto simp: all_costs_known_def costs_known_def dest: in_set_butlastD)

lemma push_costs: "all_costs_known logs \<Longrightarrow> dl_depth log = d \<Longrightarrow> costs_known d (logs @ [log])"
  by (auto simp: all_costs_known_def costs_known_def)

text \<open>
  The run of a list of events without a stream: the tracer goes on, its logs are extended by those of the
  instructions, and \<open>Q\<close> holds of the logs.
\<close>

definition logs_extend ::
  "tracer_ext \<Rightarrow> (debug_tracer \<Rightarrow> bool) \<Rightarrow> event list \<Rightarrow> execution_state list \<Rightarrow> (debug_log list \<Rightarrow> bool) \<Rightarrow> bool" where
  "logs_extend te P evs steps Q \<longleftrightarrow>
     (\<forall>tr. \<not> dt_streaming tr \<longrightarrow> P tr \<longrightarrow>
        (\<exists>tr'. debug_on_events te evs tr = Ok tr' \<and> \<not> dt_streaming tr' \<and> dt_names tr' \<noteq> None \<and> Q (dt_logs tr') \<and>
           map log_of (dt_logs tr') = map log_of (dt_logs tr) @ map step_of steps))"

definition named :: "(debug_log list \<Rightarrow> bool) \<Rightarrow> debug_tracer \<Rightarrow> bool" where
  "named P tr \<longleftrightarrow> dt_names tr \<noteq> None \<and> P (dt_logs tr)"

lemma logs_extend_append:
  assumes "logs_extend te P xs ss Q" "logs_extend te (named Q) ys ts R"
  shows "logs_extend te P (xs @ ys) (ss @ ts) R"
  unfolding logs_extend_def
proof (intro allI impI)
  fix tr assume "\<not> dt_streaming tr" "P tr"
  with assms(1) obtain t where t: "debug_on_events te xs tr = Ok t" "\<not> dt_streaming t" "named Q t"
      "map log_of (dt_logs t) = map log_of (dt_logs tr) @ map step_of ss"
    by (auto simp: logs_extend_def named_def)
  with assms(2) obtain u where "debug_on_events te ys t = Ok u" "\<not> dt_streaming u" "dt_names u \<noteq> None" "R (dt_logs u)"
      "map log_of (dt_logs u) = map log_of (dt_logs t) @ map step_of ts"
    unfolding logs_extend_def by blast
  with t show "\<exists>u. debug_on_events te (xs @ ys) tr = Ok u \<and> \<not> dt_streaming u \<and> dt_names u \<noteq> None \<and> R (dt_logs u) \<and>
      map log_of (dt_logs u) = map log_of (dt_logs tr) @ map step_of (ss @ ts)"
    by (simp add: debug_on_events_append)
qed

lemma logs_extend_mono:
  "logs_extend te P evs ss Q \<Longrightarrow> (\<And>tr. P' tr \<Longrightarrow> P tr) \<Longrightarrow> (\<And>logs. Q logs \<Longrightarrow> Q' logs) \<Longrightarrow> logs_extend te P' evs ss Q'"
  unfolding logs_extend_def by blast

lemma start_extends: "logs_extend te (\<lambda>tr. P (dt_logs tr)) [Execution_start n msg codes] [] P"
  by (auto simp: logs_extend_def debug_on_execution_start_def split: option.splits)

lemma step_extends:
  assumes "msg_depth (es_msg es) = d"
  shows "logs_extend te (named (\<lambda>logs. costs_known d logs \<or> costs_known (d + 1) logs)) [Instruction_start es v] [es] (costs_known (d + 1))"
  unfolding logs_extend_def
proof (intro allI impI)
  fix tr assume tr: "\<not> dt_streaming tr" "named (\<lambda>logs. costs_known d logs \<or> costs_known (d + 1) logs) tr"
  then obtain n where n: "dt_names tr = Some n" by (auto simp: named_def)
  let ?tr = "instruction_update te n es v tr"
  let ?f = "complete_last_log (dt_config tr) (dt_gas_on_precompiled tr) d (es_gas_left es) (current_memory te (dt_config tr) es)"
  have logs: "dt_logs ?tr = update_last ?f (dt_logs tr)"
    and keep: "\<not> dt_streaming ?tr" "dt_names ?tr = Some n" using tr n assms by (simp_all add: instruction_update_def Let_def)
  have "dl_gas_cost log \<noteq> None \<or> dl_depth log = d \<or> dl_depth log = d + 1 \<Longrightarrow> dl_gas_cost (?f log) \<noteq> None" for log
    by (auto simp: complete_last_log_def)
  then have "all_costs_known (update_last ?f (dt_logs tr))"
    using tr(2) by (intro update_last_costs [of d _ "d + 1"]) (simp_all add: named_def)
  then have "costs_known (d + 1) (update_last ?f (dt_logs tr) @ [instruction_log te n es v ?tr])"
    using assms by (intro push_costs) (simp_all add: instruction_log_def new_log_def insert_error_def Let_def)
  moreover have "log_of (instruction_log te n es v ?tr) = step_of es"
    by (simp add: instruction_log_def new_log_def insert_error_def log_of_def step_of_def Let_def)
  ultimately show "\<exists>tr'. debug_on_events te [Instruction_start es v] tr = Ok tr' \<and> \<not> dt_streaming tr' \<and> dt_names tr' \<noteq> None \<and>
      costs_known (d + 1) (dt_logs tr') \<and> map log_of (dt_logs tr') = map log_of (dt_logs tr) @ map step_of [es]"
    using n keep by (simp add: debug_on_instruction_start_def Let_def logs update_last_log_of complete_log_of)
qed

lemma end_extends: "logs_extend te (named (\<lambda>logs. costs_known d logs \<or> costs_known (d + 1) logs)) [Execution_end res v] [] all_costs_known"
proof -
  have "all_costs_known (update_last (end_log g res) logs)" if "costs_known d logs \<or> costs_known (d + 1) logs" for g logs
    using that by (intro update_last_costs [of d _ "d + 1"]) (simp_all add: end_log_def)
  then show ?thesis
    by (auto simp: logs_extend_def named_def debug_on_execution_end_def update_last_log_of end_log_of)
qed

lemma skip_extends: "debug_on_event te ev = (\<lambda>tr. Ok (f tr)) \<Longrightarrow> (\<And>tr. dt_streaming (f tr) = dt_streaming tr \<and> dt_names (f tr) = dt_names tr \<and>
    dt_logs (f tr) = dt_logs tr) \<Longrightarrow> logs_extend te (named P) [ev] [] P"
  by (simp add: logs_extend_def named_def)

lemma nil_extends: "logs_extend te (named P) [] [] P"
  by (simp add: logs_extend_def named_def)

lemma items_extend:
  assumes "\<And>it. it \<in> set its \<Longrightarrow> logs_extend te (named (costs_known (d + 1))) (item_events it) (item_steps it) (costs_known (d + 1))"
  shows "logs_extend te (named (costs_known (d + 1))) (concat (map item_events its)) (concat (map item_steps its)) (costs_known (d + 1))"
  using assms by (induction its) (auto intro: nil_extends logs_extend_append)

lemma frame_extends:
  "frame_ok d f \<Longrightarrow> logs_extend te (\<lambda>tr. costs_known d (dt_logs tr)) (events_of f) (steps_of f) all_costs_known" and
  item_extends: "item_ok d it \<Longrightarrow> logs_extend te (named (costs_known (d + 1))) (item_events it) (item_steps it) (costs_known (d + 1))"
proof (induction f and it arbitrary: d and d)
  case (Frame n msg codes its res v)
  let ?Q = "\<lambda>logs. costs_known d logs \<or> costs_known (d + 1) logs"
  have its: "logs_extend te (named (costs_known (d + 1))) (item_events it) (item_steps it) (costs_known (d + 1))" if "it \<in> set its" for it
    using Frame that by (simp add: list_all_iff)
  have all: "logs_extend te (named ?Q) (concat (map item_events its)) (concat (map item_steps its)) ?Q"
  proof (cases its)
    case (Cons it rest)
    then obtain es u where it: "it = Step es u" "msg_depth (es_msg es) = d"
      using Frame.prems by (cases it) auto
    have "logs_extend te (named ?Q) (item_events it @ concat (map item_events rest)) (item_steps it @ concat (map item_steps rest)) (costs_known (d + 1))"
      using step_extends [OF it(2), of te u] items_extend [of rest te d] its
      by (intro logs_extend_append) (simp_all add: it(1) Cons)
    then show ?thesis using Cons by (auto elim: logs_extend_mono)
  qed (simp add: nil_extends)
  have fin: "logs_extend te (named all_costs_known) (if creates msg then [Creation_completed res v] else []) [] all_costs_known"
    by (simp add: nil_extends skip_extends [of _ _ "\<lambda>tr. tr"] fun_eq_iff)
  have start: "logs_extend te (\<lambda>tr. costs_known d (dt_logs tr)) [Execution_start n msg codes] [] ?Q"
    by (rule logs_extend_mono [OF start_extends [of te "costs_known d"]]) simp_all
  from logs_extend_append [OF start logs_extend_append [OF all logs_extend_append [OF end_extends fin]]] show ?case by simp
next
  case (Step es v)
  then show ?case using step_extends [of es d te v] by (auto elim!: logs_extend_mono simp: named_def)
next
  case (Nested f)
  then have "logs_extend te (\<lambda>tr. costs_known (d + 1) (dt_logs tr)) (events_of f) (steps_of f) all_costs_known" by simp
  then show ?case by (simp add: logs_extend_mono [OF _ _ all_costs_known_mono] named_def)
next
  case (Precompiled res gas v)
  then show ?case by (simp add: skip_extends [of _ _ "debug_on_precompiled_run gas"] debug_on_precompiled_run_def fun_eq_iff)
qed



text \<open>A call of a contract that calls another one and a precompiled contract.\<close>

definition demo_message :: "u32 \<Rightarrow> message" where
  "demo_message d = \<lparr>msg_kind = EVMC_CALL, msg_static = False, msg_depth = d, msg_gas = 100, msg_recipient = [1], msg_sender = [2],
     msg_input = [], msg_value = 0, msg_code_address = [1]\<rparr>"

definition demo_view :: view where
  "demo_view = \<lparr>vw_exists = (\<lambda>_. True), vw_balance = (\<lambda>_. 0), vw_nonce = (\<lambda>_. 0), vw_code = (\<lambda>_. []),
     vw_current_storage = (\<lambda>_ _. zeros 32), vw_original_storage = (\<lambda>_ _. zeros 32), vw_touched = []\<rparr>"

definition demo_step :: "u32 \<Rightarrow> u32 \<Rightarrow> u64 \<Rightarrow> item" where
  "demo_step d pc gas = Step \<lparr>es_pc = pc, es_opcode = 0x5b, es_stack = [], es_memory = [], es_gas_left = gas,
     es_status = EVMC_SUCCESS, es_msg = demo_message d\<rparr> demo_view"

definition demo_result :: "u64 \<Rightarrow> evmc_result" where
  "demo_result gas = \<lparr>res_status = EVMC_SUCCESS, res_gas_left = gas, res_output = []\<rparr>"

definition demo_frame :: frame where
  "demo_frame = Frame 0 (demo_message 0) [] [demo_step 0 0 100, Precompiled (demo_result 0) 50 demo_view, demo_step 0 1 90,
     Nested (Frame 0 (demo_message 1) [] [demo_step 1 0 30] (demo_result 20) demo_view), demo_step 0 2 70] (demo_result 60) demo_view"


end
