(* ===== verification/Debug_Api_Props.thy ===== *)
theory Debug_Api_Props
  imports Debug_Api Debug_Tracer_Props Api_Props
begin

text \<open>
  The text that the streaming handlers of the namespace debug produce: a JSON document whenever the chain of
  the database is known, and an object that is never closed when it is not.
\<close>

section \<open>Documents\<close>

text \<open>The calls for the members of an object, without those that open and close it.\<close>

definition field_ops :: "(string \<times> json doc) list \<Rightarrow> json op list" where
  "field_ops fs = concat (map (\<lambda>(n, d). case d of Leaf j \<Rightarrow> [Write_field_value n j] | _ \<Rightarrow> Write_field n # ops_of d) fs)"

definition entry_ops :: "json doc list \<Rightarrow> json op list" where
  "entry_ops ds = concat (map ops_of ds)"

lemma ops_of_Obj: "ops_of (Obj fs) = Open_object # field_ops fs @ [Close_object]"
  by (simp add: field_ops_def)

lemma ops_of_Arr: "ops_of (Arr ds) = Open_array # entry_ops ds @ [Close_array]"
  by (simp add: entry_ops_def)

lemma field_ops_simps [simp]:
  "field_ops [] = []"
  "field_ops ((n, Leaf j) # fs) = Write_field_value n j # field_ops fs"
  "field_ops ((n, Obj gs) # fs) = Write_field n # Open_object # field_ops gs @ Close_object # field_ops fs"
  "field_ops ((n, Arr ds) # fs) = Write_field n # Open_array # entry_ops ds @ Close_array # field_ops fs"
  by (simp_all add: field_ops_def entry_ops_def)

lemma entry_ops_simps [simp]:
  "entry_ops [] = []" "entry_ops (Leaf j # ds) = Write_json j # entry_ops ds"
  "entry_ops (Obj fs # ds) = Open_object # field_ops fs @ Close_object # entry_ops ds"
  by (simp_all add: entry_ops_def field_ops_def)

lemma field_ops_append: "field_ops (fs @ gs) = field_ops fs @ field_ops gs"
  by (simp add: field_ops_def)

lemma entry_ops_append: "entry_ops (ds @ es) = entry_ops ds @ entry_ops es"
  by (simp add: entry_ops_def)

lemma entry_ops_leaves [simp]: "entry_ops (map Leaf js) = map Write_json js"
  by (induction js) simp_all

text \<open>Calls that write members of an object, or entries of an array.\<close>

definition writes_fields :: "json op list \<Rightarrow> bool" where
  "writes_fields ops \<longleftrightarrow> (\<exists>fs. ops = field_ops fs \<and> flat_arrays (Obj fs))"

definition writes_entries :: "json op list \<Rightarrow> bool" where
  "writes_entries ops \<longleftrightarrow> (\<exists>ds. ops = entry_ops ds \<and> flat_arrays (Arr ds))"

named_theorems document_rules

lemma writes_fields_Nil [document_rules]: "writes_fields []"
  by (auto simp: writes_fields_def intro!: exI [of _ "[]"])

lemma writes_fields_value [document_rules]: "writes_fields ops \<Longrightarrow> writes_fields (Write_field_value n j # ops)"
  unfolding writes_fields_def by (elim exE conjE) (rule exI [of _ "(n, Leaf j) # _"], auto)

lemma writes_fields_object: "writes_fields ops \<Longrightarrow> writes_fields ops' \<Longrightarrow>
    writes_fields (Write_field n # Open_object # ops @ Close_object # ops')"
  unfolding writes_fields_def by (elim exE conjE) (rule exI [of _ "(n, Obj _) # _"], auto)

lemma writes_fields_array: "writes_entries ops \<Longrightarrow> writes_fields ops' \<Longrightarrow>
    writes_fields (Write_field n # Open_array # ops @ Close_array # ops')"
  unfolding writes_fields_def writes_entries_def by (elim exE conjE) (rule exI [of _ "(n, Arr _) # _"], auto)

lemma writes_fields_append: "writes_fields ops \<Longrightarrow> writes_fields ops' \<Longrightarrow> writes_fields (ops @ ops')"
  unfolding writes_fields_def by (elim exE conjE) (rule exI [of _ "_ @ _"], auto simp: field_ops_append)

lemma writes_entries_Nil [document_rules]: "writes_entries []"
  by (auto simp: writes_entries_def intro!: exI [of _ "[]"])

lemma writes_entries_leaves [document_rules]: "writes_entries (map Write_json js)"
  unfolding writes_entries_def by (rule exI [of _ "map Leaf js"]) auto

lemma writes_entries_object: "writes_fields ops \<Longrightarrow> writes_entries ops' \<Longrightarrow>
    writes_entries (Open_object # ops @ Close_object # ops')"
  unfolding writes_fields_def writes_entries_def by (elim exE conjE) (rule exI [of _ "Obj _ # _"], auto)

text \<open>A reply is a document when its members are.\<close>

lemma reply_is_document:
  assumes "writes_fields ops"
  shows "\<exists>d. flat_arrays d \<and> reply_header request @ ops @ [Close_object] = ops_of d"
proof -
  have "writes_fields (tl (reply_header request) @ ops)"
    using assms by (intro writes_fields_append) (simp_all add: reply_header_def document_rules)
  then obtain fs where "tl (reply_header request) @ ops = field_ops fs" "flat_arrays (Obj fs)"
    by (auto simp: writes_fields_def)
  then show ?thesis
    by (intro exI [of _ "Obj fs"]) (simp add: ops_of_Obj reply_header_def del: ops_of.simps)
qed

section \<open>What the executor writes\<close>

text \<open>
  \<open>streams P m\<close>: a run of \<open>m\<close> appends calls to the stream that satisfy \<open>P\<close>; it fails only in a way that is no
  exception of the language.
\<close>

definition streams :: "('a \<Rightarrow> json op list \<Rightarrow> bool) \<Rightarrow> (json op list, 'a) action \<Rightarrow> bool" where
  "streams P m \<longleftrightarrow> (\<forall>w. case m w of (Inl e, w') \<Rightarrow> what_of e = None | (Inr x, w') \<Rightarrow> \<exists>ops. w' = w @ ops \<and> P x ops)"

definition fatal :: "'a result \<Rightarrow> bool" where
  "fatal r \<longleftrightarrow> (case r of Inl e \<Rightarrow> what_of e = None | Inr x \<Rightarrow> True)"

lemma streams_bind:
  assumes "streams P m" "\<And>x ops. P x ops \<Longrightarrow> streams (\<lambda>y ops'. Q y (ops @ ops')) (f x)"
  shows "streams Q (bind_a m f)"
  unfolding streams_def
proof
  fix w
  show "case bind_a m f w of (Inl e, w') \<Rightarrow> what_of e = None | (Inr y, w') \<Rightarrow> \<exists>ops. w' = w @ ops \<and> Q y ops"
  proof (cases "m w")
    case (Pair r w')
    show ?thesis
    proof (cases r)
      case (Inl e)
      then show ?thesis using assms(1) [unfolded streams_def, rule_format, of w] Pair by (simp add: bind_a_def)
    next
      case (Inr x)
      then obtain ops where "w' = w @ ops" "P x ops"
        using assms(1) [unfolded streams_def, rule_format, of w] Pair by auto
      then show ?thesis
        using assms(2) [OF \<open>P x ops\<close>, unfolded streams_def, rule_format, of w'] Pair Inr
        by (auto simp: bind_a_def split: prod.splits sum.splits)
    qed
  qed
qed

lemma streams_bind_lift: "fatal r \<Longrightarrow> (\<And>x. streams Q (f x)) \<Longrightarrow> streams Q (bind_a (lift r) f)"
  by (rule streams_bind [where P = "\<lambda>_ ops. ops = []"]) (auto simp: streams_def lift_def fatal_def split: sum.splits)

lemma streams_bind_emit: "streams (\<lambda>y ops'. Q y (ops @ ops')) (f ()) \<Longrightarrow> streams Q (bind_a (emit ops) f)"
  by (rule streams_bind [where P = "\<lambda>_ ops'. ops' = ops"]) (auto simp: streams_def emit_def)

lemma streams_case_prod: "(\<And>a b. streams Q (f a b)) \<Longrightarrow> streams Q (case p of (a, b) \<Rightarrow> f a b)"
  by (cases p) simp

lemma streams_if: "(b \<Longrightarrow> streams Q m) \<Longrightarrow> (\<not> b \<Longrightarrow> streams Q m') \<Longrightarrow> streams Q (if b then m else m')"
  by simp

lemma streams_undefined: "what_of e = None \<Longrightarrow> streams Q (lift (Throw e))"
  by (simp add: streams_def lift_def)

lemma streams_ret: "P x [] \<Longrightarrow> streams P (ret x)"
  by (simp add: streams_def ret_def)

lemma fatal_bind: "fatal r \<Longrightarrow> (\<And>x. fatal (f x)) \<Longrightarrow> fatal (bind_r r f)"
  by (cases r) (simp_all add: fatal_def)

lemma fatal_Ok [simp]: "fatal (Ok x)"
  by (simp add: fatal_def)

lemma fatal_fold_r: "(\<And>x s. fatal (f x s)) \<Longrightarrow> fatal (fold_r f xs s)"
proof (induction xs arbitrary: s)
  case (Cons x xs)
  then have "fatal (f x s)" by blast
  with Cons.IH [OF Cons.prems] show ?case by (cases "f x s") (auto simp: fatal_def)
qed simp

lemma fatal_executor_call: "fatal (executor_call machine so txn refund gas_bailout s)"
proof -
  have "fatal (sender txn)" by (simp add: sender_def fatal_def split: option.splits)
  then show ?thesis
    unfolding executor_call_def by (intro fatal_bind) (simp_all add: Let_def fatal_def split: option.splits prod.splits)
qed

lemma fatal_traced_call: "fatal (traced_call tg machine so txn refund gas_bailout s)"
  unfolding traced_call_def by (intro fatal_bind fatal_executor_call) (simp split: prod.splits)

lemma fatal_replay: "fatal (replay jx machine so txns s)"
  unfolding replay_def by (intro fatal_fold_r fatal_bind fatal_executor_call) (simp split: prod.splits)

lemma fatal_debug_on_events: "fatal (debug_on_events te evs tr)"
proof -
  have "fatal (debug_on_event te ev tr)" for ev tr
    by (cases ev) (simp_all add: debug_on_instruction_start_def fatal_def Let_def split: option.splits)
  then show ?thesis unfolding debug_on_events_def by (intro fatal_fold_r)
qed

lemma outcome_fields_writes: "writes_fields (outcome_fields te txn r)"
  by (simp add: outcome_fields_def document_rules)

lemma streams_debug_execute_transactions:
  "streams (\<lambda>_. writes_entries) (debug_execute_transactions tg machine so cfg True txns s)"
proof (induction txns arbitrary: s)
  case Nil
  show ?case by (simp add: streams_ret document_rules)
next
  case (Cons t ts)
  show ?case
    unfolding debug_execute_transactions.simps Let_def emit_if_simps
  proof (intro streams_bind_emit streams_bind_lift fatal_traced_call fatal_debug_on_events, clarify,
      intro streams_bind_emit streams_bind_lift fatal_debug_on_events, rule streams_bind [OF Cons.IH], rule streams_ret)
    fix r evs s' tr traces ops
    assume "writes_entries ops"
    let ?logs = "dt_written (flush_logs (tg_ext tg) tr)"
    let ?out = "if er_pre_check_error r \<noteq> None then [Write_field_value ''failed'' (Boolean True)]
      else outcome_fields (tg_ext tg) (recover_sender (te_jx (tg_ext tg)) t) r"
    have "writes_fields (Write_field ''structLogs'' # Open_array # map Write_json ?logs @ Close_array # ?out)"
      using outcome_fields_writes by (intro writes_fields_array) (simp_all add: document_rules)
    then have "writes_fields (Write_field ''result'' # Open_object #
        (Write_field ''structLogs'' # Open_array # map Write_json ?logs @ Close_array # ?out) @ Close_object # [])"
      by (intro writes_fields_object document_rules)
    with \<open>writes_entries ops\<close> have "writes_entries (Open_object # (Write_field ''result'' # Open_object #
        (Write_field ''structLogs'' # Open_array # map Write_json ?logs @ Close_array # ?out) @ Close_object # []) @ Close_object # ops)"
      by (intro writes_entries_object)
    then show "writes_entries
        ([Open_object, Write_field ''result'', Open_object, Write_field ''structLogs'', Open_array] @
         (map Write_json ?logs @ [Close_array]) @ (?out @ [Close_object, Close_object]) @ ops @ [])"
      by simp
  qed
qed

lemma bind_a_lift_Ok: "bind_a (lift (Ok x)) f = f x"
  by (simp add: fun_eq_iff)

lemma streams_debug_execute_block:
  assumes "read_chain_id (ae_x env) rd = Ok chain_id" "ae_chains env chain_id = Some machine"
  shows "streams (\<lambda>_. writes_entries) (debug_execute_block env tg rd cfg block True)"
  unfolding debug_execute_block_def using assms streams_debug_execute_transactions
  by (simp add: lookup_chain_config_def streams_def)

lemma streams_debug_execute:
  assumes "read_chain_id (ae_x env) rd = Ok chain_id" "ae_chains env chain_id = Some machine"
  shows "streams (\<lambda>_. writes_fields) (debug_execute env tg rd cfg block_number block transaction index True)"
proof -
  have chain: "lookup_chain_config (ae_chains env) chain_id = Ok machine"
    using assms(2) by (simp add: lookup_chain_config_def)
  note logs = writes_fields_array [OF writes_entries_leaves]
  have outcome: "streams (\<lambda>_ ops. writes_fields ([Write_field ''structLogs'', Open_array] @ (map Write_json js @ [Close_array]) @ ops))
      (case er_pre_check_error r of Some error \<Rightarrow> ret (x error) | None \<Rightarrow> bind_a (emit (outcome_fields te txn r)) (\<lambda>_. ret y))"
    for js r te txn x y
    by (cases "er_pre_check_error r")
      (auto intro!: streams_ret streams_bind_emit logs outcome_fields_writes document_rules)
  show ?thesis
    unfolding debug_execute_def Let_def assms(1) chain bind_a_lift_Ok emit_if_simps
    by (intro streams_if streams_bind_lift streams_bind_emit streams_case_prod fatal_replay fatal_traced_call
        fatal_debug_on_events outcome streams_undefined) simp
qed

section \<open>What the handlers write\<close>

text \<open>
  \<open>replies m\<close>: the body of a handler writes members of the reply, also before an exception; other failures are
  no exceptions of the language.
\<close>

definition reply_ok :: "json op list \<Rightarrow> unit result \<times> ('c, 'w) streaming \<Rightarrow> bool" where
  "reply_ok w out \<longleftrightarrow>
     (case fst out of Inl e \<Rightarrow> what_of e = None | Inr u \<Rightarrow> False) \<or> (\<exists>ops. snd (snd out) = w @ ops \<and> writes_fields ops)"

definition replies :: "(('c, 'w) streaming, unit) action \<Rightarrow> bool" where
  "replies m \<longleftrightarrow> (\<forall>s w. reply_ok w (m (s, w)))"

lemma reply_ok_same [simp]: "reply_ok w (r, (s, w))"
  by (simp add: reply_ok_def writes_fields_Nil)

lemma reply_ok_append [simp]: "writes_fields ops \<Longrightarrow> reply_ok w (r, (s, w @ ops))"
  by (simp add: reply_ok_def)

lemma replies_on_api: "(\<And>x. replies (f x)) \<Longrightarrow> replies (bind_a (on_api m) f)"
  by (simp add: replies_def bind_a_on_api split: prod.splits sum.splits)

lemma replies_lift: "(\<And>x. replies (f x)) \<Longrightarrow> replies (bind_a (lift r) f)"
  by (simp add: replies_def split: sum.splits)

lemma replies_write_ops: "writes_fields ops \<Longrightarrow> replies (write_ops ops)"
  by (simp add: replies_def)

lemma error_field_writes [document_rules]: "writes_fields (error_field ecode what_text)"
  by (simp add: error_field_def document_rules)

lemma pre_check_field_writes [document_rules]: "writes_fields (pre_check_field r)"
  by (simp add: pre_check_field_def document_rules split: option.splits)

lemma replies_object:
  assumes "streams (\<lambda>_. writes_fields) m" "\<And>r. writes_fields (g r)"
  shows "replies (bind_a (write_ops [Write_field n, Open_object]) (\<lambda>_. bind_a (on_stream m) (\<lambda>r. write_ops ([Close_object] @ g r))))"
  unfolding replies_def
proof (intro allI)
  fix s w
  obtain r w' where m: "m (w @ [Write_field n, Open_object]) = (r, w')" by (metis surj_pair)
  then show "reply_ok w (bind_a (write_ops [Write_field n, Open_object]) (\<lambda>_. bind_a (on_stream m) (\<lambda>r. write_ops ([Close_object] @ g r))) (s, w))"
    using assms(1) [unfolded streams_def, rule_format, of "w @ [Write_field n, Open_object]"] writes_fields_object [OF _ assms(2)]
    by (cases r) (auto simp: bind_a_def [of "on_stream m"] on_stream_def reply_ok_def)
qed

lemma replies_array:
  assumes "streams (\<lambda>_. writes_entries) m"
  shows "replies (bind_a (write_ops [Write_field n, Open_array]) (\<lambda>_. bind_a (on_stream m) (\<lambda>r. write_ops [Close_array])))"
  unfolding replies_def
proof (intro allI)
  fix s w
  obtain r w' where m: "m (w @ [Write_field n, Open_array]) = (r, w')" by (metis surj_pair)
  then show "reply_ok w (bind_a (write_ops [Write_field n, Open_array]) (\<lambda>_. bind_a (on_stream m) (\<lambda>r. write_ops [Close_array])) (s, w))"
    using assms(1) [unfolded streams_def, rule_format, of "w @ [Write_field n, Open_array]"] writes_fields_array [OF _ writes_fields_Nil]
    by (cases r) (auto simp: bind_a_def [of "on_stream m"] on_stream_def reply_ok_def)
qed

definition chain_known :: "('c, 'w, 's) api_env \<Rightarrow> reader \<Rightarrow> bool" where
  "chain_known env rd \<longleftrightarrow> (\<exists>chain_id machine. read_chain_id (ae_x env) rd = Ok chain_id \<and> ae_chains env chain_id = Some machine)"

text \<open>The clauses write a member for what is an exception, and catch nothing else.\<close>

definition clauses_ok :: "stream_clauses \<Rightarrow> bool" where
  "clauses_ok cs \<longleftrightarrow> (\<forall>e. case cs e of None \<Rightarrow> True | Some ops \<Rightarrow> writes_fields ops \<and> what_of e \<noteq> None)"

lemma clauses_ok_what: "clauses_ok (catch_what ecode)"
  by (auto simp: clauses_ok_def catch_what_def document_rules split: option.splits)

lemma clauses_ok_invalid: "clauses_ok cs \<Longrightarrow> clauses_ok (catch_invalid ecode what_text cs)"
  unfolding clauses_ok_def
proof
  fix e assume "\<forall>e. case cs e of None \<Rightarrow> True | Some ops \<Rightarrow> writes_fields ops \<and> what_of e \<noteq> None"
  then have "case cs e of None \<Rightarrow> True | Some ops \<Rightarrow> writes_fields ops \<and> what_of e \<noteq> None" by (rule spec)
  then show "case catch_invalid ecode what_text cs e of None \<Rightarrow> True | Some ops \<Rightarrow> writes_fields ops \<and> what_of e \<noteq> None"
    by (cases e) (auto simp: catch_invalid_def document_rules split: option.splits)
qed

lemma stream_transaction_document:
  assumes begun: "ae_begin env (api_world s) = (Ok (rd, cached), w)" and body: "replies (body rd cached)" and cs: "clauses_ok cs"
    and run': "stream_transaction env request cs body (s, []) = (Ok (), (s', ops))"
  shows "\<exists>d. flat_arrays d \<and> ops = ops_of d"
proof -
  let ?s = "s\<lparr>api_world := w, api_open := Suc (api_open s)\<rparr>"
  have begin': "begin_tx env s = (Ok (rd, cached), ?s)"
    using begun by (simp add: begin_tx_def on_world_def bind_a_def)
  obtain r s1 w1 where r: "body rd cached (?s, reply_header request) = (r, (s1, w1))" by (metis surj_pair)
  have at: "reply_ok (reply_header request) (r, (s1, w1))"
    using body r unfolding replies_def by metis
  note run_simps = stream_transaction_def bind_a_on_api bind_a_def [of "stream_catch cs _"] stream_catch_def
  obtain out where "ops = reply_header request @ out @ [Close_object]" "writes_fields out"
  proof (cases r)
    case (Inr u)
    then show ?thesis
      using that run' begin' r at by (auto simp: run_simps reply_ok_def)
  next
    case (Inl e)
    with run' begin' r obtain ops' where ops': "cs e = Some ops'" "ops = w1 @ ops' @ [Close_object]"
      by (auto simp: run_simps split: option.splits)
    then have "writes_fields ops'" "what_of e \<noteq> None"
      using cs [unfolded clauses_ok_def, rule_format, of e] by simp_all
    moreover from this obtain out where "w1 = reply_header request @ out" "writes_fields out"
      using Inl at by (auto simp: reply_ok_def)
    ultimately show ?thesis
      using that [of "out @ ops'"] ops'(2) by (simp add: writes_fields_append)
  qed
  then show ?thesis using reply_is_document by auto
qed

section \<open>The handlers\<close>

lemma document_text:
  assumes "flat_arrays d"
  shows "run string_write dump (ops_of d) (make_stream []) = Ok \<lparr>writer_ref = render dump d, stack = []\<rparr>"
proof -
  have "doc_ok (\<lambda>_. True) dump d" by (induction d) auto
  with string_stream.doc_emits [OF assms, of dump "[]"] show ?thesis
    by (intro string_stream_run) (simp add: in_array_def entered_def sep_of_def)
qed

text \<open>A reply is a document when the body of the handler, given right parameters, makes it one.\<close>

lemma stream_params_document:
  assumes "stream_params env name ok request body (s, []) = (Ok (), (s', ops))"
    and "\<And>params. body params (s, []) = (Ok (), (s', ops)) \<Longrightarrow> \<exists>d. flat_arrays d \<and> ops = ops_of d"
  shows "\<exists>d. flat_arrays d \<and> ops = ops_of d"
proof -
  obtain params where params: "params_of request = Ok params"
    using assms(1) by (auto simp: stream_params_def split: sum.splits)
  show ?thesis
  proof (cases "ok (json_size params)")
    case True
    then show ?thesis using assms params by (auto simp: stream_params_def)
  next
    case False
    then obtain reply where "ops = [Write_json reply]"
      using assms(1) params by (auto simp: stream_params_def split: sum.splits)
    then show ?thesis by (intro exI [of _ "Leaf reply"]) simp
  qed
qed

lemma param_document:
  "bind_a (param f params i) g (s, []) = (Ok (), (s', ops)) \<Longrightarrow> (\<And>x. g x (s, []) = (Ok (), (s', ops)) \<Longrightarrow> P) \<Longrightarrow> P"
  by (auto simp: param_def split: sum.splits)

lemma config_document:
  "bind_a (config_param params i) g (s, []) = (Ok (), (s', ops)) \<Longrightarrow> (\<And>x. g x (s, []) = (Ok (), (s', ops)) \<Longrightarrow> P) \<Longrightarrow> P"
  by (auto simp: config_param_def elim: param_document split: if_splits)

lemma replies_option: "(m = None \<Longrightarrow> replies f) \<Longrightarrow> (\<And>x. m = Some x \<Longrightarrow> replies (g x)) \<Longrightarrow> replies (case m of None \<Rightarrow> f | Some x \<Rightarrow> g x)"
  by (cases m) simp_all

text \<open>
  C6: When the chain of the database is known, every reply that one of the handlers of \<^verbatim>\<open>debug_traceTransaction\<close>,
  \<^verbatim>\<open>debug_traceCall\<close>, \<^verbatim>\<open>debug_traceBlockByNumber\<close> and \<^verbatim>\<open>debug_traceBlockByHash\<close> completes is one JSON document: the calls of
  the stream end with an empty stack, and the text is the rendering of a document. This holds for wrong
  parameters, missing blocks and transactions, rejected transactions and exceptions of the database too.
\<close>
theorem debug_streams_are_documents:
  assumes begun: "ae_begin env (api_world s) = (Ok (rd, cached), w)" and known: "chain_known env rd" "chain_known env cached"
    and h: "h = handle_debug_trace_transaction \<or> h = handle_debug_trace_call \<or> h = handle_debug_trace_block_by_number \<or>
      h = handle_debug_trace_block_by_hash"
    and run': "h tg env request (s, []) = (Ok (), (s', ops))"
  shows "\<exists>d. run string_write dump ops (make_stream []) = Ok \<lparr>writer_ref = render dump d, stack = []\<rparr>"
proof -
  have tx: "streams (\<lambda>_. writes_fields) (debug_execute env tg db cfg n block txn i True)" if "db = rd \<or> db = cached" for db cfg n block txn i
    using known that streams_debug_execute unfolding chain_known_def by blast
  have block: "streams (\<lambda>_. writes_entries) (debug_execute_block env tg rd cfg block True)" for cfg block
    using known(1) streams_debug_execute_block unfolding chain_known_def by blast
  note body = replies_on_api replies_lift replies_option replies_object replies_array replies_write_ops document_rules
    clauses_ok_what clauses_ok_invalid
  have blocks: "\<exists>d. flat_arrays d \<and> ops = ops_of d" if "stream_block tg env request what_text cfg the_block (s, []) = (Ok (), (s', ops))"
    for what_text cfg the_block
    using that unfolding stream_block_def by (rule stream_transaction_document [OF begun, rotated 2]) (intro body block)+
  have "\<exists>d. flat_arrays d \<and> ops = ops_of d"
    using h run'
  proof (elim disjE, simp_all only:)
    assume "handle_debug_trace_transaction tg env request (s, []) = (Ok (), (s', ops))"
    then show ?thesis
      unfolding handle_debug_trace_transaction_def debug_execute_transaction_def
      by (rule stream_params_document)
        (elim param_document config_document, erule stream_transaction_document [OF begun, rotated 2], (intro body tx disjI1 refl)+)
  next
    assume "handle_debug_trace_call tg env request (s, []) = (Ok (), (s', ops))"
    then show ?thesis
      unfolding handle_debug_trace_call_def debug_execute_call_def
      by (rule stream_params_document)
        (elim param_document config_document, erule stream_transaction_document [OF begun, rotated 2],
         (intro body tx | simp add: clauses_ok_def document_rules split: option.splits)+)
  next
    assume "handle_debug_trace_block_by_number tg env request (s, []) = (Ok (), (s', ops))"
    then show ?thesis
      unfolding handle_debug_trace_block_by_number_def
      by (rule stream_params_document) (elim param_document config_document, rule blocks)
  next
    assume "handle_debug_trace_block_by_hash tg env request (s, []) = (Ok (), (s', ops))"
    then show ?thesis
      unfolding handle_debug_trace_block_by_hash_def
      by (rule stream_params_document) (elim param_document config_document, rule blocks)
  qed
  then show ?thesis using document_text by blast
qed

definition quoted :: "string \<Rightarrow> string" where
  "quoted str = [CHR 0x22] @ str @ [CHR 0x22]"

text \<open>
  When the chain of the database is not known, the handler of \<^verbatim>\<open>debug_traceBlockByHash\<close> has opened the array of
  the result before the exception comes. It writes the member \<^verbatim>\<open>error\<close> inside of that array and closes once, with
  a brace: the text is no JSON, and the stream still has the object of the reply open.
\<close>
lemma trace_block_error_unclosed:
  assumes "contains request ''params''" "field request ''params'' = Array [j]" "from_json_bytes32 (ae_jx env) j = Ok h"
    and "ae_begin env (api_world s) = (Ok (rd, cached), w)"
    and "cached_read_block_by_hash (ae_cache env) (ae_x env) rd h (api_blocks s) = (Ok block, c)"
    and "read_chain_id (ae_x env) rd = Throw (Runtime_error what)"
  shows "\<exists>s' ops. handle_debug_trace_block_by_hash tg env request (s, []) = (Ok (), (s', ops)) \<and>
    run string_write dump ops (make_stream []) =
      Ok \<lparr>writer_ref = ''{'' @ quoted ''id'' @ '':'' @ dump (field request ''id'') @ '','' @ quoted ''jsonrpc'' @ '':'' @ dump (String ''2.0'') @
            '','' @ quoted ''result'' @ '':['' @ quoted ''error'' @ '':'' @ dump (to_json_Error 100 what) @ ''}'',
          stack = [Field_written, Object_open]\<rparr>"
proof -
  have "handle_debug_trace_block_by_hash tg env request (s, []) =
      (Ok (), (close_tx (s\<lparr>api_world := w, api_open := Suc (api_open s), api_blocks := c\<rparr>),
        reply_header request @ [Write_field ''result'', Open_array] @ error_field 100 what @ [Close_object]))"
    using assms
    by (simp add: handle_debug_trace_block_by_hash_def stream_params_def params_of_def param_def config_param_def stream_block_def
        stream_transaction_def bind_a_on_api begin_tx_def on_world_def bind_a_def [of "stream_catch _ _"] stream_catch_def
        bind_a_def [of "on_stream _"] bind_a_def [of "on_world _"] on_stream_def on_cache_def debug_execute_block_def catch_invalid_def catch_what_def)
  moreover have "run string_write dump (reply_header request @ [Write_field ''result'', Open_array] @ error_field 100 what @ [Close_object])
      (make_stream []) =
      Ok \<lparr>writer_ref = ''{'' @ quoted ''id'' @ '':'' @ dump (field request ''id'') @ '','' @ quoted ''jsonrpc'' @ '':'' @ dump (String ''2.0'') @
            '','' @ quoted ''result'' @ '':['' @ quoted ''error'' @ '':'' @ dump (to_json_Error 100 what) @ ''}'',
          stack = [Field_written, Object_open]\<rparr>"
    by (simp add: reply_header_def error_field_def make_stream_def stream_defs string_write_def quoted_def)
  ultimately show ?thesis by blast
qed

section \<open>Instances\<close>

definition demo_tracer_ext :: tracer_ext where
  "demo_tracer_ext = \<lparr>te_names = (\<lambda>_ _. None), te_to_string16 = (\<lambda>_. ''0''), te_intx_hex = (\<lambda>_. ''0''), te_evmc_hex = hex_of_bytes,
     te_jx = demo_json_ext, te_uninitialized = 0\<rparr>"

definition demo_tracing :: "ledger tracing" where
  "demo_tracing = \<lparr>tg_ext = demo_tracer_ext, tg_events = (\<lambda>_. []), tg_view = (\<lambda>_. demo_view)\<rparr>"

definition no_transactions :: block_with_hash where
  "no_transactions = \<lparr>bw_transactions = [], bw_ommers = [], bw_header = empty_header, bw_hash = [1]\<rparr>"

text \<open>A node that has the block in its cache, of a chain that is not known, and of one that is.\<close>

definition cached_env :: "(unit, bytes list, ledger) api_env" where
  "cached_env = demo_api_env\<lparr>ae_cache := \<lparr>bc_get = (\<lambda>_ c. (Some no_transactions, c)), bc_insert = (\<lambda>_ _ c. c)\<rparr>\<rparr>"

definition chain_env :: "(unit, bytes list, ledger) api_env" where
  "chain_env = cached_env\<lparr>ae_x := Rawdb_Props.demo_ext\<lparr>x_codec := demo_codec\<lparr>get_uint64 := (\<lambda>_. Ok 1)\<rparr>,
     x_parse_json := (\<lambda>_. Ok (Object [(''chainId'', Number 1)]))\<rparr>\<rparr>"

lemma cached_env_simps:
  "from_json_bytes32 (ae_jx cached_env) (String ''0x01'') = Ok [1]" "from_json_bytes32 (ae_jx chain_env) (String ''0x01'') = Ok [1]"
  "ae_begin cached_env w = (Ok (demo_api_reader, demo_api_reader), w)" "ae_begin chain_env w = (Ok (demo_api_reader, demo_api_reader), w)"
  "cached_read_block_by_hash (ae_cache cached_env) x rd h c = (Ok no_transactions, c)"
  "cached_read_block_by_hash (ae_cache chain_env) x rd h c = (Ok no_transactions, c)"
  by (simp_all add: from_json_bytes32_def chain_env_def cached_env_def demo_api_env_def demo_json_ext_def demo_numbers value_or_def ret_def
      cached_read_block_by_hash_def del: plain_from_hex.simps)

lemma cached_env_chain:
  "read_chain_id (ae_x cached_env) demo_api_reader = Throw (Runtime_error ''missing chainId in chain config'')"
  "read_chain_id (ae_x chain_env) demo_api_reader = Ok 1" "ae_chains chain_env 1 = Some (\<lambda>_. demo_vm)"
  by (simp_all add: read_chain_id_def read_chain_config_def read_canonical_block_hash_def demo_api_reader_def chain_env_def cached_env_def
      demo_api_env_def Rawdb_Props.demo_ext_def demo_codec_def)

lemma trace_block_error_unclosed_witness:
  "\<exists>s' ops. handle_debug_trace_block_by_hash demo_tracing cached_env (demo_call_request [String ''0x01'']) (demo_state, []) = (Ok (), (s', ops)) \<and>
    run string_write (\<lambda>_. ''0'') ops (make_stream []) =
      Ok \<lparr>writer_ref = ''{'' @ quoted ''id'' @ '':0,'' @ quoted ''jsonrpc'' @ '':0,'' @ quoted ''result'' @ '':['' @ quoted ''error'' @ '':0}'',
          stack = [Field_written, Object_open]\<rparr>"
  using trace_block_error_unclosed [OF demo_api_simps(3,4) cached_env_simps(1,3,5) cached_env_chain(1), where s = demo_state
      and tg = demo_tracing and dump = "\<lambda>_. ''0''"]
  by simp

lemma demo_trace_block:
  "handle_debug_trace_block_by_hash demo_tracing chain_env (demo_call_request [String ''0x01'']) (demo_state, []) =
     (Ok (), (demo_state, reply_header (demo_call_request [String ''0x01'']) @ [Write_field ''result'', Open_array, Close_array, Close_object]))"
  by (simp add: handle_debug_trace_block_by_hash_def stream_params_def params_of_def param_def config_param_def stream_block_def
      stream_transaction_def bind_a_on_api begin_tx_def on_world_def bind_a_def [of "stream_catch _ _"] stream_catch_def
      bind_a_def [of "on_stream _"] bind_a_def [of "on_world _"] on_stream_def on_cache_def debug_execute_block_def catch_invalid_def catch_what_def
      demo_api_simps cached_env_simps cached_env_chain lookup_chain_config_def no_transactions_def close_tx_def demo_state_def ret_def)

theorem debug_streams_are_documents_witness:
  "\<exists>d :: json doc. run string_write (\<lambda>_. ''0'') (reply_header (demo_call_request [String ''0x01'']) @ [Write_field ''result'', Open_array, Close_array, Close_object])
     (make_stream []) = Ok \<lparr>writer_ref = render (\<lambda>_. ''0'') d, stack = []\<rparr>"
proof -
  have "chain_known chain_env demo_api_reader" using cached_env_chain(2,3) by (auto simp: chain_known_def)
  from debug_streams_are_documents [OF cached_env_simps(4) this this, where h = handle_debug_trace_block_by_hash
      and dump = "\<lambda>_. ''0''", OF _ demo_trace_block] show ?thesis by simp
qed

end
