(* ===== verification/Vm_Trace_Props.thy ===== *)
theory Vm_Trace_Props
  imports Vm_Trace Call_Trees
begin

text \<open>
  The tracer of instructions: references into the tree of traces stay valid as long as no precompiled contract
  runs below the outermost frame; when one does, the trace that is being written is destroyed.
\<close>

lemma fold_r_simps: "fold_r f (x # xs) s = bind_r (f x s) (fold_r f xs)"
  by (simp add: bind_r_def split: sum.splits)

text \<open>
  A contract that is called by another contract runs a precompiled contract and then goes on. The tracer
  notes the run at the last instruction of the outermost trace, whose pointer to the trace of the called
  contract is overwritten: that trace is destroyed while it is the current one, and the next instruction uses
  it after it was freed.
\<close>
lemma nested_precompiled_use_after_free:
  assumes "msg_depth msg = 0" "msg_depth msg' \<noteq> 0" "es_opcode es1 = 0x5b" "es_opcode es2 = 0xf1" "length (es_stack es2) \<ge> 7"
    and "es_opcode es3 = 0x5b"
  shows "fold_r (vm_on_event te) (events_of (Frame n msg codes
      [Step es1 v, Step es2 v, Nested (Frame n msg' codes' [Step es3 v, Precompiled res gas v, Step es4 v] res' v)] res v))
      (vm_tracer_of index) = Throw Use_after_free"
proof -
  have lw: "\<exists>a. low_word (es_stack es2) 5 = Ok a" "\<exists>b. low_word (es_stack es2) 6 = Ok b"
    using assms(5) by (simp_all add: low_word_def stack_at_def)
  then obtain a b where "low_word (es_stack es2) 5 = Ok a" "low_word (es_stack es2) 6 = Ok b" by blast
  then show ?thesis
    using assms
    by (simp add: fold_r_simps vm_tracer_of_def vm_on_execution_start_def vm_on_instruction_start_def vm_on_precompiled_run_def current_trace_def
        top_of_def deref_def find_trace_def complete_last_def complete_op_def new_op_def copy_memory_def copy_stack_def copy_store_def
        copy_memory_offset_len_def memory_range_def enter_call_def get_stack_count_def one_result_def Let_def split del: if_split)
qed

definition plain_view :: view where
  "plain_view = \<lparr>vw_exists = (\<lambda>_. True), vw_balance = (\<lambda>_. 0), vw_nonce = (\<lambda>_. 0), vw_code = (\<lambda>_. []),
     vw_current_storage = (\<lambda>_ _. zeros 32), vw_original_storage = (\<lambda>_ _. zeros 32), vw_touched = []\<rparr>"

definition plain_message :: "u32 \<Rightarrow> message" where
  "plain_message d = \<lparr>msg_kind = EVMC_CALL, msg_static = False, msg_depth = d, msg_gas = 100, msg_recipient = [1], msg_sender = [2],
     msg_input = [], msg_value = 0, msg_code_address = [1]\<rparr>"

definition plain_step :: "u32 \<Rightarrow> byte \<Rightarrow> u256 list \<Rightarrow> execution_state" where
  "plain_step d opcode st = \<lparr>es_pc = 0, es_opcode = opcode, es_stack = st, es_memory = [], es_gas_left = 50, es_status = EVMC_SUCCESS,
     es_msg = plain_message d\<rparr>"

definition plain_result :: evmc_result where
  "plain_result = \<lparr>res_status = EVMC_SUCCESS, res_gas_left = 10, res_output = []\<rparr>"

lemma nested_precompiled_use_after_free_witness:
  "\<forall>te. fold_r (vm_on_event te) (events_of (Frame 0 (plain_message 0) []
      [Step (plain_step 0 0x5b []) plain_view, Step (plain_step 0 0xf1 [0, 0, 0, 0, 0, 0, 0]) plain_view,
       Nested (Frame 0 (plain_message 1) [] [Step (plain_step 1 0x5b []) plain_view, Precompiled plain_result 5 plain_view,
         Step (plain_step 1 0x5b []) plain_view] plain_result plain_view)] plain_result plain_view)) (vm_tracer_of 0) = Throw Use_after_free"
  by (intro allI nested_precompiled_use_after_free) (simp_all add: plain_message_def plain_step_def)

end
