(* ===== verification/Trace_Tracer_Props.thy ===== *)
theory Trace_Tracer_Props
  imports Trace_Tracer Call_Trees
begin

text \<open>
  The flat list of traces against the tree of calls: for every run of a frame the list is the preorder
  traversal of the tree, each trace with the path of its frame as address and the number of its calls.
\<close>

section \<open>The specification\<close>

text \<open>
  The trace of a frame at a path, with the number of frames it calls. The output of the outermost frame is
  not taken from the frame.
\<close>

definition frame_trace :: "u32 list \<Rightarrow> u32 \<Rightarrow> message \<Rightarrow> bytes \<Rightarrow> evmc_result \<Rightarrow> call_trace" where
  "frame_trace path calls msg codes res =
     (let output = (if msg_depth msg = 0 then [] else res_output res);
          r = (if creates msg
               then \<lparr>rs_address = Some (msg_recipient msg), rs_code = Some output, rs_output = None, rs_gas_used = msg_gas msg - res_gas_left res\<rparr>
               else \<lparr>rs_address = None, rs_code = None, rs_output = Some output, rs_gas_used = msg_gas msg - res_gas_left res\<rparr>);
          status = res_status res
      in \<lparr>ct_action = Trace_action (action_of (creates msg) msg codes),
          ct_result = (if status = EVMC_SUCCESS \<or> status = EVMC_REVERT then Some r else None),
          ct_sub_traces = calls, ct_trace_address = path,
          ct_error = (if status = EVMC_SUCCESS then None else if status = EVMC_REVERT then Some ''Reverted'' else Some (failure_text status)),
          ct_type = (if creates msg then ''create'' else ''call''),
          ct_block_hash = None, ct_block_number = None, ct_transaction_hash = None, ct_transaction_position = None\<rparr>)"

text \<open>The frames that a frame calls are numbered from \<open>k\<close>.\<close>

fun numbered_traces :: "u32 \<Rightarrow> u32 list \<Rightarrow> (u32 list \<Rightarrow> call_trace list) option list \<Rightarrow> call_trace list" where
  "numbered_traces k path [] = []"
| "numbered_traces k path (None # fs) = numbered_traces k path fs"
| "numbered_traces k path (Some f # fs) = f (path @ [k]) @ numbered_traces (k + 1) path fs"

definition calls_of :: "item list \<Rightarrow> u32" where
  "calls_of its = of_nat (length (filter (\<lambda>it. case it of Nested f \<Rightarrow> True | _ \<Rightarrow> False) its))"

primrec frame_traces :: "frame \<Rightarrow> u32 list \<Rightarrow> call_trace list" and item_traces :: "item \<Rightarrow> (u32 list \<Rightarrow> call_trace list) option" where
  "frame_traces (Frame rev' msg codes its res v) = (\<lambda>path.
     frame_trace path (calls_of its) msg codes res # numbered_traces 0 path (map item_traces its))"
| "item_traces (Step es v) = None"
| "item_traces (Nested f) = Some (frame_traces f)"
| "item_traces (Precompiled res gas v) = None"

text \<open>The messages of a run in the order in which their frames start.\<close>

primrec messages_of :: "frame \<Rightarrow> message list" and item_messages :: "item \<Rightarrow> message list" where
  "messages_of (Frame rev' msg codes its res v) = msg # concat (map item_messages its)"
| "item_messages (Step es v) = []"
| "item_messages (Nested f) = messages_of f"
| "item_messages (Precompiled res gas v) = []"

text \<open>
  What the tracer takes for a creation is one: the recipient of a creating message is a new address, and the
  recipient of another message existed before, was created in this run, or runs its own code.
\<close>

fun kinds_ok :: "(bytes \<Rightarrow> bool) \<Rightarrow> bytes set \<Rightarrow> message list \<Rightarrow> bool" where
  "kinds_ok exist created [] = True"
| "kinds_ok exist created (m # ms) \<longleftrightarrow>
     (creates m \<longleftrightarrow> \<not> exist (msg_recipient m) \<and> msg_recipient m \<notin> created \<and> msg_recipient m \<noteq> msg_code_address m) \<and>
     kinds_ok exist (if creates m then insert (msg_recipient m) created else created) ms"

definition created_by :: "message list \<Rightarrow> bytes set" where
  "created_by ms = msg_recipient ` {m \<in> set ms. creates m}"

text \<open>Frames are at most 1024 deep, and a creation does not end in a way that has no result.\<close>

primrec levels_ok :: "nat \<Rightarrow> frame \<Rightarrow> bool" and item_levels :: "nat \<Rightarrow> item \<Rightarrow> bool" where
  "levels_ok n (Frame rev' msg codes its res v) \<longleftrightarrow>
     n \<le> 1024 \<and> msg_depth msg = of_nat n \<and> (creates msg \<longrightarrow> res_status res = EVMC_SUCCESS \<or> res_status res = EVMC_REVERT) \<and>
     list_all (item_levels n) its"
| "item_levels n (Step es v) \<longleftrightarrow> True"
| "item_levels n (Nested f) \<longleftrightarrow> levels_ok (Suc n) f"
| "item_levels n (Precompiled res gas v) \<longleftrightarrow> True"

section \<open>The tracer\<close>

lemma trace_on_events_simps [simp]:
  "trace_on_events [] tr = Ok tr"
  "trace_on_events (ev # evs) tr = bind_r (trace_on_event ev tr) (trace_on_events evs)"
  by (simp_all add: trace_on_events_def bind_r_def split: sum.splits)

lemma trace_on_events_append:
  "trace_on_events (xs @ ys) tr = bind_r (trace_on_events xs tr) (trace_on_events ys)"
  by (induction xs arbitrary: tr) (auto simp: bind_r_def split: sum.splits)

lemma created_by_simps [simp]:
  "created_by [] = {}" "created_by (m # ms) = (if creates m then insert (msg_recipient m) (created_by ms) else created_by ms)"
  "created_by (ms @ ns) = created_by ms \<union> created_by ns"
  by (auto simp: created_by_def)

lemma kinds_ok_append: "kinds_ok exist created (ms @ ns) \<longleftrightarrow> kinds_ok exist created ms \<and> kinds_ok exist (created \<union> created_by ms) ns"
  by (induction ms arbitrary: created) simp_all

lemma sint_depth: "n \<le> 1024 \<Longrightarrow> sint (of_nat n :: u32) = int n"
  by (simp add: signed_of_nat signed_take_bit_int_eq_self)

lemma depth_zero: "n \<le> 1024 \<Longrightarrow> (of_nat n :: u32) = 0 \<longleftrightarrow> n = 0"
  using sint_depth [of n] by fastforce

text \<open>
  A call from the frame on top of the stack: its trace counts one call more, and the traces of the called
  frame are appended.
\<close>

definition add_calls :: "nat \<Rightarrow> u32 \<Rightarrow> call_trace list \<Rightarrow> call_trace list \<Rightarrow> call_trace list" where
  "add_calls i n new ts = ts[i := (ts ! i)\<lparr>ct_sub_traces := ct_sub_traces (ts ! i) + n\<rparr>] @ new"

lemma add_calls_nth: "i < length ts \<Longrightarrow> add_calls i n new ts ! i = (ts ! i)\<lparr>ct_sub_traces := ct_sub_traces (ts ! i) + n\<rparr>"
  by (simp add: add_calls_def nth_append)

lemma add_calls_length [simp]: "length (add_calls i n new ts) = length ts + length new"
  by (simp add: add_calls_def)

lemma add_calls_zero: "i < length ts \<Longrightarrow> add_calls i 0 [] ts = ts"
  by (simp add: add_calls_def)

lemma add_calls_again: "i < length ts \<Longrightarrow> add_calls i m new' (add_calls i n new ts) = add_calls i (n + m) (new @ new') ts"
  by (simp add: add_calls_def nth_append list_update_append1 add.assoc)

definition item_new :: "item \<Rightarrow> u32 list \<Rightarrow> u32 \<Rightarrow> call_trace list" where
  "item_new it path k = numbered_traces k path [item_traces it]"

definition item_runs :: "item \<Rightarrow> nat \<Rightarrow> bool" where
  "item_runs it n \<longleftrightarrow>
     (\<forall>tr i is. tt_index_stack tr = i # is \<longrightarrow> i < length (tt_traces tr) \<longrightarrow> tt_current_depth tr = of_nat n \<longrightarrow>
        kinds_ok (tt_exists tr) (tt_created_address tr) (item_messages it) \<longrightarrow>
        trace_on_events (item_events it) tr =
          Ok (tr\<lparr>tt_traces := add_calls i (calls_of [it])
                (item_new it (ct_trace_address (tt_traces tr ! i)) (ct_sub_traces (tt_traces tr ! i))) (tt_traces tr),
               tt_created_address := tt_created_address tr \<union> created_by (item_messages it)\<rparr>))"

lemma calls_of_Cons: "calls_of (it # its) = calls_of [it] + calls_of its"
  by (cases it) (simp_all add: calls_of_def)

lemma numbered_traces_Cons:
  "numbered_traces k path (item_traces it # fs) = item_new it path k @ numbered_traces (k + calls_of [it]) path fs"
  by (cases it) (simp_all add: item_new_def calls_of_def)

lemma items_run:
  assumes "\<And>it. it \<in> set its \<Longrightarrow> item_runs it n" "tt_index_stack tr = i # is" "i < length (tt_traces tr)" "tt_current_depth tr = of_nat n"
    and "kinds_ok (tt_exists tr) (tt_created_address tr) (concat (map item_messages its))"
  shows "trace_on_events (concat (map item_events its)) tr =
    Ok (tr\<lparr>tt_traces := add_calls i (calls_of its)
          (numbered_traces (ct_sub_traces (tt_traces tr ! i)) (ct_trace_address (tt_traces tr ! i)) (map item_traces its)) (tt_traces tr),
         tt_created_address := tt_created_address tr \<union> created_by (concat (map item_messages its))\<rparr>)"
  using assms
proof (induction its arbitrary: tr)
  case Nil
  then show ?case by (simp add: add_calls_zero calls_of_def)
next
  case (Cons it its)
  let ?p = "tt_traces tr ! i"
  let ?tr = "tr\<lparr>tt_traces := add_calls i (calls_of [it]) (item_new it (ct_trace_address ?p) (ct_sub_traces ?p)) (tt_traces tr),
    tt_created_address := tt_created_address tr \<union> created_by (item_messages it)\<rparr>"
  have "trace_on_events (item_events it) tr = Ok ?tr"
    using Cons.prems by (auto simp: item_runs_def kinds_ok_append)
  moreover have "trace_on_events (concat (map item_events its)) ?tr =
    Ok (?tr\<lparr>tt_traces := add_calls i (calls_of its)
          (numbered_traces (ct_sub_traces (tt_traces ?tr ! i)) (ct_trace_address (tt_traces ?tr ! i)) (map item_traces its)) (tt_traces ?tr),
         tt_created_address := tt_created_address ?tr \<union> created_by (concat (map item_messages its))\<rparr>)"
    using Cons.prems by (intro Cons.IH) (simp_all add: kinds_ok_append)
  ultimately show ?case
    using Cons.prems(3)
    by (simp add: trace_on_events_append add_calls_nth add_calls_again calls_of_Cons [of it its] numbered_traces_Cons Un_assoc)
qed

text \<open>The end of a frame makes its trace the one of the specification.\<close>

lemma finish_start_trace:
  assumes "msg_depth msg = of_nat n" "n \<le> 1024"
  shows "finish_trace (res_status res) (msg_gas msg - res_gas_left res)
      (if sint (of_nat n :: u32) > 0 then set_output (res_output res) (start_result (creates msg) msg) else start_result (creates msg) msg)
      ((start_trace (creates msg) msg codes)\<lparr>ct_trace_address := path, ct_sub_traces := calls\<rparr>) =
    frame_trace path calls msg codes res"
  using assms
  by (auto simp: finish_trace_def set_output_def start_result_def start_trace_def frame_trace_def empty_result_def empty_trace_def
      sint_depth depth_zero Let_def)

lemma frame_trace_result:
  assumes "creates msg" "res_status res = EVMC_SUCCESS \<or> res_status res = EVMC_REVERT"
  shows "\<exists>r. ct_result (frame_trace path calls msg codes res) = Some r \<and> rs_gas_used r = msg_gas msg - res_gas_left res"
  using assms by (auto simp: frame_trace_def Let_def)

lemma completed_same:
  assumes "ct_result t = Some r" "rs_gas_used r = g"
  shows "t\<lparr>ct_result := Some (r\<lparr>rs_gas_used := g\<rparr>)\<rparr> = t"
  using assms by simp

lemma frame_end:
  assumes depth: "msg_depth msg = of_nat n" "n \<le> 1024"
    and status: "creates msg \<longrightarrow> res_status res = EVMC_SUCCESS \<or> res_status res = EVMC_REVERT"
    and tr: "tt_index_stack tr = length ts # is" "tt_start_gas tr = msg_gas msg # gs" "tt_current_depth tr = of_nat n"
      "tt_traces tr = ts @ (start_trace (creates msg) msg codes)\<lparr>ct_trace_address := path, ct_sub_traces := calls\<rparr> # new"
  shows "trace_on_events ([Execution_end res v] @ (if creates msg then [Creation_completed res v] else [])) tr =
    Ok (tr\<lparr>tt_traces := ts @ frame_trace path calls msg codes res # new, tt_current_depth := of_nat n - 1, tt_index_stack := is,
      tt_start_gas := gs\<rparr>)"
proof -
  have r: "ct_result ((start_trace (creates msg) msg codes)\<lparr>ct_trace_address := path, ct_sub_traces := calls\<rparr>) =
      Some (start_result (creates msg) msg)"
    by (simp add: start_trace_def)
  have code: "rs_code (start_result (creates msg) msg) = None \<longleftrightarrow> \<not> creates msg"
    by (simp add: start_result_def empty_result_def)
  have "trace_on_execution_end res tr =
    (let tr' = tr\<lparr>tt_current_depth := of_nat n - 1, tt_traces := ts @ frame_trace path calls msg codes res # new\<rparr>
     in Ok (if creates msg then tr' else tr'\<lparr>tt_index_stack := is, tt_start_gas := gs\<rparr>))"
    unfolding trace_on_execution_end_def
    using tr r code finish_start_trace [OF depth, where res = res and codes = codes and path = path and calls = calls]
    by (cases "creates msg"; cases "sint (of_nat n :: u32) > 0") (simp_all add: Let_def)
  moreover have "trace_on_creation_completed res (tr\<lparr>tt_current_depth := of_nat n - 1, tt_traces := ts @ frame_trace path calls msg codes res # new\<rparr>) =
    Ok (tr\<lparr>tt_traces := ts @ frame_trace path calls msg codes res # new, tt_current_depth := of_nat n - 1, tt_index_stack := is,
      tt_start_gas := gs\<rparr>)" if c: "creates msg"
  proof -
    obtain r' where "ct_result (frame_trace path calls msg codes res) = Some r'" "rs_gas_used r' = msg_gas msg - res_gas_left res"
      using frame_trace_result [OF c] status c by blast
    with tr show ?thesis by (simp add: trace_on_creation_completed_def completed_same)
  qed
  ultimately show ?thesis by (cases "creates msg") (simp_all add: Let_def)
qed

lemma frame_body:
  assumes depth: "msg_depth msg = of_nat n" "n \<le> 1024"
    and status: "creates msg \<longrightarrow> res_status res = EVMC_SUCCESS \<or> res_status res = EVMC_REVERT"
    and items: "\<And>it. it \<in> set its \<Longrightarrow> item_runs it n"
    and kinds: "kinds_ok (tt_exists tr) (tt_created_address tr) (concat (map item_messages its))"
    and tr: "tt_index_stack tr = length ts # is" "tt_start_gas tr = msg_gas msg # gs" "tt_current_depth tr = of_nat n"
      "tt_traces tr = ts @ [(start_trace (creates msg) msg codes)\<lparr>ct_trace_address := path\<rparr>]"
  shows "trace_on_events (concat (map item_events its) @ [Execution_end res v] @ (if creates msg then [Creation_completed res v] else [])) tr =
    Ok (tr\<lparr>tt_traces := ts @ frame_traces (Frame rev' msg codes its res v) path, tt_current_depth := of_nat n - 1, tt_index_stack := is,
      tt_start_gas := gs, tt_created_address := tt_created_address tr \<union> created_by (concat (map item_messages its))\<rparr>)"
proof -
  let ?t = "(start_trace (creates msg) msg codes)\<lparr>ct_trace_address := path\<rparr>"
  let ?new = "numbered_traces 0 path (map item_traces its)"
  let ?tr = "tr\<lparr>tt_traces := ts @ ?t\<lparr>ct_sub_traces := calls_of its\<rparr> # ?new,
    tt_created_address := tt_created_address tr \<union> created_by (concat (map item_messages its))\<rparr>"
  have zero: "ct_sub_traces ?t = 0" by (simp add: start_trace_def empty_trace_def)
  have body: "trace_on_events (concat (map item_events its)) tr = Ok ?tr"
    using items_run [OF items tr(1) _ tr(3) kinds] tr(4) zero by (simp add: add_calls_def)
  have fin: "trace_on_events ([Execution_end res v] @ (if creates msg then [Creation_completed res v] else [])) ?tr =
    Ok (?tr\<lparr>tt_traces := ts @ frame_trace path (calls_of its) msg codes res # ?new, tt_current_depth := of_nat n - 1, tt_index_stack := is,
      tt_start_gas := gs\<rparr>)"
    using tr by (intro frame_end [OF depth status]) simp_all
  show ?thesis
    by (subst trace_on_events_append) (simp only: body bind_r_simps fin, simp)
qed

text \<open>A frame that is called, and the items of a frame.\<close>

lemma called_frame_runs:
  assumes "\<And>it. it \<in> set its \<Longrightarrow> item_runs it (Suc n)" "levels_ok (Suc n) (Frame rev' msg codes its res v)"
  shows "item_runs (Nested (Frame rev' msg codes its res v)) n"
  unfolding item_runs_def
proof (intro allI impI)
  fix tr :: trace_tracer and i "is"
  let ?f = "Frame rev' msg codes its res v"
  let ?p = "tt_traces tr ! i"
  let ?path = "ct_trace_address ?p @ [ct_sub_traces ?p]"
  let ?ts = "add_calls i 1 [] (tt_traces tr)"
  let ?c = "if creates msg then insert (msg_recipient msg) (tt_created_address tr) else tt_created_address tr"
  let ?tr = "tr\<lparr>tt_current_depth := of_nat (Suc n), tt_start_gas := msg_gas msg # tt_start_gas tr, tt_index_stack := length ?ts # i # is,
    tt_created_address := ?c, tt_traces := ?ts @ [(start_trace (creates msg) msg codes)\<lparr>ct_trace_address := ?path\<rparr>]\<rparr>"
  assume tr: "tt_index_stack tr = i # is" "i < length (tt_traces tr)" "tt_current_depth tr = of_nat n"
    and kinds: "kinds_ok (tt_exists tr) (tt_created_address tr) (item_messages (Nested ?f))"
  have lev: "msg_depth msg = of_nat (Suc n)" "Suc n \<le> 1024"
      "creates msg \<longrightarrow> res_status res = EVMC_SUCCESS \<or> res_status res = EVMC_REVERT"
    using assms(2) by simp_all
  have create: "is_create tr msg \<longleftrightarrow> creates msg" using kinds by (simp add: is_create_def)
  have kinds': "kinds_ok (tt_exists tr) ?c (concat (map item_messages its))"
    using kinds unfolding item_messages.simps messages_of.simps kinds_ok.simps by (rule conjunct2)
  have start: "trace_on_execution_start msg codes tr = Ok ?tr"
    using tr lev create sint_depth [OF lev(2)] by (simp add: trace_on_execution_start_def Let_def add_calls_def)
  have "trace_on_events (concat (map item_events its) @ [Execution_end res v] @ (if creates msg then [Creation_completed res v] else [])) ?tr =
    Ok (?tr\<lparr>tt_traces := ?ts @ frame_traces ?f ?path, tt_current_depth := of_nat (Suc n) - 1, tt_index_stack := i # is,
      tt_start_gas := tt_start_gas tr, tt_created_address := tt_created_address ?tr \<union> created_by (concat (map item_messages its))\<rparr>)"
    using kinds' by (intro frame_body [OF lev assms(1)]) simp_all
  then show "trace_on_events (item_events (Nested ?f)) tr =
      Ok (tr\<lparr>tt_traces := add_calls i (calls_of [Nested ?f]) (item_new (Nested ?f) (ct_trace_address ?p) (ct_sub_traces ?p)) (tt_traces tr),
           tt_created_address := tt_created_address tr \<union> created_by (item_messages (Nested ?f))\<rparr>)"
    using start tr(1,3) by (cases tr) (simp add: item_new_def calls_of_def add_calls_def)
qed

lemma frame_items_run:
  "levels_ok n f \<Longrightarrow> it \<in> set (fr_items f) \<Longrightarrow> item_runs it n" and
  item_run: "item_levels n it \<Longrightarrow> item_runs it n"
proof (induction f and it arbitrary: n it and n)
  case (Frame rev' msg codes its res v)
  then show ?case by (auto simp: list_all_iff)
next
  case (Nested f)
  then obtain rev' msg codes its res v where f: "f = Frame rev' msg codes its res v" by (cases f)
  show ?case
    unfolding f using Nested by (intro called_frame_runs) (simp_all add: f)
qed (auto simp: item_runs_def calls_of_def item_new_def add_calls_zero)


section \<open>Creations\<close>

text \<open>
  C0: A contract is created at an address that already exists, because it was funded before: the tracer takes
  the frame for a call and closes it when it ends, but the completion of the creation closes a frame again,
  and this is the frame of the caller. When the caller ends, the stack of open frames is empty, and the
  tracer reads the top of an empty stack.
\<close>
theorem funded_creation_underflows:
  assumes "msg_depth msg = 0" "msg_depth msg' = 1" "creates msg'" "exist (msg_recipient msg')" "\<not> creates msg"
    and "exist (msg_recipient msg)" "res_status res' = EVMC_SUCCESS"
  shows "trace_on_events (events_of (Frame n msg codes [Nested (Frame n msg' codes' [] res' v')] res v)) (trace_tracer_of exist) =
    Throw Stack_underflow"
  using assms
  by (simp add: trace_on_execution_start_def trace_on_execution_end_def trace_on_creation_completed_def trace_tracer_of_def is_create_def
      start_trace_def start_result_def empty_result_def empty_trace_def finish_trace_def set_output_def Let_def)

text \<open>
  A creation that runs out of gas: the end of the frame takes the result of its trace away, and the completion
  of the creation dereferences it.
\<close>

lemma failed_creation_dereferences_nothing:
  assumes "msg_depth msg = 0" "creates msg" "\<not> exist (msg_recipient msg)" "msg_recipient msg \<noteq> msg_code_address msg"
    and "res_status res \<noteq> EVMC_SUCCESS" "res_status res \<noteq> EVMC_REVERT"
  shows "trace_on_events (events_of (Frame n msg codes [] res v)) (trace_tracer_of exist) = Throw Uninitialized_read"
  using assms
  by (simp add: trace_on_execution_start_def trace_on_execution_end_def trace_on_creation_completed_def trace_tracer_of_def is_create_def
      start_trace_def start_result_def empty_result_def empty_trace_def finish_trace_def set_output_def Let_def)

section \<open>Instances\<close>

definition tree_message :: "call_kind \<Rightarrow> u32 \<Rightarrow> bytes \<Rightarrow> bytes \<Rightarrow> message" where
  "tree_message kind depth recipient code_address = \<lparr>msg_kind = kind, msg_static = False, msg_depth = depth, msg_gas = 100,
     msg_recipient = recipient, msg_sender = [2], msg_input = [], msg_value = 0, msg_code_address = code_address\<rparr>"

definition tree_view :: view where
  "tree_view = \<lparr>vw_exists = (\<lambda>_. True), vw_balance = (\<lambda>_. 0), vw_nonce = (\<lambda>_. 0), vw_code = (\<lambda>_. []),
     vw_current_storage = (\<lambda>_ _. zeros 32), vw_original_storage = (\<lambda>_ _. zeros 32), vw_touched = []\<rparr>"

definition tree_result :: evmc_result where
  "tree_result = \<lparr>res_status = EVMC_SUCCESS, res_gas_left = 40, res_output = [7]\<rparr>"

text \<open>A call that creates a contract, which calls back, and then calls another one.\<close>

definition tree_frame :: frame where
  "tree_frame = Frame 0 (tree_message EVMC_CALL 0 [1] [1]) []
     [Nested (Frame 0 (tree_message EVMC_CREATE 1 [9] []) []
        [Nested (Frame 0 (tree_message EVMC_CALL 2 [1] [1]) [] [] tree_result tree_view)] tree_result tree_view),
      Nested (Frame 0 (tree_message EVMC_CALL 1 [3] [3]) [] [] tree_result tree_view)] tree_result tree_view"


theorem funded_creation_underflows_witness:
  "trace_on_events (events_of (Frame 0 (tree_message EVMC_CALL 0 [1] [1]) []
     [Nested (Frame 0 (tree_message EVMC_CREATE2 1 [9] []) [] [] tree_result tree_view)] tree_result tree_view)) (trace_tracer_of (\<lambda>_. True)) =
   Throw Stack_underflow"
  by (rule funded_creation_underflows) (simp_all add: tree_message_def creates_def tree_result_def)

end
