(* ===== verification/State_Diff_Props.thy ===== *)
theory State_Diff_Props
  imports State_Diff Json_Types_Props
begin

text \<open>
  What the tracer of state changes reports, against the accounts before and after the transaction, and what
  is remembered of the transactions before.
\<close>

section \<open>Ordered maps\<close>

lemma map_of_map_assign: "map_of (map_assign (k, v) m) k' = (if k' = k then Some v else map_of m k')"
  by (induction m) auto

lemma map_of_filter_key: "map_of (filter (\<lambda>(k', _). k' \<noteq> k) m) k'' = (if k'' = k then None else map_of m k'')"
  by (induction m) auto

section \<open>The accounts that are remembered\<close>

lemma sa_get_remember:
  "sa_get_balance (remember_account ibs adr sa) a = (if a = adr then vw_balance ibs a else sa_get_balance sa a)"
  "sa_get_nonce (remember_account ibs adr sa) a = (if a = adr then vw_nonce ibs a else sa_get_nonce sa a)"
  "sa_get_code (remember_account ibs adr sa) a = (if a = adr then vw_code ibs a else sa_get_code sa a)"
  by (simp_all add: sa_get_balance_def sa_get_nonce_def sa_get_code_def remember_account_def map_of_map_assign split: option.splits)

lemma ibs_remembers:
  "sa_get_balance (ibs_on_reward_granted ibs sa) a = (if a \<in> set (vw_touched ibs) then vw_balance ibs a else sa_get_balance sa a)"
  "sa_get_nonce (ibs_on_reward_granted ibs sa) a = (if a \<in> set (vw_touched ibs) then vw_nonce ibs a else sa_get_nonce sa a)"
  "sa_get_code (ibs_on_reward_granted ibs sa) a = (if a \<in> set (vw_touched ibs) then vw_code ibs a else sa_get_code sa a)"
proof -
  have "sa_get_balance (fold (remember_account ibs) as sa) a = (if a \<in> set as then vw_balance ibs a else sa_get_balance sa a) \<and>
      sa_get_nonce (fold (remember_account ibs) as sa) a = (if a \<in> set as then vw_nonce ibs a else sa_get_nonce sa a) \<and>
      sa_get_code (fold (remember_account ibs) as sa) a = (if a \<in> set as then vw_code ibs a else sa_get_code sa a)" for as
    by (induction as arbitrary: sa) (auto simp: sa_get_remember)
  then show
    "sa_get_balance (ibs_on_reward_granted ibs sa) a = (if a \<in> set (vw_touched ibs) then vw_balance ibs a else sa_get_balance sa a)"
    "sa_get_nonce (ibs_on_reward_granted ibs sa) a = (if a \<in> set (vw_touched ibs) then vw_nonce ibs a else sa_get_nonce sa a)"
    "sa_get_code (ibs_on_reward_granted ibs sa) a = (if a \<in> set (vw_touched ibs) then vw_code ibs a else sa_get_code sa a)"
    by (simp_all add: ibs_on_reward_granted_def)
qed

section \<open>The entries\<close>

text \<open>The entry of an account depends on what was there for it, and on nothing else.\<close>

definition entry_of :: "tracer_ext \<Rightarrow> diff_tracer \<Rightarrow> bytes \<Rightarrow> state_diff_entry option" where
  "entry_of te tr adr = map_of (dft_diff tr) (address_key te adr)"

lemma diff_account_entry:
  assumes "address_key te a = address_key te adr \<Longrightarrow> a = adr"
  shows "entry_of te (diff_account te sa ibs adr tr) a =
    (if a = adr then diff_entry te sa ibs adr (keys_of tr adr) (value_or (entry_of te tr adr) empty_entry) else entry_of te tr a)"
  using assms
  by (auto simp: entry_of_def diff_account_def Let_def map_of_map_assign map_of_filter_key split: option.splits)

lemma diff_account_keys: "keys_of (diff_account te sa ibs adr tr) a = keys_of tr a"
  by (simp add: keys_of_def diff_account_def Let_def map_of_map_assign value_or_def)

lemma diff_accounts_entry:
  assumes "distinct as" "inj (address_key te)"
  shows "entry_of te (fold (diff_account te sa ibs) as tr) a =
    (if a \<in> set as then diff_entry te sa ibs a (keys_of tr a) (value_or (entry_of te tr a) empty_entry) else entry_of te tr a)"
  using assms
proof (induction as arbitrary: tr)
  case (Cons b as)
  have "entry_of te (diff_account te sa ibs b tr) a =
    (if a = b then diff_entry te sa ibs b (keys_of tr b) (value_or (entry_of te tr b) empty_entry) else entry_of te tr a)"
    using Cons.prems(2) by (intro diff_account_entry) (simp add: inj_eq)
  with Cons show ?case by (auto simp: diff_account_keys)
qed simp

lemma diff_slots_entry:
  "map_of (diff_slots te ibs adr ks m) k =
     (if k \<in> set ks \<and> vw_original_storage ibs adr (bytes32_from_hex (te_jx te) k) \<noteq> vw_current_storage ibs adr (bytes32_from_hex (te_jx te) k)
      then Some (changed (storage_text te (vw_original_storage ibs adr (bytes32_from_hex (te_jx te) k)))
             (storage_text te (vw_current_storage ibs adr (bytes32_from_hex (te_jx te) k))))
      else map_of m k)"
  unfolding diff_slots_def by (induction ks arbitrary: m) (auto simp: Let_def map_of_map_assign)

section \<open>The specification\<close>

text \<open>How one value is reported, by whether the account existed before and exists after.\<close>

definition field_diff :: "('a \<Rightarrow> string) \<Rightarrow> bool \<Rightarrow> bool \<Rightarrow> 'a \<Rightarrow> 'a \<Rightarrow> diff_value" where
  "field_diff p before after x y =
     (if before \<and> after then if x = y then no_diff else changed (p x) (p y)
      else if before then removed (p x) else if after then added (p y) else no_diff)"

text \<open>Which slots are reported: those that differ, all the written ones of a removed account, the nonzero ones of a new one.\<close>

definition slot_diff :: "tracer_ext \<Rightarrow> bool \<Rightarrow> bool \<Rightarrow> bytes \<Rightarrow> bytes \<Rightarrow> diff_value option" where
  "slot_diff te before after x y =
     (if (before \<and> after \<and> x \<noteq> y) \<or> (before \<and> \<not> after) \<or> (\<not> before \<and> after \<and> y \<noteq> zeros 32)
      then Some (field_diff (storage_text te) before after x y) else None)"

definition nothing_changed :: "tracer_ext \<Rightarrow> state_addresses \<Rightarrow> view \<Rightarrow> bytes \<Rightarrow> string list \<Rightarrow> bool" where
  "nothing_changed te sa ibs adr ks \<longleftrightarrow>
     vw_exists ibs adr \<and>
     (if sa_exists sa adr
      then sa_get_balance sa adr = vw_balance ibs adr \<and> sa_get_code sa adr = vw_code ibs adr \<and> sa_get_nonce sa adr = vw_nonce ibs adr \<and>
        slots_equal te ibs adr ks
      else vw_balance ibs adr = 0 \<and> vw_code ibs adr = [] \<and> vw_nonce ibs adr = 0 \<and> ks = [])"

definition is_diff_of :: "tracer_ext \<Rightarrow> state_addresses \<Rightarrow> view \<Rightarrow> bytes \<Rightarrow> string list \<Rightarrow> state_diff_entry \<Rightarrow> bool" where
  "is_diff_of te sa ibs adr ks e \<longleftrightarrow>
     (let before = sa_exists sa adr; after = vw_exists ibs adr in
      de_balance e = field_diff (hex_number te) before after (sa_get_balance sa adr) (vw_balance ibs adr) \<and>
      de_code e = field_diff (storage_text te) before after (sa_get_code sa adr) (vw_code ibs adr) \<and>
      de_nonce e = field_diff (to_quantity (te_jx te)) before after (sa_get_nonce sa adr) (vw_nonce ibs adr) \<and>
      map_of (de_storage e) = (\<lambda>k. if k \<in> set ks
        then slot_diff te before after (vw_original_storage ibs adr (bytes32_from_hex (te_jx te) k))
               (vw_current_storage ibs adr (bytes32_from_hex (te_jx te) k))
        else None))"

lemma removed_slots:
  "map_of (fold (\<lambda>k. map_assign (k, f k)) ks m) k = (if k \<in> set ks then Some (f k) else map_of m k)"
  by (induction ks arbitrary: m) (auto simp: map_of_map_assign)

lemma added_slots:
  "map_of (fold (\<lambda>k m. let v = g k in if v \<noteq> z then map_assign (k, f v) m else m) ks m) k =
     (if k \<in> set ks \<and> g k \<noteq> z then Some (f (g k)) else map_of m k)"
  by (induction ks arbitrary: m) (auto simp: Let_def map_of_map_assign)

lemma diff_both_spec:
  assumes "sa_exists sa adr" "vw_exists ibs adr"
  shows "case diff_both te sa ibs adr ks empty_entry of
    None \<Rightarrow> nothing_changed te sa ibs adr ks | Some e \<Rightarrow> \<not> nothing_changed te sa ibs adr ks \<and> is_diff_of te sa ibs adr ks e"
  using assms
  by (auto simp: diff_both_def Let_def nothing_changed_def is_diff_of_def field_diff_def slot_diff_def diff_slots_entry empty_entry_def fun_eq_iff)

lemma diff_removed_spec:
  assumes "sa_exists sa adr" "\<not> vw_exists ibs adr"
  shows "is_diff_of te sa ibs adr ks (diff_removed te sa ibs adr ks empty_entry)"
  using assms
  by (auto simp: diff_removed_def Let_def is_diff_of_def field_diff_def slot_diff_def removed_slots empty_entry_def fun_eq_iff)

lemma diff_added_spec:
  assumes "\<not> sa_exists sa adr" "vw_exists ibs adr"
  shows "case diff_added te ibs adr ks empty_entry of
    None \<Rightarrow> nothing_changed te sa ibs adr ks | Some e \<Rightarrow> \<not> nothing_changed te sa ibs adr ks \<and> is_diff_of te sa ibs adr ks e"
  using assms
  by (auto simp: diff_added_def nothing_changed_def is_diff_of_def field_diff_def slot_diff_def added_slots empty_entry_def fun_eq_iff)

lemma diff_entry_spec:
  "case diff_entry te sa ibs adr ks empty_entry of
     None \<Rightarrow> nothing_changed te sa ibs adr ks | Some e \<Rightarrow> \<not> nothing_changed te sa ibs adr ks \<and> is_diff_of te sa ibs adr ks e"
  using diff_both_spec [of sa adr ibs te ks] diff_added_spec [of sa adr ibs te ks] diff_removed_spec [of sa adr ibs te ks]
  by (cases "sa_exists sa adr"; cases "vw_exists ibs adr")
    (auto simp: diff_entry_def nothing_changed_def is_diff_of_def field_diff_def slot_diff_def empty_entry_def Let_def)


text \<open>
  Whether an account existed is asked of the state before the block, not before the transaction: an account
  that an earlier transaction has created is reported as added once more, although nothing of it changes.
\<close>

lemma created_earlier_reported_added:
  assumes "distinct (vw_touched ibs)" and "inj (address_key te)" and "adr \<in> set (vw_touched ibs)"
    and "\<not> vw_exists initial adr" and "vw_exists ibs adr" and "vw_nonce ibs adr \<noteq> 0"
  shows "\<exists>e. map_of (dft_diff (diff_on_reward_granted te (ibs_on_reward_granted ibs (state_addresses_of initial)) ibs diff_tracer_of))
      (address_key te adr) = Some e \<and> de_balance e = added (hex_number te (vw_balance ibs adr))"
proof -
  have init: "sa_initial (fold (remember_account ibs) as sa) = sa_initial sa" for as sa
    by (induction as arbitrary: sa) (simp_all add: remember_account_def)
  then have "\<not> sa_exists (ibs_on_reward_granted ibs (state_addresses_of initial)) adr"
    using assms(4) by (simp add: sa_exists_def ibs_on_reward_granted_def state_addresses_of_def)
  moreover have "entry_of te diff_tracer_of adr = None" by (simp add: entry_of_def diff_tracer_of_def)
  ultimately show ?thesis
    using diff_accounts_entry [OF assms(1,2), of "ibs_on_reward_granted ibs (state_addresses_of initial)" ibs diff_tracer_of adr] assms(3,5,6)
    by (simp add: diff_on_reward_granted_def entry_of_def [symmetric] diff_entry_def diff_added_def)
qed

text \<open>A transfer to one account, and another one that is only touched.\<close>

definition diff_ext :: tracer_ext where
  "diff_ext = \<lparr>te_names = (\<lambda>_ _. None), te_to_string16 = (\<lambda>w. hex_of_bytes [of_nat (unat w)]), te_intx_hex = (\<lambda>_. ''0''),
     te_evmc_hex = hex_of_bytes, te_jx = demo_json_ext, te_uninitialized = 0\<rparr>"

definition accounts_with :: "u256 \<Rightarrow> view" where
  "accounts_with b = \<lparr>vw_exists = (\<lambda>_. True), vw_balance = (\<lambda>a. if a = [1] then b else 7), vw_nonce = (\<lambda>_. 0), vw_code = (\<lambda>_. []),
     vw_current_storage = (\<lambda>_ _. zeros 32), vw_original_storage = (\<lambda>_ _. zeros 32), vw_touched = [[1], [2]]\<rparr>"

lemma diff_ext_keys: "inj (address_key diff_ext)"
proof (rule injI)
  fix a b
  assume "address_key diff_ext a = address_key diff_ext b"
  then have "plain_from_hex (hex_of_bytes a) = plain_from_hex (hex_of_bytes b)"
    by (simp add: address_key_def diff_ext_def demo_json_ext_def)
  then show "a = b" by (simp only: plain_from_hex_of_bytes option.inject)
qed

lemma accounts_with_simps:
  "vw_exists (accounts_with b) = (\<lambda>_. True)" "vw_balance (accounts_with b) a = (if a = [1] then b else 7)" "vw_nonce (accounts_with b) = (\<lambda>_. 0)"
  "vw_code (accounts_with b) = (\<lambda>_. [])" "vw_touched (accounts_with b) = [[1], [2]]" "sa_exists (state_addresses_of (accounts_with b)) a"
  "sa_get_balance (state_addresses_of (accounts_with b)) a = (if a = [1] then b else 7)"
  "sa_get_nonce (state_addresses_of (accounts_with b)) a = 0" "sa_get_code (state_addresses_of (accounts_with b)) a = []"
  by (simp_all add: accounts_with_def state_addresses_of_def sa_exists_def sa_get_balance_def sa_get_nonce_def sa_get_code_def)


end
