(* ===== verification/Trace_Api_Props.thy ===== *)
theory Trace_Api_Props
  imports Trace_Api Debug_Api_Props Trace_Tracer_Props
begin

text \<open>
  What \<^verbatim>\<open>trace_filter\<close> streams: the page of the matching traces that the filter asks for, over all blocks of the
  range, and what becomes of the reply when the block after the last one cannot be read.
\<close>

section \<open>Pages\<close>

text \<open>The traces of a list that a filter takes, and the filter after them.\<close>

definition page :: "filter_state \<Rightarrow> 'a list \<Rightarrow> 'a list" where
  "page flt ms = take (unat (ft_count flt)) (drop (unat (ft_after flt)) ms)"

definition page_left :: "filter_state \<Rightarrow> 'a list \<Rightarrow> filter_state" where
  "page_left flt ms =
     flt\<lparr>ft_after := of_nat (unat (ft_after flt) - length ms), ft_count := of_nat (unat (ft_count flt) - (length ms - unat (ft_after flt)))\<rparr>"

text \<open>The count reaches 0 only after the traces that are to be passed over.\<close>

definition page_ok :: "filter_state \<Rightarrow> bool" where
  "page_ok flt \<longleftrightarrow> ft_count flt \<noteq> 0 \<or> ft_after flt = 0"

lemma unat_of_nat_le: "n \<le> unat (w :: 'a::len word) \<Longrightarrow> unat (of_nat n :: 'a word) = n"
  by (simp add: unsigned_of_nat take_bit_nat_eq_self order.strict_trans1 [OF _ unsigned_less])

lemma page_left_simps [simp]:
  "ft_from_addresses (page_left flt ms) = ft_from_addresses flt" "ft_to_addresses (page_left flt ms) = ft_to_addresses flt"
  "unat (ft_after (page_left flt ms)) = unat (ft_after flt) - length ms"
  "unat (ft_count (page_left flt ms)) = unat (ft_count flt) - (length ms - unat (ft_after flt))"
  by (simp_all add: page_left_def unat_of_nat_le [where w = "ft_after flt"] unat_of_nat_le [where w = "ft_count flt"])

lemma page_Nil [simp]: "page flt [] = []" "page_left flt [] = flt"
  by (simp_all add: page_def page_left_def)

lemma page_append: "page flt (ms @ ns) = page flt ms @ page (page_left flt ms) ns"
  by (simp add: page_def)

lemma page_left_append: "page_left flt (ms @ ns) = page_left (page_left flt ms) ns"
  by (simp add: page_left_def [of flt "ms @ ns"] page_left_def [of "page_left flt ms" ns])
    (auto simp: page_left_def intro!: arg_cong2 [where f = "\<lambda>a b. flt\<lparr>ft_after := a, ft_count := b\<rparr>"] arg_cong [where f = word_of_nat])

lemma page_ok_left: "page_ok flt \<Longrightarrow> page_ok (page_left flt ms)"
  by (auto simp: page_ok_def unat_eq_0 [symmetric])

lemma page_full: "page_ok flt \<Longrightarrow> ft_count flt = 0 \<Longrightarrow> page flt ms = [] \<and> page_left flt ms = flt"
  by (simp add: page_def page_left_def page_ok_def)

lemma page_single:
  assumes "page_ok flt" "ft_count flt \<noteq> 0"
  shows "page flt [m] = (if ft_after flt > 0 then [] else [m])"
    and "page_left flt [m] = (if ft_after flt > 0 then flt\<lparr>ft_after := ft_after flt - 1\<rparr> else flt\<lparr>ft_count := ft_count flt - 1\<rparr>)"
proof -
  have pos: "unat (ft_count flt) > 0" using assms by (simp add: unat_gt_0)
  have minus: "of_nat (unat w - 1) = (w :: u32) - 1" if "0 < w" for w
    using that by (simp add: of_nat_diff unat_gt_0 word_gt_0 Suc_le_eq)
  have zero: "unat (ft_after flt) > 0 \<longleftrightarrow> ft_after flt > 0" by (simp add: unat_gt_0 word_gt_0)
  show "page flt [m] = (if ft_after flt > 0 then [] else [m])"
    using pos zero by (auto simp: page_def word_gt_0)
  show "page_left flt [m] = (if ft_after flt > 0 then flt\<lparr>ft_after := ft_after flt - 1\<rparr> else flt\<lparr>ft_count := ft_count flt - 1\<rparr>)"
    using minus [of "ft_after flt"] minus [of "ft_count flt"] assms(2) zero
    by (cases flt) (auto simp: page_left_def word_gt_0 Suc_le_eq)
qed

section \<open>The traces of a block\<close>

definition matching :: "filter_state \<Rightarrow> call_trace list \<Rightarrow> call_trace list" where
  "matching flt ts = filter (\<lambda>t. \<not> skipped flt t) ts"

lemma skipped_left [simp]: "skipped (page_left flt ms) = skipped flt" "matching (page_left flt ms) = matching flt"
  by (simp_all add: fun_eq_iff skipped_def matching_def cong: trace_or_reward.case_cong option.case_cong)

lemma matching_simps [simp]:
  "matching flt [] = []" "matching flt (t # ts) = (if skipped flt t then matching flt ts else t # matching flt ts)"
  "matching flt (ts @ us) = matching flt ts @ matching flt us"
  by (simp_all add: matching_def)

lemma filter_step_page:
  assumes "page_ok flt" "ft_count flt \<noteq> 0" "\<not> skipped flt t"
  shows "filter_step flt t = (page_left flt [t], page flt [t] \<noteq> [])"
  using assms by (simp add: filter_step_def page_single)

lemma page_Cons: "page flt (t # ms) = page flt [t] @ page (page_left flt [t]) ms" "page_left flt (t # ms) = page_left (page_left flt [t]) ms"
  using page_append [of flt "[t]" ms] page_left_append [of flt "[t]" ms] by simp_all

lemma filter_traces_page:
  "page_ok flt \<Longrightarrow> ft_count flt \<noteq> 0 \<Longrightarrow> filter_traces flt ts = (page flt (matching flt ts), page_left flt (matching flt ts))"
proof (induction ts arbitrary: flt)
  case (Cons t ts)
  show ?case
  proof (cases "skipped flt t")
    case True
    then show ?thesis using Cons by (simp add: filter_step_def)
  next
    case False
    have ok: "page_ok (page_left flt [t])" using Cons.prems by (simp add: page_ok_left)
    have "(if page flt [t] \<noteq> [] then [t] else []) = page flt [t]" using page_single(1) [OF Cons.prems, of t] by simp
    with False show ?thesis
      using Cons.IH [OF ok] page_full [OF ok, of "matching flt ts"] filter_step_page [OF Cons.prems False]
      by (cases "ft_count (page_left flt [t]) = 0") (simp_all add: page_Cons [of flt t "matching flt ts"] del: if_not_P split del: if_split)
  qed
qed simp

lemma filter_transactions_page:
  "page_ok flt \<Longrightarrow> ft_count flt \<noteq> 0 \<Longrightarrow>
     filter_transactions flt tss = (page flt (matching flt (concat tss)), page_left flt (matching flt (concat tss)))"
proof (induction tss arbitrary: flt)
  case (Cons ts tss)
  let ?flt = "page_left flt (matching flt ts)"
  have ok: "page_ok ?flt" using Cons.prems by (simp add: page_ok_left)
  show ?case
    using Cons.IH [OF ok] page_full [OF ok, of "matching flt (concat tss)"] filter_traces_page [OF Cons.prems, of ts]
    by (cases "ft_count ?flt = 0") (simp_all add: page_append page_left_append)
qed simp

text \<open>All traces of a block, with their place in the chain.\<close>

definition block_traces :: "('c, 'w, 's) api_env \<Rightarrow> 's tracing \<Rightarrow> reader \<Rightarrow> block_with_hash \<Rightarrow> call_trace list" where
  "block_traces env tg rd block =
     (case trace_block_transactions env tg rd block trace_only of
        Inl e \<Rightarrow> [] | Inr results \<Rightarrow> concat (located_traces (te_jx (tg_ext tg)) block results))"

definition by_address :: "filter_state \<Rightarrow> bool" where
  "by_address flt \<longleftrightarrow> ft_from_addresses flt \<noteq> [] \<or> ft_to_addresses flt \<noteq> []"

lemma trace_block_filtered:
  assumes "by_address flt" "page_ok flt" "ft_count flt \<noteq> 0" "trace_block_transactions env tg rd block trace_only = Ok results"
  shows "trace_block rules env tg rd block flt True w =
    (Ok ([], page_left flt (matching flt (block_traces env tg rd block))),
     w @ write_traces (te_jx (tg_ext tg)) (page flt (matching flt (block_traces env tg rd block))))"
  using assms(1,4) filter_transactions_page [OF assms(2,3)]
  by (auto simp: trace_block_def block_traces_def by_address_def ret_def Let_def bind_a_lift_Ok)

section \<open>The range of blocks\<close>

text \<open>A range whose blocks, and the one after them, can be read from every cache that satisfies an invariant.\<close>

definition readable ::
  "('c, 'w, 's) api_env \<Rightarrow> 's tracing \<Rightarrow> reader \<Rightarrow> ('c \<Rightarrow> bool) \<Rightarrow> (nat \<Rightarrow> block_with_hash) \<Rightarrow> nat \<Rightarrow> bool" where
  "readable env tg rd I blk final \<longleftrightarrow>
     Suc final < 2 ^ 64 \<and> (\<forall>n \<le> final. hdr_number (bw_header (blk n)) = of_nat n \<and>
       (\<exists>results. trace_block_transactions env tg rd (blk n) trace_only = Ok results)) \<and>
     (\<forall>n c. n \<le> Suc final \<longrightarrow> I c \<longrightarrow>
       (\<exists>c'. cached_read_block_by_number (ae_cache env) (ae_x env) rd (of_nat n) c = (Ok (blk n), c') \<and> I c'))"

lemma of_nat_u64_inj: "m < 2 ^ 64 \<Longrightarrow> n < 2 ^ 64 \<Longrightarrow> (of_nat m :: u64) = of_nat n \<longleftrightarrow> m = n"
  by (simp add: word_of_nat_eq_iff take_bit_nat_eq_self)

lemma of_nat_u64_le: "m < 2 ^ 64 \<Longrightarrow> n < 2 ^ 64 \<Longrightarrow> (of_nat m :: u64) \<le> of_nat n \<longleftrightarrow> m \<le> n"
  by (simp add: word_le_nat_alt unsigned_of_nat take_bit_nat_eq_self)

lemma next_block_readable:
  assumes "readable env tg rd I blk final" "n \<le> Suc final" "I (api_blocks s)"
  shows "\<exists>s'. next_block env rd (blk final) (of_nat n) (s, w) = (Ok (blk n), (s', w)) \<and> I (api_blocks s')"
proof (cases "n = final")
  case True
  then show ?thesis using assms by (simp add: next_block_def readable_def ret_def)
next
  case False
  then have "of_nat n \<noteq> hdr_number (bw_header (blk final))"
    using assms(1,2) of_nat_u64_inj [of n final] by (auto simp: readable_def)
  moreover obtain c where "cached_read_block_by_number (ae_cache env) (ae_x env) rd (of_nat n) (api_blocks s) = (Ok (blk n), c)" "I c"
    using assms unfolding readable_def by blast
  ultimately show ?thesis by (simp add: next_block_def on_api_def on_cache_def)
qed

lemma trace_filter_loop_step:
  fixes rules and w :: "json op list"
  assumes range: "readable env tg rd I blk final" and n: "n \<le> final"
    and flt: "by_address flt" "page_ok flt" "ft_count flt \<noteq> 0" and inv: "I (api_blocks s)"
  defines "ms \<equiv> matching flt (block_traces env tg rd (blk n))"
  defines "w' \<equiv> w @ write_traces (te_jx (tg_ext tg)) (page flt ms)"
  shows "\<exists>s'. I (api_blocks s') \<and>
    trace_filter_loop rules env tg rd (blk final) (of_nat n) (blk n) flt (s, w) =
      (if ft_count (page_left flt ms) = 0 then Some (Ok (), (s, w'))
       else trace_filter_loop rules env tg rd (blk final) (of_nat (Suc n)) (blk (Suc n)) (page_left flt ms) (s', w'))"
proof -
  from range n have le: "(of_nat n :: u64) \<le> hdr_number (bw_header (blk final))"
    by (simp add: readable_def of_nat_u64_le)
  from range n obtain results where "trace_block_transactions env tg rd (blk n) trace_only = Ok results"
    by (auto simp: readable_def)
  then have run: "on_stream (trace_block rules env tg rd (blk n) flt True) (s, w) = (Ok ([], page_left flt ms), (s, w'))"
    by (simp add: on_stream_def trace_block_filtered [OF flt] ms_def w'_def)
  obtain s' where "next_block env rd (blk final) (of_nat (Suc n)) (s, w') = (Ok (blk (Suc n)), (s', w'))" "I (api_blocks s')"
    using next_block_readable [OF range _ inv] n by (metis Suc_le_mono)
  then show ?thesis
    using le run by (intro exI [of _ s']) (simp add: trace_filter_loop.simps [of rules env tg rd _ "of_nat n"] add.commute [of 1])
qed

lemma trace_filter_loop_end:
  "readable env tg rd I blk final \<Longrightarrow>
     trace_filter_loop rules env tg rd (blk final) (of_nat (Suc final)) block flt sw = Some (Ok (), sw)"
  using of_nat_u64_le [of "Suc final" final]
  by (subst trace_filter_loop.simps) (simp add: readable_def)

lemma trace_filter_loop_page:
  assumes "readable env tg rd I blk final"
  shows "n \<le> final \<Longrightarrow> by_address flt \<Longrightarrow> page_ok flt \<Longrightarrow> ft_count flt \<noteq> 0 \<Longrightarrow> I (api_blocks s) \<Longrightarrow>
    \<exists>s'. trace_filter_loop rules env tg rd (blk final) (of_nat n) (blk n) flt (s, w) =
      Some (Ok (), (s', w @ write_traces (te_jx (tg_ext tg)) (page flt (matching flt (concat (map (\<lambda>i. block_traces env tg rd (blk i)) [n..<Suc final]))))))"
proof (induction "final - n" arbitrary: n flt s w)
  case 0
  then have [simp]: "n = final" by simp
  show ?case
    using trace_filter_loop_step [OF assms 0(2-6), where rules = rules and w = w]
    by (auto simp: trace_filter_loop_end [OF assms] simp del: of_nat_Suc)
next
  case (Suc k)
  let ?ms = "matching flt (block_traces env tg rd (blk n))"
  have range: "[n..<Suc final] = n # [Suc n..<Suc final]" using Suc(2) by (simp add: upt_conv_Cons)
  have ok: "page_ok (page_left flt ?ms)" using Suc.prems by (simp add: page_ok_left)
  have adrs: "by_address (page_left flt ?ms)" using Suc.prems by (simp add: by_address_def)
  from trace_filter_loop_step [OF assms Suc.prems, where rules = rules and w = w] obtain s' where
    s': "I (api_blocks s')" and step: "trace_filter_loop rules env tg rd (blk final) (of_nat n) (blk n) flt (s, w) =
      (if ft_count (page_left flt ?ms) = 0 then Some (Ok (), (s, w @ write_traces (te_jx (tg_ext tg)) (page flt ?ms)))
       else trace_filter_loop rules env tg rd (blk final) (of_nat (Suc n)) (blk (Suc n)) (page_left flt ?ms)
         (s', w @ write_traces (te_jx (tg_ext tg)) (page flt ?ms)))" by blast
  show ?case
  proof (cases "ft_count (page_left flt ?ms) = 0")
    case True
    then show ?thesis using step page_full [OF ok True, of "matching flt (concat (map (\<lambda>i. block_traces env tg rd (blk i)) [Suc n..<Suc final]))"] unfolding range by (simp add: page_append del: upt_Suc)
  next
    case False
    have "k = final - Suc n" "Suc n \<le> final" using Suc(2) by simp_all
    from Suc.hyps(1) [OF this adrs ok False s', of "w @ write_traces (te_jx (tg_ext tg)) (page flt ?ms)"] show ?thesis
      using step False unfolding range by (auto simp: page_append write_traces_def simp del: of_nat_Suc upt_Suc)
  qed
qed

section \<open>The filter\<close>


text \<open>
  The block after the last one is read although it is not traced. When it cannot be read, which is so when the
  range ends with the latest block, its exception leaves the array of the result open, behind the traces of the last block.
\<close>

lemma trace_filter_reads_past_end:
  assumes "hdr_number (bw_header block) = n" and flt: "by_address flt" "page_ok flt" "ft_count flt \<noteq> 0"
    and "trace_block_transactions env tg rd block trace_only = Ok results"
    and "ft_count (page_left flt (matching flt (block_traces env tg rd block))) \<noteq> 0"
    and "cached_read_block_by_number (ae_cache env) (ae_x env) rd (n + 1) (api_blocks s) = (Throw e, c)"
  shows "trace_filter_loop rules env tg rd block n block flt (s, w) =
    Some (Throw e, (s\<lparr>api_blocks := c\<rparr>, w @ write_traces (te_jx (tg_ext tg)) (page flt (matching flt (block_traces env tg rd block)))))"
  using assms trace_block_filtered [OF flt assms(5), of rules w]
  by (subst trace_filter_loop.simps) (simp add: on_stream_def next_block_def on_api_def on_cache_def)

text \<open>A count of 0 is no limit: it is lowered before it is compared, and wraps around.\<close>

lemma count_zero_wraps:
  assumes "ft_count flt = 0" "ft_after flt = 0" "\<not> skipped flt t"
  shows "fst (filter_traces flt (t # ts)) = t # fst (filter_traces (flt\<lparr>ft_count := - 1\<rparr>) ts)"
  using assms by (simp add: filter_step_def split: prod.split)

section \<open>An instance\<close>

text \<open>A chain whose block has one transaction, with four frames, of which one is a call of the wanted account.\<close>

definition one_transaction :: block_with_hash where
  "one_transaction = no_transactions\<lparr>bw_transactions := [demo_txn]\<rparr>"

definition filter_env :: "(unit, bytes list, ledger) api_env" where
  "filter_env = chain_env\<lparr>ae_cache := \<lparr>bc_get = (\<lambda>_ c. (Some one_transaction, c)), bc_insert = (\<lambda>_ _ c. c)\<rparr>\<rparr>"

definition filter_tracing :: "ledger tracing" where
  "filter_tracing = \<lparr>tg_ext = demo_tracer_ext, tg_events = (\<lambda>_. events_of tree_frame), tg_view = (\<lambda>_. tree_view\<lparr>vw_exists := \<lambda>a. a \<noteq> [9]\<rparr>)\<rparr>"

definition filter_request :: trace_filter where
  "filter_request = \<lparr>tf_from_block = Block_number 0, tf_to_block = Block_number 0, tf_from_addresses = [], tf_to_addresses = [[3]],
     tf_mode = None, tf_after = 0, tf_count = 1\<rparr>"

lemma filter_env_run: "\<exists>r s'. executor_call demo_vm ledger_ops demo_txn True True demo_ledger = Ok (r, s') \<and> er_pre_check_error r = None"
  by (simp add: executor_call_def demo_defs pre_check_def Let_def ledger_ops_def base_fee_def want_of_def sender_def split: prod.split)

lemma filter_env_reads: "cached_read_block_by_number (ae_cache filter_env) (ae_x filter_env) demo_api_reader n c = (Ok one_transaction, c)"
  by (simp add: cached_read_block_by_number_def filter_env_def chain_env_def cached_env_def read_canonical_block_hash_def demo_api_reader_def)

text \<open>Who is called, and where in the tree.\<close>

definition called :: "call_trace \<Rightarrow> bytes option" where
  "called t = (case ct_action t of Trace_action a \<Rightarrow> ta_to a | Reward_action _ \<Rightarrow> None)"

lemma tree_traces:
  "(case trace_on_events (events_of tree_frame) (trace_tracer_of (\<lambda>a. a \<noteq> [9])) of
      Inl e \<Rightarrow> False
    | Inr tr \<Rightarrow> map (\<lambda>t. (called t, ct_trace_address t)) (tt_traces tr) = [(Some [1], []), (None, [0]), (Some [1], [0, 0]), (Some [3], [1])])"
  by code_simp

lemma skipped_request: "skipped (filter_of filter_request) t \<longleftrightarrow> called t \<noteq> Some [3]"
  by (auto simp: skipped_def filter_of_def filter_request_def called_def split: trace_or_reward.splits option.splits)

lemma located_called [simp]: "called (located block pos h t) = called t" "ct_trace_address (located block pos h t) = ct_trace_address t"
  "ct_transaction_position (located block pos h t) = Some (of_nat pos)"
  by (simp_all add: called_def located_def)

lemma filter_env_traces:
  "\<exists>results t. trace_block_transactions filter_env filter_tracing demo_api_reader one_transaction trace_only = Ok results \<and>
     filter (\<lambda>t. \<not> skipped (filter_of filter_request) t) (block_traces filter_env filter_tracing demo_api_reader one_transaction) = [t] \<and>
     ct_trace_address t = [1] \<and> ct_transaction_position t = Some 0"
proof -
  obtain r s where run: "executor_call demo_vm ledger_ops demo_txn True True demo_ledger = Ok (r, s)" "er_pre_check_error r = None"
    using filter_env_run by blast
  obtain t0 t1 t2 t3 tr where tr: "trace_on_events (events_of tree_frame) (trace_tracer_of (\<lambda>a. a \<noteq> [9])) = Ok tr" "tt_traces tr = [t0, t1, t2, t3]"
      "called t0 = Some [1]" "called t1 = None" "called t2 = Some [1]" "called t3 = Some [3]" "ct_trace_address t3 = [1]"
    using tree_traces by (auto split: sum.splits)
  have jx: "tx_from demo_txn = Some [1]" by (simp add: demo_txn_def)
  have results: "\<exists>h o'. trace_block_transactions filter_env filter_tracing demo_api_reader one_transaction trace_only =
    Ok [\<lparr>tcx_traces = \<lparr>tct_output = o', tct_transaction_hash = h, tct_state_diff = None, tct_trace = [t0, t1, t2, t3], tct_vm_trace = None\<rparr>, tcx_pre_check_error = None\<rparr>]"
    using run tr(1,2) cached_env_chain(2) jx
    by (simp add: trace_block_transactions_def filter_env_def lookup_chain_config_def cached_env_chain one_transaction_def filter_tracing_def
       traced_call_def recover_sender_def run_tracers_def trace_only_def call_outcome_def chain_env_def cached_env_def demo_api_env_def)
  then show ?thesis
    using tr(3-7) by (auto simp: block_traces_def located_traces_def skipped_request one_transaction_def)
qed

lemma filter_env_readable: "readable filter_env filter_tracing demo_api_reader (\<lambda>_. True) (\<lambda>_. one_transaction) 0"
  using filter_env_traces by (auto simp: readable_def filter_env_reads one_transaction_def no_transactions_def empty_header_def)

end
