(* ===== verification/Stream_Props.thy ===== *)
theory Stream_Props
  imports Trace_Api_Props
begin

text \<open>
  The handlers that write to a stream close the transaction that they began, as the others do. The rules follow
  the structure of their bodies.
\<close>

named_theorems stream_rules

definition stays :: "(('c, 'w) streaming, 'a) action \<Rightarrow> bool" where
  "stays m \<longleftrightarrow> (\<forall>sw. api_open (fst (snd (m sw))) = api_open (fst sw))"

definition defined :: "'a result \<Rightarrow> bool" where
  "defined r \<longleftrightarrow> (case r of Inl e \<Rightarrow> what_of e \<noteq> None | Inr _ \<Rightarrow> True)"

definition settles_stream :: "(('c, 'w) streaming, 'a) action \<Rightarrow> bool" where
  "settles_stream m \<longleftrightarrow> (\<forall>sw. defined (fst (m sw)) \<longrightarrow> api_open (fst (snd (m sw))) = api_open (fst sw))"

lemma stays_bind [stream_rules]: "stays m \<Longrightarrow> (\<And>x. stays (f x)) \<Longrightarrow> stays (bind_a m f)"
  unfolding stays_def bind_a_def by (auto split: prod.split sum.split) (metis fst_conv snd_conv)+

lemma stays_lift [stream_rules]: "stays (lift r)" "stays (ret x)" "stays (write_ops ops)" "stays (on_stream m')"
  by (simp_all add: stays_def lift_def ret_def write_ops_def on_stream_def split: prod.split)

lemma stays_on_api [stream_rules]: "quiet m \<Longrightarrow> stays (on_api m)"
  by (auto simp: stays_def quiet_def on_api_def split: prod.split) (metis snd_conv)

lemma stays_case [stream_rules]:
  "stays m \<Longrightarrow> stays m' \<Longrightarrow> stays (if b then m else m')"
  "stays m \<Longrightarrow> (\<And>x. stays (f x)) \<Longrightarrow> stays (case o' of None \<Rightarrow> m | Some x \<Rightarrow> f x)"
  "(\<And>a b. stays (g a b)) \<Longrightarrow> stays (case p of (a, b) \<Rightarrow> g a b)"
  by (simp_all split: option.split prod.split)

lemma stays_settles: "stays m \<Longrightarrow> settles_stream m"
  by (simp add: stays_def settles_stream_def)

lemma settles_stream_bind [stream_rules]: "stays m \<Longrightarrow> (\<And>x. settles_stream (f x)) \<Longrightarrow> settles_stream (bind_a m f)"
  unfolding stays_def settles_stream_def bind_a_def by (auto split: prod.split sum.split) (metis fst_conv snd_conv)+

lemma stays_param [stream_rules]: "stays (param f params i)" "stays (config_param params i)"
  by (auto simp: param_def config_param_def intro!: stream_rules)

lemma stays_next_block: "stays (next_block env rd to_block n)"
  unfolding next_block_def by (intro stream_rules handler_rules)

lemma stays_run: "stays m \<Longrightarrow> m sw = (r, sw') \<Longrightarrow> api_open (fst sw') = api_open (fst sw)"
  unfolding stays_def by (metis snd_conv)

lemma stays_trace_filter_loop:
  assumes "trace_filter_loop rules env tg rd to_block block_number block flt sw = Some y"
  shows "api_open (fst (snd y)) = api_open (fst sw)"
proof (rule trace_filter_loop.raw_induct [OF _ assms])
  fix loop rules env tg rd to_block block_number block flt sw y
  assume IH: "\<And>rules env tg rd to_block block_number block flt sw y.
      loop rules env tg rd to_block block_number block flt sw = Some y \<Longrightarrow> api_open (fst (snd y)) = api_open (fst sw)"
    and step: "(if block_number \<le> hdr_number (bw_header to_block)
      then case on_stream (trace_block rules env tg rd block flt True) sw of
             (Inl e, sw1) \<Rightarrow> Some (Throw e, sw1)
           | (Inr (_, flt'), sw1) \<Rightarrow>
               if ft_count flt' = 0 then Some (Ok (), sw1)
               else case next_block env rd to_block (block_number + 1) sw1 of
                      (Inl e, sw2) \<Rightarrow> Some (Throw e, sw2)
                    | (Inr block', sw2) \<Rightarrow> loop rules env tg rd to_block (block_number + 1) block' flt' sw2
      else Some (Ok (), sw)) = Some y"
  note keep = stays_run [OF stays_lift(4)] stays_run [OF stays_next_block]
  from step show "api_open (fst (snd y)) = api_open (fst sw)"
    by (auto split: if_splits prod.splits sum.splits dest!: keep IH)
qed

lemma stays_trace_filter_of [stream_rules]: "stays (trace_filter_of rules env tg rd tf)"
proof -
  have "stays (\<lambda>sw. case trace_filter_loop rules env tg rd to_block n block flt sw of None \<Rightarrow> (Throw No_return, sw) | Some out \<Rightarrow> out)"
    for to_block n block flt
    by (auto simp: stays_def dest: stays_trace_filter_loop split: option.split)
  then show ?thesis
    unfolding trace_filter_of_def by (intro stream_rules handler_rules)
qed

text \<open>The clauses after the \<^verbatim>\<open>try\<close> block are for every exception of the standard library.\<close>

definition catches :: "stream_clauses \<Rightarrow> bool" where
  "catches cs \<longleftrightarrow> (\<forall>e. what_of e \<noteq> None \<longrightarrow> cs e \<noteq> None)"

lemma catches_clauses:
  "catches (catch_what ecode)" "catches cs \<Longrightarrow> catches (catch_invalid ecode what_text cs)" "catches (\<lambda>e. map_option f (what_of e))"
  by (auto simp: catches_def catch_what_def catch_invalid_def split: exn.split)

lemma settles_stream_transaction [stream_rules]:
  assumes "\<And>rd cached. stays (body rd cached)" "catches cs"
  shows "settles_stream (stream_transaction env request cs body)"
  unfolding settles_stream_def
proof (intro allI impI)
  fix sw :: "('a, 'b) streaming"
  let ?m = "stream_transaction env request cs body"
  assume ok: "defined (fst (?m sw))"
  show "api_open (fst (snd (?m sw))) = api_open (fst sw)"
  proof (cases "on_world (ae_begin env) (fst sw)")
    case (Pair r s1)
    have open1: "api_open s1 = api_open (fst sw)" using Pair by (auto simp: on_world_def split: prod.splits)
    show ?thesis
    proof (cases r)
      case (Inl e)
      then show ?thesis using Pair open1
        by (cases sw) (simp add: stream_transaction_def bind_a_on_api begin_tx_def bind_a_def [of "on_world _"])
    next
      case (Inr dbs)
      obtain rd cached where dbs: "dbs = (rd, cached)" by (cases dbs)
      let ?sw1 = "(s1\<lparr>api_open := Suc (api_open s1)\<rparr>, snd sw @ reply_header request)"
      obtain r2 s2 w2 where run: "body rd cached ?sw1 = (r2, (s2, w2))" by (metis prod_cases3)
      have open2: "api_open s2 = Suc (api_open s1)" using stays_run [OF assms(1) run] by simp
      have m: "?m sw = (case stream_catch cs (body rd cached) ?sw1 of (Inl e, sw2) \<Rightarrow> (Throw e, sw2)
          | (Inr _, (s3, w3)) \<Rightarrow> (Ok (), (close_tx s3, w3 @ [Close_object])))"
        using Pair Inr dbs
        by (cases sw) (simp add: stream_transaction_def bind_a_on_api begin_tx_def bind_a_def [of "on_world _"]
            bind_a_def [of "stream_catch _ _"] split: prod.split sum.split)
      show ?thesis
        using ok open1 open2 run assms(2) unfolding m stream_catch_def
        by (auto simp: close_tx_def defined_def catches_def split: sum.splits option.splits)
    qed
  qed
qed

lemma settles_stream_params [stream_rules]:
  "(\<And>params. settles_stream (body params)) \<Longrightarrow> settles_stream (stream_params env name ok request body)"
  unfolding stream_params_def by (intro stream_rules) (auto intro: stays_settles stream_rules)

text \<open>
  C10: The methods that stream their reply close the transaction that they began on every path: whatever the
  parameters are, whatever the database answers and whichever exception is thrown while the reply is written. A run
  that ends in undefined behaviour or does not return is excluded.
\<close>
theorem stream_transactions_settled:
  assumes "(name, h) \<in> set (stream_methods tg nd env)" and "h request (s, w) = (r, (s', w'))"
    and "case r of Inl e \<Rightarrow> what_of e \<noteq> None | Inr _ \<Rightarrow> True"
  shows "api_open s' = api_open s"
proof -
  have "list_all (\<lambda>(name, h). settles_stream (h request)) (stream_methods tg nd env)"
    unfolding stream_methods_def handle_debug_trace_transaction_def handle_debug_trace_call_def handle_debug_trace_block_by_number_def
      handle_debug_trace_block_by_hash_def handle_trace_filter_def stream_block_def list.pred_inject(2) prod.case
    by (intro conjI list.pred_inject(1) stream_rules handler_rules catches_clauses)
  with assms(1) have "settles_stream (h request)" by (auto simp: list_all_iff)
  from this [unfolded settles_stream_def, rule_format, of "(s, w)"] assms(2,3) show ?thesis by (simp add: defined_def)
qed

theorem stream_transactions_settled_witness:
  "api_open (fst (snd (handle_debug_trace_block_by_hash demo_tracing chain_env (demo_call_request [String ''0x01'']) (demo_state, [])))) = api_open demo_state"
proof -
  have "(''handle_debug_trace_block_by_hash'', handle_debug_trace_block_by_hash demo_tracing chain_env) \<in> set (stream_methods demo_tracing demo_node chain_env)"
    by (simp add: stream_methods_def)
  from stream_transactions_settled [OF this demo_trace_block] demo_trace_block show ?thesis by simp
qed

end
