(* ===== verification/Remote_Services.thy ===== *)
theory Remote_Services
  imports Rpc_Actions Evm_Events
begin

text \<open>
  The clients of the services of the node: \<^verbatim>\<open>ethbackend/remote_backend.cpp\<close>, \<^verbatim>\<open>txpool/transaction_pool.cpp\<close> and
  \<^verbatim>\<open>txpool/miner.cpp\<close>. An operation fills a message, calls the stub and reads the message that comes back. The
  messages are records with the members that the code sets and reads; a stub is an action on the state of the
  service, which throws when the call fails; both are generated from the protocol. The functions of boost and evmc that
  store and load numbers with the most significant byte first are parameters.
\<close>

section \<open>Fixed size messages\<close>

record h128 = h128_hi :: u64 h128_lo :: u64
record h160 = h160_hi :: h128 h160_lo :: u32
record h256 = h256_hi :: h128 h256_lo :: h128
record h512 = h512_hi :: h256 h512_lo :: h256
record h1024 = h1024_hi :: h512 h1024_lo :: h512
record h2048 = h2048_hi :: h1024 h2048_lo :: h1024

record endian =
  en_store64 :: "u64 \<Rightarrow> bytes"
  en_load64 :: "bytes \<Rightarrow> u64"
  en_store32 :: "u32 \<Rightarrow> bytes"
  en_load32 :: "bytes \<Rightarrow> u32"

definition address_from_h160 :: "endian \<Rightarrow> h160 \<Rightarrow> bytes" where
  "address_from_h160 en h = en_store64 en (h128_hi (h160_hi h)) @ en_store64 en (h128_lo (h160_hi h)) @ en_store32 en (h160_lo h)"

definition bytes_from_H128 :: "endian \<Rightarrow> h128 \<Rightarrow> bytes" where
  "bytes_from_H128 en h = en_store64 en (h128_hi h) @ en_store64 en (h128_lo h)"

definition H128_from_bytes :: "endian \<Rightarrow> bytes \<Rightarrow> h128" where
  "H128_from_bytes en bs = \<lparr>h128_hi = en_load64 en (take 8 bs), h128_lo = en_load64 en (take 8 (drop 8 bs))\<rparr>"

definition H160_from_address :: "endian \<Rightarrow> bytes \<Rightarrow> h160" where
  "H160_from_address en adr = \<lparr>h160_hi = H128_from_bytes en adr, h160_lo = en_load32 en (take 4 (drop 16 adr))\<rparr>"

definition H256_from_bytes :: "endian \<Rightarrow> bytes \<Rightarrow> h256" where
  "H256_from_bytes en bs = \<lparr>h256_hi = H128_from_bytes en bs, h256_lo = H128_from_bytes en (drop 16 bs)\<rparr>"

definition bytes_from_H256 :: "endian \<Rightarrow> h256 \<Rightarrow> bytes" where
  "bytes_from_H256 en h = bytes_from_H128 en (h256_hi h) @ bytes_from_H128 en (h256_lo h)"

text \<open>\<^verbatim>\<open>n[i]\<close> is a word of 64 bits of a number of 256 bits, the least significant one first.\<close>

definition word_at :: "u256 \<Rightarrow> nat \<Rightarrow> u64" where
  "word_at n i = ucast (drop_bit (64 * i) n)"

definition uint256_from_H256 :: "h256 \<Rightarrow> u256" where
  "uint256_from_H256 h =
     push_bit 192 (ucast (h128_hi (h256_hi h))) OR push_bit 128 (ucast (h128_lo (h256_hi h))) OR
     push_bit 64 (ucast (h128_hi (h256_lo h))) OR ucast (h128_lo (h256_lo h))"

definition H256_from_uint256 :: "u256 \<Rightarrow> h256" where
  "H256_from_uint256 n =
     \<lparr>h256_hi = \<lparr>h128_hi = word_at n 3, h128_lo = word_at n 2\<rparr>, h256_lo = \<lparr>h128_hi = word_at n 1, h128_lo = word_at n 0\<rparr>\<rparr>"

definition bytes32_from_H256 :: "endian \<Rightarrow> h256 \<Rightarrow> bytes" where
  "bytes32_from_H256 en h = take 32 (bytes_from_H256 en h)"

definition H512_from_bytes :: "endian \<Rightarrow> bytes \<Rightarrow> h512" where
  "H512_from_bytes en bs = \<lparr>h512_hi = H256_from_bytes en bs, h512_lo = H256_from_bytes en (drop 32 bs)\<rparr>"

definition bytes_from_H512 :: "endian \<Rightarrow> h512 \<Rightarrow> bytes" where
  "bytes_from_H512 en h = bytes_from_H256 en (h512_hi h) @ bytes_from_H256 en (h512_lo h)"

definition H1024_from_bytes :: "endian \<Rightarrow> bytes \<Rightarrow> h1024" where
  "H1024_from_bytes en bs = \<lparr>h1024_hi = H512_from_bytes en bs, h1024_lo = H512_from_bytes en (drop 64 bs)\<rparr>"

definition bytes_from_H1024 :: "endian \<Rightarrow> h1024 \<Rightarrow> bytes" where
  "bytes_from_H1024 en h = bytes_from_H512 en (h1024_hi h) @ bytes_from_H512 en (h1024_lo h)"

definition H2048_from_bytes :: "endian \<Rightarrow> bytes \<Rightarrow> h2048" where
  "H2048_from_bytes en bs = \<lparr>h2048_hi = H1024_from_bytes en bs, h2048_lo = H1024_from_bytes en (drop 128 bs)\<rparr>"

definition bytes_from_H2048 :: "endian \<Rightarrow> h2048 \<Rightarrow> bytes" where
  "bytes_from_H2048 en h = bytes_from_H1024 en (h2048_hi h) @ bytes_from_H1024 en (h2048_lo h)"

section \<open>Messages of the engine\<close>

record payload_message =
  pm_parent_hash :: h256
  pm_coinbase :: h160
  pm_state_root :: h256
  pm_receipt_root :: h256
  pm_logs_bloom :: h2048
  pm_prev_randao :: h256
  pm_block_number :: u64
  pm_gas_limit :: u64
  pm_gas_used :: u64
  pm_timestamp :: u64
  pm_extra_data :: bytes
  pm_base_fee_per_gas :: h256
  pm_block_hash :: h256
  pm_transactions :: "bytes list"

definition decode_execution_payload :: "endian \<Rightarrow> payload_message \<Rightarrow> execution_payload" where
  "decode_execution_payload en m =
     \<lparr>ep_number = pm_block_number m, ep_timestamp = pm_timestamp m, ep_gas_limit = pm_gas_limit m, ep_gas_used = pm_gas_used m,
      ep_suggested_fee_recipient = address_from_h160 en (pm_coinbase m), ep_state_root = bytes32_from_H256 en (pm_state_root m),
      ep_receipts_root = bytes32_from_H256 en (pm_receipt_root m), ep_parent_hash = bytes32_from_H256 en (pm_parent_hash m),
      ep_block_hash = bytes32_from_H256 en (pm_block_hash m), ep_prev_randao = bytes32_from_H256 en (pm_prev_randao m),
      ep_base_fee = uint256_from_H256 (pm_base_fee_per_gas m), ep_logs_bloom = take 256 (bytes_from_H2048 en (pm_logs_bloom m)),
      ep_extra_data = pm_extra_data m, ep_transactions = pm_transactions m\<rparr>"

definition encode_execution_payload :: "endian \<Rightarrow> execution_payload \<Rightarrow> payload_message" where
  "encode_execution_payload en p =
     \<lparr>pm_parent_hash = H256_from_bytes en (ep_parent_hash p), pm_coinbase = H160_from_address en (ep_suggested_fee_recipient p),
      pm_state_root = H256_from_bytes en (ep_state_root p), pm_receipt_root = H256_from_bytes en (ep_receipts_root p),
      pm_logs_bloom = H2048_from_bytes en (ep_logs_bloom p), pm_prev_randao = H256_from_bytes en (ep_prev_randao p),
      pm_block_number = ep_number p, pm_gas_limit = ep_gas_limit p, pm_gas_used = ep_gas_used p, pm_timestamp = ep_timestamp p,
      pm_extra_data = ep_extra_data p, pm_base_fee_per_gas = H256_from_uint256 (ep_base_fee p),
      pm_block_hash = H256_from_bytes en (ep_block_hash p), pm_transactions = ep_transactions p\<rparr>"

record forkchoice_state_message =
  fm_head_block_hash :: h256
  fm_safe_block_hash :: h256
  fm_finalized_block_hash :: h256

record attributes_message =
  am_timestamp :: u64
  am_prev_randao :: h256
  am_suggested_fee_recipient :: h160

record forkchoice_message =
  fu_state :: forkchoice_state_message
  fu_attributes :: "attributes_message option"

definition encode_forkchoice_state :: "endian \<Rightarrow> fork_choice_state \<Rightarrow> forkchoice_state_message" where
  "encode_forkchoice_state en f =
     \<lparr>fm_head_block_hash = H256_from_bytes en (fc_head_block_hash f), fm_safe_block_hash = H256_from_bytes en (fc_safe_block_hash f),
      fm_finalized_block_hash = H256_from_bytes en (fc_finalized_block_hash f)\<rparr>"

definition encode_payload_attributes :: "endian \<Rightarrow> payload_attributes \<Rightarrow> attributes_message" where
  "encode_payload_attributes en a =
     \<lparr>am_timestamp = pa_timestamp a, am_prev_randao = H256_from_bytes en (pa_prev_randao a),
      am_suggested_fee_recipient = H160_from_address en (pa_suggested_fee_recipient a)\<rparr>"

definition encode_forkchoice_updated_request :: "endian \<Rightarrow> fork_choice_state \<Rightarrow> payload_attributes option \<Rightarrow> forkchoice_message" where
  "encode_forkchoice_updated_request en f attributes =
     \<lparr>fu_state = encode_forkchoice_state en f, fu_attributes = map_option (encode_payload_attributes en) attributes\<rparr>"

datatype engine_status = ES_VALID | ES_INVALID | ES_SYNCING | ES_ACCEPTED | ES_INVALID_BLOCK_HASH

fun decode_status_message :: "engine_status \<Rightarrow> string" where
  "decode_status_message ES_VALID = ''VALID''"
| "decode_status_message ES_SYNCING = ''SYNCING''"
| "decode_status_message ES_ACCEPTED = ''ACCEPTED''"
| "decode_status_message ES_INVALID_BLOCK_HASH = ''INVALID_BLOCK_HASH''"
| "decode_status_message _ = ''INVALID''"

record payload_status_message =
  sm_status :: engine_status
  sm_latest_valid_hash :: "h256 option"
  sm_validation_error :: string

record forkchoice_reply =
  fy_payload_status :: payload_status_message
  fy_payload_id :: u64

definition decode_payload_status :: "endian \<Rightarrow> payload_status_message \<Rightarrow> payload_status" where
  "decode_payload_status en m =
     \<lparr>ps_status = decode_status_message (sm_status m), ps_latest_valid_hash = map_option (bytes32_from_H256 en) (sm_latest_valid_hash m),
      ps_validation_error = (if sm_validation_error m \<noteq> [] then Some (sm_validation_error m) else None)\<rparr>"

section \<open>The backend\<close>

record node_message =
  nm_id :: string
  nm_name :: string
  nm_enode :: string
  nm_enr :: string
  nm_listener_addr :: string
  nm_protocols :: string
  nm_ports :: "(u32 \<times> u32) option"

record 'w backend_stub =
  bk_etherbase :: "('w, h160 option) action"
  bk_protocol_version :: "('w, u64) action"
  bk_net_version :: "('w, u64) action"
  bk_client_version :: "('w, string) action"
  bk_net_peer_count :: "('w, u64) action"
  bk_node_info :: "('w, node_message list) action"
  bk_get_payload :: "u64 \<Rightarrow> ('w, payload_message) action"
  bk_new_payload :: "payload_message \<Rightarrow> ('w, payload_status_message) action"
  bk_forkchoice_updated :: "forkchoice_message \<Rightarrow> ('w, forkchoice_reply) action"

definition etherbase :: "endian \<Rightarrow> 'w backend_stub \<Rightarrow> ('w, bytes) action" where
  "etherbase en bk =
     bind_a (bk_etherbase bk) (\<lambda>reply. ret (case reply of None \<Rightarrow> zeros 20 | Some h \<Rightarrow> address_from_h160 en h))"

definition node_info_of :: "node_message \<Rightarrow> node_info" where
  "node_info_of m =
     \<lparr>ni_id = nm_id m, ni_name = nm_name m, ni_enode = nm_enode m, ni_enr = nm_enr m, ni_listener_addr = nm_listener_addr m,
      ni_protocols = nm_protocols m,
      ni_discovery = (case nm_ports m of None \<Rightarrow> 0 | Some (d, _) \<Rightarrow> ucast d),
      ni_listener = (case nm_ports m of None \<Rightarrow> 0 | Some (_, l) \<Rightarrow> ucast l)\<rparr>"

definition engine_node_info :: "'w backend_stub \<Rightarrow> ('w, node_info list) action" where
  "engine_node_info bk = bind_a (bk_node_info bk) (\<lambda>reply. ret (map node_info_of reply))"

definition engine_get_payload_v1 :: "endian \<Rightarrow> 'w backend_stub \<Rightarrow> u64 \<Rightarrow> ('w, execution_payload) action" where
  "engine_get_payload_v1 en bk payload_id = bind_a (bk_get_payload bk payload_id) (\<lambda>reply. ret (decode_execution_payload en reply))"

definition engine_new_payload_v1 :: "endian \<Rightarrow> 'w backend_stub \<Rightarrow> execution_payload \<Rightarrow> ('w, payload_status) action" where
  "engine_new_payload_v1 en bk payload =
     bind_a (bk_new_payload bk (encode_execution_payload en payload)) (\<lambda>reply. ret (decode_payload_status en reply))"

definition engine_forkchoice_updated_v1 ::
  "endian \<Rightarrow> 'w backend_stub \<Rightarrow> fork_choice_state \<Rightarrow> payload_attributes option \<Rightarrow> ('w, fork_choice_updated_reply) action" where
  "engine_forkchoice_updated_v1 en bk f attributes =
     bind_a (bk_forkchoice_updated bk (encode_forkchoice_updated_request en f attributes)) (\<lambda>reply.
       ret \<lparr>fr_payload_status = decode_payload_status en (fy_payload_status reply),
         fr_payload_id = (if fy_payload_id reply \<noteq> 0 then Some (fy_payload_id reply) else None)\<rparr>)"

section \<open>The transaction pool\<close>

datatype import_result = IR_SUCCESS | IR_ALREADY_EXISTS | IR_FEE_TOO_LOW | IR_STALE | IR_INVALID | IR_INTERNAL_ERROR

datatype txn_type = TxnType_PENDING | TxnType_QUEUED | TxnType_BASE_FEE

record add_reply =
  ar_imported :: "import_result list"
  ar_errors :: "string list"

record pooled_message =
  tm_txn_type :: txn_type
  tm_sender :: h160
  tm_rlp_tx :: bytes

record 'w pool_stub =
  pl_add :: "bytes list \<Rightarrow> ('w, add_reply) action"
  pl_transactions :: "h256 list \<Rightarrow> ('w, bytes list) action"
  pl_nonce :: "h160 \<Rightarrow> ('w, bool \<times> u64) action"
  pl_status :: "('w, u32 \<times> u32 \<times> u32) action"
  pl_all :: "('w, pooled_message list) action"

definition add_outcome :: "add_reply \<Rightarrow> bool \<times> string" where
  "add_outcome reply =
     (case ar_imported reply of
        [import_result] \<Rightarrow>
          if import_result \<noteq> IR_SUCCESS
          then (False, case ar_errors reply of [] \<Rightarrow> ''no specific error'' | import_error # _ \<Rightarrow> import_error)
          else (True, [])
      | _ \<Rightarrow> (False, ''unexpected imported size''))"

definition add_transaction :: "'w pool_stub \<Rightarrow> bytes \<Rightarrow> ('w, bool \<times> string) action" where
  "add_transaction pl rlp_tx = bind_a (pl_add pl [rlp_tx]) (\<lambda>reply. ret (add_outcome reply))"

definition get_transaction :: "endian \<Rightarrow> 'w pool_stub \<Rightarrow> bytes \<Rightarrow> ('w, bytes option) action" where
  "get_transaction en pl tx_hash =
     bind_a (pl_transactions pl [H256_from_bytes en tx_hash]) (\<lambda>reply. ret (case reply of [rlptx] \<Rightarrow> Some rlptx | _ \<Rightarrow> None))"

definition pool_nonce :: "endian \<Rightarrow> 'w pool_stub \<Rightarrow> bytes \<Rightarrow> ('w, u64 option) action" where
  "pool_nonce en pl adr =
     bind_a (pl_nonce pl (H160_from_address en adr)) (\<lambda>(found, nonce). ret (if found then Some nonce else None))"

fun pool_type_of :: "txn_type \<Rightarrow> pool_type" where
  "pool_type_of TxnType_PENDING = PENDING"
| "pool_type_of TxnType_QUEUED = QUEUED"
| "pool_type_of _ = BASE_FEE"

definition get_transactions :: "endian \<Rightarrow> 'w pool_stub \<Rightarrow> ('w, transaction_info list) action" where
  "get_transactions en pl =
     bind_a (pl_all pl) (\<lambda>reply. ret (map (\<lambda>m. \<lparr>ti_type = pool_type_of (tm_txn_type m), ti_sender = address_from_h160 en (tm_sender m),
       ti_rlp = tm_rlp_tx m\<rparr>) reply))"

section \<open>The miner\<close>

record work_message =
  wm_header_hash :: string
  wm_seed_hash :: string
  wm_target :: string
  wm_block_number :: string

record 'w mining_stub =
  mn_get_work :: "('w, work_message) action"
  mn_submit_work :: "bytes \<Rightarrow> bytes \<Rightarrow> bytes \<Rightarrow> ('w, bool) action"
  mn_submit_hash_rate :: "u64 \<Rightarrow> bytes \<Rightarrow> ('w, bool) action"
  mn_hash_rate :: "('w, u64) action"
  mn_mining :: "('w, bool \<times> bool) action"

definition get_work :: "json_ext \<Rightarrow> 'w mining_stub \<Rightarrow> ('w, work_result) action" where
  "get_work jx mn =
     bind_a (mn_get_work mn) (\<lambda>reply.
       ret \<lparr>wk_header_hash = bytes32_from_hex jx (wm_header_hash reply), wk_seed_hash = bytes32_from_hex jx (wm_seed_hash reply),
         wk_target = bytes32_from_hex jx (wm_target reply), wk_block_number = value_or (jx_from_hex jx (wm_block_number reply)) []\<rparr>)"

text \<open>The rate is cut to 64 bits.\<close>

definition submit_hash_rate :: "'w mining_stub \<Rightarrow> u256 \<Rightarrow> bytes \<Rightarrow> ('w, bool) action" where
  "submit_hash_rate mn rate rid = mn_submit_hash_rate mn (ucast rate) (take 32 rid)"

definition submit_work :: "'w mining_stub \<Rightarrow> bytes \<Rightarrow> bytes \<Rightarrow> bytes \<Rightarrow> ('w, bool) action" where
  "submit_work mn block_nonce pow_hash digest = mn_submit_work mn block_nonce (take 32 pow_hash) (take 32 digest)"

section \<open>All services\<close>

definition remote_services ::
  "endian \<Rightarrow> json_ext \<Rightarrow> 'w backend_stub \<Rightarrow> 'w pool_stub \<Rightarrow> 'w mining_stub \<Rightarrow> 'w services" where
  "remote_services en jx bk pl mn =
     \<lparr>sv_protocol_version = bk_protocol_version bk, sv_net_version = bk_net_version bk, sv_net_peer_count = bk_net_peer_count bk,
      sv_client_version = bk_client_version bk, sv_etherbase = etherbase en bk, sv_get_payload = engine_get_payload_v1 en bk,
      sv_new_payload = engine_new_payload_v1 en bk, sv_forkchoice_updated = engine_forkchoice_updated_v1 en bk,
      sv_node_info = engine_node_info bk, sv_get_transaction = get_transaction en pl, sv_add_transaction = add_transaction pl,
      sv_pool_nonce = pool_nonce en pl, sv_pool_status = pl_status pl, sv_pool_transactions = get_transactions en pl,
      sv_mining = mn_mining mn, sv_hash_rate = mn_hash_rate mn, sv_submit_hash_rate = submit_hash_rate mn, sv_work = get_work jx mn,
      sv_submit_work = submit_work mn\<rparr>"

end
