(* ===== verification/Remote_Services_Props.thy ===== *)
theory Remote_Services_Props
  imports Remote_Services State_Reader_Props Json_Types_Props
begin

text \<open>
  What the clients of the services guarantee: nothing of a payload, a hash or an address is lost on the way to
  the service and back.
\<close>

section \<open>Fixed size messages\<close>

text \<open>Storing and loading a number are inverse to each other, on 8 and on 4 bytes.\<close>

definition endian_laws :: "endian \<Rightarrow> bool" where
  "endian_laws en \<longleftrightarrow>
     (\<forall>w. length (en_store64 en w) = 8 \<and> en_load64 en (en_store64 en w) = w) \<and>
     (\<forall>w. length (en_store32 en w) = 4 \<and> en_load32 en (en_store32 en w) = w) \<and>
     (\<forall>bs. length bs = 8 \<longrightarrow> en_store64 en (en_load64 en bs) = bs) \<and> (\<forall>bs. length bs = 4 \<longrightarrow> en_store32 en (en_load32 en bs) = bs)"

lemma endian_lawsD:
  assumes "endian_laws en"
  shows "length (en_store64 en w) = 8" "en_load64 en (en_store64 en w) = w" "length (en_store32 en v) = 4" "en_load32 en (en_store32 en v) = v"
    "length bs = 8 \<Longrightarrow> en_store64 en (en_load64 en bs) = bs" "length bs = 4 \<Longrightarrow> en_store32 en (en_load32 en bs) = bs"
  using assms by (simp_all add: endian_laws_def)

lemma halves: "length bs = n + n \<Longrightarrow> take n bs @ drop n bs = bs" "length bs = n + n \<Longrightarrow> take n (drop n bs) = drop n bs"
  by simp_all

lemma H128_bytes:
  assumes "endian_laws en"
  shows "length (bytes_from_H128 en h) = 16" "H128_from_bytes en (bytes_from_H128 en h @ bs) = h"
    "16 \<le> length bs \<Longrightarrow> bytes_from_H128 en (H128_from_bytes en bs) = take 16 bs"
proof -
  note laws = endian_lawsD [OF assms]
  show "length (bytes_from_H128 en h) = 16" "H128_from_bytes en (bytes_from_H128 en h @ bs) = h"
    by (simp_all add: bytes_from_H128_def H128_from_bytes_def laws)
  show "16 \<le> length bs \<Longrightarrow> bytes_from_H128 en (H128_from_bytes en bs) = take 16 bs"
    using take_add [of 8 8 bs] by (simp add: bytes_from_H128_def H128_from_bytes_def laws)
qed

lemma H160_bytes:
  assumes "endian_laws en"
  shows "H160_from_address en (address_from_h160 en h) = h" "length adr = 20 \<Longrightarrow> address_from_h160 en (H160_from_address en adr) = adr"
proof -
  note laws = endian_lawsD [OF assms]
  have split: "address_from_h160 en h = bytes_from_H128 en (h160_hi h) @ en_store32 en (h160_lo h)" for h
    by (simp add: address_from_h160_def bytes_from_H128_def)
  show "H160_from_address en (address_from_h160 en h) = h"
    by (simp add: H160_from_address_def split laws H128_bytes [OF assms])
  show "address_from_h160 en (H160_from_address en adr) = adr" if "length adr = 20"
    using that append_take_drop_id [of 16 adr] by (simp add: H160_from_address_def split laws H128_bytes [OF assms])
qed

text \<open>Every larger message is two halves, so one lemma serves for each of them.\<close>

lemma two_halves:
  assumes "\<And>h. length (out h) = n" "\<And>h bs. inp (out h @ bs) = h" "\<And>bs. n \<le> length bs \<Longrightarrow> out (inp bs) = take n bs"
  shows "length (out hi @ out lo) = n + n" "inp ((out hi @ out lo) @ bs) = hi" "inp (drop n ((out hi @ out lo) @ bs)) = lo"
    "n + n \<le> length bs \<Longrightarrow> out (inp bs) @ out (inp (drop n bs)) = take (n + n) bs"
  using assms by (simp_all add: take_add)

lemma H256_bytes:
  assumes "endian_laws en"
  shows "length (bytes_from_H256 en h) = 32" "H256_from_bytes en (bytes_from_H256 en h @ bs) = h"
    "32 \<le> length bs \<Longrightarrow> bytes_from_H256 en (H256_from_bytes en bs) = take 32 bs"
  using two_halves [where out = "bytes_from_H128 en" and inp = "H128_from_bytes en" and n = 16, OF H128_bytes [OF assms]]
  by (simp_all add: bytes_from_H256_def H256_from_bytes_def)

lemma H512_bytes:
  assumes "endian_laws en"
  shows "length (bytes_from_H512 en h) = 64" "H512_from_bytes en (bytes_from_H512 en h @ bs) = h"
    "64 \<le> length bs \<Longrightarrow> bytes_from_H512 en (H512_from_bytes en bs) = take 64 bs"
  using two_halves [where out = "bytes_from_H256 en" and inp = "H256_from_bytes en" and n = 32, OF H256_bytes [OF assms]]
  by (simp_all add: bytes_from_H512_def H512_from_bytes_def)

lemma H1024_bytes:
  assumes "endian_laws en"
  shows "length (bytes_from_H1024 en h) = 128" "H1024_from_bytes en (bytes_from_H1024 en h @ bs) = h"
    "128 \<le> length bs \<Longrightarrow> bytes_from_H1024 en (H1024_from_bytes en bs) = take 128 bs"
  using two_halves [where out = "bytes_from_H512 en" and inp = "H512_from_bytes en" and n = 64, OF H512_bytes [OF assms]]
  by (simp_all add: bytes_from_H1024_def H1024_from_bytes_def)

lemma H2048_bytes:
  assumes "endian_laws en"
  shows "length (bytes_from_H2048 en h) = 256" "H2048_from_bytes en (bytes_from_H2048 en h @ bs) = h"
    "256 \<le> length bs \<Longrightarrow> bytes_from_H2048 en (H2048_from_bytes en bs) = take 256 bs"
  using two_halves [where out = "bytes_from_H1024 en" and inp = "H1024_from_bytes en" and n = 128, OF H1024_bytes [OF assms]]
  by (simp_all add: bytes_from_H2048_def H2048_from_bytes_def)

lemma word_at_eqI: "(\<And>k. k < 64 \<Longrightarrow> bit n (64 * i + k) = bit w k) \<Longrightarrow> word_at n i = w"
  by (rule bit_word_eqI) (simp add: word_at_def bit_simps bit_imp_le_length)

lemma H256_uint256: "uint256_from_H256 (H256_from_uint256 n) = n" "H256_from_uint256 (uint256_from_H256 h) = h"
proof -
  show "uint256_from_H256 (H256_from_uint256 n) = n"
  proof (rule bit_word_eqI)
    fix k
    assume "k < LENGTH(256)"
    then show "bit (uint256_from_H256 (H256_from_uint256 n)) k \<longleftrightarrow> bit n k"
      by (cases "k < 64"; cases "k < 128"; cases "k < 192") (auto simp: uint256_from_H256_def H256_from_uint256_def word_at_def bit_simps)
  qed
  have "word_at (uint256_from_H256 h) 3 = h128_hi (h256_hi h)" "word_at (uint256_from_H256 h) 2 = h128_lo (h256_hi h)"
    "word_at (uint256_from_H256 h) 1 = h128_hi (h256_lo h)" "word_at (uint256_from_H256 h) 0 = h128_lo (h256_lo h)"
    by (rule word_at_eqI, auto simp: uint256_from_H256_def bit_simps dest: bit_imp_le_length)+
  then show "H256_from_uint256 (uint256_from_H256 h) = h" by (simp add: H256_from_uint256_def)
qed

section \<open>Payloads\<close>

text \<open>The sizes that the types of the code guarantee.\<close>

definition sized_payload :: "execution_payload \<Rightarrow> bool" where
  "sized_payload p \<longleftrightarrow>
     length (ep_suggested_fee_recipient p) = 20 \<and> length (ep_state_root p) = 32 \<and> length (ep_receipts_root p) = 32 \<and>
     length (ep_parent_hash p) = 32 \<and> length (ep_block_hash p) = 32 \<and> length (ep_prev_randao p) = 32 \<and> length (ep_logs_bloom p) = 256"

lemma bytes32_H256:
  assumes "endian_laws en"
  shows "H256_from_bytes en (bytes32_from_H256 en h) = h" "length bs = 32 \<Longrightarrow> bytes32_from_H256 en (H256_from_bytes en bs) = bs"
  using H256_bytes(2) [OF assms, of h "[]"] by (simp_all add: bytes32_from_H256_def H256_bytes [OF assms])

text \<open>
  C34: No part of an execution payload is lost between this server and the execution service: decoding the message
  into which a payload is encoded gives the payload back, and encoding what a message decodes to gives the message.
\<close>
theorem payload_message_roundtrip:
  assumes "endian_laws en"
  shows "(sized_payload p \<longrightarrow> decode_execution_payload en (encode_execution_payload en p) = p) \<and>
    encode_execution_payload en (decode_execution_payload en m) = m"
proof -
  have bloom: "H2048_from_bytes en (take 256 (bytes_from_H2048 en h)) = h" for h
    using H2048_bytes(2) [OF assms, of h "[]"] by (simp add: H2048_bytes [OF assms])
  note inverse = bytes32_H256 [OF assms] H160_bytes [OF assms] H256_uint256 bloom H2048_bytes [OF assms] H2048_bytes(2) [OF assms, where bs = "[]", simplified]
  have "decode_execution_payload en (encode_execution_payload en p) = p" if "sized_payload p"
    using that by (simp add: sized_payload_def decode_execution_payload_def encode_execution_payload_def inverse)
  moreover have "encode_execution_payload en (decode_execution_payload en m) = m"
    by (simp add: decode_execution_payload_def encode_execution_payload_def inverse)
  ultimately show ?thesis by blast
qed

text \<open>A hash rate is cut to 64 bits before it is submitted.\<close>

lemma hash_rate_cut: "submit_hash_rate mn (2 ^ 64) rid = submit_hash_rate mn 0 rid"
proof -
  have "(ucast (2 ^ 64 :: u256) :: u64) = 0" by code_simp
  then show ?thesis unfolding submit_hash_rate_def by (simp only: ucast_0)
qed

section \<open>An instance\<close>

definition big_endian :: endian where
  "big_endian = \<lparr>en_store64 = (\<lambda>w. be_bytes 8 (unat w)), en_load64 = (\<lambda>bs. of_nat (be_value bs)),
     en_store32 = (\<lambda>w. be_bytes 4 (unat w)), en_load32 = (\<lambda>bs. of_nat (be_value bs))\<rparr>"

lemma unat_lt_bytes: "unat (w :: 'a::len word) < 2 ^ LENGTH('a)"
  by (rule unsigned_less)

lemma be_value_snoc: "be_value (bs @ [b]) = 256 * be_value bs + unat b"
  by (simp add: be_value_def)

lemma be_value_inj: "length as = length bs \<Longrightarrow> be_value as = be_value bs \<Longrightarrow> as = bs"
proof (induction as arbitrary: bs rule: rev_induct)
  case (snoc a as)
  then obtain b bs' where bs: "bs = bs' @ [b]" by (cases bs rule: rev_cases) auto
  have lt: "unat a < 256" "unat b < 256" using unat_lt_bytes [of a] unat_lt_bytes [of b] by simp_all
  have eq: "256 * be_value as + unat a = 256 * be_value bs' + unat b" using snoc.prems(2) bs by (simp add: be_value_snoc)
  have "be_value as = be_value bs'" "unat a = unat b"
    using arg_cong [OF eq, of "\<lambda>n. n div 256"] arg_cong [OF eq, of "\<lambda>n. n mod 256"] lt by simp_all
  with snoc bs show ?case by (simp add: word_unat_eq_iff)
qed simp

lemma be_bytes_value: "be_bytes (length bs) (be_value bs) = bs"
  by (rule be_value_inj) (simp_all add: be_value_be_bytes be_value_bound)

lemma big_endian_laws: "endian_laws big_endian"
proof -
  have "be_value (be_bytes 8 (unat w)) = unat w" for w :: u64
    using unat_lt_bytes [of w] by (simp add: be_value_be_bytes)
  moreover have "be_value (be_bytes 4 (unat w)) = unat w" for w :: u32
    using unat_lt_bytes [of w] by (simp add: be_value_be_bytes)
  moreover have "be_bytes 8 (unat (of_nat (be_value bs) :: u64)) = bs" if "length bs = 8" for bs
    using that be_value_bound [of bs] be_bytes_value [of bs] by (simp add: unsigned_of_nat take_bit_nat_eq_self)
  moreover have "be_bytes 4 (unat (of_nat (be_value bs) :: u32)) = bs" if "length bs = 4" for bs
    using that be_value_bound [of bs] be_bytes_value [of bs] by (simp add: unsigned_of_nat take_bit_nat_eq_self)
  ultimately show ?thesis by (simp add: endian_laws_def big_endian_def)
qed

theorem payload_message_roundtrip_witness:
  "decode_execution_payload big_endian (encode_execution_payload big_endian (demo_payload 17)) = demo_payload 17"
  using payload_message_roundtrip [OF big_endian_laws, of "demo_payload 17"] by (simp add: sized_payload_def demo_payload_def zeros_def)

end
