(* ===== verification/State_Changes.thy ===== *)
theory State_Changes
  imports State_Cache
begin

text \<open>
  The loop that registers for the changes of the state and feeds the cache with them:
  \<^verbatim>\<open>ethdb/kv/state_changes_stream.cpp\<close> on \<^verbatim>\<open>grpc/server_streaming_rpc.hpp\<close>. The loop is a coroutine, so its state is the
  point at which it is suspended with the variables that live across it, and it is resumed by the completion
  of the operation that it waits for.
\<close>

section \<open>Completions\<close>

text \<open>The codes of gRPC that the code names.\<close>

definition grpc_OK :: nat where "grpc_OK = 0"

definition grpc_CANCELLED :: nat where "grpc_CANCELLED = 1"

definition grpc_UNKNOWN :: nat where "grpc_UNKNOWN = 2"

definition grpc_ABORTED :: nat where "grpc_ABORTED = 10"

lemmas grpc_codes = grpc_OK_def grpc_CANCELLED_def grpc_UNKNOWN_def grpc_ABORTED_def

text \<open>
  \<^verbatim>\<open>Finish\<close>: whether finishing the call succeeded and the status that it gave, and the code that the operation
  completes with. A stream that the server closes while it is read counts as aborted.
\<close>

type_synonym grpc_finish = "bool \<times> nat"

definition finish_code :: "bool \<Rightarrow> grpc_finish \<Rightarrow> nat" where
  "finish_code read_failed fin =
     (let status = if fst fin then snd fin else grpc_UNKNOWN
      in if status = grpc_OK \<and> read_failed then grpc_ABORTED else status)"

definition request_code :: "bool \<Rightarrow> grpc_finish \<Rightarrow> nat" where
  "request_code ok fin = (if ok then grpc_OK else finish_code False fin)"

definition empty_batch :: "('a, 'h) state_change_batch" where
  "empty_batch = \<lparr>database_view_id = 0, change_batch = []\<rparr>"

definition read_result :: "('a, 'h) state_change_batch option \<Rightarrow> grpc_finish \<Rightarrow> nat \<times> ('a, 'h) state_change_batch" where
  "read_result reply fin = (case reply of Some batch \<Rightarrow> (grpc_OK, batch) | None \<Rightarrow> (finish_code True fin, empty_batch))"

datatype ('a, 'h) completion =
    Spawn_completed
  | Request_completed bool grpc_finish
  | Read_completed "('a, 'h) state_change_batch option" grpc_finish
  | Timer_completed bool

section \<open>The loop\<close>

text \<open>The points at which the coroutine is suspended. The calls are numbered in the order in which they are created.\<close>

datatype suspension = At_spawn | At_request | At_read | At_request_retry | At_read_retry | At_end

record changes_stream =
  suspended :: suspension
  cancelled :: bool
  state_changes_rpc :: nat
  stream_cache :: coherent_state_cache

definition open_stream :: "coherent_state_cache \<Rightarrow> changes_stream" where
  "open_stream c = \<lparr>suspended = At_spawn, cancelled = False, state_changes_rpc = 0, stream_cache = c\<rparr>"

text \<open>The head of the outer loop: a new call is created, and its request is started.\<close>

definition next_round :: "changes_stream \<Rightarrow> changes_stream" where
  "next_round s =
     (if cancelled s then s\<lparr>suspended := At_end\<rparr>
      else s\<lparr>suspended := At_request, state_changes_rpc := Suc (state_changes_rpc s)\<rparr>)"

definition on_error :: "suspension \<Rightarrow> nat \<Rightarrow> changes_stream \<Rightarrow> changes_stream" where
  "on_error retry ec s = (if ec = grpc_CANCELLED then next_round (s\<lparr>cancelled := True\<rparr>) else s\<lparr>suspended := retry\<rparr>)"

fun resume :: "('a, 'h) cache_ext \<Rightarrow> ('a, 'h) completion \<Rightarrow> changes_stream \<Rightarrow> changes_stream result" where
  "resume ext Spawn_completed s = Ok (next_round s)"
| "resume ext (Request_completed ok fin) s =
     (let req_ec = request_code ok fin
      in if req_ec \<noteq> grpc_OK then Ok (on_error At_request_retry req_ec s) else Ok (s\<lparr>suspended := At_read\<rparr>))"
| "resume ext (Read_completed r fin) s =
     (let (read_ec, reply) = read_result r fin
      in if read_ec = grpc_OK
         then bind_r (on_new_block ext reply (stream_cache s)) (\<lambda>c. Ok (s\<lparr>suspended := At_read, stream_cache := c\<rparr>))
         else Ok (on_error At_read_retry read_ec s))"
| "resume ext (Timer_completed aborted) s = Ok (next_round (if aborted then s\<lparr>cancelled := True\<rparr> else s))"

text \<open>What the coroutine can be resumed by.\<close>

fun awaits :: "suspension \<Rightarrow> ('a, 'h) completion \<Rightarrow> bool" where
  "awaits At_spawn Spawn_completed \<longleftrightarrow> True"
| "awaits At_request (Request_completed _ _) \<longleftrightarrow> True"
| "awaits At_read (Read_completed _ _) \<longleftrightarrow> True"
| "awaits At_request_retry (Timer_completed _) \<longleftrightarrow> True"
| "awaits At_read_retry (Timer_completed _) \<longleftrightarrow> True"
| "awaits _ _ \<longleftrightarrow> False"

fun run_stream :: "('a, 'h) cache_ext \<Rightarrow> ('a, 'h) completion list \<Rightarrow> changes_stream \<Rightarrow> changes_stream result option" where
  "run_stream ext [] s = Some (Ok s)"
| "run_stream ext (c # cs) s =
     (if awaits (suspended s) c
      then (case resume ext c s of Ok s' \<Rightarrow> run_stream ext cs s' | Throw e \<Rightarrow> if cs = [] then Some (Throw e) else None)
      else None)"

section \<open>Closing\<close>

text \<open>
  The coroutine with its surroundings: the completion that is queued for it, if the operation that it waits for has
  completed, and the calls that were cancelled. An operation of a call that was cancelled before it completed,
  completes with the code of a cancellation. \<^verbatim>\<open>close\<close> runs the handler that the loop assigned last: it aborts
  the wait of the timer, if it has not ended, and cancels the call of the round.
\<close>

record ('a, 'h) wire =
  loop :: changes_stream
  queued :: "('a, 'h) completion option"
  cancelled_rpcs :: "nat set"

definition open_wire :: "coherent_state_cache \<Rightarrow> ('a, 'h) wire" where
  "open_wire c = \<lparr>loop = open_stream c, queued = Some Spawn_completed, cancelled_rpcs = {}\<rparr>"

definition close_stream :: "('a, 'h) wire \<Rightarrow> ('a, 'h) wire" where
  "close_stream w =
     (if suspended (loop w) = At_spawn then w
      else w\<lparr>cancelled_rpcs := insert (state_changes_rpc (loop w)) (cancelled_rpcs w),
             queued := (if queued w = None \<and> suspended (loop w) \<in> {At_request_retry, At_read_retry}
                        then Some (Timer_completed True) else queued w)\<rparr>)"

fun call_code :: "('a, 'h) completion \<Rightarrow> nat option" where
  "call_code (Request_completed ok fin) = Some (request_code ok fin)"
| "call_code (Read_completed r fin) = Some (fst (read_result r fin))"
| "call_code _ = None"

inductive wire_step :: "('a, 'h) cache_ext \<Rightarrow> ('a, 'h) wire \<Rightarrow> ('a, 'h) wire \<Rightarrow> bool" for ext where
  complete: "queued w = None \<Longrightarrow> awaits (suspended (loop w)) c \<Longrightarrow> c \<noteq> Timer_completed True \<Longrightarrow>
    (state_changes_rpc (loop w) \<in> cancelled_rpcs w \<Longrightarrow> call_code c \<in> {None, Some grpc_CANCELLED}) \<Longrightarrow>
    wire_step ext w (w\<lparr>queued := Some c\<rparr>)"
| resumed: "queued w = Some c \<Longrightarrow> resume ext c (loop w) = Ok s \<Longrightarrow> wire_step ext w (w\<lparr>loop := s, queued := None\<rparr>)"
| thrown: "queued w = Some c \<Longrightarrow> resume ext c (loop w) = Throw e \<Longrightarrow>
    wire_step ext w (w\<lparr>loop := (loop w)\<lparr>suspended := At_end\<rparr>, queued := None\<rparr>)"
| close: "wire_step ext w (close_stream w)"

end
