(* ===== verification/State_Changes_Props.thy ===== *)
theory State_Changes_Props
  imports State_Changes State_Cache_Props
begin

text \<open>
  What the loop that feeds the cache guarantees: every batch that is received is applied, once and in order,
  until a cancellation is reported, and closing the stream while an operation is in flight ends the loop.
\<close>

section \<open>Batches are applied\<close>

fun batches :: "('a, 'h) completion list \<Rightarrow> ('a, 'h) state_change_batch list" where
  "batches [] = []"
| "batches (Read_completed (Some batch) fin # cs) = batch # batches cs"
| "batches (c # cs) = batches cs"

fun reports_cancelled :: "('a, 'h) completion \<Rightarrow> bool" where
  "reports_cancelled (Timer_completed aborted) \<longleftrightarrow> aborted"
| "reports_cancelled c \<longleftrightarrow> call_code c = Some grpc_CANCELLED"

fun ends_round :: "('a, 'h) completion \<Rightarrow> bool" where
  "ends_round Spawn_completed \<longleftrightarrow> True"
| "ends_round (Timer_completed aborted) \<longleftrightarrow> \<not> aborted"
| "ends_round _ \<longleftrightarrow> False"

text \<open>A read that fails never looks like a batch, not even when the server closes the stream without an error.\<close>

lemma read_failure_is_error [simp]: "finish_code True fin \<noteq> grpc_OK"
  by (simp add: finish_code_def grpc_codes Let_def)

lemma at_end_awaits_nothing [simp]: "\<not> awaits At_end c"
  by (cases c) simp_all

definition alive :: "changes_stream \<Rightarrow> bool" where
  "alive s \<longleftrightarrow> \<not> cancelled s \<and> suspended s \<noteq> At_end"

lemma resume_cases:
  assumes "alive s" "awaits (suspended s) c" "resume ext c s = Ok s'"
  shows "fold_r (on_new_block ext) (batches [c]) (stream_cache s) = Ok (stream_cache s')"
    "if reports_cancelled c then suspended s' = At_end else alive s'"
    "state_changes_rpc s' = state_changes_rpc s + (if ends_round c then 1 else 0)"
proof -
  have "fold_r (on_new_block ext) (batches [c]) (stream_cache s) = Ok (stream_cache s') \<and>
    (if reports_cancelled c then suspended s' = At_end else alive s') \<and>
    state_changes_rpc s' = state_changes_rpc s + (if ends_round c then 1 else 0)"
  proof (cases c)
    case (Read_completed r fin)
    show ?thesis
    proof (cases r)
      case None
      with assms Read_completed show ?thesis by (auto simp: read_result_def on_error_def next_round_def alive_def)
    next
      case (Some batch)
      with assms Read_completed show ?thesis
        by (cases "on_new_block ext batch (stream_cache s)") (auto simp: read_result_def alive_def grpc_codes)
    qed
  qed (use assms in \<open>auto simp: alive_def next_round_def on_error_def grpc_codes Let_def split: if_splits\<close>)
  then show "fold_r (on_new_block ext) (batches [c]) (stream_cache s) = Ok (stream_cache s')"
    "if reports_cancelled c then suspended s' = At_end else alive s'"
    "state_changes_rpc s' = state_changes_rpc s + (if ends_round c then 1 else 0)"
    by blast+
qed

lemma batches_append: "batches (xs @ ys) = batches xs @ batches ys"
  by (induction xs rule: batches.induct) simp_all

lemma run_at_end: "suspended s = At_end \<Longrightarrow> run_stream ext cs s = Some r \<Longrightarrow> cs = [] \<and> r = Ok s"
  by (cases cs) simp_all

text \<open>
  C14: Whatever errors and retries occur, every batch that a read returns is applied to the cache, exactly once and in
  the order of the reads; the loop ends exactly when the completion of its last operation reports a cancellation,
  and until then it registers again once for every wait that ends.
\<close>
theorem changes_applied_until_cancelled:
  assumes "run_stream ext (Spawn_completed # cs) (open_stream c) = Some (Ok s)"
  shows "fold_r (on_new_block ext) (batches cs) c = Ok (stream_cache s) \<and>
    (suspended s = At_end \<longleftrightarrow> (\<exists>d \<in> set cs. reports_cancelled d)) \<and>
    (\<forall>d \<in> set (butlast cs). \<not> reports_cancelled d) \<and>
    state_changes_rpc s = Suc (length (filter ends_round cs))"
proof -
  have run: "run_stream ext cs s0 = Some (Ok s) \<Longrightarrow> alive s0 \<Longrightarrow>
    fold_r (on_new_block ext) (batches cs) (stream_cache s0) = Ok (stream_cache s) \<and>
    (suspended s = At_end \<longleftrightarrow> (\<exists>d \<in> set cs. reports_cancelled d)) \<and> (\<forall>d \<in> set (butlast cs). \<not> reports_cancelled d) \<and>
    state_changes_rpc s = state_changes_rpc s0 + length (filter ends_round cs)" for s0
  proof (induction cs arbitrary: s0)
    case Nil
    then show ?case by (simp add: alive_def)
  next
    case (Cons d cs)
    from Cons.prems obtain s1 where d: "awaits (suspended s0) d" "resume ext d s0 = Ok s1" "run_stream ext cs s1 = Some (Ok s)"
      by (auto split: if_splits sum.splits)
    note step = resume_cases [OF Cons.prems(2) d(1,2)]
    have split: "batches (d # cs) = batches [d] @ batches cs" using batches_append [of "[d]" cs] by simp
    show ?case
    proof (cases "reports_cancelled d")
      case True
      with step run_at_end [OF _ d(3)] show ?thesis by (auto simp: split)
    next
      case False
      with step have "alive s1" by simp
      from Cons.IH [OF d(3) this] step False show ?thesis by (auto simp: split fold_r_append)
    qed
  qed
  from assms have "run_stream ext cs (next_round (open_stream c)) = Some (Ok s)" by (simp add: open_stream_def)
  from run [OF this] show ?thesis by (simp add: open_stream_def next_round_def alive_def)
qed

definition demo_completions :: "(bytes, bytes) completion list" where
  "demo_completions =
     [Request_completed True (True, 0), Read_completed (Some (demo_batch 1 UPSERT [7])) (True, 0), Read_completed None (True, 0),
      Timer_completed False, Request_completed False (True, 14), Timer_completed True]"

theorem changes_applied_until_cancelled_witness:
  "\<exists>s. run_stream demo_ext (Spawn_completed # demo_completions) (open_stream (init_cache default_config)) = Some (Ok s) \<and>
     fold_r (on_new_block demo_ext) [demo_batch 1 UPSERT [7]] (init_cache default_config) = Ok (stream_cache s) \<and>
     suspended s = At_end \<and> state_changes_rpc s = 2"
proof -
  obtain c r where "on_new_block demo_ext (demo_batch 1 UPSERT [7]) (init_cache default_config) = Ok c"
    "latest_state_view_id c = 1" "root_at c 1 = Some r" "cache_reach demo_db demo_ext default_config c"
    by (rule demo_block)
  then obtain s where
    "run_stream demo_ext (Spawn_completed # demo_completions) (open_stream (init_cache default_config)) = Some (Ok s)"
    by (simp add: demo_completions_def open_stream_def next_round_def on_error_def request_code_def finish_code_def
        read_result_def grpc_codes)
  from this changes_applied_until_cancelled [OF this] show ?thesis
    by (auto simp: demo_completions_def)
qed

section \<open>Closing ends the loop\<close>

inductive_cases wire_stepE: "wire_step ext w w'"

definition wire_reach :: "('a, 'h) cache_ext \<Rightarrow> coherent_state_cache \<Rightarrow> ('a, 'h) wire \<Rightarrow> bool" where
  "wire_reach ext c w \<longleftrightarrow> (wire_step ext)\<^sup>*\<^sup>* (open_wire c) w"

text \<open>In every state that is reached, what is queued is what the coroutine waits for.\<close>

definition wire_inv :: "('a, 'h) wire \<Rightarrow> bool" where
  "wire_inv w \<longleftrightarrow>
     (case queued w of Some c \<Rightarrow> awaits (suspended (loop w)) c | None \<Rightarrow> suspended (loop w) \<noteq> At_spawn) \<and>
     (suspended (loop w) \<noteq> At_end \<longrightarrow> \<not> cancelled (loop w))"

lemma resume_alive:
  assumes "resume ext c s = Ok s'" "awaits (suspended s) c" "\<not> cancelled s"
  shows "suspended s' \<noteq> At_spawn \<and> (suspended s' \<noteq> At_end \<longrightarrow> \<not> cancelled s')"
proof (cases c)
  case (Read_completed r fin)
  with assms show ?thesis
    by (cases "on_new_block ext (snd (read_result r fin)) (stream_cache s)") (auto simp: on_error_def next_round_def split: prod.splits if_splits)
qed (use assms in \<open>auto simp: next_round_def on_error_def Let_def split: if_splits\<close>)

lemma wire_reach_inv:
  assumes "wire_reach ext c w"
  shows "wire_inv w"
proof -
  have step: "wire_inv w \<Longrightarrow> wire_step ext w w' \<Longrightarrow> wire_inv w'" for w w' :: "('a, 'b) wire"
  proof (erule wire_stepE)
    fix c s
    assume "wire_inv w" "queued w = Some c" "resume ext c (loop w) = Ok s" "w' = w\<lparr>loop := s, queued := None\<rparr>"
    then show "wire_inv w'" using resume_alive [of ext c "loop w" s] by (cases "suspended (loop w) = At_end") (auto simp: wire_inv_def)
  qed (auto simp: wire_inv_def close_stream_def split: option.splits)
  have "(wire_step ext)\<^sup>*\<^sup>* (open_wire c) w" using assms by (simp add: wire_reach_def)
  moreover have "wire_inv (open_wire c)" by (simp add: open_wire_def open_stream_def wire_inv_def)
  ultimately show ?thesis by (induction rule: rtranclp_induct) (auto intro: step)
qed

text \<open>A loop that a cancellation is on the way to: its next resumption ends it.\<close>

definition ending :: "nat \<Rightarrow> coherent_state_cache \<Rightarrow> ('a, 'h) wire \<Rightarrow> bool" where
  "ending n c w \<longleftrightarrow>
     state_changes_rpc (loop w) = n \<and> stream_cache (loop w) = c \<and>
     (suspended (loop w) = At_end \<and> queued w = None \<or>
      suspended (loop w) \<in> {At_request, At_read} \<and> n \<in> cancelled_rpcs w \<and> queued w = None \<or>
      (\<exists>d. queued w = Some d \<and> awaits (suspended (loop w)) d \<and> reports_cancelled d))"

lemma resume_cancelled:
  assumes "reports_cancelled d"
  shows "resume ext d s = Ok (s\<lparr>cancelled := True, suspended := At_end\<rparr>)"
  using assms by (cases d) (auto simp: next_round_def on_error_def grpc_codes Let_def split: prod.splits)

lemma ending_step:
  assumes "ending n c w" "wire_step ext w w'"
  shows "ending n c w'"
  using assms(2)
proof (cases rule: wire_step.cases)
  case (complete d)
  with assms(1) show ?thesis by (cases d) (auto simp: ending_def)
next
  case (resumed d s)
  with assms(1) show ?thesis by (auto simp: ending_def resume_cancelled)
next
  case (thrown d e)
  with assms(1) show ?thesis by (auto simp: ending_def resume_cancelled)
next
  case close
  with assms(1) show ?thesis by (auto simp: ending_def close_stream_def)
qed

lemma ending_ends:
  fixes w :: "('a, 'h) wire"
  assumes "ending n c w"
  shows "\<exists>w'. (wire_step ext)\<^sup>*\<^sup>* w w' \<and> suspended (loop w') = At_end"
proof -
  have resumes: "\<exists>w'. (wire_step ext)\<^sup>*\<^sup>* v w' \<and> suspended (loop w') = At_end"
    if "queued v = Some d" "reports_cancelled d" for v :: "('a, 'h) wire" and d
    by (rule exI, rule conjI, rule r_into_rtranclp, rule wire_step.resumed [OF that(1) resume_cancelled [OF that(2)]]) simp
  have failed: "reports_cancelled (Request_completed False (True, grpc_CANCELLED))"
    "reports_cancelled (Read_completed None (True, grpc_CANCELLED))"
    by (simp_all add: request_code_def read_result_def finish_code_def grpc_codes)
  have completes: "\<exists>w'. (wire_step ext)\<^sup>*\<^sup>* w w' \<and> suspended (loop w') = At_end"
    if "queued w = None" "awaits (suspended (loop w)) d" "reports_cancelled d" "d \<noteq> Timer_completed True" for d :: "('a, 'h) completion"
  proof -
    have "wire_step ext w (w\<lparr>queued := Some d\<rparr>)"
      by (rule wire_step.complete) (use that in \<open>cases d; auto\<close>)+
    with resumes [of "w\<lparr>queued := Some d\<rparr>" d] that(3) show ?thesis by (auto intro: converse_rtranclp_into_rtranclp)
  qed
  from assms show ?thesis unfolding ending_def
    using resumes [of w] completes [OF _ _ failed(1)] completes [OF _ _ failed(2)] by (auto intro: exI [of _ w])
qed


text \<open>A run in which the first request fails and the wait for the retry ends.\<close>

definition demo_loop :: "suspension \<Rightarrow> nat \<Rightarrow> changes_stream" where
  "demo_loop p n = \<lparr>suspended = p, cancelled = False, state_changes_rpc = n, stream_cache = init_cache default_config\<rparr>"

lemma demo_requesting:
  "wire_reach demo_ext (init_cache default_config) \<lparr>loop = demo_loop At_request 1, queued = None, cancelled_rpcs = {}\<rparr>"
proof -
  have "wire_step demo_ext (open_wire (init_cache default_config)) \<lparr>loop = demo_loop At_request 1, queued = None, cancelled_rpcs = {}\<rparr>"
    using wire_step.resumed [of "open_wire (init_cache default_config)" Spawn_completed demo_ext "demo_loop At_request 1"]
    by (simp add: open_wire_def open_stream_def next_round_def demo_loop_def)
  then show ?thesis by (simp add: wire_reach_def r_into_rtranclp)
qed

lemma demo_retrying:
  "wire_reach demo_ext (init_cache default_config)
     \<lparr>loop = demo_loop At_request_retry 1, queued = Some (Timer_completed False), cancelled_rpcs = {}\<rparr>"
proof -
  let ?failed = "Request_completed False (True, 14)"
  let ?w = "\<lambda>p q. \<lparr>loop = demo_loop p 1, queued = q, cancelled_rpcs = {}\<rparr>"
  have "wire_step demo_ext (?w At_request None) (?w At_request (Some ?failed))"
    using wire_step.complete [of "?w At_request None" ?failed demo_ext] by (simp add: demo_loop_def)
  moreover have "wire_step demo_ext (?w At_request (Some ?failed)) (?w At_request_retry None)"
    using wire_step.resumed [of "?w At_request (Some ?failed)" ?failed demo_ext "demo_loop At_request_retry 1"]
    by (simp add: demo_loop_def request_code_def finish_code_def on_error_def grpc_codes)
  moreover have "wire_step demo_ext (?w At_request_retry None) (?w At_request_retry (Some (Timer_completed False)))"
    using wire_step.complete [of "?w At_request_retry None" "Timer_completed False" demo_ext] by (simp add: demo_loop_def)
  ultimately show ?thesis using demo_requesting unfolding wire_reach_def by (meson rtranclp.rtrancl_into_rtrancl)
qed


text \<open>
  A wait that has ended, but whose coroutine has not been resumed yet, cannot be aborted any more, and the call of the
  next round does not exist yet: the request to close is lost, and the loop registers again.
\<close>

lemma close_lost:
  "\<exists>w w'. wire_reach demo_ext (init_cache default_config) w \<and> suspended (loop w) = At_request_retry \<and>
     wire_step demo_ext (close_stream w) w' \<and> suspended (loop w') = At_request \<and> state_changes_rpc (loop w') \<notin> cancelled_rpcs w'"
proof -
  let ?w = "\<lparr>loop = demo_loop At_request_retry 1, queued = Some (Timer_completed False), cancelled_rpcs = {}\<rparr>"
  have "wire_step demo_ext (close_stream ?w) \<lparr>loop = demo_loop At_request 2, queued = None, cancelled_rpcs = {1}\<rparr>"
    using wire_step.resumed [of "close_stream ?w" "Timer_completed False" demo_ext "demo_loop At_request 2"]
    by (simp add: close_stream_def demo_loop_def next_round_def)
  with demo_retrying show ?thesis
    by (intro exI [of _ ?w] exI [of _ "\<lparr>loop = demo_loop At_request 2, queued = None, cancelled_rpcs = {1}\<rparr>"]) (simp add: demo_loop_def)
qed

end
