(* ===== verification/Spec2Isabelle.thy ===== *)
theory Spec2Isabelle
  imports State_Cache_Props Request_Handler_Props Rawdb_Props Access_List Evm_Executor_Props Gas_Oracles Ethash
    Utilities_Props Cursor_Frames State_Reader_Props Walkers_Props Account_Dumper Json_Types_Props
    Handler_Props Debug_Api_Props Vm_Trace_Props Trace_Tracer_Props State_Diff_Props Stream_Props Remote_Services_Props
    State_Changes_Props
begin

text \<open>
  \<^bold>\<open>Silkrpc\<close> is a server for the Ethereum JSON-RPC interface. It reads requests over HTTP, runs the method that
  a request names on the chain database of an Erigon node, which it reaches over gRPC, and writes the reply,
  as one text or as a stream of chunks. This development models the core of \<^verbatim>\<open>src/silkworm/silkrpc\<close> and proves
  what makes it correct; where the code does not do what it means to, a theorem states what it does.

  \<^bold>\<open>How a request travels through the parts.\<close> A connection feeds the buffers that it reads to the request
  parser until the parser gives a verdict (\<^verbatim>\<open>http/connection.cpp\<close>, \<^verbatim>\<open>http/request_parser.cpp\<close>). A complete
  request goes to the request handler, which checks its authorisation and looks its methods up in the
  table of handlers (\<^verbatim>\<open>http/request_handler.cpp\<close>, \<^verbatim>\<open>commands/rpc_api_table.cpp\<close>). Handlers read blocks, receipts
  and numbers through the chain access layer (\<^verbatim>\<open>core/rawdb/chain.cpp\<close>, \<^verbatim>\<open>core/blocks.cpp\<close>,
  \<^verbatim>\<open>core/cached_chain.cpp\<close>), which relies on the interface \<^verbatim>\<open>DatabaseReader\<close>, implemented on the cursors of a
  remote transaction (\<^verbatim>\<open>ethdb\<close>); state is read through the coherent cache, which follows the batches of
  state changes that the node sends (\<^verbatim>\<open>ethdb/kv/state_cache.cpp\<close>). Calls run in the executor
  (\<^verbatim>\<open>core/evm_executor.cpp\<close>). Replies are written as buffers (\<^verbatim>\<open>http/reply.cpp\<close>) or streamed
  (\<^verbatim>\<open>json/stream.cpp\<close> over \<^verbatim>\<open>types/writer.cpp\<close>).

  \<^bold>\<open>Theories and what they show.\<close>

  \<^item> \<open>Prelude\<close> holds the types of machine words and byte strings, exceptions as values (\<open>result\<close>, with the
    standard exceptions, failed assertions and undefined behaviour as constructors of \<open>exn\<close>), folds that may
    throw, and lemmas on lists. \<open>Numbers\<close> is \<^verbatim>\<open>std::stol\<close>, \<^verbatim>\<open>std::stoul\<close> and hex text, \<open>Json\<close> the JSON values.

  \<^item> \<open>Key_Value\<close>, \<open>State_Cache\<close>: \<^verbatim>\<open>CoherentStateCache\<close> with its sorted sets of pairs that are equal by key, its
    roots by view, its eviction lists and its counters. A root that was erased and is used again is an
    exception of the model. \<open>State_Cache_Inv\<close> and \<open>State_Cache_Advance\<close> hold the invariant of the reachable
    states and its preservation; \<open>State_Cache_Props\<close> shows that a read returns what the database of the same
    view holds, that eviction removes the least recently used pair, the bounds on keys and views, and the
    conditions under which a batch uses an erased root or a stale storage value is served.

  \<^item> \<open>Http_Parser\<close>: the parser as a function from state, request and character, one equation per state.
    \<open>Http_Parser_Props\<close>: every well-formed request is recovered from its text, the content is exactly as
    long as announced. \<open>Http_Reply\<close>: replies as buffers, stock replies and the read loop of a connection, with
    the round trip of a reply and the delivery of a request that is cut into buffers at will.

  \<^item> \<open>Writers\<close>: the writers of strings and of chunks; the locales \<open>writer\<close> and \<open>total_writer\<close> state what a writer
    promises, and are interpreted on both. The receiver of the chunks decodes what was written. \<open>Json_Stream\<close>:
    the stream writer over any such writer (locale \<open>stream_writer\<close>); documents are written as their JSON text.

  \<^item> \<open>Rpc_Api_Table\<close>: the registration of every method of every namespace, and which methods a specification of
    namespaces exposes. \<open>Request_Handler\<close> and \<open>Request_Handler_Props\<close>: authorisation, single requests, batches
    and streams, over any table and any handlers; no method runs without a valid token, a batch is answered
    in order.

  \<^item> \<open>Database\<close> and \<open>Database_Props\<close>: cursors over tables, the remote transaction and the database on top of it.
    The locale \<open>db_cursor\<close> states what a cursor promises; it is interpreted on the remote cursor. Walks visit
    exactly the matching entries in order. Split cursors are modelled as well.

  \<^item> \<open>Chain_Types\<close>, \<open>Rawdb\<close>, \<open>Blocks\<close>, \<open>Rawdb_Props\<close>: the data of blocks, logs and receipts with their decoding, the
    chain access layer over the record \<open>reader\<close>, block numbers by tag, and reads through the block cache. The
    locale \<open>block_store\<close> states what a cache promises; it is interpreted on the cache that forgets the least
    recently used block. Receipts are derived consistently, a cached block is the block of the database.

  \<^item> \<open>Access_List\<close>: the tracer of touched accounts and slots. \<open>Evm_Executor\<close>, \<open>Evm_Executor_Props\<close>: the execution of a
    transaction, over any machine and any account state (locale \<open>account_state\<close>, with a ledger as instance);
    what sender and beneficiary pay and receive, and the decoding of revert reasons. \<open>Gas_Oracles\<close>: the
    suggested gas price and the estimation of gas by bisection. \<open>Ethash\<close>: block rewards.

  \<^item> \<open>Utilities\<close>, \<open>Utilities_Props\<close>: \<^verbatim>\<open>common/util.cpp\<close>, \<^verbatim>\<open>common/binary_search.cpp\<close>, \<^verbatim>\<open>protocol/version.cpp\<close>; base64 and
    decimal text are exact, the search returns the least index. \<open>Dup_Cursor\<close> is the interface of cursors over
    sorted duplicates, \<open>Cursor_Frames\<close> what operations on one cursor leave of the others. \<open>Local_Database\<close>: the
    cursors and transactions of a local database (\<^verbatim>\<open>ethdb/file\<close>), which agree with the remote ones.

  \<^item> \<open>State_Reader\<close>, \<open>State_Reader_Props\<close>: accounts, storage and code at a block (\<^verbatim>\<open>core/state_reader.cpp\<close>,
    \<^verbatim>\<open>core/remote_state.cpp\<close>, \<^verbatim>\<open>ethdb/kv/cached_database.cpp\<close>); a historical read refines the account before the
    block. \<open>Walkers\<close>, \<open>Walkers_Props\<close>: the walks over accounts and storage at a block; \<open>Account_Dumper\<close>: the dump on
    top of them.

  \<^item> \<open>Json_Types\<close>, \<open>Json_Types_Props\<close>: the conversions of \<^verbatim>\<open>json/types.cpp\<close>, with their round trips.

  \<^item> \<open>Rpc_Actions\<close>: a handler as an action on the state of the server (the block cache, the number of open
    transactions, the services), with the parts that all handlers share. \<open>Eth_Api\<close>, \<open>Eth_Api_Accounts\<close>,
    \<open>Eth_Api_Exec\<close>, \<open>Eth_Logs\<close>: the namespace eth (\<^verbatim>\<open>commands/eth_api.cpp\<close>, \<^verbatim>\<open>core/receipts.cpp\<close>, \<^verbatim>\<open>ethdb/bitmap.cpp\<close>).
    \<open>Node_Apis\<close>: net, web3, txpool, parity, engine and ots. \<open>Erigon_Api\<close>: erigon. \<open>Rpc_Methods\<close> collects them
    under the names of the table. \<open>Rpc_Actions_Props\<close> has the rules for their bodies, with the locale
    \<open>identified\<close> for a request whose identifier can be read; \<open>Api_Props\<close> shows for every method that no
    transaction stays open and that the reply is an envelope for the request, \<open>Eth_Logs_Props\<close> that the bitmaps
    of the log index lose no log, \<open>Handler_Props\<close> what single methods do.

  \<^item> \<open>Evm_Events\<close>: the calls that the machine makes to a tracer, as a list of events; \<open>Call_Trees\<close>: the tree of the
    frames of a run, whose traversal is that list, as the specification of the tracers. \<open>Debug_Tracer\<close>
    (\<^verbatim>\<open>core/evm_debug.cpp\<close>), \<open>Vm_Trace\<close>, \<open>Trace_Tracer\<close> and \<open>State_Diff\<close> (\<^verbatim>\<open>VmTraceTracer\<close>, \<^verbatim>\<open>TraceTracer\<close>, \<^verbatim>\<open>StateDiffTracer\<close> and
    \<^verbatim>\<open>StateAddresses\<close> of \<^verbatim>\<open>core/evm_trace.cpp\<close>) are the tracers, a pointer into a tree of traces as the number of its
    node, which dangles when the node is gone. Their \<open>_Props\<close> show that the streamed logs are the collected ones, one
    for each instruction; that the flat list of traces is the preorder of the tree of calls; that the state
    diff reports exactly the accounts that a transaction has changed; and when a reference is used after its
    node was destroyed.

  \<^item> \<open>Rpc_Streams\<close>: handlers that write to a stream, over the state of the other handlers and the calls that the
    stream has got. \<open>Debug_Api\<close> (\<^verbatim>\<open>commands/debug_api.cpp\<close>), \<open>Trace_Executor\<close> (\<^verbatim>\<open>TraceCallExecutor\<close>) and \<open>Trace_Api\<close>
    (\<^verbatim>\<open>commands/trace_api.cpp\<close>): the namespaces debug and trace. \<open>Debug_Api_Props\<close>: what is streamed is a JSON document,
    and the case in which it is not; \<open>Trace_Api_Props\<close>: the filter streams the page that it was asked for;
    \<open>Stream_Props\<close>: no transaction stays open.

  \<^item> \<open>Remote_Services\<close>, \<open>Remote_Services_Props\<close>: the clients of the services of the node (\<^verbatim>\<open>ethbackend/remote_backend.cpp\<close>,
    \<^verbatim>\<open>txpool/transaction_pool.cpp\<close>, \<^verbatim>\<open>txpool/miner.cpp\<close>) over any stubs; they provide the services that the handlers
    call, and no part of a payload is lost in its message.

  \<^item> \<open>State_Changes\<close>, \<open>State_Changes_Props\<close>: the loop that feeds the coherent cache (\<^verbatim>\<open>ethdb/kv/state_changes_stream.cpp\<close>,
    \<^verbatim>\<open>grpc/server_streaming_rpc.hpp\<close>) as a coroutine that completions resume, and a step relation for it and its
    surroundings. Every batch is applied, once and in order, until a cancellation is reported; closing the
    stream while an operation is in flight ends the loop, and a request to close can be lost otherwise.

  \<^bold>\<open>Parameters.\<close> Code of other repositories and libraries is an argument of the definitions that use it: hashes,
  RLP and CBOR decoding, the printer and the parser of JSON text, token verification, the virtual machine,
  the chain configuration, the services of the node. What is assumed of them is a hypothesis of the theorem,
  and a witness shows an instance.

  \<^bold>\<open>Loops.\<close> Loops over lists are recursive functions. Loops that may not end are partial functions into option
  whose value is \<open>None\<close> when they run forever: the chunk writer's loop, walks over tables, accounts and storage,
  the loops of the access list, of the storage keys, of the bisection and of the filter of traces; the theorems
  about them prove that they return, or that they do not. In a handler a loop that does not end is the exception \<open>No_return\<close>, which nothing catches.
  No fuel is used.

  \<^bold>\<open>Not modelled.\<close> Threads and locks: operations run one after another, except that requests to close the stream of
  state changes come at any time. Sockets, the transport of gRPC, the MDBX library, logging, the command line,
  the generated interfaces. Of the RPC handlers \<^verbatim>\<open>eth_estimateGas\<close>, whose executor keeps its state over the attempts
  of the search; its oracle is modelled.
\<close>

end
